(* ===== verification/Prelude.thy ===== *)
theory Prelude
  imports Main "HOL-Library.Product_Lexorder"
begin

text \<open>
  Shared vocabulary of the development: identifiers, money and time; the
  state-and-exception computations in which every service method is written; Python and
  SQL list idioms; relational rows and tables; canonical text of UUIDs and zero-padded
  numbers. The lemmas collected in \<open>svc_simps\<close> evaluate computations, those in
  \<open>svc_elims\<close> decompose a run that returned, and the locale \<open>evolution\<close> lifts a
  reflexive and transitive relation on states from the primitive steps to whole methods.
\<close>

named_theorems svc_simps "evaluation of state-and-exception computations"
named_theorems svc_elims "decomposition of runs that returned a value"
named_theorems table_simps "lookup, update and insertion in tables"

section \<open>Scalars\<close>

text \<open>
  A UUID is its 128-bit number. A timestamp counts microseconds from 1970-01-01T00:00Z
  and a \<open>Numeric(10, 2)\<close> column counts cents.
\<close>

type_synonym uuid = nat
type_synonym datetime = int
type_synonym money = int

abbreviation microseconds_per_day :: int where
  "microseconds_per_day \<equiv> 86400000000"

section \<open>Computations with state and exceptions\<close>

text \<open>
  A method of a service is a function from the state to a result and the next state. A
  raised exception is an \<open>Inl\<close>; the state reached when it was raised is kept, because
  calls to an external provider are not undone by it (the database part is restored by
  the unit of work around a request, see \<open>Database\<close>).
\<close>

type_synonym ('s, 'e, 'a) svc = "'s \<Rightarrow> ('e + 'a) \<times> 's"

definition ret :: "'a \<Rightarrow> ('s, 'e, 'a) svc" where
  "ret a = (\<lambda>s. (Inr a, s))"

definition raise :: "'e \<Rightarrow> ('s, 'e, 'a) svc" where
  "raise e = (\<lambda>s. (Inl e, s))"

definition bind :: "('s, 'e, 'a) svc \<Rightarrow> ('a \<Rightarrow> ('s, 'e, 'b) svc) \<Rightarrow> ('s, 'e, 'b) svc" where
  "bind m f = (\<lambda>s. case m s of (Inl e, t) \<Rightarrow> (Inl e, t) | (Inr a, t) \<Rightarrow> f a t)"

definition gets :: "('s \<Rightarrow> 'a) \<Rightarrow> ('s, 'e, 'a) svc" where
  "gets f = (\<lambda>s. (Inr (f s), s))"

definition modify :: "('s \<Rightarrow> 's) \<Rightarrow> ('s, 'e, unit) svc" where
  "modify f = (\<lambda>s. (Inr (), f s))"

definition require :: "bool \<Rightarrow> 'e \<Rightarrow> ('s, 'e, unit) svc" where
  "require b e = (if b then ret () else raise e)"

definition of_sum :: "'e + 'a \<Rightarrow> ('s, 'e, 'a) svc" where
  "of_sum x = (\<lambda>s. (x, s))"

fun forM :: "('a \<Rightarrow> ('s, 'e, 'b) svc) \<Rightarrow> 'a list \<Rightarrow> ('s, 'e, 'b list) svc" where
  "forM f [] = ret []"
| "forM f (x # xs) = bind (f x) (\<lambda>y. bind (forM f xs) (\<lambda>ys. ret (y # ys)))"

fun map_sum_list :: "('a \<Rightarrow> 'e + 'b) \<Rightarrow> 'a list \<Rightarrow> 'e + 'b list" where
  "map_sum_list f [] = Inr []"
| "map_sum_list f (x # xs) =
     (case f x of
        Inl e \<Rightarrow> Inl e
      | Inr y \<Rightarrow> (case map_sum_list f xs of Inl e \<Rightarrow> Inl e | Inr ys \<Rightarrow> Inr (y # ys)))"

lemma ret_run [simp, svc_simps]: "ret a s = (Inr a, s)"
  by (simp add: ret_def)

lemma raise_run [simp, svc_simps]: "raise e s = (Inl e, s)"
  by (simp add: raise_def)

lemma gets_run [simp, svc_simps]: "gets f s = (Inr (f s), s)"
  by (simp add: gets_def)

lemma modify_run [simp, svc_simps]: "modify f s = (Inr (), f s)"
  by (simp add: modify_def)

lemma of_sum_run [simp, svc_simps]: "of_sum x s = (x, s)"
  by (simp add: of_sum_def)

lemma require_run [svc_simps]: "require b e s = (if b then Inr () else Inl e, s)"
  by (simp add: require_def)

lemma bind_ret [simp, svc_simps]: "bind (ret a) f = f a"
  by (rule ext) (simp add: bind_def)

lemma bind_raise [simp, svc_simps]: "bind (raise e) f = raise e"
  by (rule ext) (simp add: bind_def)

lemma bind_gets [simp, svc_simps]: "bind (gets g) f s = f (g s) s"
  by (simp add: bind_def)

lemma bind_modify [simp, svc_simps]: "bind (modify g) f s = f () (g s)"
  by (simp add: bind_def)

lemma bind_of_sum [svc_simps]:
  "bind (of_sum x) f s = (case x of Inl e \<Rightarrow> (Inl e, s) | Inr a \<Rightarrow> f a s)"
  by (simp add: bind_def split: sum.splits)

lemma bind_require [svc_simps]: "bind (require b e) f s = (if b then f () s else (Inl e, s))"
  by (simp add: require_def)

lemma bind_assoc: "bind (bind m f) g = bind m (\<lambda>a. bind (f a) g)"
  by (rule ext) (simp add: bind_def split: sum.splits prod.splits)

lemma bind_if [svc_simps]:
  "bind (if b then m else n) f s = (if b then bind m f s else bind n f s)"
  by simp

lemma bind_step:
  "m s = (Inr a, t) \<Longrightarrow> bind m f s = f a t"
  by (simp add: bind_def)

lemma bind_fail:
  "m s = (Inl e, t) \<Longrightarrow> bind m f s = (Inl e, t)"
  by (simp add: bind_def)

lemma bind_InrE [svc_elims]:
  assumes "bind m f s = (Inr b, u)"
  obtains a t where "m s = (Inr a, t)" and "f a t = (Inr b, u)"
  using assms by (auto simp: bind_def split: sum.splits prod.splits)

lemma bind_InlE:
  assumes "bind m f s = (Inl e, u)"
  obtains (first) "m s = (Inl e, u)"
  | (later) a t where "m s = (Inr a, t)" and "f a t = (Inl e, u)"
  using assms by (auto simp: bind_def split: sum.splits prod.splits)

lemma require_InrE [svc_elims]:
  assumes "require b e s = (Inr a, t)"
  obtains "b" and "t = s"
  using assms by (auto simp: require_def split: if_splits)

lemma forM_length: "forM f xs s = (Inr ys, t) \<Longrightarrow> length ys = length xs"
  by (induction xs arbitrary: s ys t) (auto elim!: svc_elims)

lemma map_sum_list_Inr:
  "map_sum_list f xs = Inr ys \<longleftrightarrow> map f xs = map Inr ys"
proof (induction xs arbitrary: ys)
  case (Cons x xs)
  then show ?case
    by (cases "f x"; cases "map_sum_list f xs") (auto simp: Cons_eq_map_conv)
qed auto

lemma map_sum_list_all_Inr: "(\<And>x. x \<in> set xs \<Longrightarrow> f x = Inr (g x)) \<Longrightarrow> map_sum_list f xs = Inr (map g xs)"
  by (simp add: map_sum_list_Inr)

section \<open>Lifting a relation on states to computations\<close>

definition evolves :: "('s \<Rightarrow> 's \<Rightarrow> bool) \<Rightarrow> ('s, 'e, 'a) svc \<Rightarrow> bool" where
  "evolves R m \<longleftrightarrow> (\<forall>s. R s (snd (m s)))"

lemma evolvesI: "(\<And>s. R s (snd (m s))) \<Longrightarrow> evolves R m"
  by (simp add: evolves_def)

lemma evolvesD: "evolves R m \<Longrightarrow> m s = (r, t) \<Longrightarrow> R s t"
  by (metis evolves_def snd_conv)

text \<open>
  What a reflexive and transitive relation needs to be lifted: each rule below is one way
  the methods are put together.
\<close>

locale evolution =
  fixes R :: "'s \<Rightarrow> 's \<Rightarrow> bool"
  assumes R_refl: "R s s"
    and R_trans: "R s t \<Longrightarrow> R t u \<Longrightarrow> R s u"
begin

lemma ev_ret: "evolves R (ret a)"
  by (simp add: evolves_def R_refl)

lemma ev_raise: "evolves R (raise e)"
  by (simp add: evolves_def R_refl)

lemma ev_gets: "evolves R (gets f)"
  by (simp add: evolves_def R_refl)

lemma ev_of_sum: "evolves R (of_sum x)"
  by (simp add: evolves_def R_refl)

lemma ev_require: "evolves R (require b e)"
  by (simp add: evolves_def R_refl require_def)

lemma ev_modify: "(\<And>s. R s (f s)) \<Longrightarrow> evolves R (modify f)"
  by (simp add: evolves_def)

lemma ev_bind:
  assumes "evolves R m" and "\<And>a. evolves R (f a)"
  shows "evolves R (bind m f)"
proof (rule evolvesI)
  fix s
  obtain r t where run: "m s = (r, t)" by (cases "m s")
  then have "R s t" using assms(1) by (rule evolvesD [rotated])
  then show "R s (snd (bind m f s))"
    using run assms(2) by (cases r) (auto simp: bind_def evolves_def intro: R_trans)
qed

lemma ev_if: "evolves R m \<Longrightarrow> evolves R n \<Longrightarrow> evolves R (if b then m else n)"
  by simp

lemma ev_option:
  "evolves R m \<Longrightarrow> (\<And>x. evolves R (f x)) \<Longrightarrow> evolves R (case v of None \<Rightarrow> m | Some x \<Rightarrow> f x)"
  by (cases v) simp_all

lemma ev_sum:
  "(\<And>x. evolves R (f x)) \<Longrightarrow> (\<And>y. evolves R (g y)) \<Longrightarrow>
   evolves R (case v of Inl x \<Rightarrow> f x | Inr y \<Rightarrow> g y)"
  by (cases v) simp_all

lemma ev_list:
  "evolves R m \<Longrightarrow> (\<And>x xs. evolves R (f x xs)) \<Longrightarrow>
   evolves R (case v of [] \<Rightarrow> m | x # xs \<Rightarrow> f x xs)"
  by (cases v) simp_all

lemma ev_forM: "(\<And>x. evolves R (f x)) \<Longrightarrow> evolves R (forM f xs)"
  by (induction xs) (auto intro: ev_ret ev_bind)

lemmas ev_intros =
  ev_ret ev_raise ev_gets ev_of_sum ev_require ev_bind ev_if ev_option ev_sum ev_list ev_forM

end

text \<open>Keeping a predicate is the instance that every invariant proof uses.\<close>

abbreviation keeps :: "('s \<Rightarrow> bool) \<Rightarrow> ('s, 'e, 'a) svc \<Rightarrow> bool" where
  "keeps I \<equiv> evolves (\<lambda>s t. I s \<longrightarrow> I t)"

interpretation keeping: evolution "\<lambda>s t. I s \<longrightarrow> I t" for I :: "'s \<Rightarrow> bool"
  by unfold_locales auto

lemma keepsD: "keeps I m \<Longrightarrow> m s = (r, t) \<Longrightarrow> I s \<Longrightarrow> I t"
  by (metis evolvesD)

text \<open>Leaving a part of the state as it was is the other.\<close>

abbreviation leaves :: "('s \<Rightarrow> 'p) \<Rightarrow> ('s, 'e, 'a) svc \<Rightarrow> bool" where
  "leaves p \<equiv> evolves (\<lambda>s t. p t = p s)"

interpretation leaving: evolution "\<lambda>s t. p t = p s" for p :: "'s \<Rightarrow> 'p"
  by unfold_locales auto

lemma leavesD: "leaves p m \<Longrightarrow> m s = (r, t) \<Longrightarrow> p t = p s"
  by (drule evolvesD) auto

section \<open>Rows and tables\<close>

text \<open>
  Every mapped class has the columns of \<open>TimestampMixin\<close> and an \<open>id\<close>; its own columns
  extend this record. A table is the list of its rows in insertion order.
\<close>

record row =
  row_id :: uuid
  created_at :: datetime
  updated_at :: datetime

definition lookup :: "'a row_scheme list \<Rightarrow> uuid \<Rightarrow> 'a row_scheme option" where
  "lookup t i = find (\<lambda>r. row_id r = i) t"

definition row_ids :: "'a row_scheme list \<Rightarrow> uuid list" where
  "row_ids t = map row_id t"

definition replace_row :: "'a row_scheme \<Rightarrow> 'a row_scheme list \<Rightarrow> 'a row_scheme list" where
  "replace_row r t = map (\<lambda>x. if row_id x = row_id r then r else x) t"

definition remove_row :: "uuid \<Rightarrow> 'a row_scheme list \<Rightarrow> 'a row_scheme list" where
  "remove_row i t = filter (\<lambda>x. row_id x \<noteq> i) t"

definition touch :: "datetime \<Rightarrow> 'a row_scheme \<Rightarrow> 'a row_scheme \<Rightarrow> 'a row_scheme" where
  \<comment> \<open>an UPDATE is only emitted for changed attributes; it then sets \<open>updated_at\<close>\<close>
  "touch t old new = (if new = old then old else new\<lparr>updated_at := t\<rparr>)"

lemma lookup_Nil [simp, table_simps]: "lookup [] i = None"
  by (simp add: lookup_def)

lemma lookup_Cons [simp, table_simps]:
  "lookup (r # t) i = (if row_id r = i then Some r else lookup t i)"
  by (simp add: lookup_def)

lemma lookup_SomeD: "lookup t i = Some r \<Longrightarrow> r \<in> set t \<and> row_id r = i"
  by (auto simp: lookup_def find_Some_iff)

lemma lookup_None_iff: "lookup t i = None \<longleftrightarrow> i \<notin> set (row_ids t)"
  by (auto simp: lookup_def find_None_iff row_ids_def)

lemma lookup_append [table_simps]:
  "lookup (t @ u) i = (case lookup t i of None \<Rightarrow> lookup u i | Some r \<Rightarrow> Some r)"
  by (induction t) auto

lemma lookup_append_new: "row_id r \<notin> set (row_ids t) \<Longrightarrow> lookup (t @ [r]) (row_id r) = Some r"
  using lookup_None_iff [of t "row_id r"] by (simp add: lookup_append)

lemma lookup_append_old: "i \<in> set (row_ids t) \<Longrightarrow> lookup (t @ u) i = lookup t i"
  using lookup_None_iff [of t i] by (auto simp: lookup_append split: option.splits)

lemma lookup_unique:
  "distinct (row_ids t) \<Longrightarrow> r \<in> set t \<Longrightarrow> lookup t (row_id r) = Some r"
  by (induction t) (auto simp: row_ids_def)

lemma same_row:
  assumes "distinct (row_ids t)" and "x \<in> set t" and "y \<in> set t" and "row_id x = row_id y"
  shows "x = y"
proof -
  have "Some x = Some y"
    using lookup_unique [OF assms(1,2)] lookup_unique [OF assms(1,3)] unfolding assms(4)
    by (rule trans [OF sym])
  then show ?thesis by (rule option.inject [THEN iffD1])
qed

lemma lookup_same:
  assumes "distinct (row_ids t)" and "x \<in> set t" and "lookup t (row_id x) = Some y"
  shows "x = y"
  using lookup_unique [OF assms(1,2)] assms(3) by (rule option.inject [THEN iffD1, OF trans [OF sym]])

lemma row_ids_simps [simp, table_simps]:
  "row_ids [] = []"
  "row_ids (r # t) = row_id r # row_ids t"
  "row_ids (t @ u) = row_ids t @ row_ids u"
  by (simp_all add: row_ids_def)

lemma row_ids_replace [simp, table_simps]: "row_ids (replace_row r t) = row_ids t"
  by (induction t) (auto simp: replace_row_def)

lemma lookup_replace [table_simps]:
  "lookup (replace_row r t) i =
     (if row_id r = i then (case lookup t i of None \<Rightarrow> None | Some _ \<Rightarrow> Some r) else lookup t i)"
  by (induction t) (auto simp: replace_row_def)

lemma map_replace:
  "distinct (row_ids t) \<Longrightarrow> lookup t (row_id r) = Some old \<Longrightarrow> key r = key old \<Longrightarrow>
   map key (replace_row r t) = map key t"
  by (induction t) (auto simp: replace_row_def row_ids_def rev_image_eqI split: if_splits)

lemma replace_append_new:
  "row_id p \<notin> set (row_ids t) \<Longrightarrow> row_id q = row_id p \<Longrightarrow> replace_row q (t @ [p]) = t @ [q]"
  by (induction t) (auto simp: replace_row_def)

lemma length_replace [simp]: "length (replace_row r t) = length t"
  by (simp add: replace_row_def)

lemma set_replace:
  "distinct (row_ids t) \<Longrightarrow> lookup t (row_id r) = Some old \<Longrightarrow>
   set (replace_row r t) = insert r (set t - {old})"
proof (induction t)
  case (Cons x t)
  show ?case
  proof (cases "row_id x = row_id r")
    case True
    with Cons.prems(1) have "row_id r \<notin> row_id ` set t"
      by (simp add: row_ids_def)
    then have ne: "\<forall>y \<in> set t. row_id y \<noteq> row_id r"
      by (metis imageI)
    then have "replace_row r t = t"
      by (auto simp: replace_row_def intro!: map_idI)
    with True ne Cons.prems show ?thesis
      by (auto simp: replace_row_def row_ids_def)
  next
    case False
    with Cons show ?thesis
      by (auto simp: replace_row_def row_ids_def dest: lookup_SomeD)
  qed
qed simp

lemma in_replaceD: "x \<in> set (replace_row r t) \<Longrightarrow> x = r \<or> (x \<in> set t \<and> row_id x \<noteq> row_id r)"
  by (auto simp: replace_row_def)

lemma set_remove [simp]: "x \<in> set (remove_row i t) \<longleftrightarrow> x \<in> set t \<and> row_id x \<noteq> i"
  by (auto simp: remove_row_def)

lemma lookup_remove [table_simps]: "lookup (remove_row i t) j = (if i = j then None else lookup t j)"
  by (induction t) (auto simp: remove_row_def)

lemma ids_remove [simp, table_simps]: "set (row_ids (remove_row i t)) = set (row_ids t) - {i}"
  by (auto simp: row_ids_def)

lemma distinct_remove: "distinct (row_ids t) \<Longrightarrow> distinct (row_ids (remove_row i t))"
  by (induction t) (auto simp: remove_row_def row_ids_def)

lemma touch_row_id [simp]: "row_id new = row_id old \<Longrightarrow> row_id (touch t old new) = row_id old"
  by (simp add: touch_def)

lemma touch_column: "(\<And>r u. k (r\<lparr>updated_at := u\<rparr>) = k r) \<Longrightarrow> k (touch t old new) = k new"
  by (simp add: touch_def)

lemma row_id_in: "x \<in> set t \<Longrightarrow> row_id x \<in> set (row_ids t)"
  by (simp add: row_ids_def)

text \<open>\<open>on ids f\<close> applies \<open>f\<close> to the rows whose identifier is in \<open>ids\<close>.\<close>

definition on :: "uuid set \<Rightarrow> ('a row_scheme \<Rightarrow> 'a row_scheme) \<Rightarrow> 'a row_scheme \<Rightarrow> 'a row_scheme" where
  "on ids f x = (if row_id x \<in> ids then f x else x)"

lemma on_empty [simp]: "on {} f = (\<lambda>x. x)"
  by (rule ext) (simp add: on_def)

lemma replace_on:
  assumes "distinct (row_ids t)" and "e \<in> set t" and "row_id (f e) = row_id e"
  shows "replace_row (f e) t = map (on {row_id e} f) t"
  using same_row [OF assms(1) _ assms(2)] assms(3) by (auto simp: replace_row_def on_def)

lemma on_on: "(\<And>x. row_id (f x) = row_id x) \<Longrightarrow> a \<notin> ids \<Longrightarrow> on ids f (on {a} f x) = on (insert a ids) f x"
  by (auto simp: on_def)

lemma lookup_map:
  "(\<And>x. row_id (f x) = row_id x) \<Longrightarrow> lookup (map f t) i = map_option f (lookup t i)"
  by (induction t) auto

lemma row_ids_map: "(\<And>x. row_id (f x) = row_id x) \<Longrightarrow> row_ids (map f t) = row_ids t"
  by (simp add: row_ids_def)

section \<open>SQL and Python list idioms\<close>

text \<open>
  \<open>sorted(xs, key=k)\<close> is stable, as \<open>sort_key\<close> is. \<open>ORDER BY k DESC\<close> over keys that
  end in the unique id is the reversal of the ascending order. \<open>LIMIT l OFFSET o\<close> drops
  and takes.
\<close>

definition sort_desc :: "('a \<Rightarrow> 'k::linorder) \<Rightarrow> 'a list \<Rightarrow> 'a list" where
  "sort_desc k xs = rev (sort_key k xs)"

definition paginate :: "nat \<Rightarrow> nat \<Rightarrow> 'a list \<Rightarrow> 'a list" where
  "paginate limit offset xs = take limit (drop offset xs)"

lemma set_sort_desc [simp]: "set (sort_desc k xs) = set xs"
  by (simp add: sort_desc_def)

lemma length_sort_desc [simp]: "length (sort_desc k xs) = length xs"
  by (simp add: sort_desc_def)

lemma sort_desc_Nil_iff [simp]: "sort_desc k xs = [] \<longleftrightarrow> xs = []"
  by (metis length_0_conv length_sort_desc)

lemma sorted_sort_desc: "sorted_wrt (\<lambda>x y. k y \<le> k x) (sort_desc k xs)"
proof -
  have "sorted_wrt (\<lambda>x y. k x \<le> k y) (sort_key k xs)"
    using sorted_sort_key [of k xs] by (simp add: sorted_map)
  then show ?thesis by (simp add: sort_desc_def sorted_wrt_rev)
qed

lemma sorted_paginate: "sorted_wrt P xs \<Longrightarrow> sorted_wrt P (paginate l k xs)"
  by (simp add: paginate_def sorted_wrt_drop sorted_wrt_take)

lemma set_paginate: "set (paginate l k xs) \<subseteq> set xs"
  by (auto simp: paginate_def dest: in_set_takeD in_set_dropD)

lemma length_paginate: "length (paginate l k xs) = min l (length xs - k)"
  by (simp add: paginate_def min.commute)

lemma find_append: "find P (xs @ ys) = (case find P xs of None \<Rightarrow> find P ys | Some x \<Rightarrow> Some x)"
  by (induction xs) auto

lemma filter_the_one: "distinct xs \<Longrightarrow> x \<in> set xs \<Longrightarrow> filter (\<lambda>y. y = x) xs = [x]"
  by (induction xs) (auto simp: filter_empty_conv)

section \<open>Text of identifiers\<close>

definition hex_digits :: string where
  "hex_digits = ''0123456789abcdef''"

definition dec_digits :: string where
  "dec_digits = ''0123456789''"

definition hex_digit :: "nat \<Rightarrow> char" where
  "hex_digit n = hex_digits ! (n mod 16)"

definition dec_digit :: "nat \<Rightarrow> char" where
  "dec_digit n = dec_digits ! (n mod 10)"

fun hex_pad :: "nat \<Rightarrow> nat \<Rightarrow> string" where
  "hex_pad 0 n = []"
| "hex_pad (Suc k) n = hex_pad k (n div 16) @ [hex_digit n]"

definition uuid_hex :: "uuid \<Rightarrow> string" where
  "uuid_hex u = hex_pad 32 u"

definition str_uuid :: "uuid \<Rightarrow> string" where
  "str_uuid u =
     (let h = uuid_hex u
      in take 8 h @ ''-'' @ take 4 (drop 8 h) @ ''-'' @ take 4 (drop 12 h) @ ''-'' @
         take 4 (drop 16 h) @ ''-'' @ drop 20 h)"

fun dec_pad :: "nat \<Rightarrow> nat \<Rightarrow> string" where
  \<comment> \<open>\<open>f"{n:0kd}"\<close> for \<open>n < 10 ^ k\<close>\<close>
  "dec_pad 0 n = []"
| "dec_pad (Suc k) n = dec_pad k (n div 10) @ [dec_digit n]"

lemma length_hex_pad [simp]: "length (hex_pad k n) = k"
  by (induction k arbitrary: n) auto

lemma length_dec_pad [simp]: "length (dec_pad k n) = k"
  by (induction k arbitrary: n) auto

lemma hex_digit_in: "hex_digit n \<in> set hex_digits"
  unfolding hex_digit_def by (rule nth_mem) (simp add: hex_digits_def)

lemma dec_digit_in: "dec_digit n \<in> set dec_digits"
  unfolding dec_digit_def by (rule nth_mem) (simp add: dec_digits_def)

lemma set_hex_pad: "set (hex_pad k n) \<subseteq> set hex_digits"
  by (induction k arbitrary: n) (simp_all add: hex_digit_in)

lemma set_dec_pad: "set (dec_pad k n) \<subseteq> set dec_digits"
  by (induction k arbitrary: n) (simp_all add: dec_digit_in)

lemma dec_digit_inj: "dec_digit m = dec_digit n \<Longrightarrow> m mod 10 = n mod 10"
proof -
  have d: "distinct dec_digits" and l: "length dec_digits = 10"
    by (simp_all add: dec_digits_def)
  assume "dec_digit m = dec_digit n"
  then show ?thesis
    using nth_eq_iff_index_eq [OF d, of "m mod 10" "n mod 10"] by (simp add: dec_digit_def l)
qed

lemma dec_pad_inj: "m < 10 ^ k \<Longrightarrow> n < 10 ^ k \<Longrightarrow> dec_pad k m = dec_pad k n \<Longrightarrow> m = n"
proof (induction k arbitrary: m n)
  case (Suc k)
  from Suc.prems have "dec_pad k (m div 10) = dec_pad k (n div 10)"
    and last: "dec_digit m = dec_digit n"
    by simp_all
  moreover have "m div 10 < 10 ^ k" "n div 10 < 10 ^ k"
    using Suc.prems by (simp_all add: less_mult_imp_div_less mult.commute)
  ultimately have "m div 10 = n div 10" using Suc.IH by blast
  moreover have "m mod 10 = n mod 10" using last by (rule dec_digit_inj)
  ultimately show ?case by (metis div_mult_mod_eq)
qed simp

end
