(* ===== verification/Calendar.thy ===== *)
theory Calendar
  imports Prelude
begin

text \<open>
  Dates of the proleptic Gregorian calendar as Python's \<open>datetime.date\<close> has them, the
  month arithmetic and the delivery schedules of \<open>src/subscriptions/frequency.py\<close>. Adding
  a \<open>timedelta\<close> of days is the iterated successor day. Python's upper limit (year 9999) is
  not modelled.
\<close>

section \<open>Dates\<close>

datatype date = Date (year: int) (month: int) (day: int)

instantiation date :: linorder
begin

definition less_eq_date :: "date \<Rightarrow> date \<Rightarrow> bool" where
  "less_eq_date a b \<longleftrightarrow> (year a, month a, day a) \<le> (year b, month b, day b)"

definition less_date :: "date \<Rightarrow> date \<Rightarrow> bool" where
  "less_date a b \<longleftrightarrow> (year a, month a, day a) < (year b, month b, day b)"

instance
proof
  fix a b c :: date
  show "a < b \<longleftrightarrow> a \<le> b \<and> \<not> b \<le> a"
    by (auto simp: less_eq_date_def less_date_def)
  show "a \<le> a" by (simp add: less_eq_date_def)
  show "a \<le> b \<Longrightarrow> b \<le> c \<Longrightarrow> a \<le> c"
    unfolding less_eq_date_def by (rule order_trans)
  show "a \<le> b \<Longrightarrow> b \<le> a \<Longrightarrow> a = b"
    unfolding less_eq_date_def by (cases a; cases b) (auto dest: antisym)
  show "a \<le> b \<or> b \<le> a"
    unfolding less_eq_date_def by (rule linear)
qed

end

lemma date_less [simp]:
  "Date y m d < Date y' m' d' \<longleftrightarrow> y < y' \<or> (y = y' \<and> (m < m' \<or> (m = m' \<and> d < d')))"
  by (auto simp: less_date_def)

lemma date_le [simp]:
  "Date y m d \<le> Date y' m' d' \<longleftrightarrow> y < y' \<or> (y = y' \<and> (m < m' \<or> (m = m' \<and> d \<le> d')))"
  by (auto simp: less_eq_date_def)

definition leap :: "int \<Rightarrow> bool" where
  "leap y \<longleftrightarrow> y mod 4 = 0 \<and> (y mod 100 \<noteq> 0 \<or> y mod 400 = 0)"

definition monthrange :: "int \<Rightarrow> int \<Rightarrow> int" where
  "monthrange y m =
     (if m = 2 then (if leap y then 29 else 28)
      else if m = 4 \<or> m = 6 \<or> m = 9 \<or> m = 11 then 30 else 31)"

definition valid_date :: "date \<Rightarrow> bool" where
  "valid_date d \<longleftrightarrow> 1 \<le> month d \<and> month d \<le> 12 \<and> 1 \<le> day d \<and> day d \<le> monthrange (year d) (month d)"

definition next_day :: "date \<Rightarrow> date" where
  "next_day d =
     (if day d < monthrange (year d) (month d) then Date (year d) (month d) (day d + 1)
      else if month d < 12 then Date (year d) (month d + 1) 1
      else Date (year d + 1) 1 1)"

fun plus_days :: "date \<Rightarrow> nat \<Rightarrow> date" where
  "plus_days d 0 = d"
| "plus_days d (Suc n) = plus_days (next_day d) n"

definition date_of :: "datetime \<Rightarrow> date" where
  \<comment> \<open>\<open>datetime.date()\<close> of a UTC timestamp\<close>
  "date_of t = plus_days (Date 1970 1 1) (nat (t div microseconds_per_day))"

lemma monthrange_bounds: "28 \<le> monthrange y m \<and> monthrange y m \<le> 31"
  by (simp add: monthrange_def)

lemma less_next_day: "d < next_day d"
  by (cases d) (auto simp: next_day_def)

lemma valid_next_day: "valid_date d \<Longrightarrow> valid_date (next_day d)"
  using monthrange_bounds [of "year d" "month d + 1"] monthrange_bounds [of "year d + 1" 1]
  by (auto simp: valid_date_def next_day_def)

lemma valid_plus_days: "valid_date d \<Longrightarrow> valid_date (plus_days d n)"
  by (induction n arbitrary: d) (auto simp: valid_next_day)

lemma plus_days_add: "plus_days (plus_days d m) n = plus_days d (m + n)"
  by (induction m arbitrary: d) auto

lemma plus_days_ge: "d \<le> plus_days d n"
proof (induction n arbitrary: d)
  case (Suc n)
  have "d < next_day d" by (rule less_next_day)
  also have "next_day d \<le> plus_days (next_day d) n" by (rule Suc.IH)
  finally show ?case by simp
qed simp

lemma plus_days_strict: "m < n \<Longrightarrow> plus_days d m < plus_days d n"
proof -
  assume "m < n"
  then obtain k where n: "n = m + Suc k" by (metis less_iff_Suc_add add_Suc_right)
  have "plus_days d n = plus_days (next_day (plus_days d m)) k"
    by (simp only: n plus_days_add [symmetric] plus_days.simps)
  moreover have "plus_days d m < next_day (plus_days d m)" by (rule less_next_day)
  ultimately show ?thesis by (metis order_less_le_trans plus_days_ge)
qed

section \<open>Months\<close>

definition add_months :: "date \<Rightarrow> int \<Rightarrow> date" where
  "add_months d months =
     (let total = year d * 12 + (month d - 1) + months;
          y = total div 12; m = total mod 12 + 1
      in Date y m (min (day d) (monthrange y m)))"

lemma valid_add_months: "valid_date d \<Longrightarrow> valid_date (add_months d k)"
  using monthrange_bounds [of "(year d * 12 + (month d - 1) + k) div 12"
      "(year d * 12 + (month d - 1) + k) mod 12 + 1"]
  by (auto simp: add_months_def valid_date_def Let_def)

lemma add_months_0: "valid_date d \<Longrightarrow> add_months d 0 = d"
  by (cases d) (auto simp: add_months_def valid_date_def Let_def)

lemma div_mod_less:
  "a < b \<Longrightarrow> (a :: int) div 12 < b div 12 \<or> (a div 12 = b div 12 \<and> a mod 12 < b mod 12)"
proof -
  assume "a < b"
  then have "a div 12 \<le> b div 12" by (simp add: zdiv_mono1)
  moreover have "a = 12 * (a div 12) + a mod 12" "b = 12 * (b div 12) + b mod 12" by simp_all
  ultimately show ?thesis using \<open>a < b\<close> by linarith
qed

lemma add_months_strict: "j < k \<Longrightarrow> add_months d j < add_months d k"
  using div_mod_less [of "year d * 12 + (month d - 1) + j" "year d * 12 + (month d - 1) + k"]
  by (auto simp: add_months_def Let_def)

text \<open>The day only changes when the month reached is too short for it.\<close>

lemma add_months_day:
  "day (add_months d k) \<le> day d \<and>
   (day d \<le> 28 \<longrightarrow> day (add_months d k) = day d)"
  using monthrange_bounds [of "(year d * 12 + (month d - 1) + k) div 12"
      "(year d * 12 + (month d - 1) + k) mod 12 + 1"]
  by (auto simp: add_months_def Let_def)

section \<open>Delivery schedules\<close>

datatype frequency = WEEKLY | BIWEEKLY | MONTHLY

definition HORIZON_MONTHS :: nat where
  "HORIZON_MONTHS = 3"

fun periodic :: "frequency \<Rightarrow> (nat \<times> nat) option" where
  \<comment> \<open>\<open>_PERIODIC\<close>: interval in days and number of events\<close>
  "periodic WEEKLY = Some (7, 12)"
| "periodic BIWEEKLY = Some (14, 6)"
| "periodic MONTHLY = None"

definition event_dates :: "date \<Rightarrow> frequency \<Rightarrow> date list" where
  "event_dates today freq =
     (case periodic freq of
        None \<Rightarrow> map (\<lambda>i. add_months today (int i)) [1..<HORIZON_MONTHS + 1]
      | Some (interval, count) \<Rightarrow>
          let first = plus_days today interval
          in map (\<lambda>i. plus_days first (interval * i)) [0..<count])"

definition next_dates_after :: "date \<Rightarrow> frequency \<Rightarrow> date list" where
  "next_dates_after last_date freq =
     (case periodic freq of
        None \<Rightarrow> map (\<lambda>i. add_months last_date (int i)) [1..<HORIZON_MONTHS + 1]
      | Some (interval, count) \<Rightarrow>
          map (\<lambda>i. plus_days last_date (interval * (i + 1))) [0..<count])"

text \<open>The documented number of deliveries of a horizon of three months.\<close>

fun horizon_size :: "frequency \<Rightarrow> nat" where
  "horizon_size WEEKLY = 12"
| "horizon_size BIWEEKLY = 6"
| "horizon_size MONTHLY = 3"

lemma event_dates_eq: "event_dates d f = next_dates_after d f"
  by (cases f) (simp_all add: event_dates_def next_dates_after_def plus_days_add Let_def)

lemma length_next_dates: "length (next_dates_after d f) = horizon_size f"
  by (cases f) (simp_all add: next_dates_after_def HORIZON_MONTHS_def)

lemma next_dates_not_Nil: "next_dates_after d f \<noteq> []"
  by (cases f) (simp_all add: next_dates_after_def HORIZON_MONTHS_def)

lemma sorted_upt_map:
  "(\<And>i j. i < j \<Longrightarrow> f i < (f j :: 'a::linorder)) \<Longrightarrow> sorted_wrt (<) (map f [m..<n])"
  by (simp add: sorted_wrt_map sorted_wrt_mono_rel [OF _ sorted_wrt_upt])

lemma sorted_next_dates: "sorted_wrt (<) (next_dates_after d f)"
  by (cases f) (auto simp: next_dates_after_def simp del: upt_Suc
      intro!: sorted_upt_map plus_days_strict add_months_strict)

lemma next_dates_cases:
  assumes "x \<in> set (next_dates_after d f)"
  obtains k where "0 < k" and "x = plus_days d k"
  | k where "0 < k" and "x = add_months d (int k)"
proof (cases "periodic f")
  case None
  with assms obtain i where "i \<in> {1..<HORIZON_MONTHS + 1}" "x = add_months d (int i)"
    by (auto simp: next_dates_after_def simp del: upt_Suc)
  then show ?thesis by (intro that(2) [of i]) auto
next
  case (Some p)
  then obtain n c where p: "periodic f = Some (n, c)" "0 < n"
    by (cases f) auto
  with assms obtain i where "x = plus_days d (n * (i + 1))"
    by (auto simp: next_dates_after_def)
  with p(2) show ?thesis by (intro that(1)) auto
qed

lemma next_dates_later:
  assumes "valid_date d" and "x \<in> set (next_dates_after d f)"
  shows "d < x"
  using assms(2)
proof (cases rule: next_dates_cases)
  case (1 k)
  then show ?thesis using plus_days_strict [of 0 k d] by simp
next
  case (2 k)
  then show ?thesis using add_months_strict [of 0 "int k" d] assms(1) by (simp add: add_months_0)
qed

lemma valid_next_dates: "valid_date d \<Longrightarrow> x \<in> set (next_dates_after d f) \<Longrightarrow> valid_date x"
  by (cases f) (auto simp: next_dates_after_def simp del: upt_Suc
      intro: valid_plus_days valid_add_months)

text \<open>The three schedules written out; the months advance by one, and the day is cut to their length.\<close>

lemma periodic_dates:
  "next_dates_after d WEEKLY = map (plus_days d) [7, 14, 21, 28, 35, 42, 49, 56, 63, 70, 77, 84]"
  "next_dates_after d BIWEEKLY = map (plus_days d) [14, 28, 42, 56, 70, 84]"
  by (simp_all add: next_dates_after_def upt_rec)

lemma add_months_columns:
  "year (add_months d k) * 12 + month (add_months d k) = year d * 12 + month d + k"
  "1 \<le> month (add_months d k)" "month (add_months d k) \<le> 12"
  "day (add_months d k) = min (day d) (monthrange (year (add_months d k)) (month (add_months d k)))"
proof -
  let ?t = "year d * 12 + (month d - 1) + k"
  have "?t = 12 * (?t div 12) + ?t mod 12" "0 \<le> ?t mod 12" "?t mod 12 < 12" by simp_all
  then show "year (add_months d k) * 12 + month (add_months d k) = year d * 12 + month d + k"
    "1 \<le> month (add_months d k)" "month (add_months d k) \<le> 12"
    unfolding add_months_def Let_def date.sel by linarith+
  show "day (add_months d k) = min (day d) (monthrange (year (add_months d k)) (month (add_months d k)))"
    by (simp add: add_months_def Let_def)
qed

lemma monthly_dates: "next_dates_after d MONTHLY = map (add_months d) [1, 2, 3]"
  by (simp add: next_dates_after_def HORIZON_MONTHS_def upt_rec)

lemma distinct_next_dates: "distinct (next_dates_after d f)"
  using sorted_next_dates [of d f] by (simp add: strict_sorted_iff)

end
