(* ===== verification/Schema.thy ===== *)
theory Schema
  imports Calendar
begin

text \<open>
  The persisted data: the enumerations, one record per mapped class (the columns of
  \<open>models.py\<close> after \<open>id\<close>, \<open>created_at\<close> and \<open>updated_at\<close>, which the record \<open>row\<close>
  holds) and, for each class, \<open>fits_\<dots>\<close> (the values its column types can store) and
  \<open>check_\<dots>\<close> (its CHECK constraints). A status column holds the value of its enumeration,
  which the \<open>IN (...)\<close> constraint enforces, and is modelled as that enumeration.
\<close>

section \<open>Column types\<close>

datatype json =
    JNull
  | JBool bool
  | JNum int
  | JStr string
  | JArr "json list"
  | JObj "(string \<times> json) list"

definition varchar :: "nat \<Rightarrow> string \<Rightarrow> bool" where
  "varchar n s \<longleftrightarrow> length s \<le> n"

definition opt_fits :: "('a \<Rightarrow> bool) \<Rightarrow> 'a option \<Rightarrow> bool" where
  "opt_fits p v = (case v of None \<Rightarrow> True | Some x \<Rightarrow> p x)"

definition numeric_10_2 :: "money \<Rightarrow> bool" where
  "numeric_10_2 c \<longleftrightarrow> - (10 ^ 10) < c \<and> c < 10 ^ 10"

definition numeric_5_2 :: "int \<Rightarrow> bool" where
  "numeric_5_2 c \<longleftrightarrow> - (10 ^ 5) < c \<and> c < 10 ^ 5"

definition numeric_6_2 :: "int \<Rightarrow> bool" where
  "numeric_6_2 c \<longleftrightarrow> - (10 ^ 6) < c \<and> c < 10 ^ 6"

definition int4 :: "int \<Rightarrow> bool" where
  "int4 x \<longleftrightarrow> - (2 ^ 31) \<le> x \<and> x < 2 ^ 31"

definition int2 :: "int \<Rightarrow> bool" where
  "int2 x \<longleftrightarrow> - (2 ^ 15) \<le> x \<and> x < 2 ^ 15"

text \<open>
  A text sent to the database holds no NUL, and the LIMIT and OFFSET of a page are 64-bit.
\<close>

definition numeric_2_1 :: "int \<Rightarrow> bool" where
  "numeric_2_1 c \<longleftrightarrow> - (10 ^ 2) < c \<and> c < 10 ^ 2"

definition no_nul :: "string \<Rightarrow> bool" where
  "no_nul s \<longleftrightarrow> CHR 0x00 \<notin> set s"

definition page_bindable :: "nat \<Rightarrow> nat \<Rightarrow> bool" where
  "page_bindable limit offset \<longleftrightarrow> limit < 2 ^ 63 \<and> offset < 2 ^ 63"

lemmas column_defs = varchar_def opt_fits_def numeric_10_2_def numeric_5_2_def
  numeric_6_2_def int4_def int2_def

section \<open>Enumerations\<close>

datatype order_type = PICKUP | DELIVERY

datatype order_status = CREATED | CONFIRMED | IN_PROGRESS | COMPLETED | CANCELLED | REFUNDED | FAILED

datatype grind_size = EXTRA_COARSE | COARSE | MEDIUM_COARSE | MEDIUM | MEDIUM_FINE | FINE | EXTRA_FINE

datatype payment_status = PayPENDING | PayCOMPLETED | PayFAILED | PayREFUNDED

datatype subscription_status = SubPENDING | SubACTIVE | SubPAUSED | SubCANCELLED | SubCOMPLETED

datatype event_status = EvPENDING | EvREADY | EvPAUSED | EvCOMPLETED | EvCANCELLED

datatype point_type = COFFEESHOP | WAREHOUSE | ROASTERY

datatype product_type_name = TyCOFFEE | TyEQUIPMENT | TyACCESSORIES | TyCONSUMABLES

datatype roast_level = RoastLIGHT | RoastMEDIUM | RoastDARK

datatype processing_method = WASHED | NATURAL | ANAEROBIC | HONEY

datatype equipment_type = EqMACHINE | EqGRINDER | EqBREWER | EqSCALE | EqOTHER

datatype accessory_type =
  AcFILTER | AcTAMPER | AcSCALE | AcPITCHER | AcTHERMOMETER | AcKNOCKBOX | AcOTHER

datatype consumable_type = CoFILTER | CoPODS | CoCLEANING | CoWATER | CoOTHER

fun order_type_value :: "order_type \<Rightarrow> string" where
  "order_type_value PICKUP = ''pickup''"
| "order_type_value DELIVERY = ''delivery''"

fun order_status_value :: "order_status \<Rightarrow> string" where
  "order_status_value CREATED = ''created''"
| "order_status_value CONFIRMED = ''confirmed''"
| "order_status_value IN_PROGRESS = ''in_progress''"
| "order_status_value COMPLETED = ''completed''"
| "order_status_value CANCELLED = ''cancelled''"
| "order_status_value REFUNDED = ''refunded''"
| "order_status_value FAILED = ''failed''"

fun payment_status_value :: "payment_status \<Rightarrow> string" where
  "payment_status_value PayPENDING = ''pending''"
| "payment_status_value PayCOMPLETED = ''completed''"
| "payment_status_value PayFAILED = ''failed''"
| "payment_status_value PayREFUNDED = ''refunded''"

fun subscription_status_value :: "subscription_status \<Rightarrow> string" where
  "subscription_status_value SubPENDING = ''pending''"
| "subscription_status_value SubACTIVE = ''active''"
| "subscription_status_value SubPAUSED = ''paused''"
| "subscription_status_value SubCANCELLED = ''cancelled''"
| "subscription_status_value SubCOMPLETED = ''completed''"

fun product_type_value :: "product_type_name \<Rightarrow> string" where
  "product_type_value TyCOFFEE = ''coffee''"
| "product_type_value TyEQUIPMENT = ''equipment''"
| "product_type_value TyACCESSORIES = ''accessories''"
| "product_type_value TyCONSUMABLES = ''consumables''"

fun roast_level_value :: "roast_level \<Rightarrow> string" where
  "roast_level_value RoastLIGHT = ''light''"
| "roast_level_value RoastMEDIUM = ''medium''"
| "roast_level_value RoastDARK = ''dark''"

fun processing_value :: "processing_method \<Rightarrow> string" where
  "processing_value WASHED = ''washed''"
| "processing_value NATURAL = ''natural''"
| "processing_value ANAEROBIC = ''anaerobic''"
| "processing_value HONEY = ''honey''"

fun equipment_type_value :: "equipment_type \<Rightarrow> string" where
  "equipment_type_value EqMACHINE = ''machine''"
| "equipment_type_value EqGRINDER = ''grinder''"
| "equipment_type_value EqBREWER = ''brewer''"
| "equipment_type_value EqSCALE = ''scale''"
| "equipment_type_value EqOTHER = ''other''"

fun accessory_type_value :: "accessory_type \<Rightarrow> string" where
  "accessory_type_value AcFILTER = ''filter''"
| "accessory_type_value AcTAMPER = ''tamper''"
| "accessory_type_value AcSCALE = ''scale''"
| "accessory_type_value AcPITCHER = ''pitcher''"
| "accessory_type_value AcTHERMOMETER = ''thermometer''"
| "accessory_type_value AcKNOCKBOX = ''knockbox''"
| "accessory_type_value AcOTHER = ''other''"

fun consumable_type_value :: "consumable_type \<Rightarrow> string" where
  "consumable_type_value CoFILTER = ''filter''"
| "consumable_type_value CoPODS = ''pods''"
| "consumable_type_value CoCLEANING = ''cleaning''"
| "consumable_type_value CoWATER = ''water''"
| "consumable_type_value CoOTHER = ''other''"

text \<open>\<open>ProductTypeName(name)\<close> raises \<open>ValueError\<close> on an unknown name.\<close>

definition product_type_of :: "string \<Rightarrow> product_type_name option" where
  "product_type_of s =
     find (\<lambda>t. product_type_value t = s) [TyCOFFEE, TyEQUIPMENT, TyACCESSORIES, TyCONSUMABLES]"

lemma product_type_of_value: "product_type_of (product_type_value t) = Some t"
  by (cases t) (simp_all add: product_type_of_def)

lemma product_type_of_Some: "product_type_of s = Some t \<longleftrightarrow> s = product_type_value t"
  by (cases t) (auto simp: product_type_of_def)

lemma order_status_value_inj: "order_status_value a = order_status_value b \<longleftrightarrow> a = b"
  by (cases a; cases b) simp_all

lemma payment_status_value_inj: "payment_status_value a = payment_status_value b \<longleftrightarrow> a = b"
  by (cases a; cases b) simp_all

section \<open>Users\<close>

record user = row +
  u_auth_user_id :: "uuid option"
  u_email :: "string option"
  u_display_name :: string
  u_is_active :: bool

record user_preferences = row +
  up_user_id :: uuid
  up_language :: string
  up_timezone :: string

definition fits_user :: "user \<Rightarrow> bool" where
  "fits_user r \<longleftrightarrow> opt_fits (varchar 255) (u_email r) \<and> varchar 255 (u_display_name r)"

definition fits_preferences :: "user_preferences \<Rightarrow> bool" where
  "fits_preferences r \<longleftrightarrow> varchar 10 (up_language r) \<and> varchar 50 (up_timezone r)"

section \<open>Catalog\<close>

record product_type = row +
  pt_name :: string
  pt_description :: "string option"
  pt_is_active :: bool

record product_category = row +
  pc_name :: string
  pc_description :: "string option"
  pc_product_type_id :: uuid
  pc_is_active :: bool

record product = row +
  p_name :: string
  p_description :: "string option"
  p_image_url :: "string option"
  p_category_id :: uuid
  p_type_id :: uuid
  p_price :: money
  p_currency :: string
  p_is_active :: bool

definition fits_product_category :: "product_category \<Rightarrow> bool" where
  "fits_product_category r \<longleftrightarrow> varchar 200 (pc_name r)"

definition fits_product :: "product \<Rightarrow> bool" where
  "fits_product r \<longleftrightarrow> varchar 255 (p_name r) \<and> opt_fits (varchar 500) (p_image_url r) \<and>
     numeric_10_2 (p_price r) \<and> varchar 3 (p_currency r)"

definition check_product :: "product \<Rightarrow> bool" where
  "check_product r \<longleftrightarrow> 0 < p_price r"

text \<open>
  The four attribute tables share the identifier of their product. Lengths and weights are
  \<open>Numeric\<close> columns with two decimals, in hundredths. \<open>flavor_notes\<close> maps a language, or
  \<open>keys\<close>, to a list of labels.
\<close>

type_synonym flavor_map = "(string \<times> string list) list"

record product_coffee = row +
  cf_region :: string
  cf_roast_level :: roast_level
  cf_acidity :: int
  cf_body :: int
  cf_sweetness :: int
  cf_processing :: processing_method
  cf_altitude :: "int option"
  cf_flavor_notes :: "flavor_map option"

record product_equipment = row +
  eq_type :: equipment_type
  eq_power_watts :: "int option"
  eq_warranty_months :: "int option"
  eq_width_cm :: "int option"
  eq_height_cm :: "int option"
  eq_depth_cm :: "int option"
  eq_weight_kg :: "int option"
  eq_material :: "string option"
  eq_other_options :: "json option"

record product_accessories = row +
  ac_type :: accessory_type
  ac_material :: string
  ac_other_options :: "json option"

record product_consumables = row +
  co_type :: consumable_type
  co_quantity_per_pack :: int
  co_unit_description :: string
  co_material :: "string option"
  co_other_options :: "json option"
  co_expiry_months :: "int option"
  co_storage_conditions :: "string option"

record product_compatibility = row +
  cmp_accessory_id :: uuid
  cmp_compatible_id :: uuid
  cmp_notes :: "string option"

definition fits_coffee :: "product_coffee \<Rightarrow> bool" where
  "fits_coffee r \<longleftrightarrow> varchar 100 (cf_region r) \<and> int2 (cf_acidity r) \<and> int2 (cf_body r) \<and>
     int2 (cf_sweetness r) \<and> opt_fits int4 (cf_altitude r)"

definition check_coffee :: "product_coffee \<Rightarrow> bool" where
  "check_coffee r \<longleftrightarrow> 1 \<le> cf_acidity r \<and> cf_acidity r \<le> 5 \<and> 1 \<le> cf_body r \<and> cf_body r \<le> 5 \<and>
     1 \<le> cf_sweetness r \<and> cf_sweetness r \<le> 5"

definition fits_equipment :: "product_equipment \<Rightarrow> bool" where
  "fits_equipment r \<longleftrightarrow> opt_fits int4 (eq_power_watts r) \<and> opt_fits int4 (eq_warranty_months r) \<and>
     opt_fits numeric_5_2 (eq_width_cm r) \<and> opt_fits numeric_5_2 (eq_height_cm r) \<and>
     opt_fits numeric_5_2 (eq_depth_cm r) \<and> opt_fits numeric_6_2 (eq_weight_kg r) \<and>
     opt_fits (varchar 100) (eq_material r)"

definition check_equipment :: "product_equipment \<Rightarrow> bool" where
  "check_equipment r \<longleftrightarrow> opt_fits (\<lambda>x. 0 < x) (eq_power_watts r) \<and>
     opt_fits (\<lambda>x. 0 \<le> x) (eq_warranty_months r) \<and> opt_fits (\<lambda>x. 0 < x) (eq_width_cm r) \<and>
     opt_fits (\<lambda>x. 0 < x) (eq_height_cm r) \<and> opt_fits (\<lambda>x. 0 < x) (eq_depth_cm r)"

definition fits_accessories :: "product_accessories \<Rightarrow> bool" where
  "fits_accessories r \<longleftrightarrow> varchar 100 (ac_material r)"

definition fits_consumables :: "product_consumables \<Rightarrow> bool" where
  "fits_consumables r \<longleftrightarrow> int4 (co_quantity_per_pack r) \<and> varchar 50 (co_unit_description r) \<and>
     opt_fits (varchar 100) (co_material r) \<and> opt_fits int4 (co_expiry_months r) \<and>
     opt_fits (varchar 255) (co_storage_conditions r)"

definition check_consumables :: "product_consumables \<Rightarrow> bool" where
  "check_consumables r \<longleftrightarrow> 0 < co_quantity_per_pack r \<and>
     opt_fits (\<lambda>x. 0 < x) (co_expiry_months r)"

definition check_compatibility :: "product_compatibility \<Rightarrow> bool" where
  "check_compatibility r \<longleftrightarrow> cmp_accessory_id r \<noteq> cmp_compatible_id r"

section \<open>Ratings\<close>

text \<open>The average is a \<open>Numeric(2, 1)\<close>, in tenths; the distribution a JSON object.\<close>

record rating = row +
  r_product_id :: uuid
  r_user_id :: uuid
  r_rating :: int

record product_rating = row +
  pr_product_id :: uuid
  pr_average :: int
  pr_total :: int
  pr_distribution :: "(string \<times> int) list"

definition fits_rating :: "rating \<Rightarrow> bool" where
  "fits_rating r \<longleftrightarrow> int2 (r_rating r)"

definition check_rating :: "rating \<Rightarrow> bool" where
  "check_rating r \<longleftrightarrow> 1 \<le> r_rating r \<and> r_rating r \<le> 5"

definition fits_product_rating :: "product_rating \<Rightarrow> bool" where
  "fits_product_rating r \<longleftrightarrow> - 100 < pr_average r \<and> pr_average r < 100 \<and> int4 (pr_total r)"

definition check_product_rating :: "product_rating \<Rightarrow> bool" where
  "check_product_rating r \<longleftrightarrow> 10 \<le> pr_average r \<and> pr_average r \<le> 50 \<and> 1 \<le> pr_total r"

section \<open>Points\<close>

record point = row +
  pnt_name :: string
  pnt_address :: string
  pnt_type :: point_type
  pnt_hours :: json
  pnt_contacts :: json
  pnt_is_active :: bool

definition fits_point :: "point \<Rightarrow> bool" where
  "fits_point r \<longleftrightarrow> varchar 255 (pnt_name r)"

section \<open>Orders\<close>

record order = row +
  o_user_id :: uuid
  o_type :: order_type
  o_total_price :: money
  o_currency :: string
  o_status :: order_status
  o_notes :: "string option"

record order_product = row +
  op_order_id :: uuid
  op_product_id :: uuid
  op_product_name :: string
  op_product_price :: money
  op_quantity :: int
  op_grind :: "grind_size option"

record order_pickup_info = row +
  opi_order_id :: uuid
  opi_point_id :: uuid
  opi_pickup_code :: string
  opi_pickup_deadline :: datetime
  opi_picked_up_at :: "datetime option"

record order_delivery_info = row +
  odi_order_id :: uuid
  odi_recipient_name :: string
  odi_phone :: string
  odi_address :: string
  odi_city :: string
  odi_postal_code :: "string option"
  odi_notes :: "string option"
  odi_shipped_at :: "datetime option"
  odi_delivered_at :: "datetime option"

definition fits_order :: "order \<Rightarrow> bool" where
  "fits_order r \<longleftrightarrow> numeric_10_2 (o_total_price r) \<and> varchar 3 (o_currency r)"

definition check_order :: "order \<Rightarrow> bool" where
  "check_order r \<longleftrightarrow> 0 < o_total_price r"

definition fits_order_product :: "order_product \<Rightarrow> bool" where
  "fits_order_product r \<longleftrightarrow> varchar 255 (op_product_name r) \<and>
     numeric_10_2 (op_product_price r) \<and> int4 (op_quantity r)"

definition check_order_product :: "order_product \<Rightarrow> bool" where
  "check_order_product r \<longleftrightarrow> 0 < op_quantity r"

definition fits_pickup_info :: "order_pickup_info \<Rightarrow> bool" where
  "fits_pickup_info r \<longleftrightarrow> varchar 6 (opi_pickup_code r)"

definition fits_delivery_info :: "order_delivery_info \<Rightarrow> bool" where
  "fits_delivery_info r \<longleftrightarrow> varchar 255 (odi_recipient_name r) \<and> varchar 20 (odi_phone r) \<and>
     varchar 100 (odi_city r) \<and> opt_fits (varchar 20) (odi_postal_code r)"

section \<open>Payments\<close>

record order_payment = row +
  pay_order_id :: uuid
  pay_user_id :: uuid
  pay_amount :: money
  pay_method :: string
  pay_provider :: string
  pay_txn_id :: "string option"
  pay_status :: payment_status
  pay_completed_at :: "datetime option"

record payment_method = row +
  pm_user_id :: uuid
  pm_provider :: string
  pm_customer_id :: string
  pm_token :: string
  pm_brand :: string
  pm_last4 :: string
  pm_exp_month :: int
  pm_exp_year :: int
  pm_is_default :: bool

definition fits_order_payment :: "order_payment \<Rightarrow> bool" where
  "fits_order_payment r \<longleftrightarrow> numeric_10_2 (pay_amount r) \<and> varchar 30 (pay_method r) \<and>
     varchar 50 (pay_provider r) \<and> opt_fits (varchar 255) (pay_txn_id r)"

definition check_order_payment :: "order_payment \<Rightarrow> bool" where
  "check_order_payment r \<longleftrightarrow> 0 < pay_amount r"

definition fits_payment_method :: "payment_method \<Rightarrow> bool" where
  "fits_payment_method r \<longleftrightarrow> varchar 50 (pm_provider r) \<and> varchar 255 (pm_customer_id r) \<and>
     varchar 255 (pm_token r) \<and> varchar 30 (pm_brand r) \<and> varchar 4 (pm_last4 r) \<and>
     int4 (pm_exp_month r) \<and> int4 (pm_exp_year r)"

definition check_payment_method :: "payment_method \<Rightarrow> bool" where
  "check_payment_method r \<longleftrightarrow> 1 \<le> pm_exp_month r \<and> pm_exp_month r \<le> 12"

section \<open>Subscriptions\<close>

record subscription = row +
  s_user_id :: uuid
  s_frequency :: frequency
  s_status :: subscription_status

record subscription_delivery_info = row +
  sdi_subscription_id :: uuid
  sdi_recipient_name :: string
  sdi_phone :: string
  sdi_address :: string
  sdi_city :: string
  sdi_postal_code :: "string option"
  sdi_notes :: "string option"

record subscription_event = row +
  se_subscription_id :: uuid
  se_order_id :: "uuid option"
  se_scheduled_date :: date
  se_price :: money
  se_currency :: string
  se_status :: event_status

record subscription_product = row +
  sp_event_id :: uuid
  sp_product_id :: uuid
  sp_product_name :: string
  sp_product_price :: money

record subscription_payment = row +
  spay_event_id :: uuid
  spay_user_id :: uuid
  spay_amount :: money
  spay_method :: string
  spay_provider :: string
  spay_txn_id :: "string option"
  spay_status :: payment_status
  spay_completed_at :: "datetime option"

definition fits_subscription_delivery :: "subscription_delivery_info \<Rightarrow> bool" where
  "fits_subscription_delivery r \<longleftrightarrow> varchar 255 (sdi_recipient_name r) \<and>
     varchar 20 (sdi_phone r) \<and> varchar 100 (sdi_city r) \<and>
     opt_fits (varchar 20) (sdi_postal_code r)"

definition fits_subscription_event :: "subscription_event \<Rightarrow> bool" where
  "fits_subscription_event r \<longleftrightarrow> numeric_10_2 (se_price r) \<and> varchar 3 (se_currency r)"

definition check_subscription_event :: "subscription_event \<Rightarrow> bool" where
  "check_subscription_event r \<longleftrightarrow> 0 < se_price r"

definition fits_subscription_product :: "subscription_product \<Rightarrow> bool" where
  "fits_subscription_product r \<longleftrightarrow> varchar 255 (sp_product_name r) \<and>
     numeric_10_2 (sp_product_price r)"

definition check_subscription_product :: "subscription_product \<Rightarrow> bool" where
  "check_subscription_product r \<longleftrightarrow> 0 < sp_product_price r"

definition fits_subscription_payment :: "subscription_payment \<Rightarrow> bool" where
  "fits_subscription_payment r \<longleftrightarrow> numeric_10_2 (spay_amount r) \<and> varchar 30 (spay_method r) \<and>
     varchar 50 (spay_provider r) \<and> opt_fits (varchar 255) (spay_txn_id r)"

definition check_subscription_payment :: "subscription_payment \<Rightarrow> bool" where
  "check_subscription_payment r \<longleftrightarrow> 0 < spay_amount r"

end
