(* ===== verification/Errors.thy ===== *)
theory Errors
  imports Prelude
begin

text \<open>
  The exceptions of the service. Each domain's \<open>exceptions.py\<close> is a datatype with one
  constructor per class, holding what the constructor of the class takes, and a function to
  the three attributes of \<open>AppException\<close> (\<open>src/api/exceptions.py\<close>). \<open>exn\<close> joins them
  with the exceptions of the language, of the database and of the web framework, and
  \<open>respond\<close> is the centralised handler of \<open>src/api/exception_handlers.py\<close>.
\<close>

record app_exception =
  message :: string
  status_code :: nat
  error_code :: string

abbreviation app_exn :: "string \<Rightarrow> nat \<Rightarrow> string \<Rightarrow> app_exception" where
  "app_exn m c e \<equiv> \<lparr>message = m, status_code = c, error_code = e\<rparr>"

section \<open>Orders\<close>

datatype order_error =
    OrderNotFoundError uuid
  | OrderAccessDeniedError
  | OrderInvalidItemsError string
  | OrderProductNotFoundError uuid
  | OrderProductInactiveError uuid
  | OrderPickupPointNotFoundError uuid
  | OrderPickupPointUnavailableError uuid
  | OrderInvalidStatusTransitionError string string
  | OrderAdminForbiddenError string

fun order_exn :: "order_error \<Rightarrow> app_exception" where
  "order_exn (OrderNotFoundError i) =
     app_exn (''Order '' @ str_uuid i @ '' not found'') 404 ''ORDER_NOT_FOUND''"
| "order_exn OrderAccessDeniedError =
     app_exn ''Cannot access other users' orders'' 403 ''ORDER_ACCESS_DENIED''"
| "order_exn (OrderInvalidItemsError m) = app_exn m 400 ''ORDER_INVALID_ITEMS''"
| "order_exn (OrderProductNotFoundError i) =
     app_exn (''Product '' @ str_uuid i @ '' not found'') 404 ''ORDER_PRODUCT_NOT_FOUND''"
| "order_exn (OrderProductInactiveError i) =
     app_exn (''Product '' @ str_uuid i @ '' is inactive'') 409 ''ORDER_PRODUCT_INACTIVE''"
| "order_exn (OrderPickupPointNotFoundError i) =
     app_exn (''Pickup point '' @ str_uuid i @ '' not found'') 404
       ''ORDER_PICKUP_POINT_NOT_FOUND''"
| "order_exn (OrderPickupPointUnavailableError i) =
     app_exn (''Pickup point '' @ str_uuid i @ '' is not available'') 409
       ''ORDER_PICKUP_POINT_UNAVAILABLE''"
| "order_exn (OrderInvalidStatusTransitionError c t) =
     app_exn (''Cannot transition order from '' @ c @ '' to '' @ t) 409
       ''ORDER_INVALID_STATUS_TRANSITION''"
| "order_exn (OrderAdminForbiddenError m) = app_exn m 403 ''ORDER_ADMIN_FORBIDDEN''"

section \<open>Payments\<close>

datatype payment_error =
    PaymentNotFoundError string
  | PaymentAccessDeniedError
  | PaymentInvalidStateError string
  | PaymentCallbackInvalidError string
  | PaymentProviderError string
  | PaymentMethodNotFoundError uuid

fun payment_exn :: "payment_error \<Rightarrow> app_exception" where
  "payment_exn (PaymentNotFoundError r) =
     app_exn (''Payment '' @ r @ '' not found'') 404 ''PAYMENT_NOT_FOUND''"
| "payment_exn PaymentAccessDeniedError =
     app_exn ''Cannot pay another user's order'' 403 ''PAYMENT_ACCESS_DENIED''"
| "payment_exn (PaymentInvalidStateError m) = app_exn m 409 ''PAYMENT_INVALID_STATE''"
| "payment_exn (PaymentCallbackInvalidError m) = app_exn m 400 ''PAYMENT_CALLBACK_INVALID''"
| "payment_exn (PaymentProviderError m) = app_exn m 502 ''PAYMENT_PROVIDER_ERROR''"
| "payment_exn (PaymentMethodNotFoundError i) =
     app_exn (''Payment method '' @ str_uuid i @ '' not found'') 404
       ''PAYMENT_METHOD_NOT_FOUND''"

section \<open>Subscriptions\<close>

datatype subscription_error =
    SubscriptionNotFoundError uuid
  | SubscriptionAccessDeniedError
  | SubscriptionProductNotFoundError uuid
  | SubscriptionProductInactiveError uuid
  | SubscriptionInvalidStateError string string

fun subscription_exn :: "subscription_error \<Rightarrow> app_exception" where
  "subscription_exn (SubscriptionNotFoundError i) =
     app_exn (''Subscription '' @ str_uuid i @ '' not found'') 404 ''SUBSCRIPTION_NOT_FOUND''"
| "subscription_exn SubscriptionAccessDeniedError =
     app_exn ''Cannot access other users' subscriptions'' 403 ''SUBSCRIPTION_ACCESS_DENIED''"
| "subscription_exn (SubscriptionProductNotFoundError i) =
     app_exn (''Product '' @ str_uuid i @ '' not found'') 404
       ''SUBSCRIPTION_PRODUCT_NOT_FOUND''"
| "subscription_exn (SubscriptionProductInactiveError i) =
     app_exn (''Product '' @ str_uuid i @ '' is inactive'') 409
       ''SUBSCRIPTION_PRODUCT_INACTIVE''"
| "subscription_exn (SubscriptionInvalidStateError c a) =
     app_exn (''Cannot '' @ a @ '' a subscription in state '' @ [CHR 0x27] @ c @ [CHR 0x27])
       409 ''SUBSCRIPTION_INVALID_STATE''"

section \<open>Catalog\<close>

datatype catalog_error =
    ProductNotFoundError uuid
  | CatalogInvalidFilterError string string
  | ProductCategoryNotFoundError uuid
  | CatalogReferenceError string string
  | ProductTypeMismatchError string
  | ProductCategoryNotEmptyError uuid
  | AdminForbiddenError string

fun catalog_exn :: "catalog_error \<Rightarrow> app_exception" where
  "catalog_exn (ProductNotFoundError i) =
     app_exn (''Product '' @ str_uuid i @ '' not found'') 404 ''PRODUCT_NOT_FOUND''"
| "catalog_exn (CatalogInvalidFilterError f v) =
     app_exn (''Invalid '' @ f @ '': '' @ v) 400 ''CATALOG_INVALID_FILTER''"
| "catalog_exn (ProductCategoryNotFoundError i) =
     app_exn (''ProductCategory '' @ str_uuid i @ '' not found'') 404 ''CATEGORY_NOT_FOUND''"
| "catalog_exn (CatalogReferenceError r v) =
     app_exn (''Unknown '' @ r @ '': '' @ v) 400 ''CATALOG_INVALID_REFERENCE''"
| "catalog_exn (ProductTypeMismatchError t) =
     app_exn (''Expected attributes for product type '' @ [CHR 0x27] @ t @ [CHR 0x27]) 400
       ''CATALOG_PRODUCT_TYPE_MISMATCH''"
| "catalog_exn (ProductCategoryNotEmptyError i) =
     app_exn (''ProductCategory '' @ str_uuid i @ '' still has products'') 409
       ''CATALOG_CATEGORY_NOT_EMPTY''"
| "catalog_exn (AdminForbiddenError m) = app_exn m 403 ''CATALOG_ADMIN_FORBIDDEN''"

section \<open>Ratings, points, users\<close>

datatype rating_error =
    RatingInvalidValueError string
  | RatingNotPurchasedError uuid
  | RatingNotFoundError uuid

fun rating_exn :: "rating_error \<Rightarrow> app_exception" where
  "rating_exn (RatingInvalidValueError m) = app_exn m 400 ''RATING_INVALID_VALUE''"
| "rating_exn (RatingNotPurchasedError i) =
     app_exn (''You must purchase product '' @ str_uuid i @ '' to rate it'') 403
       ''RATING_NOT_PURCHASED''"
| "rating_exn (RatingNotFoundError i) =
     app_exn (''You have not rated product '' @ str_uuid i) 404 ''RATING_NOT_FOUND''"

datatype point_error =
    PointNotFoundError uuid
  | PointInUseError uuid
  | PointAdminForbiddenError string

fun point_exn :: "point_error \<Rightarrow> app_exception" where
  "point_exn (PointNotFoundError i) =
     app_exn (''Pickup point '' @ str_uuid i @ '' not found'') 404 ''POINT_NOT_FOUND''"
| "point_exn (PointInUseError i) =
     app_exn (''Pickup point '' @ str_uuid i @ '' is referenced by existing orders'') 409
       ''POINT_IN_USE''"
| "point_exn (PointAdminForbiddenError m) = app_exn m 403 ''POINT_ADMIN_FORBIDDEN''"

datatype user_error =
    UserUnauthorizedError string
  | UserNotFoundError string
  | UserInvalidDisplayNameError string
  | UserInvalidEmailError string
  | UserInvalidPreferenceError string

fun user_exn :: "user_error \<Rightarrow> app_exception" where
  "user_exn (UserUnauthorizedError m) = app_exn m 401 ''USER_UNAUTHORIZED''"
| "user_exn (UserNotFoundError m) = app_exn m 404 ''USER_NOT_FOUND''"
| "user_exn (UserInvalidDisplayNameError m) = app_exn m 400 ''USER_INVALID_DISPLAY_NAME''"
| "user_exn (UserInvalidEmailError m) = app_exn m 400 ''USER_INVALID_EMAIL''"
| "user_exn (UserInvalidPreferenceError m) = app_exn m 400 ''USER_INVALID_PREFERENCE''"

section \<open>Authentication\<close>

datatype auth_error =
    InvalidTokenError string
  | TokenExpiredError string
  | InvalidCodeError string
  | InvalidRefreshTokenError string
  | AccountNotFoundError string
  | AccountInactiveError string
  | AuthUnavailableError string

fun auth_exn :: "auth_error \<Rightarrow> app_exception" where
  "auth_exn (InvalidTokenError m) = app_exn m 401 ''AUTH_INVALID_TOKEN''"
| "auth_exn (TokenExpiredError m) = app_exn m 401 ''AUTH_TOKEN_EXPIRED''"
| "auth_exn (InvalidCodeError m) = app_exn m 400 ''AUTH_INVALID_CODE''"
| "auth_exn (InvalidRefreshTokenError m) = app_exn m 401 ''AUTH_INVALID_REFRESH_TOKEN''"
| "auth_exn (AccountNotFoundError m) = app_exn m 401 ''AUTH_ACCOUNT_NOT_FOUND''"
| "auth_exn (AccountInactiveError m) = app_exn m 401 ''AUTH_ACCOUNT_INACTIVE''"
| "auth_exn (AuthUnavailableError m) = app_exn m 503 ''AUTH_UNAVAILABLE''"

section \<open>All exceptions and their responses\<close>

text \<open>
  \<open>HTTPException\<close> carries its status and, when it is text, its detail;
  \<open>RequestValidationError\<close> the location and the message of each of its errors.
\<close>

datatype exn =
    OrderExn order_error
  | PaymentExn payment_error
  | SubscriptionExn subscription_error
  | CatalogExn catalog_error
  | RatingExn rating_error
  | PointExn point_error
  | UserExn user_error
  | AuthExn auth_error
  | HTTPException nat "string option"
  | RequestValidationError "(string list \<times> string) list"
  | IntegrityError
  | DataError
  | StaleDataError
  | RuntimeError string
  | ValueError string
  | TypeError
  | KeyError
  | AssertionError
  | AttributeError

fun app_exception_of :: "exn \<Rightarrow> app_exception option" where
  "app_exception_of (OrderExn e) = Some (order_exn e)"
| "app_exception_of (PaymentExn e) = Some (payment_exn e)"
| "app_exception_of (SubscriptionExn e) = Some (subscription_exn e)"
| "app_exception_of (CatalogExn e) = Some (catalog_exn e)"
| "app_exception_of (RatingExn e) = Some (rating_exn e)"
| "app_exception_of (PointExn e) = Some (point_exn e)"
| "app_exception_of (UserExn e) = Some (user_exn e)"
| "app_exception_of (AuthExn e) = Some (auth_exn e)"
| "app_exception_of _ = None"

record error_response =
  resp_error_code :: string
  resp_status_code :: nat
  resp_message :: string
  resp_request_id :: string

definition build_error_response :: "string \<Rightarrow> nat \<Rightarrow> string \<Rightarrow> string \<Rightarrow> error_response" where
  "build_error_response request_id code ecode msg =
     \<lparr>resp_error_code = ecode, resp_status_code = code, resp_message = msg,
      resp_request_id = request_id\<rparr>"

definition http_error_code :: "nat \<Rightarrow> string" where
  "http_error_code code =
     (if code = 404 then ''ROUTE_NOT_FOUND''
      else if code = 405 then ''METHOD_NOT_ALLOWED'' else ''HTTP_ERROR'')"

fun join_strings :: "string \<Rightarrow> string list \<Rightarrow> string" where
  "join_strings sep [] = []"
| "join_strings sep [x] = x"
| "join_strings sep (x # xs) = x @ sep @ join_strings sep xs"

definition validation_message :: "(string list \<times> string) list \<Rightarrow> string" where
  "validation_message errors =
     (let (loc, msg) = (case errors of [] \<Rightarrow> ([], ''Validation failed'') | e # _ \<Rightarrow> e);
          field = join_strings '' -> '' loc
      in if field \<noteq> [] then ''Validation failed: '' @ field @ '': '' @ msg else msg)"

definition respond :: "string \<Rightarrow> exn \<Rightarrow> error_response" where
  "respond rid e =
     (case app_exception_of e of
        Some a \<Rightarrow> build_error_response rid (status_code a) (error_code a) (message a)
      | None \<Rightarrow>
          (case e of
             RequestValidationError errors \<Rightarrow>
               build_error_response rid 422 ''VALIDATION_ERROR'' (validation_message errors)
           | HTTPException code detail \<Rightarrow>
               build_error_response rid code (http_error_code code)
                 (case detail of None \<Rightarrow> ''Request failed'' | Some d \<Rightarrow> d)
           | _ \<Rightarrow>
               build_error_response rid 500 ''INTERNAL_SERVER_ERROR'' ''Internal server error''))"

text \<open>
  An exception that no handler knows is answered with a fixed text: nothing of the
  exception reaches the response.
\<close>

lemma respond_internal:
  "app_exception_of e = None \<Longrightarrow> (\<And>c d. e \<noteq> HTTPException c d) \<Longrightarrow>
   (\<And>es. e \<noteq> RequestValidationError es) \<Longrightarrow>
   respond rid e =
     build_error_response rid 500 ''INTERNAL_SERVER_ERROR'' ''Internal server error''"
  by (cases e) (auto simp: respond_def)

text \<open>No class of the application's own hierarchy keeps the default status 500.\<close>

definition domain_status_codes :: "nat set" where
  "domain_status_codes = {400, 401, 403, 404, 409, 502, 503}"

lemma domain_statuses:
  "status_code (order_exn a) \<in> domain_status_codes"
  "status_code (payment_exn b) \<in> domain_status_codes"
  "status_code (subscription_exn c) \<in> domain_status_codes"
  "status_code (catalog_exn d) \<in> domain_status_codes"
  "status_code (rating_exn e) \<in> domain_status_codes"
  "status_code (point_exn f) \<in> domain_status_codes"
  "status_code (user_exn g) \<in> domain_status_codes"
  "status_code (auth_exn h) \<in> domain_status_codes"
  by ((cases a; simp add: domain_status_codes_def),
      (cases b; simp add: domain_status_codes_def),
      (cases c; simp add: domain_status_codes_def),
      (cases d; simp add: domain_status_codes_def),
      (cases e; simp add: domain_status_codes_def),
      (cases f; simp add: domain_status_codes_def),
      (cases g; simp add: domain_status_codes_def),
      (cases h; simp add: domain_status_codes_def))

lemma app_status_codes:
  "app_exception_of e = Some a \<Longrightarrow> status_code a \<in> domain_status_codes"
  by (cases e) (auto simp: domain_statuses)

end
