(* ===== verification/Database.thy ===== *)
theory Database
  imports Schema Errors
begin

text \<open>
  The relational store and the session in which a request runs: every table, the key and
  reference constraints an INSERT or UPDATE has to meet, the unit of work of \<open>get_db\<close>
  (\<open>src/api/core/database.py\<close>), and the parts of the world a service reaches besides the
  database: the clock, the random sources of \<open>uuid\<close> and \<open>secrets\<close>, the payment provider
  (its calls are logged, since they are not undone by a rollback) and the audit log.
\<close>

section \<open>Tables\<close>

record database =
  t_users :: "user list"
  t_preferences :: "user_preferences list"
  t_product_types :: "product_type list"
  t_categories :: "product_category list"
  t_products :: "product list"
  t_coffee :: "product_coffee list"
  t_equipment :: "product_equipment list"
  t_accessories :: "product_accessories list"
  t_consumables :: "product_consumables list"
  t_compatibility :: "product_compatibility list"
  t_ratings :: "rating list"
  t_product_ratings :: "product_rating list"
  t_points :: "point list"
  t_orders :: "order list"
  t_order_products :: "order_product list"
  t_pickup_info :: "order_pickup_info list"
  t_delivery_info :: "order_delivery_info list"
  t_order_payments :: "order_payment list"
  t_payment_methods :: "payment_method list"
  t_subscriptions :: "subscription list"
  t_sub_delivery :: "subscription_delivery_info list"
  t_events :: "subscription_event list"
  t_sub_products :: "subscription_product list"
  t_sub_payments :: "subscription_payment list"

definition empty_db :: database where
  "empty_db = \<lparr>t_users = [], t_preferences = [], t_product_types = [], t_categories = [],
     t_products = [], t_coffee = [], t_equipment = [], t_accessories = [], t_consumables = [],
     t_compatibility = [], t_ratings = [], t_product_ratings = [], t_points = [],
     t_orders = [], t_order_products = [], t_pickup_info = [], t_delivery_info = [],
     t_order_payments = [], t_payment_methods = [], t_subscriptions = [], t_sub_delivery = [],
     t_events = [], t_sub_products = [], t_sub_payments = []\<rparr>"

section \<open>The session\<close>

text \<open>The messages of the \<open>PaymentProvider\<close> interface (\<open>src/payments/provider.py\<close>).\<close>

record charge_request =
  ch_amount :: money
  ch_currency :: string
  ch_reference :: string
  ch_customer_id :: "string option"
  ch_method_token :: "string option"

record charge_result =
  cr_txn_id :: string
  cr_status :: string

record saved_method =
  sm_customer_id :: string
  sm_token :: string
  sm_brand :: string
  sm_last4 :: string
  sm_exp_month :: int
  sm_exp_year :: int

datatype provider_call =
    ChargeCall charge_request "exn + charge_result"
  | RefundCall string "exn + string"
  | SaveMethodCall string string "exn + saved_method"
  | DeleteMethodCall string

record audit_entry =
  au_logger :: string
  au_environment :: string
  au_operator :: string
  au_role :: "string option"
  au_action :: string
  au_target :: string

record world =
  wdb :: database
  now :: datetime
  uuid_src :: "nat \<Rightarrow> uuid"
  uuid_pos :: nat
  rand_src :: "nat \<Rightarrow> nat"
  rand_pos :: nat
  provider_log :: "provider_call list"
  audit_log :: "audit_entry list"

type_synonym 'a session = "(world, exn, 'a) svc"

definition query :: "(database \<Rightarrow> 'a) \<Rightarrow> 'a session" where
  "query f = gets (\<lambda>w. f (wdb w))"

definition uuid4 :: "uuid session" where
  "uuid4 = bind (gets (\<lambda>w. uuid_src w (uuid_pos w))) (\<lambda>u.
     bind (modify (\<lambda>w. w\<lparr>uuid_pos := Suc (uuid_pos w)\<rparr>)) (\<lambda>_. ret u))"

definition randbelow :: "nat \<Rightarrow> nat session" where
  "randbelow n = bind (gets (\<lambda>w. rand_src w (rand_pos w) mod n)) (\<lambda>k.
     bind (modify (\<lambda>w. w\<lparr>rand_pos := Suc (rand_pos w)\<rparr>)) (\<lambda>_. ret k))"

definition unit_of_work :: "'a session \<Rightarrow> 'a session" where
  \<comment> \<open>\<open>get_db\<close>: commit on success, roll back on an exception\<close>
  "unit_of_work m w =
     (case m w of
        (Inr a, w') \<Rightarrow> (Inr a, w')
      | (Inl e, w') \<Rightarrow> (Inl e, w'\<lparr>wdb := wdb w\<rparr>))"

lemma query_run [simp, svc_simps]: "query f w = (Inr (f (wdb w)), w)"
  by (simp add: query_def)

lemma bind_query [simp, svc_simps]: "bind (query f) g w = g (f (wdb w)) w"
  by (simp add: query_def)

lemma uuid4_run [svc_simps]:
  "uuid4 w = (Inr (uuid_src w (uuid_pos w)), w\<lparr>uuid_pos := Suc (uuid_pos w)\<rparr>)"
  by (simp add: uuid4_def)

lemma randbelow_run [svc_simps]:
  "randbelow n w = (Inr (rand_src w (rand_pos w) mod n), w\<lparr>rand_pos := Suc (rand_pos w)\<rparr>)"
  by (simp add: randbelow_def)

text \<open>A row the request needs, with the exception raised when there is none.\<close>

definition fetch :: "(database \<Rightarrow> 'a option) \<Rightarrow> exn \<Rightarrow> 'a session" where
  "fetch f e = bind (query f) (\<lambda>found. case found of None \<Rightarrow> raise e | Some r \<Rightarrow> ret r)"

lemma fetch_run [svc_simps]:
  "fetch f e w = (case f (wdb w) of None \<Rightarrow> (Inl e, w) | Some r \<Rightarrow> (Inr r, w))"
  by (simp add: fetch_def split: option.splits)

lemma bind_fetch [svc_simps]:
  "bind (fetch f e) g w = (case f (wdb w) of None \<Rightarrow> (Inl e, w) | Some r \<Rightarrow> g r w)"
  by (simp add: fetch_def bind_assoc split: option.splits)

lemma fetch_InrE [svc_elims]:
  assumes "fetch f e w = (Inr r, w')"
  obtains "f (wdb w) = Some r" and "w' = w"
  using assms by (auto simp: fetch_run split: option.splits)

lemma query_InrE [svc_elims]:
  assumes "query f w = (Inr a, w')"
  obtains "a = f (wdb w)" and "w' = w"
  using assms unfolding query_run by blast

text \<open>A request that fails leaves the database as it was.\<close>

lemma unit_of_work_Inl: "unit_of_work m w = (Inl e, w') \<Longrightarrow> wdb w' = wdb w"
  by (auto simp: unit_of_work_def split: prod.splits sum.splits)

lemma unit_of_work_Inr: "unit_of_work m w = (Inr a, w') \<longleftrightarrow> m w = (Inr a, w')"
  by (auto simp: unit_of_work_def split: prod.splits sum.splits)

text \<open>
  An invariant of the database has to hold where the unit of work commits, that is after a
  method has returned: \<open>preserves I m\<close>. Inside a method it may be broken for a while.
\<close>

definition preserves :: "(database \<Rightarrow> bool) \<Rightarrow> 'a session \<Rightarrow> bool" where
  "preserves I m \<longleftrightarrow> (\<forall>w a w'. m w = (Inr a, w') \<longrightarrow> I (wdb w) \<longrightarrow> I (wdb w'))"

lemma preservesI: "(\<And>w a w'. m w = (Inr a, w') \<Longrightarrow> I (wdb w) \<Longrightarrow> I (wdb w')) \<Longrightarrow> preserves I m"
  by (auto simp: preserves_def)

lemma preservesD: "preserves I m \<Longrightarrow> m w = (Inr a, w') \<Longrightarrow> I (wdb w) \<Longrightarrow> I (wdb w')"
  by (auto simp: preserves_def)

lemma preserves_bind:
  "preserves I m \<Longrightarrow> (\<And>a. preserves I (f a)) \<Longrightarrow> preserves I (bind m f)"
  by (auto simp: preserves_def elim!: bind_InrE)

lemma preserves_ret: "preserves I (ret a)"
  by (simp add: preserves_def)

lemma preserves_forM:
  assumes "\<And>x. preserves I (f x)"
  shows "preserves I (forM f xs)"
proof (induction xs)
  case Nil
  show ?case unfolding forM.simps by (rule preserves_ret)
next
  case (Cons x xs)
  show ?case
    unfolding forM.simps by (rule preserves_bind [OF assms preserves_bind [OF Cons.IH preserves_ret]])
qed

lemma preserves_frame:
  assumes "leaves (\<lambda>w. p (wdb w)) m" and "\<And>d. I d = J (p d)"
  shows "preserves I m"
proof (rule preservesI)
  fix w a w'
  assume "m w = (Inr a, w')" and "I (wdb w)"
  moreover from this(1) have "p (wdb w') = p (wdb w)" by (rule leavesD [OF assms(1)])
  ultimately show "I (wdb w')" by (simp add: assms(2))
qed

lemma preserves_unit_of_work:
  assumes "preserves I m"
  shows "keeps (\<lambda>w. I (wdb w)) (unit_of_work m)"
proof (rule evolvesI)
  fix w
  show "I (wdb w) \<longrightarrow> I (wdb (snd (unit_of_work m w)))"
  proof (cases "fst (m w)")
    case (Inl e)
    then show ?thesis by (cases "m w") (simp add: unit_of_work_def)
  next
    case (Inr a)
    then obtain w' where "m w = (Inr a, w')" by (cases "m w") auto
    then show ?thesis using assms by (simp add: unit_of_work_def preserves_def)
  qed
qed

section \<open>Rows in tables\<close>

text \<open>
  \<open>get\<close> selects a table and \<open>upd\<close> maps it. \<open>db_insert\<close> is a flushed INSERT, \<open>db_save\<close> the
  flushed UPDATE of a loaded row: the values have to fit the column types, the key has to be
  new, and \<open>ok\<close> states the CHECK, UNIQUE and FOREIGN KEY constraints of the table.
\<close>

definition db_insert ::
  "(database \<Rightarrow> 'a row_scheme list) \<Rightarrow>
   (('a row_scheme list \<Rightarrow> 'a row_scheme list) \<Rightarrow> database \<Rightarrow> database) \<Rightarrow>
   ('a row_scheme \<Rightarrow> bool) \<Rightarrow> (database \<Rightarrow> 'a row_scheme \<Rightarrow> bool) \<Rightarrow> 'a row_scheme \<Rightarrow> unit session" where
  "db_insert get upd fits ok r =
     bind (query get) (\<lambda>t.
     bind (query (\<lambda>d. ok d r)) (\<lambda>legal.
     bind (require (fits r) DataError) (\<lambda>_.
     bind (require (row_id r \<notin> set (row_ids t) \<and> legal) IntegrityError) (\<lambda>_.
     modify (\<lambda>w. w\<lparr>wdb := upd (\<lambda>t. t @ [r]) (wdb w)\<rparr>)))))"

definition db_add ::
  "(database \<Rightarrow> 'a row_scheme list) \<Rightarrow>
   (('a row_scheme list \<Rightarrow> 'a row_scheme list) \<Rightarrow> database \<Rightarrow> database) \<Rightarrow>
   ('a row_scheme \<Rightarrow> bool) \<Rightarrow> (database \<Rightarrow> 'a row_scheme \<Rightarrow> bool) \<Rightarrow>
   (uuid \<Rightarrow> datetime \<Rightarrow> 'a row_scheme) \<Rightarrow> 'a row_scheme session" where
  \<comment> \<open>the id is drawn by the column default, the timestamps by the server\<close>
  "db_add get upd fits ok mk =
     bind uuid4 (\<lambda>i. bind (gets now) (\<lambda>t.
     bind (db_insert get upd fits ok (mk i t)) (\<lambda>_. ret (mk i t))))"

definition db_save ::
  "(database \<Rightarrow> 'a row_scheme list) \<Rightarrow>
   (('a row_scheme list \<Rightarrow> 'a row_scheme list) \<Rightarrow> database \<Rightarrow> database) \<Rightarrow>
   ('a row_scheme \<Rightarrow> bool) \<Rightarrow> (database \<Rightarrow> 'a row_scheme \<Rightarrow> bool) \<Rightarrow> 'a row_scheme \<Rightarrow> unit session" where
  "db_save get upd fits ok r =
     bind (query (\<lambda>d. lookup (get d) (row_id r))) (\<lambda>stored.
     case stored of
       None \<Rightarrow> raise StaleDataError
     | Some old \<Rightarrow>
         bind (query (\<lambda>d. ok d r)) (\<lambda>legal.
         bind (require (r = old \<or> fits r) DataError) (\<lambda>_.
         bind (require (r = old \<or> legal) IntegrityError) (\<lambda>_.
         modify (\<lambda>w. w\<lparr>wdb := upd (replace_row (touch (now w) old r)) (wdb w)\<rparr>)))))"

definition db_delete ::
  "((('a row_scheme list \<Rightarrow> 'a row_scheme list) \<Rightarrow> database \<Rightarrow> database)) \<Rightarrow>
   (database \<Rightarrow> uuid \<Rightarrow> bool) \<Rightarrow> uuid \<Rightarrow> unit session" where
  \<comment> \<open>a flushed DELETE; \<open>held\<close> tells whether a RESTRICT reference holds the row\<close>
  "db_delete upd held i =
     bind (query (\<lambda>d. held d i)) (\<lambda>h.
     bind (require (\<not> h) IntegrityError) (\<lambda>_.
     modify (\<lambda>w. w\<lparr>wdb := upd (remove_row i) (wdb w)\<rparr>)))"

lemma db_delete_InrE [svc_elims]:
  assumes "db_delete upd held i w = (Inr a, w')"
  obtains "\<not> held (wdb w) i" and "w' = w\<lparr>wdb := upd (remove_row i) (wdb w)\<rparr>"
  using assms by (auto simp: db_delete_def svc_simps split: if_splits)

lemma db_insert_InrE [svc_elims]:
  assumes "db_insert get upd fits ok r w = (Inr a, w')"
  obtains "fits r" and "ok (wdb w) r" and "row_id r \<notin> set (row_ids (get (wdb w)))"
    and "w' = w\<lparr>wdb := upd (\<lambda>t. t @ [r]) (wdb w)\<rparr>"
  using assms by (auto simp: db_insert_def svc_simps split: if_splits)

lemma db_add_InrE [svc_elims]:
  assumes "db_add get upd fits ok mk w = (Inr r, w')"
  obtains "r = mk (uuid_src w (uuid_pos w)) (now w)" and "fits r" and "ok (wdb w) r"
    and "row_id r \<notin> set (row_ids (get (wdb w)))"
    and "w' = w\<lparr>wdb := upd (\<lambda>t. t @ [r]) (wdb w), uuid_pos := Suc (uuid_pos w)\<rparr>"
  using assms by (auto simp: db_add_def uuid4_run elim!: svc_elims)

lemma db_save_InrE [svc_elims]:
  assumes "db_save get upd fits ok r w = (Inr a, w')"
  obtains old where "lookup (get (wdb w)) (row_id r) = Some old"
    and "r = old \<or> (fits r \<and> ok (wdb w) r)"
    and "w' = w\<lparr>wdb := upd (replace_row (touch (now w) old r)) (wdb w)\<rparr>"
  using assms by (auto simp: db_save_def svc_simps split: option.splits if_splits)

lemma db_insert_eq:
  "db_insert get upd fits ok r w =
     (if \<not> fits r then (Inl DataError, w)
      else if row_id r \<in> set (row_ids (get (wdb w))) \<or> \<not> ok (wdb w) r then (Inl IntegrityError, w)
      else (Inr (), w\<lparr>wdb := upd (\<lambda>t. t @ [r]) (wdb w)\<rparr>))"
  by (simp add: db_insert_def svc_simps)

lemma db_save_eq:
  "lookup (get (wdb w)) (row_id r) = Some old \<Longrightarrow> r = old \<or> (fits r \<and> ok (wdb w) r) \<Longrightarrow>
   db_save get upd fits ok r w =
     (Inr (), w\<lparr>wdb := upd (replace_row (touch (now w) old r)) (wdb w)\<rparr>)"
  by (auto simp: db_save_def svc_simps)

lemma db_add_eq:
  assumes "fits (mk (uuid_src w (uuid_pos w)) (now w))" and "ok (wdb w) (mk (uuid_src w (uuid_pos w)) (now w))"
    and "row_id (mk (uuid_src w (uuid_pos w)) (now w)) \<notin> set (row_ids (get (wdb w)))"
  shows "db_add get upd fits ok mk w =
    (Inr (mk (uuid_src w (uuid_pos w)) (now w)),
     w\<lparr>wdb := upd (\<lambda>t. t @ [mk (uuid_src w (uuid_pos w)) (now w)]) (wdb w), uuid_pos := Suc (uuid_pos w)\<rparr>)"
  using assms by (simp add: db_add_def uuid4_run db_insert_eq bind_def)

text \<open>
  Which tables a method can change: \<open>frame p m\<close> says that \<open>m\<close> leaves the part \<open>p\<close> of the
  database alone, whatever its outcome.
\<close>

abbreviation frame :: "(database \<Rightarrow> 'p) \<Rightarrow> 'a session \<Rightarrow> bool" where
  "frame p m \<equiv> leaves (\<lambda>w. p (wdb w)) m"

lemma frame_query: "frame p (query f)"
  by (simp add: evolves_def)

lemma frame_fetch: "frame p (fetch f e)"
  by (simp add: evolves_def fetch_run split: option.splits)

lemma frame_uuid4: "frame p uuid4"
  by (simp add: evolves_def uuid4_run)

lemma frame_randbelow: "frame p (randbelow n)"
  by (simp add: evolves_def randbelow_run)

lemma now_fixed [intro]:
  "leaves now (query f)" "leaves now (fetch g e)" "leaves now uuid4" "leaves now (randbelow n)"
  "leaves now (db_add get upd fits ok mk)" "leaves now (db_save get upd fits ok r)"
  "leaves now (db_delete del held i)"
  by (simp_all add: evolves_def fetch_run uuid4_run randbelow_run db_add_def db_insert_eq bind_def
      db_save_def db_delete_def require_run split: option.splits)

lemma frame_insert: "(\<And>f d. p (upd f d) = p d) \<Longrightarrow> frame p (db_insert get upd fits ok r)"
  by (simp add: evolves_def db_insert_eq)

lemma frame_add: "(\<And>f d. p (upd f d) = p d) \<Longrightarrow> frame p (db_add get upd fits ok mk)"
  by (simp add: evolves_def db_add_def uuid4_run db_insert_eq bind_def)

lemma frame_save: "(\<And>f d. p (upd f d) = p d) \<Longrightarrow> frame p (db_save get upd fits ok r)"
  by (simp add: evolves_def db_save_def svc_simps split: option.splits)

lemma frame_delete: "(\<And>f d. p (upd f d) = p d) \<Longrightarrow> frame p (db_delete upd held i)"
  by (simp add: evolves_def db_delete_def svc_simps)

lemma frame_unit_of_work: "frame p m \<Longrightarrow> frame p (unit_of_work m)"
  by (auto simp: evolves_def unit_of_work_def split: prod.splits sum.splits) (metis snd_conv)

lemma frame_weaken: "leaves (\<lambda>w. p (wdb w)) m \<Longrightarrow> (\<And>d. q (p d) = q d) \<Longrightarrow> frame q m"
  unfolding evolves_def by metis

lemmas frame_intros = leaving.ev_intros frame_query frame_fetch frame_uuid4 frame_randbelow frame_insert
  frame_add frame_save frame_delete

section \<open>Constraints\<close>

abbreviation refers :: "'a row_scheme list \<Rightarrow> uuid \<Rightarrow> bool" where
  "refers t i \<equiv> i \<in> set (row_ids t)"

definition unique_by :: "('a row_scheme \<Rightarrow> 'k) \<Rightarrow> 'a row_scheme list \<Rightarrow> 'a row_scheme \<Rightarrow> bool" where
  "unique_by k t r \<longleftrightarrow> (\<forall>x \<in> set t. row_id x = row_id r \<or> k x \<noteq> k r)"

definition ok_user :: "database \<Rightarrow> user \<Rightarrow> bool" where
  "ok_user d r \<longleftrightarrow> u_auth_user_id r = None \<or> unique_by u_auth_user_id (t_users d) r"

definition ok_preferences :: "database \<Rightarrow> user_preferences \<Rightarrow> bool" where
  "ok_preferences d r \<longleftrightarrow> refers (t_users d) (up_user_id r) \<and>
     unique_by up_user_id (t_preferences d) r"

definition ok_category :: "database \<Rightarrow> product_category \<Rightarrow> bool" where
  "ok_category d r \<longleftrightarrow> refers (t_product_types d) (pc_product_type_id r) \<and>
     unique_by pc_name (t_categories d) r"

definition ok_product :: "database \<Rightarrow> product \<Rightarrow> bool" where
  "ok_product d r \<longleftrightarrow> check_product r \<and> refers (t_categories d) (p_category_id r) \<and>
     refers (t_product_types d) (p_type_id r)"

definition ok_coffee :: "database \<Rightarrow> product_coffee \<Rightarrow> bool" where
  "ok_coffee d r \<longleftrightarrow> check_coffee r \<and> refers (t_products d) (row_id r)"

definition ok_equipment :: "database \<Rightarrow> product_equipment \<Rightarrow> bool" where
  "ok_equipment d r \<longleftrightarrow> check_equipment r \<and> refers (t_products d) (row_id r)"

definition ok_accessories :: "database \<Rightarrow> product_accessories \<Rightarrow> bool" where
  "ok_accessories d r \<longleftrightarrow> refers (t_products d) (row_id r)"

definition ok_consumables :: "database \<Rightarrow> product_consumables \<Rightarrow> bool" where
  "ok_consumables d r \<longleftrightarrow> check_consumables r \<and> refers (t_products d) (row_id r)"

definition ok_compatibility :: "database \<Rightarrow> product_compatibility \<Rightarrow> bool" where
  "ok_compatibility d r \<longleftrightarrow> check_compatibility r \<and> refers (t_products d) (cmp_accessory_id r) \<and>
     refers (t_products d) (cmp_compatible_id r) \<and>
     unique_by (\<lambda>x. (cmp_accessory_id x, cmp_compatible_id x)) (t_compatibility d) r"

definition ok_rating :: "database \<Rightarrow> rating \<Rightarrow> bool" where
  "ok_rating d r \<longleftrightarrow> check_rating r \<and> refers (t_products d) (r_product_id r) \<and>
     refers (t_users d) (r_user_id r) \<and>
     unique_by (\<lambda>x. (r_product_id x, r_user_id x)) (t_ratings d) r"

definition ok_product_rating :: "database \<Rightarrow> product_rating \<Rightarrow> bool" where
  "ok_product_rating d r \<longleftrightarrow> check_product_rating r \<and> refers (t_products d) (pr_product_id r) \<and>
     unique_by pr_product_id (t_product_ratings d) r"

definition ok_point :: "database \<Rightarrow> point \<Rightarrow> bool" where
  "ok_point d r \<longleftrightarrow> True"

definition ok_order :: "database \<Rightarrow> order \<Rightarrow> bool" where
  "ok_order d r \<longleftrightarrow> check_order r \<and> refers (t_users d) (o_user_id r)"

definition ok_order_product :: "database \<Rightarrow> order_product \<Rightarrow> bool" where
  "ok_order_product d r \<longleftrightarrow> check_order_product r \<and> refers (t_orders d) (op_order_id r) \<and>
     refers (t_products d) (op_product_id r)"

definition ok_pickup_info :: "database \<Rightarrow> order_pickup_info \<Rightarrow> bool" where
  "ok_pickup_info d r \<longleftrightarrow> refers (t_orders d) (opi_order_id r) \<and>
     refers (t_points d) (opi_point_id r) \<and> unique_by opi_order_id (t_pickup_info d) r \<and>
     unique_by opi_pickup_code (t_pickup_info d) r"

definition ok_delivery_info :: "database \<Rightarrow> order_delivery_info \<Rightarrow> bool" where
  "ok_delivery_info d r \<longleftrightarrow> refers (t_orders d) (odi_order_id r) \<and>
     unique_by odi_order_id (t_delivery_info d) r"

definition ok_order_payment :: "database \<Rightarrow> order_payment \<Rightarrow> bool" where
  "ok_order_payment d r \<longleftrightarrow> check_order_payment r \<and> refers (t_orders d) (pay_order_id r) \<and>
     refers (t_users d) (pay_user_id r)"

definition ok_payment_method :: "database \<Rightarrow> payment_method \<Rightarrow> bool" where
  "ok_payment_method d r \<longleftrightarrow> check_payment_method r \<and> refers (t_users d) (pm_user_id r) \<and>
     unique_by (\<lambda>x. (pm_provider x, pm_token x)) (t_payment_methods d) r"

definition ok_subscription :: "database \<Rightarrow> subscription \<Rightarrow> bool" where
  "ok_subscription d r \<longleftrightarrow> refers (t_users d) (s_user_id r)"

definition ok_sub_delivery :: "database \<Rightarrow> subscription_delivery_info \<Rightarrow> bool" where
  "ok_sub_delivery d r \<longleftrightarrow> refers (t_subscriptions d) (sdi_subscription_id r) \<and>
     unique_by sdi_subscription_id (t_sub_delivery d) r"

definition ok_event :: "database \<Rightarrow> subscription_event \<Rightarrow> bool" where
  "ok_event d r \<longleftrightarrow> check_subscription_event r \<and>
     refers (t_subscriptions d) (se_subscription_id r) \<and>
     (case se_order_id r of None \<Rightarrow> True | Some i \<Rightarrow> refers (t_orders d) i) \<and>
     unique_by (\<lambda>x. (se_subscription_id x, se_scheduled_date x)) (t_events d) r"

definition ok_sub_product :: "database \<Rightarrow> subscription_product \<Rightarrow> bool" where
  "ok_sub_product d r \<longleftrightarrow> check_subscription_product r \<and> refers (t_events d) (sp_event_id r) \<and>
     refers (t_products d) (sp_product_id r) \<and> unique_by sp_event_id (t_sub_products d) r"

definition ok_sub_payment :: "database \<Rightarrow> subscription_payment \<Rightarrow> bool" where
  "ok_sub_payment d r \<longleftrightarrow> check_subscription_payment r \<and> refers (t_events d) (spay_event_id r) \<and>
     refers (t_users d) (spay_user_id r)"

section \<open>The tables as keyed relations\<close>

text \<open>
  What a service relies on when it adds or saves a row: the row is found under its key
  afterwards, no other row of the table changes, and keys stay distinct.
\<close>

locale keyed_relation =
  fixes get :: "database \<Rightarrow> 'a row_scheme list"
    and upd :: "('a row_scheme list \<Rightarrow> 'a row_scheme list) \<Rightarrow> database \<Rightarrow> database"
    and fits :: "'a row_scheme \<Rightarrow> bool"
    and ok :: "database \<Rightarrow> 'a row_scheme \<Rightarrow> bool"
  assumes get_upd: "get (upd f d) = f (get d)"
    and upd_upd: "upd f (upd g d) = upd (\<lambda>t. f (g t)) d"
    and upd_same: "upd (\<lambda>t. t) d = d"
    and upd_cong: "f (get d) = g (get d) \<Longrightarrow> upd f d = upd g d"
begin

lemma add_table:
  "db_add get upd fits ok mk w = (Inr r, w') \<Longrightarrow> get (wdb w') = get (wdb w) @ [r]"
  by (auto elim!: svc_elims simp: get_upd)

lemma add_lookup:
  assumes "db_add get upd fits ok mk w = (Inr r, w')"
  shows "lookup (get (wdb w')) i = (if i = row_id r then Some r else lookup (get (wdb w)) i)"
proof -
  have "lookup (get (wdb w)) (row_id r) = None"
    using assms by (auto elim!: db_add_InrE simp: lookup_None_iff)
  then show ?thesis
    using add_table [OF assms] by (auto simp: lookup_append split: option.splits)
qed

lemma add_keeps_distinct:
  "keeps (\<lambda>w. distinct (row_ids (get (wdb w)))) (db_add get upd fits ok mk)"
  by (auto simp: evolves_def db_add_def uuid4_run bind_def db_insert_eq get_upd split: if_splits)

lemma save_lookup:
  assumes "db_save get upd fits ok r w = (Inr u, w')"
  obtains old where "lookup (get (wdb w)) (row_id r) = Some old"
    and "\<And>i. lookup (get (wdb w')) i =
           (if i = row_id r then Some (touch (now w) old r) else lookup (get (wdb w)) i)"
proof -
  from assms obtain old where old: "lookup (get (wdb w)) (row_id r) = Some old"
    and w': "w' = w\<lparr>wdb := upd (replace_row (touch (now w) old r)) (wdb w)\<rparr>"
    by (rule db_save_InrE)
  from old have id: "row_id r = row_id old" by (simp add: lookup_SomeD)
  show thesis
    by (rule that [OF old]) (use old id in \<open>auto simp: w' get_upd lookup_replace\<close>)
qed

lemma save_ids:
  assumes "db_save get upd fits ok r w = (Inr u, w')"
  shows "row_ids (get (wdb w')) = row_ids (get (wdb w))"
  using assms by (auto elim!: db_save_InrE simp: get_upd)

lemma save_keeps_distinct:
  "keeps (\<lambda>w. distinct (row_ids (get (wdb w)))) (db_save get upd fits ok r)"
  by (auto simp: evolves_def db_save_def svc_simps get_upd split: option.splits if_splits)

lemma save_columns:
  assumes "db_save get upd fits ok r w = (Inr u, w')" and "distinct (row_ids (get (wdb w)))"
    and "\<And>old. lookup (get (wdb w)) (row_id r) = Some old \<Longrightarrow> key r = key old"
    and "\<And>x t. key (x\<lparr>updated_at := t\<rparr>) = key x"
  shows "map key (get (wdb w')) = map key (get (wdb w))"
proof -
  from assms(1) obtain old where old: "lookup (get (wdb w)) (row_id r) = Some old"
    and w': "w' = w\<lparr>wdb := upd (replace_row (touch (now w) old r)) (wdb w)\<rparr>"
    by (rule db_save_InrE)
  have "key (touch (now w) old r) = key old"
    using assms(3) [OF old] assms(4) by (auto simp: touch_def)
  moreover have "lookup (get (wdb w)) (row_id (touch (now w) old r)) = Some old"
    using old lookup_SomeD [OF old] by auto
  ultimately show ?thesis
    using assms(2) by (simp add: w' get_upd map_replace)
qed

lemma forM_add:
  assumes "forM (\<lambda>l. db_add get upd fits ok (mk l)) ls w = (Inr xs, w')"
  shows "get (wdb w') = get (wdb w) @ xs \<and> now w' = now w \<and>
    (\<exists>is. length is = length ls \<and> xs = map2 (\<lambda>l i. mk l i (now w)) ls is) \<and>
    list_all fits xs \<and> (distinct (row_ids (get (wdb w))) \<longrightarrow> distinct (row_ids (get (wdb w'))))"
  using assms
proof (induction ls arbitrary: w xs)
  case (Cons l ls)
  from Cons.prems obtain x v ys where x: "db_add get upd fits ok (mk l) w = (Inr x, v)"
    and ys: "forM (\<lambda>l. db_add get upd fits ok (mk l)) ls v = (Inr ys, w')" and xs: "xs = x # ys"
    by (auto elim!: bind_InrE)
  from x have v: "get (wdb v) = get (wdb w) @ [x]" "now v = now w" "fits x"
      "x = mk l (uuid_src w (uuid_pos w)) (now w)" "row_id x \<notin> set (row_ids (get (wdb w)))"
    by (auto elim!: db_add_InrE simp: get_upd)
  from Cons.IH [OF ys] obtain js where "length js = length ls"
      "ys = map2 (\<lambda>l i. mk l i (now w)) ls js" "get (wdb w') = get (wdb v) @ ys" "list_all fits ys"
      "now w' = now v" "distinct (row_ids (get (wdb v))) \<longrightarrow> distinct (row_ids (get (wdb w')))"
    by (auto simp: v)
  then show ?case
    using v by (auto simp: xs intro!: exI [of _ "uuid_src w (uuid_pos w) # js"])
qed simp

text \<open>The same with the database and the constraints that were checked on the way.\<close>

lemma forM_add_world:
  assumes "forM (\<lambda>l. db_add get upd fits ok (mk l)) ls w = (Inr xs, w')"
  shows "w' = w\<lparr>wdb := upd (\<lambda>t. t @ xs) (wdb w), uuid_pos := uuid_pos w + length ls\<rparr> \<and>
    (\<forall>x \<in> set xs. fits x \<and> (\<exists>ys. ok (upd (\<lambda>t. t @ ys) (wdb w)) x))"
  using assms
proof (induction ls arbitrary: w xs)
  case Nil
  then show ?case by (simp add: upd_same)
next
  case (Cons l ls)
  from Cons.prems obtain x v ys where x: "db_add get upd fits ok (mk l) w = (Inr x, v)"
    and ys: "forM (\<lambda>l. db_add get upd fits ok (mk l)) ls v = (Inr ys, w')" and xs: "xs = x # ys"
    by (auto elim!: bind_InrE)
  from x have v: "v = w\<lparr>wdb := upd (\<lambda>t. t @ [x]) (wdb w), uuid_pos := Suc (uuid_pos w)\<rparr>"
    and "fits x" "ok (wdb w) x" by (auto elim!: db_add_InrE)
  then have "fits x \<and> (\<exists>zs. ok (upd (\<lambda>t. t @ zs) (wdb w)) x)"
    by (intro conjI exI [of _ "[]"]) (simp_all add: upd_same)
  moreover have "upd (\<lambda>t. t @ zs) (wdb v) = upd (\<lambda>t. t @ (x # zs)) (wdb w)" for zs
    by (simp add: v upd_upd)
  ultimately show ?case
    using Cons.IH [OF ys] unfolding xs by (auto simp: v intro: exI [of _ "x # zs" for zs])
qed

text \<open>An UPDATE of stored rows as a map over the table.\<close>

lemma save_on:
  assumes "db_save get upd fits ok (f e) w = (Inr u, w')" and "e \<in> set (get (wdb w))"
    and "distinct (row_ids (get (wdb w)))" and "row_id (f e) = row_id e"
  shows "w' = w\<lparr>wdb := upd (map (on {row_id e} (\<lambda>x. touch (now w) x (f x)))) (wdb w)\<rparr>"
proof -
  have "lookup (get (wdb w)) (row_id (f e)) = Some e" using assms(2-4) by (simp add: lookup_unique)
  with assms(1) have "w' = w\<lparr>wdb := upd (replace_row (touch (now w) e (f e))) (wdb w)\<rparr>"
    by (auto elim!: db_save_InrE)
  moreover have "replace_row (touch (now w) e (f e)) (get (wdb w)) =
      map (on {row_id e} (\<lambda>x. touch (now w) x (f x))) (get (wdb w))"
    using assms(4) by (intro replace_on [OF assms(3,2), where f = "\<lambda>x. touch (now w) x (f x)"]) simp
  then have "upd (replace_row (touch (now w) e (f e))) (wdb w) =
      upd (map (on {row_id e} (\<lambda>x. touch (now w) x (f x)))) (wdb w)" by (rule upd_cong)
  ultimately show ?thesis by (simp only:)
qed

lemma forM_save_on:
  assumes "forM (\<lambda>e. if P e then db_save get upd fits ok (f e) else ret ()) es w = (Inr us, w')"
    and "set es \<subseteq> set (get (wdb w))" and "distinct (row_ids es)" and "distinct (row_ids (get (wdb w)))"
    and id: "\<And>x. row_id (f x) = row_id x"
  shows "w' = w\<lparr>wdb := upd (map (on (set (row_ids es)) (\<lambda>x. if P x then touch (now w) x (f x) else x))) (wdb w)\<rparr>"
  using assms(1-4)
proof (induction es arbitrary: w us)
  case (Cons e es)
  define h where "h x = (if P x then touch (now w) x (f x) else x)" for x
  have h: "row_id (h x) = row_id x" for x using id by (simp add: h_def)
  from Cons.prems(1) obtain v vs where step: "(if P e then db_save get upd fits ok (f e) else ret ()) w = (Inr (), v)"
    and rest: "forM (\<lambda>e. if P e then db_save get upd fits ok (f e) else ret ()) es v = (Inr vs, w')"
    by (auto elim!: bind_InrE)
  have e: "e \<in> set (get (wdb w))" using Cons.prems(2) by simp
  have v: "v = w\<lparr>wdb := upd (map (on {row_id e} h)) (wdb w)\<rparr>"
  proof (cases "P e")
    case True
    with step have "v = w\<lparr>wdb := upd (map (on {row_id e} (\<lambda>x. touch (now w) x (f x)))) (wdb w)\<rparr>"
      using e Cons.prems(4) id by (intro save_on [where f = f]) simp_all
    moreover have "map (on {row_id e} (\<lambda>x. touch (now w) x (f x))) (get (wdb w)) = map (on {row_id e} h) (get (wdb w))"
      using same_row [OF Cons.prems(4) _ e] True by (auto simp: on_def h_def)
    then have "upd (map (on {row_id e} (\<lambda>x. touch (now w) x (f x)))) (wdb w) =
        upd (map (on {row_id e} h)) (wdb w)" by (rule upd_cong)
    ultimately show ?thesis by (simp only:)
  next
    case False
    have "map (on {row_id e} h) (get (wdb w)) = get (wdb w)"
      using same_row [OF Cons.prems(4) _ e] False by (intro map_idI) (auto simp: on_def h_def)
    then have "upd (map (on {row_id e} h)) (wdb w) = upd (\<lambda>t. t) (wdb w)" by (rule upd_cong)
    then show ?thesis using step False by (simp add: upd_same)
  qed
  have nv: "now v = now w" by (simp add: v)
  have "x \<in> set (get (wdb v))" if x: "x \<in> set es" for x
  proof -
    have "row_id x \<noteq> row_id e" using Cons.prems(3) row_id_in [OF x] by auto
    then have "x = on {row_id e} h x" by (simp only: on_def singleton_iff if_False)
    moreover have "x \<in> set (get (wdb w))" using Cons.prems(2) x by auto
    ultimately have "x \<in> on {row_id e} h ` set (get (wdb w))" by (rule image_eqI)
    then show ?thesis by (simp add: v get_upd)
  qed
  moreover have "distinct (row_ids (get (wdb v)))"
    using Cons.prems(4) row_ids_map [of "on {row_id e} h" "get (wdb w)"] h by (simp add: v get_upd on_def)
  ultimately have "w' = v\<lparr>wdb := upd (map (on (set (row_ids es)) h)) (wdb v)\<rparr>"
    using Cons.prems(3) Cons.IH [OF rest, unfolded nv, folded h_def] by (simp add: subset_iff)
  moreover have "on (set (row_ids es)) h (on {row_id e} h x) = on (set (row_ids (e # es))) h x" for x
    using Cons.prems(3) h by (simp add: on_on)
  ultimately show ?case by (simp add: v upd_upd o_def h_def [abs_def])
qed (simp add: upd_same)

text \<open>A loop of UPDATEs succeeds when each stored row fits and meets its constraints after any of the others.\<close>

lemma save_run:
  assumes "e \<in> set (get (wdb w))" and "distinct (row_ids (get (wdb w)))" and "row_id (f e) = row_id e"
    and "fits (f e)" and "ok (wdb w) (f e)"
  shows "db_save get upd fits ok (f e) w =
    (Inr (), w\<lparr>wdb := upd (map (on {row_id e} (\<lambda>x. touch (now w) x (f x)))) (wdb w)\<rparr>)"
proof -
  have "lookup (get (wdb w)) (row_id (f e)) = Some e" using assms(1-3) by (simp add: lookup_unique)
  then have run: "db_save get upd fits ok (f e) w = (Inr (), w\<lparr>wdb := upd (replace_row (touch (now w) e (f e))) (wdb w)\<rparr>)"
    using assms(4,5) by (intro db_save_eq) simp_all
  from save_on [where f = f, OF run assms(1-3)] run show ?thesis by simp
qed

lemma forM_save_total:
  assumes "set es \<subseteq> set (get d)" and "distinct (row_ids es)" and "distinct (row_ids (get d))"
    and id: "\<And>x. row_id (f x) = row_id x"
    and ok: "\<And>A e. e \<in> set es \<Longrightarrow> P e \<Longrightarrow> fits (f e) \<and>
      ok (upd (map (on A (\<lambda>x. if P x then touch t x (f x) else x))) d) (f e)"
    and "wdb w = upd (map (on A (\<lambda>x. if P x then touch t x (f x) else x))) d" and "now w = t"
    and "A \<inter> set (row_ids es) = {}"
  shows "\<exists>us w'. forM (\<lambda>e. if P e then db_save get upd fits ok (f e) else ret ()) es w = (Inr us, w')"
  using assms(1,2,5-)
proof (induction es arbitrary: w A)
  case (Cons e es)
  define h where "h x = (if P x then touch t x (f x) else x)" for x
  have h: "row_id (h x) = row_id x" for x using id by (simp add: h_def)
  have w: "wdb w = upd (map (on A h)) d" using Cons.prems(4) by (simp add: h_def [abs_def])
  have e: "e \<in> set (get d)" "row_id e \<notin> A" using Cons.prems(1,6) by auto
  then have "e = on A h e" by (simp add: on_def)
  with e(1) have "e \<in> on A h ` set (get d)" by (rule image_eqI [rotated])
  then have stored: "e \<in> set (get (wdb w))" by (simp add: w get_upd)
  have dist: "distinct (row_ids (get (wdb w)))"
    using assms(3) row_ids_map [of "on A h" "get d"] h by (simp add: w get_upd on_def)
  obtain v where v: "(if P e then db_save get upd fits ok (f e) else ret ()) w = (Inr (), v)"
      "wdb v = upd (map (on (insert (row_id e) A) h)) d" "now v = t"
  proof (cases "P e")
    case False
    have "on A h x = on (insert (row_id e) A) h x" if "x \<in> set (get d)" for x
      using same_row [OF assms(3) that e(1)] False by (auto simp: on_def h_def)
    then have "map (on A h) (get d) = map (on (insert (row_id e) A) h) (get d)" by (intro map_cong [OF refl])
    then have "upd (map (on A h)) d = upd (map (on (insert (row_id e) A) h)) d" by (rule upd_cong)
    with False show thesis using w Cons.prems(5) by (intro that [of w]) simp_all
  next
    case True
    have "fits (f e)" "ok (wdb w) (f e)" using Cons.prems(3) [of e A] True w by (simp_all add: h_def [abs_def])
    from save_run [where f = f, OF stored dist id this]
    have run: "db_save get upd fits ok (f e) w = (Inr (), w\<lparr>wdb := upd (map (on {row_id e} (\<lambda>x. touch t x (f x)))) (wdb w)\<rparr>)"
      by (simp only: Cons.prems(5))
    have "on {row_id e} (\<lambda>x. touch t x (f x)) (on A h x) = on (insert (row_id e) A) h x" if "x \<in> set (get d)" for x
      using same_row [OF assms(3) that e(1)] True e(2) h by (auto simp: on_def h_def)
    then have "map (on {row_id e} (\<lambda>x. touch t x (f x)) \<circ> on A h) (get d) = map (on (insert (row_id e) A) h) (get d)"
      by (intro map_cong [OF refl]) (simp only: o_def)
    then have "upd (map (on {row_id e} (\<lambda>x. touch t x (f x)) \<circ> on A h)) d = upd (map (on (insert (row_id e) A) h)) d"
      by (rule upd_cong)
    then have "upd (map (on {row_id e} (\<lambda>x. touch t x (f x)))) (wdb w) = upd (map (on (insert (row_id e) A) h)) d"
      by (simp add: w upd_upd o_def)
    with True run show thesis using Cons.prems(5)
      by (intro that [of "w\<lparr>wdb := upd (map (on (insert (row_id e) A) h)) d\<rparr>"]) simp_all
  qed
  have "\<exists>us w'. forM (\<lambda>e. if P e then db_save get upd fits ok (f e) else ret ()) es v = (Inr us, w')"
  proof (rule Cons.IH [of v "insert (row_id e) A"])
    show "wdb v = upd (map (on (insert (row_id e) A) (\<lambda>x. if P x then touch t x (f x) else x))) d"
      using v(2) by (simp only: h_def [abs_def])
    show "insert (row_id e) A \<inter> set (row_ids es) = {}" using Cons.prems(2,6) by auto
    show "fits (f e) \<and> ok (upd (map (on B (\<lambda>x. if P x then touch t x (f x) else x))) d) (f e)"
      if "e \<in> set es" "P e" for B e using Cons.prems(3) [of e B] that by simp
  qed (use Cons.prems v in auto)
  then obtain us w' where r: "forM (\<lambda>e. if P e then db_save get upd fits ok (f e) else ret ()) es v = (Inr us, w')" by blast
  have "forM (\<lambda>e. if P e then db_save get upd fits ok (f e) else ret ()) (e # es) w = (Inr (() # us), w')"
    by (simp only: forM.simps bind_def v(1) r prod.case sum.case ret_run)
  then show ?case by blast
qed simp

lemma save_same: "lookup (get (wdb w)) (row_id r) = Some r \<Longrightarrow> distinct (row_ids (get (wdb w))) \<Longrightarrow>
   db_save get upd fits ok r w = (Inr (), w\<lparr>wdb := upd (replace_row r) (wdb w)\<rparr>)"
  by (simp add: db_save_eq touch_def)

end

interpretation users_rel: keyed_relation t_users t_users_update fits_user ok_user
  by (unfold_locales; (simp add: o_def)?; rename_tac f d g; case_tac d; simp)

interpretation preferences_rel: keyed_relation t_preferences t_preferences_update fits_preferences ok_preferences
  by (unfold_locales; (simp add: o_def)?; rename_tac f d g; case_tac d; simp)

interpretation categories_rel: keyed_relation t_categories t_categories_update fits_product_category ok_category
  by (unfold_locales; (simp add: o_def)?; rename_tac f d g; case_tac d; simp)

interpretation products_rel: keyed_relation t_products t_products_update fits_product ok_product
  by (unfold_locales; (simp add: o_def)?; rename_tac f d g; case_tac d; simp)

interpretation coffee_rel: keyed_relation t_coffee t_coffee_update fits_coffee ok_coffee
  by (unfold_locales; (simp add: o_def)?; rename_tac f d g; case_tac d; simp)

interpretation equipment_rel: keyed_relation t_equipment t_equipment_update fits_equipment ok_equipment
  by (unfold_locales; (simp add: o_def)?; rename_tac f d g; case_tac d; simp)

interpretation accessories_rel: keyed_relation t_accessories t_accessories_update fits_accessories ok_accessories
  by (unfold_locales; (simp add: o_def)?; rename_tac f d g; case_tac d; simp)

interpretation consumables_rel: keyed_relation t_consumables t_consumables_update fits_consumables ok_consumables
  by (unfold_locales; (simp add: o_def)?; rename_tac f d g; case_tac d; simp)

interpretation ratings_rel: keyed_relation t_ratings t_ratings_update fits_rating ok_rating
  by (unfold_locales; (simp add: o_def)?; rename_tac f d g; case_tac d; simp)

interpretation product_ratings_rel: keyed_relation t_product_ratings t_product_ratings_update fits_product_rating ok_product_rating
  by (unfold_locales; (simp add: o_def)?; rename_tac f d g; case_tac d; simp)

interpretation points_rel: keyed_relation t_points t_points_update fits_point ok_point
  by (unfold_locales; (simp add: o_def)?; rename_tac f d g; case_tac d; simp)

interpretation orders_rel: keyed_relation t_orders t_orders_update fits_order ok_order
  by (unfold_locales; (simp add: o_def)?; rename_tac f d g; case_tac d; simp)

interpretation order_products_rel: keyed_relation t_order_products t_order_products_update fits_order_product ok_order_product
  by (unfold_locales; (simp add: o_def)?; rename_tac f d g; case_tac d; simp)

interpretation pickup_info_rel: keyed_relation t_pickup_info t_pickup_info_update fits_pickup_info ok_pickup_info
  by (unfold_locales; (simp add: o_def)?; rename_tac f d g; case_tac d; simp)

interpretation delivery_info_rel: keyed_relation t_delivery_info t_delivery_info_update fits_delivery_info ok_delivery_info
  by (unfold_locales; (simp add: o_def)?; rename_tac f d g; case_tac d; simp)

interpretation order_payments_rel: keyed_relation t_order_payments t_order_payments_update fits_order_payment ok_order_payment
  by (unfold_locales; (simp add: o_def)?; rename_tac f d g; case_tac d; simp)

interpretation payment_methods_rel: keyed_relation t_payment_methods t_payment_methods_update fits_payment_method ok_payment_method
  by (unfold_locales; (simp add: o_def)?; rename_tac f d g; case_tac d; simp)

interpretation subscriptions_rel: keyed_relation t_subscriptions t_subscriptions_update "\<lambda>_. True" ok_subscription
  by (unfold_locales; (simp add: o_def)?; rename_tac f d g; case_tac d; simp)

interpretation sub_delivery_rel: keyed_relation t_sub_delivery t_sub_delivery_update fits_subscription_delivery ok_sub_delivery
  by (unfold_locales; (simp add: o_def)?; rename_tac f d g; case_tac d; simp)

interpretation events_rel: keyed_relation t_events t_events_update fits_subscription_event ok_event
  by (unfold_locales; (simp add: o_def)?; rename_tac f d g; case_tac d; simp)

interpretation sub_products_rel: keyed_relation t_sub_products t_sub_products_update fits_subscription_product ok_sub_product
  by (unfold_locales; (simp add: o_def)?; rename_tac f d g; case_tac d; simp)

interpretation sub_payments_rel: keyed_relation t_sub_payments t_sub_payments_update fits_subscription_payment ok_sub_payment
  by (unfold_locales; (simp add: o_def)?; rename_tac f d g; case_tac d; simp)

text \<open>The INSERT and the UPDATE of each table.\<close>

abbreviation "add_user \<equiv> db_add t_users t_users_update fits_user ok_user"
abbreviation "save_user \<equiv> db_save t_users t_users_update fits_user ok_user"
abbreviation "add_preferences \<equiv> db_add t_preferences t_preferences_update fits_preferences ok_preferences"
abbreviation "save_preferences \<equiv> db_save t_preferences t_preferences_update fits_preferences ok_preferences"
abbreviation "add_category \<equiv> db_add t_categories t_categories_update fits_product_category ok_category"
abbreviation "save_category \<equiv> db_save t_categories t_categories_update fits_product_category ok_category"
abbreviation "add_product \<equiv> db_add t_products t_products_update fits_product ok_product"
abbreviation "save_product \<equiv> db_save t_products t_products_update fits_product ok_product"
abbreviation "add_coffee \<equiv> db_add t_coffee t_coffee_update fits_coffee ok_coffee"
abbreviation "save_coffee \<equiv> db_save t_coffee t_coffee_update fits_coffee ok_coffee"
abbreviation "add_equipment \<equiv> db_add t_equipment t_equipment_update fits_equipment ok_equipment"
abbreviation "save_equipment \<equiv> db_save t_equipment t_equipment_update fits_equipment ok_equipment"
abbreviation "add_accessories \<equiv> db_add t_accessories t_accessories_update fits_accessories ok_accessories"
abbreviation "save_accessories \<equiv> db_save t_accessories t_accessories_update fits_accessories ok_accessories"
abbreviation "add_consumables \<equiv> db_add t_consumables t_consumables_update fits_consumables ok_consumables"
abbreviation "save_consumables \<equiv> db_save t_consumables t_consumables_update fits_consumables ok_consumables"
abbreviation "add_rating \<equiv> db_add t_ratings t_ratings_update fits_rating ok_rating"
abbreviation "save_rating \<equiv> db_save t_ratings t_ratings_update fits_rating ok_rating"
abbreviation "add_product_rating \<equiv> db_add t_product_ratings t_product_ratings_update fits_product_rating ok_product_rating"
abbreviation "save_product_rating \<equiv> db_save t_product_ratings t_product_ratings_update fits_product_rating ok_product_rating"
abbreviation "add_point \<equiv> db_add t_points t_points_update fits_point ok_point"
abbreviation "save_point \<equiv> db_save t_points t_points_update fits_point ok_point"
abbreviation "add_order \<equiv> db_add t_orders t_orders_update fits_order ok_order"
abbreviation "save_order \<equiv> db_save t_orders t_orders_update fits_order ok_order"
abbreviation "add_order_product \<equiv> db_add t_order_products t_order_products_update fits_order_product ok_order_product"
abbreviation "save_order_product \<equiv> db_save t_order_products t_order_products_update fits_order_product ok_order_product"
abbreviation "add_pickup_info \<equiv> db_add t_pickup_info t_pickup_info_update fits_pickup_info ok_pickup_info"
abbreviation "save_pickup_info \<equiv> db_save t_pickup_info t_pickup_info_update fits_pickup_info ok_pickup_info"
abbreviation "add_delivery_info \<equiv> db_add t_delivery_info t_delivery_info_update fits_delivery_info ok_delivery_info"
abbreviation "save_delivery_info \<equiv> db_save t_delivery_info t_delivery_info_update fits_delivery_info ok_delivery_info"
abbreviation "add_order_payment \<equiv> db_add t_order_payments t_order_payments_update fits_order_payment ok_order_payment"
abbreviation "save_order_payment \<equiv> db_save t_order_payments t_order_payments_update fits_order_payment ok_order_payment"
abbreviation "add_payment_method \<equiv> db_add t_payment_methods t_payment_methods_update fits_payment_method ok_payment_method"
abbreviation "save_payment_method \<equiv> db_save t_payment_methods t_payment_methods_update fits_payment_method ok_payment_method"
abbreviation "add_subscription \<equiv> db_add t_subscriptions t_subscriptions_update (\<lambda>_. True) ok_subscription"
abbreviation "save_subscription \<equiv> db_save t_subscriptions t_subscriptions_update (\<lambda>_. True) ok_subscription"
abbreviation "add_sub_delivery \<equiv> db_add t_sub_delivery t_sub_delivery_update fits_subscription_delivery ok_sub_delivery"
abbreviation "save_sub_delivery \<equiv> db_save t_sub_delivery t_sub_delivery_update fits_subscription_delivery ok_sub_delivery"
abbreviation "add_event \<equiv> db_add t_events t_events_update fits_subscription_event ok_event"
abbreviation "save_event \<equiv> db_save t_events t_events_update fits_subscription_event ok_event"
abbreviation "add_sub_product \<equiv> db_add t_sub_products t_sub_products_update fits_subscription_product ok_sub_product"
abbreviation "save_sub_product \<equiv> db_save t_sub_products t_sub_products_update fits_subscription_product ok_sub_product"
abbreviation "add_sub_payment \<equiv> db_add t_sub_payments t_sub_payments_update fits_subscription_payment ok_sub_payment"
abbreviation "save_sub_payment \<equiv> db_save t_sub_payments t_sub_payments_update fits_subscription_payment ok_sub_payment"

end
