(* ===== verification/ServiceAuth.thy ===== *)
theory ServiceAuth
  imports Database
begin

text \<open>
  The settings a request depends on (\<open>src/api/core/configs.py\<close>), the shared check of the
  service-to-service credential (\<open>src/api/core/service_auth.py\<close>), and its three instances
  with their audit records (\<open>src/<domain>/admin/dependencies.py\<close>). The locale
  \<open>service_gate\<close> is what an admin router relies on.
\<close>

record settings =
  env :: string
  admin_service_token :: "string option"
  payment_provider_secret :: "string option"

record service_caller =
  operator :: string
  role :: "string option"

text \<open>\<open>not s\<close> for an optional string: missing or empty.\<close>

fun falsy :: "string option \<Rightarrow> bool" where
  "falsy None = True"
| "falsy (Some s) = (s = [])"

text \<open>
  \<open>hmac.compare_digest\<close> on strings: equality, but a string with a character outside ASCII is
  refused with a \<open>TypeError\<close>. Header values reach the service as Latin-1 text.
\<close>

definition is_ascii :: "string \<Rightarrow> bool" where
  "is_ascii s \<longleftrightarrow> (\<forall>c \<in> set s. of_char c < (128 :: nat))"

definition compare_digest :: "string \<Rightarrow> string \<Rightarrow> exn + bool" where
  "compare_digest a b = (if is_ascii a \<and> is_ascii b then Inr (a = b) else Inl TypeError)"

definition resolve_service_caller ::
  "settings \<Rightarrow> (string \<Rightarrow> exn) \<Rightarrow> string option \<Rightarrow> string option \<Rightarrow> string option \<Rightarrow> exn + service_caller" where
  "resolve_service_caller cfg forbidden service_token acting_operator acting_role =
     (case admin_service_token cfg of
        None \<Rightarrow> Inl (forbidden ''Admin API is not configured'')
      | Some expected \<Rightarrow>
          if expected = [] then Inl (forbidden ''Admin API is not configured'')
          else (case service_token of
              None \<Rightarrow> Inl (forbidden ''Invalid admin service credential'')
            | Some given \<Rightarrow>
                if given = [] then Inl (forbidden ''Invalid admin service credential'')
                else (case compare_digest given expected of
                    Inl e \<Rightarrow> Inl e
                  | Inr False \<Rightarrow> Inl (forbidden ''Invalid admin service credential'')
                  | Inr True \<Rightarrow>
                      (case acting_operator of
                         None \<Rightarrow> Inl (forbidden ''Missing acting operator'')
                       | Some who \<Rightarrow>
                           if who = [] then Inl (forbidden ''Missing acting operator'')
                           else Inr \<lparr>operator = who, role = acting_role\<rparr>))))"

text \<open>\<open>require_service_caller\<close> of the three admin APIs.\<close>

definition require_catalog_caller ::
  "settings \<Rightarrow> string option \<Rightarrow> string option \<Rightarrow> string option \<Rightarrow> exn + service_caller" where
  "require_catalog_caller cfg = resolve_service_caller cfg (\<lambda>m. CatalogExn (AdminForbiddenError m))"

definition require_order_caller ::
  "settings \<Rightarrow> string option \<Rightarrow> string option \<Rightarrow> string option \<Rightarrow> exn + service_caller" where
  "require_order_caller cfg = resolve_service_caller cfg (\<lambda>m. OrderExn (OrderAdminForbiddenError m))"

definition require_point_caller ::
  "settings \<Rightarrow> string option \<Rightarrow> string option \<Rightarrow> string option \<Rightarrow> exn + service_caller" where
  "require_point_caller cfg = resolve_service_caller cfg (\<lambda>m. PointExn (PointAdminForbiddenError m))"

definition audit :: "settings \<Rightarrow> string \<Rightarrow> service_caller \<Rightarrow> string \<Rightarrow> string \<Rightarrow> unit session" where
  "audit cfg logger caller action target =
     modify (\<lambda>w. w\<lparr>audit_log := audit_log w @
       [\<lparr>au_logger = logger, au_environment = env cfg, au_operator = operator caller,
         au_role = role caller, au_action = action, au_target = target\<rparr>]\<rparr>)"

definition catalog_audit :: "settings \<Rightarrow> service_caller \<Rightarrow> string \<Rightarrow> string \<Rightarrow> unit session" where
  "catalog_audit cfg = audit cfg ''src.catalog.admin.audit''"

definition order_audit :: "settings \<Rightarrow> service_caller \<Rightarrow> string \<Rightarrow> string \<Rightarrow> unit session" where
  "order_audit cfg = audit cfg ''src.orders.admin.audit''"

definition point_audit :: "settings \<Rightarrow> service_caller \<Rightarrow> string \<Rightarrow> string \<Rightarrow> unit session" where
  "point_audit cfg = audit cfg ''src.points.admin.audit''"

lemmas audit_defs = audit_def catalog_audit_def order_audit_def point_audit_def

text \<open>
  An admin endpoint: gate, then the service call, then the audit record, all within the
  unit of work of the request.
\<close>

definition admin_endpoint ::
  "exn + service_caller \<Rightarrow> (service_caller \<Rightarrow> 'a session) \<Rightarrow> 'a session" where
  "admin_endpoint gate body = unit_of_work (bind (of_sum gate) body)"

lemma audit_keeps_db:
  "leaves wdb (catalog_audit cfg c a t)"
  "leaves wdb (order_audit cfg c a t)"
  "leaves wdb (point_audit cfg c a t)"
  by (simp_all add: evolves_def audit_defs)

lemma resolve_accepts:
  "resolve_service_caller cfg fb t who r = Inr c \<longleftrightarrow>
     (\<exists>k. admin_service_token cfg = Some k \<and> t = Some k \<and> k \<noteq> [] \<and> is_ascii k) \<and>
     who = Some (operator c) \<and> operator c \<noteq> [] \<and> r = role c"
  by (cases c) (auto simp: resolve_service_caller_def compare_digest_def
      split: option.splits if_splits bool.splits sum.splits)

lemma resolve_rejects:
  "resolve_service_caller cfg fb t who r = Inl e \<Longrightarrow> e = TypeError \<or> (\<exists>m. e = fb m)"
  by (auto simp: resolve_service_caller_def compare_digest_def
      split: option.splits if_splits bool.splits sum.splits)

text \<open>
  What the admin routers rely on, whatever the domain: a caller is only produced for the
  configured credential, every refusal is the domain's 403 or, for a credential outside
  ASCII, an unhandled \<open>TypeError\<close>, and a refused request changes nothing.
\<close>

locale service_gate =
  fixes gate :: "settings \<Rightarrow> string option \<Rightarrow> string option \<Rightarrow> string option \<Rightarrow> exn + service_caller"
    and refusal :: "exn \<Rightarrow> bool"
  assumes accepts: "gate cfg t who r = Inr c \<longleftrightarrow>
      (\<exists>k. admin_service_token cfg = Some k \<and> t = Some k \<and> k \<noteq> [] \<and> is_ascii k) \<and>
      who = Some (operator c) \<and> operator c \<noteq> [] \<and> r = role c"
    and rejects: "gate cfg t who r = Inl e \<Longrightarrow> e = TypeError \<or> refusal e"
    and refusal_status: "refusal e \<Longrightarrow> resp_status_code (respond rid e) = 403"
begin

lemma accepted:
  "gate cfg t who r = Inr c \<Longrightarrow> t = admin_service_token cfg \<and> \<not> falsy t \<and> \<not> falsy who"
  using accepts [THEN iffD1, of cfg t who r c] by auto

lemma endpoint_authorised:
  assumes "admin_endpoint (gate cfg t who r) body w = (Inr a, w')"
  shows "t = admin_service_token cfg \<and> \<not> falsy t \<and> \<not> falsy who"
proof (cases "gate cfg t who r")
  case (Inl e)
  with assms show ?thesis by (simp add: admin_endpoint_def unit_of_work_Inr bind_of_sum)
next
  case (Inr c)
  then show ?thesis by (rule accepted)
qed

lemma endpoint_refused:
  assumes "t \<noteq> admin_service_token cfg \<or> falsy t \<or> falsy who"
  shows "\<exists>e. admin_endpoint (gate cfg t who r) body w = (Inl e, w) \<and>
           (resp_status_code (respond rid e) = 403 \<or> e = TypeError)"
proof -
  obtain e where e: "gate cfg t who r = Inl e"
    using assms accepted [of cfg t who r] by (cases "gate cfg t who r") auto
  then have "admin_endpoint (gate cfg t who r) body w = (Inl e, w)"
    by (simp add: admin_endpoint_def unit_of_work_def bind_of_sum)
  with rejects [OF e] refusal_status show ?thesis by blast
qed

end

interpretation catalog_gate: service_gate require_catalog_caller "\<lambda>e. \<exists>m. e = CatalogExn (AdminForbiddenError m)"
  by unfold_locales (auto simp: require_catalog_caller_def resolve_accepts respond_def
      build_error_response_def dest: resolve_rejects)

interpretation order_gate: service_gate require_order_caller "\<lambda>e. \<exists>m. e = OrderExn (OrderAdminForbiddenError m)"
  by unfold_locales (auto simp: require_order_caller_def resolve_accepts respond_def
      build_error_response_def dest: resolve_rejects)

interpretation point_gate: service_gate require_point_caller "\<lambda>e. \<exists>m. e = PointExn (PointAdminForbiddenError m)"
  by unfold_locales (auto simp: require_point_caller_def resolve_accepts respond_def
      build_error_response_def dest: resolve_rejects)

end
