(* ===== verification/Points.thy ===== *)
theory Points
  imports ServiceAuth
begin

text \<open>
  Pickup points: the public read API (\<open>src/points/service.py\<close>, \<open>src/points/schemas.py\<close>)
  and the administration (\<open>src/points/admin/\<close>, \<open>src/api/v1/routers/admin_points.py\<close>).
  Opening hours and contacts are stored as free JSON and typed only when a point is read by
  the public, so the typing of the response is part of the model.
\<close>

section \<open>Response types\<close>

record daily_hours =
  hours_open :: "string option"
  hours_close :: "string option"

record weekly_hours =
  monday :: "daily_hours option"
  tuesday :: "daily_hours option"
  wednesday :: "daily_hours option"
  thursday :: "daily_hours option"
  friday :: "daily_hours option"
  saturday :: "daily_hours option"
  sunday :: "daily_hours option"

record point_contacts =
  ct_phone :: "string option"
  ct_email :: "string option"
  ct_manager :: "string option"
  ct_manager_phone :: "string option"

record point_dto =
  pd_id :: uuid
  pd_name :: string
  pd_address :: string
  pd_hours :: weekly_hours
  pd_contacts :: point_contacts

record point_list_dto =
  pl_items :: "point_dto list"
  pl_total :: nat

text \<open>
  A field \<open>str | None = None\<close>, a day, and the models with \<open>extra="ignore"\<close>. A value of
  another shape is a \<open>ValidationError\<close>, which is a \<open>ValueError\<close> and has no handler.
\<close>

definition validation_error :: exn where
  "validation_error = ValueError ''validation error''"

fun opt_str :: "json option \<Rightarrow> exn + string option" where
  "opt_str None = Inr None"
| "opt_str (Some JNull) = Inr None"
| "opt_str (Some (JStr s)) = Inr (Some s)"
| "opt_str (Some _) = Inl validation_error"

fun opt_day :: "json option \<Rightarrow> exn + daily_hours option" where
  "opt_day None = Inr None"
| "opt_day (Some JNull) = Inr None"
| "opt_day (Some (JObj kv)) =
     (case map_sum_list opt_str [map_of kv ''open'', map_of kv ''close''] of
        Inl e \<Rightarrow> Inl e
      | Inr vs \<Rightarrow> Inr (Some \<lparr>hours_open = vs ! 0, hours_close = vs ! 1\<rparr>))"
| "opt_day (Some _) = Inl validation_error"

fun weekly_hours_of :: "json \<Rightarrow> exn + weekly_hours" where
  "weekly_hours_of (JObj kv) =
     (case map_sum_list (\<lambda>k. opt_day (map_of kv k))
        [''monday'', ''tuesday'', ''wednesday'', ''thursday'', ''friday'', ''saturday'', ''sunday''] of
        Inl e \<Rightarrow> Inl e
      | Inr ds \<Rightarrow> Inr \<lparr>monday = ds ! 0, tuesday = ds ! 1, wednesday = ds ! 2, thursday = ds ! 3,
          friday = ds ! 4, saturday = ds ! 5, sunday = ds ! 6\<rparr>)"
| "weekly_hours_of _ = Inl validation_error"

fun point_contacts_of :: "json \<Rightarrow> exn + point_contacts" where
  "point_contacts_of (JObj kv) =
     (case map_sum_list (\<lambda>k. opt_str (map_of kv k))
        [''phone'', ''email'', ''manager'', ''manager_phone''] of
        Inl e \<Rightarrow> Inl e
      | Inr cs \<Rightarrow> Inr \<lparr>ct_phone = cs ! 0, ct_email = cs ! 1, ct_manager = cs ! 2,
          ct_manager_phone = cs ! 3\<rparr>)"
| "point_contacts_of _ = Inl validation_error"

definition point_to_dto :: "point \<Rightarrow> exn + point_dto" where
  "point_to_dto p =
     (case weekly_hours_of (pnt_hours p) of
        Inl e \<Rightarrow> Inl e
      | Inr h \<Rightarrow>
          (case point_contacts_of (pnt_contacts p) of
             Inl e \<Rightarrow> Inl e
           | Inr c \<Rightarrow> Inr \<lparr>pd_id = row_id p, pd_name = pnt_name p, pd_address = pnt_address p,
               pd_hours = h, pd_contacts = c\<rparr>))"

section \<open>The public read API\<close>

definition offered :: "point \<Rightarrow> bool" where
  "offered p \<longleftrightarrow> pnt_type p = COFFEESHOP \<and> pnt_is_active p"

text \<open>\<open>collate\<close> is the sort key that the collation of the database gives a text.\<close>

definition list_active_coffeeshops :: "(string \<Rightarrow> 'k::linorder) \<Rightarrow> point_list_dto session" where
  "list_active_coffeeshops collate =
     bind (query (\<lambda>d. sort_key (\<lambda>p. (collate (pnt_name p), row_id p)) (filter offered (t_points d))))
       (\<lambda>rows. bind (of_sum (map_sum_list point_to_dto rows)) (\<lambda>items.
          ret \<lparr>pl_items = items, pl_total = length rows\<rparr>))"

definition get_point :: "uuid \<Rightarrow> point_dto session" where
  "get_point i =
     bind (fetch (\<lambda>d. find (\<lambda>p. row_id p = i \<and> pnt_type p = COFFEESHOP \<and> pnt_is_active p) (t_points d))
             (PointExn (PointNotFoundError i)))
       (\<lambda>p. of_sum (point_to_dto p))"

section \<open>Administration\<close>

record point_write =
  pw_name :: string
  pw_address :: string
  pw_type :: point_type
  pw_hours :: json
  pw_contacts :: json
  pw_is_active :: bool

record point_admin_dto =
  pa_id :: uuid
  pa_name :: string
  pa_address :: string
  pa_type :: point_type
  pa_hours :: json
  pa_contacts :: json
  pa_is_active :: bool
  pa_created_at :: datetime
  pa_updated_at :: datetime

datatype delete_mode = AUTO | HARD

definition delete_mode_value :: "delete_mode \<Rightarrow> string" where
  "delete_mode_value m = (case m of AUTO \<Rightarrow> ''auto'' | HARD \<Rightarrow> ''hard'')"

definition valid_point_write :: "point_write \<Rightarrow> bool" where
  \<comment> \<open>the \<open>Field\<close> bounds of \<open>_PointWrite\<close>\<close>
  "valid_point_write r \<longleftrightarrow> pw_name r \<noteq> [] \<and> length (pw_name r) \<le> 255 \<and> pw_address r \<noteq> [] \<and>
     (\<exists>kv. pw_hours r = JObj kv) \<and> (\<exists>kv. pw_contacts r = JObj kv)"

definition point_admin_to_dto :: "point \<Rightarrow> point_admin_dto" where
  "point_admin_to_dto p =
     \<lparr>pa_id = row_id p, pa_name = pnt_name p, pa_address = pnt_address p, pa_type = pnt_type p,
      pa_hours = pnt_hours p, pa_contacts = pnt_contacts p, pa_is_active = pnt_is_active p,
      pa_created_at = created_at p, pa_updated_at = updated_at p\<rparr>"

definition require_point :: "uuid \<Rightarrow> point session" where
  "require_point i = fetch (\<lambda>d. lookup (t_points d) i) (PointExn (PointNotFoundError i))"

definition point_is_referenced :: "database \<Rightarrow> uuid \<Rightarrow> bool" where
  "point_is_referenced d i \<longleftrightarrow> find (\<lambda>x. opi_point_id x = i) (t_pickup_info d) \<noteq> None"

definition admin_create_point :: "point_write \<Rightarrow> point_admin_dto session" where
  "admin_create_point data =
     bind (add_point (\<lambda>i t. \<lparr>row_id = i, created_at = t, updated_at = t, pnt_name = pw_name data,
             pnt_address = pw_address data, pnt_type = pw_type data, pnt_hours = pw_hours data,
             pnt_contacts = pw_contacts data, pnt_is_active = pw_is_active data\<rparr>))
       (\<lambda>p. ret (point_admin_to_dto p))"

definition admin_update_point :: "uuid \<Rightarrow> point_write \<Rightarrow> point_admin_dto session" where
  "admin_update_point i data =
     bind (require_point i) (\<lambda>p.
     bind (save_point (p\<lparr>pnt_name := pw_name data, pnt_address := pw_address data,
             pnt_type := pw_type data, pnt_hours := pw_hours data,
             pnt_contacts := pw_contacts data, pnt_is_active := pw_is_active data\<rparr>)) (\<lambda>_.
     bind (require_point i) (\<lambda>fresh. ret (point_admin_to_dto fresh))))"

definition admin_delete_point :: "uuid \<Rightarrow> delete_mode \<Rightarrow> unit session" where
  "admin_delete_point i mode =
     bind (require_point i) (\<lambda>p.
     bind (query (\<lambda>d. point_is_referenced d i)) (\<lambda>referenced.
     bind (require (\<not> (mode = HARD \<and> referenced)) (PointExn (PointInUseError i))) (\<lambda>_.
     if referenced then save_point (p\<lparr>pnt_is_active := False\<rparr>)
     else db_delete t_points_update point_is_referenced i)))"

text \<open>The routers.\<close>

definition create_point_endpoint ::
  "settings \<Rightarrow> string option \<Rightarrow> string option \<Rightarrow> string option \<Rightarrow> point_write \<Rightarrow> point_admin_dto session" where
  "create_point_endpoint cfg token who r payload =
     admin_endpoint (require_point_caller cfg token who r) (\<lambda>caller.
       bind (admin_create_point payload) (\<lambda>p.
       bind (point_audit cfg caller ''create'' (''point:'' @ str_uuid (pa_id p))) (\<lambda>_. ret p)))"

definition update_point_endpoint ::
  "settings \<Rightarrow> string option \<Rightarrow> string option \<Rightarrow> string option \<Rightarrow> uuid \<Rightarrow> point_write \<Rightarrow> point_admin_dto session" where
  "update_point_endpoint cfg token who r i payload =
     admin_endpoint (require_point_caller cfg token who r) (\<lambda>caller.
       bind (admin_update_point i payload) (\<lambda>p.
       bind (point_audit cfg caller ''update'' (''point:'' @ str_uuid i)) (\<lambda>_. ret p)))"

definition delete_point_endpoint ::
  "settings \<Rightarrow> string option \<Rightarrow> string option \<Rightarrow> string option \<Rightarrow> uuid \<Rightarrow> delete_mode \<Rightarrow> unit session" where
  "delete_point_endpoint cfg token who r i mode =
     admin_endpoint (require_point_caller cfg token who r) (\<lambda>caller.
       bind (admin_delete_point i mode) (\<lambda>_.
       point_audit cfg caller (''delete:'' @ delete_mode_value mode) (''point:'' @ str_uuid i)))"

section \<open>What the operations do\<close>

lemmas point_ops = require_point_def admin_create_point_def admin_update_point_def
  admin_delete_point_def

lemma point_is_referenced_iff:
  "point_is_referenced d i \<longleftrightarrow> i \<in> opi_point_id ` set (t_pickup_info d)"
  by (auto simp: point_is_referenced_def find_None_iff)

lemma points_frame:
  assumes "\<And>f d. p (t_points_update f d) = p d"
  shows "frame p (admin_create_point data)" "frame p (admin_update_point i data)"
    "frame p (admin_delete_point i mode)"
  unfolding point_ops by (intro frame_intros assms)+

text \<open>A point that orders refer to is never removed.\<close>

definition pickup_points_exist :: "database \<Rightarrow> bool" where
  "pickup_points_exist d \<longleftrightarrow> (\<forall>x \<in> set (t_pickup_info d). refers (t_points d) (opi_point_id x))"

lemma delete_point_keeps_references: "preserves pickup_points_exist (admin_delete_point i mode)"
  by (rule preservesI) (auto simp: admin_delete_point_def require_point_def pickup_points_exist_def
      point_is_referenced_iff elim!: svc_elims split: if_splits)

end
