(* ===== verification/Lifecycle.thy ===== *)
theory Lifecycle
  imports Database
begin

text \<open>
  Status machines. The order lifecycle of \<open>src/orders/status.py\<close> and the payment lifecycle
  that \<open>src/payments/enums.py\<close> documents and \<open>src/payments/service.py\<close> drives. The locale
  \<open>lifecycle\<close> is the contract of a machine that only moves forward: every step raises a
  rank, so that runs are bounded and no status is visited twice.
\<close>

section \<open>The contract\<close>

locale lifecycle =
  fixes step :: "'s \<Rightarrow> 's \<Rightarrow> bool"
    and rank :: "'s \<Rightarrow> nat"
  assumes step_rank: "step a b \<Longrightarrow> rank a < rank b"
begin

lemma run_rank: "step\<^sup>+\<^sup>+ a b \<Longrightarrow> rank a < rank b"
  by (induction rule: tranclp_induct) (auto dest: step_rank)

lemma no_return: "step\<^sup>+\<^sup>+ a b \<Longrightarrow> \<not> step\<^sup>*\<^sup>* b a"
  by (metis run_rank less_asym rtranclpD less_irrefl)

lemma runs_rank: "step\<^sup>*\<^sup>* a b \<Longrightarrow> rank a \<le> rank b"
  by (metis run_rank rtranclpD less_imp_le order_refl)

lemma same_rank: "step\<^sup>*\<^sup>* a b \<Longrightarrow> rank b \<le> rank a \<Longrightarrow> b = a"
  by (metis run_rank rtranclpD not_le)

lemma stuck: "(\<And>b. \<not> step a b) \<Longrightarrow> step\<^sup>*\<^sup>* a c \<Longrightarrow> c = a"
  by (metis converse_rtranclpE)

lemma bounded_run: "(step ^^ n) a b \<Longrightarrow> n + rank a \<le> rank b"
proof (induction n arbitrary: b)
  case (Suc n)
  then obtain c where "(step ^^ n) a c" "step c b" by auto
  with Suc.IH [of c] step_rank [of c b] show ?case by simp
qed simp

end

section \<open>Orders\<close>

fun transitions :: "order_status \<Rightarrow> order_status list" where
  "transitions CREATED = [CONFIRMED, CANCELLED]"
| "transitions CONFIRMED = [IN_PROGRESS, COMPLETED, FAILED, REFUNDED]"
| "transitions IN_PROGRESS = [COMPLETED, FAILED, REFUNDED]"
| "transitions COMPLETED = [REFUNDED]"
| "transitions CANCELLED = []"
| "transitions REFUNDED = []"
| "transitions FAILED = []"

definition STAFF_TARGETS :: "order_status list" where
  "STAFF_TARGETS = [CONFIRMED, IN_PROGRESS, COMPLETED, FAILED, REFUNDED]"

definition can_transition :: "order_status \<Rightarrow> order_status \<Rightarrow> bool" where
  "can_transition current target \<longleftrightarrow> target \<in> set (transitions current)"

definition invalid_transition :: "order_status \<Rightarrow> order_status \<Rightarrow> exn" where
  "invalid_transition current target = OrderExn (OrderInvalidStatusTransitionError
     (order_status_value current) (order_status_value target))"

definition ensure_transition :: "order_status \<Rightarrow> order_status \<Rightarrow> unit session" where
  "ensure_transition current target =
     require (can_transition current target) (invalid_transition current target)"

fun order_rank :: "order_status \<Rightarrow> nat" where
  "order_rank CREATED = 0"
| "order_rank CONFIRMED = 1"
| "order_rank IN_PROGRESS = 2"
| "order_rank COMPLETED = 3"
| "order_rank CANCELLED = 4"
| "order_rank REFUNDED = 4"
| "order_rank FAILED = 4"

interpretation order_life: lifecycle can_transition order_rank
proof
  show "can_transition a b \<Longrightarrow> order_rank a < order_rank b" for a b
    by (cases a) (auto simp: can_transition_def)
qed

lemma ensure_transition_InrE [svc_elims]:
  assumes "ensure_transition a b w = (Inr u, w')"
  obtains "can_transition a b" and "w' = w"
  using assms by (auto simp: ensure_transition_def elim!: svc_elims)

lemma can_transition_simps [simp]:
  "can_transition a CREATED \<longleftrightarrow> False"
  "can_transition a CANCELLED \<longleftrightarrow> a = CREATED"
  "can_transition CREATED b \<longleftrightarrow> b = CONFIRMED \<or> b = CANCELLED"
  "can_transition a a \<longleftrightarrow> False"
  "can_transition a CONFIRMED \<longleftrightarrow> a = CREATED"
  "can_transition CANCELLED b \<longleftrightarrow> False"
  "can_transition REFUNDED b \<longleftrightarrow> False"
  "can_transition FAILED b \<longleftrightarrow> False"
  by ((cases a; simp add: can_transition_def), (cases a; simp add: can_transition_def),
      (cases b; simp add: can_transition_def), (cases a; simp add: can_transition_def),
      (cases a; simp add: can_transition_def), (simp add: can_transition_def),
      (simp add: can_transition_def), (simp add: can_transition_def))

lemma ensure_transition_run [svc_simps]:
  "bind (ensure_transition a b) f w =
     (if can_transition a b then f () w else (Inl (invalid_transition a b), w))"
  by (simp add: ensure_transition_def bind_require)

section \<open>Payments\<close>

inductive payment_step :: "payment_status \<Rightarrow> payment_status \<Rightarrow> bool" where
  settle: "payment_step PayPENDING PayCOMPLETED"
| decline: "payment_step PayPENDING PayFAILED"
| refund: "payment_step PayCOMPLETED PayREFUNDED"

inductive_simps payment_step_simps [simp]: "payment_step a b"

fun payment_rank :: "payment_status \<Rightarrow> nat" where
  "payment_rank PayPENDING = 0"
| "payment_rank PayCOMPLETED = 1"
| "payment_rank PayFAILED = 2"
| "payment_rank PayREFUNDED = 2"

interpretation payment_life: lifecycle payment_step payment_rank
  by unfold_locales auto

section \<open>Rows that move along a machine\<close>

text \<open>
  How a table may change when rows are added, advance along a status machine and keep the
  columns \<open>fixed\<close>: every row is still there, with the same fixed columns, and its status
  has followed the machine.
\<close>

definition advances :: "('s \<Rightarrow> 's \<Rightarrow> bool) \<Rightarrow> ('a row_scheme \<Rightarrow> 's) \<Rightarrow> ('a row_scheme \<Rightarrow> 'k) \<Rightarrow>
    'a row_scheme list \<Rightarrow> 'a row_scheme list \<Rightarrow> bool" where
  "advances step status fixed t t' \<longleftrightarrow>
     (\<forall>i r. lookup t i = Some r \<longrightarrow>
        (\<exists>r'. lookup t' i = Some r' \<and> step\<^sup>*\<^sup>* (status r) (status r') \<and> fixed r' = fixed r))"

lemma advances_refl [simp]: "advances step status fixed t t"
  by (auto simp: advances_def)

lemma advances_trans:
  assumes "advances step status fixed t u" and "advances step status fixed u v"
  shows "advances step status fixed t v"
  unfolding advances_def
proof (intro allI impI)
  fix i r
  assume "lookup t i = Some r"
  then obtain r' where "lookup u i = Some r'" "step\<^sup>*\<^sup>* (status r) (status r')" "fixed r' = fixed r"
    using assms(1) unfolding advances_def by blast
  moreover from this(1) obtain r'' where "lookup v i = Some r''"
    "step\<^sup>*\<^sup>* (status r') (status r'')" "fixed r'' = fixed r'"
    using assms(2) unfolding advances_def by blast
  ultimately show "\<exists>r'. lookup v i = Some r' \<and> step\<^sup>*\<^sup>* (status r) (status r') \<and> fixed r' = fixed r"
    by (metis rtranclp_trans)
qed

lemma advances_append: "advances step status fixed t (t @ u)"
  by (auto simp: advances_def lookup_append)

lemma advances_replace:
  assumes "lookup t (row_id r) = Some old"
    and "step\<^sup>*\<^sup>* (status old) (status r)" and "fixed r = fixed old"
  shows "advances step status fixed t (replace_row r t)"
  using assms by (auto simp: advances_def lookup_replace)

end
