(* ===== verification/Orders.thy ===== *)
theory Orders
  imports Points Lifecycle
begin

text \<open>
  Orders: the request and response types (\<open>src/orders/schemas.py\<close>), the queries
  (\<open>src/orders/repository.py\<close>), the service (\<open>src/orders/service.py\<close>) and its routers. An
  order is read as the aggregate that the eager loading options fetch: the row, its line
  items, its fulfillment row with the pickup point, and its payments, newest first.
\<close>

section \<open>Requests\<close>

record order_item_in =
  it_product_id :: uuid
  it_quantity :: int
  it_grind :: "grind_size option"

record delivery_in =
  dl_recipient_name :: string
  dl_phone :: string
  dl_address :: string
  dl_city :: string
  dl_postal_code :: "string option"
  dl_notes :: "string option"

record create_order_request =
  co_order_type :: order_type
  co_items :: "order_item_in list"
  co_pickup_point_id :: "uuid option"
  co_delivery :: "delivery_in option"

definition valid_delivery_in :: "delivery_in \<Rightarrow> bool" where
  "valid_delivery_in d \<longleftrightarrow>
     dl_recipient_name d \<noteq> [] \<and> length (dl_recipient_name d) \<le> 255 \<and>
     dl_phone d \<noteq> [] \<and> length (dl_phone d) \<le> 20 \<and> dl_address d \<noteq> [] \<and>
     dl_city d \<noteq> [] \<and> length (dl_city d) \<le> 100 \<and>
     opt_fits (\<lambda>s. length s \<le> 20) (dl_postal_code d)"

definition valid_order_fields :: "create_order_request \<Rightarrow> bool" where
  "valid_order_fields r \<longleftrightarrow> (\<forall>it \<in> set (co_items r). 1 \<le> it_quantity it) \<and> co_items r \<noteq> [] \<and>
     opt_fits valid_delivery_in (co_delivery r)"

definition fulfillment_matches_type :: "create_order_request \<Rightarrow> exn + create_order_request" where
  "fulfillment_matches_type r =
     (if co_order_type r = PICKUP then
        if co_pickup_point_id r = None
        then Inl (ValueError ''pickup_point_id is required for pickup orders'')
        else if co_delivery r \<noteq> None
        then Inl (ValueError ''delivery must be omitted for pickup orders'')
        else Inr r
      else
        if co_delivery r = None
        then Inl (ValueError ''delivery is required for delivery orders'')
        else if co_pickup_point_id r \<noteq> None
        then Inl (ValueError ''pickup_point_id must be omitted for delivery orders'')
        else Inr r)"

section \<open>Responses\<close>

record OrderItemDTO =
  oi_id :: uuid
  oi_product_id :: uuid
  oi_product_name :: string
  oi_product_price :: money
  oi_quantity :: int
  oi_grind :: "grind_size option"
  oi_subtotal :: money

record PickupInfoDTO =
  pi_point_id :: uuid
  pi_point_name :: string
  pi_point_address :: string
  pi_pickup_code :: string
  pi_pickup_deadline :: datetime
  pi_picked_up_at :: "datetime option"

record DeliveryInfoDTO =
  di_recipient_name :: string
  di_phone :: string
  di_address :: string
  di_city :: string
  di_postal_code :: "string option"
  di_notes :: "string option"
  di_shipped_at :: "datetime option"
  di_delivered_at :: "datetime option"

record OrderDTO =
  od_id :: uuid
  od_user_id :: uuid
  od_order_type :: order_type
  od_status :: order_status
  od_total_price :: money
  od_currency :: string
  od_notes :: "string option"
  od_items :: "OrderItemDTO list"
  od_pickup :: "PickupInfoDTO option"
  od_delivery :: "DeliveryInfoDTO option"
  od_payment_id :: "uuid option"
  od_payment_status :: "payment_status option"
  od_created_at :: datetime
  od_updated_at :: datetime

record OrderListItemDTO =
  ol_id :: uuid
  ol_user_id :: uuid
  ol_order_type :: order_type
  ol_status :: order_status
  ol_total_price :: money
  ol_currency :: string
  ol_item_count :: nat
  ol_pickup_point_name :: "string option"
  ol_delivery_city :: "string option"
  ol_created_at :: datetime

record OrderListDTO =
  ols_items :: "OrderListItemDTO list"
  ols_total :: nat
  ols_limit :: nat
  ols_offset :: nat

section \<open>The aggregate\<close>

record order_aggregate =
  ag_order :: order
  ag_products :: "order_product list"
  ag_pickup :: "(order_pickup_info \<times> point option) option"
  ag_delivery :: "order_delivery_info option"
  ag_payments :: "order_payment list"

definition order_lines :: "database \<Rightarrow> uuid \<Rightarrow> order_product list" where
  "order_lines d i = filter (\<lambda>x. op_order_id x = i) (t_order_products d)"

definition order_pickup :: "database \<Rightarrow> uuid \<Rightarrow> order_pickup_info option" where
  "order_pickup d i = find (\<lambda>x. opi_order_id x = i) (t_pickup_info d)"

definition order_delivery :: "database \<Rightarrow> uuid \<Rightarrow> order_delivery_info option" where
  "order_delivery d i = find (\<lambda>x. odi_order_id x = i) (t_delivery_info d)"

definition order_payments :: "database \<Rightarrow> uuid \<Rightarrow> order_payment list" where
  \<comment> \<open>\<open>order_by="OrderPayment.created_at.desc()"\<close>; of equal timestamps the later row is first\<close>
  "order_payments d i = sort_desc created_at (filter (\<lambda>x. pay_order_id x = i) (t_order_payments d))"

definition aggregate :: "database \<Rightarrow> order \<Rightarrow> order_aggregate" where
  "aggregate d ord =
     \<lparr>ag_order = ord,
      ag_products = order_lines d (row_id ord),
      ag_pickup = map_option (\<lambda>x. (x, lookup (t_points d) (opi_point_id x))) (order_pickup d (row_id ord)),
      ag_delivery = order_delivery d (row_id ord),
      ag_payments = order_payments d (row_id ord)\<rparr>"

definition item_dto :: "order_product \<Rightarrow> OrderItemDTO" where
  "item_dto x = \<lparr>oi_id = row_id x, oi_product_id = op_product_id x,
     oi_product_name = op_product_name x, oi_product_price = op_product_price x,
     oi_quantity = op_quantity x, oi_grind = op_grind x,
     oi_subtotal = op_product_price x * op_quantity x\<rparr>"

definition pickup_dto :: "order_pickup_info \<times> point option \<Rightarrow> exn + PickupInfoDTO" where
  "pickup_dto ip = (case ip of (info, pnt) \<Rightarrow>
     (case pnt of
        None \<Rightarrow> Inl AttributeError
      | Some p \<Rightarrow> Inr \<lparr>pi_point_id = opi_point_id info, pi_point_name = pnt_name p,
          pi_point_address = pnt_address p, pi_pickup_code = opi_pickup_code info,
          pi_pickup_deadline = opi_pickup_deadline info, pi_picked_up_at = opi_picked_up_at info\<rparr>))"

definition delivery_dto :: "order_delivery_info \<Rightarrow> DeliveryInfoDTO" where
  "delivery_dto x = \<lparr>di_recipient_name = odi_recipient_name x, di_phone = odi_phone x,
     di_address = odi_address x, di_city = odi_city x, di_postal_code = odi_postal_code x,
     di_notes = odi_notes x, di_shipped_at = odi_shipped_at x, di_delivered_at = odi_delivered_at x\<rparr>"

text \<open>\<open>f(x) if x else None\<close> for a fallible \<open>f\<close>.\<close>

fun sum_option :: "('a \<Rightarrow> 'e + 'b) \<Rightarrow> 'a option \<Rightarrow> 'e + 'b option" where
  "sum_option f None = Inr None"
| "sum_option f (Some x) = (case f x of Inl e \<Rightarrow> Inl e | Inr y \<Rightarrow> Inr (Some y))"

definition latest_payment :: "order_aggregate \<Rightarrow> order_payment option" where
  "latest_payment a = (case ag_payments a of [] \<Rightarrow> None | p # _ \<Rightarrow> Some p)"

definition order_dto :: "order_aggregate \<Rightarrow> exn + OrderDTO" where
  "order_dto a =
     (case sum_option pickup_dto (ag_pickup a) of
        Inl e \<Rightarrow> Inl e
      | Inr p \<Rightarrow> Inr \<lparr>od_id = row_id (ag_order a), od_user_id = o_user_id (ag_order a),
          od_order_type = o_type (ag_order a), od_status = o_status (ag_order a),
          od_total_price = o_total_price (ag_order a), od_currency = o_currency (ag_order a),
          od_notes = o_notes (ag_order a), od_items = map item_dto (ag_products a),
          od_pickup = p, od_delivery = map_option delivery_dto (ag_delivery a),
          od_payment_id = map_option row_id (latest_payment a),
          od_payment_status = map_option pay_status (latest_payment a),
          od_created_at = created_at (ag_order a), od_updated_at = updated_at (ag_order a)\<rparr>)"

definition list_item_dto :: "order_aggregate \<Rightarrow> exn + OrderListItemDTO" where
  "list_item_dto a =
     (case sum_option pickup_dto (ag_pickup a) of
        Inl e \<Rightarrow> Inl e
      | Inr p \<Rightarrow> Inr \<lparr>ol_id = row_id (ag_order a), ol_user_id = o_user_id (ag_order a),
          ol_order_type = o_type (ag_order a), ol_status = o_status (ag_order a),
          ol_total_price = o_total_price (ag_order a), ol_currency = o_currency (ag_order a),
          ol_item_count = length (ag_products a), ol_pickup_point_name = map_option pi_point_name p,
          ol_delivery_city = map_option odi_city (ag_delivery a),
          ol_created_at = created_at (ag_order a)\<rparr>)"

section \<open>Repository\<close>

definition repo_get :: "database \<Rightarrow> uuid \<Rightarrow> order_aggregate option" where
  "repo_get d i = map_option (aggregate d) (lookup (t_orders d) i)"

definition orders_of :: "database \<Rightarrow> uuid \<Rightarrow> order_status option \<Rightarrow> order list" where
  "orders_of d user_id st =
     filter (\<lambda>ord. case st of None \<Rightarrow> True | Some s \<Rightarrow> o_status ord = s)
       (filter (\<lambda>ord. o_user_id ord = user_id) (t_orders d))"

definition list_for_user ::
  "uuid \<Rightarrow> order_status option \<Rightarrow> nat \<Rightarrow> nat \<Rightarrow> database \<Rightarrow> order_aggregate list \<times> nat" where
  "list_for_user user_id st limit offset d =
     (let base = orders_of d user_id st
      in (map (aggregate d) (paginate limit offset (sort_desc (\<lambda>ord. (created_at ord, row_id ord)) base)),
          length base))"

definition pickup_code_exists :: "string \<Rightarrow> database \<Rightarrow> bool" where
  "pickup_code_exists code d \<longleftrightarrow> find (\<lambda>x. opi_pickup_code x = code) (t_pickup_info d) \<noteq> None"

section \<open>Service\<close>

definition PICKUP_TTL :: int where
  "PICKUP_TTL = 24 * 60 * 60 * 1000000"

definition PICKUP_CODE_ATTEMPTS :: nat where
  "PICKUP_CODE_ATTEMPTS = 10"

definition reload_order :: "uuid \<Rightarrow> order_aggregate session" where
  "reload_order i = fetch (\<lambda>d. repo_get d i) AssertionError"

definition require_owned :: "uuid \<Rightarrow> uuid \<Rightarrow> order_aggregate session" where
  "require_owned i user_id =
     bind (fetch (\<lambda>d. repo_get d i) (OrderExn (OrderNotFoundError i))) (\<lambda>a.
     bind (require (o_user_id (ag_order a) = user_id) (OrderExn OrderAccessDeniedError)) (\<lambda>_. ret a))"

definition check_item :: "(uuid \<Rightarrow> product option) \<Rightarrow> order_item_in \<Rightarrow> unit session" where
  "check_item by_id it =
     (case by_id (it_product_id it) of
        None \<Rightarrow> raise (OrderExn (OrderProductNotFoundError (it_product_id it)))
      | Some p \<Rightarrow> require (p_is_active p) (OrderExn (OrderProductInactiveError (it_product_id it))))"

definition load_active_products :: "order_item_in list \<Rightarrow> (uuid \<Rightarrow> product option) session" where
  "load_active_products items =
     bind (query (\<lambda>d i. if i \<in> it_product_id ` set items then lookup (t_products d) i else None))
       (\<lambda>by_id. bind (forM (check_item by_id) items) (\<lambda>_. ret by_id))"

definition require_available_point :: "uuid \<Rightarrow> point session" where
  "require_available_point i =
     bind (fetch (\<lambda>d. lookup (t_points d) i) (OrderExn (OrderPickupPointNotFoundError i))) (\<lambda>p.
     bind (require (pnt_is_active p \<and> pnt_type p = COFFEESHOP)
            (OrderExn (OrderPickupPointUnavailableError i))) (\<lambda>_. ret p))"

fun allocate_code :: "nat \<Rightarrow> string session" where
  "allocate_code 0 = raise (RuntimeError ''could not allocate a unique pickup code'')"
| "allocate_code (Suc n) =
     bind (randbelow 1000000) (\<lambda>k.
     bind (query (pickup_code_exists (dec_pad 6 k))) (\<lambda>taken.
     if taken then allocate_code n else ret (dec_pad 6 k)))"

definition allocate_pickup_code :: "string session" where
  "allocate_pickup_code = allocate_code PICKUP_CODE_ATTEMPTS"

text \<open>
  The line items are built before the order has an identifier; the total is their sum, which
  \<open>quantize\<close> leaves alone since prices have two decimals.
\<close>

record order_line =
  ln_product_id :: uuid
  ln_product_name :: string
  ln_product_price :: money
  ln_quantity :: int
  ln_grind :: "grind_size option"

definition line_item :: "(uuid \<Rightarrow> product option) \<Rightarrow> order_item_in \<Rightarrow> exn + order_line" where
  "line_item products it =
     (case products (it_product_id it) of
        None \<Rightarrow> Inl KeyError
      | Some p \<Rightarrow> Inr \<lparr>ln_product_id = row_id p, ln_product_name = p_name p,
          ln_product_price = p_price p, ln_quantity = it_quantity it, ln_grind = it_grind it\<rparr>)"

definition order_total :: "order_line list \<Rightarrow> money" where
  "order_total ls = sum_list (map (\<lambda>l. ln_product_price l * ln_quantity l) ls)"

datatype fulfillment = PickupAt uuid string datetime | DeliverTo delivery_in

definition choose_fulfillment :: "create_order_request \<Rightarrow> fulfillment session" where
  "choose_fulfillment data =
     (if co_order_type data = PICKUP then
        (case co_pickup_point_id data of
           None \<Rightarrow> raise AssertionError
         | Some point_id \<Rightarrow>
             bind (require_available_point point_id) (\<lambda>_.
             bind allocate_pickup_code (\<lambda>code.
             bind (gets now) (\<lambda>t. ret (PickupAt point_id code (t + PICKUP_TTL))))))
      else
        (case co_delivery data of
           None \<Rightarrow> raise AssertionError
         | Some d \<Rightarrow> ret (DeliverTo d)))"

definition new_order :: "uuid \<Rightarrow> order_type \<Rightarrow> money \<Rightarrow> uuid \<Rightarrow> datetime \<Rightarrow> order" where
  \<comment> \<open>an \<open>Order\<close> with the column defaults\<close>
  "new_order user_id ty amount i t =
     \<lparr>row_id = i, created_at = t, updated_at = t, o_user_id = user_id, o_type = ty,
      o_total_price = amount, o_currency = ''EUR'', o_status = CREATED, o_notes = None\<rparr>"

definition new_line :: "uuid \<Rightarrow> order_line \<Rightarrow> uuid \<Rightarrow> datetime \<Rightarrow> order_product" where
  "new_line order_id l i t =
     \<lparr>row_id = i, created_at = t, updated_at = t, op_order_id = order_id,
      op_product_id = ln_product_id l, op_product_name = ln_product_name l,
      op_product_price = ln_product_price l, op_quantity = ln_quantity l, op_grind = ln_grind l\<rparr>"

definition new_pickup :: "uuid \<Rightarrow> uuid \<Rightarrow> string \<Rightarrow> datetime \<Rightarrow> uuid \<Rightarrow> datetime \<Rightarrow> order_pickup_info" where
  "new_pickup order_id point_id code deadline i t =
     \<lparr>row_id = i, created_at = t, updated_at = t, opi_order_id = order_id, opi_point_id = point_id,
      opi_pickup_code = code, opi_pickup_deadline = deadline, opi_picked_up_at = None\<rparr>"

definition new_delivery :: "uuid \<Rightarrow> delivery_in \<Rightarrow> uuid \<Rightarrow> datetime \<Rightarrow> order_delivery_info" where
  "new_delivery order_id a i t =
     \<lparr>row_id = i, created_at = t, updated_at = t, odi_order_id = order_id,
      odi_recipient_name = dl_recipient_name a, odi_phone = dl_phone a, odi_address = dl_address a,
      odi_city = dl_city a, odi_postal_code = dl_postal_code a, odi_notes = dl_notes a,
      odi_shipped_at = None, odi_delivered_at = None\<rparr>"

definition insert_fulfillment :: "uuid \<Rightarrow> fulfillment \<Rightarrow> unit session" where
  "insert_fulfillment order_id f =
     (case f of
        PickupAt point_id code deadline \<Rightarrow>
          bind (add_pickup_info (new_pickup order_id point_id code deadline)) (\<lambda>_. ret ())
      | DeliverTo a \<Rightarrow> bind (add_delivery_info (new_delivery order_id a)) (\<lambda>_. ret ()))"

definition repo_add ::
  "uuid \<Rightarrow> order_type \<Rightarrow> money \<Rightarrow> order_line list \<Rightarrow> fulfillment \<Rightarrow> order session" where
  \<comment> \<open>\<open>OrderRepository.add\<close>: the flush inserts the order, then its children\<close>
  "repo_add user_id ty amount ls f =
     bind (add_order (new_order user_id ty amount)) (\<lambda>ord.
     bind (forM (\<lambda>l. add_order_product (new_line (row_id ord) l)) ls) (\<lambda>_.
     bind (insert_fulfillment (row_id ord) f) (\<lambda>_. ret ord)))"

definition create_order :: "uuid \<Rightarrow> create_order_request \<Rightarrow> OrderDTO session" where
  "create_order user_id data =
     bind (require (co_items data \<noteq> [])
            (OrderExn (OrderInvalidItemsError ''Order must contain at least one item''))) (\<lambda>_.
     bind (load_active_products (co_items data)) (\<lambda>products.
     bind (of_sum (map_sum_list (line_item products) (co_items data))) (\<lambda>ls.
     bind (choose_fulfillment data) (\<lambda>f.
     bind (repo_add user_id (co_order_type data) (order_total ls) ls f) (\<lambda>ord.
     bind (reload_order (row_id ord)) (\<lambda>a. of_sum (order_dto a)))))))"

definition list_orders :: "uuid \<Rightarrow> order_status option \<Rightarrow> nat \<Rightarrow> nat \<Rightarrow> OrderListDTO session" where
  "list_orders user_id st limit offset =
     bind (require (page_bindable limit offset) DataError) (\<lambda>_.
     bind (query (list_for_user user_id st limit offset)) (\<lambda>(orders, total).
     bind (of_sum (map_sum_list list_item_dto orders)) (\<lambda>items.
     ret \<lparr>ols_items = items, ols_total = total, ols_limit = limit, ols_offset = offset\<rparr>)))"

definition get_order :: "uuid \<Rightarrow> uuid \<Rightarrow> OrderDTO session" where
  "get_order i user_id = bind (require_owned i user_id) (\<lambda>a. of_sum (order_dto a))"

definition cancel_order :: "uuid \<Rightarrow> uuid \<Rightarrow> OrderDTO session" where
  "cancel_order i user_id =
     bind (require_owned i user_id) (\<lambda>a.
     bind (ensure_transition (o_status (ag_order a)) CANCELLED) (\<lambda>_.
     bind (save_order ((ag_order a)\<lparr>o_status := CANCELLED\<rparr>)) (\<lambda>_.
     bind (reload_order i) (\<lambda>a'. of_sum (order_dto a')))))"

text \<open>\<open>_stamp_milestone\<close>: the rows that a status change stamps, unless they are stamped already.\<close>

definition stamp_pickup :: "datetime \<Rightarrow> order_status \<Rightarrow> order_pickup_info \<Rightarrow> order_pickup_info" where
  "stamp_pickup t target x =
     (if target = COMPLETED \<and> opi_picked_up_at x = None then x\<lparr>opi_picked_up_at := Some t\<rparr> else x)"

definition stamp_delivery :: "datetime \<Rightarrow> order_status \<Rightarrow> order_delivery_info \<Rightarrow> order_delivery_info" where
  "stamp_delivery t target x =
     (if target = IN_PROGRESS \<and> odi_shipped_at x = None then x\<lparr>odi_shipped_at := Some t\<rparr>
      else if target = COMPLETED \<and> odi_delivered_at x = None then x\<lparr>odi_delivered_at := Some t\<rparr>
      else x)"

definition stamp_milestone :: "order_aggregate \<Rightarrow> order_status \<Rightarrow> unit session" where
  "stamp_milestone a target =
     bind (gets now) (\<lambda>t.
     bind (case ag_pickup a of
             None \<Rightarrow> ret () | Some (x, _) \<Rightarrow> save_pickup_info (stamp_pickup t target x)) (\<lambda>_.
     (case ag_delivery a of
        None \<Rightarrow> ret () | Some x \<Rightarrow> save_delivery_info (stamp_delivery t target x))))"

definition update_status :: "uuid \<Rightarrow> order_status \<Rightarrow> OrderDTO session" where
  "update_status i target =
     bind (fetch (\<lambda>d. repo_get d i) (OrderExn (OrderNotFoundError i))) (\<lambda>a.
     bind (require (target \<in> set STAFF_TARGETS) (invalid_transition (o_status (ag_order a)) target)) (\<lambda>_.
     bind (ensure_transition (o_status (ag_order a)) target) (\<lambda>_.
     bind (save_order ((ag_order a)\<lparr>o_status := target\<rparr>)) (\<lambda>_.
     bind (stamp_milestone a target) (\<lambda>_.
     bind (reload_order i) (\<lambda>a'. of_sum (order_dto a')))))))"

definition update_order_status_endpoint ::
  "settings \<Rightarrow> string option \<Rightarrow> string option \<Rightarrow> string option \<Rightarrow> uuid \<Rightarrow> order_status \<Rightarrow> OrderDTO session" where
  "update_order_status_endpoint cfg token who r i target =
     admin_endpoint (require_order_caller cfg token who r) (\<lambda>caller.
       bind (update_status i target) (\<lambda>ord.
       bind (order_audit cfg caller (''status:'' @ order_status_value target) (''order:'' @ str_uuid i))
         (\<lambda>_. ret ord)))"

section \<open>What the steps of the service do\<close>

lemma repo_get_Some: "repo_get d i = Some a \<longleftrightarrow> (\<exists>ord. lookup (t_orders d) i = Some ord \<and> a = aggregate d ord)"
  by (auto simp: repo_get_def)

lemma aggregate_order [simp]: "ag_order (aggregate d ord) = ord"
  by (simp add: aggregate_def)

lemma reload_order_InrE [svc_elims]:
  assumes "reload_order i w = (Inr a, w')"
  obtains ord where "lookup (t_orders (wdb w)) i = Some ord" and "a = aggregate (wdb w) ord" and "w' = w"
  using assms by (auto simp: reload_order_def repo_get_Some elim!: svc_elims)

lemma require_owned_run [svc_simps]:
  "bind (require_owned i u) f w =
     (case lookup (t_orders (wdb w)) i of
        None \<Rightarrow> (Inl (OrderExn (OrderNotFoundError i)), w)
      | Some ord \<Rightarrow>
          if o_user_id ord = u then f (aggregate (wdb w) ord) w
          else (Inl (OrderExn OrderAccessDeniedError), w))"
  by (simp add: require_owned_def bind_assoc repo_get_def svc_simps split: option.splits)

lemma require_owned_InrE [svc_elims]:
  assumes "require_owned i u w = (Inr a, w')"
  obtains ord where "lookup (t_orders (wdb w)) i = Some ord" and "o_user_id ord = u"
    and "a = aggregate (wdb w) ord" and "w' = w"
  using assms require_owned_run [of i u ret w]
  by (simp add: bind_def split: option.splits if_splits prod.splits sum.splits)

lemma require_available_point_InrE [svc_elims]:
  assumes "require_available_point i w = (Inr p, w')"
  obtains "lookup (t_points (wdb w)) i = Some p" and "offered p" and "w' = w"
  using assms by (auto simp: require_available_point_def offered_def elim!: svc_elims)

lemma check_item_InrE [svc_elims]:
  assumes "check_item f it w = (Inr u, w')"
  obtains p where "f (it_product_id it) = Some p" and "p_is_active p" and "w' = w"
  using assms by (auto simp: check_item_def elim!: svc_elims split: option.splits)

lemma check_items_run:
  "forM (check_item f) items w = (Inr us, w') \<Longrightarrow>
   w' = w \<and> (\<forall>it \<in> set items. \<exists>p. f (it_product_id it) = Some p \<and> p_is_active p)"
  by (induction items arbitrary: us) (auto elim!: svc_elims)

lemma load_active_products_InrE [svc_elims]:
  assumes "load_active_products items w = (Inr f, w')"
  obtains "w' = w"
    and "\<And>it. it \<in> set items \<Longrightarrow> f (it_product_id it) = lookup (t_products (wdb w)) (it_product_id it)"
    and "\<And>it. it \<in> set items \<Longrightarrow>
      \<exists>p. lookup (t_products (wdb w)) (it_product_id it) = Some p \<and> p_is_active p"
proof -
  from assms obtain us where run: "forM (check_item (\<lambda>i. if i \<in> it_product_id ` set items
      then lookup (t_products (wdb w)) i else None)) items w = (Inr us, w')"
    and f: "f = (\<lambda>i. if i \<in> it_product_id ` set items then lookup (t_products (wdb w)) i else None)"
    unfolding load_active_products_def by (auto elim!: bind_InrE)
  show thesis
    using check_items_run [OF run] by (intro that) (auto simp: f)
qed

lemma allocate_code_InrE:
  "allocate_code n w = (Inr code, w') \<Longrightarrow>
   wdb w' = wdb w \<and> now w' = now w \<and> uuid_pos w' = uuid_pos w \<and> uuid_src w' = uuid_src w \<and>
   code \<notin> opi_pickup_code ` set (t_pickup_info (wdb w)) \<and> (\<exists>k < 1000000. code = dec_pad 6 k)"
proof (induction n arbitrary: w)
  case (Suc n)
  show ?case
  proof (cases "pickup_code_exists (dec_pad 6 (rand_src w (rand_pos w) mod 1000000)) (wdb w)")
    case True
    with Suc.prems have "allocate_code n (w\<lparr>rand_pos := Suc (rand_pos w)\<rparr>) = (Inr code, w')"
      by (simp add: bind_def randbelow_run)
    from Suc.IH [OF this] show ?thesis by simp
  next
    case False
    then have "dec_pad 6 (rand_src w (rand_pos w) mod 1000000) \<notin> opi_pickup_code ` set (t_pickup_info (wdb w))"
      by (auto simp: pickup_code_exists_def find_None_iff)
    moreover have "rand_src w (rand_pos w) mod 1000000 < 1000000" by simp
    ultimately show ?thesis
      using Suc.prems False by (auto simp: bind_def randbelow_run
          intro!: exI [of _ "rand_src w (rand_pos w) mod 1000000"])
  qed
qed simp

text \<open>
  A code is found within the attempts, or every one of the draws was taken: the error is
  raised exactly then.
\<close>

lemma allocate_code_fails:
  "allocate_code n w = (Inl e, w') \<Longrightarrow>
   (\<forall>j < n. pickup_code_exists (dec_pad 6 (rand_src w (rand_pos w + j) mod 1000000)) (wdb w))"
proof (induction n arbitrary: w)
  case (Suc n)
  from Suc.prems have taken: "pickup_code_exists (dec_pad 6 (rand_src w (rand_pos w) mod 1000000)) (wdb w)"
    by (simp add: bind_def randbelow_run split: if_splits)
  with Suc.prems have "allocate_code n (w\<lparr>rand_pos := Suc (rand_pos w)\<rparr>) = (Inl e, w')"
    by (simp add: bind_def randbelow_run)
  from Suc.IH [OF this] taken show ?case by (auto simp: less_Suc_eq_0_disj)
qed simp

lemma line_item_Inr:
  "map_sum_list (line_item f) items = Inr ls \<Longrightarrow>
   list_all2 (\<lambda>it l. \<exists>p. f (it_product_id it) = Some p \<and>
     l = \<lparr>ln_product_id = row_id p, ln_product_name = p_name p, ln_product_price = p_price p,
          ln_quantity = it_quantity it, ln_grind = it_grind it\<rparr>) items ls"
proof (induction items arbitrary: ls)
  case (Cons it items)
  then show ?case
    by (auto simp: line_item_def split: option.splits sum.splits)
qed simp

text \<open>The tables the order service writes.\<close>

abbreviation outside_orders :: "database \<Rightarrow> database" where
  "outside_orders d \<equiv>
     d\<lparr>t_orders := [], t_order_products := [], t_pickup_info := [], t_delivery_info := []\<rparr>"

lemma order_steps_frame:
  "frame p (reload_order i)" "frame p (require_owned i u)" "frame p (load_active_products items)"
  "frame p (require_available_point i)" "frame p (allocate_code n)" "frame p allocate_pickup_code"
  "frame p (choose_fulfillment data)" "frame p (ensure_transition a b)"
proof -
  show code: "frame p (allocate_code n)" for n
  proof (induction n)
    case (Suc n)
    then show ?case unfolding allocate_code.simps by (intro frame_intros)
  qed (unfold allocate_code.simps, rule leaving.ev_raise)
  then show "frame p allocate_pickup_code" by (simp add: allocate_pickup_code_def)
  show point: "frame p (require_available_point i)" for i
    unfolding require_available_point_def by (intro frame_intros)
  show "frame p (choose_fulfillment data)"
    unfolding choose_fulfillment_def allocate_pickup_code_def by (intro frame_intros code point)
  show "frame p (reload_order i)" unfolding reload_order_def by (intro frame_intros)
  show "frame p (require_owned i u)" unfolding require_owned_def by (intro frame_intros)
  show "frame p (load_active_products items)"
    unfolding load_active_products_def check_item_def by (intro frame_intros)
  show "frame p (ensure_transition a b)" unfolding ensure_transition_def by (intro frame_intros)
qed

lemma repo_add_frame: "frame outside_orders (repo_add u ty amount ls f)"
  unfolding repo_add_def insert_fulfillment_def
  by (cases f) (simp_all, (intro frame_intros; simp)+)

lemma orders_frame:
  "frame outside_orders (create_order u data)" "frame outside_orders (cancel_order i u)"
  "frame outside_orders (update_status i target)" "frame p (get_order i u)"
  "frame p (list_orders u st limit offset)"
proof -
  show "frame outside_orders (create_order u data)"
    unfolding create_order_def by (intro frame_intros order_steps_frame repo_add_frame)
  show "frame outside_orders (cancel_order i u)"
    unfolding cancel_order_def by (intro frame_intros order_steps_frame; simp)
  show "frame outside_orders (update_status i target)"
    unfolding update_status_def stamp_milestone_def
    by (intro frame_intros order_steps_frame; auto split: prod.splits intro!: frame_intros)
  show "frame p (get_order i u)"
    unfolding get_order_def by (intro frame_intros order_steps_frame)
  show "frame p (list_orders u st limit offset)"
    unfolding list_orders_def by (auto split: prod.splits intro!: frame_intros)
qed

section \<open>The invariant of orders\<close>

text \<open>
  An order has line items whose prices add up to its total, and exactly the fulfillment row
  of its type; line items and fulfillment rows belong to existing orders; pickup codes are
  six digits and distinct.
\<close>

definition line_total :: "order_product list \<Rightarrow> money" where
  "line_total xs = sum_list (map (\<lambda>x. op_product_price x * op_quantity x) xs)"

definition order_sound :: "database \<Rightarrow> order \<Rightarrow> bool" where
  "order_sound d ord \<longleftrightarrow>
     order_lines d (row_id ord) \<noteq> [] \<and> o_total_price ord = line_total (order_lines d (row_id ord)) \<and>
     (order_pickup d (row_id ord) \<noteq> None \<longleftrightarrow> o_type ord = PICKUP) \<and>
     (order_delivery d (row_id ord) \<noteq> None \<longleftrightarrow> o_type ord = DELIVERY)"

definition orders_inv :: "database \<Rightarrow> bool" where
  "orders_inv d \<longleftrightarrow>
     distinct (row_ids (t_orders d)) \<and> distinct (row_ids (t_order_products d)) \<and>
     distinct (row_ids (t_pickup_info d)) \<and> distinct (row_ids (t_delivery_info d)) \<and>
     (\<forall>x \<in> set (t_order_products d). refers (t_orders d) (op_order_id x)) \<and>
     (\<forall>x \<in> set (t_pickup_info d). refers (t_orders d) (opi_order_id x)) \<and>
     (\<forall>x \<in> set (t_delivery_info d). refers (t_orders d) (odi_order_id x)) \<and>
     distinct (map opi_pickup_code (t_pickup_info d)) \<and>
     (\<forall>x \<in> set (t_pickup_info d). \<exists>k < 1000000. opi_pickup_code x = dec_pad 6 k) \<and>
     (\<forall>ord \<in> set (t_orders d). order_sound d ord)"

text \<open>It only depends on these columns, so that every UPDATE of others keeps it.\<close>

abbreviation order_key :: "order \<Rightarrow> uuid \<times> order_type \<times> money" where
  "order_key r \<equiv> (row_id r, o_type r, o_total_price r)"

abbreviation line_key :: "order_product \<Rightarrow> uuid \<times> uuid \<times> money \<times> int" where
  "line_key r \<equiv> (row_id r, op_order_id r, op_product_price r, op_quantity r)"

abbreviation pickup_key :: "order_pickup_info \<Rightarrow> uuid \<times> uuid \<times> string" where
  "pickup_key r \<equiv> (row_id r, opi_order_id r, opi_pickup_code r)"

abbreviation delivery_key :: "order_delivery_info \<Rightarrow> uuid \<times> uuid" where
  "delivery_key r \<equiv> (row_id r, odi_order_id r)"

definition order_columns where
  "order_columns d = (map order_key (t_orders d), map line_key (t_order_products d),
     map pickup_key (t_pickup_info d), map delivery_key (t_delivery_info d))"

definition columns_inv where
  "columns_inv c \<longleftrightarrow> (case c of (os, ls, ps, ds) \<Rightarrow>
     distinct (map fst os) \<and> distinct (map fst ls) \<and> distinct (map fst ps) \<and> distinct (map fst ds) \<and>
     (\<forall>x \<in> set ls. fst (snd x) \<in> fst ` set os) \<and> (\<forall>x \<in> set ps. fst (snd x) \<in> fst ` set os) \<and>
     (\<forall>x \<in> set ds. snd x \<in> fst ` set os) \<and> distinct (map (\<lambda>x. snd (snd x)) ps) \<and>
     (\<forall>x \<in> set ps. \<exists>k < 1000000. snd (snd x) = dec_pad 6 k) \<and>
     (\<forall>x \<in> set os.
        filter (\<lambda>l. fst (snd l) = fst x) ls \<noteq> [] \<and>
        snd (snd x) = sum_list (map (\<lambda>(_, _, p, q). p * q) (filter (\<lambda>l. fst (snd l) = fst x) ls)) \<and>
        ((\<exists>y \<in> set ps. fst (snd y) = fst x) \<longleftrightarrow> fst (snd x) = PICKUP) \<and>
        ((\<exists>y \<in> set ds. snd y = fst x) \<longleftrightarrow> fst (snd x) = DELIVERY)))"

lemma order_lines_columns:
  "filter (\<lambda>l. fst (snd l) = i) (map line_key t) = map line_key (filter (\<lambda>x. op_order_id x = i) t)"
  by (simp add: filter_map o_def)

lemma order_sound_columns:
  "order_sound d ord \<longleftrightarrow>
     filter (\<lambda>l. fst (snd l) = row_id ord) (map line_key (t_order_products d)) \<noteq> [] \<and>
     o_total_price ord = sum_list (map (\<lambda>(_, _, p, q). p * q)
       (filter (\<lambda>l. fst (snd l) = row_id ord) (map line_key (t_order_products d)))) \<and>
     ((\<exists>y \<in> set (t_pickup_info d). opi_order_id y = row_id ord) \<longleftrightarrow> o_type ord = PICKUP) \<and>
     ((\<exists>y \<in> set (t_delivery_info d). odi_order_id y = row_id ord) \<longleftrightarrow> o_type ord = DELIVERY)"
  unfolding order_lines_columns
  by (auto simp: order_sound_def line_total_def order_lines_def order_pickup_def order_delivery_def
      find_None_iff o_def)

lemma orders_inv_columns: "orders_inv d \<longleftrightarrow> columns_inv (order_columns d)"
  by (simp add: orders_inv_def columns_inv_def order_columns_def order_sound_columns row_ids_def
      o_def image_image)

lemma orders_inv_same: "order_columns d' = order_columns d \<Longrightarrow> orders_inv d \<Longrightarrow> orders_inv d'"
  by (simp add: orders_inv_columns)

lemma orders_inv_ids:
  assumes "orders_inv d"
  shows "distinct (row_ids (t_orders d))" "distinct (row_ids (t_pickup_info d))"
    "distinct (row_ids (t_delivery_info d))"
  using assms by (simp_all add: orders_inv_def)

section \<open>Operations keep the invariant\<close>

lemma save_order_columns:
  assumes "save_order r w = (Inr u, w')" and "orders_inv (wdb w)"
    and "\<And>old. lookup (t_orders (wdb w)) (row_id r) = Some old \<Longrightarrow> order_key r = order_key old"
  shows "order_columns (wdb w') = order_columns (wdb w)"
proof -
  have "map order_key (t_orders (wdb w')) = map order_key (t_orders (wdb w))"
    by (rule orders_rel.save_columns [where key = "order_key", OF assms(1) orders_inv_ids(1) [OF assms(2)] assms(3)]) auto
  with assms(1) show ?thesis by (auto simp: order_columns_def elim!: db_save_InrE)
qed

lemma save_pickup_columns:
  assumes "save_pickup_info r w = (Inr u, w')" and "orders_inv (wdb w)"
    and "\<And>old. lookup (t_pickup_info (wdb w)) (row_id r) = Some old \<Longrightarrow> pickup_key r = pickup_key old"
  shows "order_columns (wdb w') = order_columns (wdb w)"
proof -
  have "map pickup_key (t_pickup_info (wdb w')) = map pickup_key (t_pickup_info (wdb w))"
    by (rule pickup_info_rel.save_columns [where key = "pickup_key", OF assms(1) orders_inv_ids(2) [OF assms(2)] assms(3)]) auto
  with assms(1) show ?thesis by (auto simp: order_columns_def elim!: db_save_InrE)
qed

lemma save_delivery_columns:
  assumes "save_delivery_info r w = (Inr u, w')" and "orders_inv (wdb w)"
    and "\<And>old. lookup (t_delivery_info (wdb w)) (row_id r) = Some old \<Longrightarrow> delivery_key r = delivery_key old"
  shows "order_columns (wdb w') = order_columns (wdb w)"
proof -
  have "map delivery_key (t_delivery_info (wdb w')) = map delivery_key (t_delivery_info (wdb w))"
    by (rule delivery_info_rel.save_columns [where key = "delivery_key", OF assms(1) orders_inv_ids(3) [OF assms(2)] assms(3)]) auto
  with assms(1) show ?thesis by (auto simp: order_columns_def elim!: db_save_InrE)
qed

text \<open>A status change, as cancel, update and the payment service make it.\<close>

lemma save_status_inv:
  assumes "lookup (t_orders (wdb w)) i = Some ord" and "save_order (ord\<lparr>o_status := s\<rparr>) w = (Inr u, w')"
    and "orders_inv (wdb w)"
  shows "orders_inv (wdb w')"
  using save_order_columns [OF assms(2,3)] assms(1,3) lookup_SomeD [OF assms(1)]
  by (auto intro: orders_inv_same)

lemma stamp_pickup_simps [simp]:
  "row_id (stamp_pickup t s x) = row_id x" "opi_order_id (stamp_pickup t s x) = opi_order_id x"
  "opi_pickup_code (stamp_pickup t s x) = opi_pickup_code x"
  "opi_point_id (stamp_pickup t s x) = opi_point_id x"
  by (simp_all add: stamp_pickup_def)

lemma stamp_delivery_simps [simp]:
  "row_id (stamp_delivery t s x) = row_id x" "odi_order_id (stamp_delivery t s x) = odi_order_id x"
  by (simp_all add: stamp_delivery_def)

section \<open>Adding an order\<close>

definition fulfillment_type :: "fulfillment \<Rightarrow> order_type" where
  "fulfillment_type f = (case f of PickupAt _ _ _ \<Rightarrow> PICKUP | DeliverTo _ \<Rightarrow> DELIVERY)"

definition fulfillment_rows :: "uuid \<Rightarrow> datetime \<Rightarrow> fulfillment \<Rightarrow> order_pickup_info list \<Rightarrow>
    order_delivery_info list \<Rightarrow> bool" where
  "fulfillment_rows order_id t f ps ds \<longleftrightarrow>
     (case f of
        PickupAt point_id code deadline \<Rightarrow> ds = [] \<and> (\<exists>i. ps = [new_pickup order_id point_id code deadline i t])
      | DeliverTo a \<Rightarrow> ps = [] \<and> (\<exists>i. ds = [new_delivery order_id a i t]))"

lemma insert_fulfillment_InrE:
  assumes "insert_fulfillment order_id f w = (Inr u, w')"
  obtains ps ds where "fulfillment_rows order_id (now w) f ps ds"
    and "t_pickup_info (wdb w') = t_pickup_info (wdb w) @ ps"
    and "t_delivery_info (wdb w') = t_delivery_info (wdb w) @ ds"
    and "t_orders (wdb w') = t_orders (wdb w)" and "t_order_products (wdb w') = t_order_products (wdb w)"
    and "distinct (row_ids (t_pickup_info (wdb w))) \<longrightarrow> distinct (row_ids (t_pickup_info (wdb w')))"
    and "distinct (row_ids (t_delivery_info (wdb w))) \<longrightarrow> distinct (row_ids (t_delivery_info (wdb w')))"
    and "\<forall>p \<in> set ps. ok_pickup_info (wdb w) p \<and> fits_pickup_info p"
    and "\<forall>x \<in> set ds. fits_delivery_info x"
proof (cases f)
  case (PickupAt point_id code deadline)
  with assms show thesis
    by (auto simp: insert_fulfillment_def fulfillment_rows_def
        elim!: bind_InrE db_add_InrE intro!: that [of "[_]" "[]"])
next
  case (DeliverTo a)
  with assms show thesis
    by (auto simp: insert_fulfillment_def fulfillment_rows_def
        elim!: bind_InrE db_add_InrE intro!: that [of "[]" "[_]"])
qed

lemma lines_frame: "frame (\<lambda>d. d\<lparr>t_order_products := []\<rparr>) (forM (\<lambda>l. add_order_product (new_line i l)) ls)"
  by (intro frame_intros) simp

lemma repo_add_InrE:
  assumes "repo_add u ty amount ls f w = (Inr ord, w')"
  obtains i js ps ds where "ord = new_order u ty amount i (now w)"
    and "refers (t_users (wdb w)) u" and "0 < amount" and "fits_order ord"
    and "i \<notin> set (row_ids (t_orders (wdb w)))"
    and "length js = length ls"
    and "t_orders (wdb w') = t_orders (wdb w) @ [ord]"
    and "t_order_products (wdb w') = t_order_products (wdb w) @ map2 (\<lambda>l j. new_line i l j (now w)) ls js"
    and "fulfillment_rows i (now w) f ps ds"
    and "t_pickup_info (wdb w') = t_pickup_info (wdb w) @ ps"
    and "t_delivery_info (wdb w') = t_delivery_info (wdb w) @ ds"
    and "distinct (row_ids (t_order_products (wdb w))) \<longrightarrow> distinct (row_ids (t_order_products (wdb w')))"
    and "distinct (row_ids (t_pickup_info (wdb w))) \<longrightarrow> distinct (row_ids (t_pickup_info (wdb w')))"
    and "distinct (row_ids (t_delivery_info (wdb w))) \<longrightarrow> distinct (row_ids (t_delivery_info (wdb w')))"
    and "\<forall>p \<in> set ps. unique_by opi_pickup_code (t_pickup_info (wdb w)) p"
    and "\<forall>p \<in> set ps. refers (t_points (wdb w)) (opi_point_id p) \<and> fits_pickup_info p"
    and "\<forall>x \<in> set ds. fits_delivery_info x"
proof -
  from assms obtain v xs z r where v: "add_order (new_order u ty amount) w = (Inr r, v)"
    and z: "forM (\<lambda>l. add_order_product (new_line (row_id r) l)) ls v = (Inr xs, z)"
    and w': "insert_fulfillment (row_id r) f z = (Inr (), w')" and r: "r = ord"
    unfolding repo_add_def by (auto elim!: bind_InrE)
  from v have ord: "ord = new_order u ty amount (row_id ord) (now w)" "fits_order ord"
      "o_user_id ord = u" "o_total_price ord = amount"
      "ok_order (wdb w) ord" "row_id ord \<notin> set (row_ids (t_orders (wdb w)))"
    and vdb: "wdb v = t_orders_update (\<lambda>t. t @ [ord]) (wdb w)" "now v = now w"
    by (auto elim!: db_add_InrE simp: r new_order_def)
  have rest: "(wdb z)\<lparr>t_order_products := []\<rparr> = (wdb v)\<lparr>t_order_products := []\<rparr>"
    using leavesD [OF lines_frame z] .
  have same: "t_orders (wdb z) = t_orders (wdb v)" "t_pickup_info (wdb z) = t_pickup_info (wdb v)"
      "t_delivery_info (wdb z) = t_delivery_info (wdb v)" "t_points (wdb z) = t_points (wdb v)"
    using arg_cong [OF rest, of t_orders] arg_cong [OF rest, of t_pickup_info]
      arg_cong [OF rest, of t_delivery_info] arg_cong [OF rest, of t_points] by simp_all
  note lines = order_products_rel.forM_add [OF z]
  from lines obtain js where js: "length js = length ls" "xs = map2 (\<lambda>l i. new_line (row_id r) l i (now v)) ls js"
    by blast
  from w' obtain ps ds where f: "fulfillment_rows (row_id r) (now z) f ps ds"
      "t_pickup_info (wdb w') = t_pickup_info (wdb z) @ ps"
      "t_delivery_info (wdb w') = t_delivery_info (wdb z) @ ds"
      "t_orders (wdb w') = t_orders (wdb z)" "t_order_products (wdb w') = t_order_products (wdb z)"
      "distinct (row_ids (t_pickup_info (wdb z))) \<longrightarrow> distinct (row_ids (t_pickup_info (wdb w')))"
      "distinct (row_ids (t_delivery_info (wdb z))) \<longrightarrow> distinct (row_ids (t_delivery_info (wdb w')))"
      "\<forall>p \<in> set ps. ok_pickup_info (wdb z) p \<and> fits_pickup_info p"
      "\<forall>x \<in> set ds. fits_delivery_info x"
    by (elim insert_fulfillment_InrE)
  show thesis
  proof (rule that [of "row_id ord" js ps ds])
    show "refers (t_users (wdb w)) u" "0 < amount"
      using ord(3-5) by (simp_all add: ok_order_def check_order_def)
  qed (use ord js f lines same vdb r in \<open>auto simp: ok_pickup_info_def\<close>)
qed

lemma new_lines:
  assumes "length js = length ls"
  shows "filter (\<lambda>x. op_order_id x = j) (map2 (\<lambda>l i. new_line oid l i t) ls js) =
      (if j = oid then map2 (\<lambda>l i. new_line oid l i t) ls js else [])"
    and "line_total (map2 (\<lambda>l i. new_line oid l i t) ls js) = order_total ls"
    and "x \<in> set (map2 (\<lambda>l i. new_line oid l i t) ls js) \<Longrightarrow> op_order_id x = oid"
proof -
  show "filter (\<lambda>x. op_order_id x = j) (map2 (\<lambda>l i. new_line oid l i t) ls js) =
      (if j = oid then map2 (\<lambda>l i. new_line oid l i t) ls js else [])"
    using assms by (induction ls js rule: list_induct2') (auto simp: new_line_def)
  show "line_total (map2 (\<lambda>l i. new_line oid l i t) ls js) = order_total ls"
    using assms by (induction ls js rule: list_induct2') (auto simp: new_line_def line_total_def order_total_def)
  show "x \<in> set (map2 (\<lambda>l i. new_line oid l i t) ls js) \<Longrightarrow> op_order_id x = oid"
    by (auto simp: new_line_def dest: set_zip_leftD)
qed

lemma fulfillment_rows_facts:
  assumes "fulfillment_rows i t f ps ds"
  shows "x \<in> set ps \<Longrightarrow> opi_order_id x = i" "y \<in> set ds \<Longrightarrow> odi_order_id y = i"
    "ps \<noteq> [] \<longleftrightarrow> fulfillment_type f = PICKUP" "ds \<noteq> [] \<longleftrightarrow> fulfillment_type f = DELIVERY"
    "length ps \<le> 1" "length ds \<le> 1"
    "x \<in> set ps \<Longrightarrow> \<exists>pt c dl. f = PickupAt pt c dl \<and> opi_pickup_code x = c"
  using assms
  by (auto simp: fulfillment_rows_def fulfillment_type_def new_pickup_def new_delivery_def
      split: fulfillment.splits)

lemma repo_add_inv:
  assumes run: "repo_add u ty amount ls f w = (Inr ord, w')" and inv: "orders_inv (wdb w)"
    and args: "ls \<noteq> []" "amount = order_total ls" "ty = fulfillment_type f"
      "\<forall>p c t. f = PickupAt p c t \<longrightarrow> (\<exists>k < 1000000. c = dec_pad 6 k)"
  shows "orders_inv (wdb w')"
proof -
  from run obtain i js ps ds where ord: "ord = new_order u ty amount i (now w)"
    and new: "i \<notin> set (row_ids (t_orders (wdb w)))" and js: "length js = length ls"
    and tabs: "t_orders (wdb w') = t_orders (wdb w) @ [ord]"
      "t_order_products (wdb w') = t_order_products (wdb w) @ map2 (\<lambda>l j. new_line i l j (now w)) ls js"
      "t_pickup_info (wdb w') = t_pickup_info (wdb w) @ ps"
      "t_delivery_info (wdb w') = t_delivery_info (wdb w) @ ds"
    and f: "fulfillment_rows i (now w) f ps ds"
    and dist: "distinct (row_ids (t_order_products (wdb w))) \<longrightarrow> distinct (row_ids (t_order_products (wdb w')))"
      "distinct (row_ids (t_pickup_info (wdb w))) \<longrightarrow> distinct (row_ids (t_pickup_info (wdb w')))"
      "distinct (row_ids (t_delivery_info (wdb w))) \<longrightarrow> distinct (row_ids (t_delivery_info (wdb w')))"
    and uniq: "\<forall>p \<in> set ps. unique_by opi_pickup_code (t_pickup_info (wdb w)) p"
    by (elim repo_add_InrE)
  have id: "row_id ord = i" by (simp add: ord new_order_def)
  have dist': "distinct (row_ids (t_order_products (wdb w')))" "distinct (row_ids (t_pickup_info (wdb w')))"
      "distinct (row_ids (t_delivery_info (wdb w')))"
    using dist inv by (simp_all add: orders_inv_def)
  have codes: "distinct (map opi_pickup_code (t_pickup_info (wdb w')))"
  proof -
    have "distinct (map opi_pickup_code (t_pickup_info (wdb w)))"
      using inv by (simp add: orders_inv_def)
    then show ?thesis
      using dist'(2) uniq fulfillment_rows_facts(5) [OF f]
      by (cases ps) (auto simp: tabs row_ids_def unique_by_def rev_image_eqI)
  qed
  have sound: "order_sound (wdb w') r" if "r \<in> set (t_orders (wdb w))" for r
  proof -
    have "row_id r \<noteq> i" using that new by (auto simp: row_ids_def)
    moreover from this have "order_lines (wdb w') (row_id r) = order_lines (wdb w) (row_id r)"
      by (simp add: order_lines_def tabs new_lines(1) [OF js])
    moreover have "find (\<lambda>x. opi_order_id x = row_id r) ps = None"
      using \<open>row_id r \<noteq> i\<close> fulfillment_rows_facts(1) [OF f] by (auto simp: find_None_iff)
    then have "order_pickup (wdb w') (row_id r) = order_pickup (wdb w) (row_id r)"
      by (simp add: order_pickup_def tabs find_append split: option.splits)
    moreover have "find (\<lambda>x. odi_order_id x = row_id r) ds = None"
      using \<open>row_id r \<noteq> i\<close> fulfillment_rows_facts(2) [OF f] by (auto simp: find_None_iff)
    then have "order_delivery (wdb w') (row_id r) = order_delivery (wdb w) (row_id r)"
      by (simp add: order_delivery_def tabs find_append split: option.splits)
    ultimately show ?thesis
      using inv that by (simp add: orders_inv_def order_sound_def)
  qed
  have none: "order_lines (wdb w) i = []" "order_pickup (wdb w) i = None" "order_delivery (wdb w) i = None"
    using inv new by (auto simp: orders_inv_def order_lines_def order_pickup_def order_delivery_def
        filter_empty_conv find_None_iff)
  have lines: "order_lines (wdb w') i = map2 (\<lambda>l j. new_line i l j (now w)) ls js"
    using none(1) by (simp add: order_lines_def tabs new_lines(1) [OF js])
  have "order_lines (wdb w') i \<noteq> []"
    using args(1) js by (cases ls; cases js) (auto simp: lines)
  moreover have "order_pickup (wdb w') i \<noteq> None \<longleftrightarrow> ty = PICKUP"
    using none(2) fulfillment_rows_facts(1,3) [OF f] args(3)
    by (cases ps) (auto simp: order_pickup_def tabs find_append)
  moreover have "order_delivery (wdb w') i \<noteq> None \<longleftrightarrow> ty = DELIVERY"
    using none(3) fulfillment_rows_facts(2,4) [OF f] args(3)
    by (cases ds) (auto simp: order_delivery_def tabs find_append)
  ultimately have "order_sound (wdb w') ord"
    using new_lines(2) [OF js, of i "now w"] args(2)
    by (simp add: order_sound_def id lines) (simp add: ord new_order_def)
  moreover have "\<forall>x \<in> set ps. \<exists>k < 1000000. opi_pickup_code x = dec_pad 6 k"
    using fulfillment_rows_facts(7) [OF f] args(4) by metis
  moreover have "\<forall>x \<in> set (t_order_products (wdb w')). refers (t_orders (wdb w')) (op_order_id x)"
    using inv new_lines(3) [OF js, of _ i "now w"] unfolding tabs orders_inv_def by (auto simp: id)
  moreover have "\<forall>x \<in> set (t_pickup_info (wdb w')). refers (t_orders (wdb w')) (opi_order_id x)"
    using inv fulfillment_rows_facts(1) [OF f] unfolding tabs orders_inv_def by (auto simp: id)
  moreover have "\<forall>x \<in> set (t_delivery_info (wdb w')). refers (t_orders (wdb w')) (odi_order_id x)"
    using inv fulfillment_rows_facts(2) [OF f] unfolding tabs orders_inv_def by (auto simp: id)
  moreover have "distinct (row_ids (t_orders (wdb w')))"
    using inv new by (simp add: tabs orders_inv_def id)
  moreover have "\<forall>x \<in> set (t_pickup_info (wdb w)). \<exists>k < 1000000. opi_pickup_code x = dec_pad 6 k"
    using inv by (simp add: orders_inv_def)
  ultimately show ?thesis
    using dist' codes sound by (auto simp: orders_inv_def tabs)
qed

section \<open>Creating an order\<close>

lemma reads_only:
  "load_active_products items w = (Inr f, w') \<Longrightarrow> w' = w"
  "reload_order i w = (Inr a, w') \<Longrightarrow> w' = w"
  "require_available_point i w = (Inr p, w') \<Longrightarrow> w' = w"
  by (auto elim: load_active_products_InrE reload_order_InrE require_available_point_InrE)

lemma choose_fulfillment_InrE:
  assumes "choose_fulfillment data w = (Inr f, w')"
  obtains "wdb w' = wdb w" and "now w' = now w" and "fulfillment_type f = co_order_type data"
    and "\<forall>p c t. f = PickupAt p c t \<longrightarrow> (\<exists>k < 1000000. c = dec_pad 6 k) \<and> t = now w + PICKUP_TTL \<and>
           co_pickup_point_id data = Some p \<and> (\<exists>pnt. lookup (t_points (wdb w)) p = Some pnt \<and> offered pnt)"
    and "\<forall>a. f = DeliverTo a \<longrightarrow> co_delivery data = Some a"
proof (cases "co_order_type data")
  case PICKUP
  with assms obtain i v code where i: "co_pickup_point_id data = Some i"
    and v: "require_available_point i w = (Inr v, w)"
    and code: "allocate_pickup_code w = (Inr code, w')" and f: "f = PickupAt i code (now w' + PICKUP_TTL)"
    by (auto simp: choose_fulfillment_def split: option.splits elim!: bind_InrE)
       (auto dest: reads_only)
  show thesis
    using allocate_code_InrE [OF code [unfolded allocate_pickup_code_def]] v i PICKUP f
    by (intro that) (auto simp: fulfillment_type_def elim!: require_available_point_InrE)
next
  case DELIVERY
  with assms show thesis
    by (intro that) (auto simp: choose_fulfillment_def fulfillment_type_def split: option.splits)
qed

lemma create_order_InrE:
  assumes "create_order u data w = (Inr dto, w')"
  obtains ls f ord v where "list_all2 (\<lambda>it l. \<exists>p. lookup (t_products (wdb w)) (it_product_id it) = Some p \<and>
        p_is_active p \<and> l = \<lparr>ln_product_id = row_id p, ln_product_name = p_name p,
          ln_product_price = p_price p, ln_quantity = it_quantity it, ln_grind = it_grind it\<rparr>)
        (co_items data) ls"
    and "co_items data \<noteq> []"
    and "choose_fulfillment data w = (Inr f, v)"
    and "repo_add u (co_order_type data) (order_total ls) ls f v = (Inr ord, w')"
    and "order_dto (aggregate (wdb w') ord) = Inr dto"
    and "lookup (t_orders (wdb w')) (row_id ord) = Some ord"
proof -
  from assms obtain products ls f ord v v0 v1 a where ne: "co_items data \<noteq> []"
    and products: "load_active_products (co_items data) w = (Inr products, v0)"
    and ls: "map_sum_list (line_item products) (co_items data) = Inr ls"
    and f: "choose_fulfillment data v0 = (Inr f, v)"
    and add: "repo_add u (co_order_type data) (order_total ls) ls f v = (Inr ord, v1)"
    and a: "reload_order (row_id ord) v1 = (Inr a, w')" and dto: "order_dto a = Inr dto"
    unfolding create_order_def by (auto elim!: bind_InrE require_InrE)
  note same = reads_only(1) [OF products] reads_only(2) [OF a]
  note products = products [unfolded same] and f = f [unfolded same]
    and add = add [folded same] and a = a [folded same]
  have "list_all2 (\<lambda>it l. \<exists>p. lookup (t_products (wdb w)) (it_product_id it) = Some p \<and>
        p_is_active p \<and> l = \<lparr>ln_product_id = row_id p, ln_product_name = p_name p,
          ln_product_price = p_price p, ln_quantity = it_quantity it, ln_grind = it_grind it\<rparr>)
        (co_items data) ls"
    using products
  proof (rule load_active_products_InrE)
    assume same: "\<And>it. it \<in> set (co_items data) \<Longrightarrow>
        products (it_product_id it) = lookup (t_products (wdb w)) (it_product_id it)"
      and act: "\<And>it. it \<in> set (co_items data) \<Longrightarrow>
        \<exists>p. lookup (t_products (wdb w)) (it_product_id it) = Some p \<and> p_is_active p"
    show ?thesis
      using line_item_Inr [OF ls] by (rule list.rel_mono_strong) (use same act in fastforce)
  qed
  moreover have "lookup (t_orders (wdb w')) (row_id ord) = Some ord"
    using add by (elim repo_add_InrE) (metis lookup_append_new new_order_def row.select_convs(1))
  moreover have "a = aggregate (wdb w') ord"
    using a calculation(2) by (auto elim: reload_order_InrE)
  ultimately show thesis using that ne f add dto by blast
qed

lemma create_order_inv: "preserves orders_inv (create_order u data)"
proof (rule preservesI)
  fix w dto w'
  assume run: "create_order u data w = (Inr dto, w')" and inv: "orders_inv (wdb w)"
  from run obtain ls f ord v where ls: "list_all2 (\<lambda>it l. \<exists>p. lookup (t_products (wdb w)) (it_product_id it) = Some p \<and>
        p_is_active p \<and> l = \<lparr>ln_product_id = row_id p, ln_product_name = p_name p,
          ln_product_price = p_price p, ln_quantity = it_quantity it, ln_grind = it_grind it\<rparr>)
        (co_items data) ls" "co_items data \<noteq> []"
    and f: "choose_fulfillment data w = (Inr f, v)"
    and add: "repo_add u (co_order_type data) (order_total ls) ls f v = (Inr ord, w')"
    by (rule create_order_InrE)
  from f inv have "orders_inv (wdb v)" by (auto elim: choose_fulfillment_InrE)
  moreover from ls have "ls \<noteq> []" by auto
  ultimately show "orders_inv (wdb w')"
    using f by (intro repo_add_inv [OF add]) (auto elim: choose_fulfillment_InrE)
qed

section \<open>Stored orders satisfy the constraints\<close>

definition orders_legal :: "database \<Rightarrow> bool" where
  "orders_legal d \<longleftrightarrow>
     (\<forall>r \<in> set (t_orders d). fits_order r \<and> ok_order d r) \<and>
     (\<forall>r \<in> set (t_pickup_info d). fits_pickup_info r \<and> ok_pickup_info d r) \<and>
     (\<forall>r \<in> set (t_delivery_info d). fits_delivery_info r \<and> ok_delivery_info d r)"

lemma unique_by_append:
  "unique_by k (t @ u) r \<longleftrightarrow> unique_by k t r \<and> unique_by k u r"
  by (auto simp: unique_by_def)

lemma unique_by_same_columns:
  assumes "map (\<lambda>x. (row_id x, k x)) u = map (\<lambda>x. (row_id x, k x)) t"
    and "row_id r' = row_id r" and "k r' = k r"
  shows "unique_by k u r' \<longleftrightarrow> unique_by k t r"
proof -
  have "(\<forall>x \<in> set (map (\<lambda>x. (row_id x, k x)) u). fst x = row_id r \<or> snd x \<noteq> k r) \<longleftrightarrow>
        (\<forall>x \<in> set (map (\<lambda>x. (row_id x, k x)) t). fst x = row_id r \<or> snd x \<noteq> k r)"
    by (simp only: assms(1))
  then show ?thesis using assms(2,3) by (simp add: unique_by_def)
qed

lemma legal_order_step:
  assumes "orders_legal (wdb w)" and "save_order (ord\<lparr>o_status := s\<rparr>) w = (Inr u, w')"
    and "lookup (t_orders (wdb w)) i = Some ord"
  shows "orders_legal (wdb w')"
proof -
  have ord: "fits_order ord" "ok_order (wdb w) ord" "row_id ord = i"
    using assms(1) lookup_SomeD [OF assms(3)] by (auto simp: orders_legal_def)
  from assms(2) obtain old where old: "lookup (t_orders (wdb w)) (row_id (ord\<lparr>o_status := s\<rparr>)) = Some old"
    and w1: "w' = w\<lparr>wdb := t_orders_update (replace_row (touch (now w) old (ord\<lparr>o_status := s\<rparr>))) (wdb w)\<rparr>"
    by (rule db_save_InrE)
  define new where "new = touch (now w) old (ord\<lparr>o_status := s\<rparr>)"
  have "old = ord" using old assms(3) ord(3) by simp
  then have new: "fits_order new" "check_order new" "o_user_id new = o_user_id ord"
    using ord by (simp_all add: new_def touch_def fits_order_def check_order_def ok_order_def)
  have w': "wdb w' = t_orders_update (replace_row new) (wdb w)"
    by (simp add: w1 new_def)
  have "fits_order r \<and> ok_order (wdb w') r" if "r \<in> set (t_orders (wdb w'))" for r
    using in_replaceD [of r new "t_orders (wdb w)"] that assms(1) new ord
    by (auto simp: w' orders_legal_def ok_order_def)
  then show ?thesis
    using assms(1) by (simp add: w' orders_legal_def ok_pickup_info_def ok_delivery_info_def)
qed

lemma legal_pickup_step:
  assumes "orders_legal (wdb w)" and "save_pickup_info (stamp_pickup t target x) w = (Inr u, w')"
    and "x \<in> set (t_pickup_info (wdb w))" and "orders_inv (wdb w)"
  shows "orders_legal (wdb w')"
proof -
  have x: "lookup (t_pickup_info (wdb w)) (row_id x) = Some x"
    using lookup_unique [OF orders_inv_ids(2) [OF assms(4)] assms(3)] .
  from assms(2) obtain old where old: "lookup (t_pickup_info (wdb w)) (row_id (stamp_pickup t target x)) = Some old"
    and w1: "w' = w\<lparr>wdb := t_pickup_info_update (replace_row (touch (now w) old (stamp_pickup t target x))) (wdb w)\<rparr>"
    by (rule db_save_InrE)
  define new where "new = touch (now w) old (stamp_pickup t target x)"
  have "old = x" using old x by simp
  then have new: "row_id new = row_id x" "opi_order_id new = opi_order_id x"
      "opi_point_id new = opi_point_id x" "opi_pickup_code new = opi_pickup_code x"
    by (simp_all add: new_def touch_def)
  have w': "wdb w' = t_pickup_info_update (replace_row new) (wdb w)"
    by (simp add: w1 new_def)
  have cols: "map (\<lambda>x. (row_id x, opi_order_id x)) (t_pickup_info (wdb w')) =
        map (\<lambda>x. (row_id x, opi_order_id x)) (t_pickup_info (wdb w))"
      "map (\<lambda>x. (row_id x, opi_pickup_code x)) (t_pickup_info (wdb w')) =
        map (\<lambda>x. (row_id x, opi_pickup_code x)) (t_pickup_info (wdb w))"
    using orders_inv_ids(2) [OF assms(4)] x new by (auto simp: w' intro!: map_replace)
  have same: "fits_pickup_info r' \<and> ok_pickup_info (wdb w') r'"
    if "fits_pickup_info r" "ok_pickup_info (wdb w) r" "row_id r' = row_id r" "opi_order_id r' = opi_order_id r"
      "opi_point_id r' = opi_point_id r" "opi_pickup_code r' = opi_pickup_code r" for r r'
    using that unique_by_same_columns [OF cols(1), of r' r] unique_by_same_columns [OF cols(2), of r' r]
    by (simp add: fits_pickup_info_def ok_pickup_info_def) (simp add: w')
  have "fits_pickup_info r \<and> ok_pickup_info (wdb w') r" if "r \<in> set (t_pickup_info (wdb w'))" for r
    using in_replaceD [of r new "t_pickup_info (wdb w)"] that assms(1,3) new same [of x new] same [of r r]
    by (auto simp: w' orders_legal_def)
  then show ?thesis
    using assms(1) by (simp add: w' orders_legal_def ok_order_def ok_delivery_info_def)
qed

lemma legal_delivery_step:
  assumes "orders_legal (wdb w)" and "save_delivery_info (stamp_delivery t target x) w = (Inr u, w')"
    and "x \<in> set (t_delivery_info (wdb w))" and "orders_inv (wdb w)"
  shows "orders_legal (wdb w')"
proof -
  have x: "lookup (t_delivery_info (wdb w)) (row_id x) = Some x"
    using lookup_unique [OF orders_inv_ids(3) [OF assms(4)] assms(3)] .
  have fx: "fits_delivery_info (stamp_delivery t target x)" if "fits_delivery_info x"
    using that by (simp add: stamp_delivery_def fits_delivery_info_def)
  from assms(2) obtain old where old: "lookup (t_delivery_info (wdb w)) (row_id (stamp_delivery t target x)) = Some old"
    and w1: "w' = w\<lparr>wdb := t_delivery_info_update (replace_row (touch (now w) old (stamp_delivery t target x))) (wdb w)\<rparr>"
    by (rule db_save_InrE)
  define new where "new = touch (now w) old (stamp_delivery t target x)"
  have "old = x" using old x by simp
  then have new: "row_id new = row_id x" "odi_order_id new = odi_order_id x"
      "fits_delivery_info x \<longrightarrow> fits_delivery_info new"
    using fx by (simp_all add: new_def touch_def) (simp add: fits_delivery_info_def)
  have w': "wdb w' = t_delivery_info_update (replace_row new) (wdb w)"
    by (simp add: w1 new_def)
  have cols: "map (\<lambda>x. (row_id x, odi_order_id x)) (t_delivery_info (wdb w')) =
        map (\<lambda>x. (row_id x, odi_order_id x)) (t_delivery_info (wdb w))"
    using orders_inv_ids(3) [OF assms(4)] x new by (auto simp: w' intro!: map_replace)
  have same: "ok_delivery_info (wdb w') r'"
    if "ok_delivery_info (wdb w) r" "row_id r' = row_id r" "odi_order_id r' = odi_order_id r" for r r'
    using that unique_by_same_columns [OF cols, of r' r]
    by (simp add: ok_delivery_info_def) (simp add: w')
  have "fits_delivery_info r \<and> ok_delivery_info (wdb w') r" if "r \<in> set (t_delivery_info (wdb w'))" for r
    using in_replaceD [of r new "t_delivery_info (wdb w)"] that assms(1,3) new same [of x new] same [of r r]
    by (auto simp: w' orders_legal_def)
  then show ?thesis
    using assms(1) by (simp add: w' orders_legal_def ok_order_def ok_pickup_info_def)
qed

lemma unique_by_new:
  assumes "unique_by k t r" and "\<And>x. x \<in> set u \<Longrightarrow> k x \<noteq> k r"
  shows "unique_by k (t @ u) r"
  using assms by (auto simp: unique_by_def)

lemma fulfillment_rows_eq:
  assumes "fulfillment_rows i t f ps ds"
  shows "ps = [] \<or> (\<exists>p. ps = [p] \<and> opi_order_id p = i)" "ds = [] \<or> (\<exists>x. ds = [x] \<and> odi_order_id x = i)"
  using assms by (auto simp: fulfillment_rows_def new_pickup_def new_delivery_def split: fulfillment.splits)

lemma repo_add_legal:
  assumes run: "repo_add u ty amount ls f w = (Inr ord, w')" and inv: "orders_inv (wdb w)"
    and legal: "orders_legal (wdb w)"
  shows "orders_legal (wdb w')"
proof -
  have out: "outside_orders (wdb w') = outside_orders (wdb w)"
    using leavesD [OF repo_add_frame run] .
  have keep: "t_users (wdb w') = t_users (wdb w)" "t_points (wdb w') = t_points (wdb w)"
    using arg_cong [OF out, of t_users] arg_cong [OF out, of t_points] by simp_all
  from run obtain i js ps ds where ord: "ord = new_order u ty amount i (now w)"
    and user: "refers (t_users (wdb w)) u" "0 < amount" "fits_order ord"
    and new: "i \<notin> set (row_ids (t_orders (wdb w)))"
    and tabs: "t_orders (wdb w') = t_orders (wdb w) @ [ord]"
      "t_pickup_info (wdb w') = t_pickup_info (wdb w) @ ps"
      "t_delivery_info (wdb w') = t_delivery_info (wdb w) @ ds"
    and f: "fulfillment_rows i (now w) f ps ds"
    and dist: "distinct (row_ids (t_pickup_info (wdb w))) \<longrightarrow> distinct (row_ids (t_pickup_info (wdb w')))"
    and code: "\<forall>p \<in> set ps. unique_by opi_pickup_code (t_pickup_info (wdb w)) p"
    and ps: "\<forall>p \<in> set ps. refers (t_points (wdb w)) (opi_point_id p) \<and> fits_pickup_info p"
    and ds: "\<forall>x \<in> set ds. fits_delivery_info x"
    by (elim repo_add_InrE)
  have old_p: "opi_order_id x \<noteq> i" if "x \<in> set (t_pickup_info (wdb w))" for x
    using inv new that by (auto simp: orders_inv_def)
  have old_d: "odi_order_id x \<noteq> i" if "x \<in> set (t_delivery_info (wdb w))" for x
    using inv new that by (auto simp: orders_inv_def)
  have codes: "opi_pickup_code p \<noteq> opi_pickup_code x"
    if "p \<in> set ps" "x \<in> set (t_pickup_info (wdb w))" for p x
  proof -
    have "row_id ` set (t_pickup_info (wdb w)) \<inter> row_id ` set ps = {}"
      using dist inv by (simp add: tabs orders_inv_def row_ids_def)
    then show ?thesis using that code by (auto simp: unique_by_def) (metis disjoint_iff image_eqI)
  qed
  have "fits_order ord \<and> ok_order (wdb w') ord"
    using user by (simp add: ok_order_def check_order_def keep) (simp add: ord new_order_def)
  moreover have "ok_order (wdb w') r" if "ok_order (wdb w) r" for r
    using that by (simp add: ok_order_def keep)
  moreover have "ok_pickup_info (wdb w') p" if "p \<in> set ps" for p
    using that ps code old_p fulfillment_rows_eq(1) [OF f]
    by (auto simp: ok_pickup_info_def tabs keep ord new_order_def unique_by_def)
  moreover have "ok_pickup_info (wdb w') x" if "x \<in> set (t_pickup_info (wdb w))" "ok_pickup_info (wdb w) x" for x
    using that codes old_p [OF that(1)] fulfillment_rows_facts(1) [OF f]
    by (auto simp: ok_pickup_info_def tabs keep intro!: unique_by_new)
  moreover have "ok_delivery_info (wdb w') x" if "x \<in> set ds" for x
    using that old_d fulfillment_rows_eq(2) [OF f]
    by (auto simp: ok_delivery_info_def tabs ord new_order_def unique_by_def)
  moreover have "ok_delivery_info (wdb w') x" if "x \<in> set (t_delivery_info (wdb w))" "ok_delivery_info (wdb w) x" for x
    using that old_d [OF that(1)] fulfillment_rows_facts(2) [OF f]
    by (auto simp: ok_delivery_info_def tabs intro!: unique_by_new)
  ultimately show ?thesis
    using legal ps ds unfolding orders_legal_def tabs by auto
qed

definition orders_ok :: "database \<Rightarrow> bool" where
  "orders_ok d \<longleftrightarrow> orders_inv d \<and> orders_legal d"

lemma create_order_ok: "preserves orders_ok (create_order u data)"
proof (rule preservesI)
  fix w dto w'
  assume run: "create_order u data w = (Inr dto, w')" and ok: "orders_ok (wdb w)"
  from run obtain ls f ord v where f: "choose_fulfillment data w = (Inr f, v)"
    and add: "repo_add u (co_order_type data) (order_total ls) ls f v = (Inr ord, w')"
    by (rule create_order_InrE)
  from f have "wdb v = wdb w" by (rule choose_fulfillment_InrE)
  with ok repo_add_legal [OF add] preservesD [OF create_order_inv run]
  show "orders_ok (wdb w')" by (simp add: orders_ok_def)
qed

lemma save_status_ok:
  "lookup (t_orders (wdb w)) i = Some ord \<Longrightarrow> save_order (ord\<lparr>o_status := s\<rparr>) w = (Inr u, w') \<Longrightarrow>
   orders_ok (wdb w) \<Longrightarrow> orders_ok (wdb w')"
  using save_status_inv legal_order_step unfolding orders_ok_def by blast

lemma cancel_order_ok: "preserves orders_ok (cancel_order i u)"
  unfolding cancel_order_def
  by (rule preservesI) (auto elim!: bind_InrE require_owned_InrE ensure_transition_InrE
      reload_order_InrE dest: save_status_ok)

section \<open>Status updates\<close>

text \<open>What a staff update does to the database: the status, and the milestone of the fulfillment.\<close>

definition stamp_pickups :: "datetime \<Rightarrow> order_status \<Rightarrow> uuid \<Rightarrow> database \<Rightarrow> database" where
  "stamp_pickups t target i = t_pickup_info_update
     (map (\<lambda>x. if opi_order_id x = i then touch t x (stamp_pickup t target x) else x))"

definition stamp_deliveries :: "datetime \<Rightarrow> order_status \<Rightarrow> uuid \<Rightarrow> database \<Rightarrow> database" where
  "stamp_deliveries t target i = t_delivery_info_update
     (map (\<lambda>x. if odi_order_id x = i then touch t x (stamp_delivery t target x) else x))"

definition set_status :: "datetime \<Rightarrow> order_status \<Rightarrow> order \<Rightarrow> database \<Rightarrow> database" where
  "set_status t target ord = t_orders_update (replace_row (ord\<lparr>o_status := target, updated_at := t\<rparr>))"

lemma order_dto_total:
  assumes "orders_legal d"
  shows "\<exists>dto. order_dto (aggregate d ord) = Inr dto"
proof (cases "order_pickup d (row_id ord)")
  case (Some x)
  then have "x \<in> set (t_pickup_info d)" by (auto simp: order_pickup_def find_Some_iff)
  with assms have "refers (t_points d) (opi_point_id x)" by (auto simp: orders_legal_def ok_pickup_info_def)
  then obtain p where "lookup (t_points d) (opi_point_id x) = Some p"
    by (metis lookup_None_iff option.exhaust)
  with Some show ?thesis by (simp add: order_dto_def aggregate_def pickup_dto_def)
qed (simp add: order_dto_def aggregate_def)

lemma save_status_run:
  assumes "orders_legal (wdb w)" and "lookup (t_orders (wdb w)) i = Some ord" and "s \<noteq> o_status ord"
  shows "save_order (ord\<lparr>o_status := s\<rparr>) w = (Inr (), w\<lparr>wdb := set_status (now w) s ord (wdb w)\<rparr>)"
proof -
  have ord: "fits_order ord" "ok_order (wdb w) ord" "row_id ord = i"
    using assms(1) lookup_SomeD [OF assms(2)] by (auto simp: orders_legal_def)
  have diff: "ord\<lparr>o_status := s\<rparr> \<noteq> ord"
  proof
    assume "ord\<lparr>o_status := s\<rparr> = ord"
    then have "o_status (ord\<lparr>o_status := s\<rparr>) = o_status ord" by simp
    with assms(3) show False by simp
  qed
  have "lookup (t_orders (wdb w)) (row_id (ord\<lparr>o_status := s\<rparr>)) = Some ord"
    using assms(2) ord(3) by simp
  moreover have "fits_order (ord\<lparr>o_status := s\<rparr>) \<and> ok_order (wdb w) (ord\<lparr>o_status := s\<rparr>)"
    using ord by (simp add: fits_order_def ok_order_def check_order_def)
  ultimately have "save_order (ord\<lparr>o_status := s\<rparr>) w =
      (Inr (), w\<lparr>wdb := t_orders_update (replace_row (touch (now w) ord (ord\<lparr>o_status := s\<rparr>))) (wdb w)\<rparr>)"
    by (intro db_save_eq disjI2)
  moreover have "touch (now w) ord (ord\<lparr>o_status := s\<rparr>) = ord\<lparr>o_status := s, updated_at := now w\<rparr>"
    unfolding touch_def using diff by (simp only: if_False)
  ultimately show ?thesis by (simp only: set_status_def)
qed

lemma replace_by_key:
  assumes "distinct (row_ids t)" and "x \<in> set t" and "row_id (f x) = row_id x"
    and "\<And>y. y \<in> set t \<Longrightarrow> k y = k x \<Longrightarrow> row_id y = row_id x"
  shows "replace_row (f x) t = map (\<lambda>y. if k y = k x then f y else y) t"
proof -
  have same: "y = x" if "y \<in> set t" "row_id y = row_id x" for y
  proof -
    have "Some y = Some x"
      using lookup_unique [OF assms(1) that(1), unfolded that(2)] lookup_unique [OF assms(1,2)]
      by (rule trans [OF sym])
    then show ?thesis by (rule option.inject [THEN iffD1])
  qed
  show ?thesis
    unfolding replace_row_def
  proof (rule map_cong [OF refl])
    fix y
    assume y: "y \<in> set t"
    show "(if row_id y = row_id (f x) then f x else y) = (if k y = k x then f y else y)"
    proof (cases "row_id y = row_id x")
      case True
      then have "y = x" by (rule same [OF y])
      then show ?thesis by (simp add: assms(3))
    next
      case False
      then have "k y \<noteq> k x" using assms(4) [OF y] by blast
      with False show ?thesis by (simp add: assms(3))
    qed
  qed
qed

lemma stamp_pickup_run:
  assumes inv: "orders_inv (wdb w)" and legal: "orders_legal (wdb w)"
  shows "(case map_option (\<lambda>x. (x, lookup pts (opi_point_id x))) (order_pickup (wdb w) i) of
            None \<Rightarrow> ret () | Some (x, _) \<Rightarrow> save_pickup_info (stamp_pickup (now w) target x)) w =
         (Inr (), w\<lparr>wdb := stamp_pickups (now w) target i (wdb w)\<rparr>)"
proof (cases "order_pickup (wdb w) i")
  case None
  then have "\<forall>x \<in> set (t_pickup_info (wdb w)). opi_order_id x \<noteq> i"
    by (auto simp: order_pickup_def find_None_iff)
  then have "map (\<lambda>x. if opi_order_id x = i then touch (now w) x (stamp_pickup (now w) target x) else x)
      (t_pickup_info (wdb w)) = t_pickup_info (wdb w)"
    by (auto intro!: map_idI)
  with None show ?thesis by (simp add: stamp_pickups_def)
next
  case (Some x)
  then have x: "x \<in> set (t_pickup_info (wdb w))" "opi_order_id x = i"
    by (auto simp: order_pickup_def find_Some_iff)
  have lx: "lookup (t_pickup_info (wdb w)) (row_id x) = Some x"
    using lookup_unique [OF orders_inv_ids(2) [OF inv] x(1)] .
  have ok: "fits_pickup_info x" "ok_pickup_info (wdb w) x" using legal x(1) by (auto simp: orders_legal_def)
  then have "row_id y = row_id x" if "y \<in> set (t_pickup_info (wdb w))" "opi_order_id y = opi_order_id x" for y
    using that by (auto simp: ok_pickup_info_def unique_by_def)
  from replace_by_key [where k = opi_order_id and
      f = "\<lambda>x. touch (now w) x (stamp_pickup (now w) target x)", OF orders_inv_ids(2) [OF inv] x(1) _ this]
  have "replace_row (touch (now w) x (stamp_pickup (now w) target x)) (t_pickup_info (wdb w)) =
      map (\<lambda>x. if opi_order_id x = i then touch (now w) x (stamp_pickup (now w) target x) else x) (t_pickup_info (wdb w))"
    by (simp add: x(2))
  moreover have "fits_pickup_info (stamp_pickup (now w) target x)" "ok_pickup_info (wdb w) (stamp_pickup (now w) target x)"
    using ok by (simp_all add: fits_pickup_info_def ok_pickup_info_def unique_by_def)
  ultimately show ?thesis
    using Some lx by (simp add: db_save_eq [where old = x] stamp_pickups_def)
qed

lemma stamp_delivery_run:
  assumes inv: "orders_inv (wdb w)" and legal: "orders_legal (wdb w)"
  shows "(case order_delivery (wdb w) i of
            None \<Rightarrow> ret () | Some x \<Rightarrow> save_delivery_info (stamp_delivery (now w) target x)) w =
         (Inr (), w\<lparr>wdb := stamp_deliveries (now w) target i (wdb w)\<rparr>)"
proof (cases "order_delivery (wdb w) i")
  case None
  then have "\<forall>x \<in> set (t_delivery_info (wdb w)). odi_order_id x \<noteq> i"
    by (auto simp: order_delivery_def find_None_iff)
  then have "map (\<lambda>x. if odi_order_id x = i then touch (now w) x (stamp_delivery (now w) target x) else x)
      (t_delivery_info (wdb w)) = t_delivery_info (wdb w)"
    by (auto intro!: map_idI)
  with None show ?thesis by (simp add: stamp_deliveries_def)
next
  case (Some x)
  then have x: "x \<in> set (t_delivery_info (wdb w))" "odi_order_id x = i"
    by (auto simp: order_delivery_def find_Some_iff)
  have lx: "lookup (t_delivery_info (wdb w)) (row_id x) = Some x"
    using lookup_unique [OF orders_inv_ids(3) [OF inv] x(1)] .
  have ok: "fits_delivery_info x" "ok_delivery_info (wdb w) x" using legal x(1) by (auto simp: orders_legal_def)
  then have "row_id y = row_id x" if "y \<in> set (t_delivery_info (wdb w))" "odi_order_id y = odi_order_id x" for y
    using that by (auto simp: ok_delivery_info_def unique_by_def)
  from replace_by_key [where k = odi_order_id and
      f = "\<lambda>x. touch (now w) x (stamp_delivery (now w) target x)", OF orders_inv_ids(3) [OF inv] x(1) _ this]
  have "replace_row (touch (now w) x (stamp_delivery (now w) target x)) (t_delivery_info (wdb w)) =
      map (\<lambda>x. if odi_order_id x = i then touch (now w) x (stamp_delivery (now w) target x) else x) (t_delivery_info (wdb w))"
    by (simp add: x(2))
  moreover have "fits_delivery_info (stamp_delivery (now w) target x)"
    using ok by (simp add: fits_delivery_info_def stamp_delivery_def)
  moreover have "ok_delivery_info (wdb w) (stamp_delivery (now w) target x)"
    using ok by (simp add: ok_delivery_info_def unique_by_def)
  ultimately show ?thesis
    using Some lx by (simp add: db_save_eq [where old = x] stamp_deliveries_def)
qed

lemma set_status_columns:
  assumes "orders_inv d" and "lookup (t_orders d) i = Some ord"
  shows "order_columns (set_status t s ord d) = order_columns d"
proof -
  have "map order_key (replace_row (ord\<lparr>o_status := s, updated_at := t\<rparr>) (t_orders d)) = map order_key (t_orders d)"
    using lookup_SomeD [OF assms(2)] assms(2) by (intro map_replace [OF orders_inv_ids(1) [OF assms(1)]]) auto
  then show ?thesis by (simp add: order_columns_def set_status_def)
qed

lemma stamps_columns:
  "order_columns (stamp_pickups t s i d) = order_columns d"
  "order_columns (stamp_deliveries t s i d) = order_columns d"
  by (auto simp: order_columns_def stamp_pickups_def stamp_deliveries_def touch_def)

lemma legal_set_status:
  assumes "orders_legal d" and "lookup (t_orders d) i = Some ord"
  shows "orders_legal (set_status t s ord d)"
proof -
  have ord: "fits_order ord" "ok_order d ord"
    using assms(1) lookup_SomeD [OF assms(2)] by (auto simp: orders_legal_def)
  then have "fits_order (ord\<lparr>o_status := s, updated_at := t\<rparr>) \<and> ok_order d (ord\<lparr>o_status := s, updated_at := t\<rparr>)"
    by (simp add: fits_order_def ok_order_def check_order_def)
  then show ?thesis
    using assms(1) by (auto simp: orders_legal_def set_status_def ok_order_def ok_pickup_info_def
        ok_delivery_info_def dest!: in_replaceD)
qed

lemma legal_stamps:
  assumes "orders_legal d"
  shows "orders_legal (stamp_pickups t s i d)" "orders_legal (stamp_deliveries t s i d)"
proof -
  define f where "f = (\<lambda>x. if opi_order_id x = i then touch t x (stamp_pickup t s x) else x)"
  define g where "g = (\<lambda>x. if odi_order_id x = i then touch t x (stamp_delivery t s x) else x)"
  have f: "row_id (f x) = row_id x" "opi_order_id (f x) = opi_order_id x"
    "opi_pickup_code (f x) = opi_pickup_code x" "opi_point_id (f x) = opi_point_id x" for x
    by (simp_all add: f_def touch_def)
  have g: "row_id (g x) = row_id x" "odi_order_id (g x) = odi_order_id x" for x
    by (simp_all add: g_def touch_def)
  have gf: "fits_delivery_info (g x) = fits_delivery_info x" for x
    by (simp add: g_def touch_def stamp_delivery_def fits_delivery_info_def)
  have "stamp_pickups t s i d = t_pickup_info_update (map f) d"
    by (simp add: stamp_pickups_def f_def)
  then show "orders_legal (stamp_pickups t s i d)"
    using assms by (simp add: orders_legal_def ok_order_def ok_pickup_info_def
        ok_delivery_info_def fits_pickup_info_def unique_by_def f)
  have "stamp_deliveries t s i d = t_delivery_info_update (map g) d"
    by (simp add: stamp_deliveries_def g_def)
  then show "orders_legal (stamp_deliveries t s i d)"
    using assms by (simp add: orders_legal_def ok_order_def ok_pickup_info_def
        ok_delivery_info_def gf unique_by_def g)
qed

text \<open>The outcome of the two status operations, on every branch.\<close>

definition staff_update :: "datetime \<Rightarrow> order_status \<Rightarrow> order \<Rightarrow> database \<Rightarrow> database" where
  "staff_update t target ord d =
     stamp_deliveries t target (row_id ord) (stamp_pickups t target (row_id ord) (set_status t target ord d))"

lemma set_status_ok: "orders_ok d \<Longrightarrow> lookup (t_orders d) i = Some ord \<Longrightarrow> orders_ok (set_status t s ord d)"
  unfolding orders_ok_def by (metis legal_set_status orders_inv_same set_status_columns)

lemma staff_update_ok: "orders_ok d \<Longrightarrow> lookup (t_orders d) i = Some ord \<Longrightarrow> orders_ok (staff_update t s ord d)"
  using set_status_ok [of d i ord t s] unfolding orders_ok_def staff_update_def
  by (metis legal_stamps orders_inv_same stamps_columns)

lemma reload_order_run:
  "lookup (t_orders (wdb w)) i = Some ord \<Longrightarrow>
   bind (reload_order i) f w = f (aggregate (wdb w) ord) w"
  by (simp add: reload_order_def bind_fetch repo_get_def)

lemma lookup_set_status:
  "lookup (t_orders d) i = Some ord \<Longrightarrow>
   lookup (t_orders (set_status t s ord d)) i = Some (ord\<lparr>o_status := s, updated_at := t\<rparr>)"
  using lookup_SomeD [of "t_orders d" i ord] by (simp add: set_status_def lookup_replace)

lemma lookup_staff_update:
  "lookup (t_orders d) i = Some ord \<Longrightarrow>
   lookup (t_orders (staff_update t s ord d)) i = Some (ord\<lparr>o_status := s, updated_at := t\<rparr>)"
  using lookup_set_status [of d i ord t s] by (simp add: staff_update_def stamp_pickups_def stamp_deliveries_def)

lemma cancel_order_run:
  assumes "orders_ok (wdb w)"
  shows "cancel_order i u w =
     (case lookup (t_orders (wdb w)) i of
        None \<Rightarrow> (Inl (OrderExn (OrderNotFoundError i)), w)
      | Some ord \<Rightarrow>
          if o_user_id ord \<noteq> u then (Inl (OrderExn OrderAccessDeniedError), w)
          else if o_status ord \<noteq> CREATED then (Inl (invalid_transition (o_status ord) CANCELLED), w)
          else let d = set_status (now w) CANCELLED ord (wdb w)
            in (order_dto (aggregate d (ord\<lparr>o_status := CANCELLED, updated_at := now w\<rparr>)), w\<lparr>wdb := d\<rparr>))"
proof (cases "lookup (t_orders (wdb w)) i")
  case (Some ord)
  show ?thesis
  proof (cases "o_user_id ord = u \<and> o_status ord = CREATED")
    case True
    have "save_order (ord\<lparr>o_status := CANCELLED\<rparr>) w =
        (Inr (), w\<lparr>wdb := set_status (now w) CANCELLED ord (wdb w)\<rparr>)"
      using assms True Some by (intro save_status_run) (auto simp: orders_ok_def)
    with True Some show ?thesis
      by (simp add: cancel_order_def svc_simps Let_def bind_step reload_order_run lookup_set_status)
  qed (use Some in \<open>auto simp: cancel_order_def svc_simps\<close>)
qed (simp add: cancel_order_def svc_simps)

lemma update_status_run:
  assumes "orders_ok (wdb w)"
  shows "update_status i target w =
     (case lookup (t_orders (wdb w)) i of
        None \<Rightarrow> (Inl (OrderExn (OrderNotFoundError i)), w)
      | Some ord \<Rightarrow>
          if target \<notin> set STAFF_TARGETS \<or> \<not> can_transition (o_status ord) target
          then (Inl (invalid_transition (o_status ord) target), w)
          else let d = staff_update (now w) target ord (wdb w)
            in (order_dto (aggregate d (ord\<lparr>o_status := target, updated_at := now w\<rparr>)), w\<lparr>wdb := d\<rparr>))"
proof (cases "lookup (t_orders (wdb w)) i")
  case (Some ord)
  have id: "row_id ord = i" using lookup_SomeD [OF Some] by simp
  show ?thesis
  proof (cases "target \<in> set STAFF_TARGETS \<and> can_transition (o_status ord) target")
    case True
    then have "target \<noteq> o_status ord" by auto
    define v where "v = w\<lparr>wdb := set_status (now w) target ord (wdb w)\<rparr>"
    define v' where "v' = v\<lparr>wdb := stamp_pickups (now w) target i (wdb v)\<rparr>"
    have nw: "now v = now w" "now v' = now w" by (simp_all add: v_def v'_def)
    have v'_eq: "v\<lparr>wdb := stamp_pickups (now w) target i (wdb v)\<rparr> = v'" by (simp add: v'_def)
    have save: "save_order (ord\<lparr>o_status := target\<rparr>) w = (Inr (), v)"
      unfolding v_def using assms Some \<open>target \<noteq> o_status ord\<close>
      by (intro save_status_run) (auto simp: orders_ok_def)
    have ok: "orders_ok (wdb v)" using set_status_ok [OF assms Some] by (simp add: v_def)
    then have ok': "orders_ok (wdb v')"
      unfolding orders_ok_def v'_def by (simp add: legal_stamps orders_inv_same [OF stamps_columns(1)])
    have ag: "ag_pickup (aggregate (wdb w) ord) =
          map_option (\<lambda>x. (x, lookup (t_points (wdb w)) (opi_point_id x))) (order_pickup (wdb v) i)"
        "ag_delivery (aggregate (wdb w) ord) = order_delivery (wdb v') i"
      by (simp_all add: aggregate_def id order_pickup_def order_delivery_def v_def v'_def set_status_def stamp_pickups_def)
    have "stamp_milestone (aggregate (wdb w) ord) target v =
        (Inr (), v'\<lparr>wdb := stamp_deliveries (now w) target i (wdb v')\<rparr>)"
      using stamp_pickup_run [of v target "t_points (wdb w)" i] stamp_delivery_run [of v' target i] ok ok'
      by (simp add: stamp_milestone_def ag orders_ok_def bind_step nw v'_eq cong: option.case_cong)
    moreover have "lookup (t_orders (staff_update (now w) target ord (wdb w))) i =
        Some (ord\<lparr>o_status := target, updated_at := now w\<rparr>)"
      using Some by (rule lookup_staff_update)
    ultimately show ?thesis
      using True Some save
      by (simp add: update_status_def svc_simps repo_get_def Let_def bind_step reload_order_run)
         (simp add: v_def v'_def staff_update_def id reload_order_run)
  qed (use Some in \<open>auto simp: update_status_def svc_simps repo_get_def\<close>)
qed (simp add: update_status_def svc_simps repo_get_def)

end
