(* ===== verification/Sample.thy ===== *)
theory Sample
  imports Orders
begin

text \<open>
  A small shop on which the witnesses of the properties run: two users, an active and an
  inactive product, a coffeeshop and a warehouse, one open delivery order of the first user
  and one completed pickup order of the second.
\<close>

definition sample_user :: "uuid \<Rightarrow> user" where
  "sample_user i = \<lparr>row_id = i, created_at = 1000, updated_at = 1000, u_auth_user_id = Some (500 + i),
     u_email = None, u_display_name = ''Ada'', u_is_active = True\<rparr>"

definition sample_product :: "uuid \<Rightarrow> bool \<Rightarrow> product" where
  "sample_product i active = \<lparr>row_id = i, created_at = 1000, updated_at = 1000, p_name = ''Beans'',
     p_description = None, p_image_url = None, p_category_id = 21, p_type_id = 20, p_price = 1250,
     p_currency = ''EUR'', p_is_active = active\<rparr>"

definition sample_point :: "uuid \<Rightarrow> point_type \<Rightarrow> point" where
  "sample_point i ty = \<lparr>row_id = i, created_at = 1000, updated_at = 1000, pnt_name = ''Main'',
     pnt_address = ''Street 1'', pnt_type = ty, pnt_hours = JObj [], pnt_contacts = JObj [],
     pnt_is_active = True\<rparr>"

definition sample_address :: delivery_in where
  "sample_address = \<lparr>dl_recipient_name = ''Ada'', dl_phone = ''123'', dl_address = ''Street 2'',
     dl_city = ''Riga'', dl_postal_code = None, dl_notes = None\<rparr>"

definition sample_order :: "uuid \<Rightarrow> uuid \<Rightarrow> order_type \<Rightarrow> order_status \<Rightarrow> order" where
  "sample_order i u ty s = \<lparr>row_id = i, created_at = 2000, updated_at = 2000, o_user_id = u, o_type = ty,
     o_total_price = 2500, o_currency = ''EUR'', o_status = s, o_notes = None\<rparr>"

definition sample_line :: "uuid \<Rightarrow> uuid \<Rightarrow> order_product" where
  "sample_line i order_id = \<lparr>row_id = i, created_at = 2000, updated_at = 2000, op_order_id = order_id,
     op_product_id = 10, op_product_name = ''Beans'', op_product_price = 1250, op_quantity = 2,
     op_grind = None\<rparr>"

definition sample_db :: database where
  "sample_db = empty_db\<lparr>
     t_users := [sample_user 1, sample_user 2],
     t_products := [sample_product 10 True, sample_product 11 False],
     t_points := [sample_point 30 COFFEESHOP, sample_point 31 WAREHOUSE],
     t_orders := [sample_order 40 1 DELIVERY CREATED, sample_order 41 2 PICKUP COMPLETED],
     t_order_products := [sample_line 50 40, sample_line 51 41],
     t_pickup_info := [new_pickup 41 30 (dec_pad 6 7) 90000 60 2000],
     t_delivery_info := [new_delivery 40 sample_address 61 2000]\<rparr>"

definition sample_world :: world where
  "sample_world = \<lparr>wdb = sample_db, now = 1700000000000000, uuid_src = (\<lambda>n. 1000 + n), uuid_pos = 0,
     rand_src = (\<lambda>n. 123456 + n), rand_pos = 0, provider_log = [], audit_log = []\<rparr>"

definition sample_settings :: settings where
  "sample_settings = \<lparr>env = ''dev'', admin_service_token = Some ''secret'', payment_provider_secret = Some ''hook''\<rparr>"

lemmas sample_defs = sample_user_def sample_product_def sample_point_def sample_address_def
  sample_order_def sample_line_def sample_db_def sample_world_def empty_db_def new_pickup_def
  new_delivery_def

lemmas legal_defs = orders_legal_def fits_order_def ok_order_def check_order_def fits_pickup_info_def
  ok_pickup_info_def fits_delivery_info_def ok_delivery_info_def unique_by_def column_defs

lemma sample_orders_ok: "orders_ok (wdb sample_world)"
proof -
  have "orders_inv (wdb sample_world)"
    by (simp add: orders_inv_def order_sound_def order_lines_def order_pickup_def
        order_delivery_def line_total_def sample_defs)
      (rule exI [of _ 7], simp)
  moreover have "orders_legal (wdb sample_world)"
    by (simp add: legal_defs sample_defs)
  ultimately show ?thesis by (simp add: orders_ok_def)
qed

end
