(* ===== verification/OrderProperties.thy ===== *)
theory OrderProperties
  imports Sample
begin

text \<open>
  The properties of the order service, each with the run of the sample shop that shows its
  hypotheses hold somewhere.
\<close>

section \<open>Creation\<close>

lemma aggregate_dto:
  assumes "order_dto (aggregate d ord) = Inr dto"
  shows "od_id dto = row_id ord" "od_user_id dto = o_user_id ord" "od_status dto = o_status ord"
    "od_total_price dto = o_total_price ord" "od_items dto = map item_dto (order_lines d (row_id ord))"
    "(od_pickup dto \<noteq> None) = (order_pickup d (row_id ord) \<noteq> None)"
    "(od_delivery dto \<noteq> None) = (order_delivery d (row_id ord) \<noteq> None)"
proof -
  obtain p where p: "sum_option pickup_dto (ag_pickup (aggregate d ord)) = Inr p"
    using assms by (auto simp: order_dto_def split: sum.splits)
  then have "(p \<noteq> None) = (order_pickup d (row_id ord) \<noteq> None)"
    by (cases "order_pickup d (row_id ord)") (auto simp: aggregate_def split: sum.splits)
  then show "od_id dto = row_id ord" "od_user_id dto = o_user_id ord" "od_status dto = o_status ord"
    "od_total_price dto = o_total_price ord" "od_items dto = map item_dto (order_lines d (row_id ord))"
    "(od_pickup dto \<noteq> None) = (order_pickup d (row_id ord) \<noteq> None)"
    "(od_delivery dto \<noteq> None) = (order_delivery d (row_id ord) \<noteq> None)"
    using assms p by (auto simp: order_dto_def) (auto simp: aggregate_def)
qed

lemma snapshot_lines:
  assumes "list_all2 (\<lambda>it l. \<exists>p. f (it_product_id it) = Some p \<and> p_is_active p \<and>
      l = \<lparr>ln_product_id = row_id p, ln_product_name = p_name p, ln_product_price = p_price p,
           ln_quantity = it_quantity it, ln_grind = it_grind it\<rparr>) items ls"
    and "\<And>i p. f i = Some p \<Longrightarrow> row_id p = i" and "length js = length ls"
  shows "list_all2 (\<lambda>it x. op_product_id x = it_product_id it \<and> op_quantity x = it_quantity it \<and>
      op_grind x = it_grind it \<and> (\<exists>p. f (it_product_id it) = Some p \<and> p_is_active p \<and>
        op_product_name x = p_name p \<and> op_product_price x = p_price p))
    items (map2 (\<lambda>l i. new_line oid l i t) ls js)"
  using assms(1,3)
proof (induction items ls arbitrary: js rule: list_all2_induct)
  case (Cons it items l ls)
  then obtain j js' where js: "js = j # js'" "length js' = length ls" by (cases js) auto
  with Cons.IH [OF js(2)] Cons.hyps(1) assms(2) show ?case by (auto simp: new_line_def)
qed simp

text \<open>
  C8: a created order belongs to the caller, is \<open>created\<close>, of the requested type; its line
  items are the requested ones with the name and price their active product has at that
  moment; its total is the sum of price times quantity and is what the response shows; it
  has the fulfillment row of its type and no other; and no table besides those of the order
  changes.
\<close>

theorem create_order_effect:
  assumes "create_order u data w = (Inr dto, w')" and "orders_ok (wdb w)"
  shows "\<exists>ord. t_orders (wdb w') = t_orders (wdb w) @ [ord] \<and> row_id ord = od_id dto \<and>
      row_id ord \<notin> set (row_ids (t_orders (wdb w))) \<and>
      o_user_id ord = u \<and> o_status ord = CREATED \<and> o_type ord = co_order_type data \<and>
      list_all2 (\<lambda>it x. op_product_id x = it_product_id it \<and> op_quantity x = it_quantity it \<and>
          op_grind x = it_grind it \<and>
          (\<exists>p. lookup (t_products (wdb w)) (it_product_id it) = Some p \<and> p_is_active p \<and>
             op_product_name x = p_name p \<and> op_product_price x = p_price p))
        (co_items data) (order_lines (wdb w') (row_id ord)) \<and>
      o_total_price ord = line_total (order_lines (wdb w') (row_id ord)) \<and>
      od_total_price dto = sum_list (map oi_subtotal (od_items dto)) \<and>
      (od_pickup dto \<noteq> None \<longleftrightarrow> co_order_type data = PICKUP) \<and>
      (od_delivery dto \<noteq> None \<longleftrightarrow> co_order_type data = DELIVERY) \<and>
      outside_orders (wdb w') = outside_orders (wdb w)"
proof -
  from assms(1) obtain ls f ord v where ls: "list_all2 (\<lambda>it l. \<exists>p. lookup (t_products (wdb w)) (it_product_id it) = Some p \<and>
        p_is_active p \<and> l = \<lparr>ln_product_id = row_id p, ln_product_name = p_name p,
          ln_product_price = p_price p, ln_quantity = it_quantity it, ln_grind = it_grind it\<rparr>)
        (co_items data) ls"
    and f: "choose_fulfillment data w = (Inr f, v)"
    and add: "repo_add u (co_order_type data) (order_total ls) ls f v = (Inr ord, w')"
    and dto: "order_dto (aggregate (wdb w') ord) = Inr dto"
    by (rule create_order_InrE)
  have v: "wdb v = wdb w" using f by (rule choose_fulfillment_InrE)
  from add obtain i js where ord: "ord = new_order u (co_order_type data) (order_total ls) i (now v)"
    and new: "i \<notin> set (row_ids (t_orders (wdb v)))" and js: "length js = length ls"
    and tabs: "t_orders (wdb w') = t_orders (wdb v) @ [ord]"
      "t_order_products (wdb w') = t_order_products (wdb v) @ map2 (\<lambda>l j. new_line i l j (now v)) ls js"
    by (elim repo_add_InrE)
  have id: "row_id ord = i" by (simp add: ord new_order_def)
  have "order_lines (wdb w) i = []"
    using assms(2) new by (auto simp: orders_ok_def orders_inv_def order_lines_def filter_empty_conv v)
  then have lines: "order_lines (wdb w') i = map2 (\<lambda>l j. new_line i l j (now v)) ls js"
    by (simp add: order_lines_def tabs v new_lines(1) [OF js])
  have sound: "order_sound (wdb w') ord"
    using preservesD [OF create_order_ok assms] tabs by (simp add: orders_ok_def orders_inv_def)
  have items: "list_all2 (\<lambda>it x. op_product_id x = it_product_id it \<and> op_quantity x = it_quantity it \<and>
        op_grind x = it_grind it \<and>
        (\<exists>p. lookup (t_products (wdb w)) (it_product_id it) = Some p \<and> p_is_active p \<and>
           op_product_name x = p_name p \<and> op_product_price x = p_price p))
      (co_items data) (order_lines (wdb w') i)"
    unfolding lines by (rule snapshot_lines [OF ls _ js]) (auto dest: lookup_SomeD)
  have "sum_list (map oi_subtotal (od_items dto)) = line_total (order_lines (wdb w') i)"
    by (simp add: aggregate_dto(5) [OF dto] id line_total_def item_dto_def o_def)
  moreover have "outside_orders (wdb w') = outside_orders (wdb w)"
    using leavesD [OF orders_frame(1) assms(1)] .
  moreover have "o_type ord = co_order_type data" "o_user_id ord = u" "o_status ord = CREATED"
    by (simp_all add: ord new_order_def)
  ultimately show ?thesis
    using tabs(1) new items sound aggregate_dto [OF dto]
    by (intro exI [of _ ord]) (auto simp: v id order_sound_def)
qed

definition sample_request :: create_order_request where
  "sample_request = \<lparr>co_order_type = DELIVERY,
     co_items = [\<lparr>it_product_id = 10, it_quantity = 3, it_grind = Some FINE\<rparr>],
     co_pickup_point_id = None, co_delivery = Some sample_address\<rparr>"

lemmas order_op_defs = create_order_def load_active_products_def check_item_def line_item_def
  choose_fulfillment_def repo_add_def insert_fulfillment_def new_order_def new_line_def
  order_total_def reload_order_def repo_get_def db_add_def uuid4_run db_insert_eq

lemma sample_create: "\<exists>dto w'. create_order 1 sample_request sample_world = (Inr dto, w')"
  by (simp add: sample_request_def order_op_defs sample_defs legal_defs svc_simps bind_def
      check_order_product_def fits_order_product_def ok_order_product_def order_dto_def aggregate_def
      order_pickup_def)

lemma create_order_effect_witness:
  "\<exists>dto w'. create_order 1 sample_request sample_world = (Inr dto, w') \<and>
     (\<exists>ord. t_orders (wdb w') = t_orders sample_db @ [ord] \<and> o_user_id ord = 1 \<and>
       row_id ord = od_id dto)"
proof -
  obtain dto w' where run: "create_order 1 sample_request sample_world = (Inr dto, w')"
    using sample_create by blast
  from create_order_effect [OF run sample_orders_ok] run show ?thesis
    by (auto simp: sample_world_def)
qed

lemma check_item_run:
  "check_item f it w =
     (case f (it_product_id it) of
        None \<Rightarrow> (Inl (OrderExn (OrderProductNotFoundError (it_product_id it))), w)
      | Some p \<Rightarrow> (if p_is_active p then Inr ()
                   else Inl (OrderExn (OrderProductInactiveError (it_product_id it))), w))"
  by (simp add: check_item_def require_run split: option.splits)

lemma check_items_stop:
  assumes "\<forall>g \<in> set good. \<exists>p. f (it_product_id g) = Some p \<and> p_is_active p"
    and "check_item f it w = (Inl e, w)"
  shows "forM (check_item f) (good @ it # rest) w = (Inl e, w)"
  using assms(1)
proof (induction good)
  case Nil
  then show ?case using assms(2) by (simp add: bind_fail)
next
  case (Cons g good)
  then obtain p where "f (it_product_id g) = Some p" "p_is_active p" by auto
  then have "check_item f g w = (Inr (), w)" by (simp add: check_item_run)
  with Cons show ?case by (simp add: bind_step bind_fail)
qed

text \<open>
  The first requested item whose product is missing or inactive decides the answer, 404
  or 409 with its identifier, and nothing has changed.
\<close>

theorem create_order_first_bad_item:
  assumes "co_items data = good @ it # rest"
    and "\<forall>g \<in> set good. \<exists>p. lookup (t_products (wdb w)) (it_product_id g) = Some p \<and> p_is_active p"
    and "\<forall>p. lookup (t_products (wdb w)) (it_product_id it) = Some p \<longrightarrow> \<not> p_is_active p"
  shows "create_order u data w =
     (Inl (OrderExn (if lookup (t_products (wdb w)) (it_product_id it) = None
                     then OrderProductNotFoundError (it_product_id it)
                     else OrderProductInactiveError (it_product_id it))), w)"
proof -
  define f where "f = (\<lambda>i. if i \<in> it_product_id ` set (co_items data) then lookup (t_products (wdb w)) i else None)"
  have f: "f (it_product_id g) = lookup (t_products (wdb w)) (it_product_id g)"
    if "g \<in> set (co_items data)" for g
    using that by (simp add: f_def)
  have "check_item f it w = (Inl (OrderExn (if lookup (t_products (wdb w)) (it_product_id it) = None
      then OrderProductNotFoundError (it_product_id it)
      else OrderProductInactiveError (it_product_id it))), w)"
    using assms(1,3) f [of it] by (auto simp: check_item_run split: option.splits)
  moreover have "\<forall>g \<in> set good. \<exists>p. f (it_product_id g) = Some p \<and> p_is_active p"
    using assms(1,2) f by auto
  ultimately have "forM (check_item f) (co_items data) w =
      (Inl (OrderExn (if lookup (t_products (wdb w)) (it_product_id it) = None
        then OrderProductNotFoundError (it_product_id it)
        else OrderProductInactiveError (it_product_id it))), w)"
    by (simp only: assms(1) check_items_stop)
  then have "load_active_products (co_items data) w =
      (Inl (OrderExn (if lookup (t_products (wdb w)) (it_product_id it) = None
        then OrderProductNotFoundError (it_product_id it)
        else OrderProductInactiveError (it_product_id it))), w)"
    unfolding load_active_products_def f_def by (simp only: bind_query bind_fail)
  moreover have "co_items data \<noteq> []" using assms(1) by simp
  ultimately show ?thesis by (simp only: create_order_def bind_require bind_fail if_True not_False_eq_True simp_thms)
qed

lemma create_order_first_bad_item_witness:
  "create_order 1 (sample_request\<lparr>co_items := [\<lparr>it_product_id = 10, it_quantity = 1, it_grind = None\<rparr>,
       \<lparr>it_product_id = 11, it_quantity = 1, it_grind = None\<rparr>]\<rparr>) sample_world =
     (Inl (OrderExn (OrderProductInactiveError 11)), sample_world)"
  by (subst create_order_first_bad_item
      [where good = "[\<lparr>it_product_id = 10, it_quantity = 1, it_grind = None\<rparr>]"
         and it = "\<lparr>it_product_id = 11, it_quantity = 1, it_grind = None\<rparr>" and rest = "[]"])
     (simp_all add: sample_request_def sample_defs)

section \<open>Pickup codes\<close>

text \<open>
  C33: an allocated pickup code has six decimal digits and is not in use; the allocation only
  fails, with a \<open>RuntimeError\<close>, when each of the ten draws hit a code in use; it changes
  neither the database nor the clock.
\<close>

theorem pickup_code_allocation:
  "case allocate_pickup_code w of
     (Inr code, w') \<Rightarrow> wdb w' = wdb w \<and> length code = 6 \<and> set code \<subseteq> set dec_digits \<and>
       code \<notin> opi_pickup_code ` set (t_pickup_info (wdb w))
   | (Inl e, w') \<Rightarrow> wdb w' = wdb w \<and> e = RuntimeError ''could not allocate a unique pickup code'' \<and>
       (\<forall>j < 10. dec_pad 6 (rand_src w (rand_pos w + j) mod 1000000)
          \<in> opi_pickup_code ` set (t_pickup_info (wdb w)))"
proof -
  have exists: "pickup_code_exists c d \<longleftrightarrow> c \<in> opi_pickup_code ` set (t_pickup_info d)" for c d
    by (auto simp: pickup_code_exists_def find_None_iff)
  have err: "allocate_code n w = (Inl e, w') \<Longrightarrow> e = RuntimeError ''could not allocate a unique pickup code''"
    for n w e w'
    by (induction n arbitrary: w) (auto simp: bind_def randbelow_run split: if_splits)
  show ?thesis
  proof (cases "allocate_pickup_code w")
    case (Pair r w')
    then have run: "allocate_code 10 w = (r, w')"
      by (simp add: allocate_pickup_code_def PICKUP_CODE_ATTEMPTS_def)
    have db: "wdb w' = wdb w" using leavesD [OF order_steps_frame(5) run] .
    show ?thesis
    proof (cases r)
      case (Inl e)
      with run Pair db err allocate_code_fails [of 10 w e w'] show ?thesis by (simp add: exists)
    next
      case (Inr code)
      with run have facts: "code \<notin> opi_pickup_code ` set (t_pickup_info (wdb w))" "\<exists>k < 1000000. code = dec_pad 6 k"
        using allocate_code_InrE [of 10 w code w'] by simp_all
      then have "length code = 6" "set code \<subseteq> set dec_digits" using set_dec_pad by auto
      with facts(1) Inr Pair db show ?thesis by simp
    qed
  qed
qed

lemma pickup_code_allocation_witness:
  "\<exists>w'. allocate_pickup_code sample_world = (Inr ''123456'', w') \<and> wdb w' = wdb sample_world \<and>
     ''123456'' \<notin> opi_pickup_code ` set (t_pickup_info (wdb sample_world))"
proof -
  have six: "6 = Suc (Suc (Suc (Suc (Suc (Suc 0)))))" by simp
  have code: "dec_pad 6 123456 = ''123456''" "dec_pad 6 7 = ''000007''"
    unfolding six by (simp_all add: dec_digit_def dec_digits_def)
  have "randbelow 1000000 sample_world = (Inr 123456, sample_world\<lparr>rand_pos := 1\<rparr>)"
    by (simp add: randbelow_run sample_world_def)
  moreover have "\<not> pickup_code_exists ''123456'' (wdb sample_world)"
    by (simp add: pickup_code_exists_def sample_defs code(2))
  ultimately have "allocate_code (Suc 9) sample_world = (Inr ''123456'', sample_world\<lparr>rand_pos := 1\<rparr>)"
    unfolding allocate_code.simps by (simp only: bind_step code(1)) (simp add: query_def)
  then have "allocate_pickup_code sample_world = (Inr ''123456'', sample_world\<lparr>rand_pos := 1\<rparr>)"
    by (simp add: allocate_pickup_code_def PICKUP_CODE_ATTEMPTS_def)
  with pickup_code_allocation [of sample_world] show ?thesis by simp
qed

section \<open>Status changes\<close>

text \<open>
  Cancelling answers 404 for an unknown order, 403 for another user's, 409 unless the
  order is still \<open>created\<close>, each without a change; otherwise it succeeds, and the only change
  is that order's status and \<open>updated_at\<close>.
\<close>

theorem cancel_order_outcome:
  assumes "orders_ok (wdb w)"
  shows "case lookup (t_orders (wdb w)) i of
      None \<Rightarrow> cancel_order i u w = (Inl (OrderExn (OrderNotFoundError i)), w)
    | Some ord \<Rightarrow>
        if o_user_id ord \<noteq> u then cancel_order i u w = (Inl (OrderExn OrderAccessDeniedError), w)
        else if o_status ord \<noteq> CREATED
        then cancel_order i u w = (Inl (OrderExn (OrderInvalidStatusTransitionError
               (order_status_value (o_status ord)) ''cancelled'')), w)
        else \<exists>dto. cancel_order i u w = (Inr dto, w\<lparr>wdb := (wdb w)\<lparr>t_orders :=
               replace_row (ord\<lparr>o_status := CANCELLED, updated_at := now w\<rparr>) (t_orders (wdb w))\<rparr>\<rparr>) \<and>
               od_id dto = i \<and> od_status dto = CANCELLED"
proof (cases "lookup (t_orders (wdb w)) i")
  case (Some ord)
  have "orders_ok (set_status (now w) CANCELLED ord (wdb w))" using assms Some by (rule set_status_ok)
  then obtain dto where dto: "order_dto (aggregate (set_status (now w) CANCELLED ord (wdb w))
      (ord\<lparr>o_status := CANCELLED, updated_at := now w\<rparr>)) = Inr dto"
    unfolding orders_ok_def using order_dto_total by blast
  have "row_id ord = i" using lookup_SomeD [OF Some] by simp
  with aggregate_dto [OF dto] have "od_id dto = i" "od_status dto = CANCELLED" by simp_all
  with Some dto show ?thesis
    by (simp add: cancel_order_run [OF assms] invalid_transition_def Let_def)
       (auto simp: set_status_def)
qed (simp add: cancel_order_run [OF assms])

lemma cancel_order_outcome_witness:
  "\<exists>dto w'. cancel_order 40 1 sample_world = (Inr dto, w') \<and> od_status dto = CANCELLED"
  using cancel_order_outcome [OF sample_orders_ok, of 40 1]
  by (auto simp: sample_world_def sample_db_def sample_order_def)

lemma update_status_succeeds:
  assumes "orders_ok (wdb w)" and "lookup (t_orders (wdb w)) i = Some ord"
    and "target \<in> set STAFF_TARGETS" and "can_transition (o_status ord) target"
  shows "\<exists>dto. update_status i target w = (Inr dto, w\<lparr>wdb := staff_update (now w) target ord (wdb w)\<rparr>) \<and>
    od_id dto = i \<and> od_status dto = target"
proof -
  have "orders_ok (staff_update (now w) target ord (wdb w))" using assms(1,2) by (rule staff_update_ok)
  then obtain dto where dto: "order_dto (aggregate (staff_update (now w) target ord (wdb w))
      (ord\<lparr>o_status := target, updated_at := now w\<rparr>)) = Inr dto"
    unfolding orders_ok_def using order_dto_total by blast
  have "row_id ord = i" using lookup_SomeD [OF assms(2)] by simp
  with aggregate_dto [OF dto] dto assms show ?thesis
    by (auto simp: update_status_run [OF assms(1)] Let_def)
qed



text \<open>
  Milestones are recorded once and for the right order: \<open>completed\<close> stamps the collection
  or the delivery of the order, \<open>in_progress\<close> its shipment, with the current time and only
  where no time is recorded; everything else in the two fulfillment tables stays.
\<close>

theorem milestones_are_stamped_once:
  assumes "update_status i target w = (Inr dto, w')" and "orders_ok (wdb w)"
  shows "(\<forall>x \<in> set (t_pickup_info (wdb w)). \<exists>y. lookup (t_pickup_info (wdb w')) (row_id x) = Some y \<and>
            pickup_key y = pickup_key x \<and>
            opi_picked_up_at y = (if opi_order_id x = i \<and> target = COMPLETED \<and> opi_picked_up_at x = None
                                  then Some (now w) else opi_picked_up_at x)) \<and>
         (\<forall>x \<in> set (t_delivery_info (wdb w)). \<exists>y. lookup (t_delivery_info (wdb w')) (row_id x) = Some y \<and>
            delivery_key y = delivery_key x \<and>
            odi_shipped_at y = (if odi_order_id x = i \<and> target = IN_PROGRESS \<and> odi_shipped_at x = None
                                then Some (now w) else odi_shipped_at x) \<and>
            odi_delivered_at y = (if odi_order_id x = i \<and> target = COMPLETED \<and> odi_delivered_at x = None
                                  then Some (now w) else odi_delivered_at x))"
proof -
  from assms obtain ord where ord: "lookup (t_orders (wdb w)) i = Some ord"
    and w': "wdb w' = staff_update (now w) target ord (wdb w)"
    using update_status_run [OF assms(2), of i target] by (auto split: option.splits if_splits simp: Let_def)
  have id: "row_id ord = i" using lookup_SomeD [OF ord] by simp
  define f where "f x = (if opi_order_id x = i then touch (now w) x (stamp_pickup (now w) target x) else x)" for x
  define g where "g x = (if odi_order_id x = i then touch (now w) x (stamp_delivery (now w) target x) else x)" for x
  have tabs: "t_pickup_info (wdb w') = map f (t_pickup_info (wdb w))"
      "t_delivery_info (wdb w') = map g (t_delivery_info (wdb w))"
    by (simp_all add: w' staff_update_def stamp_pickups_def stamp_deliveries_def set_status_def id f_def g_def)
  have f: "row_id (f x) = row_id x" and g: "row_id (g y) = row_id y" for x y
    by (simp_all add: f_def g_def touch_def)
  have lf: "lookup (map f t) (row_id x) = Some (f x)" if "lookup t (row_id x) = Some x" for t x
    using that by (induction t) (auto simp: f)
  have lg: "lookup (map g t) (row_id x) = Some (g x)" if "lookup t (row_id x) = Some x" for t x
    using that by (induction t) (auto simp: g)
  have "lookup (t_pickup_info (wdb w')) (row_id x) = Some (f x)" if "x \<in> set (t_pickup_info (wdb w))" for x
    unfolding tabs using that assms(2)
    by (intro lf lookup_unique) (auto simp: orders_ok_def orders_inv_def)
  moreover have "lookup (t_delivery_info (wdb w')) (row_id x) = Some (g x)" if "x \<in> set (t_delivery_info (wdb w))" for x
    unfolding tabs using that assms(2)
    by (intro lg lookup_unique) (auto simp: orders_ok_def orders_inv_def)
  moreover have "pickup_key (f x) = pickup_key x \<and>
      opi_picked_up_at (f x) = (if opi_order_id x = i \<and> target = COMPLETED \<and> opi_picked_up_at x = None
        then Some (now w) else opi_picked_up_at x)" for x
    by (simp add: f_def stamp_pickup_def touch_column [of opi_picked_up_at]
        touch_column [of opi_order_id] touch_column [of opi_pickup_code])
  moreover have "delivery_key (g x) = delivery_key x \<and>
      odi_shipped_at (g x) = (if odi_order_id x = i \<and> target = IN_PROGRESS \<and> odi_shipped_at x = None
        then Some (now w) else odi_shipped_at x) \<and>
      odi_delivered_at (g x) = (if odi_order_id x = i \<and> target = COMPLETED \<and> odi_delivered_at x = None
        then Some (now w) else odi_delivered_at x)" for x
    by (simp add: g_def stamp_delivery_def touch_column [of odi_shipped_at]
        touch_column [of odi_delivered_at] touch_column [of odi_order_id])
  ultimately show ?thesis by blast
qed

lemma milestones_are_stamped_once_witness:
  "\<exists>dto w' y. update_status 40 CONFIRMED sample_world = (Inr dto, w') \<and>
     lookup (t_delivery_info (wdb w')) 61 = Some y \<and> odi_shipped_at y = None"
proof -
  obtain dto w' where run: "update_status 40 CONFIRMED sample_world = (Inr dto, w')"
    using update_status_succeeds [OF sample_orders_ok, of 40 "sample_order 40 1 DELIVERY CREATED" CONFIRMED]
    by (auto simp: sample_world_def sample_db_def sample_order_def STAFF_TARGETS_def)
  from milestones_are_stamped_once [OF run sample_orders_ok] run show ?thesis
    by (auto simp: sample_defs)
qed

section \<open>Reads\<close>






text \<open>
  An order is shown to its owner and to nobody else: 404 for an unknown identifier, 403
  for another user's order; a read changes nothing.
\<close>

theorem order_access_is_owned:
  assumes "orders_ok (wdb w)"
  shows "case lookup (t_orders (wdb w)) i of
      None \<Rightarrow> get_order i u w = (Inl (OrderExn (OrderNotFoundError i)), w)
    | Some ord \<Rightarrow>
        if o_user_id ord = u
        then \<exists>dto. get_order i u w = (Inr dto, w) \<and> od_id dto = i \<and> od_user_id dto = u \<and>
               od_items dto = map item_dto (order_lines (wdb w) i)
        else get_order i u w = (Inl (OrderExn OrderAccessDeniedError), w)"
proof (cases "lookup (t_orders (wdb w)) i")
  case (Some ord)
  have id: "row_id ord = i" using lookup_SomeD [OF Some] by simp
  obtain dto where "order_dto (aggregate (wdb w) ord) = Inr dto"
    using order_dto_total [of "wdb w" ord] assms unfolding orders_ok_def by blast
  with Some id aggregate_dto [OF this] show ?thesis
    by (auto simp: get_order_def svc_simps)
qed (simp add: get_order_def svc_simps)

lemma order_access_is_owned_witness:
  "get_order 40 2 sample_world = (Inl (OrderExn OrderAccessDeniedError), sample_world) \<and>
   (\<exists>dto. get_order 40 1 sample_world = (Inr dto, sample_world) \<and> od_user_id dto = 1)"
  using order_access_is_owned [OF sample_orders_ok, of 40 2] order_access_is_owned [OF sample_orders_ok, of 40 1]
  by (auto simp: sample_world_def sample_db_def sample_order_def)

end
