(* ===== verification/Payments.thy ===== *)
theory Payments
  imports Orders
begin

text \<open>
  Payments of orders (\<open>src/payments/service.py\<close>) behind the provider interface of
  \<open>src/payments/provider.py\<close>, with the \<open>FakeProvider\<close> that is active in every environment,
  and the routers of \<open>src/api/v1/routers/payments.py\<close>. Each call of the provider is recorded
  with its result in the provider log of the world, which a rollback does not undo.
\<close>

section \<open>The provider\<close>

record payment_provider =
  pv_name :: string
  pv_create_charge :: "charge_request \<Rightarrow> charge_result session"
  pv_refund :: "string \<Rightarrow> string session"
  pv_verify_callback :: "string \<Rightarrow> string option \<Rightarrow> exn + bool"
  pv_save_method :: "string \<Rightarrow> string \<Rightarrow> saved_method session"
  pv_delete_method :: "string \<Rightarrow> unit session"

definition logged :: "(exn + 'a \<Rightarrow> provider_call) \<Rightarrow> 'a session \<Rightarrow> 'a session" where
  "logged mk m w = (case m w of (r, w') \<Rightarrow> (r, w'\<lparr>provider_log := provider_log w' @ [mk r]\<rparr>))"

definition create_charge :: "payment_provider \<Rightarrow> charge_request \<Rightarrow> charge_result session" where
  "create_charge prov req = logged (ChargeCall req) (pv_create_charge prov req)"

definition provider_refund :: "payment_provider \<Rightarrow> string \<Rightarrow> string session" where
  "provider_refund prov txn = logged (RefundCall txn) (pv_refund prov txn)"

definition provider_save_method :: "payment_provider \<Rightarrow> string \<Rightarrow> string \<Rightarrow> saved_method session" where
  "provider_save_method prov ref token = logged (SaveMethodCall ref token) (pv_save_method prov ref token)"

definition provider_delete_method :: "payment_provider \<Rightarrow> string \<Rightarrow> unit session" where
  "provider_delete_method prov token = logged (\<lambda>_. DeleteMethodCall token) (pv_delete_method prov token)"

subsection \<open>FakeProvider\<close>

definition starts_with :: "string \<Rightarrow> string \<Rightarrow> bool" where
  "starts_with s p \<longleftrightarrow> take (length p) s = p"

definition fake_create_charge :: "charge_request \<Rightarrow> charge_result session" where
  "fake_create_charge req =
     bind uuid4 (\<lambda>u. ret \<lparr>cr_txn_id = ''fake-'' @ str_uuid u,
       cr_status = (if starts_with (ch_reference req) ''fail-'' then ''failed'' else ''completed'')\<rparr>)"

definition fake_verify_callback :: "settings \<Rightarrow> string \<Rightarrow> string option \<Rightarrow> exn + bool" where
  "fake_verify_callback cfg payload signature =
     (if falsy (payment_provider_secret cfg) \<or> falsy signature then Inr False
      else compare_digest (the signature) (the (payment_provider_secret cfg)))"

definition fake_save_method :: "string \<Rightarrow> string \<Rightarrow> saved_method session" where
  "fake_save_method user_ref intent_token =
     bind uuid4 (\<lambda>u. ret \<lparr>sm_customer_id = ''fake-cus-'' @ user_ref, sm_token = ''fake-pm-'' @ str_uuid u,
       sm_brand = ''visa'', sm_last4 = ''4242'', sm_exp_month = 12, sm_exp_year = 2030\<rparr>)"

definition fake_provider :: "settings \<Rightarrow> payment_provider" where
  "fake_provider cfg = \<lparr>pv_name = ''fake'', pv_create_charge = fake_create_charge,
     pv_refund = (\<lambda>_. ret ''refunded''), pv_verify_callback = fake_verify_callback cfg,
     pv_save_method = fake_save_method, pv_delete_method = (\<lambda>_. ret ())\<rparr>"

section \<open>Payments of orders\<close>

record OrderPaymentDTO =
  pay_dto_id :: uuid
  pay_dto_order_id :: uuid
  pay_dto_amount :: money
  pay_dto_currency :: string
  pay_dto_method :: string
  pay_dto_provider :: string
  pay_dto_txn_id :: "string option"
  pay_dto_status :: payment_status
  pay_dto_completed_at :: "datetime option"
  pay_dto_created_at :: datetime
  pay_dto_updated_at :: datetime

record CallbackPayload =
  cb_txn_id :: string
  cb_status :: string

definition payment_dto :: "order_payment \<Rightarrow> OrderPaymentDTO" where
  "payment_dto p = \<lparr>pay_dto_id = row_id p, pay_dto_order_id = pay_order_id p, pay_dto_amount = pay_amount p,
     pay_dto_currency = ''EUR'', pay_dto_method = pay_method p, pay_dto_provider = pay_provider p,
     pay_dto_txn_id = pay_txn_id p, pay_dto_status = pay_status p,
     pay_dto_completed_at = pay_completed_at p, pay_dto_created_at = created_at p,
     pay_dto_updated_at = updated_at p\<rparr>"

definition new_payment :: "order \<Rightarrow> uuid \<Rightarrow> string \<Rightarrow> string \<Rightarrow> uuid \<Rightarrow> datetime \<Rightarrow> order_payment" where
  "new_payment ord user_id payment_method provider_name i t =
     \<lparr>row_id = i, created_at = t, updated_at = t, pay_order_id = row_id ord, pay_user_id = user_id,
      pay_amount = o_total_price ord, pay_method = payment_method, pay_provider = provider_name,
      pay_txn_id = None, pay_status = PayPENDING, pay_completed_at = None\<rparr>"

definition refresh_payment :: "uuid \<Rightarrow> order_payment session" where
  "refresh_payment i = fetch (\<lambda>d. lookup (t_order_payments d) i) StaleDataError"

definition settle_charge :: "order \<Rightarrow> order_payment \<Rightarrow> charge_result \<Rightarrow> unit session" where
  "settle_charge ord p res =
     bind (gets now) (\<lambda>t.
     if cr_status res = ''completed'' then
       bind (ensure_transition (o_status ord) CONFIRMED) (\<lambda>_.
       bind (save_order (ord\<lparr>o_status := CONFIRMED\<rparr>)) (\<lambda>_.
       save_order_payment (p\<lparr>pay_txn_id := Some (cr_txn_id res), pay_status := PayCOMPLETED,
         pay_completed_at := Some t\<rparr>)))
     else save_order_payment (p\<lparr>pay_txn_id := Some (cr_txn_id res), pay_status := PayFAILED\<rparr>))"

definition charge_for_order ::
  "payment_provider \<Rightarrow> uuid \<Rightarrow> uuid \<Rightarrow> string \<Rightarrow> OrderPaymentDTO session" where
  "charge_for_order prov user_id order_id payment_method =
     bind (fetch (\<lambda>d. lookup (t_orders d) order_id) (OrderExn (OrderNotFoundError order_id))) (\<lambda>ord.
     bind (require (o_user_id ord = user_id) (PaymentExn PaymentAccessDeniedError)) (\<lambda>_.
     bind (require (o_status ord = CREATED) (PaymentExn (PaymentInvalidStateError
            (''Order is in '' @ [CHR 0x27] @ order_status_value (o_status ord) @ [CHR 0x27] @
             '' state, not '' @ [CHR 0x27] @ ''created'' @ [CHR 0x27])))) (\<lambda>_.
     bind (add_order_payment (new_payment ord user_id payment_method (pv_name prov))) (\<lambda>p.
     bind (create_charge prov \<lparr>ch_amount = o_total_price ord, ch_currency = o_currency ord,
             ch_reference = str_uuid (row_id p), ch_customer_id = None, ch_method_token = None\<rparr>) (\<lambda>res.
     bind (settle_charge ord p res) (\<lambda>_.
     bind (refresh_payment (row_id p)) (\<lambda>p'. ret (payment_dto p'))))))))"

definition terminal_payment :: "payment_status \<Rightarrow> bool" where
  "terminal_payment s \<longleftrightarrow> s \<in> {PayCOMPLETED, PayFAILED, PayREFUNDED}"

definition apply_callback :: "order_payment \<Rightarrow> order \<Rightarrow> string \<Rightarrow> unit session" where
  "apply_callback p ord new_status =
     bind (gets now) (\<lambda>t.
     if new_status = ''completed'' then
       bind (if o_status ord = CREATED then save_order (ord\<lparr>o_status := CONFIRMED\<rparr>) else ret ()) (\<lambda>_.
       save_order_payment (p\<lparr>pay_status := PayCOMPLETED, pay_completed_at := Some t\<rparr>))
     else if new_status = ''failed'' then save_order_payment (p\<lparr>pay_status := PayFAILED\<rparr>)
     else raise (PaymentExn (PaymentInvalidStateError (''Unsupported callback status: '' @ new_status))))"

definition handle_callback :: "string \<Rightarrow> string \<Rightarrow> string \<Rightarrow> OrderPaymentDTO session" where
  "handle_callback provider_name txn new_status =
     bind (fetch (\<lambda>d. find (\<lambda>p. pay_txn_id p = Some txn \<and> pay_provider p = provider_name) (t_order_payments d))
            (PaymentExn (PaymentNotFoundError txn))) (\<lambda>p.
     if terminal_payment (pay_status p) then ret (payment_dto p)
     else
       bind (fetch (\<lambda>d. lookup (t_orders d) (pay_order_id p)) (OrderExn (OrderNotFoundError (pay_order_id p)))) (\<lambda>ord.
       bind (apply_callback p ord new_status) (\<lambda>_.
       bind (refresh_payment (row_id p)) (\<lambda>p'. ret (payment_dto p')))))"

definition refund_payment :: "payment_provider \<Rightarrow> uuid \<Rightarrow> OrderPaymentDTO session" where
  "refund_payment prov payment_id =
     bind (fetch (\<lambda>d. lookup (t_order_payments d) payment_id)
            (PaymentExn (PaymentNotFoundError (str_uuid payment_id)))) (\<lambda>p.
     bind (require (pay_status p = PayCOMPLETED)
            (PaymentExn (PaymentInvalidStateError ''Can only refund a completed payment''))) (\<lambda>_.
     case pay_txn_id p of
       None \<Rightarrow> raise (PaymentExn (PaymentInvalidStateError ''Payment has no provider transaction id''))
     | Some txn \<Rightarrow>
         bind (provider_refund prov txn) (\<lambda>res.
         bind (require (res = ''refunded'') (PaymentExn (PaymentInvalidStateError ''Provider refused refund''))) (\<lambda>_.
         bind (fetch (\<lambda>d. lookup (t_orders d) (pay_order_id p)) AssertionError) (\<lambda>ord.
         bind (ensure_transition (o_status ord) REFUNDED) (\<lambda>_.
         bind (save_order (ord\<lparr>o_status := REFUNDED\<rparr>)) (\<lambda>_.
         bind (save_order_payment (p\<lparr>pay_status := PayREFUNDED\<rparr>)) (\<lambda>_.
         bind (refresh_payment (row_id p)) (\<lambda>p'. ret (payment_dto p'))))))))))"

text \<open>
  The webhook: the signature is checked before the body is read. \<open>parse\<close> is the JSON
  validation of \<open>CallbackPayload\<close>, which belongs to the validation library.
\<close>

definition payment_callback ::
  "payment_provider \<Rightarrow> (string \<Rightarrow> exn + CallbackPayload) \<Rightarrow> string \<Rightarrow> string option \<Rightarrow> OrderPaymentDTO session" where
  "payment_callback prov parse raw signature =
     bind (of_sum (pv_verify_callback prov raw signature)) (\<lambda>good.
     bind (require good (PaymentExn (PaymentCallbackInvalidError ''Invalid payment callback signature''))) (\<lambda>_.
     bind (of_sum (parse raw)) (\<lambda>payload.
     handle_callback (pv_name prov) (cb_txn_id payload) (cb_status payload))))"

section \<open>What the services rely on\<close>

text \<open>
  A provider has no access to the database and no influence on the clock. Nothing else is
  assumed of it: it may fail, and it may answer with any status.
\<close>

abbreviation db_and_clock :: "world \<Rightarrow> database \<times> datetime" where
  "db_and_clock w \<equiv> (wdb w, now w)"

lemma logged_leaves:
  assumes "leaves db_and_clock m"
  shows "leaves db_and_clock (logged mk m)"
proof (rule evolvesI)
  fix w
  obtain r w' where run: "m w = (r, w')" by (cases "m w")
  from leavesD [OF assms run] show "db_and_clock (snd (logged mk m w)) = db_and_clock w"
    by (simp add: logged_def run)
qed

locale provider_contract =
  fixes prov :: payment_provider
  assumes charge_outside: "leaves db_and_clock (pv_create_charge prov req)"
    and refund_outside: "leaves db_and_clock (pv_refund prov txn)"
    and save_outside: "leaves db_and_clock (pv_save_method prov ref token)"
    and delete_outside: "leaves db_and_clock (pv_delete_method prov token)"
begin

lemma provider_calls:
  "leaves db_and_clock (create_charge prov req)" "leaves db_and_clock (provider_refund prov txn)"
  "leaves db_and_clock (provider_save_method prov ref token)"
  "leaves db_and_clock (provider_delete_method prov token)"
  unfolding create_charge_def provider_refund_def provider_save_method_def provider_delete_method_def
  by (intro logged_leaves charge_outside refund_outside save_outside delete_outside)+

lemma provider_same:
  "create_charge prov req w = (c, w') \<Longrightarrow> wdb w' = wdb w \<and> now w' = now w"
  "provider_refund prov txn w = (r, w') \<Longrightarrow> wdb w' = wdb w \<and> now w' = now w"
  "provider_save_method prov ref token w = (m, w') \<Longrightarrow> wdb w' = wdb w \<and> now w' = now w"
  "provider_delete_method prov token w = (u, w') \<Longrightarrow> wdb w' = wdb w \<and> now w' = now w"
  using leavesD [OF provider_calls(1), of req w c w'] leavesD [OF provider_calls(2), of txn w r w']
    leavesD [OF provider_calls(3), of ref token w m w'] leavesD [OF provider_calls(4), of token w u w']
  by simp_all

lemma provider_frame:
  "frame p (create_charge prov req)" "frame p (provider_refund prov txn)"
  "frame p (provider_save_method prov ref token)" "frame p (provider_delete_method prov token)"
  using provider_calls(1) [of req] provider_calls(2) [of txn] provider_calls(3) [of ref token]
    provider_calls(4) [of token]
  by (simp_all add: evolves_def)

end

interpretation fake: provider_contract "fake_provider cfg" for cfg
  by unfold_locales
     (simp_all add: fake_provider_def fake_create_charge_def fake_save_method_def evolves_def uuid4_run
        bind_def)

section \<open>The invariant of payments\<close>

text \<open>
  Every stored attempt is settled, belongs to an order of the same user and amount, and
  carries a transaction; an order has at most one attempt that did not fail, and none while
  it is unpaid (\<open>created\<close> or \<open>cancelled\<close>); a refunded payment has a refunded order.
\<close>

definition status_agrees :: "order_status \<Rightarrow> payment_status \<Rightarrow> bool" where
  "status_agrees s q \<longleftrightarrow>
     (case q of
        PayPENDING \<Rightarrow> False
      | PayFAILED \<Rightarrow> True
      | PayCOMPLETED \<Rightarrow> s \<noteq> CREATED \<and> s \<noteq> CANCELLED
      | PayREFUNDED \<Rightarrow> s = REFUNDED)"

definition payment_sound :: "database \<Rightarrow> order_payment \<Rightarrow> bool" where
  "payment_sound d p \<longleftrightarrow> pay_txn_id p \<noteq> None \<and>
     (case lookup (t_orders d) (pay_order_id p) of
        None \<Rightarrow> False
      | Some ord \<Rightarrow> o_user_id ord = pay_user_id p \<and> o_total_price ord = pay_amount p \<and>
          status_agrees (o_status ord) (pay_status p))"

definition single_charge :: "order_payment list \<Rightarrow> bool" where
  "single_charge t \<longleftrightarrow> (\<forall>p \<in> set t. \<forall>q \<in> set t. pay_order_id p = pay_order_id q \<longrightarrow>
     pay_status p \<noteq> PayFAILED \<longrightarrow> pay_status q \<noteq> PayFAILED \<longrightarrow> p = q)"

definition payments_inv :: "database \<Rightarrow> bool" where
  "payments_inv d \<longleftrightarrow> distinct (row_ids (t_order_payments d)) \<and>
     (\<forall>p \<in> set (t_order_payments d). payment_sound d p) \<and> single_charge (t_order_payments d)"

lemma status_agrees_step: "can_transition s s' \<Longrightarrow> status_agrees s q \<Longrightarrow> status_agrees s' q"
  by (cases q; cases s; cases s') (simp_all add: status_agrees_def)

lemma payments_inv_set_status:
  assumes "payments_inv d" and "lookup (t_orders d) i = Some ord" and "can_transition (o_status ord) s"
  shows "payments_inv (set_status t s ord d)"
proof -
  have id: "row_id ord = i" using lookup_SomeD [OF assms(2)] by simp
  have "payment_sound (set_status t s ord d) p" if "payment_sound d p" for p
  proof (cases "pay_order_id p = i")
    case True
    with that assms(2) status_agrees_step [OF assms(3)] show ?thesis
      by (simp add: payment_sound_def set_status_def lookup_replace id)
  next
    case False
    with that show ?thesis by (simp add: payment_sound_def set_status_def lookup_replace id)
  qed
  with assms(1) show ?thesis by (simp add: payments_inv_def set_status_def)
qed

lemma payments_inv_same:
  "t_orders d' = t_orders d \<Longrightarrow> t_order_payments d' = t_order_payments d \<Longrightarrow> payments_inv d \<Longrightarrow> payments_inv d'"
  by (simp add: payments_inv_def payment_sound_def)

lemma payments_inv_append:
  assumes "payments_inv d" and "t_orders d' = t_orders d @ new" and "t_order_payments d' = t_order_payments d"
  shows "payments_inv d'"
proof -
  have "payment_sound d' p" if "payment_sound d p" for p
  proof -
    from that obtain ord where "lookup (t_orders d) (pay_order_id p) = Some ord"
      by (auto simp: payment_sound_def split: option.splits)
    moreover from this have "lookup (t_orders d') (pay_order_id p) = Some ord"
      by (simp add: assms(2) lookup_append)
    ultimately show ?thesis using that by (simp add: payment_sound_def)
  qed
  with assms(1,3) show ?thesis by (simp add: payments_inv_def)
qed

section \<open>What the operations do\<close>

lemma refresh_payment_InrE:
  assumes "refresh_payment i w = (Inr p, w')"
  obtains "lookup (t_order_payments (wdb w)) i = Some p" and "w' = w"
  using assms by (auto simp: refresh_payment_def elim: fetch_InrE)

lemma db_save_new:
  assumes "db_save get upd fits ok r w = (Inr u, w')" and "lookup (get (wdb w)) (row_id r) = Some old"
  shows "w' = w\<lparr>wdb := upd (replace_row (touch (now w) old r)) (wdb w)\<rparr>"
  using assms by (auto elim!: db_save_InrE)

lemma settle_charge_InrE:
  assumes "settle_charge ord p res w = (Inr u, w')" and "lookup (t_orders (wdb w)) (row_id ord) = Some ord"
    and "o_status ord = CREATED" and "lookup (t_order_payments (wdb w)) (row_id p) = Some p"
  obtains q where "row_id q = row_id p" and "pay_order_id q = pay_order_id p" and "pay_user_id q = pay_user_id p"
    and "pay_amount q = pay_amount p" and "pay_txn_id q \<noteq> None"
    and "pay_status q = PayCOMPLETED \<or> pay_status q = PayFAILED"
    and "w' = w\<lparr>wdb := t_order_payments_update (replace_row q)
           (if pay_status q = PayCOMPLETED then set_status (now w) CONFIRMED ord (wdb w) else wdb w)\<rparr>"
proof (cases "cr_status res = ''completed''")
  case True
  let ?q = "p\<lparr>pay_txn_id := Some (cr_txn_id res), pay_status := PayCOMPLETED, pay_completed_at := Some (now w)\<rparr>"
  from assms(1,3) True obtain x where x: "save_order (ord\<lparr>o_status := CONFIRMED\<rparr>) w = (Inr (), x)"
    and q: "save_order_payment ?q x = (Inr u, w')"
    by (auto simp: settle_charge_def ensure_transition_run elim!: bind_InrE)
  have ne: "ord\<lparr>o_status := CONFIRMED\<rparr> \<noteq> ord"
    using assms(3) by (metis order.select_convs(5) order.surjective order.update_convs(5) order_status.distinct(1))
  have "lookup (t_orders (wdb w)) (row_id (ord\<lparr>o_status := CONFIRMED\<rparr>)) = Some ord"
    using assms(2) by simp
  from db_save_new [OF x this] have x_eq: "x = w\<lparr>wdb := set_status (now w) CONFIRMED ord (wdb w)\<rparr>"
    using ne by (simp add: set_status_def touch_def)
  have "lookup (t_order_payments (wdb x)) (row_id ?q) = Some p"
    using assms(4) by (simp add: x_eq set_status_def)
  from db_save_new [OF q this] show thesis
    by (intro that [of "touch (now w) p ?q"])
       (simp_all add: x_eq touch_column [of pay_order_id] touch_column [of pay_user_id]
          touch_column [of pay_amount] touch_column [of pay_txn_id] touch_column [of pay_status])
next
  case False
  let ?q = "p\<lparr>pay_txn_id := Some (cr_txn_id res), pay_status := PayFAILED\<rparr>"
  from assms(1) False have q: "save_order_payment ?q w = (Inr u, w')" by (simp add: settle_charge_def)
  have "lookup (t_order_payments (wdb w)) (row_id ?q) = Some p" using assms(4) by simp
  from db_save_new [OF q this] show thesis
    by (intro that [of "touch (now w) p ?q"])
       (simp_all add: touch_column [of pay_order_id] touch_column [of pay_user_id]
          touch_column [of pay_amount] touch_column [of pay_txn_id] touch_column [of pay_status])
qed

context provider_contract
begin

text \<open>A charge adds one settled attempt and confirms the order when the provider completed it.\<close>

lemma charge_effect:
  assumes "charge_for_order prov u i m w = (Inr dto, w')"
  obtains ord p where "lookup (t_orders (wdb w)) i = Some ord" and "o_user_id ord = u" and "o_status ord = CREATED"
    and "row_id p \<notin> set (row_ids (t_order_payments (wdb w)))" and "dto = payment_dto p"
    and "pay_order_id p = i" and "pay_user_id p = u" and "pay_amount p = o_total_price ord"
    and "pay_txn_id p \<noteq> None" and "pay_status p = PayCOMPLETED \<or> pay_status p = PayFAILED"
    and "wdb w' = (if pay_status p = PayCOMPLETED then set_status (now w) CONFIRMED ord (wdb w) else wdb w)
           \<lparr>t_order_payments := t_order_payments (wdb w) @ [p]\<rparr>"
proof -
  from assms obtain ord p v v1 res v2 q where ord: "lookup (t_orders (wdb w)) i = Some ord" "o_user_id ord = u"
      "o_status ord = CREATED"
    and p: "add_order_payment (new_payment ord u m (pv_name prov)) w = (Inr p, v)"
    and res: "create_charge prov \<lparr>ch_amount = o_total_price ord, ch_currency = o_currency ord,
        ch_reference = str_uuid (row_id p), ch_customer_id = None, ch_method_token = None\<rparr> v = (Inr res, v1)"
    and settle: "settle_charge ord p res v1 = (Inr (), v2)"
    and q: "refresh_payment (row_id p) v2 = (Inr q, w')" and dto: "dto = payment_dto q"
    unfolding charge_for_order_def by (auto elim!: bind_InrE fetch_InrE require_InrE)
  have id: "row_id ord = i" using lookup_SomeD [OF ord(1)] by simp
  from p have fields: "pay_order_id p = i" "pay_user_id p = u" "pay_amount p = o_total_price ord"
    and fresh: "row_id p \<notin> set (row_ids (t_order_payments (wdb w)))"
    and v: "wdb v = t_order_payments_update (\<lambda>t. t @ [p]) (wdb w)" "now v = now w"
    by (auto elim!: db_add_InrE simp: new_payment_def id)
  have v1: "wdb v1 = wdb v" "now v1 = now v" using provider_same(1) [OF res] by simp_all
  have "lookup (t_orders (wdb v1)) (row_id ord) = Some ord" using ord(1) id by (simp add: v v1)
  moreover have "lookup (t_order_payments (wdb v1)) (row_id p) = Some p"
    using fresh by (simp add: v v1 lookup_append_new)
  ultimately obtain r where r: "row_id r = row_id p" "pay_order_id r = pay_order_id p" "pay_user_id r = pay_user_id p"
      "pay_amount r = pay_amount p" "pay_txn_id r \<noteq> None" "pay_status r = PayCOMPLETED \<or> pay_status r = PayFAILED"
    and v2: "v2 = v1\<lparr>wdb := t_order_payments_update (replace_row r)
           (if pay_status r = PayCOMPLETED then set_status (now v1) CONFIRMED ord (wdb v1) else wdb v1)\<rparr>"
    using settle ord(3) by (elim settle_charge_InrE)
  have db: "wdb v2 = (if pay_status r = PayCOMPLETED then set_status (now w) CONFIRMED ord (wdb w) else wdb w)
      \<lparr>t_order_payments := t_order_payments (wdb w) @ [r]\<rparr>"
    using replace_append_new [OF fresh r(1)] by (simp add: v2 v v1 set_status_def)
  then have "lookup (t_order_payments (wdb v2)) (row_id p) = Some r"
    using lookup_append_new [of r "t_order_payments (wdb w)"] fresh by (simp add: r(1))
  then have "q = r" "w' = v2" using q by (auto elim: refresh_payment_InrE)
  with ord fresh fields r db dto show thesis by (intro that [of ord r]) simp_all
qed

end

lemma save_status_new:
  assumes "save_order (ord\<lparr>o_status := s\<rparr>) w = (Inr u, w')" and "lookup (t_orders (wdb w)) (row_id ord) = Some ord"
    and "o_status ord \<noteq> s"
  shows "w' = w\<lparr>wdb := set_status (now w) s ord (wdb w)\<rparr>"
proof -
  have "lookup (t_orders (wdb w)) (row_id (ord\<lparr>o_status := s\<rparr>)) = Some ord" using assms(2) by simp
  from db_save_new [OF assms(1) this] have "w' = w\<lparr>wdb := t_orders_update
      (replace_row (touch (now w) ord (ord\<lparr>o_status := s\<rparr>))) (wdb w)\<rparr>" .
  moreover have "ord\<lparr>o_status := s\<rparr> \<noteq> ord"
  proof
    assume "ord\<lparr>o_status := s\<rparr> = ord"
    then have "o_status (ord\<lparr>o_status := s\<rparr>) = o_status ord" by simp
    with assms(3) show False by simp
  qed
  ultimately show ?thesis by (simp add: touch_def set_status_def)
qed

lemma orders_ok_payments: "orders_ok (d\<lparr>t_order_payments := t\<rparr>) \<longleftrightarrow> orders_ok d"
  by (simp add: orders_ok_def orders_inv_columns order_columns_def orders_legal_def ok_order_def
      ok_pickup_info_def ok_delivery_info_def)

context provider_contract
begin

lemma refund_effect:
  assumes "refund_payment prov i w = (Inr dto, w')"
  obtains p ord q where "lookup (t_order_payments (wdb w)) i = Some p" and "pay_status p = PayCOMPLETED"
    and "lookup (t_orders (wdb w)) (pay_order_id p) = Some ord" and "can_transition (o_status ord) REFUNDED"
    and "row_id q = i" and "pay_order_id q = pay_order_id p" and "pay_user_id q = pay_user_id p"
    and "pay_amount q = pay_amount p" and "pay_txn_id q = pay_txn_id p" and "pay_status q = PayREFUNDED"
    and "wdb w' = t_order_payments_update (replace_row q) (set_status (now w) REFUNDED ord (wdb w))"
    and "dto = payment_dto q"
proof -
  from assms obtain p txn res v ord v1 v2 r where p: "lookup (t_order_payments (wdb w)) i = Some p"
      "pay_status p = PayCOMPLETED" "pay_txn_id p = Some txn"
    and res: "provider_refund prov txn w = (Inr res, v)"
    and ord: "lookup (t_orders (wdb v)) (pay_order_id p) = Some ord"
    and step: "can_transition (o_status ord) REFUNDED"
    and save: "save_order (ord\<lparr>o_status := REFUNDED\<rparr>) v = (Inr (), v1)"
    and pay: "save_order_payment (p\<lparr>pay_status := PayREFUNDED\<rparr>) v1 = (Inr (), v2)"
    and r: "refresh_payment (row_id p) v2 = (Inr r, w')" and dto: "dto = payment_dto r"
    unfolding refund_payment_def
    by (auto elim!: bind_InrE fetch_InrE require_InrE ensure_transition_InrE split: option.splits)
  have v: "wdb v = wdb w" "now v = now w" using provider_same(2) [OF res] by simp_all
  have id: "row_id p = i" "row_id ord = pay_order_id p" using lookup_SomeD [OF p(1)] lookup_SomeD [OF ord] by simp_all
  have "v1 = v\<lparr>wdb := set_status (now v) REFUNDED ord (wdb v)\<rparr>"
    using save by (rule save_status_new) (use ord id step in auto)
  then have v1: "wdb v1 = set_status (now w) REFUNDED ord (wdb w)" "now v1 = now w" by (simp_all add: v)
  define q where "q = touch (now w) p (p\<lparr>pay_status := PayREFUNDED\<rparr>)"
  have q: "row_id q = i" "pay_order_id q = pay_order_id p" "pay_user_id q = pay_user_id p"
      "pay_amount q = pay_amount p" "pay_txn_id q = pay_txn_id p" "pay_status q = PayREFUNDED"
    by (simp_all add: q_def id touch_column [of pay_order_id] touch_column [of pay_user_id]
        touch_column [of pay_amount] touch_column [of pay_txn_id] touch_column [of pay_status])
  have "lookup (t_order_payments (wdb v1)) (row_id (p\<lparr>pay_status := PayREFUNDED\<rparr>)) = Some p"
    using p(1) id by (simp add: v1 set_status_def)
  from db_save_new [OF pay this]
  have v2: "wdb v2 = t_order_payments_update (replace_row q) (set_status (now w) REFUNDED ord (wdb w))"
    by (simp add: v1 q_def)
  then have "lookup (t_order_payments (wdb v2)) (row_id p) = Some q"
    using p(1) id q(1) by (simp add: set_status_def lookup_replace)
  then have "r = q" "w' = v2" using r by (auto elim: refresh_payment_InrE)
  with p ord step q v2 dto v show thesis by (intro that [of p ord q]) simp_all
qed

text \<open>The three operations keep both invariants.\<close>

lemma charge_keeps:
  assumes "charge_for_order prov u i m w = (Inr dto, w')" and "orders_ok (wdb w)" and "payments_inv (wdb w)"
  shows "orders_ok (wdb w') \<and> payments_inv (wdb w')"
  using assms(1)
proof (rule charge_effect)
  fix ord p
  assume ord: "lookup (t_orders (wdb w)) i = Some ord" "o_user_id ord = u" "o_status ord = CREATED"
    and p: "row_id p \<notin> set (row_ids (t_order_payments (wdb w)))" "pay_order_id p = i" "pay_user_id p = u"
      "pay_amount p = o_total_price ord" "pay_txn_id p \<noteq> None" "pay_status p = PayCOMPLETED \<or> pay_status p = PayFAILED"
    and w': "wdb w' = (if pay_status p = PayCOMPLETED then set_status (now w) CONFIRMED ord (wdb w) else wdb w)
           \<lparr>t_order_payments := t_order_payments (wdb w) @ [p]\<rparr>"
  define d where "d = (if pay_status p = PayCOMPLETED then set_status (now w) CONFIRMED ord (wdb w) else wdb w)"
  have step: "can_transition (o_status ord) CONFIRMED" using ord(3) by simp
  have d: "orders_ok d" "payments_inv d" "t_order_payments d = t_order_payments (wdb w)"
    using assms(2,3) set_status_ok [OF assms(2) ord(1)] payments_inv_set_status [OF assms(3) ord(1) step]
    by (simp_all add: d_def set_status_def)
  have id: "row_id ord = i" using lookup_SomeD [OF ord(1)] by simp
  have sound: "payment_sound (wdb w') p"
    using p ord id unfolding w' by (auto simp: payment_sound_def status_agrees_def set_status_def lookup_replace)
  have failed: "pay_status x = PayFAILED" if "x \<in> set (t_order_payments (wdb w))" "pay_order_id x = i" for x
  proof -
    have "payment_sound (wdb w) x" using assms(3) that(1) by (simp add: payments_inv_def)
    with that(2) ord show ?thesis by (cases "pay_status x") (simp_all add: payment_sound_def status_agrees_def)
  qed
  have "payment_sound (wdb w') x" if "payment_sound d x" for x
    using that by (simp add: w' payment_sound_def flip: d_def)
  moreover have "single_charge (t_order_payments (wdb w) @ [p])"
    using d(2,3) failed p(2) by (auto simp: payments_inv_def single_charge_def)
  ultimately have "payments_inv (wdb w')"
    using d(2,3) sound p(1) by (simp add: payments_inv_def w' flip: d_def)
  moreover have "orders_ok (wdb w')"
    using d(1) by (simp add: w' orders_ok_payments flip: d_def)
  ultimately show ?thesis by simp
qed

end

context provider_contract
begin

lemma refund_keeps:
  assumes "refund_payment prov i w = (Inr dto, w')" and "orders_ok (wdb w)" and "payments_inv (wdb w)"
  shows "orders_ok (wdb w') \<and> payments_inv (wdb w')"
  using assms(1)
proof (rule refund_effect)
  fix p ord q
  assume p: "lookup (t_order_payments (wdb w)) i = Some p" "pay_status p = PayCOMPLETED"
    and ord: "lookup (t_orders (wdb w)) (pay_order_id p) = Some ord" "can_transition (o_status ord) REFUNDED"
    and q: "row_id q = i" "pay_order_id q = pay_order_id p" "pay_user_id q = pay_user_id p"
      "pay_amount q = pay_amount p" "pay_txn_id q = pay_txn_id p" "pay_status q = PayREFUNDED"
    and w': "wdb w' = t_order_payments_update (replace_row q) (set_status (now w) REFUNDED ord (wdb w))"
  define d where "d = set_status (now w) REFUNDED ord (wdb w)"
  have d: "orders_ok d" "payments_inv d" "t_order_payments d = t_order_payments (wdb w)"
    using set_status_ok [OF assms(2) ord(1)] payments_inv_set_status [OF assms(3) ord]
    by (simp_all add: d_def set_status_def)
  have pm: "p \<in> set (t_order_payments d)" "row_id p = i" using lookup_SomeD [OF p(1)] d(3) by simp_all
  have id: "row_id ord = pay_order_id p" using lookup_SomeD [OF ord(1)] by simp
  have dist: "distinct (row_ids (t_order_payments d))" using d(2) by (simp add: payments_inv_def)
  have set: "set (t_order_payments (wdb w')) = insert q (set (t_order_payments d) - {p})"
    using set_replace [OF dist, of q p] p(1) q(1) by (simp add: w' d(3) flip: d_def)
  have "payment_sound d p" using d(2) pm(1) by (simp add: payments_inv_def)
  then have "payment_sound (wdb w') q"
    using q ord(1) id by (simp add: payment_sound_def w' status_agrees_def d_def set_status_def lookup_replace)
  moreover have "payment_sound (wdb w') x" if "payment_sound d x" for x
    using that by (simp add: w' payment_sound_def flip: d_def)
  moreover have "single_charge (t_order_payments (wdb w'))"
    using d(2) pm(1) p(2) q(2,6) unfolding set single_charge_def payments_inv_def by (auto simp: single_charge_def)
  moreover have "distinct (row_ids (t_order_payments (wdb w')))"
    using dist by (simp add: w' flip: d_def)
  ultimately have "payments_inv (wdb w')"
    using d(2) by (auto simp: payments_inv_def set)
  moreover have "orders_ok (wdb w')"
  proof -
    have "wdb w' = d\<lparr>t_order_payments := replace_row q (t_order_payments d)\<rparr>"
      by (simp add: w' flip: d_def)
    then show ?thesis using d(1) by (simp only: orders_ok_payments)
  qed
  ultimately show ?thesis by simp
qed

end

text \<open>A callback for a settled payment, that is for any stored one, only reports it.\<close>

lemma callback_run:
  assumes "payments_inv (wdb w)"
  shows "handle_callback name txn st w =
    (case find (\<lambda>p. pay_txn_id p = Some txn \<and> pay_provider p = name) (t_order_payments (wdb w)) of
       None \<Rightarrow> (Inl (PaymentExn (PaymentNotFoundError txn)), w)
     | Some p \<Rightarrow> (Inr (payment_dto p), w))"
proof (cases "find (\<lambda>p. pay_txn_id p = Some txn \<and> pay_provider p = name) (t_order_payments (wdb w))")
  case (Some p)
  then have "p \<in> set (t_order_payments (wdb w))" by (auto simp: find_Some_iff)
  with assms have "payment_sound (wdb w) p" by (simp add: payments_inv_def)
  then have "terminal_payment (pay_status p)"
    by (cases "pay_status p") (auto simp: payment_sound_def status_agrees_def terminal_payment_def split: option.splits)
  with Some show ?thesis by (simp add: handle_callback_def bind_fetch)
qed (simp add: handle_callback_def bind_fetch)

text \<open>The order service keeps the invariant of payments.\<close>

lemma create_order_payments: "preserves (\<lambda>d. orders_ok d \<and> payments_inv d) (create_order u data)"
proof (rule preservesI)
  fix w dto w'
  assume run: "create_order u data w = (Inr dto, w')" and inv: "orders_ok (wdb w) \<and> payments_inv (wdb w)"
  from run obtain ls f ord v where f: "choose_fulfillment data w = (Inr f, v)"
    and add: "repo_add u (co_order_type data) (order_total ls) ls f v = (Inr ord, w')"
    by (rule create_order_InrE)
  have "wdb v = wdb w" using f by (rule choose_fulfillment_InrE)
  moreover have "t_orders (wdb w') = t_orders (wdb v) @ [ord]" using add by (rule repo_add_InrE)
  moreover have "t_order_payments (wdb w') = t_order_payments (wdb w)"
    using arg_cong [OF leavesD [OF orders_frame(1) run], of t_order_payments] by simp
  ultimately have "payments_inv (wdb w')" using inv payments_inv_append by metis
  with inv preservesD [OF create_order_ok run] show "orders_ok (wdb w') \<and> payments_inv (wdb w')" by simp
qed

lemma cancel_order_payments: "preserves (\<lambda>d. orders_ok d \<and> payments_inv d) (cancel_order i u)"
proof (rule preservesI)
  fix w dto w'
  assume run: "cancel_order i u w = (Inr dto, w')" and inv: "orders_ok (wdb w) \<and> payments_inv (wdb w)"
  from run inv obtain ord where ord: "lookup (t_orders (wdb w)) i = Some ord" "o_status ord = CREATED"
    and w': "wdb w' = set_status (now w) CANCELLED ord (wdb w)"
    by (auto simp: cancel_order_run Let_def split: option.splits if_splits)
  with inv show "orders_ok (wdb w') \<and> payments_inv (wdb w')"
    using payments_inv_set_status [OF _ ord(1), of CANCELLED] by (simp add: set_status_ok [OF _ ord(1)])
qed

lemma update_status_payments: "preserves (\<lambda>d. orders_ok d \<and> payments_inv d) (update_status i s)"
proof (rule preservesI)
  fix w dto w'
  assume run: "update_status i s w = (Inr dto, w')" and inv: "orders_ok (wdb w) \<and> payments_inv (wdb w)"
  from run inv obtain ord where ord: "lookup (t_orders (wdb w)) i = Some ord" "can_transition (o_status ord) s"
    and w': "wdb w' = staff_update (now w) s ord (wdb w)"
    by (auto simp: update_status_run Let_def split: option.splits if_splits)
  have "payments_inv (set_status (now w) s ord (wdb w))"
    using payments_inv_set_status [OF _ ord] inv by simp
  then have "payments_inv (wdb w')"
    by (rule payments_inv_same [rotated 2])
       (simp_all add: w' staff_update_def stamp_pickups_def stamp_deliveries_def)
  moreover have "orders_ok (wdb w')" unfolding w' using inv ord(1) by (intro staff_update_ok) auto
  ultimately show "orders_ok (wdb w') \<and> payments_inv (wdb w')" by simp
qed

end
