(* ===== verification/PaymentMethods.thy ===== *)
theory PaymentMethods
  imports Payments
begin

text \<open>
  Saved payment methods (\<open>src/payments/method_service.py\<close>): the card tokens a user keeps with
  the provider, and the rule that at most one of them is the default. The clearing of the
  default is one UPDATE over the table, which also sets \<open>updated_at\<close> of the rows it hits.
\<close>

record SavePaymentMethodRequest =
  sv_intent_token :: string
  sv_is_default :: bool

record PaymentMethodDTO =
  md_id :: uuid
  md_provider :: string
  md_brand :: string
  md_last4 :: string
  md_exp_month :: int
  md_exp_year :: int
  md_is_default :: bool
  md_created_at :: datetime

record PaymentMethodListDTO =
  ml_items :: "PaymentMethodDTO list"
  ml_total :: nat

definition valid_save_request :: "SavePaymentMethodRequest \<Rightarrow> bool" where
  "valid_save_request r \<longleftrightarrow> sv_intent_token r \<noteq> [] \<and> length (sv_intent_token r) \<le> 512"

definition method_dto :: "payment_method \<Rightarrow> PaymentMethodDTO" where
  "method_dto m = \<lparr>md_id = row_id m, md_provider = pm_provider m, md_brand = pm_brand m,
     md_last4 = pm_last4 m, md_exp_month = pm_exp_month m, md_exp_year = pm_exp_year m,
     md_is_default = pm_is_default m, md_created_at = created_at m\<rparr>"

definition methods_of :: "database \<Rightarrow> uuid \<Rightarrow> payment_method list" where
  "methods_of d user_id = filter (\<lambda>m. pm_user_id m = user_id) (t_payment_methods d)"

definition cleared :: "datetime \<Rightarrow> uuid \<Rightarrow> payment_method \<Rightarrow> payment_method" where
  "cleared t user_id m =
     (if pm_user_id m = user_id \<and> pm_is_default m then m\<lparr>pm_is_default := False, updated_at := t\<rparr> else m)"

definition clear_default :: "uuid \<Rightarrow> unit session" where
  "clear_default user_id =
     modify (\<lambda>w. w\<lparr>wdb := t_payment_methods_update (map (cleared (now w) user_id)) (wdb w)\<rparr>)"

definition require_owned_method :: "uuid \<Rightarrow> uuid \<Rightarrow> payment_method session" where
  "require_owned_method user_id method_id =
     fetch (\<lambda>d. find (\<lambda>m. row_id m = method_id \<and> pm_user_id m = user_id) (t_payment_methods d))
       (PaymentExn (PaymentMethodNotFoundError method_id))"

definition refresh_method :: "uuid \<Rightarrow> payment_method session" where
  "refresh_method i = fetch (\<lambda>d. lookup (t_payment_methods d) i) StaleDataError"

definition new_method :: "uuid \<Rightarrow> string \<Rightarrow> saved_method \<Rightarrow> bool \<Rightarrow> uuid \<Rightarrow> datetime \<Rightarrow> payment_method" where
  "new_method user_id provider_name saved make_default i t =
     \<lparr>row_id = i, created_at = t, updated_at = t, pm_user_id = user_id, pm_provider = provider_name,
      pm_customer_id = sm_customer_id saved, pm_token = sm_token saved, pm_brand = sm_brand saved,
      pm_last4 = sm_last4 saved, pm_exp_month = sm_exp_month saved, pm_exp_year = sm_exp_year saved,
      pm_is_default = make_default\<rparr>"

definition save_method :: "payment_provider \<Rightarrow> uuid \<Rightarrow> SavePaymentMethodRequest \<Rightarrow> PaymentMethodDTO session" where
  "save_method prov user_id data =
     bind (provider_save_method prov (str_uuid user_id) (sv_intent_token data)) (\<lambda>saved.
     bind (if sv_is_default data then ret True else query (\<lambda>d. methods_of d user_id = [])) (\<lambda>make_default.
     bind (if make_default then clear_default user_id else ret ()) (\<lambda>_.
     bind (add_payment_method (new_method user_id (pv_name prov) saved make_default)) (\<lambda>m.
     bind (refresh_method (row_id m)) (\<lambda>m'. ret (method_dto m'))))))"

definition list_methods :: "uuid \<Rightarrow> PaymentMethodListDTO session" where
  \<comment> \<open>\<open>is_default DESC, created_at DESC\<close>; of equal keys the later row is first\<close>
  "list_methods user_id =
     bind (query (\<lambda>d. sort_desc (\<lambda>m. (pm_is_default m, created_at m)) (methods_of d user_id))) (\<lambda>rows.
     ret \<lparr>ml_items = map method_dto rows, ml_total = length rows\<rparr>)"

definition promote_latest :: "uuid \<Rightarrow> unit session" where
  "promote_latest user_id =
     bind (query (\<lambda>d. sort_desc created_at (methods_of d user_id))) (\<lambda>rows.
     case rows of [] \<Rightarrow> ret () | c # _ \<Rightarrow> save_payment_method (c\<lparr>pm_is_default := True\<rparr>))"

definition delete_method :: "payment_provider \<Rightarrow> uuid \<Rightarrow> uuid \<Rightarrow> unit session" where
  "delete_method prov user_id method_id =
     bind (require_owned_method user_id method_id) (\<lambda>m.
     bind (provider_delete_method prov (pm_token m)) (\<lambda>_.
     bind (db_delete t_payment_methods_update (\<lambda>_ _. False) (row_id m)) (\<lambda>_.
     if pm_is_default m then promote_latest user_id else ret ())))"

definition set_default :: "uuid \<Rightarrow> uuid \<Rightarrow> PaymentMethodDTO session" where
  "set_default user_id method_id =
     bind (require_owned_method user_id method_id) (\<lambda>m.
     bind (clear_default user_id) (\<lambda>_.
     bind (save_payment_method (m\<lparr>pm_is_default := True\<rparr>)) (\<lambda>_.
     bind (refresh_method (row_id m)) (\<lambda>m'. ret (method_dto m')))))"

definition get_method :: "uuid \<Rightarrow> uuid \<Rightarrow> payment_method session" where
  "get_method user_id method_id = require_owned_method user_id method_id"

definition get_default_method :: "uuid \<Rightarrow> payment_method option session" where
  "get_default_method user_id =
     query (\<lambda>d. find (\<lambda>m. pm_user_id m = user_id \<and> pm_is_default m) (t_payment_methods d))"

section \<open>One default per user\<close>

text \<open>
  A user who has saved methods has exactly one default among them: the service keeps more
  than the at-most-one it promises.
\<close>

definition one_default :: "payment_method set \<Rightarrow> bool" where
  "one_default T \<longleftrightarrow>
     (\<forall>m \<in> T. \<exists>n \<in> T. pm_user_id n = pm_user_id m \<and> pm_is_default n) \<and>
     (\<forall>m \<in> T. \<forall>n \<in> T. pm_user_id m = pm_user_id n \<longrightarrow> pm_is_default m \<longrightarrow> pm_is_default n \<longrightarrow>
        row_id m = row_id n)"

definition methods_inv :: "database \<Rightarrow> bool" where
  "methods_inv d \<longleftrightarrow> distinct (row_ids (t_payment_methods d)) \<and> one_default (set (t_payment_methods d))"

text \<open>A table in which the user's methods are all cleared but one, and the others as before.\<close>

lemma one_default_reset:
  assumes "one_default T"
    and others: "{m \<in> T'. pm_user_id m \<noteq> u} = {m \<in> T. pm_user_id m \<noteq> u}"
    and own: "\<And>m. m \<in> T' \<Longrightarrow> pm_user_id m = u \<Longrightarrow> pm_is_default m \<longleftrightarrow> row_id m = i"
    and there: "\<exists>m \<in> T'. pm_user_id m = u \<and> row_id m = i"
  shows "one_default T'"
proof -
  have foreign: "m \<in> T' \<longleftrightarrow> m \<in> T" if "pm_user_id m \<noteq> u" for m
    using that others by blast
  show ?thesis
    unfolding one_default_def
  proof (intro conjI ballI impI)
    fix m
    assume m: "m \<in> T'"
    show "\<exists>n \<in> T'. pm_user_id n = pm_user_id m \<and> pm_is_default n"
    proof (cases "pm_user_id m = u")
      case True
      with there own show ?thesis by fastforce
    next
      case False
      then obtain n where "n \<in> T" "pm_user_id n = pm_user_id m" "pm_is_default n"
        using m foreign assms(1) unfolding one_default_def by blast
      with False foreign show ?thesis by metis
    qed
    fix n
    assume n: "n \<in> T'" "pm_user_id m = pm_user_id n" "pm_is_default m" "pm_is_default n"
    show "row_id m = row_id n"
    proof (cases "pm_user_id m = u")
      case True
      with m n own show ?thesis by metis
    next
      case False
      with m n foreign have "m \<in> T" "n \<in> T" by auto
      with n assms(1) show ?thesis unfolding one_default_def by blast
    qed
  qed
qed

lemma cleared_simps [simp]:
  "row_id (cleared t u m) = row_id m" "pm_user_id (cleared t u m) = pm_user_id m"
  "pm_is_default (cleared t u m) \<longleftrightarrow> pm_is_default m \<and> pm_user_id m \<noteq> u"
  "pm_user_id m \<noteq> u \<Longrightarrow> cleared t u m = m"
  by (auto simp: cleared_def)

lemma cleared_others: "{m \<in> cleared t u ` T. pm_user_id m \<noteq> u} = {m \<in> T. pm_user_id m \<noteq> u}"
  by (auto intro: rev_image_eqI)

lemma cleared_own: "x \<in> cleared t u ` T \<Longrightarrow> pm_user_id x = u \<Longrightarrow> \<not> pm_is_default x"
  by (elim imageE) simp

lemma cleared_ids [simp]: "row_ids (map (cleared t u) ms) = row_ids ms"
  by (simp add: row_ids_def o_def)

lemma clear_default_InrE:
  assumes "clear_default u w = (Inr x, w')"
  obtains "w' = w\<lparr>wdb := t_payment_methods_update (map (cleared (now w) u)) (wdb w)\<rparr>"
  using assms by (simp add: clear_default_def)

lemma require_owned_method_InrE:
  assumes "require_owned_method u i w = (Inr m, w')"
  obtains "m \<in> set (t_payment_methods (wdb w))" and "row_id m = i" and "pm_user_id m = u" and "w' = w"
  using assms by (auto simp: require_owned_method_def find_Some_iff elim!: fetch_InrE)

lemma refresh_method_InrE:
  assumes "refresh_method i w = (Inr m, w')"
  obtains "lookup (t_payment_methods (wdb w)) i = Some m" and "w' = w"
  using assms by (auto simp: refresh_method_def elim: fetch_InrE)

lemma set_default_keeps: "preserves methods_inv (set_default u i)"
proof (rule preservesI)
  fix w dto w'
  assume run: "set_default u i w = (Inr dto, w')" and inv: "methods_inv (wdb w)"
  let ?T = "t_payment_methods (wdb w)"
  from run obtain m v m' where m: "require_owned_method u i w = (Inr m, w)"
    and v: "save_payment_method (m\<lparr>pm_is_default := True\<rparr>)
        (w\<lparr>wdb := t_payment_methods_update (map (cleared (now w) u)) (wdb w)\<rparr>) = (Inr (), v)"
    and m': "refresh_method (row_id m) v = (Inr m', w')"
    unfolding set_default_def
    by (auto elim!: bind_InrE clear_default_InrE) (auto elim!: require_owned_method_InrE)
  from m have own: "m \<in> set ?T" "row_id m = i" "pm_user_id m = u" by (auto elim: require_owned_method_InrE)
  have w': "w' = v" using m' by (rule refresh_method_InrE)
  from v obtain old where old: "lookup (map (cleared (now w) u) ?T) (row_id m) = Some old"
    and tab: "t_payment_methods (wdb w') = replace_row (touch (now w) old (m\<lparr>pm_is_default := True\<rparr>)) (map (cleared (now w) u) ?T)"
    by (elim db_save_InrE) (simp add: w')
  define q where "q = touch (now w) old (m\<lparr>pm_is_default := True\<rparr>)"
  have q: "row_id q = i" "pm_user_id q = u" "pm_is_default q"
    using lookup_SomeD [OF old] own
    by (simp_all add: q_def touch_column [of pm_user_id] touch_column [of pm_is_default])
  have dist: "distinct (row_ids (map (cleared (now w) u) ?T))" using inv by (simp add: methods_inv_def)
  have T': "set (t_payment_methods (wdb w')) = insert q (cleared (now w) u ` set ?T - {old})"
    using set_replace [OF dist, of q old] old own(2) q(1) by (simp add: tab flip: q_def)
  have old_u: "pm_user_id old = u"
  proof -
    obtain x where x: "x \<in> set ?T" "old = cleared (now w) u x" using lookup_SomeD [OF old] by auto
    then have "row_id x = row_id m" using lookup_SomeD [OF old] by simp
    then have "x = m"
      using lookup_unique [of ?T] x(1) own(1) inv by (metis methods_inv_def option.inject)
    then show ?thesis using x(2) own(3) by simp
  qed
  have "one_default (set (t_payment_methods (wdb w')))"
  proof (rule one_default_reset [where u = u and i = i])
    show "one_default (set ?T)" using inv by (simp add: methods_inv_def)
    show "{x \<in> set (t_payment_methods (wdb w')). pm_user_id x \<noteq> u} = {x \<in> set ?T. pm_user_id x \<noteq> u}"
      using cleared_others [of "now w" u "set ?T"] q(2) old_u unfolding T' by auto
    show "\<exists>x \<in> set (t_payment_methods (wdb w')). pm_user_id x = u \<and> row_id x = i"
      using q by (auto simp: T')
    fix x
    assume x: "x \<in> set (t_payment_methods (wdb w'))" "pm_user_id x = u"
    show "pm_is_default x \<longleftrightarrow> row_id x = i"
    proof (cases "x = q")
      case False
      then have "x \<in> set (map (cleared (now w) u) ?T)" "x \<noteq> old" using x(1) by (auto simp: T')
      then have "row_id x \<noteq> row_id m"
        using lookup_unique [OF dist] old by (metis option.inject)
      moreover have "\<not> pm_is_default x"
        using cleared_own [of x "now w" u "set ?T"] x(2) \<open>x \<in> set (map (cleared (now w) u) ?T)\<close> by simp
      ultimately show ?thesis using own(2) by simp
    qed (simp add: q)
  qed
  then show "methods_inv (wdb w')" using dist by (simp add: methods_inv_def tab)
qed

lemma promote_keeps:
  assumes run: "promote_latest u w = (Inr x, w')" and dist: "distinct (row_ids (t_payment_methods (wdb w)))"
    and none: "\<forall>m \<in> set (t_payment_methods (wdb w)). pm_user_id m = u \<longrightarrow> \<not> pm_is_default m"
    and other: "one_default {m \<in> set (t_payment_methods (wdb w)). pm_user_id m \<noteq> u}"
  shows "methods_inv (wdb w')"
proof (cases "sort_desc created_at (methods_of (wdb w) u)")
  case Nil
  then have "methods_of (wdb w) u = []" by simp
  then have "set (t_payment_methods (wdb w)) = {m \<in> set (t_payment_methods (wdb w)). pm_user_id m \<noteq> u}"
    by (auto simp: methods_of_def filter_empty_conv)
  moreover have "w' = w" using run Nil by (simp add: promote_latest_def)
  ultimately show ?thesis using other dist by (simp add: methods_inv_def)
next
  case (Cons c cs)
  let ?T = "t_payment_methods (wdb w)"
  have "c \<in> set (methods_of (wdb w) u)"
    using Cons set_sort_desc [of created_at "methods_of (wdb w) u"] by (metis list.set_intros(1))
  then have c: "c \<in> set ?T" "pm_user_id c = u" by (auto simp: methods_of_def)
  then have lc: "lookup ?T (row_id c) = Some c" using dist by (simp add: lookup_unique)
  from run Cons have save: "save_payment_method (c\<lparr>pm_is_default := True\<rparr>) w = (Inr (), w')"
    by (simp add: promote_latest_def)
  have "lookup ?T (row_id (c\<lparr>pm_is_default := True\<rparr>)) = Some c" using lc by simp
  from db_save_new [OF save this]
  have tab: "t_payment_methods (wdb w') = replace_row (touch (now w) c (c\<lparr>pm_is_default := True\<rparr>)) ?T"
    by simp
  define q where "q = touch (now w) c (c\<lparr>pm_is_default := True\<rparr>)"
  have q: "row_id q = row_id c" "pm_user_id q = u" "pm_is_default q"
    using c by (simp_all add: q_def touch_column [of pm_user_id] touch_column [of pm_is_default])
  have T': "set (t_payment_methods (wdb w')) = insert q (set ?T - {c})"
    using set_replace [OF dist, of q c] lc q(1) by (simp add: tab flip: q_def)
  have "one_default (set (t_payment_methods (wdb w')))"
  proof (rule one_default_reset [OF other, where u = u and i = "row_id c"])
    show "{x \<in> set (t_payment_methods (wdb w')). pm_user_id x \<noteq> u} =
        {m \<in> {m \<in> set ?T. pm_user_id m \<noteq> u}. pm_user_id m \<noteq> u}"
      using q(2) c(2) by (auto simp: T')
    show "\<exists>x \<in> set (t_payment_methods (wdb w')). pm_user_id x = u \<and> row_id x = row_id c"
      using q by (auto simp: T')
    fix x
    assume x: "x \<in> set (t_payment_methods (wdb w'))" "pm_user_id x = u"
    show "pm_is_default x \<longleftrightarrow> row_id x = row_id c"
    proof (cases "x = q")
      case False
      then have "x \<in> set ?T" "x \<noteq> c" using x(1) by (auto simp: T')
      then have "row_id x \<noteq> row_id c" using lookup_unique [OF dist] lc by (metis option.inject)
      then show ?thesis using none x(2) \<open>x \<in> set ?T\<close> by simp
    qed (simp add: q)
  qed
  then show ?thesis using dist by (simp add: methods_inv_def tab)
qed

lemma one_default_remove:
  assumes "one_default T" and "\<not> pm_is_default m"
  shows "one_default (T - {m})"
proof -
  have "\<exists>n \<in> T - {m}. pm_user_id n = pm_user_id x \<and> pm_is_default n" if "x \<in> T" for x
    using assms that unfolding one_default_def by blast
  then show ?thesis using assms(1) unfolding one_default_def by blast
qed

lemma one_default_others: "one_default T \<Longrightarrow> one_default {m \<in> T. pm_user_id m \<noteq> u}"
  unfolding one_default_def by (metis (no_types, lifting) mem_Collect_eq)

context provider_contract
begin

lemma save_method_keeps: "preserves methods_inv (save_method prov u data)"
proof (rule preservesI)
  fix w dto w'
  assume run: "save_method prov u data w = (Inr dto, w')" and inv: "methods_inv (wdb w)"
  let ?T = "t_payment_methods (wdb w)"
  from run obtain saved v mk v1 m v2 m' where saved: "provider_save_method prov (str_uuid u) (sv_intent_token data) w = (Inr saved, v)"
    and mk: "(if sv_is_default data then ret True else query (\<lambda>d. methods_of d u = [])) v = (Inr mk, v)"
    and v1: "(if mk then clear_default u else ret ()) v = (Inr (), v1)"
    and m: "add_payment_method (new_method u (pv_name prov) saved mk) v1 = (Inr m, v2)"
    and m': "refresh_method (row_id m) v2 = (Inr m', w')"
    unfolding save_method_def by (auto elim!: bind_InrE split: if_splits)
  have v: "wdb v = wdb w" "now v = now w" using provider_same(3) [OF saved] by simp_all
  have w': "w' = v2" using m' by (rule refresh_method_InrE)
  from m have new: "pm_user_id m = u" "pm_is_default m = mk" "row_id m \<notin> set (row_ids (t_payment_methods (wdb v1)))"
    and tab: "t_payment_methods (wdb w') = t_payment_methods (wdb v1) @ [m]"
    by (auto elim!: db_add_InrE simp: new_method_def w')
  show "methods_inv (wdb w')"
  proof (cases mk)
    case True
    then have T1: "t_payment_methods (wdb v1) = map (cleared (now w) u) ?T"
      using v1 by (auto elim!: clear_default_InrE simp: v)
    have "one_default (set (t_payment_methods (wdb w')))"
    proof (rule one_default_reset [where u = u and i = "row_id m"])
      show "one_default (set ?T)" using inv by (simp add: methods_inv_def)
      show "{x \<in> set (t_payment_methods (wdb w')). pm_user_id x \<noteq> u} = {x \<in> set ?T. pm_user_id x \<noteq> u}"
        using cleared_others [of "now w" u "set ?T"] new(1) by (auto simp: tab T1)
      show "\<exists>x \<in> set (t_payment_methods (wdb w')). pm_user_id x = u \<and> row_id x = row_id m"
        using new by (auto simp: tab)
      fix x
      assume x: "x \<in> set (t_payment_methods (wdb w'))" "pm_user_id x = u"
      show "pm_is_default x \<longleftrightarrow> row_id x = row_id m"
      proof (cases "x = m")
        case False
        then have "x \<in> cleared (now w) u ` set ?T" using x(1) by (simp add: tab T1)
        moreover from this have "row_id x \<noteq> row_id m"
          using new(3) by (auto simp: T1 row_ids_def rev_image_eqI)
        ultimately show ?thesis using cleared_own x(2) by blast
      qed (simp add: new True)
    qed
    then show ?thesis using inv new(3) by (simp add: methods_inv_def tab T1)
  next
    case False
    then have "v1 = v" using v1 by simp
    then have T1: "t_payment_methods (wdb v1) = ?T" by (simp add: v)
    have "methods_of (wdb w) u \<noteq> []" using mk False by (auto simp: v split: if_splits)
    then obtain x where "x \<in> set ?T" "pm_user_id x = u" by (auto simp: methods_of_def filter_empty_conv)
    then have "one_default (insert m (set ?T))"
      using inv new(1,2) False unfolding one_default_def methods_inv_def by (metis insert_iff)
    then show ?thesis using inv new(3) by (simp add: methods_inv_def tab T1)
  qed
qed

lemma delete_method_keeps: "preserves methods_inv (delete_method prov u i)"
proof (rule preservesI)
  fix w x w'
  assume run: "delete_method prov u i w = (Inr x, w')" and inv: "methods_inv (wdb w)"
  let ?T = "t_payment_methods (wdb w)"
  from run obtain m v v1 v0 where m0: "require_owned_method u i w = (Inr m, v0)"
    and v: "provider_delete_method prov (pm_token m) v0 = (Inr (), v)"
    and v1: "db_delete t_payment_methods_update (\<lambda>_ _. False) (row_id m) v = (Inr (), v1)"
    and rest: "(if pm_is_default m then promote_latest u else ret ()) v1 = (Inr x, w')"
    unfolding delete_method_def by (auto elim!: bind_InrE)
  have m: "m \<in> set ?T" "row_id m = i" "pm_user_id m = u" "v0 = w" using m0 by (auto elim: require_owned_method_InrE)
  have T1: "t_payment_methods (wdb v1) = remove_row i ?T"
    using v1 provider_same(4) [OF v] m by (auto elim!: db_delete_InrE)
  have dist: "distinct (row_ids (t_payment_methods (wdb v1)))"
    using inv by (simp add: T1 methods_inv_def distinct_remove)
  have only: "y = m" if "y \<in> set ?T" "row_id y = i" for y
    using lookup_unique [of ?T] that m inv by (metis methods_inv_def option.inject)
  have one: "one_default (set ?T)" using inv by (simp add: methods_inv_def)
  show "methods_inv (wdb w')"
  proof (cases "pm_is_default m")
    case True
    have same: "{y \<in> set (t_payment_methods (wdb v1)). pm_user_id y \<noteq> u} = {y \<in> set ?T. pm_user_id y \<noteq> u}"
      using only m(3) by (auto simp: T1)
    have "\<not> pm_is_default y" if "y \<in> set (t_payment_methods (wdb v1))" "pm_user_id y = u" for y
    proof
      assume "pm_is_default y"
      moreover have "y \<in> set ?T" "row_id y \<noteq> row_id m" using that(1) m(2) by (auto simp: T1)
      ultimately show False
        using one m(1,3) True that(2) unfolding one_default_def by metis
    qed
    then have none: "\<forall>y \<in> set (t_payment_methods (wdb v1)). pm_user_id y = u \<longrightarrow> \<not> pm_is_default y"
      by blast
    have "promote_latest u v1 = (Inr x, w')" using rest True by simp
    moreover have "one_default {y \<in> set (t_payment_methods (wdb v1)). pm_user_id y \<noteq> u}"
      unfolding same by (rule one_default_others [OF one])
    ultimately show ?thesis using promote_keeps dist none by blast
  next
    case False
    then have "w' = v1" using rest by simp
    moreover have "set (remove_row i ?T) = set ?T - {m}" using only m(2) by auto
    then have "one_default (set (remove_row i ?T))" using one_default_remove [OF one False] by simp
    ultimately show ?thesis using dist by (simp add: methods_inv_def T1)
  qed
qed

end

end
