(* ===== verification/PaymentProperties.thy ===== *)
theory PaymentProperties
  imports Sample PaymentMethods "HOL-Library.Multiset"
begin

text \<open>
  The properties of payments and of saved payment methods. Those about the active provider
  use the interpretation \<open>fake\<close> of \<open>provider_contract\<close>.
\<close>

section \<open>Charging\<close>

lemma hex_not_i: "c \<in> set hex_digits \<Longrightarrow> c \<noteq> CHR ''i''"
  by (auto simp: hex_digits_def)

text \<open>No reference the service sends starts with the prefix on which the provider declines.\<close>

lemma str_uuid_not_fail: "\<not> starts_with (str_uuid u) ''fail-''"
proof
  assume "starts_with (str_uuid u) ''fail-''"
  then have "take (length ''fail-'') (str_uuid u) = ''fail-''" by (simp only: starts_with_def)
  then have "take (length ''fail-'') (str_uuid u) ! 2 = CHR ''i''" by simp
  then have "str_uuid u ! 2 = CHR ''i''" by (subst (asm) nth_take) simp_all
  moreover have len: "length (uuid_hex u) = 32" by (simp add: uuid_hex_def)
  then have "str_uuid u ! 2 = uuid_hex u ! 2" by (simp add: str_uuid_def Let_def nth_append)
  moreover have "uuid_hex u ! 2 \<in> set hex_digits"
  proof -
    have "uuid_hex u ! 2 \<in> set (uuid_hex u)" using len by simp
    then show ?thesis using set_hex_pad unfolding uuid_hex_def by blast
  qed
  ultimately show False using hex_not_i by metis
qed

lemma length_str_uuid: "length (str_uuid u) = 36"
  by (simp add: str_uuid_def Let_def uuid_hex_def)

lemma fake_charge_run:
  "create_charge (fake_provider cfg) req w =
     (let res = \<lparr>cr_txn_id = ''fake-'' @ str_uuid (uuid_src w (uuid_pos w)),
        cr_status = (if starts_with (ch_reference req) ''fail-'' then ''failed'' else ''completed'')\<rparr>
      in (Inr res, w\<lparr>uuid_pos := Suc (uuid_pos w),
            provider_log := provider_log w @ [ChargeCall req (Inr res)]\<rparr>))"
  by (simp add: create_charge_def logged_def fake_provider_def fake_create_charge_def bind_def uuid4_run Let_def)

lemma settle_completed_run:
  assumes "cr_status res = ''completed''" and "o_status ord = CREATED" and "length (cr_txn_id res) \<le> 255"
    and "lookup (t_orders (wdb w)) (row_id ord) = Some ord" and "orders_legal (wdb w)"
    and "lookup (t_order_payments (wdb w)) (row_id p) = Some p"
    and "fits_order_payment p" and "ok_order_payment (wdb w) p"
  shows "\<exists>q. settle_charge ord p res w = (Inr (), w\<lparr>wdb := t_order_payments_update (replace_row q)
      (set_status (now w) CONFIRMED ord (wdb w))\<rparr>) \<and> row_id q = row_id p \<and> pay_status q = PayCOMPLETED \<and>
      pay_amount q = pay_amount p \<and> pay_order_id q = pay_order_id p \<and> pay_txn_id q = Some (cr_txn_id res)"
proof -
  let ?q = "p\<lparr>pay_txn_id := Some (cr_txn_id res), pay_status := PayCOMPLETED, pay_completed_at := Some (now w)\<rparr>"
  let ?w = "w\<lparr>wdb := set_status (now w) CONFIRMED ord (wdb w)\<rparr>"
  have save: "save_order (ord\<lparr>o_status := CONFIRMED\<rparr>) w = (Inr (), ?w)"
    using assms(2,4,5) by (intro save_status_run) auto
  have "lookup (t_order_payments (wdb ?w)) (row_id ?q) = Some p"
    using assms(6) by (simp add: set_status_def)
  moreover have "fits_order_payment ?q \<and> ok_order_payment (wdb ?w) ?q"
    using assms(3,7,8)
    by (simp add: fits_order_payment_def ok_order_payment_def check_order_payment_def column_defs set_status_def)
  ultimately have "save_order_payment ?q ?w =
      (Inr (), ?w\<lparr>wdb := t_order_payments_update (replace_row (touch (now ?w) p ?q)) (wdb ?w)\<rparr>)"
    by (intro db_save_eq disjI2)
  with save assms(1,2) show ?thesis
    by (intro exI [of _ "touch (now w) p ?q"])
       (simp add: settle_charge_def ensure_transition_run bind_step touch_column [of pay_status]
          touch_column [of pay_amount] touch_column [of pay_order_id] touch_column [of pay_txn_id])
qed

lemma charge_log_before: "provider_log (snd (add_order_payment mk w)) = provider_log w"
  by (simp add: db_add_def uuid4_run db_insert_eq bind_def)

lemma fake_charge_completes:
  assumes "orders_legal (wdb w)" and "lookup (t_orders (wdb w)) i = Some ord" and "o_user_id ord = u"
    and "o_status ord = CREATED" and p: "add_order_payment (new_payment ord u m ''fake'') w = (Inr p, v)"
  shows "\<exists>dto w' res. charge_for_order (fake_provider cfg) u i m w = (Inr dto, w') \<and>
      pay_dto_status dto = PayCOMPLETED \<and> pay_dto_amount dto = o_total_price ord \<and> pay_dto_order_id dto = i \<and>
      lookup (t_orders (wdb w')) i = Some (ord\<lparr>o_status := CONFIRMED, updated_at := now w\<rparr>) \<and>
      provider_log w' = provider_log w @ [ChargeCall \<lparr>ch_amount = o_total_price ord,
        ch_currency = o_currency ord, ch_reference = str_uuid (pay_dto_id dto), ch_customer_id = None,
        ch_method_token = None\<rparr> (Inr res)] \<and> cr_status res = ''completed''"
proof -
  have id: "row_id ord = i" using lookup_SomeD [OF assms(2)] by simp
  from p have p_facts: "fits_order_payment p" "ok_order_payment (wdb w) p"
      "row_id p \<notin> set (row_ids (t_order_payments (wdb w)))" "pay_amount p = o_total_price ord" "pay_order_id p = i"
    and v: "wdb v = t_order_payments_update (\<lambda>t. t @ [p]) (wdb w)" "now v = now w" "provider_log v = provider_log w"
    by (auto elim!: db_add_InrE simp: new_payment_def id)
  define req where "req = \<lparr>ch_amount = o_total_price ord, ch_currency = o_currency ord,
      ch_reference = str_uuid (row_id p), ch_customer_id = None, ch_method_token = None\<rparr>"
  define res where "res = \<lparr>cr_txn_id = ''fake-'' @ str_uuid (uuid_src v (uuid_pos v)), cr_status = ''completed''\<rparr>"
  define v1 where "v1 = v\<lparr>uuid_pos := Suc (uuid_pos v), provider_log := provider_log v @ [ChargeCall req (Inr res)]\<rparr>"
  have call: "create_charge (fake_provider cfg) req v = (Inr res, v1)"
    by (simp add: fake_charge_run Let_def req_def res_def v1_def str_uuid_not_fail)
  have v1: "wdb v1 = wdb v" "now v1 = now w" by (simp_all add: v1_def v)
  have "\<exists>q. settle_charge ord p res v1 = (Inr (), v1\<lparr>wdb := t_order_payments_update (replace_row q)
      (set_status (now v1) CONFIRMED ord (wdb v1))\<rparr>) \<and> row_id q = row_id p \<and> pay_status q = PayCOMPLETED \<and>
      pay_amount q = pay_amount p \<and> pay_order_id q = pay_order_id p \<and> pay_txn_id q = Some (cr_txn_id res)"
  proof (rule settle_completed_run)
    show "lookup (t_orders (wdb v1)) (row_id ord) = Some ord" using assms(2) id by (simp add: v1 v)
    show "lookup (t_order_payments (wdb v1)) (row_id p) = Some p"
      using p_facts(3) by (simp add: v1 v lookup_append_new)
    show "orders_legal (wdb v1)"
      using assms(1) by (simp add: v1 v orders_legal_def ok_order_def ok_pickup_info_def ok_delivery_info_def)
    show "ok_order_payment (wdb v1) p" using p_facts(2) by (simp add: v1 v ok_order_payment_def)
  qed (use assms(4) p_facts(1) in \<open>simp_all add: res_def length_str_uuid\<close>)
  then obtain q where settle: "settle_charge ord p res v1 = (Inr (), v1\<lparr>wdb := t_order_payments_update
      (replace_row q) (set_status (now w) CONFIRMED ord (wdb v))\<rparr>)"
    and q: "row_id q = row_id p" "pay_status q = PayCOMPLETED" "pay_amount q = pay_amount p" "pay_order_id q = pay_order_id p"
    by (auto simp: v1)
  have q_found: "lookup (t_order_payments (t_order_payments_update (replace_row q)
      (set_status (now w) CONFIRMED ord (wdb v)))) (row_id p) = Some q"
    using lookup_append_new [of q] p_facts(3) by (simp add: set_status_def v replace_append_new q(1))
  have "charge_for_order (fake_provider cfg) u i m w = (Inr (payment_dto q), v1\<lparr>wdb := t_order_payments_update
      (replace_row q) (set_status (now w) CONFIRMED ord (wdb v))\<rparr>)"
    using assms p call settle q_found
    by (simp add: charge_for_order_def bind_fetch bind_require bind_step refresh_payment_def
        fake_provider_def flip: req_def)
  then show ?thesis
    using q p_facts lookup_set_status [OF assms(2), of "now w" CONFIRMED]
    by (auto simp: payment_dto_def v1_def v req_def res_def set_status_def)
qed

text \<open>
  C9: paying an order with the active provider is all or nothing. A failing request has not
  reached the provider; a successful one made exactly one charge, of the order's total, in
  its currency, under the new payment's identifier, and moved the caller's own order from
  \<open>created\<close> to \<open>confirmed\<close>.
\<close>

theorem charge_is_all_or_nothing:
  assumes "orders_ok (wdb w)"
  shows "case charge_for_order (fake_provider cfg) u i m w of
      (Inl e, w') \<Rightarrow> provider_log w' = provider_log w
    | (Inr dto, w') \<Rightarrow> (\<exists>ord res. lookup (t_orders (wdb w)) i = Some ord \<and> o_user_id ord = u \<and>
        o_status ord = CREATED \<and>
        lookup (t_orders (wdb w')) i = Some (ord\<lparr>o_status := CONFIRMED, updated_at := now w\<rparr>) \<and>
        pay_dto_status dto = PayCOMPLETED \<and> pay_dto_amount dto = o_total_price ord \<and>
        provider_log w' = provider_log w @ [ChargeCall \<lparr>ch_amount = o_total_price ord,
          ch_currency = o_currency ord, ch_reference = str_uuid (pay_dto_id dto), ch_customer_id = None,
          ch_method_token = None\<rparr> (Inr res)] \<and> cr_status res = ''completed'')"
proof (cases "lookup (t_orders (wdb w)) i")
  case None
  then show ?thesis by (simp add: charge_for_order_def bind_fetch)
next
  case (Some ord)
  have legal: "orders_legal (wdb w)" using assms by (simp add: orders_ok_def)
  show ?thesis
  proof (cases "o_user_id ord = u \<and> o_status ord = CREATED")
    case False
    with Some show ?thesis by (auto simp: charge_for_order_def bind_fetch bind_require)
  next
    case True
    obtain r v where add: "add_order_payment (new_payment ord u m ''fake'') w = (r, v)"
      by (cases "add_order_payment (new_payment ord u m ''fake'') w")
    show ?thesis
    proof (cases r)
      case (Inl e)
      have "provider_log v = provider_log w"
        using charge_log_before [of "new_payment ord u m ''fake''" w] add by simp
      moreover have "charge_for_order (fake_provider cfg) u i m w = (Inl e, v)"
        using Some True add Inl
        by (simp add: charge_for_order_def bind_fetch bind_require bind_fail fake_provider_def)
      ultimately show ?thesis by simp
    next
      case (Inr p)
      from fake_charge_completes [OF legal Some conjunct1 [OF True] conjunct2 [OF True] add [unfolded Inr], of cfg]
        Some True show ?thesis by auto
    qed
  qed
qed

lemma charge_is_all_or_nothing_witness:
  "\<exists>dto w'. charge_for_order (fake_provider sample_settings) 1 40 ''card'' sample_world = (Inr dto, w') \<and>
     pay_dto_amount dto = 2500 \<and> length (provider_log w') = 1"
proof -
  have "\<exists>p v. add_order_payment (new_payment (sample_order 40 1 DELIVERY CREATED) 1 ''card'' ''fake'') sample_world = (Inr p, v)"
    by (simp add: sample_defs db_add_def bind_def uuid4_run db_insert_eq new_payment_def fits_order_payment_def
        ok_order_payment_def check_order_payment_def column_defs)
  then obtain p v where add: "add_order_payment (new_payment (sample_order 40 1 DELIVERY CREATED) 1 ''card'' ''fake'') sample_world = (Inr p, v)"
    by blast
  have "lookup (t_orders (wdb sample_world)) 40 = Some (sample_order 40 1 DELIVERY CREATED)"
    "o_user_id (sample_order 40 1 DELIVERY CREATED) = 1" "o_status (sample_order 40 1 DELIVERY CREATED) = CREATED"
    by (simp_all add: sample_defs)
  from fake_charge_completes [OF _ this add, of sample_settings] sample_orders_ok
  obtain dto w' where run: "charge_for_order (fake_provider sample_settings) 1 40 ''card'' sample_world = (Inr dto, w')"
    unfolding orders_ok_def by blast
  with charge_is_all_or_nothing [OF sample_orders_ok, where cfg = sample_settings and u = 1 and i = 40 and m = "''card''"] show ?thesis
    by (auto simp: sample_world_def sample_db_def sample_order_def)
qed

section \<open>The invariant\<close>

text \<open>
  Whatever the provider answers, charging, refunding, callbacks and the order operations
  keep the invariant of payments: no order has two attempts that did not fail, an unpaid
  order has none, each attempt is over the order's total and settled, and a refunded payment
  has a refunded order.
\<close>

theorem payment_operations_keep_invariant:
  assumes "provider_contract prov"
  shows "preserves (\<lambda>d. orders_ok d \<and> payments_inv d) (charge_for_order prov u i m) \<and>
    preserves (\<lambda>d. orders_ok d \<and> payments_inv d) (refund_payment prov i) \<and>
    preserves (\<lambda>d. orders_ok d \<and> payments_inv d) (handle_callback name txn st) \<and>
    preserves (\<lambda>d. orders_ok d \<and> payments_inv d) (create_order u data) \<and>
    preserves (\<lambda>d. orders_ok d \<and> payments_inv d) (cancel_order i u) \<and>
    preserves (\<lambda>d. orders_ok d \<and> payments_inv d) (update_status i s)"
proof (intro conjI)
  show "preserves (\<lambda>d. orders_ok d \<and> payments_inv d) (charge_for_order prov u i m)"
    using provider_contract.charge_keeps [OF assms] by (auto intro!: preservesI)
  show "preserves (\<lambda>d. orders_ok d \<and> payments_inv d) (refund_payment prov i)"
    using provider_contract.refund_keeps [OF assms] by (auto intro!: preservesI)
  show "preserves (\<lambda>d. orders_ok d \<and> payments_inv d) (handle_callback name txn st)"
    by (rule preservesI) (auto simp: callback_run split: option.splits)
qed (rule create_order_payments cancel_order_payments update_status_payments)+

lemma payment_operations_keep_invariant_witness:
  "provider_contract (fake_provider sample_settings) \<and>
   preserves (\<lambda>d. orders_ok d \<and> payments_inv d) (refund_payment (fake_provider sample_settings) 7)"
  using payment_operations_keep_invariant [OF fake.provider_contract_axioms] fake.provider_contract_axioms
  by blast

section \<open>Callbacks\<close>

text \<open>Of a sound shop every stored attempt is already settled, so a callback only reads it.\<close>

lemma callback_never_settles:
  assumes "payments_inv (wdb w)"
  shows "case handle_callback name txn st w of
      (Inl e, w') \<Rightarrow> w' = w \<and> e = PaymentExn (PaymentNotFoundError txn) \<and>
        (\<forall>p \<in> set (t_order_payments (wdb w)). pay_txn_id p = Some txn \<longrightarrow> pay_provider p \<noteq> name)
    | (Inr dto, w') \<Rightarrow> w' = w \<and> pay_dto_status dto \<noteq> PayPENDING \<and>
        (\<exists>p \<in> set (t_order_payments (wdb w)). dto = payment_dto p \<and> pay_txn_id p = Some txn)"
proof (cases "find (\<lambda>p. pay_txn_id p = Some txn \<and> pay_provider p = name) (t_order_payments (wdb w))")
  case None
  then show ?thesis by (simp add: callback_run [OF assms]) (auto simp: find_None_iff)
next
  case (Some p)
  then have p: "p \<in> set (t_order_payments (wdb w))" "pay_txn_id p = Some txn" by (auto simp: find_Some_iff)
  then have "payment_sound (wdb w) p" using assms by (simp add: payments_inv_def)
  then have "pay_status p \<noteq> PayPENDING"
    by (auto simp: payment_sound_def status_agrees_def split: option.splits)
  with p Some show ?thesis by (auto simp: callback_run [OF assms] payment_dto_def)
qed

definition sample_paid :: "order_status \<Rightarrow> world" where
  \<comment> \<open>the second order of the sample, paid, in a given status\<close>
  "sample_paid s = sample_world\<lparr>wdb := sample_db\<lparr>
     t_orders := [sample_order 40 1 DELIVERY CREATED, sample_order 41 2 PICKUP s],
     t_order_payments := [\<lparr>row_id = 70, created_at = 2000, updated_at = 2000, pay_order_id = 41,
       pay_user_id = 2, pay_amount = 2500, pay_method = ''card'', pay_provider = ''fake'',
       pay_txn_id = Some ''fake-1'', pay_status = PayCOMPLETED, pay_completed_at = Some 2000\<rparr>]\<rparr>\<rparr>"

lemma sample_paid_inv: "s \<noteq> CREATED \<Longrightarrow> s \<noteq> CANCELLED \<Longrightarrow> payments_inv (wdb (sample_paid s))"
  by (simp add: sample_paid_def payments_inv_def payment_sound_def single_charge_def status_agrees_def sample_defs)

definition settled_order :: "datetime \<Rightarrow> uuid \<Rightarrow> order \<Rightarrow> order" where
  "settled_order t i ord =
     (if row_id ord = i \<and> o_status ord = CREATED then ord\<lparr>o_status := CONFIRMED, updated_at := t\<rparr> else ord)"

lemma settled_orders:
  assumes "distinct (row_ids os)" and "lookup os i = Some ord"
  shows "map (settled_order t i) os =
    (if o_status ord = CREATED then replace_row (ord\<lparr>o_status := CONFIRMED, updated_at := t\<rparr>) os else os)"
proof -
  have ord: "ord \<in> set os" "row_id ord = i" using lookup_SomeD [OF assms(2)] by blast+
  have "settled_order t i x = (if row_id x = i \<and> o_status ord = CREATED then ord\<lparr>o_status := CONFIRMED, updated_at := t\<rparr> else x)"
    if "x \<in> set os" for x
    using same_row [OF assms(1) that ord(1)] ord(2) by (auto simp: settled_order_def)
  then show ?thesis using ord(2) by (auto simp: replace_row_def intro!: map_idI)
qed

lemma payment_changed: "pay_status p \<noteq> pay_status (q :: order_payment) \<Longrightarrow> p \<noteq> q"
  by auto

lemma save_order_run:
  assumes "lookup (t_orders (wdb w)) (row_id r) = Some old" and "r \<noteq> old" and "fits_order r" and "ok_order (wdb w) r"
  shows "save_order r w = (Inr (), w\<lparr>wdb := t_orders_update (replace_row (r\<lparr>updated_at := now w\<rparr>)) (wdb w)\<rparr>)"
  using assms by (simp add: db_save_def svc_simps touch_def)

lemma save_payment_run:
  assumes "lookup (t_order_payments (wdb w)) (row_id p) = Some old" and "p \<noteq> old"
    and "fits_order_payment p" and "ok_order_payment (wdb w) p"
  shows "save_order_payment p w =
    (Inr (), w\<lparr>wdb := t_order_payments_update (replace_row (p\<lparr>updated_at := now w\<rparr>)) (wdb w)\<rparr>)"
  using assms by (simp add: db_save_def svc_simps touch_def)

lemma pending_callback:
  assumes p: "p \<in> set (t_order_payments (wdb w))" "pay_status p = PayPENDING"
    and rows: "distinct (row_ids (t_order_payments (wdb w)))" "orders_ok (wdb w)"
      "\<forall>p \<in> set (t_order_payments (wdb w)). fits_order_payment p \<and> ok_order_payment (wdb w) p"
  shows "bind (fetch (\<lambda>d. lookup (t_orders d) (pay_order_id p)) (OrderExn (OrderNotFoundError (pay_order_id p)))) (\<lambda>ord.
      bind (apply_callback p ord st) (\<lambda>_.
      bind (refresh_payment (row_id p)) (\<lambda>p'. ret (payment_dto p')))) w =
    (if st = ''completed'' then
       (let q = p\<lparr>pay_status := PayCOMPLETED, pay_completed_at := Some (now w), updated_at := now w\<rparr>
        in (Inr (payment_dto q), w\<lparr>wdb := (wdb w)\<lparr>t_order_payments := replace_row q (t_order_payments (wdb w)),
              t_orders := map (settled_order (now w) (pay_order_id p)) (t_orders (wdb w))\<rparr>\<rparr>))
     else if st = ''failed'' then
       (let q = p\<lparr>pay_status := PayFAILED, updated_at := now w\<rparr>
        in (Inr (payment_dto q), w\<lparr>wdb := (wdb w)\<lparr>t_order_payments := replace_row q (t_order_payments (wdb w))\<rparr>\<rparr>))
     else (Inl (PaymentExn (PaymentInvalidStateError (''Unsupported callback status: '' @ st))), w))"
proof -
  have ok: "fits_order_payment p" "check_order_payment p" "refers (t_orders (wdb w)) (pay_order_id p)"
      "refers (t_users (wdb w)) (pay_user_id p)"
    using rows(3) p(1) by (auto simp: ok_order_payment_def)
  obtain ord where ord: "lookup (t_orders (wdb w)) (pay_order_id p) = Some ord"
    using ok(3) by (cases "lookup (t_orders (wdb w)) (pay_order_id p)") (auto simp: lookup_None_iff)
  note ord' = lookup_SomeD [OF ord]
  have legal: "fits_order ord" "check_order ord" "refers (t_users (wdb w)) (o_user_id ord)"
    using rows(2) ord' by (auto simp: orders_ok_def orders_legal_def ok_order_def)
  have dist: "distinct (row_ids (t_orders (wdb w)))" using rows(2) orders_inv_ids(1) by (simp add: orders_ok_def)
  have self: "lookup (t_order_payments (wdb w)) (row_id p) = Some p" by (rule lookup_unique [OF rows(1) p(1)])
  have changed: "p\<lparr>pay_status := PayCOMPLETED, pay_completed_at := Some (now w)\<rparr> \<noteq> p" "p\<lparr>pay_status := PayFAILED\<rparr> \<noteq> p"
    using p(2) by (intro payment_changed; simp)+
  have fits: "fits_order_payment (p\<lparr>pay_status := x, pay_completed_at := c\<rparr>)" "check_order_payment (p\<lparr>pay_status := x, pay_completed_at := c\<rparr>)"
      "fits_order_payment (p\<lparr>pay_status := x\<rparr>)" "check_order_payment (p\<lparr>pay_status := x\<rparr>)" for x c
    using ok by (simp_all add: fits_order_payment_def check_order_payment_def)
  show ?thesis
  proof (cases "st = ''completed''")
    case True
    let ?d = "t_orders_update (map (settled_order (now w) (pay_order_id p))) (wdb w)"
    have "(if o_status ord = CREATED then save_order (ord\<lparr>o_status := CONFIRMED\<rparr>) else ret ()) w = (Inr (), w\<lparr>wdb := ?d\<rparr>)"
    proof (cases "o_status ord = CREATED")
      case True
      then have "o_status (ord\<lparr>o_status := CONFIRMED\<rparr>) \<noteq> o_status ord" by simp
      then have "ord\<lparr>o_status := CONFIRMED\<rparr> \<noteq> ord" by metis
      moreover have "fits_order (ord\<lparr>o_status := CONFIRMED\<rparr>)" "ok_order (wdb w) (ord\<lparr>o_status := CONFIRMED\<rparr>)"
        using legal by (simp_all add: fits_order_def check_order_def ok_order_def)
      moreover have "lookup (t_orders (wdb w)) (row_id (ord\<lparr>o_status := CONFIRMED\<rparr>)) = Some ord" using ord ord' by simp
      ultimately have "save_order (ord\<lparr>o_status := CONFIRMED\<rparr>) w =
          (Inr (), w\<lparr>wdb := t_orders_update (replace_row (ord\<lparr>o_status := CONFIRMED, updated_at := now w\<rparr>)) (wdb w)\<rparr>)"
        using save_order_run by simp
      moreover have "t_orders_update (replace_row (ord\<lparr>o_status := CONFIRMED, updated_at := now w\<rparr>)) (wdb w) = ?d"
        using settled_orders [OF dist ord] True by (intro orders_rel.upd_cong) simp
      ultimately show ?thesis using True by simp
    next
      case False
      then show ?thesis by (simp add: settled_orders [OF dist ord] orders_rel.upd_same)
    qed
    moreover have "save_order_payment (p\<lparr>pay_status := PayCOMPLETED, pay_completed_at := Some (now w)\<rparr>) (w\<lparr>wdb := ?d\<rparr>) =
        (Inr (), w\<lparr>wdb := t_order_payments_update (replace_row
          (p\<lparr>pay_status := PayCOMPLETED, pay_completed_at := Some (now w), updated_at := now w\<rparr>)) ?d\<rparr>)"
    proof -
      have "row_ids (t_orders ?d) = row_ids (t_orders (wdb w))" by (simp add: row_ids_def settled_order_def)
      then have "ok_order_payment ?d (p\<lparr>pay_status := PayCOMPLETED, pay_completed_at := Some (now w)\<rparr>)"
        using ok fits by (simp add: ok_order_payment_def)
      then show ?thesis
        using save_payment_run [of "w\<lparr>wdb := ?d\<rparr>" "p\<lparr>pay_status := PayCOMPLETED, pay_completed_at := Some (now w)\<rparr>" p]
          self changed(1) fits by simp
    qed
    ultimately show ?thesis using True ord self
      by (simp add: bind_fetch apply_callback_def bind_gets bind_def refresh_payment_def fetch_run lookup_replace Let_def)
  next
    case False
    note other = this
    show ?thesis
    proof (cases "st = ''failed''")
      case True
      have "ok_order_payment (wdb w) (p\<lparr>pay_status := PayFAILED\<rparr>)"
        using ok fits by (simp add: ok_order_payment_def)
      with save_payment_run [of w "p\<lparr>pay_status := PayFAILED\<rparr>" p] self changed(2) fits
      have "save_order_payment (p\<lparr>pay_status := PayFAILED\<rparr>) w =
        (Inr (), w\<lparr>wdb := t_order_payments_update (replace_row (p\<lparr>pay_status := PayFAILED, updated_at := now w\<rparr>)) (wdb w)\<rparr>)"
        by simp
      then show ?thesis using other True ord self
        by (simp add: bind_fetch apply_callback_def bind_gets bind_def refresh_payment_def fetch_run lookup_replace Let_def)
    next
      case False
      then have "apply_callback p ord st w = (Inl (PaymentExn (PaymentInvalidStateError (''Unsupported callback status: '' @ st))), w)"
        using other by (simp add: apply_callback_def bind_gets)
      then show ?thesis using other False ord by (simp add: bind_def fetch_run)
    qed
  qed
qed

text \<open>
  C34: A callback that carries the secret answers 404 for an unknown transaction, repeats the stored
  state of a settled attempt, and settles a pending one: completed now, with its order confirmed if
  it still waits for payment, or failed; any other status is refused. It changes nothing else, and
  in a sound shop, where every attempt was settled when it was charged, nothing at all.
\<close>

theorem callback_outcome:
  assumes secret: "payment_provider_secret cfg = Some secret" "secret \<noteq> []" "is_ascii secret"
    and body: "parse raw = Inr payload"
    and rows: "distinct (row_ids (t_order_payments (wdb w)))" "orders_ok (wdb w)"
      "\<forall>p \<in> set (t_order_payments (wdb w)). fits_order_payment p \<and> ok_order_payment (wdb w) p"
  shows "payment_callback (fake_provider cfg) parse raw (Some secret) w =
      (case find (\<lambda>p. pay_txn_id p = Some (cb_txn_id payload) \<and> pay_provider p = ''fake'') (t_order_payments (wdb w)) of
         None \<Rightarrow> (Inl (PaymentExn (PaymentNotFoundError (cb_txn_id payload))), w)
       | Some p \<Rightarrow>
           if pay_status p \<noteq> PayPENDING then (Inr (payment_dto p), w)
           else if cb_status payload = ''completed'' then
             (let q = p\<lparr>pay_status := PayCOMPLETED, pay_completed_at := Some (now w), updated_at := now w\<rparr>
              in (Inr (payment_dto q), w\<lparr>wdb := (wdb w)
                    \<lparr>t_order_payments := replace_row q (t_order_payments (wdb w)),
                     t_orders := map (settled_order (now w) (pay_order_id p)) (t_orders (wdb w))\<rparr>\<rparr>))
           else if cb_status payload = ''failed'' then
             (let q = p\<lparr>pay_status := PayFAILED, updated_at := now w\<rparr>
              in (Inr (payment_dto q), w\<lparr>wdb := (wdb w)\<lparr>t_order_payments := replace_row q (t_order_payments (wdb w))\<rparr>\<rparr>))
           else (Inl (PaymentExn (PaymentInvalidStateError (''Unsupported callback status: '' @ cb_status payload))), w)) \<and>
    (payments_inv (wdb w) \<longrightarrow> snd (payment_callback (fake_provider cfg) parse raw (Some secret) w) = w)"
proof -
  have call: "payment_callback (fake_provider cfg) parse raw (Some secret) = handle_callback ''fake'' (cb_txn_id payload) (cb_status payload)"
    using secret body
    by (intro ext) (simp add: payment_callback_def fake_provider_def fake_verify_callback_def compare_digest_def bind_of_sum
        bind_require)
  have quiet: "snd (payment_callback (fake_provider cfg) parse raw (Some secret) w) = w" if "payments_inv (wdb w)"
    using callback_never_settles [OF that, of "cb_txn_id payload" "''fake''" "cb_status payload"]
    unfolding call by (auto split: prod.splits sum.splits)
  show ?thesis
  proof (cases "find (\<lambda>p. pay_txn_id p = Some (cb_txn_id payload) \<and> pay_provider p = ''fake'') (t_order_payments (wdb w))")
    case None
    then show ?thesis using quiet by (simp add: call handle_callback_def bind_fetch)
  next
    case (Some p)
    then have p: "p \<in> set (t_order_payments (wdb w))" by (auto simp: find_Some_iff)
    show ?thesis
    proof (cases "pay_status p = PayPENDING")
      case False
      then have "terminal_payment (pay_status p)" by (cases "pay_status p") (simp_all add: terminal_payment_def)
      then show ?thesis using Some False quiet by (simp add: call handle_callback_def bind_fetch)
    next
      case pending: True
      from pending_callback [OF p pending rows] Some pending quiet show ?thesis
        by (simp add: call handle_callback_def bind_fetch terminal_payment_def)
    qed
  qed
qed

text \<open>An attempt that was stored without a verdict, for an order that waits for payment.\<close>

definition sample_waiting :: world where
  "sample_waiting = sample_world\<lparr>wdb := sample_db\<lparr>
     t_order_payments := [\<lparr>row_id = 70, created_at = 2000, updated_at = 2000, pay_order_id = 40,
       pay_user_id = 1, pay_amount = 2500, pay_method = ''card'', pay_provider = ''fake'',
       pay_txn_id = Some ''fake-1'', pay_status = PayPENDING, pay_completed_at = None\<rparr>]\<rparr>\<rparr>"

lemma callback_outcome_witness:
  "\<exists>dto w'. payment_callback (fake_provider sample_settings) (\<lambda>_. Inr \<lparr>cb_txn_id = ''fake-1'', cb_status = ''completed''\<rparr>)
      ''{}'' (Some ''hook'') sample_waiting = (Inr dto, w') \<and> pay_dto_status dto = PayCOMPLETED"
proof -
  let ?parse = "\<lambda>_. Inr \<lparr>cb_txn_id = ''fake-1'', cb_status = ''completed''\<rparr>"
  have secret: "payment_provider_secret sample_settings = Some ''hook''" "''hook'' \<noteq> ([] :: string)" "is_ascii ''hook''"
    by (simp_all add: sample_settings_def is_ascii_def)
  have "orders_inv (wdb sample_waiting)"
    using sample_orders_ok
    by (simp add: orders_ok_def orders_inv_def order_sound_def order_lines_def order_pickup_def order_delivery_def
        sample_waiting_def sample_world_def)
  moreover have "orders_legal (wdb sample_waiting)" by (simp add: sample_waiting_def legal_defs sample_defs)
  ultimately have ok: "orders_ok (wdb sample_waiting)" by (simp add: orders_ok_def)
  have rows: "distinct (row_ids (t_order_payments (wdb sample_waiting)))"
      "\<forall>p \<in> set (t_order_payments (wdb sample_waiting)). fits_order_payment p \<and> ok_order_payment (wdb sample_waiting) p"
    by (simp_all add: sample_waiting_def sample_defs fits_order_payment_def ok_order_payment_def check_order_payment_def column_defs)
  from callback_outcome [where parse = ?parse and raw = "''{}''", OF secret refl rows(1) ok rows(2)] show ?thesis
    by (simp add: sample_waiting_def sample_defs payment_dto_def Let_def)
qed

text \<open>
  A callback without the configured secret as its signature is refused before its body is
  read and changes nothing; when no secret is configured, every callback is.
\<close>

theorem callback_needs_the_secret:
  assumes "signature \<noteq> payment_provider_secret cfg \<or> falsy (payment_provider_secret cfg)"
  shows "\<exists>e. payment_callback (fake_provider cfg) parse raw signature w = (Inl e, w) \<and>
    (e = TypeError \<or> e = PaymentExn (PaymentCallbackInvalidError ''Invalid payment callback signature''))"
proof (cases "falsy (payment_provider_secret cfg) \<or> falsy signature")
  case True
  then have "fake_verify_callback cfg raw signature = Inr False" by (simp add: fake_verify_callback_def)
  then show ?thesis by (simp add: payment_callback_def fake_provider_def bind_of_sum bind_require)
next
  case False
  then obtain a b where "payment_provider_secret cfg = Some a" "signature = Some b"
    by (cases "payment_provider_secret cfg"; cases signature) auto
  with assms False show ?thesis
    by (auto simp: payment_callback_def fake_provider_def fake_verify_callback_def compare_digest_def
        bind_of_sum bind_require)
qed

lemma callback_needs_the_secret_witness:
  "\<exists>e. payment_callback (fake_provider sample_settings) (\<lambda>_. Inl TypeError) ''{}'' (Some ''wrong'') sample_world =
     (Inl e, sample_world)"
proof -
  have "Some ''wrong'' \<noteq> payment_provider_secret sample_settings \<or> falsy (payment_provider_secret sample_settings)"
    by (simp add: sample_settings_def)
  from callback_needs_the_secret [OF this] show ?thesis by blast
qed

section \<open>Refunds\<close>

lemma fake_refund_run:
  "provider_refund (fake_provider cfg) txn w =
     (Inr ''refunded'', w\<lparr>provider_log := provider_log w @ [RefundCall txn (Inr ''refunded'')]\<rparr>)"
  by (simp add: provider_refund_def logged_def fake_provider_def)

text \<open>
  C22: a successful refund, possible for a completed payment of an order that is confirmed, in
  progress or completed, sends the payment's transaction to the provider once and sets the status
  of the payment and of its order to \<open>refunded\<close>. Nothing else in the database, no other column
  of the two rows and nothing else in the world changes.
\<close>

theorem refund_moves_payment_and_order:
  assumes "refund_payment (fake_provider cfg) i w = (Inr dto, w')"
  shows "\<exists>p ord txn. lookup (t_order_payments (wdb w)) i = Some p \<and> pay_status p = PayCOMPLETED \<and>
    pay_txn_id p = Some txn \<and> lookup (t_orders (wdb w)) (pay_order_id p) = Some ord \<and>
    o_status ord \<in> {CONFIRMED, IN_PROGRESS, COMPLETED} \<and>
    dto = payment_dto (p\<lparr>pay_status := PayREFUNDED, updated_at := now w\<rparr>) \<and>
    w' = w\<lparr>provider_log := provider_log w @ [RefundCall txn (Inr ''refunded'')],
      wdb := (wdb w)\<lparr>t_orders := replace_row (ord\<lparr>o_status := REFUNDED, updated_at := now w\<rparr>) (t_orders (wdb w)),
        t_order_payments := replace_row (p\<lparr>pay_status := PayREFUNDED, updated_at := now w\<rparr>) (t_order_payments (wdb w))\<rparr>\<rparr>"
proof -
  from assms obtain p txn res v ord v1 v2 r where p: "lookup (t_order_payments (wdb w)) i = Some p"
      "pay_status p = PayCOMPLETED" "pay_txn_id p = Some txn"
    and res: "provider_refund (fake_provider cfg) txn w = (Inr res, v)"
    and ord: "lookup (t_orders (wdb v)) (pay_order_id p) = Some ord"
    and step: "can_transition (o_status ord) REFUNDED"
    and save: "save_order (ord\<lparr>o_status := REFUNDED\<rparr>) v = (Inr (), v1)"
    and pay: "save_order_payment (p\<lparr>pay_status := PayREFUNDED\<rparr>) v1 = (Inr (), v2)"
    and r: "refresh_payment (row_id p) v2 = (Inr r, w')" and dto: "dto = payment_dto r"
    unfolding refund_payment_def
    by (auto elim!: bind_InrE fetch_InrE require_InrE ensure_transition_InrE split: option.splits)
  have v: "v = w\<lparr>provider_log := provider_log w @ [RefundCall txn (Inr ''refunded'')]\<rparr>"
    using res by (auto simp: fake_refund_run)
  have id: "row_id p = i" "row_id ord = pay_order_id p" using lookup_SomeD [OF p(1)] lookup_SomeD [OF ord] by simp_all
  have "v1 = v\<lparr>wdb := set_status (now v) REFUNDED ord (wdb v)\<rparr>"
    using save by (rule save_status_new) (use ord id step in auto)
  moreover have "touch (now v1) p (p\<lparr>pay_status := PayREFUNDED\<rparr>) = p\<lparr>pay_status := PayREFUNDED, updated_at := now v1\<rparr>"
    using p(2) payment_changed [of "p\<lparr>pay_status := PayREFUNDED\<rparr>" p] by (simp add: touch_def)
  moreover have "lookup (t_order_payments (wdb v1)) (row_id (p\<lparr>pay_status := PayREFUNDED\<rparr>)) = Some p"
    using p(1) id by (simp add: calculation(1) v set_status_def)
  from db_save_new [OF pay this]
  have "v2 = v1\<lparr>wdb := t_order_payments_update (replace_row (touch (now v1) p (p\<lparr>pay_status := PayREFUNDED\<rparr>))) (wdb v1)\<rparr>" .
  ultimately have v2: "v2 = w\<lparr>provider_log := provider_log w @ [RefundCall txn (Inr ''refunded'')],
      wdb := (wdb w)\<lparr>t_orders := replace_row (ord\<lparr>o_status := REFUNDED, updated_at := now w\<rparr>) (t_orders (wdb w)),
        t_order_payments := replace_row (p\<lparr>pay_status := PayREFUNDED, updated_at := now w\<rparr>) (t_order_payments (wdb w))\<rparr>\<rparr>"
    by (simp add: v set_status_def)
  have "r = p\<lparr>pay_status := PayREFUNDED, updated_at := now w\<rparr>" "w' = v2"
    using r p(1) id by (auto simp: v2 lookup_replace elim: refresh_payment_InrE)
  moreover have "o_status ord \<in> {CONFIRMED, IN_PROGRESS, COMPLETED}" using step by (cases "o_status ord") simp_all
  ultimately show ?thesis using p ord v2 dto v by (intro exI [of _ p] exI [of _ ord] exI [of _ txn]) simp
qed

lemma refund_moves_payment_and_order_witness:
  "\<exists>dto w'. refund_payment (fake_provider sample_settings) 70 (sample_paid COMPLETED) = (Inr dto, w') \<and>
     pay_dto_status dto = PayREFUNDED"
proof -
  have "\<exists>dto w'. refund_payment (fake_provider sample_settings) 70 (sample_paid COMPLETED) = (Inr dto, w')"
    by (simp add: refund_payment_def bind_fetch bind_require sample_paid_def sample_defs provider_refund_def logged_def
        fake_provider_def bind_def ensure_transition_def can_transition_def require_run db_save_def svc_simps
        fits_order_def ok_order_def check_order_def fits_order_payment_def ok_order_payment_def
        check_order_payment_def column_defs refresh_payment_def fetch_run replace_row_def touch_def)
  then obtain dto w' where run: "refund_payment (fake_provider sample_settings) 70 (sample_paid COMPLETED) = (Inr dto, w')"
    by blast
  from refund_moves_payment_and_order [OF run] run show ?thesis by (auto simp: payment_dto_def)
qed

text \<open>
  C25: the provider is asked before the order's status is checked. When the order can no
  longer become \<open>refunded\<close> (staff marked it \<open>failed\<close>, say), each request refunds the
  transaction at the provider and is then rolled back: the payment stays \<open>completed\<close>, and the
  next request refunds again.
\<close>

theorem refund_before_check_leaks:
  assumes "lookup (t_order_payments (wdb w)) i = Some p" and "pay_status p = PayCOMPLETED"
    and "pay_txn_id p = Some txn" and "lookup (t_orders (wdb w)) (pay_order_id p) = Some ord"
    and "\<not> can_transition (o_status ord) REFUNDED"
  shows "(let request = unit_of_work (refund_payment (fake_provider cfg) i);
              once = request w; twice = request (snd once)
          in fst once = Inl (invalid_transition (o_status ord) REFUNDED) \<and> wdb (snd once) = wdb w \<and>
             provider_log (snd once) = provider_log w @ [RefundCall txn (Inr ''refunded'')] \<and>
             fst twice = fst once \<and>
             provider_log (snd twice) = provider_log w @
               [RefundCall txn (Inr ''refunded''), RefundCall txn (Inr ''refunded'')])"
proof -
  have run: "unit_of_work (refund_payment (fake_provider cfg) i) v =
      (Inl (invalid_transition (o_status ord) REFUNDED),
       v\<lparr>provider_log := provider_log v @ [RefundCall txn (Inr ''refunded'')]\<rparr>)"
    if "wdb v = wdb w" for v
    using assms that
    by (simp add: unit_of_work_def refund_payment_def bind_fetch bind_require ensure_transition_run
        bind_step [OF fake_refund_run])
  show ?thesis by (simp add: run Let_def)
qed

lemma refund_before_check_leaks_witness:
  "fst (unit_of_work (refund_payment (fake_provider sample_settings) 70) (sample_paid FAILED)) =
     Inl (invalid_transition FAILED REFUNDED)"
  using refund_before_check_leaks [of "sample_paid FAILED" 70 _ "''fake-1''" _ sample_settings]
  by (simp add: sample_paid_def sample_defs Let_def)

section \<open>Saved methods\<close>

text \<open>
  Saving, deleting and choosing payment methods keep, with any provider, exactly one
  default method for every user who has saved one.
\<close>

theorem one_default_method:
  assumes "provider_contract prov"
  shows "preserves methods_inv (save_method prov u data) \<and> preserves methods_inv (delete_method prov u i) \<and>
    preserves methods_inv (set_default u i)"
  using provider_contract.save_method_keeps [OF assms] provider_contract.delete_method_keeps [OF assms]
    set_default_keeps by blast

lemma one_default_method_witness:
  "methods_inv (wdb sample_world) \<and> preserves methods_inv (set_default 1 2) \<and>
   preserves methods_inv (delete_method (fake_provider sample_settings) 1 2)"
  using one_default_method [OF fake.provider_contract_axioms, of sample_settings 1]
  by (simp add: methods_inv_def one_default_def sample_defs)

lemma set_default_effect:
  assumes "set_default u i w = (Inr dto, w')"
  obtains m where "lookup (t_payment_methods (wdb w')) i = Some m" and "pm_user_id m = u" and "pm_is_default m"
    and "dto = method_dto m"
proof -
  from assms obtain m v m' where m: "require_owned_method u i w = (Inr m, w)"
    and v: "save_payment_method (m\<lparr>pm_is_default := True\<rparr>)
        (w\<lparr>wdb := t_payment_methods_update (map (cleared (now w) u)) (wdb w)\<rparr>) = (Inr (), v)"
    and m': "refresh_method (row_id m) v = (Inr m', w')" and dto: "dto = method_dto m'"
    unfolding set_default_def
    by (auto elim!: bind_InrE clear_default_InrE) (auto elim!: require_owned_method_InrE)
  have own: "row_id m = i" "pm_user_id m = u" using m by (auto elim: require_owned_method_InrE)
  from v obtain old where old: "lookup (map (cleared (now w) u) (t_payment_methods (wdb w))) (row_id m) = Some old"
    and tab: "t_payment_methods (wdb v) = replace_row (touch (now w) old (m\<lparr>pm_is_default := True\<rparr>))
        (map (cleared (now w) u) (t_payment_methods (wdb w)))"
    by (elim db_save_InrE) simp
  have id: "row_id old = i" using lookup_SomeD [OF old] own(1) by simp
  then have found: "lookup (t_payment_methods (wdb v)) i = Some (touch (now w) old (m\<lparr>pm_is_default := True\<rparr>))"
    using old own(1) by (simp add: tab lookup_replace)
  have "lookup (t_payment_methods (wdb w')) i = Some m'" "w' = v"
    using m' own(1) by (auto elim: refresh_method_InrE)
  moreover from this have "m' = touch (now w) old (m\<lparr>pm_is_default := True\<rparr>)" using found by simp
  ultimately show thesis
    using own dto by (intro that [of m']) (simp_all add: touch_column [of pm_user_id] touch_column [of pm_is_default])
qed

text \<open>
  After a user has chosen a default method, the list of saved methods starts with it,
  flags no other, and holds each of the user's methods once and nobody else's.
\<close>

theorem chosen_default_is_listed_first:
  assumes "set_default u i w = (Inr dto, w')" and "methods_inv (wdb w)"
  shows "\<exists>r. list_methods u w' = (Inr r, w') \<and> ml_items r \<noteq> [] \<and> md_id (hd (ml_items r)) = i \<and>
    (\<forall>x \<in> set (ml_items r). md_is_default x \<longleftrightarrow> md_id x = i) \<and>
    mset (map md_id (ml_items r)) = mset (map row_id (methods_of (wdb w') u)) \<and> ml_total r = length (ml_items r)"
proof -
  have inv: "methods_inv (wdb w')" using set_default_keeps assms by (rule preservesD)
  from assms(1) obtain m' where lm: "lookup (t_payment_methods (wdb w')) i = Some m'"
    and m'_own: "pm_user_id m' = u" "pm_is_default m'"
    by (rule set_default_effect)
  have m'_in: "m' \<in> set (methods_of (wdb w') u)" "row_id m' = i"
    using lookup_SomeD [OF lm] m'_own by (auto simp: methods_of_def)
  have flag: "pm_is_default x \<longleftrightarrow> row_id x = i" if "x \<in> set (methods_of (wdb w') u)" for x
  proof
    assume "pm_is_default x"
    moreover have "pm_user_id x = pm_user_id m'" "x \<in> set (t_payment_methods (wdb w'))"
        "m' \<in> set (t_payment_methods (wdb w'))"
      using that m'_in(1) m'_own(1) by (simp_all add: methods_of_def)
    ultimately have "row_id x = row_id m'"
      using m'_own(2) inv unfolding methods_inv_def one_default_def by blast
    then show "row_id x = i" by (simp only: m'_in(2))
  next
    assume "row_id x = i"
    then have "lookup (t_payment_methods (wdb w')) (row_id x) = Some m'" using lm by (simp only:)
    then have "x = m'"
      by (rule lookup_same [rotated 2]) (use that inv in \<open>auto simp: methods_of_def methods_inv_def\<close>)
    then show "pm_is_default x" using m'_own by simp
  qed
  define rows where "rows = sort_desc (\<lambda>m. (pm_is_default m, created_at m)) (methods_of (wdb w') u)"
  have rows: "rows \<noteq> []" "set rows = set (methods_of (wdb w') u)" using m'_in(1) by (auto simp: rows_def)
  have "pm_is_default (hd rows)"
  proof -
    have "sorted_wrt (\<lambda>x y. (pm_is_default y, created_at y) \<le> (pm_is_default x, created_at x)) rows"
      unfolding rows_def by (rule sorted_sort_desc)
    moreover have "m' \<in> set rows" using m'_in(1) rows(2) by simp
    ultimately show ?thesis using m'_own(2) by (cases rows) (auto simp: less_eq_prod_def)
  qed
  then have "row_id (hd rows) = i" using flag rows by (metis hd_in_set)
  moreover have "mset (map row_id rows) = mset (map row_id (methods_of (wdb w') u))"
    by (simp add: rows_def sort_desc_def)
  moreover have "map md_id (map method_dto rows) = map row_id rows" by (simp add: method_dto_def)
  then have "mset (map md_id (map method_dto rows)) = mset (map row_id rows)" by (simp only:)
  ultimately show ?thesis
    using rows flag
    by (simp add: list_methods_def method_dto_def hd_map multiset.map_comp flip: rows_def)
qed

lemma set_default_succeeds:
  assumes "m \<in> set (t_payment_methods (wdb w))" and "distinct (row_ids (t_payment_methods (wdb w)))"
    and "fits_payment_method m" and "ok_payment_method (wdb w) m"
  shows "\<exists>dto w'. set_default (pm_user_id m) (row_id m) w = (Inr dto, w')"
proof -
  let ?T = "t_payment_methods (wdb w)" and ?u = "pm_user_id m"
  let ?w = "w\<lparr>wdb := t_payment_methods_update (map (cleared (now w) ?u)) (wdb w)\<rparr>"
  obtain m0 where m0: "find (\<lambda>x. row_id x = row_id m \<and> pm_user_id x = ?u) ?T = Some m0"
    using assms(1) by (cases "find (\<lambda>x. row_id x = row_id m \<and> pm_user_id x = ?u) ?T") (auto simp: find_None_iff)
  then have "m0 \<in> set ?T" "row_id m0 = row_id m" by (auto simp: find_Some_iff)
  then have "m0 = m" using assms(1) by (intro same_row [OF assms(2)])
  then have req: "require_owned_method ?u (row_id m) w = (Inr m, w)"
    using m0 by (simp add: require_owned_method_def fetch_run)
  obtain old where old: "lookup (t_payment_methods (wdb ?w)) (row_id (m\<lparr>pm_is_default := True\<rparr>)) = Some old"
    using assms(1) lookup_None_iff [of "map (cleared (now w) ?u) ?T" "row_id m"]
    by (cases "lookup (map (cleared (now w) ?u) ?T) (row_id m)") (auto simp: row_ids_def)
  have "fits_payment_method (m\<lparr>pm_is_default := True\<rparr>) \<and> ok_payment_method (wdb ?w) (m\<lparr>pm_is_default := True\<rparr>)"
    using assms(3,4) by (auto simp: fits_payment_method_def ok_payment_method_def check_payment_method_def
        unique_by_def cleared_def)
  then have save: "save_payment_method (m\<lparr>pm_is_default := True\<rparr>) ?w =
      (Inr (), ?w\<lparr>wdb := t_payment_methods_update (replace_row (touch (now ?w) old (m\<lparr>pm_is_default := True\<rparr>))) (wdb ?w)\<rparr>)"
    using old by (intro db_save_eq disjI2)
  have "row_id old = row_id m" using lookup_SomeD [OF old] by simp
  then show ?thesis
    using old by (simp add: set_default_def clear_default_def req save
        refresh_method_def fetch_run lookup_replace bind_def ret_def)
qed

definition sample_cards :: world where
  \<comment> \<open>two saved cards of the first user, the first of them the default\<close>
  "sample_cards = sample_world\<lparr>wdb := sample_db\<lparr>t_payment_methods :=
     [new_method 1 ''fake'' \<lparr>sm_customer_id = ''c'', sm_token = ''t1'', sm_brand = ''visa'', sm_last4 = ''4242'',
        sm_exp_month = 12, sm_exp_year = 2030\<rparr> True 80 2000,
      new_method 1 ''fake'' \<lparr>sm_customer_id = ''c'', sm_token = ''t2'', sm_brand = ''visa'', sm_last4 = ''4242'',
        sm_exp_month = 12, sm_exp_year = 2030\<rparr> False 81 3000]\<rparr>\<rparr>"

lemma chosen_default_is_listed_first_witness:
  "\<exists>dto w' r. set_default 1 81 sample_cards = (Inr dto, w') \<and> list_methods 1 w' = (Inr r, w') \<and>
     md_id (hd (ml_items r)) = 81"
proof -
  have inv: "methods_inv (wdb sample_cards)"
    by (simp add: sample_cards_def methods_inv_def one_default_def new_method_def)
  let ?m = "t_payment_methods (wdb sample_cards) ! 1"
  have "?m \<in> set (t_payment_methods (wdb sample_cards))" "distinct (row_ids (t_payment_methods (wdb sample_cards)))"
    "fits_payment_method ?m" "ok_payment_method (wdb sample_cards) ?m"
    by (simp_all add: sample_cards_def new_method_def fits_payment_method_def ok_payment_method_def
        check_payment_method_def unique_by_def column_defs sample_defs)
  moreover have "pm_user_id ?m = 1" "row_id ?m = 81" by (simp_all add: sample_cards_def new_method_def)
  ultimately obtain dto w' where run: "set_default 1 81 sample_cards = (Inr dto, w')"
    using set_default_succeeds [of ?m sample_cards] by (simp only:) blast
  obtain r where "list_methods 1 w' = (Inr r, w')" "md_id (hd (ml_items r)) = 81"
    using chosen_default_is_listed_first [OF run inv] by (elim exE conjE)
  with run show ?thesis by (intro exI conjI)
qed

end
