(* ===== verification/Ratings.thy ===== *)
theory Ratings
  imports Orders "HOL-Library.AList"
begin

text \<open>
  Product ratings (\<open>src/ratings/\<close>): the aggregate arithmetic of \<open>product_rating.py\<close>, the
  recomputation of the aggregate row, purchase verification, the write and read operations of
  \<open>service.py\<close>. The invariant \<open>ratings_inv\<close> says that every aggregate row is what the
  ratings of its product determine.
\<close>

section \<open>Aggregate arithmetic\<close>

text \<open>\<open>str(n)\<close> of a Python integer.\<close>

fun str_nat :: "nat \<Rightarrow> string" where
  "str_nat n = (if n < 10 then [dec_digit n] else str_nat (n div 10) @ [dec_digit n])"

declare str_nat.simps [simp del]

definition str_int :: "int \<Rightarrow> string" where
  "str_int n = (if n < 0 then ''-'' @ str_nat (nat (- n)) else str_nat (nat n))"

definition empty_distribution :: "(string \<times> int) list" where
  "empty_distribution = map (\<lambda>star. (str_int star, 0)) [1, 2, 3, 4, 5]"

definition count_star :: "(string \<times> int) list \<Rightarrow> int \<Rightarrow> exn + (string \<times> int) list" where
  \<comment> \<open>\<open>dist[str(score)] += 1\<close>\<close>
  "count_star dist score =
     (case map_of dist (str_int score) of
        None \<Rightarrow> Inl KeyError
      | Some n \<Rightarrow> Inr (AList.update (str_int score) (n + 1) dist))"

fun count_stars :: "(string \<times> int) list \<Rightarrow> int list \<Rightarrow> exn + (string \<times> int) list" where
  "count_stars dist [] = Inr dist"
| "count_stars dist (score # scores) =
     (case count_star dist score of Inl e \<Rightarrow> Inl e | Inr dist' \<Rightarrow> count_stars dist' scores)"

definition build_distribution :: "int list \<Rightarrow> exn + (string \<times> int) list" where
  "build_distribution scores = count_stars empty_distribution scores"

definition round_half_even :: "int \<Rightarrow> int \<Rightarrow> int" where
  \<comment> \<open>the integer nearest to \<open>n / d\<close>, ties to the even one\<close>
  "round_half_even n d =
     (let q = n div d; r = n mod d
      in if 2 * r < d then q else if d < 2 * r then q + 1 else if even q then q else q + 1)"

definition average_of :: "int list \<Rightarrow> int" where
  \<comment> \<open>in tenths; \<open>quantize(Decimal("0.1"))\<close> rounds half to even. A mean of fewer than \<open>10 ^ 26\<close>
     scores is far enough from every tie for the 28 digits of the division not to matter\<close>
  "average_of scores = round_half_even (10 * sum_list scores) (int (length scores))"

section \<open>Responses\<close>

record ProductRatingSummaryDTO =
  rs_product_id :: uuid
  rs_user_rating :: "int option"
  rs_average_rating :: "int option"
  rs_total_ratings :: int
  rs_rating_distribution :: "(string \<times> int) list"

record 'f StarBreakdownDTO =
  sb_count :: int
  sb_percentage :: 'f

record 'f RatingBreakdownDTO =
  rb_product_id :: uuid
  rb_product_name :: string
  rb_average_rating :: "int option"
  rb_total_ratings :: int
  rb_rating_distribution :: "(string \<times> 'f StarBreakdownDTO) list"

record MyRatingDTO =
  my_product_id :: uuid
  my_product_name :: string
  my_product_image_url :: "string option"
  my_rating :: int
  my_updated_at :: datetime

record MyRatingsListDTO =
  mys_items :: "MyRatingDTO list"
  mys_total :: nat

section \<open>The aggregate row\<close>

definition ratings_for :: "database \<Rightarrow> uuid \<Rightarrow> rating list" where
  "ratings_for d p = filter (\<lambda>r. r_product_id r = p) (t_ratings d)"

definition aggregate_row :: "database \<Rightarrow> uuid \<Rightarrow> product_rating option" where
  "aggregate_row d p = find (\<lambda>a. pr_product_id a = p) (t_product_ratings d)"

definition new_product_rating ::
  "uuid \<Rightarrow> int \<Rightarrow> int \<Rightarrow> (string \<times> int) list \<Rightarrow> uuid \<Rightarrow> datetime \<Rightarrow> product_rating" where
  "new_product_rating p average count dist i t =
     \<lparr>row_id = i, created_at = t, updated_at = t, pr_product_id = p, pr_average = average,
      pr_total = count, pr_distribution = dist\<rparr>"

definition delete_product_rating :: "uuid \<Rightarrow> unit session" where
  "delete_product_rating = db_delete t_product_ratings_update (\<lambda>_ _. False)"

definition recalculate_product_rating :: "uuid \<Rightarrow> product_rating option session" where
  "recalculate_product_rating p =
     bind (query (\<lambda>d. map r_rating (ratings_for d p))) (\<lambda>scores.
     bind (query (\<lambda>d. aggregate_row d p)) (\<lambda>existing.
     if scores = [] then
       (case existing of
          None \<Rightarrow> ret None
        | Some a \<Rightarrow> bind (delete_product_rating (row_id a)) (\<lambda>_. ret None))
     else
       bind (of_sum (build_distribution scores)) (\<lambda>dist.
       case existing of
         None \<Rightarrow>
           bind (add_product_rating
                  (new_product_rating p (average_of scores) (int (length scores)) dist)) (\<lambda>a.
           ret (Some a))
       | Some a \<Rightarrow>
           (let a' = a\<lparr>pr_average := average_of scores, pr_total := int (length scores),
                       pr_distribution := dist\<rparr>
            in bind (save_product_rating a') (\<lambda>_. ret (Some a'))))))"

section \<open>Purchase verification\<close>

definition purchased :: "database \<Rightarrow> uuid \<Rightarrow> uuid \<Rightarrow> bool" where
  \<comment> \<open>a row of the join of \<open>order_products\<close> with the completed orders of the user\<close>
  "purchased d user_id p \<longleftrightarrow>
     (\<exists>l \<in> set (t_order_products d). op_product_id l = p \<and>
        (\<exists>ord \<in> set (t_orders d). row_id ord = op_order_id l \<and> o_user_id ord = user_id \<and>
           o_status ord = COMPLETED))"

definition can_user_rate_product :: "uuid \<Rightarrow> uuid \<Rightarrow> bool session" where
  "can_user_rate_product user_id p = query (\<lambda>d. purchased d user_id p)"

definition get_purchased_product_ids :: "uuid \<Rightarrow> uuid list \<Rightarrow> uuid set session" where
  "get_purchased_product_ids user_id ids =
     (if ids = [] then ret {}
      else query (\<lambda>d. Set.filter (\<lambda>p. p \<in> set ids \<and> purchased d user_id p)
                        (op_product_id ` set (t_order_products d))))"

definition get_user_ratings_map :: "uuid \<Rightarrow> uuid list \<Rightarrow> (uuid \<Rightarrow> int option) session" where
  "get_user_ratings_map user_id ids =
     (if ids = [] then ret (\<lambda>_. None)
      else query (\<lambda>d. map_of (rev (map (\<lambda>r. (r_product_id r, r_rating r))
                        (filter (\<lambda>r. r_user_id r = user_id \<and> r_product_id r \<in> set ids) (t_ratings d))))))"

section \<open>Writes and reads\<close>

definition require_product :: "uuid \<Rightarrow> product session" where
  "require_product p = fetch (\<lambda>d. lookup (t_products d) p) (CatalogExn (ProductNotFoundError p))"

definition validate_rating :: "int \<Rightarrow> unit session" where
  "validate_rating value = require (1 \<le> value \<and> value \<le> 5) (RatingExn (RatingInvalidValueError ''Rating must be between 1 and 5''))"

definition summary :: "uuid \<Rightarrow> int option \<Rightarrow> product_rating option \<Rightarrow> ProductRatingSummaryDTO" where
  "summary p user_rating agg =
     (case agg of
        None \<Rightarrow> \<lparr>rs_product_id = p, rs_user_rating = user_rating, rs_average_rating = None,
          rs_total_ratings = 0, rs_rating_distribution = empty_distribution\<rparr>
      | Some a \<Rightarrow> \<lparr>rs_product_id = p, rs_user_rating = user_rating,
          rs_average_rating = Some (pr_average a), rs_total_ratings = pr_total a,
          rs_rating_distribution = pr_distribution a\<rparr>)"

definition rating_by :: "database \<Rightarrow> uuid \<Rightarrow> uuid \<Rightarrow> rating option" where
  "rating_by d p user_id = find (\<lambda>r. r_product_id r = p \<and> r_user_id r = user_id) (t_ratings d)"

definition new_rating :: "uuid \<Rightarrow> uuid \<Rightarrow> int \<Rightarrow> uuid \<Rightarrow> datetime \<Rightarrow> rating" where
  "new_rating p user_id value i t =
     \<lparr>row_id = i, created_at = t, updated_at = t, r_product_id = p, r_user_id = user_id,
      r_rating = value\<rparr>"

definition delete_rating_row :: "uuid \<Rightarrow> unit session" where
  "delete_rating_row = db_delete t_ratings_update (\<lambda>_ _. False)"

definition upsert_rating :: "uuid \<Rightarrow> uuid \<Rightarrow> int \<Rightarrow> unit session" where
  "upsert_rating user_id p value =
     bind (query (\<lambda>d. rating_by d p user_id)) (\<lambda>existing.
     case existing of
       None \<Rightarrow> bind (add_rating (new_rating p user_id value)) (\<lambda>_. ret ())
     | Some r \<Rightarrow> save_rating (r\<lparr>r_rating := value\<rparr>))"

definition set_rating :: "uuid \<Rightarrow> uuid \<Rightarrow> int \<Rightarrow> ProductRatingSummaryDTO session" where
  "set_rating user_id p value =
     bind (validate_rating value) (\<lambda>_.
     bind (require_product p) (\<lambda>_.
     bind (can_user_rate_product user_id p) (\<lambda>allowed.
     bind (require allowed (RatingExn (RatingNotPurchasedError p))) (\<lambda>_.
     bind (upsert_rating user_id p value) (\<lambda>_.
     bind (recalculate_product_rating p) (\<lambda>agg.
     ret (summary p (Some value) agg)))))))"

definition delete_rating :: "uuid \<Rightarrow> uuid \<Rightarrow> ProductRatingSummaryDTO session" where
  "delete_rating user_id p =
     bind (fetch (\<lambda>d. rating_by d p user_id) (RatingExn (RatingNotFoundError p))) (\<lambda>existing.
     bind (delete_rating_row (row_id existing)) (\<lambda>_.
     bind (recalculate_product_rating p) (\<lambda>agg.
     ret (summary p None agg))))"

text \<open>
  \<open>pct count total\<close> is \<open>round(count / total * 100, 1)\<close> in binary floating point, a
  parameter; the literal \<open>0.0\<close> of the empty breakdown is its value at \<open>0\<close> of \<open>1\<close>.
\<close>

definition get_breakdown :: "(int \<Rightarrow> int \<Rightarrow> 'f) \<Rightarrow> uuid \<Rightarrow> 'f RatingBreakdownDTO session" where
  "get_breakdown pct p =
     bind (require_product p) (\<lambda>prod.
     bind (query (\<lambda>d. aggregate_row d p)) (\<lambda>agg.
     ret (case agg of
        None \<Rightarrow> \<lparr>rb_product_id = p, rb_product_name = p_name prod, rb_average_rating = None,
          rb_total_ratings = 0,
          rb_rating_distribution =
            map (\<lambda>star. (str_int star, \<lparr>sb_count = 0, sb_percentage = pct 0 1\<rparr>)) [1, 2, 3, 4, 5]\<rparr>
      | Some a \<Rightarrow> \<lparr>rb_product_id = p, rb_product_name = p_name prod,
          rb_average_rating = Some (pr_average a), rb_total_ratings = pr_total a,
          rb_rating_distribution =
            map (\<lambda>star.
              let n = (case map_of (pr_distribution a) (str_int star) of None \<Rightarrow> 0 | Some n \<Rightarrow> n)
              in (str_int star, \<lparr>sb_count = n, sb_percentage = pct n (pr_total a)\<rparr>)) [1, 2, 3, 4, 5]\<rparr>)))"

definition my_rating_dto :: "rating \<times> product \<Rightarrow> MyRatingDTO" where
  "my_rating_dto rp = (case rp of (r, p) \<Rightarrow>
     \<lparr>my_product_id = row_id p, my_product_name = p_name p, my_product_image_url = p_image_url p,
      my_rating = r_rating r, my_updated_at = updated_at r\<rparr>)"

definition rated_products :: "database \<Rightarrow> uuid \<Rightarrow> (rating \<times> product) list" where
  \<comment> \<open>the inner join of the caller's ratings with the products\<close>
  "rated_products d user_id =
     List.map_filter (\<lambda>r. map_option (Pair r) (lookup (t_products d) (r_product_id r)))
       (filter (\<lambda>r. r_user_id r = user_id) (t_ratings d))"

definition list_user_ratings :: "uuid \<Rightarrow> MyRatingsListDTO session" where
  "list_user_ratings user_id =
     bind (query (\<lambda>d. sort_desc (\<lambda>rp. (updated_at (fst rp), row_id (fst rp))) (rated_products d user_id))) (\<lambda>rows.
     ret \<lparr>mys_items = map my_rating_dto rows, mys_total = length rows\<rparr>)"


section \<open>What the arithmetic guarantees\<close>

lemma round_half_even_near:
  assumes "0 < d"
  shows "2 * \<bar>d * round_half_even n d - n\<bar> \<le> d"
proof -
  define q r where "q = n div d" and "r = n mod d"
  have n: "n = d * q + r" and r: "0 \<le> r" "r < d" using assms by (simp_all add: q_def r_def)
  have "round_half_even n d = (if 2 * r < d then q else if d < 2 * r then q + 1 else if even q then q else q + 1)"
    by (simp add: round_half_even_def q_def r_def Let_def)
  moreover have "d * q - n = - r" "d * (q + 1) - n = d - r" by (simp_all add: n algebra_simps)
  ultimately show ?thesis using r by auto
qed

lemma round_half_even_bounds:
  assumes "0 < d" and "lo * d \<le> n" and "n \<le> hi * d"
  shows "lo \<le> round_half_even n d \<and> round_half_even n d \<le> hi"
proof -
  let ?k = "round_half_even n d"
  have near: "2 * \<bar>d * ?k - n\<bar> \<le> d" by (rule round_half_even_near [OF assms(1)])
  have "lo \<le> ?k"
  proof (rule ccontr)
    assume "\<not> lo \<le> ?k"
    then have "?k + 1 \<le> lo" by simp
    then have "d * (?k + 1) \<le> lo * d" using assms(1) by (metis mult.commute mult_left_mono less_imp_le)
    then show False using near assms by (auto simp: algebra_simps abs_if split: if_splits)
  qed
  moreover have "?k \<le> hi"
  proof (rule ccontr)
    assume "\<not> ?k \<le> hi"
    then have "hi + 1 \<le> ?k" by simp
    then have "d * (hi + 1) \<le> d * ?k" using assms(1) by simp
    then show False using near assms by (auto simp: algebra_simps abs_if split: if_splits)
  qed
  ultimately show ?thesis ..
qed

abbreviation score :: "int \<Rightarrow> bool" where
  "score s \<equiv> 1 \<le> s \<and> s \<le> 5"

lemma sum_scores: "list_all score xs \<Longrightarrow> int (length xs) \<le> sum_list xs \<and> sum_list xs \<le> 5 * int (length xs)"
  by (induction xs) auto

lemma average_bounds:
  assumes "list_all score scores" and "scores \<noteq> []"
  shows "10 \<le> average_of scores \<and> average_of scores \<le> 50"
  unfolding average_of_def
  by (rule round_half_even_bounds) (use sum_scores [OF assms(1)] assms(2) in auto)

lemma str_stars [simp]:
  "str_int 1 = ''1''" "str_int 2 = ''2''" "str_int 3 = ''3''" "str_int 4 = ''4''" "str_int 5 = ''5''"
  by (simp_all add: str_int_def str_nat.simps dec_digit_def dec_digits_def)

definition distribution_of :: "(int \<Rightarrow> int) \<Rightarrow> (string \<times> int) list" where
  "distribution_of f = map (\<lambda>star. (str_int star, f star)) [1, 2, 3, 4, 5]"

lemma score_cases: "score s \<Longrightarrow> s = 1 \<or> s = 2 \<or> s = 3 \<or> s = 4 \<or> s = 5"
  by presburger

lemma count_star_distribution:
  "score s \<Longrightarrow> count_star (distribution_of f) s = Inr (distribution_of (\<lambda>x. f x + (if x = s then 1 else 0)))"
  by (drule score_cases) (auto simp: count_star_def distribution_of_def)

lemma count_stars_distribution:
  "list_all score scores \<Longrightarrow>
   count_stars (distribution_of f) scores = Inr (distribution_of (\<lambda>x. f x + int (count_list scores x)))"
proof (induction scores arbitrary: f)
  case (Cons s scores)
  then show ?case
    by (simp add: count_star_distribution del: One_nat_def) (simp add: distribution_of_def)
qed simp

lemma build_distribution_counts:
  assumes "list_all score scores"
  shows "build_distribution scores = Inr (distribution_of (\<lambda>x. int (count_list scores x)))"
proof -
  have "empty_distribution = distribution_of (\<lambda>_. 0)"
    by (simp add: empty_distribution_def distribution_of_def)
  then show ?thesis
    using count_stars_distribution [OF assms, of "\<lambda>_. 0"] by (simp add: build_distribution_def)
qed

lemma distribution_total:
  "list_all score scores \<Longrightarrow>
   sum_list (map snd (distribution_of (\<lambda>x. int (count_list scores x)))) = int (length scores)"
proof (induction scores)
  case (Cons s scores)
  then have "s = 1 \<or> s = 2 \<or> s = 3 \<or> s = 4 \<or> s = 5" by (intro score_cases) simp
  then show ?case using Cons by (auto simp: distribution_of_def)
qed (simp add: distribution_of_def)


section \<open>The aggregates agree with the ratings\<close>

definition agg_matches :: "product_rating \<Rightarrow> int list \<Rightarrow> bool" where
  "agg_matches a scores \<longleftrightarrow> pr_average a = average_of scores \<and> pr_total a = int (length scores) \<and>
     Inr (pr_distribution a) = build_distribution scores"

definition aggregates :: "database \<Rightarrow> uuid \<Rightarrow> product_rating list" where
  "aggregates d p = filter (\<lambda>a. pr_product_id a = p) (t_product_ratings d)"

definition scores_of :: "database \<Rightarrow> uuid \<Rightarrow> int list" where
  "scores_of d p = map r_rating (ratings_for d p)"

definition aggregate_exact :: "database \<Rightarrow> uuid \<Rightarrow> bool" where
  "aggregate_exact d p \<longleftrightarrow>
     (case aggregates d p of
        [] \<Rightarrow> scores_of d p = []
      | [a] \<Rightarrow> scores_of d p \<noteq> [] \<and> agg_matches a (scores_of d p)
      | _ \<Rightarrow> False)"

definition rating_rows :: "database \<Rightarrow> bool" where
  "rating_rows d \<longleftrightarrow> distinct (row_ids (t_ratings d)) \<and> distinct (row_ids (t_product_ratings d)) \<and>
     list_all (\<lambda>r. score (r_rating r)) (t_ratings d) \<and>
     distinct (map (\<lambda>r. (r_product_id r, r_user_id r)) (t_ratings d))"

definition ratings_inv :: "database \<Rightarrow> bool" where
  "ratings_inv d \<longleftrightarrow> rating_rows d \<and> (\<forall>p. aggregate_exact d p)"

lemma filter_remove_other:
  "distinct (row_ids t) \<Longrightarrow> a \<in> set t \<Longrightarrow> \<not> P a \<Longrightarrow> filter P (remove_row (row_id a) t) = filter P t"
  by (auto simp: remove_row_def filter_filter intro!: filter_cong dest: same_row)

lemma filter_single: "filter P t = [a] \<Longrightarrow> x \<in> set t \<and> P x \<longleftrightarrow> x = a"
  by (metis empty_iff list.set(1) list.set_intros(1) mem_Collect_eq set_ConsD set_filter)

lemma filter_remove_single: "filter P t = [a] \<Longrightarrow> filter P (remove_row (row_id a) t) = []"
  by (auto simp: filter_empty_conv dest: filter_single)

lemma replace_absent: "row_id r \<notin> set (row_ids t) \<Longrightarrow> replace_row r t = t"
  by (induction t) (auto simp: replace_row_def)

lemma filter_replace_other:
  assumes "distinct (row_ids t)" and "a \<in> set t" and "row_id r = row_id a" and "\<not> P a" and "\<not> P r"
  shows "filter P (replace_row r t) = filter P t"
  using assms
proof (induction t)
  case (Cons x t)
  show ?case
  proof (cases "row_id x = row_id r")
    case True
    with Cons.prems have "x = a" by (intro same_row [OF Cons.prems(1)]) auto
    moreover have "replace_row r t = t"
      using Cons.prems(1) True by (intro replace_absent) simp
    ultimately show ?thesis using Cons.prems True by (simp add: replace_row_def)
  next
    case False
    with Cons.prems have "a \<in> set t" by auto
    with Cons.IH Cons.prems have "filter P (replace_row r t) = filter P t" by simp
    then show ?thesis using False by (simp add: replace_row_def)
  qed
qed simp

lemma filter_replace_single:
  assumes "distinct (row_ids t)" and "filter P t = [a]" and "row_id r = row_id a" and "P r"
  shows "filter P (replace_row r t) = [r]"
  using assms
proof (induction t)
  case (Cons x t)
  show ?case
  proof (cases "P x")
    case True
    with Cons.prems(2) have x: "x = a" "filter P t = []" by auto
    moreover have "replace_row r t = t"
      using Cons.prems(1,3) x by (intro replace_absent) simp
    ultimately show ?thesis using Cons.prems by (simp add: replace_row_def)
  next
    case False
    with Cons.prems have *: "filter P t = [a]" by simp
    then have "a \<in> set t" using filter_single [of P t a a] by simp
    with Cons.prems(1,3) have "row_id x \<noteq> row_id r" by (auto simp: row_ids_def)
    with Cons.IH [OF _ * Cons.prems(3,4)] Cons.prems(1) False show ?thesis by (simp add: replace_row_def)
  qed
qed simp

lemma aggregate_row_first: "aggregate_row d p = (case aggregates d p of [] \<Rightarrow> None | a # _ \<Rightarrow> Some a)"
proof -
  have "find P xs = (case filter P xs of [] \<Rightarrow> None | a # _ \<Rightarrow> Some a)" for P :: "product_rating \<Rightarrow> bool" and xs
    by (induction xs) auto
  then show ?thesis by (simp add: aggregate_row_def aggregates_def)
qed

lemma scores_valid: "rating_rows d \<Longrightarrow> list_all score (scores_of d p)"
  by (auto simp: rating_rows_def scores_of_def ratings_for_def list_all_iff)

definition recalculated :: "database \<Rightarrow> uuid \<Rightarrow> product_rating option \<Rightarrow> database \<Rightarrow> bool" where
  "recalculated d p agg d' \<longleftrightarrow>
     d' = d\<lparr>t_product_ratings := t_product_ratings d'\<rparr> \<and> distinct (row_ids (t_product_ratings d')) \<and>
     aggregate_exact d' p \<and> (\<forall>q. q \<noteq> p \<longrightarrow> aggregates d' q = aggregates d q) \<and>
     (case agg of
        None \<Rightarrow> scores_of d p = []
      | Some a \<Rightarrow> scores_of d p \<noteq> [] \<and> agg_matches a (scores_of d p))"

lemma touch_aggregate:
  "pr_product_id (touch t old new) = pr_product_id new" "agg_matches (touch t old new) s = agg_matches new s"
  by (simp_all add: touch_def agg_matches_def)

lemma recalculate_InrE:
  assumes run: "recalculate_product_rating p w = (Inr agg, w')" and rows: "rating_rows (wdb w)"
    and single: "length (aggregates (wdb w) p) \<le> 1"
  shows "recalculated (wdb w) p agg (wdb w')"
proof -
  have ids: "distinct (row_ids (t_product_ratings (wdb w)))" using rows by (simp add: rating_rows_def)
  have scores: "map r_rating (ratings_for (wdb w) p) = scores_of (wdb w) p" by (simp add: scores_of_def)
  consider (none) "aggregates (wdb w) p = []" "aggregate_row (wdb w) p = None"
    | (one) a where "aggregates (wdb w) p = [a]" "aggregate_row (wdb w) p = Some a"
    using single by (cases "aggregates (wdb w) p") (auto simp: aggregate_row_first)
  then show ?thesis
  proof cases
    case none
    show ?thesis
    proof (cases "scores_of (wdb w) p = []")
      case True
      then show ?thesis
        using run none ids by (auto simp: recalculate_product_rating_def scores recalculated_def aggregate_exact_def)
    next
      case False
      then obtain dist a where dist: "build_distribution (scores_of (wdb w) p) = Inr dist"
        and add: "add_product_rating (new_product_rating p (average_of (scores_of (wdb w) p))
            (int (length (scores_of (wdb w) p))) dist) w = (Inr a, w')" and agg: "agg = Some a"
        using run none by (auto simp: recalculate_product_rating_def scores bind_of_sum split: sum.splits elim!: bind_InrE)
      from add have w': "wdb w' = t_product_ratings_update (\<lambda>t. t @ [a]) (wdb w)"
          "row_id a \<notin> set (row_ids (t_product_ratings (wdb w)))"
          "pr_product_id a = p" "agg_matches a (scores_of (wdb w) p)"
        using dist by (auto elim!: db_add_InrE simp: new_product_rating_def agg_matches_def)
      moreover have "aggregates (wdb w') q = aggregates (wdb w) q @ (if q = p then [a] else [])" for q
        using w' by (simp add: aggregates_def)
      moreover have "scores_of (wdb w') p = scores_of (wdb w) p"
        using w' by (simp add: scores_of_def ratings_for_def)
      ultimately show ?thesis
        using False none ids by (simp add: recalculated_def aggregate_exact_def agg)
    qed
  next
    case one
    then have a: "a \<in> set (t_product_ratings (wdb w))" "pr_product_id a = p"
      using filter_single [of "\<lambda>x. pr_product_id x = p"] by (auto simp: aggregates_def)
    show ?thesis
    proof (cases "scores_of (wdb w) p = []")
      case True
      with run one have w': "wdb w' = t_product_ratings_update (remove_row (row_id a)) (wdb w)" and agg: "agg = None"
        by (auto simp: recalculate_product_rating_def scores delete_product_rating_def elim!: svc_elims)
      moreover have "aggregates (wdb w') q = (if q = p then [] else aggregates (wdb w) q)" for q
        using one a ids by (auto simp: w' aggregates_def intro: filter_remove_single filter_remove_other)
      moreover have "scores_of (wdb w') p = scores_of (wdb w) p"
        using w' by (simp add: scores_of_def ratings_for_def)
      ultimately show ?thesis
        using True ids by (simp add: recalculated_def aggregate_exact_def distinct_remove)
    next
      case False
      define a' where "a' dist = a\<lparr>pr_average := average_of (scores_of (wdb w) p),
          pr_total := int (length (scores_of (wdb w) p)), pr_distribution := dist\<rparr>" for dist
      from False run one obtain dist where dist: "build_distribution (scores_of (wdb w) p) = Inr dist"
        and save: "save_product_rating (a' dist) w = (Inr (), w')" and agg: "agg = Some (a' dist)"
        by (auto simp: recalculate_product_rating_def scores bind_of_sum Let_def a'_def split: sum.splits elim!: bind_InrE)
      have id: "row_id (a' dist) = row_id a" by (simp add: a'_def)
      with save obtain old where old: "lookup (t_product_ratings (wdb w)) (row_id a) = Some old"
        and w': "wdb w' = t_product_ratings_update (replace_row (touch (now w) old (a' dist))) (wdb w)"
        by (auto elim!: db_save_InrE)
      have "old = a" using lookup_same [OF ids a(1) old] by simp
      note w' = w' [unfolded this]
      have match: "agg_matches (touch (now w) a (a' dist)) (scores_of (wdb w) p)"
          "agg_matches (a' dist) (scores_of (wdb w) p)"
          "pr_product_id (touch (now w) a (a' dist)) = p" "row_id (touch (now w) a (a' dist)) = row_id a"
        using dist a id by (simp_all only: touch_aggregate touch_row_id) (simp_all add: agg_matches_def a'_def)
      have "aggregates (wdb w') q = (if q = p then [touch (now w) a (a' dist)] else aggregates (wdb w) q)" for q
        using one a ids match(3,4)
        by (auto simp: w' aggregates_def intro: filter_replace_single filter_replace_other)
      moreover have "scores_of (wdb w') p = scores_of (wdb w) p"
        using w' by (simp add: scores_of_def ratings_for_def)
      ultimately show ?thesis
        using False ids match by (simp add: recalculated_def aggregate_exact_def agg w')
    qed
  qed
qed


definition other_ratings :: "uuid \<Rightarrow> uuid \<Rightarrow> database \<Rightarrow> rating list" where
  "other_ratings user_id p d = filter (\<lambda>r. \<not> (r_product_id r = p \<and> r_user_id r = user_id)) (t_ratings d)"

lemma scores_other:
  assumes "other_ratings u p d' = other_ratings u p d" and "q \<noteq> p"
  shows "scores_of d' q = scores_of d q"
proof -
  have "ratings_for x q = filter (\<lambda>r. r_product_id r = q) (other_ratings u p x)" for x
    using assms(2) by (auto simp: ratings_for_def other_ratings_def intro!: filter_cong)
  then show ?thesis using assms(1) by (simp add: scores_of_def)
qed

lemma rating_by_SomeD:
  "rating_by d p u = Some r \<Longrightarrow> r \<in> set (t_ratings d) \<and> r_product_id r = p \<and> r_user_id r = u"
  by (auto simp: rating_by_def find_Some_iff)

lemma rating_by_unique:
  assumes "rating_rows d" and "r \<in> set (t_ratings d)" and "r_product_id r = p" and "r_user_id r = u"
  shows "rating_by d p u = Some r"
proof -
  obtain x where x: "rating_by d p u = Some x"
    using assms(2-4) by (cases "rating_by d p u") (auto simp: rating_by_def find_None_iff)
  then have "x \<in> set (t_ratings d)" "(r_product_id x, r_user_id x) = (r_product_id r, r_user_id r)"
    using rating_by_SomeD assms(3,4) by auto
  moreover have "inj_on (\<lambda>r. (r_product_id r, r_user_id r)) (set (t_ratings d))"
    using assms(1) by (simp add: rating_rows_def distinct_map)
  ultimately have "x = r" using assms(2) by (auto dest: inj_onD)
  with x show ?thesis by simp
qed

definition rated :: "database \<Rightarrow> uuid \<Rightarrow> uuid \<Rightarrow> int \<Rightarrow> database \<Rightarrow> bool" where
  \<comment> \<open>the caller's rating of the product is \<open>value\<close>, and nothing else changed\<close>
  "rated d user_id p value d' \<longleftrightarrow>
     d' = d\<lparr>t_ratings := t_ratings d'\<rparr> \<and> rating_rows d' \<and>
     map_option r_rating (rating_by d' p user_id) = Some value \<and>
     other_ratings user_id p d' = other_ratings user_id p d"

lemma upsert_InrE:
  assumes run: "upsert_rating u p value w = (Inr x, w')" and rows: "rating_rows (wdb w)" and sc: "score value"
  shows "rated (wdb w) u p value (wdb w')"
proof (cases "rating_by (wdb w) p u")
  case None
  with run obtain r where "add_rating (new_rating p u value) w = (Inr r, w')"
    by (auto simp: upsert_rating_def elim!: bind_InrE)
  then have w': "wdb w' = t_ratings_update (\<lambda>t. t @ [r]) (wdb w)"
      "row_id r \<notin> set (row_ids (t_ratings (wdb w)))"
      "r_product_id r = p" "r_user_id r = u" "r_rating r = value"
    by (auto elim!: db_add_InrE simp: new_rating_def)
  have "\<forall>x \<in> set (t_ratings (wdb w)). \<not> (r_product_id x = p \<and> r_user_id x = u)"
    using None by (simp add: rating_by_def find_None_iff)
  then have rows': "rating_rows (wdb w')" using rows w' sc by (auto simp: rating_rows_def)
  moreover have "rating_by (wdb w') p u = Some r"
    by (rule rating_by_unique [OF rows']) (simp_all add: w')
  ultimately show ?thesis using w' by (simp add: rated_def other_ratings_def)
next
  case (Some r)
  note r = rating_by_SomeD [OF Some]
  have ids: "distinct (row_ids (t_ratings (wdb w)))" using rows by (simp add: rating_rows_def)
  let ?r = "r\<lparr>r_rating := value\<rparr>"
  from run Some have save: "save_rating ?r w = (Inr x, w')" by (simp add: upsert_rating_def)
  then obtain old where old: "lookup (t_ratings (wdb w)) (row_id r) = Some old"
    and w': "wdb w' = t_ratings_update (replace_row (touch (now w) old ?r)) (wdb w)"
    by (auto elim!: db_save_InrE)
  have "old = r" using lookup_same [OF ids _ old] r by simp
  note w' = w' [unfolded this]
  define n where "n = touch (now w) r ?r"
  have n: "row_id n = row_id r" "r_product_id n = p" "r_user_id n = u" "r_rating n = value"
    using r by (simp_all add: n_def touch_column [of r_product_id] touch_column [of r_user_id]
        touch_column [of r_rating])
  have t': "t_ratings (wdb w') = replace_row n (t_ratings (wdb w))" by (simp add: w' n_def)
  have look: "lookup (t_ratings (wdb w)) (row_id n) = Some r"
    using lookup_unique [OF ids] r n(1) by simp
  have set': "set (t_ratings (wdb w')) = insert n (set (t_ratings (wdb w)) - {r})"
    unfolding t' by (rule set_replace [OF ids look])
  have "map (\<lambda>r. (r_product_id r, r_user_id r)) (t_ratings (wdb w')) = map (\<lambda>r. (r_product_id r, r_user_id r)) (t_ratings (wdb w))"
    unfolding t' by (rule map_replace [OF ids look]) (use n r in simp)
  then have rows': "rating_rows (wdb w')"
    using rows set' n sc by (auto simp: rating_rows_def t' w' list_all_iff)
  moreover have "rating_by (wdb w') p u = Some n"
    by (rule rating_by_unique [OF rows']) (use set' n in auto)
  moreover have "other_ratings u p (wdb w') = other_ratings u p (wdb w)"
    unfolding other_ratings_def t' by (rule filter_replace_other [OF ids, of r]) (use r n in auto)
  ultimately show ?thesis using n by (simp add: rated_def w')
qed

lemma delete_row_InrE:
  assumes run: "delete_rating_row (row_id r) w = (Inr x, w')" and rows: "rating_rows (wdb w)"
    and r: "rating_by (wdb w) p u = Some r"
  shows "wdb w' = (wdb w)\<lparr>t_ratings := t_ratings (wdb w')\<rparr> \<and> rating_rows (wdb w') \<and>
    rating_by (wdb w') p u = None \<and> other_ratings u p (wdb w') = other_ratings u p (wdb w)"
proof -
  have ids: "distinct (row_ids (t_ratings (wdb w)))" using rows by (simp add: rating_rows_def)
  note r' = rating_by_SomeD [OF r]
  from run have w': "wdb w' = t_ratings_update (remove_row (row_id r)) (wdb w)"
    by (auto simp: delete_rating_row_def elim!: svc_elims)
  have t': "t_ratings (wdb w') = remove_row (row_id r) (t_ratings (wdb w))" by (simp add: w')
  have "distinct (map k (t_ratings (wdb w')))" if "distinct (map k (t_ratings (wdb w)))" for k :: "rating \<Rightarrow> uuid \<times> uuid"
    using that by (simp add: t' remove_row_def distinct_map_filter)
  then have "rating_rows (wdb w')"
    using rows distinct_remove [of "t_ratings (wdb w)"] by (auto simp: rating_rows_def t' w' list_all_iff)
  moreover have "rating_by (wdb w') p u = None"
  proof (rule ccontr)
    assume "rating_by (wdb w') p u \<noteq> None"
    then obtain y where "rating_by (wdb w') p u = Some y" by blast
    from rating_by_SomeD [OF this] have y: "y \<in> set (t_ratings (wdb w))" "row_id y \<noteq> row_id r"
      "r_product_id y = p" "r_user_id y = u" by (auto simp: t')
    then have "rating_by (wdb w) p u = Some y" by (intro rating_by_unique [OF rows])
    with r y(2) show False by simp
  qed
  moreover have "other_ratings u p (wdb w') = other_ratings u p (wdb w)"
    unfolding other_ratings_def t' by (rule filter_remove_other [OF ids]) (use r' in auto)
  ultimately show ?thesis by (simp add: w')
qed

text \<open>After the recomputation the invariant holds again for every product.\<close>

lemma recalculated_restores:
  assumes inv: "ratings_inv d" and step: "d1 = d\<lparr>t_ratings := t_ratings d1\<rparr>" "rating_rows d1"
    "other_ratings u p d1 = other_ratings u p d" and recalc: "recalculated d1 p agg d2"
  shows "ratings_inv d2"
proof -
  have d2: "d2 = d1\<lparr>t_product_ratings := t_product_ratings d2\<rparr>" using recalc by (simp add: recalculated_def)
  have t2: "t_ratings d2 = t_ratings d1" by (subst d2) simp
  have rows: "rating_rows d2" using step(2) recalc t2 by (simp add: rating_rows_def recalculated_def)
  have "aggregate_exact d2 q" for q
  proof (cases "q = p")
    case True
    then show ?thesis using recalc by (simp add: recalculated_def)
  next
    case False
    have "t_product_ratings d1 = t_product_ratings d" by (subst step(1)) simp
    then have "aggregates d2 q = aggregates d q" using False recalc by (simp add: recalculated_def aggregates_def)
    moreover have "scores_of d2 q = scores_of d q"
      using scores_other [OF step(3) False] t2 by (simp add: scores_of_def ratings_for_def)
    moreover have "aggregate_exact d q" using inv by (simp add: ratings_inv_def)
    ultimately show ?thesis unfolding aggregate_exact_def by (simp only:)
  qed
  with rows show ?thesis by (simp add: ratings_inv_def)
qed

lemma single_aggregate:
  assumes "ratings_inv d" and "t_product_ratings d1 = t_product_ratings d"
  shows "length (aggregates d1 p) \<le> 1"
proof -
  have "aggregate_exact d p" using assms(1) by (simp add: ratings_inv_def)
  then show ?thesis
    using assms(2) by (auto simp: aggregate_exact_def aggregates_def split: list.splits)
qed


lemma set_rating_InrE:
  assumes "set_rating u p v w = (Inr dto, w')"
  obtains w1 agg where "score v" and "purchased (wdb w) u p"
    and "upsert_rating u p v w = (Inr (), w1)" and "recalculate_product_rating p w1 = (Inr agg, w')"
    and "dto = summary p (Some v) agg"
  using assms
  by (auto simp: set_rating_def validate_rating_def require_product_def can_user_rate_product_def
      bind_require bind_fetch elim!: bind_InrE split: if_splits option.splits)

lemma set_rating_step:
  assumes run: "set_rating u p v w = (Inr dto, w')" and inv: "ratings_inv (wdb w)"
  obtains d1 agg where "rated (wdb w) u p v d1" and "recalculated d1 p agg (wdb w')"
    and "dto = summary p (Some v) agg" and "score v" and "purchased (wdb w) u p"
proof -
  from set_rating_InrE [OF run] obtain w1 agg where v: "score v" and bought: "purchased (wdb w) u p"
    and up: "upsert_rating u p v w = (Inr (), w1)" and re: "recalculate_product_rating p w1 = (Inr agg, w')"
    and dto: "dto = summary p (Some v) agg" .
  have rows: "rating_rows (wdb w)" using inv by (simp add: ratings_inv_def)
  have r: "rated (wdb w) u p v (wdb w1)" by (rule upsert_InrE [OF up rows v])
  then have w1: "wdb w1 = (wdb w)\<lparr>t_ratings := t_ratings (wdb w1)\<rparr>" and rows1: "rating_rows (wdb w1)"
    by (simp_all add: rated_def)
  have "t_product_ratings (wdb w1) = t_product_ratings (wdb w)" by (subst w1) simp
  then have "length (aggregates (wdb w1) p) \<le> 1" by (rule single_aggregate [OF inv])
  then have "recalculated (wdb w1) p agg (wdb w')" by (rule recalculate_InrE [OF re rows1])
  with r show thesis by (rule that) (rule dto v bought)+
qed

lemma rated_inv: "rated d u p v d1 \<Longrightarrow> recalculated d1 p agg d2 \<Longrightarrow> ratings_inv d \<Longrightarrow> ratings_inv d2"
  unfolding rated_def by (elim conjE) (rule recalculated_restores)

lemma delete_rating_step:
  assumes run: "delete_rating u p w = (Inr dto, w')" and inv: "ratings_inv (wdb w)"
  obtains d1 agg r where "rating_by (wdb w) p u = Some r" and "d1 = (wdb w)\<lparr>t_ratings := t_ratings d1\<rparr>"
    and "rating_rows d1" and "rating_by d1 p u = None" and "other_ratings u p d1 = other_ratings u p (wdb w)"
    and "recalculated d1 p agg (wdb w')" and "dto = summary p None agg"
proof -
  from run obtain r w1 agg where r: "rating_by (wdb w) p u = Some r"
    and del: "delete_rating_row (row_id r) w = (Inr (), w1)"
    and re: "recalculate_product_rating p w1 = (Inr agg, w')" and dto: "dto = summary p None agg"
    by (auto simp: delete_rating_def bind_fetch elim!: bind_InrE split: option.splits)
  have rows: "rating_rows (wdb w)" using inv by (simp add: ratings_inv_def)
  from delete_row_InrE [OF del rows r] have w1: "wdb w1 = (wdb w)\<lparr>t_ratings := t_ratings (wdb w1)\<rparr>"
    and rows1: "rating_rows (wdb w1)" and none: "rating_by (wdb w1) p u = None"
    and others: "other_ratings u p (wdb w1) = other_ratings u p (wdb w)" by blast+
  have "t_product_ratings (wdb w1) = t_product_ratings (wdb w)" by (subst w1) simp
  then have "length (aggregates (wdb w1) p) \<le> 1" by (rule single_aggregate [OF inv])
  then have "recalculated (wdb w1) p agg (wdb w')" by (rule recalculate_InrE [OF re rows1])
  then show thesis by (rule that [OF r w1 rows1 none others _ dto])
qed

lemma set_rating_preserves: "preserves ratings_inv (set_rating u p v)"
  by (rule preservesI) (blast elim: set_rating_step intro: rated_inv)

lemma delete_rating_preserves: "preserves ratings_inv (delete_rating u p)"
proof (rule preservesI)
  fix w dto w'
  assume "delete_rating u p w = (Inr dto, w')" and inv: "ratings_inv (wdb w)"
  then obtain d1 agg where "d1 = (wdb w)\<lparr>t_ratings := t_ratings d1\<rparr>" "rating_rows d1"
      "other_ratings u p d1 = other_ratings u p (wdb w)" "recalculated d1 p agg (wdb w')"
    by (rule delete_rating_step)
  then show "ratings_inv (wdb w')" by (rule recalculated_restores [OF inv])
qed

text \<open>Which tables the operations write, whatever their outcome.\<close>

abbreviation outside_ratings :: "database \<Rightarrow> database" where
  "outside_ratings d \<equiv> d\<lparr>t_ratings := [], t_product_ratings := []\<rparr>"

lemma ratings_frame:
  "frame outside_ratings (set_rating u p v)" "frame outside_ratings (delete_rating u p)"
  unfolding set_rating_def delete_rating_def validate_rating_def require_product_def upsert_rating_def
    can_user_rate_product_def recalculate_product_rating_def delete_product_rating_def
    delete_rating_row_def Let_def
  by (intro frame_intros; simp)+


section \<open>When a rating is accepted\<close>

lemma upsert_total:
  assumes rows: "rating_rows (wdb w)" and sc: "score v" and refs: "refers (t_products (wdb w)) p" "refers (t_users (wdb w)) u"
    and fresh: "uuid_src w (uuid_pos w) \<notin> set (row_ids (t_ratings (wdb w)))"
  shows "\<exists>w1. upsert_rating u p v w = (Inr (), w1) \<and>
    uuid_src w1 = uuid_src w \<and> uuid_pos w1 \<le> Suc (uuid_pos w) \<and> (rating_by (wdb w) p u = None \<longrightarrow> uuid_pos w1 = Suc (uuid_pos w)) \<and>
    length (t_ratings (wdb w1)) \<le> Suc (length (t_ratings (wdb w)))"
proof (cases "rating_by (wdb w) p u")
  case None
  then have "\<forall>x \<in> set (t_ratings (wdb w)). \<not> (r_product_id x = p \<and> r_user_id x = u)"
    by (simp add: rating_by_def find_None_iff)
  then have "add_rating (new_rating p u v) w = (Inr (new_rating p u v (uuid_src w (uuid_pos w)) (now w)),
     w\<lparr>wdb := t_ratings_update (\<lambda>t. t @ [new_rating p u v (uuid_src w (uuid_pos w)) (now w)]) (wdb w),
       uuid_pos := Suc (uuid_pos w)\<rparr>)"
    using sc refs fresh by (intro db_add_eq) (auto simp: new_rating_def fits_rating_def int2_def ok_rating_def
        check_rating_def unique_by_def)
  with None show ?thesis by (simp add: upsert_rating_def bind_step)
next
  case (Some r)
  from rating_by_SomeD [OF Some] have r: "r \<in> set (t_ratings (wdb w))" "r_product_id r = p" "r_user_id r = u"
    by auto
  have "lookup (t_ratings (wdb w)) (row_id r) = Some r"
    using rows r by (intro lookup_unique) (simp_all add: rating_rows_def)
  moreover have "row_id x = row_id r \<or> \<not> (r_product_id x = p \<and> r_user_id x = u)"
    if "x \<in> set (t_ratings (wdb w))" for x
    using rating_by_unique [OF rows that] Some by auto
  ultimately have "save_rating (r\<lparr>r_rating := v\<rparr>) w = (Inr (), w\<lparr>wdb :=
      t_ratings_update (replace_row (touch (now w) r (r\<lparr>r_rating := v\<rparr>))) (wdb w)\<rparr>)"
    using sc refs r by (intro db_save_eq disjI2)
      (auto simp: fits_rating_def int2_def ok_rating_def check_rating_def unique_by_def)
  with Some show ?thesis by (simp add: upsert_rating_def)
qed

lemma recalculate_total:
  assumes rows: "rating_rows (wdb w)" and some: "scores_of (wdb w) p \<noteq> []" and ref: "refers (t_products (wdb w)) p"
    and small: "length (scores_of (wdb w) p) < 2 ^ 31" and single: "length (aggregates (wdb w) p) \<le> 1"
    and fresh: "aggregates (wdb w) p = [] \<Longrightarrow> uuid_src w (uuid_pos w) \<notin> set (row_ids (t_product_ratings (wdb w)))"
  shows "\<exists>agg w'. recalculate_product_rating p w = (Inr agg, w')"
proof -
  let ?s = "scores_of (wdb w) p"
  have scores: "map r_rating (ratings_for (wdb w) p) = ?s" by (simp add: scores_of_def)
  obtain dist where dist: "build_distribution ?s = Inr dist"
    using build_distribution_counts [OF scores_valid [OF rows]] by blast
  have avg: "10 \<le> average_of ?s" "average_of ?s \<le> 50"
    using average_bounds [OF scores_valid [OF rows] some] by auto
  have len: "1 \<le> int (length ?s)" using some by (cases ?s) auto
  note chk = fits_product_rating_def int4_def ok_product_rating_def check_product_rating_def unique_by_def
  have at_p: "x \<in> set (aggregates (wdb w) p) \<longleftrightarrow> x \<in> set (t_product_ratings (wdb w)) \<and> pr_product_id x = p" for x
    by (auto simp: aggregates_def)
  consider (none) "aggregates (wdb w) p = []" "aggregate_row (wdb w) p = None"
    | (one) a where "aggregates (wdb w) p = [a]" "aggregate_row (wdb w) p = Some a"
    using single by (cases "aggregates (wdb w) p") (auto simp: aggregate_row_first)
  then show ?thesis
  proof cases
    case none
    let ?mk = "new_product_rating p (average_of ?s) (int (length ?s)) dist"
    have "add_product_rating ?mk w = (Inr (?mk (uuid_src w (uuid_pos w)) (now w)),
       w\<lparr>wdb := t_product_ratings_update (\<lambda>t. t @ [?mk (uuid_src w (uuid_pos w)) (now w)]) (wdb w),
         uuid_pos := Suc (uuid_pos w)\<rparr>)"
      using none at_p fresh avg len small ref by (intro db_add_eq) (auto simp: new_product_rating_def chk)
    with none some dist show ?thesis
      by (simp add: recalculate_product_rating_def scores bind_of_sum bind_step)
  next
    case (one a)
    then have a: "a \<in> set (t_product_ratings (wdb w))" "pr_product_id a = p" using at_p [of a] by simp_all
    let ?a = "a\<lparr>pr_average := average_of ?s, pr_total := int (length ?s), pr_distribution := dist\<rparr>"
    have "lookup (t_product_ratings (wdb w)) (row_id a) = Some a"
      using rows a by (intro lookup_unique) (simp_all add: rating_rows_def)
    moreover have "row_id x = row_id a \<or> pr_product_id x \<noteq> p" if "x \<in> set (t_product_ratings (wdb w))" for x
      using one(1) at_p [of x] that by auto
    ultimately have "save_product_rating ?a w = (Inr (), w\<lparr>wdb :=
        t_product_ratings_update (replace_row (touch (now w) a ?a)) (wdb w)\<rparr>)"
      using avg len small ref a by (intro db_save_eq disjI2) (auto simp: chk)
    with one some dist show ?thesis
      by (simp add: recalculate_product_rating_def scores bind_of_sum bind_step Let_def)
  qed
qed


lemma set_rating_total:
  assumes inv: "ratings_inv (wdb w)" and sc: "score v"
    and refs: "refers (t_products (wdb w)) p" "refers (t_users (wdb w)) u" and bought: "purchased (wdb w) u p"
    and fresh: "uuid_src w (uuid_pos w) \<notin> set (row_ids (t_ratings (wdb w)))"
      "uuid_src w (Suc (uuid_pos w)) \<notin> set (row_ids (t_product_ratings (wdb w)))"
    and small: "length (t_ratings (wdb w)) < 2 ^ 31 - 1"
  shows "\<exists>dto w'. set_rating u p v w = (Inr dto, w')"
proof -
  have rows: "rating_rows (wdb w)" using inv by (simp add: ratings_inv_def)
  from upsert_total [OF rows sc refs fresh(1)] obtain w1 where up: "upsert_rating u p v w = (Inr (), w1)"
    and pos: "uuid_src w1 = uuid_src w" "rating_by (wdb w) p u = None \<longrightarrow> uuid_pos w1 = Suc (uuid_pos w)"
    and len: "length (t_ratings (wdb w1)) \<le> Suc (length (t_ratings (wdb w)))"
    by (elim exE conjE) (rule that)
  have r: "rated (wdb w) u p v (wdb w1)" by (rule upsert_InrE [OF up rows sc])
  then have w1: "wdb w1 = (wdb w)\<lparr>t_ratings := t_ratings (wdb w1)\<rparr>" and rows1: "rating_rows (wdb w1)"
    by (simp_all add: rated_def)
  have same: "t_product_ratings (wdb w1) = t_product_ratings (wdb w)" "t_products (wdb w1) = t_products (wdb w)"
    by (subst w1, simp)+
  from r obtain x where "rating_by (wdb w1) p u = Some x" by (auto simp: rated_def)
  from rating_by_SomeD [OF this] have some: "scores_of (wdb w1) p \<noteq> []"
    by (auto simp: scores_of_def ratings_for_def filter_empty_conv)
  have "length (scores_of (wdb w1) p) \<le> length (t_ratings (wdb w1))"
    by (simp add: scores_of_def ratings_for_def)
  then have short: "length (scores_of (wdb w1) p) < 2 ^ 31" using len small by linarith
  have fresh1: "uuid_src w1 (uuid_pos w1) \<notin> set (row_ids (t_product_ratings (wdb w1)))"
    if "aggregates (wdb w1) p = []"
  proof -
    have "aggregates (wdb w) p = []" using that same by (simp add: aggregates_def)
    moreover have "aggregate_exact (wdb w) p" using inv by (simp add: ratings_inv_def)
    ultimately have "ratings_for (wdb w) p = []" by (simp add: aggregate_exact_def scores_of_def)
    then have "rating_by (wdb w) p u = None"
      by (auto simp: ratings_for_def rating_by_def find_None_iff filter_empty_conv)
    with pos(2) have "uuid_pos w1 = Suc (uuid_pos w)" by (rule mp)
    then show ?thesis using fresh(2) by (simp only: pos(1) same(1) not_False_eq_True)
  qed
  have "refers (t_products (wdb w1)) p" using refs(1) by (simp only: same(2))
  then have "\<exists>agg w2. recalculate_product_rating p w1 = (Inr agg, w2)"
    by (rule recalculate_total [OF rows1 some _ short single_aggregate [OF inv same(1)]]) (rule fresh1)
  then obtain agg w2 where re: "recalculate_product_rating p w1 = (Inr agg, w2)" by (elim exE)
  obtain prod where "lookup (t_products (wdb w)) p = Some prod"
    using refs(1) lookup_None_iff by (cases "lookup (t_products (wdb w)) p") auto
  then have "set_rating u p v w = (Inr (summary p (Some v) agg), w2)"
    using sc bought up re
    by (simp add: set_rating_def validate_rating_def require_product_def can_user_rate_product_def
        bind_require bind_fetch bind_step)
  then show ?thesis by blast
qed

end
