(* ===== verification/RatingProperties.thy ===== *)
theory RatingProperties
  imports Sample Ratings
begin

text \<open>
  The properties of product ratings. They rest on the facts of \<open>Ratings\<close> about the
  recomputation of the aggregate row.
\<close>

section \<open>Writing a rating\<close>

text \<open>
  C20: a rating is only written for a score of 1 to 5 on a product of which the caller has a
  completed order. Afterwards the caller's rating is that score, nobody else's rating has
  changed, the response shows the average, the count and the distribution of the ratings that
  are now stored, and no table besides the two of the ratings differs.
\<close>

theorem set_rating_effect:
  assumes "set_rating u p v w = (Inr dto, w')" and "ratings_inv (wdb w)"
  shows "1 \<le> v \<and> v \<le> 5 \<and> purchased (wdb w) u p \<and>
    map_option r_rating (rating_by (wdb w') p u) = Some v \<and>
    other_ratings u p (wdb w') = other_ratings u p (wdb w) \<and>
    dto = \<lparr>rs_product_id = p, rs_user_rating = Some v, rs_average_rating = Some (average_of (scores_of (wdb w') p)),
       rs_total_ratings = int (length (scores_of (wdb w') p)),
       rs_rating_distribution = distribution_of (\<lambda>s. int (count_list (scores_of (wdb w') p) s))\<rparr> \<and>
    wdb w' = (wdb w)\<lparr>t_ratings := t_ratings (wdb w'), t_product_ratings := t_product_ratings (wdb w')\<rparr>"
proof -
  from set_rating_step [OF assms] obtain d1 agg where r: "rated (wdb w) u p v d1"
    and re: "recalculated d1 p agg (wdb w')" and dto: "dto = summary p (Some v) agg"
    and v: "score v" and bought: "purchased (wdb w) u p" .
  have d1: "d1 = (wdb w)\<lparr>t_ratings := t_ratings d1\<rparr>" and rows: "rating_rows d1"
    using r by (simp_all add: rated_def)
  have d2: "wdb w' = d1\<lparr>t_product_ratings := t_product_ratings (wdb w')\<rparr>" using re by (simp add: recalculated_def)
  have t: "t_ratings (wdb w') = t_ratings d1" by (subst d2) simp
  have "wdb w' = (wdb w)\<lparr>t_ratings := t_ratings (wdb w'), t_product_ratings := t_product_ratings (wdb w')\<rparr>"
    by (subst d2, subst d1) (simp add: t)
  moreover have s: "scores_of d1 p = scores_of (wdb w') p" by (simp add: scores_of_def ratings_for_def t)
  obtain x where "rating_by d1 p u = Some x" using r by (auto simp: rated_def)
  from rating_by_SomeD [OF this] have "scores_of d1 p \<noteq> []"
    by (auto simp: scores_of_def ratings_for_def filter_empty_conv)
  then obtain a where agg: "agg = Some a" and m: "agg_matches a (scores_of d1 p)"
    using re by (cases agg) (simp_all add: recalculated_def)
  have "pr_distribution a = distribution_of (\<lambda>s. int (count_list (scores_of d1 p) s))"
    using m build_distribution_counts [OF scores_valid [OF rows, of p]] by (simp add: agg_matches_def)
  with m have "dto = \<lparr>rs_product_id = p, rs_user_rating = Some v,
      rs_average_rating = Some (average_of (scores_of (wdb w') p)),
      rs_total_ratings = int (length (scores_of (wdb w') p)),
      rs_rating_distribution = distribution_of (\<lambda>s. int (count_list (scores_of (wdb w') p) s))\<rparr>"
    by (simp add: dto agg summary_def agg_matches_def s)
  ultimately show ?thesis
    using v bought r by (simp add: rated_def rating_by_def other_ratings_def t)
qed

lemma sample_ratings_inv: "ratings_inv (wdb sample_world)"
  by (simp add: ratings_inv_def rating_rows_def aggregate_exact_def aggregates_def scores_of_def
      ratings_for_def sample_defs)

lemma sample_purchased: "purchased (wdb sample_world) 2 10"
  by (simp add: purchased_def sample_defs)

lemma sample_rating_run:
  assumes "score v"
  shows "\<exists>dto w'. set_rating 2 10 v sample_world = (Inr dto, w')"
  by (rule set_rating_total [OF sample_ratings_inv assms _ _ sample_purchased]) (simp_all add: sample_defs)

lemma set_rating_effect_witness:
  "\<exists>dto w'. set_rating 2 10 4 sample_world = (Inr dto, w') \<and> rs_user_rating dto = Some 4 \<and>
     map_option r_rating (rating_by (wdb w') 10 2) = Some 4"
proof -
  obtain dto w' where run: "set_rating 2 10 4 sample_world = (Inr dto, w')"
    using sample_rating_run [of 4] by auto
  from set_rating_effect [OF run sample_ratings_inv] run show ?thesis by auto
qed

text \<open>
  C36: whoever has a completed order with an existing product can rate it with 1 to 5: the
  write never fails on the database's constraints, in particular the stored average always
  meets its CHECK of 1.0 to 5.0. (The identifiers drawn for new rows are not in use, and the
  table does not exhaust the count's integer column.)
\<close>

theorem rating_is_accepted:
  assumes "ratings_inv (wdb w)" and "1 \<le> v" and "v \<le> 5"
    and "p \<in> set (row_ids (t_products (wdb w)))" and "u \<in> set (row_ids (t_users (wdb w)))"
    and "purchased (wdb w) u p"
    and "uuid_src w (uuid_pos w) \<notin> set (row_ids (t_ratings (wdb w)))"
    and "uuid_src w (Suc (uuid_pos w)) \<notin> set (row_ids (t_product_ratings (wdb w)))"
    and "length (t_ratings (wdb w)) < 2 ^ 31 - 1"
  shows "\<exists>dto w'. unit_of_work (set_rating u p v) w = (Inr dto, w')"
proof -
  have "score v" using assms(2,3) by simp
  from set_rating_total [OF assms(1) this assms(4-9)] obtain dto w' where
    "set_rating u p v w = (Inr dto, w')" by (elim exE)
  then show ?thesis by (intro exI) (simp only: unit_of_work_Inr)
qed

lemma rating_is_accepted_witness:
  "\<exists>dto w'. unit_of_work (set_rating 2 10 5) sample_world = (Inr dto, w')"
  by (rule rating_is_accepted [OF sample_ratings_inv _ _ _ _ sample_purchased]) (simp_all add: sample_defs)

section \<open>The aggregate rows\<close>

text \<open>
  Writing and removing ratings keep every product's aggregate row equal to what its
  ratings determine, and absent exactly when it has none; the other operations on orders do
  not touch the ratings.
\<close>

theorem aggregates_stay_exact:
  "preserves ratings_inv (set_rating u p v) \<and> preserves ratings_inv (delete_rating u p) \<and>
   frame (\<lambda>d. (t_ratings d, t_product_ratings d)) (create_order u data) \<and>
   frame (\<lambda>d. (t_ratings d, t_product_ratings d)) (update_status i target)"
  using set_rating_preserves [of u p v] delete_rating_preserves [of u p]
    frame_weaken [OF orders_frame(1), where q = "\<lambda>d. (t_ratings d, t_product_ratings d)"]
    frame_weaken [OF orders_frame(3), where q = "\<lambda>d. (t_ratings d, t_product_ratings d)"] by simp

text \<open>
  In a consistent database a stored average lies between 1.0 and 5.0 and within 0.05 of
  the mean of the product's scores; the stored count is the number of its ratings and the sum
  of its distribution.
\<close>

theorem aggregate_bounds:
  assumes "ratings_inv d" and "aggregate_row d p = Some a"
  shows "10 \<le> pr_average a \<and> pr_average a \<le> 50 \<and>
    2 * \<bar>pr_average a * pr_total a - 10 * sum_list (scores_of d p)\<bar> \<le> pr_total a \<and>
    pr_total a = int (length (ratings_for d p)) \<and> 1 \<le> pr_total a \<and>
    sum_list (map snd (pr_distribution a)) = pr_total a"
proof -
  have rows: "rating_rows d" and ex: "aggregate_exact d p" using assms(1) by (simp_all add: ratings_inv_def)
  from assms(2) obtain rest where "aggregates d p = a # rest"
    by (auto simp: aggregate_row_first split: list.splits)
  with ex have some: "scores_of d p \<noteq> []" and m: "agg_matches a (scores_of d p)"
    by (auto simp: aggregate_exact_def split: list.splits)
  note valid = scores_valid [OF rows, of p]
  have pos: "0 < int (length (scores_of d p))" using some by simp
  have near: "2 * \<bar>int (length (scores_of d p)) * average_of (scores_of d p) - 10 * sum_list (scores_of d p)\<bar>
      \<le> int (length (scores_of d p))"
    unfolding average_of_def by (rule round_half_even_near [OF pos])
  have "pr_distribution a = distribution_of (\<lambda>s. int (count_list (scores_of d p) s))"
    using m build_distribution_counts [OF valid] by (simp add: agg_matches_def)
  then have "sum_list (map snd (pr_distribution a)) = int (length (scores_of d p))"
    by (simp only: distribution_total [OF valid])
  moreover have "length (scores_of d p) = length (ratings_for d p)" by (simp add: scores_of_def)
  moreover have "1 \<le> int (length (scores_of d p))" using pos by linarith
  ultimately show ?thesis
    using m average_bounds [OF valid some] near by (simp add: agg_matches_def mult.commute)
qed

definition rated_sample :: database where
  "rated_sample = sample_db\<lparr>t_ratings := [new_rating 10 1 4 90 5, new_rating 10 2 5 91 6],
     t_product_ratings := [new_product_rating 10 45 2 (distribution_of (\<lambda>s. if s = 4 \<or> s = 5 then 1 else 0)) 92 6]\<rparr>"

lemma rated_sample_inv: "ratings_inv rated_sample"
proof -
  have "scores_of rated_sample p = (if p = 10 then [4, 5] else [])" for p
    by (simp add: scores_of_def ratings_for_def rated_sample_def new_rating_def)
  moreover have "aggregates rated_sample p = (if p = 10 then t_product_ratings rated_sample else [])" for p
    by (simp add: aggregates_def rated_sample_def new_product_rating_def)
  moreover have "build_distribution [4, 5] = Inr (distribution_of (\<lambda>s. if s = 4 \<or> s = 5 then 1 else 0))"
    by (subst build_distribution_counts) (simp_all add: distribution_of_def)
  moreover have "average_of [4, 5] = 45" by (simp add: average_of_def round_half_even_def)
  ultimately have "aggregate_exact rated_sample p" for p
    by (simp add: aggregate_exact_def agg_matches_def rated_sample_def new_product_rating_def)
  then show ?thesis
    by (simp add: ratings_inv_def rating_rows_def rated_sample_def new_rating_def new_product_rating_def)
qed

lemma aggregate_bounds_witness:
  "\<exists>a. aggregate_row rated_sample 10 = Some a \<and> pr_average a = 45 \<and> pr_average a \<le> 50 \<and>
     sum_list (map snd (pr_distribution a)) = pr_total a"
proof -
  obtain a where a: "aggregate_row rated_sample 10 = Some a" "pr_average a = 45"
    by (simp add: aggregate_row_def rated_sample_def new_product_rating_def)
  from aggregate_bounds [OF rated_sample_inv a(1)] a show ?thesis by auto
qed

definition shown :: "database \<Rightarrow> uuid \<Rightarrow> (int \<times> int \<times> (string \<times> int) list) option" where
  "shown d p = map_option (\<lambda>a. (pr_average a, pr_total a, pr_distribution a)) (aggregate_row d p)"

lemma shown_determined:
  assumes "ratings_inv d" and "ratings_inv d'" and "t_ratings d' = t_ratings d"
  shows "shown d' p = shown d p"
proof -
  have "shown x p = (if scores_of x p = [] then None
      else Some (average_of (scores_of x p), int (length (scores_of x p)),
                 distribution_of (\<lambda>s. int (count_list (scores_of x p) s))))" if inv: "ratings_inv x" for x
  proof -
    have "aggregate_exact x p" and rows: "rating_rows x" using inv by (simp_all add: ratings_inv_def)
    then show ?thesis
      using build_distribution_counts [OF scores_valid [OF rows, of p]]
      by (auto simp: shown_def aggregate_row_first aggregate_exact_def agg_matches_def split: list.splits)
  qed
  moreover have "scores_of d' p = scores_of d p" using assms(3) by (simp add: scores_of_def ratings_for_def)
  ultimately show ?thesis using assms(1,2) by simp
qed

text \<open>
  A first rating that is taken back leaves no trace: the stored ratings are the earlier
  ones again, and every product shows the average, count and distribution it had.
\<close>

theorem rating_round_trip:
  assumes "ratings_inv (wdb w)" and "rating_by (wdb w) p u = None"
    and "set_rating u p v w = (Inr dto, w1)" and "delete_rating u p w1 = (Inr dto', w2)"
  shows "t_ratings (wdb w2) = t_ratings (wdb w) \<and> (\<forall>q. shown (wdb w2) q = shown (wdb w) q)"
proof -
  have all: "other_ratings u p d = t_ratings d" if "rating_by d p u = None" for d
    using that by (auto simp: other_ratings_def rating_by_def find_None_iff intro!: filter_True)
  from set_rating_step [OF assms(3,1)] obtain d1 agg where r: "rated (wdb w) u p v d1"
    and re: "recalculated d1 p agg (wdb w1)" .
  from re have d1: "wdb w1 = d1\<lparr>t_product_ratings := t_product_ratings (wdb w1)\<rparr>" by (simp add: recalculated_def)
  have "t_ratings (wdb w1) = t_ratings d1" by (subst d1) simp
  then have o1: "other_ratings u p (wdb w1) = t_ratings (wdb w)"
    using r all [OF assms(2)] by (simp add: rated_def other_ratings_def)
  have inv1: "ratings_inv (wdb w1)" by (rule preservesD [OF set_rating_preserves assms(3,1)])
  have inv2: "ratings_inv (wdb w2)" by (rule preservesD [OF delete_rating_preserves assms(4) inv1])
  from delete_rating_step [OF assms(4) inv1] obtain d2 agg' where "rating_by d2 p u = None"
      "other_ratings u p d2 = other_ratings u p (wdb w1)" "recalculated d2 p agg' (wdb w2)" .
  then have "t_ratings d2 = t_ratings (wdb w)" and d2: "wdb w2 = d2\<lparr>t_product_ratings := t_product_ratings (wdb w2)\<rparr>"
    using all [of d2] o1 by (simp_all add: recalculated_def)
  moreover have "t_ratings (wdb w2) = t_ratings d2" by (subst d2) simp
  ultimately have "t_ratings (wdb w2) = t_ratings (wdb w)" by simp
  then show ?thesis using shown_determined [OF assms(1) inv2] by blast
qed

lemma delete_rating_total:
  assumes inv: "ratings_inv (wdb w)" and r: "rating_by (wdb w) p u = Some r"
    and ref: "refers (t_products (wdb w)) p" and small: "length (t_ratings (wdb w)) < 2 ^ 31"
  shows "\<exists>dto w'. delete_rating u p w = (Inr dto, w')"
proof -
  have rows: "rating_rows (wdb w)" using inv by (simp add: ratings_inv_def)
  define w1 where "w1 = w\<lparr>wdb := t_ratings_update (remove_row (row_id r)) (wdb w)\<rparr>"
  have del: "delete_rating_row (row_id r) w = (Inr (), w1)"
    by (simp add: delete_rating_row_def db_delete_def require_def w1_def)
  have rows1: "rating_rows (wdb w1)" using delete_row_InrE [OF del rows r] by (elim conjE)
  have single: "length (aggregates (wdb w1) p) \<le> 1" by (rule single_aggregate [OF inv]) (simp add: w1_def)
  have "scores_of (wdb w) p \<noteq> []"
    using rating_by_SomeD [OF r] by (auto simp: scores_of_def ratings_for_def filter_empty_conv)
  moreover have "aggregate_exact (wdb w) p" using inv by (simp add: ratings_inv_def)
  ultimately have agg: "aggregates (wdb w1) p \<noteq> []"
    by (auto simp: aggregate_exact_def w1_def aggregates_def)
  have "\<exists>x w'. recalculate_product_rating p w1 = (Inr x, w')"
  proof (cases "scores_of (wdb w1) p = []")
    case True
    then show ?thesis
      by (auto simp: recalculate_product_rating_def scores_of_def delete_product_rating_def db_delete_def
          require_def bind_def split: option.splits)
  next
    case False
    have "length (scores_of (wdb w1) p) \<le> length (t_ratings (wdb w))"
      by (simp add: scores_of_def ratings_for_def w1_def remove_row_def filter_filter)
    then have short: "length (scores_of (wdb w1) p) < 2 ^ 31" using small by simp
    have "refers (t_products (wdb w1)) p" using ref by (simp add: w1_def)
    with False show ?thesis by (rule recalculate_total [OF rows1 _ _ short single]) (simp add: agg)
  qed
  then show ?thesis
    using del r by (auto simp: delete_rating_def bind_fetch bind_step)
qed

lemma rating_round_trip_witness:
  "\<exists>dto w1 dto' w2. set_rating 2 10 3 sample_world = (Inr dto, w1) \<and> delete_rating 2 10 w1 = (Inr dto', w2) \<and>
     t_ratings (wdb w2) = []"
proof -
  obtain dto w1 where run: "set_rating 2 10 3 sample_world = (Inr dto, w1)"
    using sample_rating_run [of 3] by auto
  obtain dto' w2 where undo: "delete_rating 2 10 w1 = (Inr dto', w2)"
  proof -
    from set_rating_effect [OF run sample_ratings_inv] have e: "map_option r_rating (rating_by (wdb w1) 10 2) = Some 3"
      "other_ratings 2 10 (wdb w1) = []" "t_products (wdb w1) = t_products (wdb sample_world)"
      by (auto simp: other_ratings_def sample_defs dest: arg_cong [of _ _ t_products])
    have inv1: "ratings_inv (wdb w1)" by (rule preservesD [OF set_rating_preserves run sample_ratings_inv])
    let ?keys = "map (\<lambda>r. (r_product_id r, r_user_id r)) (t_ratings (wdb w1))"
    have "distinct ?keys" using inv1 by (simp add: ratings_inv_def rating_rows_def)
    moreover have "set ?keys \<subseteq> {(10, 2)}" using e(2) by (auto simp: other_ratings_def filter_empty_conv)
    ultimately have "length (t_ratings (wdb w1)) \<le> 1"
      using card_mono [of "{(10, 2)}" "set ?keys"] distinct_card [of ?keys] by simp
    then have small: "length (t_ratings (wdb w1)) < 2 ^ 31" by simp
    have "refers (t_products (wdb w1)) 10" unfolding e(3) by (simp add: sample_defs)
    moreover from e obtain r where "rating_by (wdb w1) 10 2 = Some r" by auto
    ultimately have "\<exists>dto' w2. delete_rating 2 10 w1 = (Inr dto', w2)"
      using small by (intro delete_rating_total [OF inv1])
    then show thesis by (elim exE) (rule that)
  qed
  have "rating_by (wdb sample_world) 10 2 = None" "t_ratings (wdb sample_world) = []"
    by (simp_all add: rating_by_def sample_defs)
  with rating_round_trip [OF sample_ratings_inv this(1) run undo] have "t_ratings (wdb w2) = []" by simp
  with run undo show ?thesis by blast
qed

end
