(* ===== verification/Subscriptions.thy ===== *)
theory Subscriptions
  imports PaymentMethods
begin

text \<open>
  Subscriptions: the request and response types (\<open>src/subscriptions/schemas.py\<close>), the
  service (\<open>src/subscriptions/service.py\<close>) and the billing on top of the payment provider
  (\<open>src/payments/billing.py\<close>). The provider is optional, as in the constructor of
  \<open>SubscriptionService\<close>. The address of a request is the \<open>delivery_in\<close> of the orders.
\<close>

section \<open>Requests and responses\<close>

record CreateSubscriptionRequest =
  cs_product_id :: uuid
  cs_frequency :: frequency
  cs_delivery :: delivery_in
  cs_payment_method_id :: "uuid option"

record SubscriptionEventDTO =
  ev_id :: uuid
  ev_scheduled_date :: date
  ev_price :: money
  ev_currency :: string
  ev_status :: event_status
  ev_product_name :: string
  ev_product_price :: money
  ev_order_id :: "uuid option"

record SubscriptionDeliveryInfoDTO =
  sd_recipient_name :: string
  sd_phone :: string
  sd_address :: string
  sd_city :: string
  sd_postal_code :: "string option"
  sd_notes :: "string option"

record SubscriptionDTO =
  su_id :: uuid
  su_user_id :: uuid
  su_status :: subscription_status
  su_total_price :: money
  su_currency :: string
  su_delivery :: "SubscriptionDeliveryInfoDTO option"
  su_events :: "SubscriptionEventDTO list"
  su_created_at :: datetime
  su_updated_at :: datetime

record SubscriptionListItemDTO =
  sl_id :: uuid
  sl_status :: subscription_status
  sl_event_count :: nat
  sl_total_price :: money
  sl_next_delivery_date :: "date option"
  sl_created_at :: datetime

record SubscriptionListDTO =
  sls_items :: "SubscriptionListItemDTO list"
  sls_total :: nat

section \<open>The aggregate\<close>

text \<open>
  A subscription as \<open>_EVENT_OPTIONS\<close> load it: the address and the events in the order of
  their dates, each with its product snapshot.
\<close>

record subscription_aggregate =
  sa_sub :: subscription
  sa_delivery :: "subscription_delivery_info option"
  sa_events :: "(subscription_event \<times> subscription_product option) list"

definition events_of :: "database \<Rightarrow> uuid \<Rightarrow> subscription_event list" where
  "events_of d i = filter (\<lambda>e. se_subscription_id e = i) (t_events d)"

definition event_product :: "database \<Rightarrow> uuid \<Rightarrow> subscription_product option" where
  "event_product d i = find (\<lambda>p. sp_event_id p = i) (t_sub_products d)"

definition sub_delivery :: "database \<Rightarrow> uuid \<Rightarrow> subscription_delivery_info option" where
  "sub_delivery d i = find (\<lambda>x. sdi_subscription_id x = i) (t_sub_delivery d)"

definition sub_aggregate :: "database \<Rightarrow> subscription \<Rightarrow> subscription_aggregate" where
  "sub_aggregate d s =
     \<lparr>sa_sub = s, sa_delivery = sub_delivery d (row_id s),
      sa_events = map (\<lambda>e. (e, event_product d (row_id e)))
        (sort_key se_scheduled_date (events_of d (row_id s)))\<rparr>"

definition load_subscription :: "database \<Rightarrow> uuid \<Rightarrow> subscription_aggregate option" where
  "load_subscription d i = map_option (sub_aggregate d) (lookup (t_subscriptions d) i)"

definition event_dto :: "subscription_event \<times> subscription_product option \<Rightarrow> exn + SubscriptionEventDTO" where
  "event_dto ep = (case ep of (e, product) \<Rightarrow>
     (case product of
        None \<Rightarrow> Inl AssertionError
      | Some p \<Rightarrow> Inr \<lparr>ev_id = row_id e, ev_scheduled_date = se_scheduled_date e, ev_price = se_price e,
          ev_currency = se_currency e, ev_status = se_status e, ev_product_name = sp_product_name p,
          ev_product_price = sp_product_price p, ev_order_id = se_order_id e\<rparr>))"

definition sub_delivery_dto :: "subscription_delivery_info \<Rightarrow> SubscriptionDeliveryInfoDTO" where
  "sub_delivery_dto x = \<lparr>sd_recipient_name = sdi_recipient_name x, sd_phone = sdi_phone x,
     sd_address = sdi_address x, sd_city = sdi_city x, sd_postal_code = sdi_postal_code x,
     sd_notes = sdi_notes x\<rparr>"

definition sorted_events :: "subscription_aggregate \<Rightarrow> (subscription_event \<times> subscription_product option) list" where
  "sorted_events a = sort_key (\<lambda>ep. se_scheduled_date (fst ep)) (sa_events a)"

definition events_total :: "subscription_aggregate \<Rightarrow> money" where
  "events_total a = sum_list (map (\<lambda>ep. se_price (fst ep)) (sa_events a))"

definition subscription_dto :: "subscription_aggregate \<Rightarrow> exn + SubscriptionDTO" where
  "subscription_dto a =
     (case map_sum_list event_dto (sorted_events a) of
        Inl e \<Rightarrow> Inl e
      | Inr evs \<Rightarrow> Inr \<lparr>su_id = row_id (sa_sub a), su_user_id = s_user_id (sa_sub a),
          su_status = s_status (sa_sub a), su_total_price = events_total a,
          su_currency = (case sorted_events a of [] \<Rightarrow> ''EUR'' | ep # _ \<Rightarrow> se_currency (fst ep)),
          su_delivery = map_option sub_delivery_dto (sa_delivery a), su_events = evs,
          su_created_at = created_at (sa_sub a), su_updated_at = updated_at (sa_sub a)\<rparr>)"

definition sub_list_item_dto :: "subscription_aggregate \<Rightarrow> SubscriptionListItemDTO" where
  "sub_list_item_dto a =
     (let upcoming = filter (\<lambda>ep. se_status (fst ep) \<in> {EvPENDING, EvREADY, EvPAUSED}) (sorted_events a)
      in \<lparr>sl_id = row_id (sa_sub a), sl_status = s_status (sa_sub a),
          sl_event_count = length (sorted_events a), sl_total_price = events_total a,
          sl_next_delivery_date = (case upcoming of [] \<Rightarrow> None | ep # _ \<Rightarrow> Some (se_scheduled_date (fst ep))),
          sl_created_at = created_at (sa_sub a)\<rparr>)"

section \<open>Billing\<close>

definition new_sub_payment ::
  "uuid \<Rightarrow> string \<Rightarrow> string \<Rightarrow> payment_status \<Rightarrow> datetime option \<Rightarrow> subscription_event \<Rightarrow> uuid \<Rightarrow> datetime \<Rightarrow>
   subscription_payment" where
  "new_sub_payment user_id provider_name txn st completed e i t =
     \<lparr>row_id = i, created_at = t, updated_at = t, spay_event_id = row_id e, spay_user_id = user_id,
      spay_amount = se_price e, spay_method = ''card'', spay_provider = provider_name,
      spay_txn_id = Some txn, spay_status = st, spay_completed_at = completed\<rparr>"

definition charge_subscription_upfront ::
  "payment_provider \<Rightarrow> subscription_aggregate \<Rightarrow> payment_method option \<Rightarrow> bool session" where
  "charge_subscription_upfront prov a method =
     (if sa_events a = [] then ret True
      else
        bind (create_charge prov \<lparr>ch_amount = events_total a, ch_currency = ''EUR'',
                ch_reference = str_uuid (row_id (sa_sub a)),
                ch_customer_id = map_option pm_customer_id method,
                ch_method_token = map_option pm_token method\<rparr>) (\<lambda>result.
        if cr_status result \<noteq> ''completed'' then ret False
        else
          bind (gets now) (\<lambda>t.
          bind (forM (\<lambda>ep. add_sub_payment (new_sub_payment (s_user_id (sa_sub a)) (pv_name prov)
                       (cr_txn_id result) PayCOMPLETED (Some t) (fst ep))) (sa_events a)) (\<lambda>_.
          ret True))))"

definition charge_event_off_session ::
  "payment_provider \<Rightarrow> subscription \<Rightarrow> subscription_event \<Rightarrow> subscription_payment session" where
  "charge_event_off_session prov s e =
     bind (create_charge prov \<lparr>ch_amount = se_price e, ch_currency = ''EUR'',
             ch_reference = str_uuid (row_id s) @ '':'' @ str_uuid (row_id e),
             ch_customer_id = Some (str_uuid (s_user_id s)), ch_method_token = None\<rparr>) (\<lambda>result.
     bind (gets now) (\<lambda>t.
     if cr_status result = ''completed''
     then add_sub_payment (new_sub_payment (s_user_id s) (pv_name prov) (cr_txn_id result) PayCOMPLETED (Some t) e)
     else add_sub_payment (new_sub_payment (s_user_id s) (pv_name prov) (cr_txn_id result) PayFAILED None e)))"

fun refund_payments :: "payment_provider \<Rightarrow> string set \<Rightarrow> subscription_payment list \<Rightarrow> nat session" where
  "refund_payments prov refunded [] = ret 0"
| "refund_payments prov refunded (p # ps) =
     (case spay_txn_id p of
        None \<Rightarrow> refund_payments prov refunded ps
      | Some txn \<Rightarrow>
          bind (if txn \<in> refunded then ret () else bind (provider_refund prov txn) (\<lambda>_. ret ())) (\<lambda>_.
          bind (save_sub_payment (p\<lparr>spay_status := PayREFUNDED\<rparr>)) (\<lambda>_.
          bind (refund_payments prov (insert txn refunded) ps) (\<lambda>n. ret (Suc n)))))"

definition undelivered :: "subscription_event \<Rightarrow> bool" where
  "undelivered e \<longleftrightarrow> se_status e \<in> {EvPENDING, EvPAUSED, EvREADY}"

definition refund_undelivered_payments :: "payment_provider \<Rightarrow> subscription_aggregate \<Rightarrow> nat session" where
  "refund_undelivered_payments prov a =
     (let ids = map row_id (filter undelivered (map fst (sa_events a)))
      in if ids = [] then ret 0
         else bind (query (\<lambda>d. filter (\<lambda>p. spay_event_id p \<in> set ids \<and> spay_status p = PayCOMPLETED) (t_sub_payments d)))
                (refund_payments prov {}))"

section \<open>Service\<close>

definition require_owned_subscription :: "uuid \<Rightarrow> uuid \<Rightarrow> subscription_aggregate session" where
  "require_owned_subscription i user_id =
     bind (fetch (\<lambda>d. load_subscription d i) (SubscriptionExn (SubscriptionNotFoundError i))) (\<lambda>a.
     bind (require (s_user_id (sa_sub a) = user_id) (SubscriptionExn SubscriptionAccessDeniedError)) (\<lambda>_. ret a))"

definition reload_subscription :: "uuid \<Rightarrow> subscription_aggregate session" where
  "reload_subscription i = fetch (\<lambda>d. load_subscription d i) AssertionError"

definition list_subscriptions :: "uuid \<Rightarrow> SubscriptionListDTO session" where
  "list_subscriptions user_id =
     bind (query (\<lambda>d. map (sub_aggregate d)
       (sort_desc (\<lambda>s. (created_at s, row_id s)) (filter (\<lambda>s. s_user_id s = user_id) (t_subscriptions d))))) (\<lambda>rows.
     ret \<lparr>sls_items = map sub_list_item_dto rows, sls_total = length rows\<rparr>)"

definition get_subscription :: "uuid \<Rightarrow> uuid \<Rightarrow> SubscriptionDTO session" where
  "get_subscription i user_id = bind (require_owned_subscription i user_id) (\<lambda>a. of_sum (subscription_dto a))"

definition new_subscription :: "uuid \<Rightarrow> frequency \<Rightarrow> uuid \<Rightarrow> datetime \<Rightarrow> subscription" where
  "new_subscription user_id freq i t =
     \<lparr>row_id = i, created_at = t, updated_at = t, s_user_id = user_id, s_frequency = freq,
      s_status = SubPENDING\<rparr>"

definition new_sub_delivery :: "uuid \<Rightarrow> delivery_in \<Rightarrow> uuid \<Rightarrow> datetime \<Rightarrow> subscription_delivery_info" where
  "new_sub_delivery sub_id a i t =
     \<lparr>row_id = i, created_at = t, updated_at = t, sdi_subscription_id = sub_id,
      sdi_recipient_name = dl_recipient_name a, sdi_phone = dl_phone a, sdi_address = dl_address a,
      sdi_city = dl_city a, sdi_postal_code = dl_postal_code a, sdi_notes = dl_notes a\<rparr>"

definition new_event :: "uuid \<Rightarrow> money \<Rightarrow> date \<Rightarrow> uuid \<Rightarrow> datetime \<Rightarrow> subscription_event" where
  "new_event sub_id price scheduled i t =
     \<lparr>row_id = i, created_at = t, updated_at = t, se_subscription_id = sub_id, se_order_id = None,
      se_scheduled_date = scheduled, se_price = price, se_currency = ''EUR'', se_status = EvPENDING\<rparr>"

definition new_sub_product :: "product \<Rightarrow> subscription_event \<Rightarrow> uuid \<Rightarrow> datetime \<Rightarrow> subscription_product" where
  "new_sub_product p e i t =
     \<lparr>row_id = i, created_at = t, updated_at = t, sp_event_id = row_id e, sp_product_id = row_id p,
      sp_product_name = p_name p, sp_product_price = p_price p\<rparr>"

definition charge_and_activate ::
  "payment_provider \<Rightarrow> subscription_aggregate \<Rightarrow> payment_method \<Rightarrow> unit session" where
  "charge_and_activate prov a method =
     bind (charge_subscription_upfront prov a (Some method)) (\<lambda>charged.
     bind (require charged (PaymentExn (PaymentInvalidStateError
            ''Subscription upfront charge failed; subscription left inactive''))) (\<lambda>_.
     save_subscription ((sa_sub a)\<lparr>s_status := SubACTIVE\<rparr>)))"

definition schedule_subscription :: "uuid \<Rightarrow> CreateSubscriptionRequest \<Rightarrow> product \<Rightarrow> subscription session" where
  \<comment> \<open>the rows that \<open>create\<close> adds: subscription and address, the events, their products\<close>
  "schedule_subscription user_id data product =
     bind (gets now) (\<lambda>t.
     bind (add_subscription (new_subscription user_id (cs_frequency data))) (\<lambda>s.
     bind (add_sub_delivery (new_sub_delivery (row_id s) (cs_delivery data))) (\<lambda>_.
     bind (forM (\<lambda>scheduled. add_event (new_event (row_id s) (p_price product) scheduled))
             (event_dates (date_of t) (cs_frequency data))) (\<lambda>events.
     bind (forM (\<lambda>e. add_sub_product (new_sub_product product e)) events) (\<lambda>_. ret s)))))"

definition create_subscription ::
  "payment_provider option \<Rightarrow> uuid \<Rightarrow> CreateSubscriptionRequest \<Rightarrow> SubscriptionDTO session" where
  "create_subscription provider user_id data =
     bind (fetch (\<lambda>d. lookup (t_products d) (cs_product_id data))
            (SubscriptionExn (SubscriptionProductNotFoundError (cs_product_id data)))) (\<lambda>product.
     bind (require (p_is_active product)
            (SubscriptionExn (SubscriptionProductInactiveError (cs_product_id data)))) (\<lambda>_.
     bind (schedule_subscription user_id data product) (\<lambda>s.
     bind (reload_subscription (row_id s)) (\<lambda>loaded.
     bind (case cs_payment_method_id data of
             None \<Rightarrow> ret loaded
           | Some method_id \<Rightarrow>
               (case provider of
                  None \<Rightarrow> raise (PaymentExn (PaymentInvalidStateError ''Payment provider not configured''))
                | Some prov \<Rightarrow>
                    bind (get_method user_id method_id) (\<lambda>method.
                    bind (charge_and_activate prov loaded method) (\<lambda>_.
                    reload_subscription (row_id s))))) (\<lambda>final.
     of_sum (subscription_dto final))))))"

definition pay_subscription ::
  "payment_provider option \<Rightarrow> uuid \<Rightarrow> uuid \<Rightarrow> uuid \<Rightarrow> SubscriptionDTO session" where
  "pay_subscription provider i user_id method_id =
     (case provider of
        None \<Rightarrow> raise (PaymentExn (PaymentInvalidStateError ''Payment provider not configured''))
      | Some prov \<Rightarrow>
          bind (require_owned_subscription i user_id) (\<lambda>a.
          bind (require (s_status (sa_sub a) = SubPENDING) (SubscriptionExn (SubscriptionInvalidStateError
                 (subscription_status_value (s_status (sa_sub a))) ''pay''))) (\<lambda>_.
          bind (get_method user_id method_id) (\<lambda>method.
          bind (charge_and_activate prov a method) (\<lambda>_.
          bind (reload_subscription i) (\<lambda>a'. of_sum (subscription_dto a')))))))"

definition bulk_event_status :: "subscription_event list \<Rightarrow> event_status set \<Rightarrow> event_status \<Rightarrow> unit session" where
  "bulk_event_status events old new =
     bind (forM (\<lambda>e. if se_status e \<in> old then save_event (e\<lparr>se_status := new\<rparr>) else ret ()) events) (\<lambda>_. ret ())"

definition switch_status ::
  "subscription_aggregate \<Rightarrow> subscription_status \<Rightarrow> event_status set \<Rightarrow> event_status \<Rightarrow> unit session" where
  \<comment> \<open>the assignments shared by pause, resume and cancel, with their flush\<close>
  "switch_status a st old new =
     bind (save_subscription ((sa_sub a)\<lparr>s_status := st\<rparr>)) (\<lambda>_.
     bulk_event_status (map fst (sa_events a)) old new)"

definition pause_subscription :: "uuid \<Rightarrow> uuid \<Rightarrow> SubscriptionDTO session" where
  "pause_subscription i user_id =
     bind (require_owned_subscription i user_id) (\<lambda>a.
     bind (require (s_status (sa_sub a) = SubACTIVE) (SubscriptionExn (SubscriptionInvalidStateError
            (subscription_status_value (s_status (sa_sub a))) ''pause''))) (\<lambda>_.
     bind (switch_status a SubPAUSED {EvPENDING} EvPAUSED) (\<lambda>_.
     bind (reload_subscription i) (\<lambda>a'. of_sum (subscription_dto a')))))"

definition resume_subscription :: "uuid \<Rightarrow> uuid \<Rightarrow> SubscriptionDTO session" where
  "resume_subscription i user_id =
     bind (require_owned_subscription i user_id) (\<lambda>a.
     bind (require (s_status (sa_sub a) = SubPAUSED) (SubscriptionExn (SubscriptionInvalidStateError
            (subscription_status_value (s_status (sa_sub a))) ''resume''))) (\<lambda>_.
     bind (switch_status a SubACTIVE {EvPAUSED} EvPENDING) (\<lambda>_.
     bind (reload_subscription i) (\<lambda>a'. of_sum (subscription_dto a')))))"

definition cancel_subscription :: "payment_provider option \<Rightarrow> uuid \<Rightarrow> uuid \<Rightarrow> SubscriptionDTO session" where
  "cancel_subscription provider i user_id =
     bind (require_owned_subscription i user_id) (\<lambda>a.
     bind (require (s_status (sa_sub a) \<notin> {SubCANCELLED, SubCOMPLETED}) (SubscriptionExn
            (SubscriptionInvalidStateError (subscription_status_value (s_status (sa_sub a))) ''cancel''))) (\<lambda>_.
     bind (case provider of None \<Rightarrow> ret 0 | Some prov \<Rightarrow> refund_undelivered_payments prov a) (\<lambda>_.
     bind (switch_status a SubCANCELLED {EvPENDING, EvPAUSED, EvREADY} EvCANCELLED) (\<lambda>_.
     bind (reload_subscription i) (\<lambda>a'. of_sum (subscription_dto a'))))))"

end
