(* ===== verification/SubscriptionInvariant.thy ===== *)
theory SubscriptionInvariant
  imports Subscriptions
begin

text \<open>
  The invariant of subscriptions and that the service keeps it: the statuses of a
  subscription and of its events agree, an event has an order exactly when it is ready or
  completed (or was cancelled after that), no order serves two events, each event has a
  product snapshot at the event's price, and no two events of a subscription share a date.
\<close>

section \<open>The invariant\<close>

fun statuses_agree :: "subscription_status \<Rightarrow> event_status \<Rightarrow> bool" where
  "statuses_agree SubPENDING x \<longleftrightarrow> x = EvPENDING"
| "statuses_agree SubACTIVE x \<longleftrightarrow> x = EvPENDING \<or> x = EvREADY \<or> x = EvCOMPLETED"
| "statuses_agree SubPAUSED x \<longleftrightarrow> x = EvPAUSED \<or> x = EvREADY \<or> x = EvCOMPLETED"
| "statuses_agree SubCANCELLED x \<longleftrightarrow> x = EvCANCELLED \<or> x = EvCOMPLETED"
| "statuses_agree SubCOMPLETED x \<longleftrightarrow> False"

definition order_agrees :: "event_status \<Rightarrow> uuid option \<Rightarrow> bool" where
  "order_agrees x i \<longleftrightarrow> (x = EvPENDING \<or> x = EvPAUSED \<longrightarrow> i = None) \<and> (x = EvREADY \<or> x = EvCOMPLETED \<longrightarrow> i \<noteq> None)"

definition event_sound :: "database \<Rightarrow> subscription_event \<Rightarrow> bool" where
  "event_sound d e \<longleftrightarrow> fits_subscription_event e \<and> check_subscription_event e \<and>
     order_agrees (se_status e) (se_order_id e) \<and> opt_fits (refers (t_orders d)) (se_order_id e) \<and>
     (case lookup (t_subscriptions d) (se_subscription_id e) of
        None \<Rightarrow> False | Some s \<Rightarrow> statuses_agree (s_status s) (se_status e)) \<and>
     (case event_product d (row_id e) of None \<Rightarrow> False | Some p \<Rightarrow> sp_product_price p = se_price e)"

definition sub_payment_sound :: "database \<Rightarrow> subscription_payment \<Rightarrow> bool" where
  "sub_payment_sound d p \<longleftrightarrow> fits_subscription_payment p \<and> check_subscription_payment p \<and>
     refers (t_events d) (spay_event_id p) \<and> refers (t_users d) (spay_user_id p) \<and> spay_txn_id p \<noteq> None"

definition one_event_per_order :: "subscription_event list \<Rightarrow> bool" where
  "one_event_per_order t \<longleftrightarrow>
     (\<forall>e \<in> set t. \<forall>f \<in> set t. se_order_id e = se_order_id f \<longrightarrow> se_order_id e \<noteq> None \<longrightarrow> row_id e = row_id f)"

abbreviation slot :: "subscription_event \<Rightarrow> uuid \<times> date" where
  "slot e \<equiv> (se_subscription_id e, se_scheduled_date e)"

definition subscriptions_inv :: "database \<Rightarrow> bool" where
  "subscriptions_inv d \<longleftrightarrow>
     distinct (row_ids (t_subscriptions d)) \<and> distinct (row_ids (t_events d)) \<and>
     distinct (row_ids (t_sub_products d)) \<and> distinct (row_ids (t_sub_payments d)) \<and>
     (\<forall>s \<in> set (t_subscriptions d). refers (t_users d) (s_user_id s)) \<and>
     (\<forall>e \<in> set (t_events d). event_sound d e) \<and>
     (\<forall>p \<in> set (t_sub_products d). refers (t_events d) (sp_event_id p)) \<and>
     (\<forall>p \<in> set (t_sub_payments d). sub_payment_sound d p) \<and>
     distinct (map slot (t_events d)) \<and> one_event_per_order (t_events d)"

lemma subscriptions_invD:
  assumes "subscriptions_inv d"
  shows "distinct (row_ids (t_subscriptions d))" "distinct (row_ids (t_events d))"
    "distinct (row_ids (t_sub_products d))" "distinct (row_ids (t_sub_payments d))"
    "s \<in> set (t_subscriptions d) \<Longrightarrow> refers (t_users d) (s_user_id s)"
    "e \<in> set (t_events d) \<Longrightarrow> event_sound d e"
    "p \<in> set (t_sub_products d) \<Longrightarrow> refers (t_events d) (sp_event_id p)"
    "q \<in> set (t_sub_payments d) \<Longrightarrow> sub_payment_sound d q"
    "distinct (map slot (t_events d))" "one_event_per_order (t_events d)"
  using assms unfolding subscriptions_inv_def by blast+

text \<open>The columns the invariant reads, so that an operation on other tables keeps it.\<close>

lemma subscriptions_inv_grow:
  assumes "subscriptions_inv d"
    and "t_subscriptions d' = t_subscriptions d" "t_events d' = t_events d" "t_sub_products d' = t_sub_products d"
      "t_sub_payments d' = t_sub_payments d"
    and "set (row_ids (t_users d)) \<subseteq> set (row_ids (t_users d'))"
    and "set (row_ids (t_orders d)) \<subseteq> set (row_ids (t_orders d'))"
  shows "subscriptions_inv d'"
proof -
  have "event_sound d' e" if "event_sound d e" for e
    using that assms by (auto simp: event_sound_def event_product_def opt_fits_def split: option.splits)
  moreover have "sub_payment_sound d' p" if "sub_payment_sound d p" for p
    using that assms by (auto simp: sub_payment_sound_def)
  ultimately show ?thesis
    using assms unfolding subscriptions_inv_def by (auto simp: subset_iff)
qed

lemma lookup_refers: "lookup t i = Some r \<Longrightarrow> refers t i"
  using lookup_None_iff [of t i] by simp

lemma event_of_subscription:
  assumes "subscriptions_inv d" and "e \<in> set (t_events d)"
  obtains s where "lookup (t_subscriptions d) (se_subscription_id e) = Some s"
    and "statuses_agree (s_status s) (se_status e)"
  using subscriptions_invD(6) [OF assms] by (auto simp: event_sound_def split: option.splits)

lemma same_slot:
  assumes "subscriptions_inv d" and "e \<in> set (t_events d)" and "f \<in> set (t_events d)" and "slot e = slot f"
  shows "e = f"
  using subscriptions_invD(9) [OF assms(1)] assms(2-4) by (auto simp: distinct_map dest: inj_onD)

text \<open>An event stays storable when only its status and its order change.\<close>

lemma event_storable:
  assumes inv: "subscriptions_inv d" and e: "e \<in> set (t_events d)"
    and f: "f = e\<lparr>se_status := x, se_order_id := i\<rparr>" and i: "opt_fits (refers (t_orders d)) i"
  shows "fits_subscription_event f \<and> ok_event d f"
proof -
  have sound: "event_sound d e" by (rule subscriptions_invD(6) [OF inv e])
  have "refers (t_subscriptions d) (se_subscription_id e)"
    using sound by (auto simp: event_sound_def split: option.splits dest: lookup_refers)
  moreover have "unique_by slot (t_events d) f"
    using same_slot [OF inv _ e] by (auto simp: unique_by_def f)
  moreover have "case se_order_id f of None \<Rightarrow> True | Some i \<Rightarrow> refers (t_orders d) i"
    using i by (simp add: f opt_fits_def)
  ultimately show ?thesis
    using sound by (simp add: event_sound_def ok_event_def fits_subscription_event_def
        check_subscription_event_def f)
qed

section \<open>Changing statuses\<close>

definition flip :: "datetime \<Rightarrow> event_status set \<Rightarrow> event_status \<Rightarrow> subscription_event \<Rightarrow> subscription_event" where
  "flip t old new e = (if se_status e \<in> old then e\<lparr>se_status := new, updated_at := t\<rparr> else e)"

lemma flip_simps [simp]:
  "row_id (flip t old new e) = row_id e" "se_subscription_id (flip t old new e) = se_subscription_id e"
  "se_scheduled_date (flip t old new e) = se_scheduled_date e" "se_order_id (flip t old new e) = se_order_id e"
  "se_price (flip t old new e) = se_price e" "se_currency (flip t old new e) = se_currency e"
  "se_status (flip t old new e) = (if se_status e \<in> old then new else se_status e)"
  by (simp_all add: flip_def)

lemma status_changed: "se_status e \<noteq> new \<Longrightarrow> e\<lparr>se_status := new\<rparr> \<noteq> e"
proof
  assume "se_status e \<noteq> new" and "e\<lparr>se_status := new\<rparr> = e"
  then have "se_status (e\<lparr>se_status := new\<rparr>) = se_status e" by (simp only:)
  with \<open>se_status e \<noteq> new\<close> show False by simp
qed

lemma touch_flip:
  assumes "new \<notin> old"
  shows "(\<lambda>e. if se_status e \<in> old then touch t e (e\<lparr>se_status := new\<rparr>) else e) = flip t old new"
proof (rule ext)
  fix e :: subscription_event
  have "e\<lparr>se_status := new\<rparr> \<noteq> e" if "se_status e \<in> old"
    using that assms by (intro status_changed) auto
  then show "(if se_status e \<in> old then touch t e (e\<lparr>se_status := new\<rparr>) else e) = flip t old new e"
    by (simp add: touch_def flip_def)
qed

lemma bulk_InrE:
  assumes "bulk_event_status es old new w = (Inr u, w')" and "set es \<subseteq> set (t_events (wdb w))"
    and "distinct (row_ids es)" and "distinct (row_ids (t_events (wdb w)))" and "new \<notin> old"
  shows "w' = w\<lparr>wdb := t_events_update (map (on (set (row_ids es)) (flip (now w) old new))) (wdb w)\<rparr>"
proof -
  from assms(1) obtain us where
    "forM (\<lambda>e. if se_status e \<in> old then save_event (e\<lparr>se_status := new\<rparr>) else ret ()) es w = (Inr us, w')"
    by (auto simp: bulk_event_status_def elim!: bind_InrE)
  from events_rel.forM_save_on [OF this assms(2-4)] show ?thesis by (simp add: touch_flip [OF assms(5)])
qed

section \<open>Switching the status of a subscription with its events\<close>

lemma load_subscription_Some:
  "load_subscription d i = Some a \<longleftrightarrow> (\<exists>s. lookup (t_subscriptions d) i = Some s \<and> a = sub_aggregate d s)"
  by (auto simp: load_subscription_def)

lemma sub_aggregate_events:
  "map fst (sa_events (sub_aggregate d s)) = sort_key se_scheduled_date (events_of d (row_id s))"
  "sa_sub (sub_aggregate d s) = s"
  by (simp_all add: sub_aggregate_def o_def)

lemma events_of_rows:
  assumes "distinct (row_ids (t_events d))"
  shows "distinct (row_ids (sort_key k (events_of d i)))"
    and "e \<in> set (t_events d) \<Longrightarrow> row_id e \<in> set (row_ids (sort_key k (events_of d i))) \<longleftrightarrow> se_subscription_id e = i"
proof -
  have "distinct (row_ids (events_of d i))"
    using assms by (simp add: row_ids_def events_of_def distinct_map_filter)
  then show "distinct (row_ids (sort_key k (events_of d i)))" by (simp add: row_ids_def distinct_map)
  assume e: "e \<in> set (t_events d)"
  show "row_id e \<in> set (row_ids (sort_key k (events_of d i))) \<longleftrightarrow> se_subscription_id e = i"
    using same_row [OF assms _ e] e by (auto simp: row_ids_def events_of_def)
qed

definition set_sub_status :: "datetime \<Rightarrow> subscription_status \<Rightarrow> subscription \<Rightarrow> subscription" where
  "set_sub_status t st s = s\<lparr>s_status := st, updated_at := t\<rparr>"

lemma set_sub_status_simps [simp]:
  "row_id (set_sub_status t st s) = row_id s" "s_user_id (set_sub_status t st s) = s_user_id s"
  "s_status (set_sub_status t st s) = st" "s_frequency (set_sub_status t st s) = s_frequency s"
  by (simp_all add: set_sub_status_def)

definition switched :: "datetime \<Rightarrow> uuid \<Rightarrow> subscription_status \<Rightarrow> event_status set \<Rightarrow> event_status \<Rightarrow> database \<Rightarrow> database" where
  "switched t i st old new d =
     t_events_update (map (\<lambda>e. if se_subscription_id e = i then flip t old new e else e))
       (t_subscriptions_update (map (on {i} (set_sub_status t st))) d)"

lemma sub_status_changed: "s_status s \<noteq> st \<Longrightarrow> s\<lparr>s_status := st\<rparr> \<noteq> s"
proof
  assume "s_status s \<noteq> st" and "s\<lparr>s_status := st\<rparr> = s"
  then have "s_status (s\<lparr>s_status := st\<rparr>) = s_status s" by (simp only:)
  with \<open>s_status s \<noteq> st\<close> show False by simp
qed

lemma save_sub_status_InrE:
  assumes "save_subscription (s\<lparr>s_status := st\<rparr>) w = (Inr u, w')"
    and "lookup (t_subscriptions (wdb w)) i = Some s" and "distinct (row_ids (t_subscriptions (wdb w)))"
    and "s_status s \<noteq> st"
  shows "w' = w\<lparr>wdb := t_subscriptions_update (map (on {i} (set_sub_status (now w) st))) (wdb w)\<rparr>"
proof -
  note s = lookup_SomeD [OF assms(2)]
  have "w' = w\<lparr>wdb := t_subscriptions_update
      (map (on {row_id s} (\<lambda>x. touch (now w) x (x\<lparr>s_status := st\<rparr>)))) (wdb w)\<rparr>"
    using assms(1,3) s by (intro subscriptions_rel.save_on [where f = "\<lambda>x. x\<lparr>s_status := st\<rparr>"]) simp_all
  moreover have "on {row_id s} (\<lambda>x. touch (now w) x (x\<lparr>s_status := st\<rparr>)) x = on {i} (set_sub_status (now w) st) x"
    if "x \<in> set (t_subscriptions (wdb w))" for x
    using same_row [OF assms(3) that] s sub_status_changed [OF assms(4)]
    by (auto simp: on_def touch_def set_sub_status_def)
  then have "map (on {row_id s} (\<lambda>x. touch (now w) x (x\<lparr>s_status := st\<rparr>))) (t_subscriptions (wdb w)) =
      map (on {i} (set_sub_status (now w) st)) (t_subscriptions (wdb w))"
    by (intro map_cong [OF refl])
  then have "t_subscriptions_update
      (map (on {row_id s} (\<lambda>x. touch (now w) x (x\<lparr>s_status := st\<rparr>)))) (wdb w) =
      t_subscriptions_update (map (on {i} (set_sub_status (now w) st))) (wdb w)"
    by (rule subscriptions_rel.upd_cong)
  ultimately show ?thesis by (simp only:)
qed

lemma switch_InrE:
  assumes run: "switch_status a st old new w = (Inr u, w')" and a: "load_subscription (wdb w) i = Some a"
    and inv: "subscriptions_inv (wdb w)" and new: "s_status (sa_sub a) \<noteq> st" "new \<notin> old"
  shows "w' = w\<lparr>wdb := switched (now w) i st old new (wdb w)\<rparr>"
proof -
  from a obtain s where s: "lookup (t_subscriptions (wdb w)) i = Some s" and agg: "a = sub_aggregate (wdb w) s"
    by (auto simp: load_subscription_Some)
  note sub = sub_aggregate_events [of "wdb w" s, folded agg]
  have id: "row_id s = i" using lookup_SomeD [OF s] by simp
  note ids = subscriptions_invD(1,2) [OF inv]
  let ?es = "sort_key se_scheduled_date (events_of (wdb w) i)"
  from run obtain v where v: "save_subscription (s\<lparr>s_status := st\<rparr>) w = (Inr (), v)"
    and bulk: "bulk_event_status ?es old new v = (Inr u, w')"
    unfolding switch_status_def sub id by (rule bind_InrE) simp
  have "v = w\<lparr>wdb := t_subscriptions_update (map (on {i} (set_sub_status (now w) st))) (wdb w)\<rparr>"
    by (rule save_sub_status_InrE [OF v s ids(1)]) (use new(1) in \<open>simp add: sub\<close>)
  then have v: "wdb v = t_subscriptions_update (map (on {i} (set_sub_status (now w) st))) (wdb w)" "now v = now w"
      "v = w\<lparr>wdb := wdb v\<rparr>"
    by simp_all
  have "w' = v\<lparr>wdb := t_events_update (map (on (set (row_ids ?es)) (flip (now v) old new))) (wdb v)\<rparr>"
    by (rule bulk_InrE [OF bulk _ _ _ new(2)])
      (use events_of_rows(1) [OF ids(2)] ids(2) in \<open>auto simp: v(1) events_of_def\<close>)
  moreover have "map (on (set (row_ids ?es)) (flip (now w) old new)) (t_events (wdb v)) =
      map (\<lambda>e. if se_subscription_id e = i then flip (now w) old new e else e) (t_events (wdb v))"
    using events_of_rows(2) [OF ids(2), of _ se_scheduled_date i] by (auto simp: v(1) on_def)
  then have "t_events_update (map (on (set (row_ids ?es)) (flip (now w) old new))) (wdb v) =
      t_events_update (map (\<lambda>e. if se_subscription_id e = i then flip (now w) old new e else e)) (wdb v)"
    by (rule events_rel.upd_cong)
  ultimately have "w' = v\<lparr>wdb := switched (now w) i st old new (wdb w)\<rparr>"
    by (simp only: v(2) switched_def v(1))
  then have "w' = w\<lparr>wdb := wdb v, wdb := switched (now w) i st old new (wdb w)\<rparr>"
    by (rule trans) (rule arg_cong [OF v(3)])
  then show ?thesis by simp
qed

lemma event_sound_transfer:
  assumes "event_sound d e" and "fits_subscription_event f" and "check_subscription_event f"
    and "order_agrees (se_status f) (se_order_id f)" and "opt_fits (refers (t_orders d')) (se_order_id f)"
    and "lookup (t_subscriptions d') (se_subscription_id f) = Some s'" and "statuses_agree (s_status s') (se_status f)"
    and "event_product d' (row_id f) = event_product d (row_id e)" and "se_price f = se_price e"
  shows "event_sound d' f"
  using assms by (auto simp: event_sound_def split: option.splits)

lemma switched_inv:
  assumes inv: "subscriptions_inv d" and s: "lookup (t_subscriptions d) i = Some s"
    and agree: "\<And>x. statuses_agree (s_status s) x \<Longrightarrow> statuses_agree st (if x \<in> old then new else x)"
    and orders: "\<And>x j. order_agrees x j \<Longrightarrow> x \<in> old \<Longrightarrow> order_agrees new j"
  shows "subscriptions_inv (switched t i st old new d)"
proof -
  let ?d = "switched t i st old new d"
  define f where "f e = (if se_subscription_id e = i then flip t old new e else e)" for e
  have cols: "t_subscriptions ?d = map (on {i} (set_sub_status t st)) (t_subscriptions d)"
      "t_events ?d = map f (t_events d)" "t_sub_products ?d = t_sub_products d"
      "t_sub_payments ?d = t_sub_payments d" "t_users ?d = t_users d" "t_orders ?d = t_orders d"
    by (simp_all add: switched_def f_def [abs_def])
  have f: "row_id (f e) = row_id e" "slot (f e) = slot e" "se_order_id (f e) = se_order_id e"
      "se_price (f e) = se_price e" "se_subscription_id (f e) = se_subscription_id e"
      "se_status (f e) = (if se_subscription_id e = i \<and> se_status e \<in> old then new else se_status e)" for e
    by (simp_all add: f_def)
  have subs: "lookup (t_subscriptions ?d) j =
      map_option (on {i} (set_sub_status t st)) (lookup (t_subscriptions d) j)" for j
    unfolding cols by (rule lookup_map) (simp add: on_def)
  have id: "row_id s = i" using lookup_SomeD [OF s] by simp
  have sound: "event_sound ?d (f e)" if e: "e \<in> set (t_events d)" for e
  proof -
    have es: "event_sound d e" by (rule subscriptions_invD(6) [OF inv e])
    from event_of_subscription [OF inv e] obtain se where
      se: "lookup (t_subscriptions d) (se_subscription_id e) = Some se" "statuses_agree (s_status se) (se_status e)" .
    have rid: "row_id se = se_subscription_id e" using lookup_SomeD [OF se(1)] by simp
    have "fits_subscription_event (f e)" "check_subscription_event (f e)"
      using es by (simp_all add: event_sound_def fits_subscription_event_def check_subscription_event_def f_def)
    moreover have "order_agrees (se_status (f e)) (se_order_id (f e))"
      using es orders [of "se_status e" "se_order_id e"] by (simp add: event_sound_def f)
    moreover have "opt_fits (refers (t_orders ?d)) (se_order_id (f e))"
      using es by (simp add: event_sound_def cols f)
    moreover have "statuses_agree (s_status (on {i} (set_sub_status t st) se)) (se_status (f e))"
    proof (cases "se_subscription_id e = i")
      case True
      with se(1) s have "se = s" by simp
      then show ?thesis using True id agree [of "se_status e"] se(2) by (simp add: on_def f)
    next
      case False
      then show ?thesis using se(2) rid by (simp add: on_def f)
    qed
    moreover have "event_product ?d (row_id (f e)) = event_product d (row_id e)"
      by (simp add: event_product_def cols f)
    moreover have "lookup (t_subscriptions ?d) (se_subscription_id (f e)) = Some (on {i} (set_sub_status t st) se)"
      by (simp only: subs f(5) se(1) option.map)
    ultimately show ?thesis by (intro event_sound_transfer [OF es _ _ _ _ _ _ _ f(4)])
  qed
  have ids: "row_ids (t_events ?d) = row_ids (t_events d)" "row_ids (t_subscriptions ?d) = row_ids (t_subscriptions d)"
    unfolding cols by (rule row_ids_map; simp add: on_def f)+
  have "map slot (t_events ?d) = map slot (t_events d)"
    unfolding cols map_map by (rule map_cong [OF refl]) (simp only: o_def f(2))
  moreover have "one_event_per_order (t_events ?d)"
    using subscriptions_invD(10) [OF inv] unfolding cols one_event_per_order_def set_map ball_simps(9) f .
  moreover have "sub_payment_sound ?d = sub_payment_sound d"
    by (rule ext) (simp only: sub_payment_sound_def ids cols(5))
  moreover have "\<forall>r \<in> set (t_subscriptions ?d). refers (t_users ?d) (s_user_id r)"
    using subscriptions_invD(5) [OF inv] by (auto simp: cols on_def)
  moreover have "\<forall>e \<in> set (t_events ?d). event_sound ?d e"
    using sound unfolding cols(2) set_map by blast
  ultimately show ?thesis
    using subscriptions_invD(1-4,7-9) [OF inv] unfolding subscriptions_inv_def ids cols(3,4) by simp
qed


section \<open>Pause, resume\<close>

lemma require_owned_subscription_run:
  "require_owned_subscription i u w =
     (case lookup (t_subscriptions (wdb w)) i of
        None \<Rightarrow> (Inl (SubscriptionExn (SubscriptionNotFoundError i)), w)
      | Some s \<Rightarrow> if s_user_id s = u then (Inr (sub_aggregate (wdb w) s), w)
                  else (Inl (SubscriptionExn SubscriptionAccessDeniedError), w))"
  by (cases "lookup (t_subscriptions (wdb w)) i")
    (simp_all add: require_owned_subscription_def bind_fetch bind_require load_subscription_def
      sub_aggregate_events(2))

lemma require_owned_subscription_InrE:
  assumes "require_owned_subscription i u w = (Inr a, w')"
  obtains s where "lookup (t_subscriptions (wdb w)) i = Some s" and "a = sub_aggregate (wdb w) s"
    and "load_subscription (wdb w) i = Some a" and "s_user_id s = u" and "w' = w"
proof (cases "lookup (t_subscriptions (wdb w)) i")
  case None
  with assms show thesis by (simp add: require_owned_subscription_run)
next
  case (Some s)
  with assms have "s_user_id s = u" "a = sub_aggregate (wdb w) s" "w' = w"
    by (auto simp: require_owned_subscription_run split: if_splits)
  with Some show thesis by (intro that [of s]) (simp_all add: load_subscription_def)
qed

lemma show_subscription_InrE:
  assumes "bind (reload_subscription i) (\<lambda>a. of_sum (subscription_dto a)) w = (Inr dto, w')"
  obtains a where "load_subscription (wdb w) i = Some a" and "subscription_dto a = Inr dto" and "w' = w"
  using assms by (auto simp: reload_subscription_def bind_fetch split: option.splits)

text \<open>Pause and resume are the same method with other statuses.\<close>

definition switching :: "subscription_status \<Rightarrow> (subscription_aggregate \<Rightarrow> exn) \<Rightarrow> subscription_status \<Rightarrow>
    event_status set \<Rightarrow> event_status \<Rightarrow> uuid \<Rightarrow> uuid \<Rightarrow> SubscriptionDTO session" where
  "switching from err st old new i user_id =
     bind (require_owned_subscription i user_id) (\<lambda>a.
     bind (require (s_status (sa_sub a) = from) (err a)) (\<lambda>_.
     bind (switch_status a st old new) (\<lambda>_.
     bind (reload_subscription i) (\<lambda>a'. of_sum (subscription_dto a')))))"

definition invalid_state :: "string \<Rightarrow> subscription_aggregate \<Rightarrow> exn" where
  "invalid_state action a =
     SubscriptionExn (SubscriptionInvalidStateError (subscription_status_value (s_status (sa_sub a))) action)"

lemma pause_resume_switching:
  "pause_subscription = switching SubACTIVE (invalid_state ''pause'') SubPAUSED {EvPENDING} EvPAUSED"
  "resume_subscription = switching SubPAUSED (invalid_state ''resume'') SubACTIVE {EvPAUSED} EvPENDING"
  by (intro ext; simp add: pause_subscription_def resume_subscription_def switching_def invalid_state_def)+

lemma switching_InrE:
  assumes run: "switching src err st old new i u w = (Inr dto, w')" and inv: "subscriptions_inv (wdb w)"
    and change: "src \<noteq> st" "new \<notin> old"
  obtains s a where "lookup (t_subscriptions (wdb w)) i = Some s" and "s_user_id s = u" and "s_status s = src"
    and "w' = w\<lparr>wdb := switched (now w) i st old new (wdb w)\<rparr>"
    and "load_subscription (wdb w') i = Some a" and "subscription_dto a = Inr dto"
proof -
  from run obtain a w1 where a: "require_owned_subscription i u w = (Inr a, w1)"
    and rest: "bind (require (s_status (sa_sub a) = src) (err a)) (\<lambda>_. bind (switch_status a st old new)
      (\<lambda>_. bind (reload_subscription i) (\<lambda>a'. of_sum (subscription_dto a')))) w1 = (Inr dto, w')"
    unfolding switching_def by (rule bind_InrE)
  from a obtain s where s: "lookup (t_subscriptions (wdb w)) i = Some s" "a = sub_aggregate (wdb w) s"
      "load_subscription (wdb w) i = Some a" "s_user_id s = u" "w1 = w"
    by (rule require_owned_subscription_InrE)
  have sub: "sa_sub a = s" by (simp only: s(2) sub_aggregate_events)
  from rest have st: "s_status s = src" and
    rest: "bind (switch_status a st old new)
      (\<lambda>_. bind (reload_subscription i) (\<lambda>a'. of_sum (subscription_dto a'))) w = (Inr dto, w')"
    by (simp_all add: bind_require s(5) sub split: if_splits)
  from rest obtain v x where sw: "switch_status a st old new w = (Inr x, v)"
    and reload: "bind (reload_subscription i) (\<lambda>a'. of_sum (subscription_dto a')) v = (Inr dto, w')"
    by (rule bind_InrE)
  from reload obtain a' where a': "load_subscription (wdb v) i = Some a'" "subscription_dto a' = Inr dto" "w' = v"
    by (rule show_subscription_InrE)
  have "v = w\<lparr>wdb := switched (now w) i st old new (wdb w)\<rparr>"
    by (rule switch_InrE [OF sw s(3) inv _ change(2)]) (simp add: sub st change(1))
  with a' st s show thesis by (intro that [of s a']) simp_all
qed

lemma switching_keeps:
  assumes "src \<noteq> st" and "new \<notin> old"
    and "\<And>x. statuses_agree src x \<Longrightarrow> statuses_agree st (if x \<in> old then new else x)"
    and "\<And>x j. order_agrees x j \<Longrightarrow> x \<in> old \<Longrightarrow> order_agrees new j"
  shows "preserves subscriptions_inv (switching src err st old new i u)"
proof (rule preservesI)
  fix w dto w'
  assume "switching src err st old new i u w = (Inr dto, w')" and inv: "subscriptions_inv (wdb w)"
  then obtain s a where s: "lookup (t_subscriptions (wdb w)) i = Some s" and st: "s_status s = src"
    and w': "w' = w\<lparr>wdb := switched (now w) i st old new (wdb w)\<rparr>"
    by (rule switching_InrE [OF _ _ assms(1,2)])
  have "subscriptions_inv (switched (now w) i st old new (wdb w))"
    by (rule switched_inv [OF inv s]) (use st assms(3,4) in auto)
  then show "subscriptions_inv (wdb w')" by (simp add: w')
qed

lemma pause_keeps: "preserves subscriptions_inv (pause_subscription i u)"
  unfolding pause_resume_switching by (rule switching_keeps) (auto simp: order_agrees_def)

lemma resume_keeps: "preserves subscriptions_inv (resume_subscription i u)"
  unfolding pause_resume_switching by (rule switching_keeps) (auto simp: order_agrees_def)


section \<open>New rows\<close>

lemma inv_payments:
  assumes "subscriptions_inv d" and "d' = d\<lparr>t_sub_payments := ps\<rparr>" and "distinct (row_ids ps)"
    and "\<forall>p \<in> set ps. sub_payment_sound d p"
  shows "subscriptions_inv d'"
proof -
  have "event_sound d' = event_sound d" "sub_payment_sound d' = sub_payment_sound d"
    by (intro ext; simp add: event_sound_def sub_payment_sound_def event_product_def assms(2))+
  then show ?thesis
    using subscriptions_invD(1-7,9,10) [OF assms(1)] assms(3,4) unfolding subscriptions_inv_def
    by (simp add: assms(2))
qed

lemma inv_new_subscription:
  assumes inv: "subscriptions_inv d" and d': "t_subscriptions d' = t_subscriptions d @ [s]"
    and same: "t_events d' = t_events d" "t_sub_products d' = t_sub_products d" "t_sub_payments d' = t_sub_payments d"
      "t_users d' = t_users d" "t_orders d' = t_orders d"
    and s: "row_id s \<notin> set (row_ids (t_subscriptions d))" "refers (t_users d) (s_user_id s)"
  shows "subscriptions_inv d'"
proof -
  have "event_sound d' e" if "event_sound d e" for e
  proof -
    from that obtain s' where s': "lookup (t_subscriptions d) (se_subscription_id e) = Some s'"
      "statuses_agree (s_status s') (se_status e)"
      by (auto simp: event_sound_def split: option.splits)
    have "lookup (t_subscriptions d') (se_subscription_id e) = Some s'"
      unfolding d' using s'(1) by (simp add: lookup_append)
    with that s'(2) show ?thesis
      by (intro event_sound_transfer [OF that]) (simp_all add: event_sound_def same event_product_def)
  qed
  moreover have "sub_payment_sound d' = sub_payment_sound d"
    by (rule ext) (simp add: sub_payment_sound_def same)
  ultimately show ?thesis
    using subscriptions_invD [OF inv] s unfolding subscriptions_inv_def same d' by simp
qed

lemma all2_partner:
  "list_all2 P xs ys \<Longrightarrow> x \<in> set xs \<Longrightarrow> \<exists>y \<in> set ys. P x y"
  "list_all2 P xs ys \<Longrightarrow> y \<in> set ys \<Longrightarrow> \<exists>x \<in> set xs. P x y"
  by (induction rule: list_all2_induct) auto

lemma inv_new_events:
  assumes inv: "subscriptions_inv d"
    and d': "t_events d' = t_events d @ es" "t_sub_products d' = t_sub_products d @ ps"
    and same: "t_subscriptions d' = t_subscriptions d" "t_sub_payments d' = t_sub_payments d"
      "t_users d' = t_users d" "t_orders d' = t_orders d"
    and ids: "distinct (row_ids (t_events d'))" "distinct (row_ids (t_sub_products d'))"
    and slots: "distinct (map slot (t_events d'))"
    and es: "\<forall>e \<in> set es. fits_subscription_event e \<and> check_subscription_event e \<and> se_status e = EvPENDING \<and>
      se_order_id e = None"
    and sub: "\<forall>e \<in> set es. \<exists>s. lookup (t_subscriptions d) (se_subscription_id e) = Some s \<and>
      statuses_agree (s_status s) EvPENDING"
    and ps: "list_all2 (\<lambda>e p. sp_event_id p = row_id e \<and> sp_product_price p = se_price e) es ps"
  shows "subscriptions_inv d'"
proof -
  have new: "row_id e \<notin> set (row_ids (t_events d))" if "e \<in> set es" for e
    using ids(1) that row_id_in [OF that] by (auto simp: d')
  have old_none: "find (\<lambda>p. sp_event_id p = row_id e) (t_sub_products d) = None" if "e \<in> set es" for e
    unfolding find_None_iff using subscriptions_invD(7) [OF inv] new [OF that] by metis
  have find_new: "\<exists>p. find (\<lambda>p. sp_event_id p = row_id e) ps = Some p \<and> sp_product_price p = se_price e"
    if e: "e \<in> set es" for e
  proof -
    from all2_partner(1) [OF ps e] obtain p where p: "p \<in> set ps" "sp_event_id p = row_id e" by (elim bexE conjE)
    then obtain q where q: "find (\<lambda>p. sp_event_id p = row_id e) ps = Some q"
      by (cases "find (\<lambda>p. sp_event_id p = row_id e) ps") (auto simp: find_None_iff)
    then have q_in: "q \<in> set ps" "sp_event_id q = row_id e" by (auto simp: find_Some_iff)
    from all2_partner(2) [OF ps q_in(1)] obtain e' where e': "e' \<in> set es" "sp_event_id q = row_id e'"
      "sp_product_price q = se_price e'" by (elim bexE conjE)
    have "distinct (row_ids es)" using ids(1) by (simp add: d')
    moreover have "row_id e' = row_id e" using e'(2) q_in(2) by simp
    ultimately have "e' = e" using e'(1) e by (intro same_row [of es])
    with q e'(3) show ?thesis by blast
  qed
  have find_app: "find P (xs @ ys) = (case find P xs of None \<Rightarrow> find P ys | Some x \<Rightarrow> Some x)"
    for P and xs ys :: "subscription_product list"
    by (induction xs) auto
  have "event_sound d' e" if "e \<in> set (t_events d)" for e
  proof -
    have es: "event_sound d e" by (rule subscriptions_invD(6) [OF inv that])
    then have "event_product d' (row_id e) = event_product d (row_id e)"
      by (auto simp: event_sound_def event_product_def d' find_app split: option.splits)
    then show ?thesis using es by (simp add: event_sound_def same)
  qed
  moreover have "event_sound d' e" if e: "e \<in> set es" for e
  proof -
    from sub e obtain s where "lookup (t_subscriptions d) (se_subscription_id e) = Some s"
      "statuses_agree (s_status s) EvPENDING" by blast
    moreover from find_new [OF e] obtain p where "event_product d' (row_id e) = Some p" "sp_product_price p = se_price e"
      by (auto simp: event_product_def d' find_app old_none [OF e])
    ultimately show ?thesis
      using es e by (simp add: event_sound_def same order_agrees_def opt_fits_def)
  qed
  moreover have "refers (t_events d') (sp_event_id p)" if "p \<in> set ps" for p
  proof -
    from all2_partner(2) [OF ps that] obtain e where "e \<in> set es" "sp_event_id p = row_id e" by (elim bexE conjE)
    then show ?thesis using row_id_in [of e es] by (simp add: d')
  qed
  moreover have "one_event_per_order (t_events d')"
  proof -
    have none: "se_order_id e = None" if "e \<in> set es" for e using es that by simp
    have "row_id e = row_id f"
      if "e \<in> set (t_events d')" "f \<in> set (t_events d')" "se_order_id e = se_order_id f" "se_order_id e \<noteq> None" for e f
    proof -
      have "e \<in> set (t_events d)" "f \<in> set (t_events d)" using that none [of e] none [of f] by (auto simp: d')
      then show ?thesis using subscriptions_invD(10) [OF inv] that(3,4) unfolding one_event_per_order_def by blast
    qed
    then show ?thesis unfolding one_event_per_order_def by blast
  qed
  moreover have "sub_payment_sound d' p" if "sub_payment_sound d p" for p
    using that by (simp add: sub_payment_sound_def same d')
  ultimately show ?thesis
    using subscriptions_invD(1,4,5,7,8) [OF inv] ids slots unfolding subscriptions_inv_def same
    by (auto simp: d')
qed


section \<open>Creating a subscription\<close>

lemma map2_new:
  "length ks = length ls \<Longrightarrow> list_all2 (\<lambda>l x. \<exists>i. x = mk l i t) ls (map2 (\<lambda>l i. mk l i t) ls ks)"
  by (auto simp: list_all2_conv_all_nth)

lemma all2_map: "list_all2 P ls xs \<Longrightarrow> (\<And>l x. P l x \<Longrightarrow> f x = g l) \<Longrightarrow> map f xs = map g ls"
  by (induction rule: list_all2_induct) auto

lemma schedule_InrE:
  assumes run: "schedule_subscription u data p w = (Inr s, w')"
  obtains dl es ps i where "s = new_subscription u (cs_frequency data) (row_id s) (now w)"
    and "row_id s \<notin> set (row_ids (t_subscriptions (wdb w)))" and "refers (t_users (wdb w)) u"
    and "dl = new_sub_delivery (row_id s) (cs_delivery data) i (now w)"
    and "wdb w' = t_sub_products_update (\<lambda>t. t @ ps) (t_events_update (\<lambda>t. t @ es)
           (t_sub_delivery_update (\<lambda>t. t @ [dl]) (t_subscriptions_update (\<lambda>t. t @ [s]) (wdb w))))"
    and "w' = w\<lparr>wdb := wdb w', uuid_pos := uuid_pos w'\<rparr>"
    and "list_all2 (\<lambda>dt e. \<exists>i. e = new_event (row_id s) (p_price p) dt i (now w))
           (event_dates (date_of (now w)) (cs_frequency data)) es"
    and "list_all2 (\<lambda>e q. \<exists>i. q = new_sub_product p e i (now w)) es ps"
    and "\<forall>e \<in> set es. fits_subscription_event e \<and> check_subscription_event e"
    and "distinct (row_ids (t_events (wdb w))) \<longrightarrow> distinct (row_ids (t_events (wdb w')))"
    and "distinct (row_ids (t_sub_products (wdb w))) \<longrightarrow> distinct (row_ids (t_sub_products (wdb w')))"
    and "sub_delivery (wdb w') (row_id s) = Some dl"
proof -
  let ?dates = "event_dates (date_of (now w)) (cs_frequency data)"
  from run obtain w1 dl w2 es w3 ps where s: "add_subscription (new_subscription u (cs_frequency data)) w = (Inr s, w1)"
    and dl: "add_sub_delivery (new_sub_delivery (row_id s) (cs_delivery data)) w1 = (Inr dl, w2)"
    and es: "forM (\<lambda>dt. add_event (new_event (row_id s) (p_price p) dt)) ?dates w2 = (Inr es, w3)"
    and ps: "forM (\<lambda>e. add_sub_product (new_sub_product p e)) es w3 = (Inr ps, w')"
    unfolding schedule_subscription_def bind_gets
    by (elim bind_InrE) (simp only: ret_run prod.inject sum.inject)
  from s have s': "s = new_subscription u (cs_frequency data) (row_id s) (now w)"
      "row_id s \<notin> set (row_ids (t_subscriptions (wdb w)))" "refers (t_users (wdb w)) u"
      "wdb w1 = t_subscriptions_update (\<lambda>t. t @ [s]) (wdb w)" "w1 = w\<lparr>wdb := wdb w1, uuid_pos := uuid_pos w1\<rparr>"
    by (auto elim!: db_add_InrE simp: new_subscription_def ok_subscription_def)
  from dl obtain i where dl': "dl = new_sub_delivery (row_id s) (cs_delivery data) i (now w1)"
      "wdb w2 = t_sub_delivery_update (\<lambda>t. t @ [dl]) (wdb w1)" "w2 = w1\<lparr>wdb := wdb w2, uuid_pos := uuid_pos w2\<rparr>"
      "ok_sub_delivery (wdb w1) dl" "row_id dl \<notin> set (row_ids (t_sub_delivery (wdb w1)))"
    by (auto elim!: db_add_InrE)
  have "sdi_subscription_id x \<noteq> row_id s" if x: "x \<in> set (t_sub_delivery (wdb w))" for x
  proof -
    have "x \<in> set (t_sub_delivery (wdb w1))" using x by (simp add: s'(4))
    moreover from this have "row_id x \<noteq> row_id dl" using dl'(5) row_id_in by metis
    ultimately have "sdi_subscription_id x \<noteq> sdi_subscription_id dl"
      using dl'(4) by (auto simp: ok_sub_delivery_def unique_by_def)
    then show ?thesis by (simp add: dl'(1) new_sub_delivery_def)
  qed
  then have none: "find (\<lambda>x. sdi_subscription_id x = row_id s) (t_sub_delivery (wdb w)) = None"
    by (simp add: find_None_iff)
  from events_rel.forM_add_world [OF es]
  have es': "wdb w3 = t_events_update (\<lambda>t. t @ es) (wdb w2)" "w3 = w2\<lparr>wdb := wdb w3, uuid_pos := uuid_pos w3\<rparr>"
      "\<forall>e \<in> set es. fits_subscription_event e \<and> check_subscription_event e"
    by (auto simp: ok_event_def)
  from sub_products_rel.forM_add_world [OF ps]
  have ps': "wdb w' = t_sub_products_update (\<lambda>t. t @ ps) (wdb w3)" "w' = w3\<lparr>wdb := wdb w', uuid_pos := uuid_pos w'\<rparr>"
    by auto
  have n: "now w1 = now w" "now w2 = now w" "now w3 = now w"
    by (subst s'(5), simp) (subst dl'(3), simp, subst s'(5), simp, subst es'(2), simp, subst dl'(3), simp, subst s'(5), simp)
  from events_rel.forM_add [OF es] obtain ks where "length ks = length ?dates"
    "es = map2 (\<lambda>l i. new_event (row_id s) (p_price p) l i (now w)) ?dates ks"
    and ids: "distinct (row_ids (t_events (wdb w2))) \<longrightarrow> distinct (row_ids (t_events (wdb w3)))"
    by (auto simp: n)
  then have es2: "list_all2 (\<lambda>dt e. \<exists>i. e = new_event (row_id s) (p_price p) dt i (now w)) ?dates es"
    using map2_new [of ks ?dates "\<lambda>dt i t. new_event (row_id s) (p_price p) dt i t"] by simp
  from sub_products_rel.forM_add [OF ps] obtain js where "length js = length es"
    "ps = map2 (\<lambda>l i. new_sub_product p l i (now w)) es js"
    and ids': "distinct (row_ids (t_sub_products (wdb w3))) \<longrightarrow> distinct (row_ids (t_sub_products (wdb w')))"
    by (auto simp: n)
  then have ps2: "list_all2 (\<lambda>e q. \<exists>i. q = new_sub_product p e i (now w)) es ps"
    using map2_new [of js es "\<lambda>e i t. new_sub_product p e i t"] by simp
  show thesis
  proof (rule that [OF s'(1-3) _ _ _ es2 ps2 es'(3)])
    show "dl = new_sub_delivery (row_id s) (cs_delivery data) i (now w)" using dl'(1) by (simp only: n)
    show "wdb w' = t_sub_products_update (\<lambda>t. t @ ps) (t_events_update (\<lambda>t. t @ es)
           (t_sub_delivery_update (\<lambda>t. t @ [dl]) (t_subscriptions_update (\<lambda>t. t @ [s]) (wdb w))))"
      by (simp only: ps'(1) es'(1) dl'(2) s'(4))
    show "w' = w\<lparr>wdb := wdb w', uuid_pos := uuid_pos w'\<rparr>"
      by (subst ps'(2), subst es'(2), subst dl'(3), subst s'(5)) simp
    show "distinct (row_ids (t_events (wdb w))) \<longrightarrow> distinct (row_ids (t_events (wdb w')))"
      using ids by (simp add: ps'(1) dl'(2) s'(4))
    show "distinct (row_ids (t_sub_products (wdb w))) \<longrightarrow> distinct (row_ids (t_sub_products (wdb w')))"
      using ids' by (simp add: es'(1) dl'(2) s'(4))
    show "sub_delivery (wdb w') (row_id s) = Some dl"
      using none by (simp add: sub_delivery_def ps'(1) es'(1) dl'(2) s'(4) find_append)
        (simp add: dl'(1) new_sub_delivery_def)
  qed
qed


lemma new_events_columns:
  assumes "list_all2 (\<lambda>dt e. \<exists>i. e = new_event sub price dt i t) dates es"
  shows "map se_scheduled_date es = dates" "map slot es = map (Pair sub) dates" "length es = length dates"
    and "\<forall>e \<in> set es. se_subscription_id e = sub \<and> se_price e = price \<and> se_status e = EvPENDING \<and>
      se_order_id e = None \<and> se_currency e = ''EUR''"
proof -
  have "map se_scheduled_date es = map (\<lambda>x. x) dates" by (rule all2_map [OF assms]) (auto simp: new_event_def)
  then show "map se_scheduled_date es = dates" by simp
  show "map slot es = map (Pair sub) dates" by (rule all2_map [OF assms]) (auto simp: new_event_def)
  show "length es = length dates" using assms by (simp add: list_all2_lengthD)
  show "\<forall>e \<in> set es. se_subscription_id e = sub \<and> se_price e = price \<and> se_status e = EvPENDING \<and>
      se_order_id e = None \<and> se_currency e = ''EUR''"
    using assms by (induction rule: list_all2_induct) (auto simp: new_event_def)
qed

lemma new_products_columns:
  assumes "list_all2 (\<lambda>e q. \<exists>i. q = new_sub_product p e i t) es ps"
    and "\<forall>e \<in> set es. se_price e = p_price p"
  shows "list_all2 (\<lambda>e q. sp_event_id q = row_id e \<and> sp_product_price q = se_price e) es ps"
  using assms by (induction rule: list_all2_induct) (auto simp: new_sub_product_def)

lemma foreign_slot:
  assumes "subscriptions_inv d" and "sub \<notin> set (row_ids (t_subscriptions d))" and "e \<in> set (t_events d)"
  shows "se_subscription_id e \<noteq> sub"
  using event_of_subscription [OF assms(1,3)] lookup_refers [of "t_subscriptions d"] assms(2) by metis

lemma schedule_keeps: "preserves subscriptions_inv (schedule_subscription u data p)"
proof (rule preservesI)
  fix w s w'
  assume run: "schedule_subscription u data p w = (Inr s, w')" and inv: "subscriptions_inv (wdb w)"
  let ?dates = "event_dates (date_of (now w)) (cs_frequency data)"
  from run obtain dl es ps where s: "s = new_subscription u (cs_frequency data) (row_id s) (now w)"
    and fresh: "row_id s \<notin> set (row_ids (t_subscriptions (wdb w)))" and user: "refers (t_users (wdb w)) u"
    and w': "wdb w' = t_sub_products_update (\<lambda>t. t @ ps) (t_events_update (\<lambda>t. t @ es)
           (t_sub_delivery_update (\<lambda>t. t @ [dl]) (t_subscriptions_update (\<lambda>t. t @ [s]) (wdb w))))"
    and es: "list_all2 (\<lambda>dt e. \<exists>i. e = new_event (row_id s) (p_price p) dt i (now w)) ?dates es"
    and ps: "list_all2 (\<lambda>e q. \<exists>i. q = new_sub_product p e i (now w)) es ps"
    and legal: "\<forall>e \<in> set es. fits_subscription_event e \<and> check_subscription_event e"
    and ids: "distinct (row_ids (t_events (wdb w))) \<longrightarrow> distinct (row_ids (t_events (wdb w')))"
      "distinct (row_ids (t_sub_products (wdb w))) \<longrightarrow> distinct (row_ids (t_sub_products (wdb w')))"
    by (rule schedule_InrE)
  let ?d = "t_sub_delivery_update (\<lambda>t. t @ [dl]) (t_subscriptions_update (\<lambda>t. t @ [s]) (wdb w))"
  have "s_user_id s = u" "s_status s = SubPENDING" by (subst s, simp add: new_subscription_def)+
  with user have inv1: "subscriptions_inv ?d"
    by (intro inv_new_subscription [OF inv _ _ _ _ _ _ fresh]) simp_all
  note cols = new_events_columns [OF es]
  have look: "lookup (t_subscriptions ?d) (row_id s) = Some s" using fresh by (simp add: lookup_append_new)
  show "subscriptions_inv (wdb w')"
  proof (rule inv_new_events [OF inv1])
    show "t_events (wdb w') = t_events ?d @ es" "t_sub_products (wdb w') = t_sub_products ?d @ ps"
      "t_subscriptions (wdb w') = t_subscriptions ?d" "t_sub_payments (wdb w') = t_sub_payments ?d"
      "t_users (wdb w') = t_users ?d" "t_orders (wdb w') = t_orders ?d"
      by (simp_all add: w')
    show "distinct (row_ids (t_events (wdb w')))" "distinct (row_ids (t_sub_products (wdb w')))"
      using ids subscriptions_invD(2,3) [OF inv] by auto
    have "distinct (map slot es)"
      unfolding cols(2) event_dates_eq by (simp add: distinct_map distinct_next_dates inj_on_def)
    moreover have "slot e \<noteq> slot f" if "e \<in> set (t_events (wdb w))" "f \<in> set es" for e f
      using foreign_slot [OF inv fresh that(1)] cols(4) that(2) by auto
    then have "set (map slot (t_events (wdb w))) \<inter> set (map slot es) = {}" by (auto simp del: prod.inject)
    ultimately show "distinct (map slot (t_events (wdb w')))"
      using subscriptions_invD(9) [OF inv] by (simp add: w')
    show "\<forall>e \<in> set es. fits_subscription_event e \<and> check_subscription_event e \<and> se_status e = EvPENDING \<and>
      se_order_id e = None" using legal cols(4) by simp
    show "\<forall>e \<in> set es. \<exists>s. lookup (t_subscriptions ?d) (se_subscription_id e) = Some s \<and>
      statuses_agree (s_status s) EvPENDING"
      using cols(4) look \<open>s_status s = SubPENDING\<close> by (auto simp del: lookup_append)
    show "list_all2 (\<lambda>e q. sp_event_id q = row_id e \<and> sp_product_price q = se_price e) es ps"
      by (rule new_products_columns [OF ps]) (simp add: cols(4))
  qed
qed


section \<open>Billing\<close>

definition mark_refunded :: "datetime \<Rightarrow> subscription_payment \<Rightarrow> subscription_payment" where
  "mark_refunded t p = p\<lparr>spay_status := PayREFUNDED, updated_at := t\<rparr>"

lemma mark_refunded_simps [simp]:
  "row_id (mark_refunded t p) = row_id p" "spay_event_id (mark_refunded t p) = spay_event_id p"
  "spay_user_id (mark_refunded t p) = spay_user_id p" "spay_txn_id (mark_refunded t p) = spay_txn_id p"
  "spay_status (mark_refunded t p) = PayREFUNDED" "spay_amount (mark_refunded t p) = spay_amount p"
  "spay_method (mark_refunded t p) = spay_method p" "spay_provider (mark_refunded t p) = spay_provider p"
  by (simp_all add: mark_refunded_def)

lemma refund_changed: "spay_status p \<noteq> PayREFUNDED \<Longrightarrow> p\<lparr>spay_status := PayREFUNDED\<rparr> \<noteq> p"
proof
  assume "spay_status p \<noteq> PayREFUNDED" and "p\<lparr>spay_status := PayREFUNDED\<rparr> = p"
  then have "spay_status (p\<lparr>spay_status := PayREFUNDED\<rparr>) = spay_status p" by (simp only:)
  with \<open>spay_status p \<noteq> PayREFUNDED\<close> show False by simp
qed

lemma save_refund_InrE:
  assumes "save_sub_payment (p\<lparr>spay_status := PayREFUNDED\<rparr>) w = (Inr x, w')" and "p \<in> set (t_sub_payments (wdb w))"
    and "distinct (row_ids (t_sub_payments (wdb w)))" and "spay_status p \<noteq> PayREFUNDED"
  shows "w' = w\<lparr>wdb := t_sub_payments_update (map (on {row_id p} (mark_refunded (now w)))) (wdb w)\<rparr>"
proof -
  have "w' = w\<lparr>wdb := t_sub_payments_update
      (map (on {row_id p} (\<lambda>x. touch (now w) x (x\<lparr>spay_status := PayREFUNDED\<rparr>)))) (wdb w)\<rparr>"
    using assms(1-3) by (intro sub_payments_rel.save_on [where f = "\<lambda>x. x\<lparr>spay_status := PayREFUNDED\<rparr>"]) simp_all
  moreover have "on {row_id p} (\<lambda>x. touch (now w) x (x\<lparr>spay_status := PayREFUNDED\<rparr>)) x =
      on {row_id p} (mark_refunded (now w)) x" if "x \<in> set (t_sub_payments (wdb w))" for x
    using same_row [OF assms(3) that assms(2)] refund_changed [OF assms(4)]
    by (auto simp: on_def touch_def mark_refunded_def)
  then have "map (on {row_id p} (\<lambda>x. touch (now w) x (x\<lparr>spay_status := PayREFUNDED\<rparr>))) (t_sub_payments (wdb w)) =
      map (on {row_id p} (mark_refunded (now w))) (t_sub_payments (wdb w))"
    by (intro map_cong [OF refl])
  then have "t_sub_payments_update (map (on {row_id p} (\<lambda>x. touch (now w) x (x\<lparr>spay_status := PayREFUNDED\<rparr>)))) (wdb w) =
      t_sub_payments_update (map (on {row_id p} (mark_refunded (now w)))) (wdb w)"
    by (rule sub_payments_rel.upd_cong)
  ultimately show ?thesis by (simp only:)
qed

lemma activate_InrE:
  assumes "save_subscription ((sa_sub a)\<lparr>s_status := SubACTIVE\<rparr>) w = (Inr x, w')"
    and "load_subscription d i = Some a" and "t_subscriptions (wdb w) = t_subscriptions d"
    and "distinct (row_ids (t_subscriptions d))" and "s_status (sa_sub a) = SubPENDING"
  shows "w' = w\<lparr>wdb := t_subscriptions_update (map (on {i} (set_sub_status (now w) SubACTIVE))) (wdb w)\<rparr>"
proof -
  from assms(2) obtain s where "lookup (t_subscriptions d) i = Some s" "sa_sub a = s"
    by (auto simp: load_subscription_Some sub_aggregate_events)
  with assms show ?thesis by (intro save_sub_status_InrE [where s = s and st = SubACTIVE]) simp_all
qed

lemma switched_nothing:
  "switched t i st {} new d = t_subscriptions_update (map (on {i} (set_sub_status t st))) d"
proof -
  have "(\<lambda>e. if se_subscription_id e = i then flip t {} new e else e) = (\<lambda>e. e)"
    by (rule ext) (simp add: flip_def)
  then show ?thesis by (simp add: switched_def)
qed

context provider_contract
begin

lemma charge_upfront_InrE:
  assumes "charge_subscription_upfront prov a m w = (Inr b, w')"
  obtains (empty) "sa_events a = []" and "b" and "w' = w"
  | (declined) "sa_events a \<noteq> []" and "\<not> b" and "wdb w' = wdb w" and "now w' = now w"
  | (charged) res w1 xs where "sa_events a \<noteq> []" and "b"
    and "create_charge prov \<lparr>ch_amount = events_total a, ch_currency = ''EUR'', ch_reference = str_uuid (row_id (sa_sub a)),
           ch_customer_id = map_option pm_customer_id m, ch_method_token = map_option pm_token m\<rparr> w = (Inr res, w1)"
    and "cr_status res = ''completed''"
    and "list_all2 (\<lambda>ep x. \<exists>i. x = new_sub_payment (s_user_id (sa_sub a)) (pv_name prov) (cr_txn_id res) PayCOMPLETED
           (Some (now w)) (fst ep) i (now w)) (sa_events a) xs"
    and "\<forall>x \<in> set xs. fits_subscription_payment x \<and> check_subscription_payment x"
    and "distinct (row_ids (t_sub_payments (wdb w))) \<longrightarrow> distinct (row_ids (t_sub_payments (wdb w) @ xs))"
    and "w' = w1\<lparr>wdb := t_sub_payments_update (\<lambda>t. t @ xs) (wdb w), uuid_pos := uuid_pos w'\<rparr>"
proof (cases "sa_events a = []")
  case True
  with assms show thesis by (intro empty) (auto simp: charge_subscription_upfront_def)
next
  case False
  let ?req = "\<lparr>ch_amount = events_total a, ch_currency = ''EUR'', ch_reference = str_uuid (row_id (sa_sub a)),
           ch_customer_id = map_option pm_customer_id m, ch_method_token = map_option pm_token m\<rparr>"
  let ?mk = "\<lambda>t txn ep. new_sub_payment (s_user_id (sa_sub a)) (pv_name prov) txn PayCOMPLETED (Some t) (fst ep)"
  from assms False obtain res w1 where call: "create_charge prov ?req w = (Inr res, w1)"
    and rest: "(if cr_status res \<noteq> ''completed'' then ret False
       else bind (gets now) (\<lambda>t. bind (forM (\<lambda>ep. add_sub_payment (?mk t (cr_txn_id res) ep)) (sa_events a)) (\<lambda>_.
          ret True))) w1 = (Inr b, w')"
    by (auto simp: charge_subscription_upfront_def elim!: bind_InrE)
  have w1: "wdb w1 = wdb w" "now w1 = now w" using provider_same(1) [OF call] by auto
  show thesis
  proof (cases "cr_status res = ''completed''")
    case True
    with rest obtain xs where xs: "forM (\<lambda>ep. add_sub_payment (?mk (now w) (cr_txn_id res) ep)) (sa_events a) w1 = (Inr xs, w')"
      and "b" by (auto simp: w1 elim!: bind_InrE)
    from sub_payments_rel.forM_add [OF xs] obtain ks where "length ks = length (sa_events a)"
      "xs = map2 (\<lambda>l i. ?mk (now w) (cr_txn_id res) l i (now w)) (sa_events a) ks"
      and ids: "distinct (row_ids (t_sub_payments (wdb w1))) \<longrightarrow> distinct (row_ids (t_sub_payments (wdb w')))"
      and tab: "t_sub_payments (wdb w') = t_sub_payments (wdb w1) @ xs"
      by (auto simp: w1)
    then have "list_all2 (\<lambda>ep x. \<exists>i. x = ?mk (now w) (cr_txn_id res) ep i (now w)) (sa_events a) xs"
      using map2_new [of ks "sa_events a" "\<lambda>ep i t. ?mk (now w) (cr_txn_id res) ep i t" "now w"] by simp
    moreover from sub_payments_rel.forM_add_world [OF xs]
    have "\<forall>x \<in> set xs. fits_subscription_payment x \<and> check_subscription_payment x"
      "w' = w1\<lparr>wdb := t_sub_payments_update (\<lambda>t. t @ xs) (wdb w), uuid_pos := uuid_pos w'\<rparr>"
      by (auto simp: ok_sub_payment_def w1)
    ultimately show thesis
      using ids tab by (intro charged [OF False \<open>b\<close> call True]) (simp_all add: w1)
  next
    case no: False
    with rest have "\<not> b" "w' = w1" by auto
    then show thesis by (intro declined [OF False]) (simp_all add: w1)
  qed
qed

lemma charge_activate_keeps:
  assumes run: "charge_and_activate prov a m w = (Inr x, w')" and inv: "subscriptions_inv (wdb w)"
    and load: "load_subscription (wdb w) i = Some a" and st: "s_status (sa_sub a) = SubPENDING"
  shows "subscriptions_inv (wdb w')"
proof -
  from load obtain s where s: "lookup (t_subscriptions (wdb w)) i = Some s" and a: "a = sub_aggregate (wdb w) s"
    by (auto simp: load_subscription_Some)
  have sub: "sa_sub a = s" by (simp only: a sub_aggregate_events)
  from run obtain w1 where charge: "charge_subscription_upfront prov a (Some m) w = (Inr True, w1)"
    and save: "save_subscription ((sa_sub a)\<lparr>s_status := SubACTIVE\<rparr>) w1 = (Inr x, w')"
    by (auto simp: charge_and_activate_def require_run elim!: bind_InrE split: if_splits)
  from charge obtain ps where w1: "wdb w1 = t_sub_payments_update (\<lambda>t. t @ ps) (wdb w)"
    and ids: "distinct (row_ids (t_sub_payments (wdb w) @ ps))"
    and legal: "\<forall>p \<in> set ps. fits_subscription_payment p \<and> check_subscription_payment p"
    and cols: "\<forall>p \<in> set ps. spay_user_id p = s_user_id s \<and> spay_txn_id p \<noteq> None \<and>
      (\<exists>ep \<in> set (sa_events a). spay_event_id p = row_id (fst ep))"
  proof (cases rule: charge_upfront_InrE)
    case empty
    then show thesis using subscriptions_invD(4) [OF inv] by (intro that [of "[]"]) simp_all
  next
    case declined
    then show thesis by simp
  next
    case (charged res v xs)
    have "spay_user_id p = s_user_id s \<and> spay_txn_id p \<noteq> None \<and>
        (\<exists>ep \<in> set (sa_events a). spay_event_id p = row_id (fst ep))" if "p \<in> set xs" for p
    proof -
      from all2_partner(2) [OF charged(5) that] obtain ep i where ep: "ep \<in> set (sa_events a)"
        and p: "p = new_sub_payment (s_user_id (sa_sub a)) (pv_name prov) (cr_txn_id res) PayCOMPLETED
          (Some (now w)) (fst ep) i (now w)" by (elim bexE exE)
      show ?thesis unfolding p by (rule conjI, simp add: new_sub_payment_def sub, rule conjI, simp add: new_sub_payment_def,
          rule bexI [OF _ ep], simp add: new_sub_payment_def)
    qed
    then have "\<forall>p \<in> set xs. spay_user_id p = s_user_id s \<and> spay_txn_id p \<noteq> None \<and>
        (\<exists>ep \<in> set (sa_events a). spay_event_id p = row_id (fst ep))" by (rule ballI)
    moreover have "wdb w1 = t_sub_payments_update (\<lambda>t. t @ xs) (wdb w)" by (subst charged(8)) simp
    ultimately show thesis using charged(6,7) subscriptions_invD(4) [OF inv] by (intro that [of xs]) simp_all
  qed
  have "refers (t_events (wdb w)) (row_id (fst ep))" if "ep \<in> set (sa_events a)" for ep
  proof -
    have "fst ep \<in> set (map fst (sa_events a))" using that by simp
    then have "fst ep \<in> set (t_events (wdb w))" unfolding a sub_aggregate_events by (simp add: events_of_def)
    then show ?thesis by (rule row_id_in)
  qed
  moreover have "refers (t_users (wdb w)) (s_user_id s)"
    using lookup_SomeD [OF s] subscriptions_invD(5) [OF inv] by blast
  ultimately have "\<forall>p \<in> set ps. sub_payment_sound (wdb w) p"
    using legal cols by (fastforce simp: sub_payment_sound_def)
  then have inv1: "subscriptions_inv (wdb w1)"
    using subscriptions_invD(8) [OF inv] ids
    by (intro inv_payments [OF inv, where ps = "t_sub_payments (wdb w) @ ps"]) (auto simp: w1)
  have "w' = w1\<lparr>wdb := t_subscriptions_update (map (on {i} (set_sub_status (now w1) SubACTIVE))) (wdb w1)\<rparr>"
    by (rule activate_InrE [OF save load _ _ st]) (use subscriptions_invD(1) [OF inv] in \<open>simp_all add: w1\<close>)
  then have "wdb w' = switched (now w1) i SubACTIVE {} EvPENDING (wdb w1)" by (simp add: switched_nothing)
  moreover have "subscriptions_inv (switched (now w1) i SubACTIVE {} EvPENDING (wdb w1))"
    by (rule switched_inv [OF inv1, of i s]) (use s st sub in \<open>auto simp: w1\<close>)
  ultimately show ?thesis by simp
qed

end


section \<open>Create, pay, cancel\<close>

lemma create_subscription_InrE:
  assumes run: "create_subscription provider u data w = (Inr dto, w')"
  obtains (unpaid) p s a where "lookup (t_products (wdb w)) (cs_product_id data) = Some p" and "p_is_active p"
    and "cs_payment_method_id data = None"
    and "schedule_subscription u data p w = (Inr s, w')" and "load_subscription (wdb w') (row_id s) = Some a"
    and "subscription_dto a = Inr dto"
  | (paid) p s v a prov k m a' where "lookup (t_products (wdb w)) (cs_product_id data) = Some p" and "p_is_active p"
    and "cs_payment_method_id data = Some k" and "provider = Some prov"
    and "schedule_subscription u data p w = (Inr s, v)" and "load_subscription (wdb v) (row_id s) = Some a"
    and "get_method u k v = (Inr m, v)" and "charge_and_activate prov a m v = (Inr (), w')"
    and "load_subscription (wdb w') (row_id s) = Some a'" and "subscription_dto a' = Inr dto"
proof -
  let ?pay = "\<lambda>s loaded. case cs_payment_method_id data of None \<Rightarrow> ret loaded
      | Some k \<Rightarrow> (case provider of
          None \<Rightarrow> raise (PaymentExn (PaymentInvalidStateError ''Payment provider not configured''))
        | Some prov \<Rightarrow> bind (get_method u k) (\<lambda>m. bind (charge_and_activate prov loaded m) (\<lambda>_. reload_subscription (row_id s))))"
  from run obtain p where p: "lookup (t_products (wdb w)) (cs_product_id data) = Some p" "p_is_active p"
    and rest: "bind (schedule_subscription u data p) (\<lambda>s. bind (reload_subscription (row_id s)) (\<lambda>loaded.
      bind (?pay s loaded) (\<lambda>final. of_sum (subscription_dto final)))) w = (Inr dto, w')"
    by (auto simp: create_subscription_def bind_fetch bind_require split: option.splits if_splits)
  from rest obtain s v where s: "schedule_subscription u data p w = (Inr s, v)"
    and rest: "bind (reload_subscription (row_id s)) (\<lambda>loaded. bind (?pay s loaded)
      (\<lambda>final. of_sum (subscription_dto final))) v = (Inr dto, w')"
    by (rule bind_InrE)
  from rest obtain a where a: "load_subscription (wdb v) (row_id s) = Some a"
    and rest: "bind (?pay s a) (\<lambda>final. of_sum (subscription_dto final)) v = (Inr dto, w')"
    by (auto simp: reload_subscription_def bind_fetch split: option.splits)
  from rest obtain final where pay: "?pay s a v = (Inr final, w')" and dto: "subscription_dto final = Inr dto"
    by (rule bind_InrE) simp
  show thesis
  proof (cases "cs_payment_method_id data")
    case None
    with pay have "final = a" "w' = v" by simp_all
    with p None s a dto show thesis by (intro unpaid) simp_all
  next
    case (Some k)
    with pay obtain prov where prov: "provider = Some prov" by (cases provider) simp_all
    from pay have "bind (get_method u k) (\<lambda>m. bind (charge_and_activate prov a m) (\<lambda>_. reload_subscription (row_id s))) v =
        (Inr final, w')" by (simp add: Some prov)
    then obtain m v2 where m: "get_method u k v = (Inr m, v2)"
      and rest: "bind (charge_and_activate prov a m) (\<lambda>_. reload_subscription (row_id s)) v2 = (Inr final, w')"
      by (rule bind_InrE)
    have v2: "v2 = v" using m by (auto simp: get_method_def elim: require_owned_method_InrE)
    note m = m [unfolded v2] and rest = rest [unfolded v2]
    from rest obtain x y where c: "charge_and_activate prov a m v = (Inr x, y)"
      and r: "reload_subscription (row_id s) y = (Inr final, w')" by (rule bind_InrE)
    from r have "w' = y" "load_subscription (wdb y) (row_id s) = Some final"
      by (auto simp: reload_subscription_def elim: fetch_InrE)
    with p Some prov s a m c dto show thesis by (intro paid [of p k prov s v a m final]) simp_all
  qed
qed

lemma schedule_loaded:
  assumes "schedule_subscription u data p w = (Inr s, v)" and "load_subscription (wdb v) (row_id s) = Some a"
  shows "a = sub_aggregate (wdb v) s" "s_status (sa_sub a) = SubPENDING"
proof -
  from assms(1) have s: "s = new_subscription u (cs_frequency data) (row_id s) (now w)"
    and "lookup (t_subscriptions (wdb v)) (row_id s) = Some s"
    by (rule schedule_InrE; simp add: lookup_append_new)+
  with assms(2) show a: "a = sub_aggregate (wdb v) s" by (simp add: load_subscription_Some)
  show "s_status (sa_sub a) = SubPENDING"
    unfolding a sub_aggregate_events by (subst s) (simp add: new_subscription_def)
qed

lemma create_subscription_keeps:
  assumes "\<And>prov. provider = Some prov \<Longrightarrow> provider_contract prov"
  shows "preserves subscriptions_inv (create_subscription provider u data)"
proof (rule preservesI)
  fix w dto w'
  assume "create_subscription provider u data w = (Inr dto, w')" and inv: "subscriptions_inv (wdb w)"
  then show "subscriptions_inv (wdb w')"
  proof (cases rule: create_subscription_InrE)
    case (unpaid p s a)
    from preservesD [OF schedule_keeps unpaid(4) inv] show ?thesis .
  next
    case (paid p s v a prov k m a')
    have "subscriptions_inv (wdb v)" by (rule preservesD [OF schedule_keeps paid(5) inv])
    from provider_contract.charge_activate_keeps [OF assms [OF paid(4)] paid(8) this paid(6)
        schedule_loaded(2) [OF paid(5,6)]] show ?thesis .
  qed
qed

lemma pay_subscription_InrE:
  assumes run: "pay_subscription provider i u k w = (Inr dto, w')"
  obtains prov s a m a' where "provider = Some prov" and "lookup (t_subscriptions (wdb w)) i = Some s"
    and "s_user_id s = u" and "s_status s = SubPENDING" and "a = sub_aggregate (wdb w) s"
    and "load_subscription (wdb w) i = Some a"
    and "get_method u k w = (Inr m, w)" and "charge_and_activate prov a m w = (Inr (), w')"
    and "load_subscription (wdb w') i = Some a'" and "subscription_dto a' = Inr dto"
proof -
  from run obtain prov where prov: "provider = Some prov"
    by (cases provider) (simp_all add: pay_subscription_def)
  with run obtain a w1 where a: "require_owned_subscription i u w = (Inr a, w1)"
    and rest: "bind (require (s_status (sa_sub a) = SubPENDING) (SubscriptionExn (SubscriptionInvalidStateError
                 (subscription_status_value (s_status (sa_sub a))) ''pay''))) (\<lambda>_. bind (get_method u k) (\<lambda>m.
        bind (charge_and_activate prov a m) (\<lambda>_. bind (reload_subscription i) (\<lambda>a'. of_sum (subscription_dto a'))))) w1 =
      (Inr dto, w')"
    by (simp add: pay_subscription_def) (rule bind_InrE)
  from a obtain s where s: "lookup (t_subscriptions (wdb w)) i = Some s" "a = sub_aggregate (wdb w) s"
      "load_subscription (wdb w) i = Some a" "s_user_id s = u" "w1 = w"
    by (rule require_owned_subscription_InrE)
  have sub: "sa_sub a = s" by (simp only: s(2) sub_aggregate_events)
  from rest have st: "s_status s = SubPENDING" and rest: "bind (get_method u k) (\<lambda>m.
        bind (charge_and_activate prov a m) (\<lambda>_. bind (reload_subscription i) (\<lambda>a'. of_sum (subscription_dto a')))) w =
      (Inr dto, w')"
    by (simp_all add: bind_require s(5) sub split: if_splits)
  from rest obtain m w2 where m: "get_method u k w = (Inr m, w2)" and rest: "bind (charge_and_activate prov a m)
      (\<lambda>_. bind (reload_subscription i) (\<lambda>a'. of_sum (subscription_dto a'))) w2 = (Inr dto, w')"
    by (rule bind_InrE)
  have w2: "w2 = w" using m by (auto simp: get_method_def elim: require_owned_method_InrE)
  from rest obtain x v where c: "charge_and_activate prov a m w2 = (Inr x, v)"
    and reload: "bind (reload_subscription i) (\<lambda>a'. of_sum (subscription_dto a')) v = (Inr dto, w')"
    by (rule bind_InrE)
  from reload obtain a' where "load_subscription (wdb v) i = Some a'" "subscription_dto a' = Inr dto" "w' = v"
    by (rule show_subscription_InrE)
  with prov s st m c w2 show thesis by (intro that [of prov s a m a']) simp_all
qed

lemma pay_subscription_keeps:
  assumes "\<And>prov. provider = Some prov \<Longrightarrow> provider_contract prov"
  shows "preserves subscriptions_inv (pay_subscription provider i u k)"
proof (rule preservesI)
  fix w dto w'
  assume run: "pay_subscription provider i u k w = (Inr dto, w')" and inv: "subscriptions_inv (wdb w)"
  from run obtain prov s a m a' where prov: "provider = Some prov" and st: "s_status s = SubPENDING"
    and a: "a = sub_aggregate (wdb w) s" and load: "load_subscription (wdb w) i = Some a"
    and c: "charge_and_activate prov a m w = (Inr (), w')"
    by (rule pay_subscription_InrE)
  have "s_status (sa_sub a) = SubPENDING" by (simp only: a sub_aggregate_events st)
  from provider_contract.charge_activate_keeps [OF assms [OF prov] c inv load this]
  show "subscriptions_inv (wdb w')" .
qed


text \<open>What the refunds of a cancellation do to the payment rows.\<close>

definition undelivered_ids :: "subscription_aggregate \<Rightarrow> uuid set" where
  "undelivered_ids a = set (map row_id (filter undelivered (map fst (sa_events a))))"

definition refundable :: "subscription_aggregate \<Rightarrow> database \<Rightarrow> subscription_payment list" where
  "refundable a d =
     filter (\<lambda>p. spay_event_id p \<in> undelivered_ids a \<and> spay_status p = PayCOMPLETED) (t_sub_payments d)"

lemma refund_undelivered_eq:
  "refund_undelivered_payments prov a =
     (if undelivered_ids a = {} then ret 0 else bind (query (refundable a)) (refund_payments prov {}))"
  unfolding refund_undelivered_payments_def Let_def refundable_def [abs_def] undelivered_ids_def set_empty by (rule refl)

lemma refundable_none: "undelivered_ids a = {} \<Longrightarrow> refundable a d = []"
  by (simp add: refundable_def)

context provider_contract
begin

lemma refund_payments_InrE:
  assumes "refund_payments prov R ps w = (Inr n, w')" and "set ps \<subseteq> set (t_sub_payments (wdb w))"
    and "distinct (row_ids ps)" and "distinct (row_ids (t_sub_payments (wdb w)))"
    and "\<forall>p \<in> set ps. spay_txn_id p \<noteq> None \<and> spay_status p \<noteq> PayREFUNDED"
  shows "wdb w' = t_sub_payments_update (map (on (set (row_ids ps)) (mark_refunded (now w)))) (wdb w) \<and>
    now w' = now w \<and> n = length ps"
  using assms
proof (induction ps arbitrary: R w n)
  case Nil
  then show ?case by simp
next
  case (Cons p ps)
  from Cons.prems(5) obtain txn where txn: "spay_txn_id p = Some txn" by auto
  from Cons.prems(1) txn obtain v x k where call: "(if txn \<in> R then ret () else bind (provider_refund prov txn) (\<lambda>_. ret ())) w = (Inr (), v)"
    and save: "save_sub_payment (p\<lparr>spay_status := PayREFUNDED\<rparr>) v = (Inr (), x)"
    and rest: "refund_payments prov (insert txn R) ps x = (Inr k, w')" and n: "n = Suc k"
    by (auto elim!: bind_InrE)
  have v: "wdb v = wdb w" "now v = now w"
    using call provider_same(2) by (auto elim!: bind_InrE split: if_splits)
  have p: "p \<in> set (t_sub_payments (wdb w))" using Cons.prems(2) by simp
  have x: "x = v\<lparr>wdb := t_sub_payments_update (map (on {row_id p} (mark_refunded (now w)))) (wdb w)\<rparr>"
    using save_refund_InrE [OF save] p Cons.prems(4,5) by (simp add: v)
  have "q \<in> set (t_sub_payments (wdb x))" if q: "q \<in> set ps" for q
  proof -
    have "row_id q \<noteq> row_id p" using Cons.prems(3) row_id_in [OF q] by auto
    then have "q = on {row_id p} (mark_refunded (now w)) q" by (simp only: on_def singleton_iff if_False)
    moreover have "q \<in> set (t_sub_payments (wdb w))" using Cons.prems(2) q by auto
    ultimately have "q \<in> on {row_id p} (mark_refunded (now w)) ` set (t_sub_payments (wdb w))" by (rule image_eqI)
    then show ?thesis by (simp add: x)
  qed
  moreover have "distinct (row_ids (t_sub_payments (wdb x)))"
    using Cons.prems(4) row_ids_map [of "on {row_id p} (mark_refunded (now w))"] by (simp add: x on_def)
  ultimately have w': "wdb w' = t_sub_payments_update (map (on (set (row_ids ps)) (mark_refunded (now x)))) (wdb x)"
      "now w' = now x" "k = length ps"
    using Cons.IH [OF rest] Cons.prems(3,5) by auto
  have "on (set (row_ids ps)) (mark_refunded (now w)) (on {row_id p} (mark_refunded (now w)) q) =
      on (set (row_ids (p # ps))) (mark_refunded (now w)) q" for q
    using Cons.prems(3) by (simp add: on_on)
  then show ?case using w' by (simp add: x v n o_def)
qed

lemma refund_undelivered_InrE:
  assumes run: "refund_undelivered_payments prov a w = (Inr n, w')" and inv: "subscriptions_inv (wdb w)"
  shows "wdb w' = t_sub_payments_update (map (on (set (row_ids (refundable a (wdb w)))) (mark_refunded (now w)))) (wdb w) \<and>
    now w' = now w"
proof (cases "undelivered_ids a = {}")
  case True
  then show ?thesis using run by (simp add: refund_undelivered_eq refundable_none)
next
  case False
  let ?ps = "refundable a (wdb w)"
  from False run have r: "refund_payments prov {} ?ps w = (Inr n, w')" by (simp add: refund_undelivered_eq)
  have "distinct (row_ids ?ps)"
    using subscriptions_invD(4) [OF inv] by (simp add: refundable_def row_ids_def distinct_map_filter)
  moreover have "\<forall>p \<in> set ?ps. spay_txn_id p \<noteq> None \<and> spay_status p \<noteq> PayREFUNDED"
    using subscriptions_invD(8) [OF inv] by (auto simp: refundable_def sub_payment_sound_def)
  moreover have "set ?ps \<subseteq> set (t_sub_payments (wdb w))" by (auto simp: refundable_def)
  ultimately show ?thesis
    using refund_payments_InrE [OF r] subscriptions_invD(4) [OF inv] by simp
qed

lemma refunded_inv:
  assumes inv: "subscriptions_inv d"
  shows "subscriptions_inv (t_sub_payments_update (map (on ids (mark_refunded t))) d)"
proof (rule inv_payments [OF inv, where ps = "map (on ids (mark_refunded t)) (t_sub_payments d)"])
  show "t_sub_payments_update (map (on ids (mark_refunded t))) d =
      d\<lparr>t_sub_payments := map (on ids (mark_refunded t)) (t_sub_payments d)\<rparr>"
    by (rule sub_payments_rel.upd_cong) simp
  show "distinct (row_ids (map (on ids (mark_refunded t)) (t_sub_payments d)))"
    using subscriptions_invD(4) [OF inv] row_ids_map [of "on ids (mark_refunded t)"] by (simp add: on_def)
  have "sub_payment_sound d (on ids (mark_refunded t) p)" if "sub_payment_sound d p" for p
    using that by (simp add: on_def sub_payment_sound_def fits_subscription_payment_def check_subscription_payment_def)
  then show "\<forall>p \<in> set (map (on ids (mark_refunded t)) (t_sub_payments d)). sub_payment_sound d p"
    using subscriptions_invD(8) [OF inv] by auto
qed

end

lemma cancel_subscription_InrE:
  assumes run: "cancel_subscription (Some prov) i u w = (Inr dto, w')" and inv: "subscriptions_inv (wdb w)"
    and prov: "provider_contract prov"
  obtains s a a' v n where "lookup (t_subscriptions (wdb w)) i = Some s" and "s_user_id s = u"
    and "s_status s \<noteq> SubCANCELLED" and "s_status s \<noteq> SubCOMPLETED" and "a = sub_aggregate (wdb w) s"
    and "refund_undelivered_payments prov a w = (Inr n, v)"
    and "wdb v = t_sub_payments_update (map (on (set (row_ids (refundable a (wdb w)))) (mark_refunded (now w)))) (wdb w)"
    and "w' = v\<lparr>wdb := switched (now w) i SubCANCELLED {EvPENDING, EvPAUSED, EvREADY} EvCANCELLED (wdb v)\<rparr>"
    and "subscriptions_inv (wdb v)"
    and "load_subscription (wdb w') i = Some a'" and "subscription_dto a' = Inr dto"
proof -
  let ?old = "{EvPENDING, EvPAUSED, EvREADY}"
  from run obtain a w1 where a: "require_owned_subscription i u w = (Inr a, w1)"
    and rest: "bind (require (s_status (sa_sub a) \<notin> {SubCANCELLED, SubCOMPLETED}) (SubscriptionExn
            (SubscriptionInvalidStateError (subscription_status_value (s_status (sa_sub a))) ''cancel''))) (\<lambda>_.
       bind (refund_undelivered_payments prov a) (\<lambda>_. bind (switch_status a SubCANCELLED ?old EvCANCELLED) (\<lambda>_.
       bind (reload_subscription i) (\<lambda>a'. of_sum (subscription_dto a'))))) w1 = (Inr dto, w')"
    unfolding cancel_subscription_def option.case by (rule bind_InrE)
  from a obtain s where s: "lookup (t_subscriptions (wdb w)) i = Some s" "a = sub_aggregate (wdb w) s"
      "load_subscription (wdb w) i = Some a" "s_user_id s = u" "w1 = w"
    by (rule require_owned_subscription_InrE)
  have sub: "sa_sub a = s" by (simp only: s(2) sub_aggregate_events)
  from rest have st: "s_status s \<noteq> SubCANCELLED" "s_status s \<noteq> SubCOMPLETED" and
    rest: "bind (refund_undelivered_payments prov a) (\<lambda>_. bind (switch_status a SubCANCELLED ?old EvCANCELLED) (\<lambda>_.
       bind (reload_subscription i) (\<lambda>a'. of_sum (subscription_dto a')))) w = (Inr dto, w')"
    by (simp_all add: bind_require s(5) sub split: if_splits)
  from rest obtain n v where r: "refund_undelivered_payments prov a w = (Inr n, v)" and
    rest: "bind (switch_status a SubCANCELLED ?old EvCANCELLED) (\<lambda>_.
       bind (reload_subscription i) (\<lambda>a'. of_sum (subscription_dto a'))) v = (Inr dto, w')"
    by (rule bind_InrE)
  from rest obtain x y where sw: "switch_status a SubCANCELLED ?old EvCANCELLED v = (Inr x, y)"
    and reload: "bind (reload_subscription i) (\<lambda>a'. of_sum (subscription_dto a')) y = (Inr dto, w')"
    by (rule bind_InrE)
  from reload obtain a' where a': "load_subscription (wdb y) i = Some a'" "subscription_dto a' = Inr dto" "w' = y"
    by (rule show_subscription_InrE)
  from provider_contract.refund_undelivered_InrE [OF prov r inv]
  have v: "wdb v = t_sub_payments_update (map (on (set (row_ids (refundable a (wdb w)))) (mark_refunded (now w)))) (wdb w)"
    and nv: "now v = now w" by auto
  have invv: "subscriptions_inv (wdb v)" unfolding v by (rule provider_contract.refunded_inv [OF prov inv])
  have "load_subscription (wdb v) i = Some a"
    using s(3) by (simp add: load_subscription_def v sub_aggregate_def sub_delivery_def events_of_def event_product_def)
  from switch_InrE [OF sw this invv] have "y = v\<lparr>wdb := switched (now w) i SubCANCELLED ?old EvCANCELLED (wdb v)\<rparr>"
    using st by (simp add: sub nv)
  with s st r v invv a' show thesis by (intro that [of s a n v a']) simp_all
qed

lemma cancelled_inv:
  assumes "subscriptions_inv d" and "lookup (t_subscriptions d) i = Some s" and "s_status s \<noteq> SubCOMPLETED"
  shows "subscriptions_inv (switched t i SubCANCELLED {EvPENDING, EvPAUSED, EvREADY} EvCANCELLED d)"
proof (rule switched_inv [OF assms(1,2)])
  show "statuses_agree SubCANCELLED (if x \<in> {EvPENDING, EvPAUSED, EvREADY} then EvCANCELLED else x)"
    if "statuses_agree (s_status s) x" for x
    using that by (cases "s_status s"; cases x) simp_all
  show "order_agrees EvCANCELLED j" for j by (simp add: order_agrees_def)
qed

lemma cancel_subscription_keeps:
  assumes "provider_contract prov"
  shows "preserves subscriptions_inv (cancel_subscription (Some prov) i u)"
proof (rule preservesI)
  fix w dto w'
  assume "cancel_subscription (Some prov) i u w = (Inr dto, w')" and inv: "subscriptions_inv (wdb w)"
  then show "subscriptions_inv (wdb w')"
  proof (rule cancel_subscription_InrE [OF _ _ assms])
    fix s a v
    assume s: "lookup (t_subscriptions (wdb w)) i = Some s" "s_status s \<noteq> SubCOMPLETED"
      and v: "wdb v = t_sub_payments_update (map (on (set (row_ids (refundable a (wdb w)))) (mark_refunded (now w)))) (wdb w)"
      and w': "w' = v\<lparr>wdb := switched (now w) i SubCANCELLED {EvPENDING, EvPAUSED, EvREADY} EvCANCELLED (wdb v)\<rparr>"
      and invv: "subscriptions_inv (wdb v)"
    have "lookup (t_subscriptions (wdb v)) i = Some s" using s(1) by (simp add: v)
    from cancelled_inv [OF invv this s(2)] show "subscriptions_inv (wdb w')" by (simp add: w')
  qed
qed

end
