(* ===== verification/Scheduler.thy ===== *)
theory Scheduler
  imports SubscriptionInvariant
begin

text \<open>
  The daily autopilot of subscriptions (\<open>src/subscriptions/scheduler.py\<close>): due events become
  delivery orders, events of completed orders are completed, and schedules that run out are
  extended, with an off-session charge of each new event. Each query takes its rows before
  the loop over them starts, as \<open>scalars().all()\<close> does.
\<close>

definition EXTEND_LOOKAHEAD_DAYS :: nat where
  "EXTEND_LOOKAHEAD_DAYS = 60"

record SchedulerRunSummary =
  processed_due :: nat
  synced_completed :: nat
  extended_subscriptions :: nat

definition cutoff_date :: "date option \<Rightarrow> datetime \<Rightarrow> date" where
  "cutoff_date today t = (case today of Some d \<Rightarrow> d | None \<Rightarrow> date_of t)"

section \<open>Due events\<close>

record due_event =
  due_event :: subscription_event
  due_sub :: subscription
  due_delivery :: "subscription_delivery_info option"
  due_product :: "subscription_product option"

definition is_due :: "date \<Rightarrow> database \<Rightarrow> subscription_event \<Rightarrow> bool" where
  "is_due cutoff d e \<longleftrightarrow>
     se_status e = EvPENDING \<and> se_order_id e = None \<and> se_scheduled_date e \<le> cutoff \<and>
     (case lookup (t_subscriptions d) (se_subscription_id e) of
        None \<Rightarrow> False | Some s \<Rightarrow> s_status s = SubACTIVE)"

definition load_due :: "database \<Rightarrow> subscription_event \<Rightarrow> due_event" where
  "load_due d e =
     \<lparr>due_event = e, due_sub = the (lookup (t_subscriptions d) (se_subscription_id e)),
      due_delivery = sub_delivery d (se_subscription_id e), due_product = event_product d (row_id e)\<rparr>"

definition due_events :: "date \<Rightarrow> database \<Rightarrow> due_event list" where
  "due_events cutoff d = map (load_due d) (sort_key se_scheduled_date (filter (is_due cutoff d) (t_events d)))"

definition snapshot_line :: "subscription_product \<Rightarrow> order_line" where
  "snapshot_line p = \<lparr>ln_product_id = sp_product_id p, ln_product_name = sp_product_name p,
     ln_product_price = sp_product_price p, ln_quantity = 1, ln_grind = None\<rparr>"

definition saved_address :: "subscription_delivery_info \<Rightarrow> delivery_in" where
  "saved_address x = \<lparr>dl_recipient_name = sdi_recipient_name x, dl_phone = sdi_phone x,
     dl_address = sdi_address x, dl_city = sdi_city x, dl_postal_code = sdi_postal_code x,
     dl_notes = sdi_notes x\<rparr>"

definition build_order ::
  "subscription \<Rightarrow> subscription_event \<Rightarrow> subscription_delivery_info \<Rightarrow> subscription_product \<Rightarrow> order session" where
  \<comment> \<open>\<open>_build_order\<close>, \<open>db.add\<close> and the flush\<close>
  "build_order s e info p =
     repo_add (s_user_id s) DELIVERY (se_price e) [snapshot_line p] (DeliverTo (saved_address info))"

definition order_event ::
  "subscription \<Rightarrow> subscription_event \<Rightarrow> subscription_delivery_info \<Rightarrow> subscription_product \<Rightarrow> unit session" where
  "order_event s e info p =
     bind (build_order s e info p) (\<lambda>ord.
     save_event (e\<lparr>se_status := EvREADY, se_order_id := Some (row_id ord)\<rparr>))"

fun process_due :: "due_event list \<Rightarrow> nat session" where
  "process_due [] = ret 0"
| "process_due (x # xs) =
     (case (due_delivery x, due_product x) of
        (Some info, Some p) \<Rightarrow>
          bind (order_event (due_sub x) (due_event x) info p) (\<lambda>_.
          bind (process_due xs) (\<lambda>n. ret (Suc n)))
      | _ \<Rightarrow> process_due xs)"

definition process_due_events :: "date option \<Rightarrow> nat session" where
  "process_due_events today =
     bind (gets now) (\<lambda>t. bind (query (due_events (cutoff_date today t))) process_due)"

section \<open>Completion\<close>

definition order_completed :: "database \<Rightarrow> subscription_event \<Rightarrow> bool" where
  "order_completed d e \<longleftrightarrow> se_status e \<noteq> EvCOMPLETED \<and>
     (case se_order_id e of
        None \<Rightarrow> False
      | Some i \<Rightarrow> (case lookup (t_orders d) i of None \<Rightarrow> False | Some ord \<Rightarrow> o_status ord = COMPLETED))"

definition sync_completed_events :: "nat session" where
  "sync_completed_events =
     bind (query (\<lambda>d. filter (order_completed d) (t_events d))) (\<lambda>events.
     bind (forM (\<lambda>e. save_event (e\<lparr>se_status := EvCOMPLETED\<rparr>)) events) (\<lambda>_. ret (length events)))"

section \<open>Extension\<close>

definition last_date :: "database \<Rightarrow> uuid \<Rightarrow> date option" where
  \<comment> \<open>\<open>max(scheduled_date)\<close> of the group\<close>
  "last_date d i =
     (case map se_scheduled_date (events_of d i) of [] \<Rightarrow> None | x # xs \<Rightarrow> Some (fold max xs x))"

definition running_out :: "date \<Rightarrow> database \<Rightarrow> subscription \<Rightarrow> bool" where
  "running_out threshold d s \<longleftrightarrow> s_status s = SubACTIVE \<and>
     (case last_date d (row_id s) of None \<Rightarrow> False | Some l \<Rightarrow> l \<le> threshold)"

definition extension_rows :: "date \<Rightarrow> database \<Rightarrow> (subscription_aggregate \<times> date) list" where
  "extension_rows threshold d =
     map (\<lambda>s. (sub_aggregate d s, the (last_date d (row_id s))))
       (filter (running_out threshold d) (t_subscriptions d))"

definition append_event ::
  "payment_provider option \<Rightarrow> subscription \<Rightarrow> product \<Rightarrow> date \<Rightarrow> unit session" where
  "append_event provider s p scheduled =
     bind (add_event (new_event (row_id s) (p_price p) scheduled)) (\<lambda>e.
     bind (add_sub_product (new_sub_product p e)) (\<lambda>_.
     case provider of
       None \<Rightarrow> ret ()
     | Some prov \<Rightarrow> bind (charge_event_off_session prov s e) (\<lambda>_. ret ())))"

definition extend_subscription ::
  "payment_provider option \<Rightarrow> subscription_aggregate \<Rightarrow> date \<Rightarrow> bool session" where
  "extend_subscription provider a last_day =
     (if sa_events a = [] then ret False
      else (case snd (last (sa_events a)) of
        None \<Rightarrow> ret False
      | Some last_product \<Rightarrow>
          bind (query (\<lambda>d. lookup (t_products d) (sp_product_id last_product))) (\<lambda>product.
          case product of
            None \<Rightarrow> ret False
          | Some p \<Rightarrow>
              if \<not> p_is_active p then ret False
              else bind (forM (append_event provider (sa_sub a) p)
                          (next_dates_after last_day (s_frequency (sa_sub a)))) (\<lambda>_. ret True))))"

fun extend_rows :: "payment_provider option \<Rightarrow> (subscription_aggregate \<times> date) list \<Rightarrow> nat session" where
  "extend_rows provider [] = ret 0"
| "extend_rows provider ((a, l) # rows) =
     bind (extend_subscription provider a l) (\<lambda>ok.
     bind (extend_rows provider rows) (\<lambda>n. ret (if ok then Suc n else n)))"

definition extend_horizons :: "date option \<Rightarrow> payment_provider option \<Rightarrow> nat session" where
  "extend_horizons today provider =
     bind (gets now) (\<lambda>t.
     bind (query (extension_rows (plus_days (cutoff_date today t) EXTEND_LOOKAHEAD_DAYS))) (extend_rows provider))"

section \<open>The daily pass\<close>

definition run_daily :: "date option \<Rightarrow> payment_provider option \<Rightarrow> SchedulerRunSummary session" where
  "run_daily today provider =
     bind (process_due_events today) (\<lambda>processed.
     bind sync_completed_events (\<lambda>synced.
     bind (extend_horizons today provider) (\<lambda>extended.
     ret \<lparr>processed_due = processed, synced_completed = synced, extended_subscriptions = extended\<rparr>)))"

definition scheduler_main :: "settings \<Rightarrow> SchedulerRunSummary session" where
  \<comment> \<open>\<open>_main\<close>: one session, committed when the run returns\<close>
  "scheduler_main cfg = unit_of_work (run_daily None (Some (fake_provider cfg)))"

end
