(* ===== verification/SchedulerInvariant.thy ===== *)
theory SchedulerInvariant
  imports Scheduler
begin

text \<open>
  The scheduler keeps the invariants of orders and subscriptions: what each pass does to the
  rows, step by step, and what holds of the rows still to be processed.
\<close>

section \<open>Updating events\<close>

lemma inv_map_events:
  assumes inv: "subscriptions_inv d" and d': "d' = t_events_update (map f) d"
    and f: "\<And>e. row_id (f e) = row_id e \<and> slot (f e) = slot e \<and> se_price (f e) = se_price e \<and>
      se_currency (f e) = se_currency e"
    and ev: "\<And>e s. e \<in> set (t_events d) \<Longrightarrow> lookup (t_subscriptions d) (se_subscription_id e) = Some s \<Longrightarrow>
      event_sound d e \<Longrightarrow> statuses_agree (s_status s) (se_status e) \<Longrightarrow>
      statuses_agree (s_status s) (se_status (f e)) \<and> order_agrees (se_status (f e)) (se_order_id (f e)) \<and>
      opt_fits (refers (t_orders d)) (se_order_id (f e))"
    and one: "one_event_per_order (map f (t_events d))"
  shows "subscriptions_inv d'"
proof -
  have cols: "t_subscriptions d' = t_subscriptions d" "t_events d' = map f (t_events d)"
      "t_sub_products d' = t_sub_products d" "t_sub_payments d' = t_sub_payments d"
      "t_users d' = t_users d" "t_orders d' = t_orders d"
    by (simp_all add: d')
  have g: "row_id (f e) = row_id e" "slot (f e) = slot e" "se_price (f e) = se_price e"
      "se_currency (f e) = se_currency e" "se_subscription_id (f e) = se_subscription_id e" for e
    using f [of e] by simp_all
  have "event_sound d' (f e)" if e: "e \<in> set (t_events d)" for e
  proof -
    have es: "event_sound d e" by (rule subscriptions_invD(6) [OF inv e])
    from event_of_subscription [OF inv e] obtain s where
      s: "lookup (t_subscriptions d) (se_subscription_id e) = Some s" "statuses_agree (s_status s) (se_status e)" .
    note h = ev [OF e s(1) es s(2)]
    have "fits_subscription_event (f e)" "check_subscription_event (f e)"
      using es by (simp_all add: event_sound_def fits_subscription_event_def check_subscription_event_def g)
    moreover have "lookup (t_subscriptions d') (se_subscription_id (f e)) = Some s" by (simp only: cols g s(1))
    moreover have "event_product d' (row_id (f e)) = event_product d (row_id e)"
      by (simp add: event_product_def cols g)
    moreover have "opt_fits (refers (t_orders d')) (se_order_id (f e))" using h by (simp only: cols)
    ultimately show ?thesis using h g(3) by (intro event_sound_transfer [OF es]) auto
  qed
  moreover have ids: "row_ids (t_events d') = row_ids (t_events d)"
    unfolding cols by (rule row_ids_map) (rule g(1))
  moreover have "slot \<circ> f = slot" by (rule ext) (simp only: o_def g(2))
  then have "map slot (t_events d') = map slot (t_events d)" unfolding cols map_map by (simp only:)
  then have "distinct (map slot (t_events d'))" using subscriptions_invD(9) [OF inv] by (simp only:)
  moreover have "sub_payment_sound d' = sub_payment_sound d"
    by (rule ext) (simp only: sub_payment_sound_def ids cols(5))
  ultimately show ?thesis
    using subscriptions_invD(1-5,7-9) [OF inv] one unfolding subscriptions_inv_def cols by simp
qed

definition make_ready :: "datetime \<Rightarrow> uuid \<Rightarrow> subscription_event \<Rightarrow> subscription_event" where
  "make_ready t i e = e\<lparr>se_status := EvREADY, se_order_id := Some i, updated_at := t\<rparr>"

lemma make_ready_simps [simp]:
  "row_id (make_ready t i e) = row_id e" "se_subscription_id (make_ready t i e) = se_subscription_id e"
  "se_scheduled_date (make_ready t i e) = se_scheduled_date e" "se_order_id (make_ready t i e) = Some i"
  "se_price (make_ready t i e) = se_price e" "se_currency (make_ready t i e) = se_currency e"
  "se_status (make_ready t i e) = EvREADY"
  by (simp_all add: make_ready_def)

lemma ready_inv:
  assumes inv: "subscriptions_inv d" and e: "e \<in> set (t_events d)"
    and s: "lookup (t_subscriptions d) (se_subscription_id e) = Some s" "s_status s = SubACTIVE"
    and i: "refers (t_orders d) i" "\<And>x. x \<in> set (t_events d) \<Longrightarrow> se_order_id x \<noteq> Some i"
  shows "subscriptions_inv (t_events_update (map (on {row_id e} (make_ready t i))) d)"
proof (rule inv_map_events [OF inv refl])
  fix x s'
  assume x: "x \<in> set (t_events d)" "lookup (t_subscriptions d) (se_subscription_id x) = Some s'" "event_sound d x"
    "statuses_agree (s_status s') (se_status x)"
  have "x = e" if "row_id x = row_id e"
    using same_row [OF subscriptions_invD(2) [OF inv] x(1) e] that by simp
  then show "statuses_agree (s_status s') (se_status (on {row_id e} (make_ready t i) x)) \<and>
      order_agrees (se_status (on {row_id e} (make_ready t i) x)) (se_order_id (on {row_id e} (make_ready t i) x)) \<and>
      opt_fits (refers (t_orders d)) (se_order_id (on {row_id e} (make_ready t i) x))"
    using x s i(1) by (auto simp: on_def order_agrees_def opt_fits_def event_sound_def)
next
  show "one_event_per_order (map (on {row_id e} (make_ready t i)) (t_events d))"
    using subscriptions_invD(10) [OF inv] i(2) unfolding one_event_per_order_def
    by (auto simp: on_def)
qed (simp add: on_def)

section \<open>Ordering a due event\<close>

lemma save_ready_InrE:
  assumes "save_event (e\<lparr>se_status := EvREADY, se_order_id := Some i\<rparr>) w = (Inr x, w')"
    and "e \<in> set (t_events (wdb w))" and "distinct (row_ids (t_events (wdb w)))" and "se_status e = EvPENDING"
  shows "w' = w\<lparr>wdb := t_events_update (map (on {row_id e} (make_ready (now w) i))) (wdb w)\<rparr>"
proof -
  have "w' = w\<lparr>wdb := t_events_update
      (map (on {row_id e} (\<lambda>x. touch (now w) x (x\<lparr>se_status := EvREADY, se_order_id := Some i\<rparr>)))) (wdb w)\<rparr>"
    using assms(1-3)
    by (intro events_rel.save_on [where f = "\<lambda>x. x\<lparr>se_status := EvREADY, se_order_id := Some i\<rparr>"]) simp_all
  moreover have "e\<lparr>se_status := EvREADY, se_order_id := Some i\<rparr> \<noteq> e"
  proof
    assume "e\<lparr>se_status := EvREADY, se_order_id := Some i\<rparr> = e"
    then have "se_status (e\<lparr>se_status := EvREADY, se_order_id := Some i\<rparr>) = se_status e" by (simp only:)
    with assms(4) show False by simp
  qed
  then have "on {row_id e} (\<lambda>x. touch (now w) x (x\<lparr>se_status := EvREADY, se_order_id := Some i\<rparr>)) x =
      on {row_id e} (make_ready (now w) i) x" if "x \<in> set (t_events (wdb w))" for x
    using same_row [OF assms(3) that assms(2)] by (auto simp: on_def touch_def make_ready_def)
  then have "map (on {row_id e} (\<lambda>x. touch (now w) x (x\<lparr>se_status := EvREADY, se_order_id := Some i\<rparr>))) (t_events (wdb w)) =
      map (on {row_id e} (make_ready (now w) i)) (t_events (wdb w))"
    by (intro map_cong [OF refl])
  then have "t_events_update (map (on {row_id e}
        (\<lambda>x. touch (now w) x (x\<lparr>se_status := EvREADY, se_order_id := Some i\<rparr>)))) (wdb w) =
      t_events_update (map (on {row_id e} (make_ready (now w) i))) (wdb w)"
    by (rule events_rel.upd_cong)
  ultimately show ?thesis by (simp only:)
qed

lemma repo_add_now: "leaves now (repo_add u ty amount ls f)"
  unfolding repo_add_def insert_fulfillment_def
  by (intro leaving.ev_intros now_fixed; auto split: fulfillment.splits intro!: leaving.ev_intros now_fixed)

lemma outside_orders_columns:
  assumes "outside_orders d = outside_orders d'"
  shows "t_users d = t_users d'" "t_subscriptions d = t_subscriptions d'" "t_events d = t_events d'"
    "t_sub_products d = t_sub_products d'" "t_sub_payments d = t_sub_payments d'" "t_sub_delivery d = t_sub_delivery d'"
    "t_products d = t_products d'" "t_order_payments d = t_order_payments d'"
  using arg_cong [OF assms, of t_users] arg_cong [OF assms, of t_subscriptions] arg_cong [OF assms, of t_events]
    arg_cong [OF assms, of t_sub_products] arg_cong [OF assms, of t_sub_payments] arg_cong [OF assms, of t_sub_delivery]
    arg_cong [OF assms, of t_products] arg_cong [OF assms, of t_order_payments] by simp_all

lemma order_event_InrE:
  assumes run: "order_event s e info p w = (Inr x, w')" and e: "e \<in> set (t_events (wdb w))"
    and ids: "distinct (row_ids (t_events (wdb w)))" and st: "se_status e = EvPENDING"
  obtains ord v where "build_order s e info p w = (Inr ord, v)" and "now w' = now w"
    and "outside_orders (wdb v) = outside_orders (wdb w)"
    and "wdb w' = t_events_update (map (on {row_id e} (make_ready (now w) (row_id ord)))) (wdb v)"
proof -
  from run obtain ord v where ord: "build_order s e info p w = (Inr ord, v)"
    and save: "save_event (e\<lparr>se_status := EvREADY, se_order_id := Some (row_id ord)\<rparr>) v = (Inr x, w')"
    unfolding order_event_def by (rule bind_InrE)
  have out: "outside_orders (wdb v) = outside_orders (wdb w)" "now v = now w"
    using leavesD [OF repo_add_frame ord [unfolded build_order_def]] leavesD [OF repo_add_now ord [unfolded build_order_def]] .
  from save have "w' = v\<lparr>wdb := t_events_update (map (on {row_id e} (make_ready (now v) (row_id ord)))) (wdb v)\<rparr>"
    by (rule save_ready_InrE) (use e ids st outside_orders_columns(3) [OF out(1)] in simp_all)
  with ord out show thesis by (intro that [of ord v]) simp_all
qed

text \<open>The order that a due event becomes, as the rows of a database show it.\<close>

definition delivers :: "datetime \<Rightarrow> database \<Rightarrow> due_event \<Rightarrow> order \<Rightarrow> bool" where
  "delivers t d x ord \<longleftrightarrow>
     ord = new_order (s_user_id (due_sub x)) DELIVERY (se_price (due_event x)) (row_id ord) t \<and>
     (case (due_delivery x, due_product x) of
        (Some info, Some p) \<Rightarrow>
          (\<exists>j. order_lines d (row_id ord) = [new_line (row_id ord) (snapshot_line p) j t]) \<and>
          (\<exists>j. order_delivery d (row_id ord) = Some (new_delivery (row_id ord) (saved_address info) j t))
      | _ \<Rightarrow> False)"

text \<open>Orders, their lines and addresses are only added.\<close>

definition orders_grow :: "database \<Rightarrow> database \<Rightarrow> order list \<Rightarrow> bool" where
  "orders_grow d d' os \<longleftrightarrow> t_orders d' = t_orders d @ os \<and>
     (\<forall>j. refers (t_orders d) j \<longrightarrow> order_lines d' j = order_lines d j \<and> order_delivery d' j = order_delivery d j)"

abbreviation outside_due :: "database \<Rightarrow> database" where
  "outside_due d \<equiv> (outside_orders d)\<lparr>t_events := []\<rparr>"

definition waiting :: "database \<Rightarrow> due_event \<Rightarrow> bool" where
  "waiting d x \<longleftrightarrow> due_event x \<in> set (t_events d) \<and> se_status (due_event x) = EvPENDING \<and>
     lookup (t_subscriptions d) (se_subscription_id (due_event x)) = Some (due_sub x) \<and>
     s_status (due_sub x) = SubACTIVE \<and> due_product x = event_product d (row_id (due_event x))"

lemma orders_ok_same:
  assumes "t_orders d' = t_orders d" "t_order_products d' = t_order_products d" "t_pickup_info d' = t_pickup_info d"
    "t_delivery_info d' = t_delivery_info d" and points: "pickup_points_exist d'"
    and "set (row_ids (t_users d)) \<subseteq> set (row_ids (t_users d'))" and "orders_ok d"
  shows "orders_ok d'"
proof -
  have "orders_inv d'" using assms by (intro orders_inv_same [of d' d]) (simp_all add: order_columns_def orders_ok_def)
  moreover have "orders_legal d'"
    using assms by (auto simp: orders_ok_def orders_legal_def ok_order_def ok_pickup_info_def ok_delivery_info_def
        pickup_points_exist_def)
  ultimately show ?thesis by (simp add: orders_ok_def)
qed

lemma orders_ok_points: "orders_ok d \<Longrightarrow> pickup_points_exist d"
  by (simp add: orders_ok_def orders_legal_def ok_pickup_info_def pickup_points_exist_def)

text \<open>The tables the invariant of orders reads.\<close>

lemma orders_ok_outside:
  assumes "t_orders d' = t_orders d" "t_order_products d' = t_order_products d" "t_pickup_info d' = t_pickup_info d"
    "t_delivery_info d' = t_delivery_info d" "t_points d' = t_points d" "t_users d' = t_users d" and "orders_ok d"
  shows "orders_ok d'"
  using orders_ok_points [OF assms(7)] assms
  by (intro orders_ok_same [of d' d]) (simp_all add: pickup_points_exist_def)

lemma build_order_InrE:
  assumes run: "build_order s e info p w = (Inr ord, v)" and inv: "orders_ok (wdb w)"
    and price: "sp_product_price p = se_price e"
  shows "ord = new_order (s_user_id s) DELIVERY (se_price e) (row_id ord) (now w)"
    and "\<not> refers (t_orders (wdb w)) (row_id ord)" and "orders_grow (wdb w) (wdb v) [ord]"
    and "\<exists>j. order_lines (wdb v) (row_id ord) = [new_line (row_id ord) (snapshot_line p) j (now w)]"
    and "\<exists>j. order_delivery (wdb v) (row_id ord) = Some (new_delivery (row_id ord) (saved_address info) j (now w))"
    and "orders_ok (wdb v)"
proof -
  note run = run [unfolded build_order_def]
  from run obtain i js ps ds where ord: "ord = new_order (s_user_id s) DELIVERY (se_price e) i (now w)"
    and new: "i \<notin> set (row_ids (t_orders (wdb w)))" and js: "length js = length [snapshot_line p]"
    and tabs: "t_orders (wdb v) = t_orders (wdb w) @ [ord]"
      "t_order_products (wdb v) = t_order_products (wdb w) @ map2 (\<lambda>l j. new_line i l j (now w)) [snapshot_line p] js"
      "t_delivery_info (wdb v) = t_delivery_info (wdb w) @ ds"
    and f: "fulfillment_rows i (now w) (DeliverTo (saved_address info)) ps ds"
    by (elim repo_add_InrE)
  have id: "row_id ord = i" by (simp add: ord new_order_def)
  from js obtain j where "js = [j]" by (cases js) auto
  with tabs have lines: "t_order_products (wdb v) = t_order_products (wdb w) @ [new_line i (snapshot_line p) j (now w)]"
    by simp
  from f obtain k where ds: "ds = [new_delivery i (saved_address info) k (now w)]" by (auto simp: fulfillment_rows_def)
  have oi: "orders_inv (wdb w)" using inv by (simp add: orders_ok_def)
  have none: "order_lines (wdb w) i = []" "order_delivery (wdb w) i = None"
    using oi new by (auto simp: orders_inv_def order_lines_def order_delivery_def filter_empty_conv find_None_iff)
  show "ord = new_order (s_user_id s) DELIVERY (se_price e) (row_id ord) (now w)" by (simp add: id) (rule ord)
  show "\<not> refers (t_orders (wdb w)) (row_id ord)" using new by (simp add: id)
  show "\<exists>j. order_lines (wdb v) (row_id ord) = [new_line (row_id ord) (snapshot_line p) j (now w)]"
    using none(1) by (intro exI [of _ j]) (simp add: id order_lines_def lines new_line_def)
  show "\<exists>j. order_delivery (wdb v) (row_id ord) = Some (new_delivery (row_id ord) (saved_address info) j (now w))"
    using none(2) by (intro exI [of _ k]) (simp add: id order_delivery_def tabs(3) ds find_append new_delivery_def)
  show "orders_grow (wdb w) (wdb v) [ord]"
    using new by (auto simp: orders_grow_def tabs(1) order_lines_def lines new_line_def order_delivery_def
        tabs(3) ds find_append new_delivery_def split: option.splits)
  have "orders_inv (wdb v)"
    by (rule repo_add_inv [OF run oi]) (simp_all add: order_total_def snapshot_line_def price fulfillment_type_def)
  moreover have "orders_legal (wdb v)"
    by (rule repo_add_legal [OF run oi]) (use inv in \<open>simp add: orders_ok_def\<close>)
  ultimately show "orders_ok (wdb v)" by (simp add: orders_ok_def)
qed

lemma order_event_effect:
  assumes run: "order_event (due_sub x) (due_event x) info p w = (Inr u, w')"
    and inv: "orders_ok (wdb w)" "subscriptions_inv (wdb w)" and x: "waiting (wdb w) x"
    and parts: "due_delivery x = Some info" "due_product x = Some p"
  obtains ord where "delivers (now w) (wdb w') x ord" and "\<not> refers (t_orders (wdb w)) (row_id ord)"
    and "orders_grow (wdb w) (wdb w') [ord]" and "now w' = now w"
    and "outside_due (wdb w') = outside_due (wdb w)"
    and "t_events (wdb w') = map (on {row_id (due_event x)} (make_ready (now w) (row_id ord))) (t_events (wdb w))"
    and "orders_ok (wdb w')" and "subscriptions_inv (wdb w')"
proof -
  note e = x [unfolded waiting_def]
  have ids: "distinct (row_ids (t_events (wdb w)))" by (rule subscriptions_invD(2) [OF inv(2)])
  have sound: "event_sound (wdb w) (due_event x)" using subscriptions_invD(6) [OF inv(2)] e by blast
  moreover have "event_product (wdb w) (row_id (due_event x)) = Some p" using e parts(2) by metis
  ultimately have price: "sp_product_price p = se_price (due_event x)" by (simp add: event_sound_def)
  from run e ids obtain ord v where ord: "build_order (due_sub x) (due_event x) info p w = (Inr ord, v)"
    and n: "now w' = now w" and out: "outside_orders (wdb v) = outside_orders (wdb w)"
    and w': "wdb w' = t_events_update (map (on {row_id (due_event x)} (make_ready (now w) (row_id ord)))) (wdb v)"
    by (elim order_event_InrE) blast+
  note o = build_order_InrE [OF ord inv(1) price]
  note same = outside_orders_columns [OF out]
  have cols: "t_orders (wdb w') = t_orders (wdb v)" "order_lines (wdb w') = order_lines (wdb v)"
      "order_delivery (wdb w') = order_delivery (wdb v)"
    by (simp_all add: w' fun_eq_iff order_lines_def order_delivery_def)
  have grow: "orders_grow (wdb w) (wdb w') [ord]" using o(3) unfolding orders_grow_def cols .
  have inv1: "subscriptions_inv (wdb v)"
    by (rule subscriptions_inv_grow [OF inv(2)]) (use same o(3) in \<open>auto simp: orders_grow_def\<close>)
  have "subscriptions_inv (wdb w')" unfolding w'
  proof (rule ready_inv [OF inv1])
    show "due_event x \<in> set (t_events (wdb v))" using e same by simp
    show "lookup (t_subscriptions (wdb v)) (se_subscription_id (due_event x)) = Some (due_sub x)" "s_status (due_sub x) = SubACTIVE"
      using e same by simp_all
    show "refers (t_orders (wdb v)) (row_id ord)" using o(3) by (simp add: orders_grow_def)
    fix y
    assume "y \<in> set (t_events (wdb v))"
    then have "event_sound (wdb w) y" using same subscriptions_invD(6) [OF inv(2)] by simp
    then show "se_order_id y \<noteq> Some (row_id ord)" using o(2) by (auto simp: event_sound_def opt_fits_def)
  qed
  moreover have "orders_ok (wdb w')" by (rule orders_ok_outside [OF _ _ _ _ _ _ o(6)]) (simp_all add: w')
  moreover have "outside_due (wdb w') = outside_due (wdb w)"
    using arg_cong [OF out, of "t_events_update (\<lambda>_. [])"] by (simp add: w')
  moreover have "t_events (wdb w') = map (on {row_id (due_event x)} (make_ready (now w) (row_id ord))) (t_events (wdb w))"
    by (simp add: w' same)
  moreover have "delivers (now w) (wdb w') x ord"
    using o(1,4,5) parts by (simp add: delivers_def cols)
  ultimately show thesis using grow o(2) n by (intro that [of ord]) simp_all
qed

text \<open>What the loop over the due events has done when it returns.\<close>

definition ready_with :: "datetime \<Rightarrow> (uuid \<times> uuid) list \<Rightarrow> subscription_event \<Rightarrow> subscription_event" where
  "ready_with t m e = (case map_of m (row_id e) of None \<Rightarrow> e | Some i \<Rightarrow> make_ready t i e)"

definition deliverable :: "due_event \<Rightarrow> bool" where
  "deliverable x \<longleftrightarrow> due_delivery x \<noteq> None \<and> due_product x \<noteq> None"

abbreviation due_ids :: "due_event list \<Rightarrow> uuid list" where
  "due_ids xs \<equiv> map (\<lambda>x. row_id (due_event x)) xs"

lemma orders_grow_refl: "orders_grow d d []"
  by (simp add: orders_grow_def)

lemma orders_grow_trans: "orders_grow d d1 os \<Longrightarrow> orders_grow d1 d2 ps \<Longrightarrow> orders_grow d d2 (os @ ps)"
  by (auto simp: orders_grow_def)

lemma delivers_grow:
  "delivers t d x ord \<Longrightarrow> orders_grow d d' os \<Longrightarrow> refers (t_orders d) (row_id ord) \<Longrightarrow> delivers t d' x ord"
  by (auto simp: delivers_def orders_grow_def split: option.splits)

lemma waiting_step:
  assumes "waiting d x" and "outside_due d' = outside_due d" and "row_id (due_event x) \<noteq> i"
    and "t_events d' = map (on {i} (make_ready t j)) (t_events d)"
  shows "waiting d' x"
proof -
  have "due_event x = on {i} (make_ready t j) (due_event x)" using assms(3) by (simp add: on_def)
  moreover have "due_event x \<in> set (t_events d)" using assms(1) by (simp add: waiting_def)
  ultimately have "due_event x \<in> set (t_events d')" unfolding assms(4) set_map by (rule image_eqI)
  moreover have "t_subscriptions d' = t_subscriptions d" "t_sub_products d' = t_sub_products d"
    using arg_cong [OF assms(2), of t_subscriptions] arg_cong [OF assms(2), of t_sub_products] by simp_all
  ultimately show ?thesis using assms(1) by (simp add: waiting_def event_product_def)
qed

lemma ready_with_step:
  assumes "i \<notin> fst ` set m"
  shows "ready_with t m (on {i} (make_ready t j) e) = ready_with t ((i, j) # m) e"
proof (cases "row_id e = i")
  case True
  then have "map_of m i = None" using assms by (simp add: map_of_eq_None_iff)
  then show ?thesis using True by (simp add: ready_with_def on_def)
qed (simp add: ready_with_def on_def)

definition processed :: "world \<Rightarrow> due_event list \<Rightarrow> order list \<Rightarrow> world \<Rightarrow> bool" where
  "processed w ys os w' \<longleftrightarrow>
     list_all2 (delivers (now w) (wdb w')) ys os \<and> orders_grow (wdb w) (wdb w') os \<and>
     distinct (row_ids os) \<and> now w' = now w \<and> outside_due (wdb w') = outside_due (wdb w) \<and>
     t_events (wdb w') = map (ready_with (now w) (zip (due_ids ys) (row_ids os))) (t_events (wdb w)) \<and>
     orders_ok (wdb w') \<and> subscriptions_inv (wdb w')"

lemma ready_with_nothing: "ready_with t [] = (\<lambda>e. e)"
  by (rule ext) (simp add: ready_with_def)

lemma processed_none: "orders_ok (wdb w) \<Longrightarrow> subscriptions_inv (wdb w) \<Longrightarrow> processed w [] [] w"
  by (simp add: processed_def orders_grow_refl ready_with_nothing)

lemma processed_step:
  assumes one: "delivers (now w) (wdb v) x ord" "\<not> refers (t_orders (wdb w)) (row_id ord)"
      "orders_grow (wdb w) (wdb v) [ord]" "now v = now w" "outside_due (wdb v) = outside_due (wdb w)"
      "t_events (wdb v) = map (on {row_id (due_event x)} (make_ready (now w) (row_id ord))) (t_events (wdb w))"
    and rest: "processed v ys os w'" and new: "row_id (due_event x) \<notin> set (due_ids ys)"
  shows "processed w (x # ys) (ord # os) w'"
proof -
  let ?m = "zip (due_ids ys) (row_ids os)"
  note r = rest [unfolded processed_def]
  have g: "orders_grow (wdb v) (wdb w') os" using r by blast
  have there: "refers (t_orders (wdb v)) (row_id ord)" using one(3) by (simp add: orders_grow_def)
  have "delivers (now w) (wdb w') x ord" by (rule delivers_grow [OF one(1) g there])
  moreover have "list_all2 (delivers (now w) (wdb w')) ys os" using r one(4) by simp
  moreover have "distinct (row_ids (ord # os))"
  proof -
    have "orders_ok (wdb w')" using r by blast
    then have "distinct (row_ids (t_orders (wdb v) @ os))"
      using orders_inv_ids(1) [of "wdb w'"] g by (simp add: orders_ok_def orders_grow_def)
    then show ?thesis using there by auto
  qed
  moreover have "i \<notin> fst ` set ?m" if "i = row_id (due_event x)" for i
    using new that by (auto dest: set_zip_leftD)
  then have "t_events (wdb w') = map (ready_with (now w) (zip (due_ids (x # ys)) (row_ids (ord # os)))) (t_events (wdb w))"
    using r one(4,6) ready_with_step [of "row_id (due_event x)" ?m "now w" "row_id ord"] by simp
  moreover have "orders_grow (wdb w) (wdb w') (ord # os)" using orders_grow_trans [OF one(3) g] by simp
  moreover have "outside_due (wdb w') = outside_due (wdb w)" using r one(5) by metis
  moreover have "now w' = now w" using r one(4) by metis
  ultimately show ?thesis using r unfolding processed_def by blast
qed

lemma process_due_effect:
  assumes "process_due xs w = (Inr n, w')" and "orders_ok (wdb w)" "subscriptions_inv (wdb w)"
    and "\<forall>x \<in> set xs. waiting (wdb w) x" and "distinct (due_ids xs)"
  shows "\<exists>os. processed w (filter deliverable xs) os w' \<and> n = length os"
  using assms
proof (induction xs arbitrary: w n)
  case Nil
  then show ?case using processed_none by auto
next
  case (Cons x xs)
  show ?case
  proof (cases "deliverable x")
    case False
    then have "process_due xs w = (Inr n, w')"
      using Cons.prems(1) by (auto simp: deliverable_def split: option.splits)
    then show ?thesis using Cons.IH [of w n] Cons.prems False by simp
  next
    case True
    then obtain info p where parts: "due_delivery x = Some info" "due_product x = Some p"
      by (auto simp: deliverable_def)
    from Cons.prems(1) obtain u v k where run: "order_event (due_sub x) (due_event x) info p w = (Inr u, v)"
      and rest: "process_due xs v = (Inr k, w')" and n: "n = Suc k"
      by (auto simp: parts elim!: bind_InrE)
    have x: "waiting (wdb w) x" using Cons.prems(4) by simp
    from run Cons.prems(2,3) x parts show ?thesis
    proof (rule order_event_effect)
      fix ord
      assume one: "delivers (now w) (wdb v) x ord" "\<not> refers (t_orders (wdb w)) (row_id ord)"
        "orders_grow (wdb w) (wdb v) [ord]" "now v = now w" "outside_due (wdb v) = outside_due (wdb w)"
        "t_events (wdb v) = map (on {row_id (due_event x)} (make_ready (now w) (row_id ord))) (t_events (wdb w))"
        and inv: "orders_ok (wdb v)" "subscriptions_inv (wdb v)"
      have "waiting (wdb v) y" if y: "y \<in> set xs" for y
      proof (rule waiting_step [OF _ one(5) _ one(6)])
        show "waiting (wdb w) y" using Cons.prems(4) y by simp
        have "row_id (due_event y) \<in> set (due_ids xs)" using y by simp
        then show "row_id (due_event y) \<noteq> row_id (due_event x)" using Cons.prems(5) by auto
      qed
      moreover have "distinct (due_ids xs)" using Cons.prems(5) by simp
      ultimately obtain os where os: "processed v (filter deliverable xs) os w'" "k = length os"
        using Cons.IH [OF rest inv] by blast
      have "processed w (x # filter deliverable xs) (ord # os) w'"
        using Cons.prems(5) by (intro processed_step [OF one os(1)]) auto
      then show ?thesis using True os(2) n by (intro exI [of _ "ord # os"]) simp
    qed
  qed
qed

lemma due_events_waiting:
  assumes "subscriptions_inv d"
  shows "\<forall>x \<in> set (due_events c d). waiting d x" and "distinct (due_ids (due_events c d))"
proof -
  show "\<forall>x \<in> set (due_events c d). waiting d x"
    by (auto simp: due_events_def load_due_def waiting_def is_due_def split: option.splits)
  have "distinct (row_ids (filter (is_due c d) (t_events d)))"
    using subscriptions_invD(2) [OF assms] by (simp add: row_ids_def distinct_map_filter)
  moreover have "due_ids (due_events c d) = row_ids (sort_key se_scheduled_date (filter (is_due c d) (t_events d)))"
    by (simp add: due_events_def load_due_def row_ids_def)
  ultimately show "distinct (due_ids (due_events c d))" by (simp add: row_ids_def distinct_map)
qed

lemma process_due_events_effect:
  assumes "process_due_events today w = (Inr n, w')" and "orders_ok (wdb w)" "subscriptions_inv (wdb w)"
  obtains os where
    "processed w (filter deliverable (due_events (cutoff_date today (now w)) (wdb w))) os w'" and "n = length os"
proof -
  have "process_due (due_events (cutoff_date today (now w)) (wdb w)) w = (Inr n, w')"
    using assms(1) by (simp add: process_due_events_def bind_gets)
  from process_due_effect [OF this assms(2,3) due_events_waiting [OF assms(3)]] show thesis using that by blast
qed

section \<open>Completing events\<close>

definition finish :: "datetime \<Rightarrow> subscription_event \<Rightarrow> subscription_event" where
  "finish t e = e\<lparr>se_status := EvCOMPLETED, updated_at := t\<rparr>"

lemma finish_simps [simp]:
  "row_id (finish t e) = row_id e" "se_subscription_id (finish t e) = se_subscription_id e"
  "se_scheduled_date (finish t e) = se_scheduled_date e" "se_order_id (finish t e) = se_order_id e"
  "se_price (finish t e) = se_price e" "se_currency (finish t e) = se_currency e"
  "se_status (finish t e) = EvCOMPLETED"
  by (simp_all add: finish_def)

definition synced :: "datetime \<Rightarrow> database \<Rightarrow> subscription_event \<Rightarrow> subscription_event" where
  "synced t d e = (if order_completed d e then finish t e else e)"

lemma sync_InrE:
  assumes run: "sync_completed_events w = (Inr n, w')" and ids: "distinct (row_ids (t_events (wdb w)))"
  shows "w' = w\<lparr>wdb := t_events_update (map (synced (now w) (wdb w))) (wdb w)\<rparr>"
    and "n = length (filter (order_completed (wdb w)) (t_events (wdb w)))"
proof -
  let ?es = "filter (order_completed (wdb w)) (t_events (wdb w))"
  from run obtain us where "forM (\<lambda>e. save_event (e\<lparr>se_status := EvCOMPLETED\<rparr>)) ?es w = (Inr us, w')"
    and n: "n = length ?es"
    by (auto simp: sync_completed_events_def elim!: bind_InrE)
  then have "forM (\<lambda>e. if True then save_event (e\<lparr>se_status := EvCOMPLETED\<rparr>) else ret ()) ?es w = (Inr us, w')"
    by simp
  then have w': "w' = w\<lparr>wdb := t_events_update (map (on (set (row_ids ?es))
      (\<lambda>x. if True then touch (now w) x (x\<lparr>se_status := EvCOMPLETED\<rparr>) else x))) (wdb w)\<rparr>"
    by (rule events_rel.forM_save_on)
      (use ids in \<open>auto simp: row_ids_def distinct_map_filter\<close>)
  have "on (set (row_ids ?es)) (\<lambda>x. if True then touch (now w) x (x\<lparr>se_status := EvCOMPLETED\<rparr>) else x) e =
      synced (now w) (wdb w) e" if e: "e \<in> set (t_events (wdb w))" for e
  proof -
    have "row_id e \<in> set (row_ids ?es) \<longleftrightarrow> order_completed (wdb w) e"
      using same_row [OF ids _ e] e by (auto simp: row_ids_def)
    moreover have "e\<lparr>se_status := EvCOMPLETED\<rparr> \<noteq> e" if "order_completed (wdb w) e"
      using that by (intro status_changed) (simp add: order_completed_def)
    ultimately show ?thesis by (simp add: on_def synced_def touch_def finish_def)
  qed
  then have "map (on (set (row_ids ?es)) (\<lambda>x. if True then touch (now w) x (x\<lparr>se_status := EvCOMPLETED\<rparr>) else x))
      (t_events (wdb w)) = map (synced (now w) (wdb w)) (t_events (wdb w))"
    by (intro map_cong [OF refl])
  then have "t_events_update (map (on (set (row_ids ?es))
      (\<lambda>x. if True then touch (now w) x (x\<lparr>se_status := EvCOMPLETED\<rparr>) else x))) (wdb w) =
      t_events_update (map (synced (now w) (wdb w))) (wdb w)"
    by (rule events_rel.upd_cong)
  then show "w' = w\<lparr>wdb := t_events_update (map (synced (now w) (wdb w))) (wdb w)\<rparr>"
    using w' by (simp only:)
  show "n = length ?es" by (rule n)
qed

lemma complete_agrees:
  assumes "statuses_agree st x" and "order_agrees x i" and "i \<noteq> None"
  shows "statuses_agree st EvCOMPLETED"
  using assms by (cases st; cases x) (simp_all add: order_agrees_def)

lemma sync_keeps: "preserves subscriptions_inv sync_completed_events"
proof (rule preservesI)
  fix w n w'
  assume run: "sync_completed_events w = (Inr n, w')" and inv: "subscriptions_inv (wdb w)"
  from sync_InrE(1) [OF run subscriptions_invD(2) [OF inv]]
  have w': "wdb w' = t_events_update (map (synced (now w) (wdb w))) (wdb w)" by simp
  show "subscriptions_inv (wdb w')"
  proof (rule inv_map_events [OF inv w'])
    fix e s
    assume e: "event_sound (wdb w) e" "statuses_agree (s_status s) (se_status e)"
    have "statuses_agree (s_status s) EvCOMPLETED \<and> order_agrees EvCOMPLETED (se_order_id e)"
      if "order_completed (wdb w) e"
    proof -
      have i: "se_order_id e \<noteq> None" using that by (auto simp: order_completed_def split: option.splits)
      with e show ?thesis using complete_agrees [OF e(2) _ i] by (simp add: event_sound_def order_agrees_def)
    qed
    then show "statuses_agree (s_status s) (se_status (synced (now w) (wdb w) e)) \<and>
        order_agrees (se_status (synced (now w) (wdb w) e)) (se_order_id (synced (now w) (wdb w) e)) \<and>
        opt_fits (refers (t_orders (wdb w))) (se_order_id (synced (now w) (wdb w) e))"
      using e by (simp add: synced_def event_sound_def)
  next
    have f: "se_order_id (synced (now w) (wdb w) e) = se_order_id e" "row_id (synced (now w) (wdb w) e) = row_id e" for e
      by (simp_all add: synced_def)
    show "one_event_per_order (map (synced (now w) (wdb w)) (t_events (wdb w)))"
      using subscriptions_invD(10) [OF inv] unfolding one_event_per_order_def set_map ball_simps(9) f .
  qed (simp add: synced_def)
qed

section \<open>Extending a schedule\<close>

definition off_session_charge ::
  "payment_provider \<Rightarrow> subscription \<Rightarrow> datetime \<Rightarrow> subscription_event \<Rightarrow> subscription_payment \<Rightarrow> bool" where
  "off_session_charge prov s t e p \<longleftrightarrow>
     (\<exists>i txn. p = new_sub_payment (s_user_id s) (pv_name prov) txn PayCOMPLETED (Some t) e i t \<or>
       p = new_sub_payment (s_user_id s) (pv_name prov) txn PayFAILED None e i t)"

lemma off_session_columns:
  assumes "off_session_charge prov s t e p"
  shows "spay_event_id p = row_id e" "spay_user_id p = s_user_id s" "spay_txn_id p \<noteq> None"
    "spay_amount p = se_price e" "spay_status p = PayCOMPLETED \<or> spay_status p = PayFAILED"
  using assms by (auto simp: off_session_charge_def new_sub_payment_def)

context provider_contract
begin

lemma charge_off_session_InrE:
  assumes run: "charge_event_off_session prov s e w = (Inr p, w')"
  shows "off_session_charge prov s (now w) e p" and "now w' = now w"
    and "wdb w' = t_sub_payments_update (\<lambda>t. t @ [p]) (wdb w)"
    and "fits_subscription_payment p" "check_subscription_payment p"
    and "refers (t_events (wdb w)) (row_id e)" "refers (t_users (wdb w)) (s_user_id s)"
    and "row_id p \<notin> set (row_ids (t_sub_payments (wdb w)))"
proof -
  from run obtain res v where call: "create_charge prov \<lparr>ch_amount = se_price e, ch_currency = ''EUR'',
        ch_reference = str_uuid (row_id s) @ '':'' @ str_uuid (row_id e),
        ch_customer_id = Some (str_uuid (s_user_id s)), ch_method_token = None\<rparr> w = (Inr res, v)"
    and rest: "bind (gets now) (\<lambda>t.
        if cr_status res = ''completed''
        then add_sub_payment (new_sub_payment (s_user_id s) (pv_name prov) (cr_txn_id res) PayCOMPLETED (Some t) e)
        else add_sub_payment (new_sub_payment (s_user_id s) (pv_name prov) (cr_txn_id res) PayFAILED None e)) v = (Inr p, w')"
    unfolding charge_event_off_session_def by (rule bind_InrE)
  have v: "wdb v = wdb w" "now v = now w" using provider_same(1) [OF call] by auto
  obtain st c where st: "(st = PayCOMPLETED \<and> c = Some (now w)) \<or> (st = PayFAILED \<and> c = None)"
    and add: "add_sub_payment (new_sub_payment (s_user_id s) (pv_name prov) (cr_txn_id res) st c e) v = (Inr p, w')"
  proof (cases "cr_status res = ''completed''")
    case True
    with rest show thesis by (intro that [of PayCOMPLETED "Some (now w)"]) (simp_all add: bind_gets v)
  next
    case False
    with rest show thesis by (intro that [of PayFAILED None]) (simp_all add: bind_gets v)
  qed
  from add have p: "\<exists>i. p = new_sub_payment (s_user_id s) (pv_name prov) (cr_txn_id res) st c e i (now w)"
    and facts: "fits_subscription_payment p" "ok_sub_payment (wdb w) p" "row_id p \<notin> set (row_ids (t_sub_payments (wdb w)))"
      "w' = v\<lparr>wdb := t_sub_payments_update (\<lambda>t. t @ [p]) (wdb w), uuid_pos := Suc (uuid_pos v)\<rparr>"
    by (auto elim!: db_add_InrE simp: v)
  show off: "off_session_charge prov s (now w) e p" using p st by (auto simp: off_session_charge_def)
  show "now w' = now w" "wdb w' = t_sub_payments_update (\<lambda>t. t @ [p]) (wdb w)" using facts(4) v by simp_all
  show "fits_subscription_payment p" "check_subscription_payment p" "row_id p \<notin> set (row_ids (t_sub_payments (wdb w)))"
    using facts by (simp_all add: ok_sub_payment_def)
  show "refers (t_events (wdb w)) (row_id e)" "refers (t_users (wdb w)) (s_user_id s)"
    using facts(2) off_session_columns [OF off] by (simp_all add: ok_sub_payment_def)
qed

lemma charge_off_session_keeps:
  assumes run: "charge_event_off_session prov s e w = (Inr p, w')" and inv: "subscriptions_inv (wdb w)"
  shows "subscriptions_inv (wdb w')"
proof (rule inv_payments [OF inv, where ps = "t_sub_payments (wdb w) @ [p]"])
  note c = charge_off_session_InrE [OF run]
  show "wdb w' = (wdb w)\<lparr>t_sub_payments := t_sub_payments (wdb w) @ [p]\<rparr>"
    unfolding c(3) by (rule sub_payments_rel.upd_cong) simp
  show "distinct (row_ids (t_sub_payments (wdb w) @ [p]))"
    using c(8) subscriptions_invD(4) [OF inv] by simp
  have "sub_payment_sound (wdb w) p"
    using c(4-7) off_session_columns [OF c(1)] by (simp add: sub_payment_sound_def)
  then show "\<forall>q \<in> set (t_sub_payments (wdb w) @ [p]). sub_payment_sound (wdb w) q"
    using subscriptions_invD(8) [OF inv] by auto
qed

end

text \<open>The new rows of one appended event; without a provider no charge is made.\<close>

definition charged_as ::
  "payment_provider option \<Rightarrow> subscription \<Rightarrow> datetime \<Rightarrow> subscription_event \<Rightarrow> subscription_payment list \<Rightarrow> bool" where
  "charged_as provider s t e ps \<longleftrightarrow>
     (case provider of None \<Rightarrow> ps = [] | Some prov \<Rightarrow> \<exists>p. ps = [p] \<and> off_session_charge prov s t e p)"

abbreviation outside_extension :: "database \<Rightarrow> database" where
  "outside_extension d \<equiv> d\<lparr>t_events := [], t_sub_products := [], t_sub_payments := []\<rparr>"

lemma append_event_InrE:
  assumes run: "append_event provider s p dt w = (Inr u, w')"
    and prov: "\<And>prov. provider = Some prov \<Longrightarrow> provider_contract prov"
  obtains e q ps i j where "e = new_event (row_id s) (p_price p) dt i (now w)" and "q = new_sub_product p e j (now w)"
    and "charged_as provider s (now w) e ps" and "now w' = now w"
    and "wdb w' = t_sub_payments_update (\<lambda>t. t @ ps) (t_sub_products_update (\<lambda>t. t @ [q])
           (t_events_update (\<lambda>t. t @ [e]) (wdb w)))"
    and "subscriptions_inv (wdb w) \<and> (\<exists>r. lookup (t_subscriptions (wdb w)) (row_id s) = Some r \<and> s_status r = SubACTIVE) \<longrightarrow>
      subscriptions_inv (wdb w')"
proof -
  from run obtain e v q x where e: "add_event (new_event (row_id s) (p_price p) dt) w = (Inr e, v)"
    and q: "add_sub_product (new_sub_product p e) v = (Inr q, x)"
    and c: "(case provider of None \<Rightarrow> ret () | Some prov \<Rightarrow> bind (charge_event_off_session prov s e) (\<lambda>_. ret ())) x = (Inr u, w')"
    unfolding append_event_def by (elim bind_InrE)
  from e obtain i where e': "e = new_event (row_id s) (p_price p) dt i (now w)" "fits_subscription_event e" "ok_event (wdb w) e"
      "row_id e \<notin> set (row_ids (t_events (wdb w)))" "wdb v = t_events_update (\<lambda>t. t @ [e]) (wdb w)" "now v = now w"
    by (elim db_add_InrE) simp
  from q obtain j where q': "q = new_sub_product p e j (now w)"
      "row_id q \<notin> set (row_ids (t_sub_products (wdb v)))" "wdb x = t_sub_products_update (\<lambda>t. t @ [q]) (wdb v)" "now x = now w"
    using e'(6) by (elim db_add_InrE) simp
  have cols: "se_subscription_id e = row_id s" "se_price e = p_price p" "se_status e = EvPENDING" "se_order_id e = None"
      "sp_event_id q = row_id e" "sp_product_price q = se_price e"
    by (simp_all add: e'(1) q'(1) new_event_def new_sub_product_def)
  have keep: "subscriptions_inv (wdb x)" if inv: "subscriptions_inv (wdb w)"
    and r: "lookup (t_subscriptions (wdb w)) (row_id s) = Some r" "s_status r = SubACTIVE" for r
  proof (rule inv_new_events [OF inv, where es = "[e]" and ps = "[q]"])
    have "slot e \<notin> set (map slot (t_events (wdb w)))"
      using e'(3,4) row_id_in [of _ "t_events (wdb w)"] unfolding ok_event_def unique_by_def
      by (metis (no_types, lifting) image_iff list.set_map)
    then show "distinct (map slot (t_events (wdb x)))"
      using subscriptions_invD(9) [OF inv] by (simp add: q'(3) e'(5))
    show "\<forall>e' \<in> set [e]. fits_subscription_event e' \<and> check_subscription_event e' \<and> se_status e' = EvPENDING \<and> se_order_id e' = None"
      using e'(2,3) cols by (simp add: ok_event_def)
  qed (use e'(4) q'(2) r cols subscriptions_invD(2,3) [OF inv] in \<open>simp_all add: q'(3) e'(5)\<close>)
  show thesis
  proof (cases provider)
    case None
    with c have "w' = x" by simp
    with e' q' keep None show thesis by (intro that [of e i q j "[]"]) (auto simp: charged_as_def)
  next
    case (Some pv)
    with c obtain pay where pay: "charge_event_off_session pv s e x = (Inr pay, w')"
      by (auto elim!: bind_InrE)
    note pr = provider_contract.charge_off_session_InrE [OF prov [OF Some] pay]
    have "subscriptions_inv (wdb x) \<longrightarrow> subscriptions_inv (wdb w')"
      using provider_contract.charge_off_session_keeps [OF prov [OF Some] pay] by blast
    with e' q' keep Some pr show thesis by (intro that [of e i q j "[pay]"]) (auto simp: charged_as_def)
  qed
qed

definition appended ::
  "payment_provider option \<Rightarrow> subscription \<Rightarrow> product \<Rightarrow> date list \<Rightarrow> world \<Rightarrow> subscription_event list \<Rightarrow>
   subscription_product list \<Rightarrow> subscription_payment list list \<Rightarrow> world \<Rightarrow> bool" where
  "appended provider s p dates w es qs pss w' \<longleftrightarrow>
     list_all2 (\<lambda>dt e. \<exists>i. e = new_event (row_id s) (p_price p) dt i (now w)) dates es \<and>
     list_all2 (\<lambda>e q. \<exists>j. q = new_sub_product p e j (now w)) es qs \<and>
     list_all2 (charged_as provider s (now w)) es pss \<and> now w' = now w \<and>
     wdb w' = t_sub_payments_update (\<lambda>t. t @ concat pss) (t_sub_products_update (\<lambda>t. t @ qs)
       (t_events_update (\<lambda>t. t @ es) (wdb w))) \<and>
     (subscriptions_inv (wdb w) \<and> (\<exists>r. lookup (t_subscriptions (wdb w)) (row_id s) = Some r \<and> s_status r = SubACTIVE) \<longrightarrow>
       subscriptions_inv (wdb w'))"

lemma append_events_effect:
  assumes "forM (append_event provider s p) dates w = (Inr us, w')"
    and "\<And>prov. provider = Some prov \<Longrightarrow> provider_contract prov"
  shows "\<exists>es qs pss. appended provider s p dates w es qs pss w'"
  using assms(1)
proof (induction dates arbitrary: w us)
  case Nil
  then have w: "w' = w" by simp
  have "appended provider s p [] w [] [] [] w"
    by (simp add: appended_def events_rel.upd_same sub_products_rel.upd_same sub_payments_rel.upd_same)
  then show ?case unfolding w by (intro exI)
next
  case (Cons dt dates)
  from Cons.prems obtain u v vs where one: "append_event provider s p dt w = (Inr u, v)"
    and rest: "forM (append_event provider s p) dates v = (Inr vs, w')"
    by (auto elim!: bind_InrE)
  from Cons.IH [OF rest] obtain es qs pss where r: "appended provider s p dates v es qs pss w'" by (elim exE)
  from one assms(2) show ?case
  proof (rule append_event_InrE)
    fix e q ps i j
    assume a: "e = new_event (row_id s) (p_price p) dt i (now w)" "q = new_sub_product p e j (now w)"
      "charged_as provider s (now w) e ps" "now v = now w"
      and v: "wdb v = t_sub_payments_update (\<lambda>t. t @ ps) (t_sub_products_update (\<lambda>t. t @ [q])
           (t_events_update (\<lambda>t. t @ [e]) (wdb w)))"
      and keep: "subscriptions_inv (wdb w) \<and> (\<exists>r. lookup (t_subscriptions (wdb w)) (row_id s) = Some r \<and> s_status r = SubACTIVE) \<longrightarrow>
        subscriptions_inv (wdb v)"
    note r = r [unfolded appended_def a(4)]
    have subs: "t_subscriptions (wdb v) = t_subscriptions (wdb w)" by (simp add: v)
    have "wdb w' = t_sub_payments_update (\<lambda>t. t @ concat (ps # pss)) (t_sub_products_update (\<lambda>t. t @ (q # qs))
        (t_events_update (\<lambda>t. t @ (e # es)) (wdb w)))"
    proof -
      have "wdb w' = t_sub_payments_update (\<lambda>t. t @ concat pss) (t_sub_products_update (\<lambda>t. t @ qs)
          (t_events_update (\<lambda>t. t @ es) (wdb v)))" using r by blast
      also have "\<dots> = t_sub_payments_update (\<lambda>t. t @ concat (ps # pss)) (t_sub_products_update (\<lambda>t. t @ (q # qs))
          (t_events_update (\<lambda>t. t @ (e # es)) (wdb w)))"
        unfolding v by (cases "wdb w") simp
      finally show ?thesis .
    qed
    moreover have "subscriptions_inv (wdb w')"
      if "subscriptions_inv (wdb w) \<and> (\<exists>r. lookup (t_subscriptions (wdb w)) (row_id s) = Some r \<and> s_status r = SubACTIVE)"
      using that keep r subs by metis
    moreover have "list_all2 (\<lambda>dt e. \<exists>i. e = new_event (row_id s) (p_price p) dt i (now w)) (dt # dates) (e # es)"
      unfolding list_all2_Cons using r a(1) by (intro conjI exI [of _ i]) simp_all
    moreover have "list_all2 (\<lambda>e q. \<exists>j. q = new_sub_product p e j (now w)) (e # es) (q # qs)"
      unfolding list_all2_Cons using r a(2) by (intro conjI exI [of _ j]) simp_all
    moreover have "list_all2 (charged_as provider s (now w)) (e # es) (ps # pss)"
      unfolding list_all2_Cons using r a(3) by (intro conjI) simp_all
    moreover have "now w' = now w" using r by blast
    ultimately have "appended provider s p (dt # dates) w (e # es) (q # qs) (ps # pss) w'"
      unfolding appended_def by blast
    then show ?thesis by blast
  qed
qed

lemma extend_subscription_InrE:
  assumes run: "extend_subscription provider a l w = (Inr b, w')"
    and prov: "\<And>prov. provider = Some prov \<Longrightarrow> provider_contract prov"
  obtains (skipped) "\<not> b" and "w' = w"
  | (extended) p lp es qs pss where "b" and "sa_events a \<noteq> []" and "snd (last (sa_events a)) = Some lp"
    and "lookup (t_products (wdb w)) (sp_product_id lp) = Some p" and "p_is_active p"
    and "appended provider (sa_sub a) p (next_dates_after l (s_frequency (sa_sub a))) w es qs pss w'"
proof (cases "\<exists>lp p. sa_events a \<noteq> [] \<and> snd (last (sa_events a)) = Some lp \<and>
    lookup (t_products (wdb w)) (sp_product_id lp) = Some p \<and> p_is_active p")
  case True
  then obtain lp p where ok: "sa_events a \<noteq> []" "snd (last (sa_events a)) = Some lp"
    "lookup (t_products (wdb w)) (sp_product_id lp) = Some p" "p_is_active p" by blast
  with run obtain us where "forM (append_event provider (sa_sub a) p) (next_dates_after l (s_frequency (sa_sub a))) w = (Inr us, w')"
    and "b" by (auto simp: extend_subscription_def elim!: bind_InrE)
  with append_events_effect [OF this(1) prov] ok show thesis using extended by blast
next
  case False
  with run have "\<not> b \<and> w' = w"
    by (auto simp: extend_subscription_def split: if_splits option.splits)
  then show thesis using skipped by blast
qed

text \<open>The loop over the subscriptions that run out of schedule.\<close>

lemma extend_rows_keeps:
  assumes "extend_rows provider rows w = (Inr n, w')" and "subscriptions_inv (wdb w)"
    and "\<And>prov. provider = Some prov \<Longrightarrow> provider_contract prov"
    and "\<forall>(a, l) \<in> set rows. lookup (t_subscriptions (wdb w)) (row_id (sa_sub a)) = Some (sa_sub a) \<and>
      s_status (sa_sub a) = SubACTIVE"
  shows "subscriptions_inv (wdb w') \<and> outside_extension (wdb w') = outside_extension (wdb w) \<and> now w' = now w \<and>
    (\<exists>es qs ps. t_events (wdb w') = t_events (wdb w) @ es \<and> t_sub_products (wdb w') = t_sub_products (wdb w) @ qs \<and>
      t_sub_payments (wdb w') = t_sub_payments (wdb w) @ ps)"
  using assms(1,2,4)
proof (induction rows arbitrary: w n)
  case (Cons row rows)
  obtain a l where row: "row = (a, l)" by (cases row)
  from Cons.prems(1) obtain b v k where one: "extend_subscription provider a l w = (Inr b, v)"
    and rest: "extend_rows provider rows v = (Inr k, w')"
    by (auto simp: row elim!: bind_InrE)
  have a: "lookup (t_subscriptions (wdb w)) (row_id (sa_sub a)) = Some (sa_sub a)" "s_status (sa_sub a) = SubACTIVE"
    using Cons.prems(3) by (simp_all add: row)
  have step: "subscriptions_inv (wdb v) \<and> outside_extension (wdb v) = outside_extension (wdb w) \<and> now v = now w \<and>
    (\<exists>es qs ps. t_events (wdb v) = t_events (wdb w) @ es \<and> t_sub_products (wdb v) = t_sub_products (wdb w) @ qs \<and>
      t_sub_payments (wdb v) = t_sub_payments (wdb w) @ ps)"
  proof (rule extend_subscription_InrE [OF one assms(3)])
    assume "v = w"
    then show ?thesis using Cons.prems(2) by simp
  next
    fix p lp es qs pss
    assume "appended provider (sa_sub a) p (next_dates_after l (s_frequency (sa_sub a))) w es qs pss v"
    then show ?thesis using Cons.prems(2) a by (auto simp: appended_def)
  qed
  then have "outside_extension (wdb v) = outside_extension (wdb w)" by blast
  from arg_cong [OF this, of t_subscriptions]
  have subs: "t_subscriptions (wdb v) = t_subscriptions (wdb w)" by simp
  have "subscriptions_inv (wdb v)" using step by blast
  from Cons.IH [OF rest this] Cons.prems(3) step show ?case
    by (auto simp: subs)
qed auto

lemma extension_rows_active:
  assumes "subscriptions_inv d" and "(a, l) \<in> set (extension_rows c d)"
  shows "lookup (t_subscriptions d) (row_id (sa_sub a)) = Some (sa_sub a)" and "s_status (sa_sub a) = SubACTIVE"
    and "a = sub_aggregate d (sa_sub a)" and "last_date d (row_id (sa_sub a)) = Some l"
proof -
  from assms(2) obtain s where s: "s \<in> set (t_subscriptions d)" "running_out c d s" "a = sub_aggregate d s"
    "l = the (last_date d (row_id s))"
    by (auto simp: extension_rows_def)
  have sub: "sa_sub a = s" by (simp only: s(3) sub_aggregate_events)
  show "lookup (t_subscriptions d) (row_id (sa_sub a)) = Some (sa_sub a)" unfolding sub
    using subscriptions_invD(1) [OF assms(1)] s(1) by (simp add: lookup_unique)
  show "s_status (sa_sub a) = SubACTIVE" "last_date d (row_id (sa_sub a)) = Some l"
    unfolding sub using s(2,4) by (auto simp: running_out_def split: option.splits)
  show "a = sub_aggregate d (sa_sub a)" unfolding sub by (rule s(3))
qed

lemma extend_horizons_effect:
  assumes "extend_horizons today provider w = (Inr n, w')" and inv: "subscriptions_inv (wdb w)"
    and prov: "\<And>prov. provider = Some prov \<Longrightarrow> provider_contract prov"
  shows "subscriptions_inv (wdb w') \<and> outside_extension (wdb w') = outside_extension (wdb w) \<and> now w' = now w \<and>
    (\<exists>es qs ps. t_events (wdb w') = t_events (wdb w) @ es \<and> t_sub_products (wdb w') = t_sub_products (wdb w) @ qs \<and>
      t_sub_payments (wdb w') = t_sub_payments (wdb w) @ ps)"
proof (rule extend_rows_keeps [OF _ inv prov])
  let ?c = "plus_days (cutoff_date today (now w)) EXTEND_LOOKAHEAD_DAYS"
  show "extend_rows provider (extension_rows ?c (wdb w)) w = (Inr n, w')"
    using assms(1) by (simp add: extend_horizons_def bind_gets)
  show "\<forall>(a, l) \<in> set (extension_rows ?c (wdb w)).
      lookup (t_subscriptions (wdb w)) (row_id (sa_sub a)) = Some (sa_sub a) \<and> s_status (sa_sub a) = SubACTIVE"
    using extension_rows_active(1,2) [OF inv] by blast
qed

section \<open>The daily pass\<close>

abbreviation daily_inv :: "database \<Rightarrow> bool" where
  "daily_inv d \<equiv> orders_ok d \<and> payments_inv d \<and> subscriptions_inv d"

lemma process_due_events_keeps: "preserves daily_inv (process_due_events today)"
proof (rule preservesI)
  fix w n w'
  assume run: "process_due_events today w = (Inr n, w')" and inv: "daily_inv (wdb w)"
  from run obtain os where os: "processed w (filter deliverable (due_events (cutoff_date today (now w)) (wdb w))) os w'"
    by (rule process_due_events_effect) (use inv in blast)+
  then have new: "t_orders (wdb w') = t_orders (wdb w) @ os" and out: "outside_due (wdb w') = outside_due (wdb w)"
    by (simp_all add: processed_def orders_grow_def)
  have "t_order_payments (wdb w') = t_order_payments (wdb w)" using arg_cong [OF out, of t_order_payments] by simp
  with new have "payments_inv (wdb w')"
    using inv by (intro payments_inv_append [of "wdb w" "wdb w'" os]) simp_all
  with os show "daily_inv (wdb w')" by (simp add: processed_def)
qed

lemma sync_completed_events_keeps: "preserves daily_inv sync_completed_events"
proof (rule preservesI)
  fix w n w'
  assume run: "sync_completed_events w = (Inr n, w')" and inv: "daily_inv (wdb w)"
  have ids: "distinct (row_ids (t_events (wdb w)))" using inv subscriptions_invD(2) by blast
  have w': "wdb w' = t_events_update (map (synced (now w) (wdb w))) (wdb w)" using sync_InrE(1) [OF run ids] by simp
  have "orders_ok (wdb w')" using inv by (intro orders_ok_outside [of "wdb w'" "wdb w"]) (simp_all add: w')
  moreover have "payments_inv (wdb w')" using inv by (intro payments_inv_same [of "wdb w'" "wdb w"]) (simp_all add: w')
  moreover have "subscriptions_inv (wdb w')" using preservesD [OF sync_keeps run] inv by blast
  ultimately show "daily_inv (wdb w')" by blast
qed

lemma extend_horizons_keeps:
  assumes "\<And>prov. provider = Some prov \<Longrightarrow> provider_contract prov"
  shows "preserves daily_inv (extend_horizons today provider)"
proof (rule preservesI)
  fix w n w'
  assume run: "extend_horizons today provider w = (Inr n, w')" and inv: "daily_inv (wdb w)"
  have i: "subscriptions_inv (wdb w)" using inv by blast
  note e = extend_horizons_effect [OF run i assms]
  then have out: "outside_extension (wdb w') = outside_extension (wdb w)" by blast
  have cols: "t_orders (wdb w') = t_orders (wdb w)" "t_order_products (wdb w') = t_order_products (wdb w)"
    "t_pickup_info (wdb w') = t_pickup_info (wdb w)" "t_delivery_info (wdb w') = t_delivery_info (wdb w)"
    "t_points (wdb w') = t_points (wdb w)" "t_users (wdb w') = t_users (wdb w)"
    "t_order_payments (wdb w') = t_order_payments (wdb w)"
    using arg_cong [OF out, of t_orders] arg_cong [OF out, of t_order_products] arg_cong [OF out, of t_pickup_info]
      arg_cong [OF out, of t_delivery_info] arg_cong [OF out, of t_points] arg_cong [OF out, of t_users]
      arg_cong [OF out, of t_order_payments] by simp_all
  have "orders_ok (wdb w')" using inv cols by (intro orders_ok_outside [of "wdb w'" "wdb w"]) simp_all
  moreover have "payments_inv (wdb w')" using inv cols by (intro payments_inv_same [of "wdb w'" "wdb w"]) simp_all
  moreover have "subscriptions_inv (wdb w')" using e by blast
  ultimately show "daily_inv (wdb w')" by blast
qed

lemma run_daily_InrE:
  assumes "run_daily today provider w = (Inr s, w')"
  obtains n k m v x where "process_due_events today w = (Inr n, v)" and "sync_completed_events v = (Inr k, x)"
    and "extend_horizons today provider x = (Inr m, w')"
    and "s = \<lparr>processed_due = n, synced_completed = k, extended_subscriptions = m\<rparr>"
  using assms unfolding run_daily_def by (elim bind_InrE) simp

lemma run_daily_keeps:
  assumes "\<And>prov. provider = Some prov \<Longrightarrow> provider_contract prov"
  shows "preserves daily_inv (run_daily today provider)"
  unfolding run_daily_def
  by (intro preserves_bind preserves_ret process_due_events_keeps sync_completed_events_keeps
      extend_horizons_keeps assms)

end
