(* ===== verification/SubscriptionProperties.thy ===== *)
theory SubscriptionProperties
  imports Sample SchedulerInvariant
begin

text \<open>
  The properties of subscriptions: what creating, paying, pausing, resuming and cancelling
  do, and what the daily run does to due events and to schedules that run out.
\<close>

section \<open>Creating a subscription\<close>

lemma sort_key_id: "sorted (map f xs) \<Longrightarrow> sort_key f xs = xs"
  by (simp add: sort_key_id_if_sorted)

lemma event_dto_Inr:
  "event_dto ep = Inr x \<longleftrightarrow> (\<exists>p. snd ep = Some p \<and>
     x = \<lparr>ev_id = row_id (fst ep), ev_scheduled_date = se_scheduled_date (fst ep), ev_price = se_price (fst ep),
          ev_currency = se_currency (fst ep), ev_status = se_status (fst ep), ev_product_name = sp_product_name p,
          ev_product_price = sp_product_price p, ev_order_id = se_order_id (fst ep)\<rparr>)"
  by (auto simp: event_dto_def split: prod.splits option.splits)

text \<open>A response shows the events of the aggregate in the order of their dates.\<close>

lemma subscription_dto_Inr:
  assumes "subscription_dto a = Inr dto"
  shows "su_id dto = row_id (sa_sub a)" "su_user_id dto = s_user_id (sa_sub a)" "su_status dto = s_status (sa_sub a)"
    "su_total_price dto = events_total a" "su_delivery dto = map_option sub_delivery_dto (sa_delivery a)"
    "list_all2 (\<lambda>ep x. event_dto ep = Inr x) (sorted_events a) (su_events dto)"
proof -
  from assms obtain evs where evs: "map_sum_list event_dto (sorted_events a) = Inr evs" and
    dto: "su_id dto = row_id (sa_sub a)" "su_user_id dto = s_user_id (sa_sub a)" "su_status dto = s_status (sa_sub a)"
      "su_total_price dto = events_total a" "su_delivery dto = map_option sub_delivery_dto (sa_delivery a)"
      "su_events dto = evs"
    by (auto simp: subscription_dto_def split: sum.splits)
  show "su_id dto = row_id (sa_sub a)" "su_user_id dto = s_user_id (sa_sub a)" "su_status dto = s_status (sa_sub a)"
    "su_total_price dto = events_total a" "su_delivery dto = map_option sub_delivery_dto (sa_delivery a)"
    by (rule dto)+
  from evs have "map event_dto (sorted_events a) = map Inr evs" by (simp add: map_sum_list_Inr)
  then show "list_all2 (\<lambda>ep x. event_dto ep = Inr x) (sorted_events a) (su_events dto)"
    unfolding dto(6) list.rel_eq [symmetric] list.rel_map .
qed

text \<open>The rows of a new subscription, as they are loaded back.\<close>

lemma new_aggregate:
  assumes inv: "subscriptions_inv d" and new: "\<not> refers (t_subscriptions d) (row_id s)"
    and es: "list_all2 (\<lambda>dt e. \<exists>i. e = new_event (row_id s) (p_price p) dt i t) dates es"
    and ps: "list_all2 (\<lambda>e q. \<exists>i. q = new_sub_product p e i t) es ps"
    and ids: "distinct (row_ids (t_events d @ es))" and dates: "sorted_wrt (<) dates"
    and d': "t_events d' = t_events d @ es" "t_sub_products d' = t_sub_products d @ ps"
  shows "map fst (sa_events (sub_aggregate d' s)) = es"
    and "\<forall>ep \<in> set (sa_events (sub_aggregate d' s)). \<exists>q. snd ep = Some q \<and> sp_product_name q = p_name p \<and> sp_product_price q = p_price p"
    and "sorted_events (sub_aggregate d' s) = sa_events (sub_aggregate d' s)"
proof -
  note cols = new_events_columns [OF es]
  have "events_of d (row_id s) = []"
    using foreign_slot [OF inv new] by (auto simp: events_of_def filter_empty_conv)
  then have own: "events_of d' (row_id s) = es"
    using cols(4) by (simp add: events_of_def d' filter_id_conv)
  have sorted: "sorted (map se_scheduled_date es)"
    unfolding cols(1) using dates by (simp add: strict_sorted_iff)
  have ev: "sa_events (sub_aggregate d' s) = map (\<lambda>e. (e, event_product d' (row_id e))) es"
    by (simp add: sub_aggregate_def own sort_key_id [OF sorted])
  then show "map fst (sa_events (sub_aggregate d' s)) = es" by (simp add: o_def)
  show "sorted_events (sub_aggregate d' s) = sa_events (sub_aggregate d' s)"
    unfolding sorted_events_def by (rule sort_key_id) (use sorted in \<open>simp add: ev o_def\<close>)
  have "\<exists>q. event_product d' (row_id e) = Some q \<and> sp_product_name q = p_name p \<and> sp_product_price q = p_price p"
    if e: "e \<in> set es" for e
  proof -
    have "row_id e \<notin> set (row_ids (t_events d))" using ids row_id_in [OF e] by auto
    then have none: "find (\<lambda>q. sp_event_id q = row_id e) (t_sub_products d) = None"
      unfolding find_None_iff using subscriptions_invD(7) [OF inv] by metis
    from all2_partner(1) [OF ps e] obtain q where "q \<in> set ps" "sp_event_id q = row_id e"
      by (auto simp: new_sub_product_def)
    then obtain r where r: "find (\<lambda>q. sp_event_id q = row_id e) ps = Some r"
      by (cases "find (\<lambda>q. sp_event_id q = row_id e) ps") (auto simp: find_None_iff)
    then have "r \<in> set ps" by (auto simp: find_Some_iff)
    from all2_partner(2) [OF ps this] have "sp_product_name r = p_name p" "sp_product_price r = p_price p"
      by (auto simp: new_sub_product_def)
    with r none show ?thesis by (simp add: event_product_def d' find_append)
  qed
  then show "\<forall>ep \<in> set (sa_events (sub_aggregate d' s)). \<exists>q. snd ep = Some q \<and> sp_product_name q = p_name p \<and> sp_product_price q = p_price p"
    by (auto simp: ev)
qed

section \<open>The upfront charge\<close>

text \<open>
  A provider that leaves the recording of its calls to the service, so that the log of a
  request is exactly what the service asked for.
\<close>

locale quiet_provider = provider_contract +
  assumes charge_quiet: "leaves provider_log (pv_create_charge prov req)"
    and refund_quiet: "leaves provider_log (pv_refund prov txn)"
begin

lemma charge_logged:
  assumes "create_charge prov req w = (Inr res, w')"
  shows "provider_log w' = provider_log w @ [ChargeCall req (Inr res)]"
proof -
  from assms obtain v where "pv_create_charge prov req w = (Inr res, v)"
    and "w' = v\<lparr>provider_log := provider_log v @ [ChargeCall req (Inr res)]\<rparr>"
    by (auto simp: create_charge_def logged_def split: prod.splits)
  with leavesD [OF charge_quiet, of req w "Inr res" v] show ?thesis by simp
qed

lemma refund_logged:
  assumes "provider_refund prov txn w = (Inr res, w')"
  shows "provider_log w' = provider_log w @ [RefundCall txn (Inr res)]"
proof -
  from assms obtain v where "pv_refund prov txn w = (Inr res, v)"
    and "w' = v\<lparr>provider_log := provider_log v @ [RefundCall txn (Inr res)]\<rparr>"
    by (auto simp: provider_refund_def logged_def split: prod.splits)
  with leavesD [OF refund_quiet, of txn w "Inr res" v] show ?thesis by simp
qed

end

interpretation fake_quiet: quiet_provider "fake_provider cfg" for cfg
  by unfold_locales
     (simp_all add: fake_provider_def fake_create_charge_def evolves_def uuid4_run bind_def)

definition upfront_request :: "subscription_aggregate \<Rightarrow> payment_method \<Rightarrow> charge_request" where
  "upfront_request a m =
     \<lparr>ch_amount = events_total a, ch_currency = ''EUR'', ch_reference = str_uuid (row_id (sa_sub a)),
      ch_customer_id = Some (pm_customer_id m), ch_method_token = Some (pm_token m)\<rparr>"

definition covers_event :: "uuid \<Rightarrow> string \<Rightarrow> subscription_event \<Rightarrow> subscription_payment \<Rightarrow> bool" where
  "covers_event u txn e x \<longleftrightarrow> spay_event_id x = row_id e \<and> spay_user_id x = u \<and> spay_amount x = se_price e \<and>
     spay_txn_id x = Some txn \<and> spay_status x = PayCOMPLETED"

definition activated :: "world \<Rightarrow> uuid \<Rightarrow> subscription_aggregate \<Rightarrow> payment_method \<Rightarrow> charge_result \<Rightarrow>
    subscription_payment list \<Rightarrow> world \<Rightarrow> bool" where
  "activated w i a m res ps w' \<longleftrightarrow> cr_status res = ''completed'' \<and>
     provider_log w' = provider_log w @ [ChargeCall (upfront_request a m) (Inr res)] \<and>
     list_all2 (\<lambda>ep. covers_event (s_user_id (sa_sub a)) (cr_txn_id res) (fst ep)) (sa_events a) ps \<and>
     wdb w' = t_subscriptions_update (map (on {i} (set_sub_status (now w) SubACTIVE)))
       (t_sub_payments_update (\<lambda>t. t @ ps) (wdb w))"

context quiet_provider
begin

lemma charge_activate_effect:
  assumes run: "charge_and_activate prov a m w = (Inr x, w')" and inv: "subscriptions_inv (wdb w)"
    and load: "load_subscription (wdb w) i = Some a" and st: "s_status (sa_sub a) = SubPENDING"
    and some: "sa_events a \<noteq> []"
  shows "\<exists>res ps. activated w i a m res ps w'"
proof -
  from run obtain v where charge: "charge_subscription_upfront prov a (Some m) w = (Inr True, v)"
    and save: "save_subscription ((sa_sub a)\<lparr>s_status := SubACTIVE\<rparr>) v = (Inr x, w')"
    by (auto simp: charge_and_activate_def require_run elim!: bind_InrE split: if_splits)
  from charge show ?thesis
  proof (cases rule: charge_upfront_InrE)
    case (charged res w1 xs)
    have call: "create_charge prov (upfront_request a m) w = (Inr res, w1)"
      using charged(3) by (simp add: upfront_request_def)
    have v: "wdb v = t_sub_payments_update (\<lambda>t. t @ xs) (wdb w)" "now v = now w"
      "provider_log v = provider_log w @ [ChargeCall (upfront_request a m) (Inr res)]"
      using charge_logged [OF call] provider_same(1) [OF call] by (subst charged(8), simp)+
    have w': "w' = v\<lparr>wdb := t_subscriptions_update (map (on {i} (set_sub_status (now v) SubACTIVE))) (wdb v)\<rparr>"
      by (rule activate_InrE [OF save load _ _ st]) (use subscriptions_invD(1) [OF inv] in \<open>simp_all add: v(1)\<close>)
    have "list_all2 (\<lambda>ep. covers_event (s_user_id (sa_sub a)) (cr_txn_id res) (fst ep)) (sa_events a) xs"
      using charged(5) by (rule list_all2_mono) (auto simp: covers_event_def new_sub_payment_def)
    then have "activated w i a m res xs w'"
      using charged(4) v by (simp add: activated_def w')
    then show ?thesis by blast
  qed (use some in simp_all)
qed

end

lemma covers_total:
  "list_all2 (\<lambda>ep. covers_event u txn (fst ep)) evs ps \<Longrightarrow>
   sum_list (map spay_amount ps) = sum_list (map (\<lambda>ep. se_price (fst ep)) evs) \<and>
   map spay_event_id ps = map (\<lambda>ep. row_id (fst ep)) evs"
  by (induction rule: list_all2_induct) (simp_all add: covers_event_def)

text \<open>What the reload after the activation shows.\<close>

lemma activated_reload:
  assumes act: "activated w i a m res ps w'" and load: "load_subscription (wdb w) i = Some a"
    and re: "load_subscription (wdb w') i = Some a'"
  shows "sa_events a' = sa_events a" "sa_delivery a' = sa_delivery a" "s_status (sa_sub a') = SubACTIVE"
    "s_user_id (sa_sub a') = s_user_id (sa_sub a)" "row_id (sa_sub a') = row_id (sa_sub a)"
proof -
  from load obtain s where s: "lookup (t_subscriptions (wdb w)) i = Some s" "a = sub_aggregate (wdb w) s"
    by (auto simp: load_subscription_Some)
  note w' = act [unfolded activated_def, THEN conjunct2, THEN conjunct2, THEN conjunct2]
  have id: "row_id s = i" using lookup_SomeD [OF s(1)] by simp
  have "lookup (t_subscriptions (wdb w')) i = map_option (on {i} (set_sub_status (now w) SubACTIVE)) (Some s)"
    unfolding w' s(1) [symmetric] by simp (rule lookup_map, simp add: on_def)
  then have "lookup (t_subscriptions (wdb w')) i = Some (set_sub_status (now w) SubACTIVE s)"
    by (simp add: on_def id)
  with re have a': "a' = sub_aggregate (wdb w') (set_sub_status (now w) SubACTIVE s)"
    by (simp add: load_subscription_Some)
  show "sa_events a' = sa_events a" "sa_delivery a' = sa_delivery a" "s_status (sa_sub a') = SubACTIVE"
    "s_user_id (sa_sub a') = s_user_id (sa_sub a)" "row_id (sa_sub a') = row_id (sa_sub a)"
    by (simp_all add: a' s(2) sub_aggregate_def w' sub_delivery_def events_of_def event_product_def)
qed

definition shows_schedule :: "product \<Rightarrow> date list \<Rightarrow> SubscriptionDTO \<Rightarrow> bool" where
  "shows_schedule p dates dto \<longleftrightarrow> map ev_scheduled_date (su_events dto) = dates \<and>
     (\<forall>x \<in> set (su_events dto). ev_price x = p_price p \<and> ev_product_name x = p_name p \<and>
       ev_product_price x = p_price p \<and> ev_status x = EvPENDING \<and> ev_order_id x = None)"

lemma scheduled_response:
  assumes dto: "subscription_dto a = Inr dto" and sorted: "sorted_events a = sa_events a"
    and es: "map fst (sa_events a) = es" "list_all2 (\<lambda>dt e. \<exists>i. e = new_event j (p_price p) dt i t) dates es"
    and ps: "\<forall>ep \<in> set (sa_events a). \<exists>q. snd ep = Some q \<and> sp_product_name q = p_name p \<and> sp_product_price q = p_price p"
  shows "shows_schedule p dates dto" and "su_total_price dto = int (length dates) * p_price p"
    and "map ev_id (su_events dto) = map (\<lambda>ep. row_id (fst ep)) (sa_events a)"
proof -
  note d = subscription_dto_Inr [OF dto]
  note d6 = d(6) [unfolded sorted]
  note cols = new_events_columns [OF es(2)]
  have own: "fst ep \<in> set es" if "ep \<in> set (sa_events a)" for ep
    using that by (auto simp: es(1) [symmetric])
  have "map ev_scheduled_date (su_events dto) = map (\<lambda>ep. se_scheduled_date (fst ep)) (sa_events a)"
    by (rule all2_map [OF d6]) (auto simp: event_dto_Inr)
  also have "\<dots> = map se_scheduled_date es" by (simp add: es(1) [symmetric] o_def)
  finally have "map ev_scheduled_date (su_events dto) = dates" by (simp only: cols(1))
  moreover have "ev_price x = p_price p \<and> ev_product_name x = p_name p \<and>
       ev_product_price x = p_price p \<and> ev_status x = EvPENDING \<and> ev_order_id x = None" if "x \<in> set (su_events dto)" for x
  proof -
    from all2_partner(2) [OF d6 that] obtain ep where ep: "ep \<in> set (sa_events a)" "event_dto ep = Inr x" by blast
    with own [OF ep(1)] ps cols(4) show ?thesis by (auto simp: event_dto_Inr)
  qed
  ultimately show "shows_schedule p dates dto" by (simp add: shows_schedule_def)
  show "map ev_id (su_events dto) = map (\<lambda>ep. row_id (fst ep)) (sa_events a)"
    by (rule all2_map [OF d6]) (auto simp: event_dto_Inr)
  have "su_total_price dto = sum_list (map se_price es)"
    by (simp add: d(4) events_total_def es(1) [symmetric] o_def)
  also have "\<dots> = sum_list (map (\<lambda>_. p_price p) es)" using cols(4) by (intro arg_cong [where f = sum_list] map_cong) auto
  finally show "su_total_price dto = int (length dates) * p_price p" by (simp add: sum_list_triv cols(3))
qed

definition saved_delivery :: "delivery_in \<Rightarrow> SubscriptionDeliveryInfoDTO" where
  "saved_delivery x = \<lparr>sd_recipient_name = dl_recipient_name x, sd_phone = dl_phone x, sd_address = dl_address x,
     sd_city = dl_city x, sd_postal_code = dl_postal_code x, sd_notes = dl_notes x\<rparr>"

lemma schedule_aggregate:
  assumes run: "schedule_subscription u data p w = (Inr s, v)" and inv: "subscriptions_inv (wdb w)"
    and a: "load_subscription (wdb v) (row_id s) = Some a"
  obtains es where "map fst (sa_events a) = es"
    and "list_all2 (\<lambda>dt e. \<exists>i. e = new_event (row_id s) (p_price p) dt i (now w))
           (event_dates (date_of (now w)) (cs_frequency data)) es"
    and "\<forall>ep \<in> set (sa_events a). \<exists>q. snd ep = Some q \<and> sp_product_name q = p_name p \<and> sp_product_price q = p_price p"
    and "sorted_events a = sa_events a" and "sa_sub a = s" and "s_user_id s = u"
    and "map_option sub_delivery_dto (sa_delivery a) = Some (saved_delivery (cs_delivery data))"
    and "\<not> refers (t_subscriptions (wdb w)) (row_id s)" and "provider_log v = provider_log w"
    and "t_sub_payments (wdb v) = t_sub_payments (wdb w)" and "sa_events a \<noteq> []"
proof -
  from run obtain dl es ps i where s: "s = new_subscription u (cs_frequency data) (row_id s) (now w)"
    and new: "\<not> refers (t_subscriptions (wdb w)) (row_id s)"
    and dl: "dl = new_sub_delivery (row_id s) (cs_delivery data) i (now w)"
    and v: "wdb v = t_sub_products_update (\<lambda>t. t @ ps) (t_events_update (\<lambda>t. t @ es)
           (t_sub_delivery_update (\<lambda>t. t @ [dl]) (t_subscriptions_update (\<lambda>t. t @ [s]) (wdb w))))"
    and vw: "v = w\<lparr>wdb := wdb v, uuid_pos := uuid_pos v\<rparr>"
    and es: "list_all2 (\<lambda>dt e. \<exists>i. e = new_event (row_id s) (p_price p) dt i (now w))
           (event_dates (date_of (now w)) (cs_frequency data)) es"
    and ps: "list_all2 (\<lambda>e q. \<exists>i. q = new_sub_product p e i (now w)) es ps"
    and ids: "distinct (row_ids (t_events (wdb w))) \<longrightarrow> distinct (row_ids (t_events (wdb v)))"
    and addr: "sub_delivery (wdb v) (row_id s) = Some dl"
    by (rule schedule_InrE)
  have agg: "a = sub_aggregate (wdb v) s" by (rule schedule_loaded(1) [OF run a])
  have tabs: "t_events (wdb v) = t_events (wdb w) @ es" "t_sub_products (wdb v) = t_sub_products (wdb w) @ ps"
    by (simp_all add: v)
  have dist: "distinct (row_ids (t_events (wdb w) @ es))"
    using ids subscriptions_invD(2) [OF inv] by (simp only: tabs simp_thms)
  have sorted: "sorted_wrt (<) (event_dates (date_of (now w)) (cs_frequency data))"
    unfolding event_dates_eq by (rule sorted_next_dates)
  note agg_facts = new_aggregate [OF inv new es ps dist sorted tabs, folded agg]
  have "length es = length (event_dates (date_of (now w)) (cs_frequency data))"
    using es by (simp add: list_all2_lengthD)
  then have "es \<noteq> []" by (auto simp: event_dates_eq next_dates_not_Nil)
  then have ne: "sa_events a \<noteq> []" using agg_facts(1) by auto
  have user: "s_user_id s = u" by (subst s) (simp add: new_subscription_def)
  have address: "map_option sub_delivery_dto (sa_delivery a) = Some (saved_delivery (cs_delivery data))"
    by (simp add: agg sub_aggregate_def addr) (simp add: dl new_sub_delivery_def sub_delivery_dto_def saved_delivery_def)
  have log: "provider_log v = provider_log w" by (subst vw) simp
  have pay: "t_sub_payments (wdb v) = t_sub_payments (wdb w)" by (simp add: v)
  show thesis
    by (rule that [OF agg_facts(1) es agg_facts(2,3) _ user address new log pay ne])
       (simp only: agg sub_aggregate_events)
qed

text \<open>
  C10: Creating a subscription on an active product schedules the deliveries of one horizon
  at the dates of the requested frequency, each at the product's current price and pending,
  with a copy of the address. Without a payment method the subscription is left pending and
  the provider is not called; with one, exactly one charge over the sum of all deliveries is
  made, each delivery gets its completed payment, and the subscription is active.
\<close>

theorem create_subscription_effect:
  assumes run: "create_subscription (Some prov) u data w = (Inr dto, w')"
    and prov: "quiet_provider prov" and inv: "subscriptions_inv (wdb w)"
  shows "\<exists>p. lookup (t_products (wdb w)) (cs_product_id data) = Some p \<and> p_is_active p \<and>
    \<not> refers (t_subscriptions (wdb w)) (su_id dto) \<and> su_user_id dto = u \<and>
    shows_schedule p (event_dates (date_of (now w)) (cs_frequency data)) dto \<and>
    su_total_price dto = int (horizon_size (cs_frequency data)) * p_price p \<and>
    su_delivery dto = Some (saved_delivery (cs_delivery data)) \<and>
    (if cs_payment_method_id data = None
     then su_status dto = SubPENDING \<and> provider_log w' = provider_log w \<and>
       t_sub_payments (wdb w') = t_sub_payments (wdb w)
     else su_status dto = SubACTIVE \<and>
       (\<exists>req res ps. provider_log w' = provider_log w @ [ChargeCall req (Inr res)] \<and>
         ch_amount req = su_total_price dto \<and> t_sub_payments (wdb w') = t_sub_payments (wdb w) @ ps \<and>
         map spay_event_id ps = map ev_id (su_events dto) \<and>
         sum_list (map spay_amount ps) = su_total_price dto))"
  using run
proof (cases rule: create_subscription_InrE)
  case (unpaid p s a)
  from unpaid(4) inv unpaid(5) show ?thesis
  proof (rule schedule_aggregate)
    fix es
    assume a: "map fst (sa_events a) = es" "list_all2 (\<lambda>dt e. \<exists>i. e = new_event (row_id s) (p_price p) dt i (now w))
           (event_dates (date_of (now w)) (cs_frequency data)) es"
      "\<forall>ep \<in> set (sa_events a). \<exists>q. snd ep = Some q \<and> sp_product_name q = p_name p \<and> sp_product_price q = p_price p"
      "sorted_events a = sa_events a"
      and b: "sa_sub a = s" "s_user_id s = u"
      "map_option sub_delivery_dto (sa_delivery a) = Some (saved_delivery (cs_delivery data))"
      "\<not> refers (t_subscriptions (wdb w)) (row_id s)" "provider_log w' = provider_log w"
      "t_sub_payments (wdb w') = t_sub_payments (wdb w)"
    note d = subscription_dto_Inr [OF unpaid(6)] and r = scheduled_response [OF unpaid(6) a(4,1,2,3)]
    have "s_status s = SubPENDING" using schedule_loaded(2) [OF unpaid(4,5)] by (simp only: b)
    then show ?thesis using unpaid(1-3) b d(1-3,5) r(1,2)
      by (intro exI [of _ p]) (simp add: event_dates_eq length_next_dates)
  qed
next
  case (paid p s v a prov' k m a')
  have prov': "prov' = prov" using paid(4) by simp
  have inv': "subscriptions_inv (wdb v)" by (rule preservesD [OF schedule_keeps paid(5) inv])
  note st = schedule_loaded(2) [OF paid(5,6)]
  from paid(5) inv paid(6) show ?thesis
  proof (rule schedule_aggregate)
    fix es
    assume a: "map fst (sa_events a) = es" "list_all2 (\<lambda>dt e. \<exists>i. e = new_event (row_id s) (p_price p) dt i (now w))
           (event_dates (date_of (now w)) (cs_frequency data)) es"
      "\<forall>ep \<in> set (sa_events a). \<exists>q. snd ep = Some q \<and> sp_product_name q = p_name p \<and> sp_product_price q = p_price p"
      "sorted_events a = sa_events a"
      and b: "sa_sub a = s" "s_user_id s = u"
      "map_option sub_delivery_dto (sa_delivery a) = Some (saved_delivery (cs_delivery data))"
      "\<not> refers (t_subscriptions (wdb w)) (row_id s)" "provider_log v = provider_log w"
      "t_sub_payments (wdb v) = t_sub_payments (wdb w)" and ne: "sa_events a \<noteq> []"
    from quiet_provider.charge_activate_effect [OF prov paid(8) [unfolded prov'] inv' paid(6) st ne]
    obtain res ps where act: "activated v (row_id s) a m res ps w'" by blast
    note re = activated_reload [OF act paid(6,9)]
    note act' = act [unfolded activated_def]
    have "sorted_events a' = sa_events a'" using a(4) by (simp add: sorted_events_def re(1))
    note d = subscription_dto_Inr [OF paid(10)]
      and r = scheduled_response [OF paid(10) this _ a(2), unfolded re(1), OF a(1,3)]
    from act' have cov: "list_all2 (\<lambda>ep. covers_event (s_user_id (sa_sub a)) (cr_txn_id res) (fst ep)) (sa_events a) ps" by blast
    have total: "su_total_price dto = events_total a" by (simp add: d(4) events_total_def re(1))
    have "map spay_event_id ps = map ev_id (su_events dto) \<and> sum_list (map spay_amount ps) = su_total_price dto"
      using covers_total [OF cov] by (simp add: r(3) total events_total_def)
    moreover have "provider_log w' = provider_log w @ [ChargeCall (upfront_request a m) (Inr res)]"
      using act' b(5) by simp
    moreover have "ch_amount (upfront_request a m) = su_total_price dto" by (simp add: upfront_request_def total)
    moreover have "t_sub_payments (wdb w') = t_sub_payments (wdb w) @ ps" using act' b(6) by simp
    ultimately have "\<exists>req res ps. provider_log w' = provider_log w @ [ChargeCall req (Inr res)] \<and>
         ch_amount req = su_total_price dto \<and> t_sub_payments (wdb w') = t_sub_payments (wdb w) @ ps \<and>
         map spay_event_id ps = map ev_id (su_events dto) \<and>
         sum_list (map spay_amount ps) = su_total_price dto" by blast
    then show ?thesis using paid(1-3) b d(1-3,5) r(1,2) re
      by (intro exI [of _ p]) (simp add: event_dates_eq length_next_dates)
  qed
qed

text \<open>
  C18: Paying a pending subscription makes exactly one charge, over the sum of its deliveries,
  on the caller's own saved method; it records one completed payment per delivery, all with
  the transaction of that charge, and makes the subscription active.
\<close>

theorem pay_charges_once:
  assumes run: "pay_subscription (Some prov) i u k w = (Inr dto, w')"
    and prov: "quiet_provider prov" and inv: "subscriptions_inv (wdb w)" and some: "events_of (wdb w) i \<noteq> []"
  shows "\<exists>s m res ps. lookup (t_subscriptions (wdb w)) i = Some s \<and> s_user_id s = u \<and> s_status s = SubPENDING \<and>
    get_method u k w = (Inr m, w) \<and> su_status dto = SubACTIVE \<and>
    provider_log w' = provider_log w @ [ChargeCall (upfront_request (sub_aggregate (wdb w) s) m) (Inr res)] \<and>
    cr_status res = ''completed'' \<and> t_sub_payments (wdb w') = t_sub_payments (wdb w) @ ps \<and>
    list_all2 (covers_event u (cr_txn_id res)) (sort_key se_scheduled_date (events_of (wdb w) i)) ps \<and>
    sum_list (map spay_amount ps) = su_total_price dto \<and> su_total_price dto = events_total (sub_aggregate (wdb w) s) \<and>
    t_events (wdb w') = t_events (wdb w)"
  using run
proof (rule pay_subscription_InrE)
  fix prov' s a m a'
  assume p: "Some prov = Some prov'" and s: "lookup (t_subscriptions (wdb w)) i = Some s" "s_user_id s = u"
    "s_status s = SubPENDING" and a: "a = sub_aggregate (wdb w) s" and load: "load_subscription (wdb w) i = Some a"
    and m: "get_method u k w = (Inr m, w)" and c: "charge_and_activate prov' a m w = (Inr (), w')"
    and re: "load_subscription (wdb w') i = Some a'" and dto: "subscription_dto a' = Inr dto"
  have id: "row_id s = i" using lookup_SomeD [OF s(1)] by simp
  have sub: "sa_sub a = s" by (simp only: a sub_aggregate_events)
  have evs: "map fst (sa_events a) = sort_key se_scheduled_date (events_of (wdb w) i)"
    unfolding a id [symmetric] by (rule sub_aggregate_events)
  have ne: "sa_events a \<noteq> []"
  proof
    assume "sa_events a = []"
    with evs have "length (sort_key se_scheduled_date (events_of (wdb w) i)) = 0" by simp
    with some show False by simp
  qed
  from p have p': "prov' = prov" by simp
  from quiet_provider.charge_activate_effect [OF prov c [unfolded p'] inv load _ ne] s(3)
  obtain res ps where act: "activated w i a m res ps w'" by (auto simp: sub)
  note act' = act [unfolded activated_def sub] and re = activated_reload [OF act load re]
  note d = subscription_dto_Inr [OF dto]
  have cov: "list_all2 (\<lambda>ep. covers_event u (cr_txn_id res) (fst ep)) (sa_events a) ps" using act' s(2) by blast
  then have cov': "list_all2 (covers_event u (cr_txn_id res)) (sort_key se_scheduled_date (events_of (wdb w) i)) ps"
    unfolding evs [symmetric] list.rel_map .
  have total: "su_total_price dto = events_total a" by (simp add: d(4) events_total_def re(1))
  have sum: "sum_list (map spay_amount ps) = su_total_price dto"
    using covers_total [OF cov] by (simp add: total events_total_def)
  have tabs: "t_sub_payments (wdb w') = t_sub_payments (wdb w) @ ps" "t_events (wdb w') = t_events (wdb w)"
    using act' by simp_all
  show ?thesis
    using s m act' cov' sum tabs d(3) re(3) total
    by (intro exI [of _ s] exI [of _ m] exI [of _ res] exI [of _ ps]) (simp add: a [symmetric])
qed

section \<open>Pause and resume\<close>

definition unstamped :: "database \<Rightarrow> database" where
  \<comment> \<open>the database without the times at which subscriptions and events were changed last\<close>
  "unstamped d = t_events_update (map (\<lambda>e. e\<lparr>updated_at := 0\<rparr>))
     (t_subscriptions_update (map (\<lambda>s. s\<lparr>updated_at := 0\<rparr>)) d)"

lemma paused_and_resumed:
  assumes inv: "subscriptions_inv d" and s: "lookup (t_subscriptions d) i = Some s" "s_status s = SubACTIVE"
  shows "unstamped (switched t i SubACTIVE {EvPAUSED} EvPENDING (switched r i SubPAUSED {EvPENDING} EvPAUSED d)) = unstamped d"
proof -
  let ?d = "switched t i SubACTIVE {EvPAUSED} EvPENDING (switched r i SubPAUSED {EvPENDING} EvPAUSED d)"
  have subs: "map (\<lambda>s. s\<lparr>updated_at := 0\<rparr>) (t_subscriptions ?d) = map (\<lambda>s. s\<lparr>updated_at := 0\<rparr>) (t_subscriptions d)"
  proof -
    have "(on {i} (set_sub_status t SubACTIVE) (on {i} (set_sub_status r SubPAUSED) x))\<lparr>updated_at := 0\<rparr> = x\<lparr>updated_at := 0\<rparr>"
      if x: "x \<in> set (t_subscriptions d)" for x
    proof (cases "row_id x = i")
      case True
      with same_row [OF subscriptions_invD(1) [OF inv] x] lookup_SomeD [OF s(1)] have "x = s" by simp
      then show ?thesis using s(2) by (cases x) (simp add: on_def set_sub_status_def)
    qed (simp add: on_def)
    then have "map ((\<lambda>s. s\<lparr>updated_at := 0\<rparr>) \<circ> (on {i} (set_sub_status t SubACTIVE) \<circ> on {i} (set_sub_status r SubPAUSED)))
        (t_subscriptions d) = map (\<lambda>s. s\<lparr>updated_at := 0\<rparr>) (t_subscriptions d)"
      by (intro map_cong [OF refl]) (simp only: o_def)
    then show ?thesis unfolding switched_def by simp
  qed
  have evs: "map (\<lambda>e. e\<lparr>updated_at := 0\<rparr>) (t_events ?d) = map (\<lambda>e. e\<lparr>updated_at := 0\<rparr>) (t_events d)"
  proof -
    have "(flip t {EvPAUSED} EvPENDING (flip r {EvPENDING} EvPAUSED e))\<lparr>updated_at := 0\<rparr> = e\<lparr>updated_at := 0\<rparr>"
      if e: "e \<in> set (t_events d)" "se_subscription_id e = i" for e
    proof -
      from event_of_subscription [OF inv e(1)] obtain s' where
        "lookup (t_subscriptions d) (se_subscription_id e) = Some s'" "statuses_agree (s_status s') (se_status e)" .
      with e(2) s have "se_status e \<noteq> EvPAUSED" by auto
      then show ?thesis by (cases e) (simp add: flip_def)
    qed
    moreover define f where "f e = (if se_subscription_id e = i then flip t {EvPAUSED} EvPENDING e else e)" for e
    moreover define g where "g e = (if se_subscription_id e = i then flip r {EvPENDING} EvPAUSED e else e)" for e
    ultimately have "map ((\<lambda>e. e\<lparr>updated_at := 0\<rparr>) \<circ> (f \<circ> g)) (t_events d) = map (\<lambda>e. e\<lparr>updated_at := 0\<rparr>) (t_events d)"
      by (intro map_cong [OF refl]) (simp add: o_def)
    moreover have "t_events ?d = map (f \<circ> g) (t_events d)"
      unfolding switched_def f_def [abs_def] g_def [abs_def] by simp
    ultimately show ?thesis by (simp only: map_map)
  qed
  have "t_events_update f (t_subscriptions_update g (switched t i SubACTIVE {EvPAUSED} EvPENDING
      (switched r i SubPAUSED {EvPENDING} EvPAUSED d))) =
    d\<lparr>t_subscriptions := g (t_subscriptions ?d), t_events := f (t_events ?d)\<rparr>" for f g
    by (cases d) (simp add: switched_def)
  moreover have "t_events_update f (t_subscriptions_update g d) = d\<lparr>t_subscriptions := g (t_subscriptions d), t_events := f (t_events d)\<rparr>" for f g
    by (cases d) simp
  ultimately show ?thesis by (simp only: unstamped_def subs evs)
qed

text \<open>The statuses a response shows.\<close>

lemma shown_agrees:
  assumes inv: "subscriptions_inv d" and a: "load_subscription d i = Some a" and dto: "subscription_dto a = Inr x"
    and e: "e \<in> set (su_events x)"
  shows "statuses_agree (su_status x) (ev_status e)"
proof -
  from a obtain s where s: "lookup (t_subscriptions d) i = Some s" "a = sub_aggregate d s"
    by (auto simp: load_subscription_Some)
  have id: "row_id s = i" using lookup_SomeD [OF s(1)] by simp
  note x = subscription_dto_Inr [OF dto]
  from all2_partner(2) [OF x(6) e] obtain ep where ep: "ep \<in> set (sorted_events a)" "event_dto ep = Inr e" by blast
  have st: "ev_status e = se_status (fst ep)" using ep(2) by (auto simp: event_dto_Inr)
  have "fst ep \<in> set (map fst (sa_events a))" using ep(1) by (simp add: sorted_events_def)
  then have ev: "fst ep \<in> set (t_events d)" "se_subscription_id (fst ep) = i"
    unfolding s(2) sub_aggregate_events by (simp_all add: events_of_def id)
  from event_of_subscription [OF inv ev(1)] obtain s' where
    "lookup (t_subscriptions d) (se_subscription_id (fst ep)) = Some s'" "statuses_agree (s_status s') (se_status (fst ep))" .
  with s ev(2) have "statuses_agree (s_status s) (se_status (fst ep))" by simp
  moreover have "su_status x = s_status s" by (simp add: x(3) s(2) sub_aggregate_events)
  ultimately show ?thesis by (simp add: st)
qed

lemma switched_shown:
  assumes "lookup (t_subscriptions d) i = Some s" and "load_subscription (switched t i st old new d) i = Some a"
    and "subscription_dto a = Inr x"
  shows "su_status x = st"
proof -
  have id: "row_id s = i" using lookup_SomeD [OF assms(1)] by simp
  have "lookup (t_subscriptions (switched t i st old new d)) i = map_option (on {i} (set_sub_status t st)) (Some s)"
    unfolding switched_def assms(1) [symmetric] by simp (rule lookup_map, simp add: on_def)
  then have "a = sub_aggregate (switched t i st old new d) (set_sub_status t st s)"
    using assms(2) by (simp add: load_subscription_Some on_def id)
  then show ?thesis using subscription_dto_Inr(3) [OF assms(3)] by (simp add: sub_aggregate_events)
qed

text \<open>
  C21: Pausing an active subscription and resuming it restores everything that is stored,
  except for the times of the last change.
\<close>

theorem pause_resume_restores:
  assumes pause: "pause_subscription i u w = (Inr x, v)" and resume: "resume_subscription i u' v = (Inr y, w')"
    and inv: "subscriptions_inv (wdb w)"
  shows "unstamped (wdb w') = unstamped (wdb w) \<and> su_status x = SubPAUSED \<and> su_status y = SubACTIVE \<and>
    (\<forall>e \<in> set (su_events x). ev_status e \<noteq> EvPENDING) \<and> (\<forall>e \<in> set (su_events y). ev_status e \<noteq> EvPAUSED)"
proof -
  from pause [unfolded pause_resume_switching] inv obtain s a where
    s: "lookup (t_subscriptions (wdb w)) i = Some s" "s_status s = SubACTIVE"
    and v: "v = w\<lparr>wdb := switched (now w) i SubPAUSED {EvPENDING} EvPAUSED (wdb w)\<rparr>"
    and a: "load_subscription (wdb v) i = Some a" "subscription_dto a = Inr x"
    by (rule switching_InrE) simp_all
  have inv': "subscriptions_inv (wdb v)" by (rule preservesD [OF pause_keeps pause inv])
  from resume [unfolded pause_resume_switching] inv' obtain r b where
    r: "lookup (t_subscriptions (wdb v)) i = Some r" and w': "w' = v\<lparr>wdb := switched (now v) i SubACTIVE {EvPAUSED} EvPENDING (wdb v)\<rparr>"
    and b: "load_subscription (wdb w') i = Some b" "subscription_dto b = Inr y"
    by (rule switching_InrE) simp_all
  have inv'': "subscriptions_inv (wdb w')" by (rule preservesD [OF resume_keeps resume inv'])
  have "wdb w' = switched (now v) i SubACTIVE {EvPAUSED} EvPENDING (switched (now w) i SubPAUSED {EvPENDING} EvPAUSED (wdb w))"
    by (simp add: w' v)
  then have "unstamped (wdb w') = unstamped (wdb w)" by (simp only: paused_and_resumed [OF inv s])
  moreover have "su_status x = SubPAUSED" "su_status y = SubACTIVE"
    using switched_shown [OF s(1)] switched_shown [OF r] a b by (simp_all add: w' v)
  moreover from this have "\<forall>e \<in> set (su_events x). ev_status e \<noteq> EvPENDING" "\<forall>e \<in> set (su_events y). ev_status e \<noteq> EvPAUSED"
    using shown_agrees [OF inv' a] shown_agrees [OF inv'' b] by fastforce+
  ultimately show ?thesis by blast
qed

section \<open>Cancelling\<close>

definition refund_calls :: "string list \<Rightarrow> provider_call list \<Rightarrow> bool" where
  "refund_calls txns cs \<longleftrightarrow> list_all2 (\<lambda>txn c. \<exists>r. c = RefundCall txn (Inr r)) txns cs"

definition txns_of :: "subscription_payment list \<Rightarrow> string set" where
  "txns_of ps = {txn. \<exists>p \<in> set ps. spay_txn_id p = Some txn}"

context quiet_provider
begin

lemma refund_payments_log:
  assumes "refund_payments prov R ps w = (Inr n, w')"
  shows "\<exists>txns cs. provider_log w' = provider_log w @ cs \<and> refund_calls txns cs \<and> distinct txns \<and>
    set txns = txns_of ps - R"
  using assms
proof (induction ps arbitrary: R w n)
  case Nil
  then show ?case by (intro exI [of _ "[]"]) (simp add: refund_calls_def txns_of_def)
next
  case (Cons p ps)
  show ?case
  proof (cases "spay_txn_id p")
    case None
    then have "refund_payments prov R ps w = (Inr n, w')" using Cons.prems by simp
    moreover have "txns_of (p # ps) = txns_of ps" using None by (simp add: txns_of_def)
    ultimately show ?thesis using Cons.IH by simp
  next
    case (Some txn)
    from Cons.prems obtain v x k where call: "(if txn \<in> R then ret () else bind (provider_refund prov txn) (\<lambda>_. ret ())) w = (Inr (), v)"
      and save: "save_sub_payment (p\<lparr>spay_status := PayREFUNDED\<rparr>) v = (Inr (), x)"
      and rest: "refund_payments prov (insert txn R) ps x = (Inr k, w')"
      by (auto simp: Some elim!: bind_InrE)
    from save have x: "provider_log x = provider_log v" by (auto elim!: db_save_InrE)
    from Cons.IH [OF rest] obtain txns cs where ih: "provider_log w' = provider_log v @ cs" "refund_calls txns cs"
      "distinct txns" "set txns = txns_of ps - insert txn R" unfolding x by blast
    have txns: "txns_of (p # ps) = insert txn (txns_of ps)" using Some by (auto simp: txns_of_def)
    show ?thesis
    proof (cases "txn \<in> R")
      case True
      then have "v = w" using call by simp
      moreover have "set txns = txns_of (p # ps) - R" using ih(4) True by (auto simp: txns)
      ultimately show ?thesis using ih by blast
    next
      case False
      with call obtain r where "provider_refund prov txn w = (Inr r, v)" by (auto elim!: bind_InrE)
      from refund_logged [OF this] have "provider_log w' = provider_log w @ (RefundCall txn (Inr r) # cs)" using ih(1) by simp
      moreover have "refund_calls (txn # txns) (RefundCall txn (Inr r) # cs)" using ih(2) by (simp add: refund_calls_def)
      moreover have "distinct (txn # txns)" using ih(3,4) by simp
      moreover have "set (txn # txns) = txns_of (p # ps) - R" using ih(4) False by (auto simp: txns)
      ultimately show ?thesis by blast
    qed
  qed
qed

lemma refund_undelivered_log:
  assumes "refund_undelivered_payments prov a w = (Inr n, w')"
  shows "\<exists>txns cs. provider_log w' = provider_log w @ cs \<and> refund_calls txns cs \<and> distinct txns \<and>
    set txns = txns_of (refundable a (wdb w))"
proof (cases "undelivered_ids a = {}")
  case True
  then show ?thesis using assms
    by (intro exI [of _ "[]"]) (simp add: refund_undelivered_eq refundable_none refund_calls_def txns_of_def)
next
  case False
  then have "refund_payments prov {} (refundable a (wdb w)) w = (Inr n, w')"
    using assms by (simp add: refund_undelivered_eq)
  from refund_payments_log [OF this] show ?thesis by simp
qed

end

text \<open>
  C13: Cancelling asks the provider for one refund per transaction behind the completed
  payments of the undelivered events, marks exactly those payments refunded, cancels exactly
  the undelivered events of the subscription, and leaves every other payment and event, and
  all orders, as they were.
\<close>

theorem cancel_refunds_undelivered:
  assumes run: "cancel_subscription (Some prov) i u w = (Inr dto, w')" and prov: "quiet_provider prov"
    and inv: "subscriptions_inv (wdb w)"
  shows "\<exists>s txns cs. lookup (t_subscriptions (wdb w)) i = Some s \<and> s_user_id s = u \<and>
    s_status s \<noteq> SubCANCELLED \<and> su_status dto = SubCANCELLED \<and>
    provider_log w' = provider_log w @ cs \<and> refund_calls txns cs \<and> distinct txns \<and>
    set txns = txns_of (refundable (sub_aggregate (wdb w) s) (wdb w)) \<and>
    t_sub_payments (wdb w') = map (\<lambda>p. if p \<in> set (refundable (sub_aggregate (wdb w) s) (wdb w))
      then mark_refunded (now w) p else p) (t_sub_payments (wdb w)) \<and>
    t_events (wdb w') = map (\<lambda>e. if se_subscription_id e = i \<and> undelivered e
      then e\<lparr>se_status := EvCANCELLED, updated_at := now w\<rparr> else e) (t_events (wdb w)) \<and>
    t_orders (wdb w') = t_orders (wdb w)"
proof -
  have contract: "provider_contract prov" by (rule quiet_provider.axioms(1) [OF prov])
  from run inv contract obtain s a a' v n where s: "lookup (t_subscriptions (wdb w)) i = Some s" "s_user_id s = u"
      "s_status s \<noteq> SubCANCELLED" and a: "a = sub_aggregate (wdb w) s"
    and r: "refund_undelivered_payments prov a w = (Inr n, v)"
    and v: "wdb v = t_sub_payments_update (map (on (set (row_ids (refundable a (wdb w)))) (mark_refunded (now w)))) (wdb w)"
    and w': "w' = v\<lparr>wdb := switched (now w) i SubCANCELLED {EvPENDING, EvPAUSED, EvREADY} EvCANCELLED (wdb v)\<rparr>"
    and a': "load_subscription (wdb w') i = Some a'" "subscription_dto a' = Inr dto"
    by (rule cancel_subscription_InrE)
  have "lookup (t_subscriptions (wdb v)) i = Some s" using s(1) by (simp add: v)
  then have st: "su_status dto = SubCANCELLED" using a' by (intro switched_shown) (simp_all add: w')
  have "on (set (row_ids (refundable a (wdb w)))) (mark_refunded (now w)) p =
      (if p \<in> set (refundable a (wdb w)) then mark_refunded (now w) p else p)" if p: "p \<in> set (t_sub_payments (wdb w))" for p
  proof -
    have "row_id p \<in> set (row_ids (refundable a (wdb w))) \<longleftrightarrow> p \<in> set (refundable a (wdb w))"
      using same_row [OF subscriptions_invD(4) [OF inv] _ p] p by (auto simp: row_ids_def refundable_def)
    then show ?thesis by (simp only: on_def)
  qed
  then have pays: "t_sub_payments (wdb w') = map (\<lambda>p. if p \<in> set (refundable a (wdb w)) then mark_refunded (now w) p else p)
      (t_sub_payments (wdb w))"
    by (simp add: w' switched_def v)
  have evs: "t_events (wdb w') = map (\<lambda>e. if se_subscription_id e = i \<and> undelivered e
      then e\<lparr>se_status := EvCANCELLED, updated_at := now w\<rparr> else e) (t_events (wdb w))"
    by (simp add: w' switched_def v flip_def undelivered_def)
  have ords: "t_orders (wdb w') = t_orders (wdb w)" by (simp add: w' switched_def v)
  have log: "provider_log w' = provider_log v" by (simp add: w')
  from quiet_provider.refund_undelivered_log [OF prov r] obtain txns cs where
    "provider_log w' = provider_log w @ cs" "refund_calls txns cs" "distinct txns" "set txns = txns_of (refundable a (wdb w))"
    unfolding log by blast
  with s st pays evs ords show ?thesis
    by (intro exI [of _ s] exI [of _ txns] exI [of _ cs]) (simp only: a simp_thms)
qed

section \<open>The daily run\<close>

lemma map_of_zip_dom: "length xs = length ys \<Longrightarrow> x \<in> set xs \<Longrightarrow> map_of (zip xs ys) x \<noteq> None"
  by (simp add: map_of_zip_is_None)

lemma none_left:
  assumes p: "processed w (filter deliverable (due_events c (wdb w))) os w'" and x: "x \<in> set (due_events c (wdb w'))"
  shows "\<not> deliverable x"
proof
  assume d: "deliverable x"
  let ?ys = "filter deliverable (due_events c (wdb w))"
  note p' = p [unfolded processed_def]
  from p' have out: "outside_due (wdb w') = outside_due (wdb w)" by blast
  have same: "t_subscriptions (wdb w') = t_subscriptions (wdb w)" "t_sub_products (wdb w') = t_sub_products (wdb w)"
    "t_sub_delivery (wdb w') = t_sub_delivery (wdb w)"
    using arg_cong [OF out, of t_subscriptions] arg_cong [OF out, of t_sub_products]
      arg_cong [OF out, of t_sub_delivery] by simp_all
  from x obtain e' where e': "e' \<in> set (t_events (wdb w'))" "is_due c (wdb w') e'" "x = load_due (wdb w') e'"
    by (auto simp: due_events_def)
  have "t_events (wdb w') = map (ready_with (now w) (zip (due_ids ?ys) (row_ids os))) (t_events (wdb w))" using p' by blast
  then obtain e where e: "e \<in> set (t_events (wdb w))" "e' = ready_with (now w) (zip (due_ids ?ys) (row_ids os)) e"
    using e'(1) by auto
  have "se_status e' = EvPENDING" using e'(2) by (simp add: is_due_def)
  then have none: "map_of (zip (due_ids ?ys) (row_ids os)) (row_id e) = None" and ee: "e' = e"
    using e(2) by (simp_all add: ready_with_def split: option.splits)
  have "is_due c (wdb w) e" using e'(2) by (simp add: is_due_def same ee)
  moreover have "x = load_due (wdb w) e" using e'(3) by (simp add: load_due_def same ee event_product_def sub_delivery_def)
  ultimately have "x \<in> set ?ys" using d e(1) by (auto simp: due_events_def)
  then have "row_id (due_event x) \<in> set (due_ids ?ys)" by simp
  moreover have "due_event x = e" using e'(3) ee by (simp add: load_due_def)
  moreover have "length (due_ids ?ys) = length (row_ids os)"
    using p' by (simp add: row_ids_def) (blast dest: list_all2_lengthD)
  ultimately show False using none map_of_zip_dom by metis
qed

lemma process_nothing: "\<forall>x \<in> set xs. \<not> deliverable x \<Longrightarrow> process_due xs w = (Inr 0, w)"
  by (induction xs) (auto simp: deliverable_def split: option.splits)

text \<open>
  C17: Running the due pass again on the same day processes nothing and changes nothing.
\<close>

theorem due_rerun_is_noop:
  assumes run: "process_due_events today w = (Inr n, w')" and inv: "orders_ok (wdb w)" "subscriptions_inv (wdb w)"
  shows "process_due_events today w' = (Inr 0, w')"
proof -
  from run inv obtain os where
    p: "processed w (filter deliverable (due_events (cutoff_date today (now w)) (wdb w))) os w'"
    by (rule process_due_events_effect)
  then have "now w' = now w" by (simp add: processed_def)
  then show ?thesis
    using process_nothing none_left [OF p] by (simp add: process_due_events_def bind_gets)
qed

text \<open>
  The completion pass marks exactly the events of completed orders completed, reports
  their number, changes nothing else, and finds nothing when it runs again.
\<close>

theorem sync_marks_completed:
  assumes run: "sync_completed_events w = (Inr n, w')" and inv: "subscriptions_inv (wdb w)"
  shows "wdb w' = t_events_update (map (\<lambda>e. if order_completed (wdb w) e
      then e\<lparr>se_status := EvCOMPLETED, updated_at := now w\<rparr> else e)) (wdb w) \<and>
    n = length (filter (order_completed (wdb w)) (t_events (wdb w))) \<and>
    sync_completed_events w' = (Inr 0, w')"
proof -
  note r = sync_InrE [OF run subscriptions_invD(2) [OF inv]]
  have w': "wdb w' = t_events_update (map (\<lambda>e. if order_completed (wdb w) e
      then e\<lparr>se_status := EvCOMPLETED, updated_at := now w\<rparr> else e)) (wdb w)"
    unfolding r(1) by (simp add: synced_def [abs_def] finish_def)
  have "\<not> order_completed (wdb w') (synced (now w) (wdb w) e)" for e
    unfolding r(1) by (auto simp: synced_def order_completed_def split: option.splits)
  then have "filter (order_completed (wdb w')) (t_events (wdb w')) = []"
    unfolding r(1) by (auto simp: filter_empty_conv)
  then have "sync_completed_events w' = (Inr 0, w')" by (simp add: sync_completed_events_def)
  with w' r(2) show ?thesis by blast
qed

section \<open>Extending schedules\<close>

text \<open>
  C37: A weekly schedule has twelve deliveries seven days apart, a biweekly one six deliveries
  fourteen days apart, and a monthly one three, in the next three months on the day of the starting
  date or on the last day of a shorter month. The dates exist, they rise strictly from the date the
  schedule starts from, and a new subscription gets those with which a schedule that ends today
  would be extended.
\<close>

theorem schedule_shape:
  assumes "valid_date d" and "year d \<le> 9998"
  shows "next_dates_after d WEEKLY = map (plus_days d) [7, 14, 21, 28, 35, 42, 49, 56, 63, 70, 77, 84] \<and>
    next_dates_after d BIWEEKLY = map (plus_days d) [14, 28, 42, 56, 70, 84] \<and>
    list_all2 (\<lambda>k x. year x * 12 + month x = year d * 12 + month d + k \<and> 1 \<le> month x \<and> month x \<le> 12 \<and>
      day x = min (day d) (monthrange (year x) (month x))) [1, 2, 3] (next_dates_after d MONTHLY) \<and>
    list_all valid_date (next_dates_after d f) \<and> sorted_wrt (<) (d # next_dates_after d f) \<and>
    event_dates d f = next_dates_after d f"
  using sorted_next_dates [of d f] next_dates_later [OF assms(1)] valid_next_dates [OF assms(1)]
  by (simp add: periodic_dates monthly_dates add_months_columns event_dates_eq list_all_iff del: list.map(2))
    (simp add: add_months_columns)

section \<open>No call gets stuck\<close>

text \<open>Every stored subscription can be shown: its events have their product snapshots.\<close>

lemma subscription_dto_total:
  assumes inv: "subscriptions_inv d" and load: "load_subscription d i = Some a"
  shows "\<exists>x. subscription_dto a = Inr x"
proof -
  from load obtain s where a: "a = sub_aggregate d s" by (auto simp: load_subscription_Some)
  have "\<exists>x. event_dto ep = Inr x" if "ep \<in> set (sorted_events a)" for ep
  proof -
    from that obtain e where e: "e \<in> set (t_events d)" "ep = (e, event_product d (row_id e))"
      by (auto simp: sorted_events_def a sub_aggregate_def events_of_def)
    have "event_sound d e" by (rule subscriptions_invD(6) [OF inv e(1)])
    then obtain p where "event_product d (row_id e) = Some p" by (auto simp: event_sound_def split: option.splits)
    then show ?thesis by (simp add: e(2) event_dto_def)
  qed
  then obtain f where f: "\<And>ep. ep \<in> set (sorted_events a) \<Longrightarrow> event_dto ep = Inr (f ep)" by metis
  have "map_sum_list event_dto (sorted_events a) = Inr (map f (sorted_events a))"
    by (rule map_sum_list_all_Inr) (rule f)
  then show ?thesis by (simp add: subscription_dto_def)
qed

lemma changed_event_storable:
  assumes inv: "subscriptions_inv d" and e: "e \<in> set (t_events d)"
    and d': "d' = t_events_update (map f) d" and f: "\<And>x. row_id (f x) = row_id x \<and> slot (f x) = slot x"
  shows "fits_subscription_event (e\<lparr>se_status := st\<rparr>) \<and> ok_event d' (e\<lparr>se_status := st\<rparr>)"
proof -
  have sound: "event_sound d e" by (rule subscriptions_invD(6) [OF inv e])
  then have "e\<lparr>se_status := st\<rparr> = e\<lparr>se_status := st, se_order_id := se_order_id e\<rparr>" "opt_fits (refers (t_orders d)) (se_order_id e)"
    by (simp_all add: event_sound_def)
  from event_storable [OF inv e this] have ok: "fits_subscription_event (e\<lparr>se_status := st\<rparr>)" "ok_event d (e\<lparr>se_status := st\<rparr>)"
    by blast+
  have "unique_by slot (t_events d') (e\<lparr>se_status := st\<rparr>)"
    using ok(2) f unfolding ok_event_def unique_by_def d' by auto
  with ok show ?thesis by (simp add: ok_event_def d' split: option.splits)
qed

lemma switch_status_total:
  assumes inv: "subscriptions_inv (wdb w)" and s: "lookup (t_subscriptions (wdb w)) i = Some s"
    and new: "s_status s \<noteq> st" "new \<notin> old"
  shows "switch_status (sub_aggregate (wdb w) s) st old new w = (Inr (), w\<lparr>wdb := switched (now w) i st old new (wdb w)\<rparr>)"
proof -
  note ids = subscriptions_invD(1,2) [OF inv]
  note s' = lookup_SomeD [OF s]
  let ?a = "sub_aggregate (wdb w) s"
  let ?es = "sort_key se_scheduled_date (events_of (wdb w) i)"
  let ?w = "w\<lparr>wdb := t_subscriptions_update (map (on {row_id s} (\<lambda>x. touch (now w) x (x\<lparr>s_status := st\<rparr>)))) (wdb w)\<rparr>"
  have save: "save_subscription ((sa_sub ?a)\<lparr>s_status := st\<rparr>) w = (Inr (), ?w)"
    unfolding sub_aggregate_events
    by (rule subscriptions_rel.save_run [where f = "\<lambda>x. x\<lparr>s_status := st\<rparr>"])
      (use s' ids subscriptions_invD(5) [OF inv] in \<open>auto simp: ok_subscription_def\<close>)
  have es: "map fst (sa_events ?a) = ?es" using s' by (simp add: sub_aggregate_events)
  have "\<exists>us w'. forM (\<lambda>e. if se_status e \<in> old then save_event (e\<lparr>se_status := new\<rparr>) else ret ()) ?es ?w = (Inr us, w')"
  proof (rule events_rel.forM_save_total [where d = "wdb ?w" and A = "{}" and t = "now w"])
    show "fits_subscription_event (e\<lparr>se_status := new\<rparr>) \<and> ok_event (t_events_update
        (map (on A (\<lambda>x. if se_status x \<in> old then touch (now w) x (x\<lparr>se_status := new\<rparr>) else x))) (wdb ?w)) (e\<lparr>se_status := new\<rparr>)"
      if "e \<in> set ?es" for A e
    proof -
      have e: "e \<in> set (t_events (wdb w))" using that by (simp add: events_of_def)
      let ?d = "t_events_update (map (on A (\<lambda>x. if se_status x \<in> old then touch (now w) x (x\<lparr>se_status := new\<rparr>) else x))) (wdb w)"
      have "fits_subscription_event (e\<lparr>se_status := new\<rparr>) \<and> ok_event ?d (e\<lparr>se_status := new\<rparr>)"
        by (rule changed_event_storable [OF inv e refl]) (simp add: on_def touch_def)
      moreover have "row_ids (map (on {row_id s} (\<lambda>x. touch (now w) x (x\<lparr>s_status := st\<rparr>))) (t_subscriptions (wdb w))) =
          row_ids (t_subscriptions (wdb w))" by (rule row_ids_map) (simp add: on_def touch_def)
      ultimately show ?thesis by (simp add: ok_event_def split: option.splits)
    qed
    show "wdb ?w = t_events_update (map (on {} (\<lambda>x. if se_status x \<in> old then touch (now w) x (x\<lparr>se_status := new\<rparr>) else x))) (wdb ?w)"
      by (simp add: on_empty events_rel.upd_same)
  qed (use events_of_rows(1) [OF ids(2)] ids(2) in \<open>auto simp: events_of_def\<close>)
  then obtain us w' where "forM (\<lambda>e. if se_status e \<in> old then save_event (e\<lparr>se_status := new\<rparr>) else ret ()) ?es ?w = (Inr us, w')"
    by blast
  then have run: "switch_status ?a st old new w = (Inr (), w')"
    unfolding switch_status_def es bulk_event_status_def by (simp only: bind_def save prod.case sum.case ret_run)
  have "load_subscription (wdb w) i = Some ?a" using s by (simp add: load_subscription_def)
  from switch_InrE [OF run this inv] have "w' = w\<lparr>wdb := switched (now w) i st old new (wdb w)\<rparr>"
    using new by (simp add: sub_aggregate_events)
  with run show ?thesis by simp
qed

text \<open>The specification that pause and resume share: every answer, and the rows it leaves.\<close>

definition lifecycle_outcome ::
  "string \<Rightarrow> subscription_status \<Rightarrow> subscription_status \<Rightarrow> event_status \<Rightarrow> event_status \<Rightarrow>
   uuid \<Rightarrow> uuid \<Rightarrow> world \<Rightarrow> (exn + SubscriptionDTO) \<times> world \<Rightarrow> bool" where
  "lifecycle_outcome action before after ev_before ev_after i u w r \<longleftrightarrow>
     (case lookup (t_subscriptions (wdb w)) i of
        None \<Rightarrow> r = (Inl (SubscriptionExn (SubscriptionNotFoundError i)), w)
      | Some s \<Rightarrow>
          if s_user_id s \<noteq> u then r = (Inl (SubscriptionExn SubscriptionAccessDeniedError), w)
          else if s_status s \<noteq> before
          then r = (Inl (SubscriptionExn (SubscriptionInvalidStateError (subscription_status_value (s_status s)) action)), w)
          else \<exists>dto. su_status dto = after \<and> su_id dto = i \<and>
            r = (Inr dto, w\<lparr>wdb := switched (now w) i after {ev_before} ev_after (wdb w)\<rparr>))"

lemma switching_outcome:
  assumes inv: "subscriptions_inv (wdb w)" and st: "before \<noteq> after" "ev_after \<noteq> ev_before"
    and agree: "\<And>x. statuses_agree before x \<Longrightarrow> statuses_agree after (if x \<in> {ev_before} then ev_after else x)"
    and orders: "\<And>x j. order_agrees x j \<Longrightarrow> x \<in> {ev_before} \<Longrightarrow> order_agrees ev_after j"
  shows "lifecycle_outcome action before after ev_before ev_after i u w
    (switching before (invalid_state action) after {ev_before} ev_after i u w)"
proof (cases "lookup (t_subscriptions (wdb w)) i")
  case None
  then show ?thesis
    by (simp add: lifecycle_outcome_def switching_def bind_def require_owned_subscription_run)
next
  case (Some s)
  have sub: "sa_sub (sub_aggregate (wdb w) s) = s" by (rule sub_aggregate_events)
  have own: "require_owned_subscription i u w = (if s_user_id s = u then (Inr (sub_aggregate (wdb w) s), w)
      else (Inl (SubscriptionExn SubscriptionAccessDeniedError), w))"
    by (simp add: require_owned_subscription_run Some)
  show ?thesis
  proof (cases "s_user_id s = u \<and> s_status s = before")
    case False
    then show ?thesis
      by (auto simp: lifecycle_outcome_def Some switching_def bind_def own require_run sub invalid_state_def)
  next
    case True
    define d where "d = switched (now w) i after {ev_before} ev_after (wdb w)"
    have new: "s_status s \<noteq> after" "ev_after \<notin> {ev_before}" using True st by auto
    note sw = switch_status_total [OF inv Some new]
    have inv': "subscriptions_inv d" unfolding d_def
      by (rule switched_inv [OF inv Some]) (use True agree orders in auto)
    have id: "row_id s = i" using lookup_SomeD [OF Some] by simp
    have "lookup (t_subscriptions d) i = map_option (on {i} (set_sub_status (now w) after)) (Some s)"
      unfolding d_def switched_def Some [symmetric] by simp (rule lookup_map, simp add: on_def)
    then have load: "load_subscription d i = Some (sub_aggregate d (set_sub_status (now w) after s))"
      by (simp add: load_subscription_def on_def id)
    from subscription_dto_total [OF inv' load] obtain dto
      where dto: "subscription_dto (sub_aggregate d (set_sub_status (now w) after s)) = Inr dto" by blast
    have shown: "su_status dto = after" "su_id dto = i"
      using subscription_dto_Inr(1,3) [OF dto] by (simp_all add: sub_aggregate_events id)
    have "switching before (invalid_state action) after {ev_before} ev_after i u w = (Inr dto, w\<lparr>wdb := d\<rparr>)"
      using True by (simp add: switching_def bind_def own require_run sub sw reload_subscription_def fetch_run
          load dto d_def [symmetric])
    then show ?thesis using True shown by (simp add: lifecycle_outcome_def Some d_def)
  qed
qed

text \<open>
  Pausing and resuming have exactly these outcomes: 404 for an unknown subscription, 403
  for another user's, 409 in the wrong state, each without a change, and otherwise success:
  the subscription and exactly its pending (paused) events switch their status.
\<close>

theorem pause_resume_outcome:
  assumes "subscriptions_inv (wdb w)"
  shows "lifecycle_outcome ''pause'' SubACTIVE SubPAUSED EvPENDING EvPAUSED i u w (pause_subscription i u w) \<and>
    lifecycle_outcome ''resume'' SubPAUSED SubACTIVE EvPAUSED EvPENDING i u w (resume_subscription i u w)"
  unfolding pause_resume_switching
  by (intro conjI switching_outcome [OF assms]) (auto simp: order_agrees_def)

text \<open>A cancellation goes through whenever the refunds do.\<close>

lemma cancel_total:
  assumes prov: "provider_contract prov" and inv: "subscriptions_inv (wdb w)"
    and s: "lookup (t_subscriptions (wdb w)) i = Some s" "s_user_id s = u" "s_status s \<noteq> SubCANCELLED" "s_status s \<noteq> SubCOMPLETED"
    and refund: "refund_undelivered_payments prov (sub_aggregate (wdb w) s) w = (Inr n, v)"
  shows "\<exists>dto w'. cancel_subscription (Some prov) i u w = (Inr dto, w')"
proof -
  from provider_contract.refund_undelivered_InrE [OF prov refund inv]
  have v: "wdb v = t_sub_payments_update (map (on (set (row_ids (refundable (sub_aggregate (wdb w) s) (wdb w))))
      (mark_refunded (now w)))) (wdb w)" by blast
  have inv': "subscriptions_inv (wdb v)" unfolding v by (rule provider_contract.refunded_inv [OF prov inv])
  have s': "lookup (t_subscriptions (wdb v)) i = Some s" using s(1) by (simp add: v)
  have agg: "sub_aggregate (wdb v) s = sub_aggregate (wdb w) s"
    by (simp add: v sub_aggregate_def sub_delivery_def events_of_def event_product_def)
  let ?old = "{EvPENDING, EvPAUSED, EvREADY}"
  define d where "d = switched (now v) i SubCANCELLED ?old EvCANCELLED (wdb v)"
  note sw = switch_status_total [OF inv' s' s(3), of EvCANCELLED ?old, unfolded agg, folded d_def]
  have inv'': "subscriptions_inv d" unfolding d_def by (rule cancelled_inv [OF inv' s' s(4)])
  have "lookup (t_subscriptions d) i = map_option (on {i} (set_sub_status (now v) SubCANCELLED)) (Some s)"
    unfolding d_def switched_def s' [symmetric] by simp (rule lookup_map, simp add: on_def)
  then obtain a where load: "load_subscription d i = Some a" by (auto simp: load_subscription_def)
  from subscription_dto_total [OF inv'' load] obtain dto where "subscription_dto a = Inr dto" by blast
  then show ?thesis
    using s by (simp add: cancel_subscription_def bind_def require_owned_subscription_run require_run sub_aggregate_events
        refund sw reload_subscription_def fetch_run load)
qed

end
