(* ===== verification/SubscriptionSample.thy ===== *)
theory SubscriptionSample
  imports Sample SchedulerInvariant
begin

text \<open>
  A monthly subscription of the sample shop with two deliveries, its payments and a saved
  method, on which the witnesses of the properties of subscriptions run. The status of the
  subscription and of its first delivery are parameters.
\<close>

definition sample_subscription :: "subscription_status \<Rightarrow> subscription" where
  "sample_subscription st = \<lparr>row_id = 70, created_at = 0, updated_at = 0, s_user_id = 1,
     s_frequency = MONTHLY, s_status = st\<rparr>"

definition sample_event :: "uuid \<Rightarrow> date \<Rightarrow> event_status \<Rightarrow> uuid option \<Rightarrow> subscription_event" where
  "sample_event i day_due st ord = \<lparr>row_id = i, created_at = 0, updated_at = 0, se_subscription_id = 70,
     se_order_id = ord, se_scheduled_date = day_due, se_price = 1250, se_currency = ''EUR'', se_status = st\<rparr>"

definition sample_snapshot :: "uuid \<Rightarrow> uuid \<Rightarrow> subscription_product" where
  "sample_snapshot i e = \<lparr>row_id = i, created_at = 0, updated_at = 0, sp_event_id = e, sp_product_id = 10,
     sp_product_name = ''Beans'', sp_product_price = 1250\<rparr>"

definition sample_sub_payment :: "uuid \<Rightarrow> uuid \<Rightarrow> subscription_payment" where
  "sample_sub_payment i e = \<lparr>row_id = i, created_at = 0, updated_at = 0, spay_event_id = e, spay_user_id = 1,
     spay_amount = 1250, spay_method = ''card'', spay_provider = ''fake'', spay_txn_id = Some ''fake-1'',
     spay_status = PayCOMPLETED, spay_completed_at = Some 0\<rparr>"

definition sample_method :: payment_method where
  "sample_method = \<lparr>row_id = 90, created_at = 0, updated_at = 0, pm_user_id = 1, pm_provider = ''fake'',
     pm_customer_id = ''c'', pm_token = ''t'', pm_brand = ''visa'', pm_last4 = ''4242'', pm_exp_month = 12,
     pm_exp_year = 2030, pm_is_default = True\<rparr>"

definition sample_events :: "event_status \<Rightarrow> subscription_event list" where
  "sample_events x = [sample_event 71 (Date 1970 2 1) x (if x = EvREADY then Some 40 else None),
     sample_event 72 (Date 1970 3 1) EvPENDING None]"

definition sample_sub_world :: "subscription_status \<Rightarrow> event_status \<Rightarrow> world" where
  "sample_sub_world st x = sample_world\<lparr>now := 0, wdb := sample_db\<lparr>
     t_subscriptions := [sample_subscription st], t_events := sample_events x,
     t_sub_products := [sample_snapshot 73 71, sample_snapshot 74 72],
     t_sub_delivery := [new_sub_delivery 70 sample_address 75 0],
     t_sub_payments := (if st = SubPENDING then [] else [sample_sub_payment 76 71, sample_sub_payment 77 72]),
     t_payment_methods := [sample_method]\<rparr>\<rparr>"


lemmas sample_sub_defs = sample_sub_world_def sample_subscription_def sample_event_def sample_snapshot_def
  sample_sub_payment_def sample_method_def sample_events_def new_sub_delivery_def

lemma sample_sub_orders_ok: "orders_ok (wdb (sample_sub_world st x))"
  using sample_orders_ok
  by (rule orders_ok_outside [rotated -1]) (simp_all add: sample_sub_world_def sample_world_def)

definition sample_pairs :: "(subscription_status \<times> event_status) set" where
  "sample_pairs = {(SubACTIVE, EvPENDING), (SubACTIVE, EvREADY), (SubPENDING, EvPENDING)}"

lemma sample_sub_inv:
  assumes "(st, x) \<in> sample_pairs"
  shows "subscriptions_inv (wdb (sample_sub_world st x))"
proof -
  have "statuses_agree st x \<and> statuses_agree st EvPENDING \<and> order_agrees x (if x = EvREADY then Some 40 else None)"
    using assms by (auto simp: sample_pairs_def order_agrees_def)
  then show ?thesis
    by (simp add: subscriptions_inv_def event_sound_def sub_payment_sound_def one_event_per_order_def
        sample_sub_defs sample_defs event_product_def fits_subscription_event_def check_subscription_event_def
        fits_subscription_payment_def check_subscription_payment_def column_defs opt_fits_def order_agrees_def)
qed

lemmas sub_op_defs = bind_def svc_simps db_add_def uuid4_run db_insert_eq db_save_def
  ok_subscription_def ok_sub_delivery_def ok_event_def ok_sub_product_def ok_sub_payment_def
  fits_subscription_delivery_def fits_subscription_event_def fits_subscription_product_def fits_subscription_payment_def
  check_subscription_event_def check_subscription_product_def check_subscription_payment_def unique_by_def
  column_defs

end
