(* ===== verification/SubscriptionWitnesses.thy ===== *)
theory SubscriptionWitnesses
  imports SubscriptionProperties SubscriptionSample PaymentProperties
begin

text \<open>Each property of subscriptions at a concrete input where its hypotheses hold.\<close>

lemma sample_due: "due_events (Date 1970 2 10) (wdb (sample_sub_world SubACTIVE EvPENDING)) =
  [load_due (wdb (sample_sub_world SubACTIVE EvPENDING)) (sample_event 71 (Date 1970 2 1) EvPENDING None)]"
  by (simp add: due_events_def is_due_def sample_sub_defs)

lemma sample_due_run: "\<exists>w'. process_due_events (Some (Date 1970 2 10)) (sample_sub_world SubACTIVE EvPENDING) = (Inr 1, w')"
  by (simp add: process_due_events_def bind_gets cutoff_date_def sample_due)
    (simp add: load_due_def sub_delivery_def event_product_def sample_sub_defs order_event_def build_order_def
      sub_op_defs repo_add_def insert_fulfillment_def new_order_def snapshot_line_def new_line_def saved_address_def
      legal_defs sample_defs fits_order_product_def ok_order_product_def check_order_product_def)

lemma due_rerun_is_noop_witness:
  "\<exists>w'. process_due_events (Some (Date 1970 2 10)) (sample_sub_world SubACTIVE EvPENDING) = (Inr 1, w') \<and>
     process_due_events (Some (Date 1970 2 10)) w' = (Inr 0, w')"
proof -
  obtain w' where run: "process_due_events (Some (Date 1970 2 10)) (sample_sub_world SubACTIVE EvPENDING) = (Inr 1, w')"
    using sample_due_run by blast
  have inv: "subscriptions_inv (wdb (sample_sub_world SubACTIVE EvPENDING))"
    by (rule sample_sub_inv) (simp add: sample_pairs_def)
  from due_rerun_is_noop [OF run sample_sub_orders_ok inv] run show ?thesis by blast
qed

text \<open>The order of the first delivery is completed.\<close>

definition sample_completed :: world where
  "sample_completed = (sample_sub_world SubACTIVE EvREADY)\<lparr>wdb := (wdb (sample_sub_world SubACTIVE EvREADY))
     \<lparr>t_orders := [sample_order 40 1 DELIVERY COMPLETED]\<rparr>\<rparr>"

lemma sample_completed_inv: "subscriptions_inv (wdb sample_completed)"
proof -
  have "subscriptions_inv (wdb (sample_sub_world SubACTIVE EvREADY))"
    by (rule sample_sub_inv) (simp add: sample_pairs_def)
  then show ?thesis
    by (simp add: subscriptions_inv_def event_sound_def sub_payment_sound_def one_event_per_order_def
        sample_sub_defs sample_defs event_product_def opt_fits_def sample_completed_def)
qed

lemma sync_marks_completed_witness:
  "\<exists>w'. sync_completed_events sample_completed = (Inr 1, w') \<and> sync_completed_events w' = (Inr 0, w')"
proof -
  obtain w' where run: "sync_completed_events sample_completed = (Inr 1, w')"
    by (simp add: sync_completed_events_def order_completed_def sample_completed_def sample_sub_defs sample_defs sub_op_defs)
  from sync_marks_completed [OF run sample_completed_inv] run show ?thesis by blast
qed

lemma schedule_shape_witness:
  "next_dates_after (Date 2024 1 31) MONTHLY = [Date 2024 2 29, Date 2024 3 31, Date 2024 4 30] \<and>
   sorted_wrt (<) (Date 2024 1 31 # next_dates_after (Date 2024 1 31) MONTHLY)"
proof -
  have "valid_date (Date 2024 1 31)" "year (Date 2024 1 31) \<le> 9998" by (simp_all add: valid_date_def monthrange_def)
  from schedule_shape [OF this] have "sorted_wrt (<) (Date 2024 1 31 # next_dates_after (Date 2024 1 31) MONTHLY)" by blast
  moreover have "next_dates_after (Date 2024 1 31) MONTHLY = [Date 2024 2 29, Date 2024 3 31, Date 2024 4 30]"
    by (simp add: monthly_dates add_months_def monthrange_def leap_def)
  ultimately show ?thesis by blast
qed

text \<open>Pausing and resuming the subscription.\<close>

lemma sample_active_inv: "subscriptions_inv (wdb (sample_sub_world SubACTIVE EvREADY))"
  by (rule sample_sub_inv) (simp add: sample_pairs_def)

lemma sample_lookup: "lookup (t_subscriptions (wdb (sample_sub_world st x))) 70 = Some (sample_subscription st)"
  by (simp add: sample_sub_defs sample_defs)

lemma sample_owner: "s_user_id (sample_subscription st) = 1" "s_status (sample_subscription st) = st"
  by (simp_all add: sample_subscription_def)

lemma sample_pause:
  "\<exists>x. pause_subscription 70 1 (sample_sub_world SubACTIVE EvREADY) = (Inr x, (sample_sub_world SubACTIVE EvREADY)
     \<lparr>wdb := switched 0 70 SubPAUSED {EvPENDING} EvPAUSED (wdb (sample_sub_world SubACTIVE EvREADY))\<rparr>)"
proof -
  have "lifecycle_outcome ''pause'' SubACTIVE SubPAUSED EvPENDING EvPAUSED 70 1 (sample_sub_world SubACTIVE EvREADY)
      (pause_subscription 70 1 (sample_sub_world SubACTIVE EvREADY))"
    unfolding pause_resume_switching by (rule switching_outcome [OF sample_active_inv]) (auto simp: order_agrees_def)
  moreover have "now (sample_sub_world SubACTIVE EvREADY) = 0" by (simp add: sample_sub_world_def)
  ultimately show ?thesis by (auto simp: lifecycle_outcome_def sample_lookup sample_owner)
qed

lemma pause_resume_outcome_witness:
  "\<exists>dto w'. pause_subscription 70 1 (sample_sub_world SubACTIVE EvREADY) = (Inr dto, w') \<and> su_status dto = SubPAUSED"
proof -
  have "lifecycle_outcome ''pause'' SubACTIVE SubPAUSED EvPENDING EvPAUSED 70 1 (sample_sub_world SubACTIVE EvREADY)
      (pause_subscription 70 1 (sample_sub_world SubACTIVE EvREADY))"
    using pause_resume_outcome [OF sample_active_inv] by blast
  then show ?thesis by (auto simp: lifecycle_outcome_def sample_lookup sample_owner)
qed

lemma pause_resume_restores_witness:
  "\<exists>x v y w'. pause_subscription 70 1 (sample_sub_world SubACTIVE EvREADY) = (Inr x, v) \<and>
     resume_subscription 70 1 v = (Inr y, w') \<and> unstamped (wdb w') = unstamped (wdb (sample_sub_world SubACTIVE EvREADY))"
proof -
  obtain x v where pause: "pause_subscription 70 1 (sample_sub_world SubACTIVE EvREADY) = (Inr x, v)"
    and v: "wdb v = switched 0 70 SubPAUSED {EvPENDING} EvPAUSED (wdb (sample_sub_world SubACTIVE EvREADY))"
    using sample_pause by auto
  have inv: "subscriptions_inv (wdb v)" by (rule preservesD [OF pause_keeps pause sample_active_inv])
  have s: "lookup (t_subscriptions (wdb v)) 70 = Some (set_sub_status 0 SubPAUSED (sample_subscription SubACTIVE))"
    unfolding v switched_def by (simp add: sample_sub_defs on_def)
  have "lifecycle_outcome ''resume'' SubPAUSED SubACTIVE EvPAUSED EvPENDING 70 1 v (resume_subscription 70 1 v)"
    unfolding pause_resume_switching by (rule switching_outcome [OF inv]) (auto simp: order_agrees_def)
  then obtain y w' where resume: "resume_subscription 70 1 v = (Inr y, w')"
    by (auto simp: lifecycle_outcome_def s sample_owner)
  from pause_resume_restores [OF pause resume sample_active_inv] pause resume show ?thesis by blast
qed

text \<open>Cancelling it with a refund of the two payments of one transaction.\<close>

lemma sample_refund:
  "\<exists>n v. refund_undelivered_payments (fake_provider sample_settings)
      (sub_aggregate (wdb (sample_sub_world SubACTIVE EvREADY)) (sample_subscription SubACTIVE))
      (sample_sub_world SubACTIVE EvREADY) = (Inr n, v)"
  by (simp add: refund_undelivered_payments_def undelivered_def sub_aggregate_events)
    (simp add: events_of_def sample_sub_defs sample_defs provider_refund_def logged_def fake_provider_def
      sub_op_defs touch_def replace_row_def)

lemma sample_refundable:
  "refundable (sub_aggregate (wdb (sample_sub_world SubACTIVE EvREADY)) (sample_subscription SubACTIVE))
     (wdb (sample_sub_world SubACTIVE EvREADY)) = [sample_sub_payment 76 71, sample_sub_payment 77 72]"
proof -
  have "map fst (sa_events (sub_aggregate (wdb (sample_sub_world SubACTIVE EvREADY)) (sample_subscription SubACTIVE))) =
      sample_events EvREADY"
    unfolding sub_aggregate_events by (simp add: events_of_def sample_sub_defs)
  then have "undelivered_ids (sub_aggregate (wdb (sample_sub_world SubACTIVE EvREADY)) (sample_subscription SubACTIVE)) = {71, 72}"
    unfolding undelivered_ids_def by (simp add: sample_sub_defs undelivered_def)
  then show ?thesis unfolding refundable_def by (simp add: sample_sub_defs)
qed

lemma cancel_refunds_undelivered_witness:
  "\<exists>dto w' c. cancel_subscription (Some (fake_provider sample_settings)) 70 1 (sample_sub_world SubACTIVE EvREADY) = (Inr dto, w') \<and>
     su_status dto = SubCANCELLED \<and> provider_log w' = [c]"
proof -
  let ?w = "sample_sub_world SubACTIVE EvREADY" and ?p = "fake_provider sample_settings"
  obtain n v where refund: "refund_undelivered_payments ?p (sub_aggregate (wdb ?w) (sample_subscription SubACTIVE)) ?w = (Inr n, v)"
    using sample_refund by blast
  obtain dto w' where run: "cancel_subscription (Some ?p) 70 1 ?w = (Inr dto, w')"
    using cancel_total [OF fake.provider_contract_axioms sample_active_inv sample_lookup _ _ _ refund]
    by (auto simp: sample_owner)
  from cancel_refunds_undelivered [OF run fake_quiet.quiet_provider_axioms sample_active_inv]
  obtain s txns cs where s: "lookup (t_subscriptions (wdb ?w)) 70 = Some s" and st: "su_status dto = SubCANCELLED"
    and log: "provider_log w' = provider_log ?w @ cs" "refund_calls txns cs" "distinct txns"
      "set txns = txns_of (refundable (sub_aggregate (wdb ?w) s) (wdb ?w))" by blast
  have "s = sample_subscription SubACTIVE" using s sample_lookup by simp
  then have "set txns = {''fake-1''}"
    using log(4) by (auto simp: sample_refundable txns_of_def sample_sub_payment_def)
  then have "length txns = 1" using distinct_card [OF log(3)] by simp
  then have "length cs = 1" using log(2) by (simp add: refund_calls_def list_all2_lengthD)
  then obtain c where "cs = [c]" by (cases cs) auto
  then show ?thesis using run st log(1) by (simp add: sample_sub_world_def sample_world_def)
qed

text \<open>Creating and paying a subscription.\<close>

definition sample_create_request :: "uuid option \<Rightarrow> CreateSubscriptionRequest" where
  "sample_create_request k = \<lparr>cs_product_id = 10, cs_frequency = MONTHLY, cs_delivery = sample_address,
     cs_payment_method_id = k\<rparr>"

lemma sample_dates: "event_dates (date_of 0) MONTHLY = [Date 1970 2 1, Date 1970 3 1, Date 1970 4 1]"
  by (simp add: event_dates_def date_of_def HORIZON_MONTHS_def upt_rec add_months_def monthrange_def)

lemma sample_schedule:
  "\<exists>s v. schedule_subscription 1 (sample_create_request k) (sample_product 10 True) (sample_sub_world SubPENDING EvPENDING) = (Inr s, v)"
  by (simp add: schedule_subscription_def sample_create_request_def sub_op_defs sample_sub_world_def sample_dates
      new_subscription_def new_sub_delivery_def new_event_def new_sub_product_def sample_defs sample_sub_defs)

lemma sample_pending_inv: "subscriptions_inv (wdb (sample_sub_world SubPENDING EvPENDING))"
  by (rule sample_sub_inv) (simp add: sample_pairs_def)

lemma create_subscription_effect_witness:
  "\<exists>dto w'. create_subscription (Some (fake_provider sample_settings)) 1 (sample_create_request None)
      (sample_sub_world SubPENDING EvPENDING) = (Inr dto, w') \<and>
     map ev_scheduled_date (su_events dto) = [Date 1970 2 1, Date 1970 3 1, Date 1970 4 1] \<and>
     su_status dto = SubPENDING \<and> su_total_price dto = 3750"
proof -
  let ?w = "sample_sub_world SubPENDING EvPENDING" and ?data = "sample_create_request None"
  let ?p = "fake_provider sample_settings"
  obtain s v where sched: "schedule_subscription 1 ?data (sample_product 10 True) ?w = (Inr s, v)"
    using sample_schedule by blast
  have inv: "subscriptions_inv (wdb v)" by (rule preservesD [OF schedule_keeps sched sample_pending_inv])
  from sched have "lookup (t_subscriptions (wdb v)) (row_id s) = Some s"
    by (rule schedule_InrE) (simp add: lookup_append_new)
  then have load: "load_subscription (wdb v) (row_id s) = Some (sub_aggregate (wdb v) s)"
    by (simp add: load_subscription_def)
  from subscription_dto_total [OF inv load] obtain dto where "subscription_dto (sub_aggregate (wdb v) s) = Inr dto" by blast
  moreover have p: "lookup (t_products (wdb ?w)) 10 = Some (sample_product 10 True)"
    by (simp add: sample_sub_world_def sample_defs)
  moreover have req: "cs_product_id ?data = 10" "cs_payment_method_id ?data = None" "cs_frequency ?data = MONTHLY"
    by (simp_all add: sample_create_request_def)
  ultimately have run: "create_subscription (Some ?p) 1 ?data ?w = (Inr dto, v)"
    using sched load by (simp add: create_subscription_def bind_def fetch_run require_run sample_product_def
        reload_subscription_def)
  have "now ?w = 0" by (simp add: sample_sub_world_def)
  then show ?thesis
    using create_subscription_effect [OF run fake_quiet.quiet_provider_axioms sample_pending_inv] run
    by (auto simp: req p shows_schedule_def sample_dates sample_product_def)
qed

lemma sample_get_method: "get_method 1 90 (sample_sub_world st x) = (Inr sample_method, sample_sub_world st x)"
  by (simp add: get_method_def require_owned_method_def svc_simps bind_def sample_sub_defs)

lemma sample_charge:
  "\<exists>v. charge_and_activate (fake_provider sample_settings)
      (sub_aggregate (wdb (sample_sub_world SubPENDING EvPENDING)) (sample_subscription SubPENDING)) sample_method
      (sample_sub_world SubPENDING EvPENDING) = (Inr (), v)"
  by (simp add: charge_and_activate_def charge_subscription_upfront_def bind_def fake_charge_run Let_def
      str_uuid_not_fail sub_aggregate_events require_run)
    (simp add: sub_aggregate_def events_of_def sample_sub_defs sample_defs sub_op_defs new_sub_payment_def touch_def
      length_str_uuid fake_provider_def)

lemma pay_charges_once_witness:
  "\<exists>dto w' c. pay_subscription (Some (fake_provider sample_settings)) 70 1 90 (sample_sub_world SubPENDING EvPENDING) = (Inr dto, w') \<and>
     su_status dto = SubACTIVE \<and> provider_log w' = [c] \<and> length (t_sub_payments (wdb w')) = 2"
proof -
  let ?w = "sample_sub_world SubPENDING EvPENDING" and ?p = "fake_provider sample_settings"
  let ?a = "sub_aggregate (wdb ?w) (sample_subscription SubPENDING)"
  obtain v where charge: "charge_and_activate ?p ?a sample_method ?w = (Inr (), v)" using sample_charge by blast
  have load: "load_subscription (wdb ?w) 70 = Some ?a" by (simp add: load_subscription_def sample_lookup)
  have st: "s_status (sa_sub ?a) = SubPENDING" by (simp add: sub_aggregate_events sample_owner)
  have evs: "sa_events ?a \<noteq> []"
    using sub_aggregate_events(1) [of "wdb ?w" "sample_subscription SubPENDING"]
    by (auto simp: events_of_def sample_sub_defs)
  have inv: "subscriptions_inv (wdb v)"
    by (rule fake.charge_activate_keeps [OF charge sample_pending_inv load st])
  from fake_quiet.charge_activate_effect [OF charge sample_pending_inv load st evs]
  obtain res ps where act: "activated ?w 70 ?a sample_method res ps v" by blast
  then have "wdb v = t_subscriptions_update (map (on {70} (set_sub_status (now ?w) SubACTIVE)))
      (t_sub_payments_update (\<lambda>t. t @ ps) (wdb ?w))" by (simp add: activated_def)
  then have "lookup (t_subscriptions (wdb v)) 70 = Some (set_sub_status (now ?w) SubACTIVE (sample_subscription SubPENDING))"
    by (simp add: sample_sub_defs on_def)
  then obtain a' where a': "load_subscription (wdb v) 70 = Some a'" by (simp add: load_subscription_def)
  from subscription_dto_total [OF inv a'] obtain dto where "subscription_dto a' = Inr dto" by blast
  then have run: "pay_subscription (Some ?p) 70 1 90 ?w = (Inr dto, v)"
    using charge a' st by (simp del: One_nat_def add: pay_subscription_def bind_def require_owned_subscription_run sample_lookup sample_owner
        require_run sample_get_method reload_subscription_def fetch_run)
  have some: "events_of (wdb ?w) 70 \<noteq> []" by (simp add: events_of_def sample_sub_defs)
  from pay_charges_once [OF run fake_quiet.quiet_provider_axioms sample_pending_inv some]
  obtain s m res ps where "su_status dto = SubACTIVE"
    "provider_log v = provider_log ?w @ [ChargeCall (upfront_request (sub_aggregate (wdb ?w) s) m) (Inr res)]"
    "t_sub_payments (wdb v) = t_sub_payments (wdb ?w) @ ps"
    "list_all2 (covers_event 1 (cr_txn_id res)) (sort_key se_scheduled_date (events_of (wdb ?w) 70)) ps" by blast
  moreover from this(4) have "length ps = 2"
    by (auto dest!: list_all2_lengthD simp: events_of_def sample_sub_defs)
  ultimately show ?thesis using run by (simp add: sample_sub_world_def sample_world_def)
qed

end
