(* ===== verification/SchedulerProperties.thy ===== *)
theory SchedulerProperties
  imports SubscriptionWitnesses
begin

text \<open>
  What the passes of the daily run leave behind, row by row: the orders, lines and addresses of
  the due deliveries, and the deliveries, snapshots, payments and provider calls of an extension,
  with everything else in the world as it was.
\<close>

section \<open>The rows of an ordered delivery\<close>

type_synonym ordered = "subscription_event \<times> order \<times> order_product \<times> order_delivery_info"

abbreviation ordered_event :: "ordered \<Rightarrow> subscription_event" where
  "ordered_event r \<equiv> fst r"

abbreviation ordered_order :: "ordered \<Rightarrow> order" where
  "ordered_order r \<equiv> fst (snd r)"

abbreviation ordered_line :: "ordered \<Rightarrow> order_product" where
  "ordered_line r \<equiv> fst (snd (snd r))"

abbreviation ordered_address :: "ordered \<Rightarrow> order_delivery_info" where
  "ordered_address r \<equiv> snd (snd (snd r))"

definition order_rows :: "datetime \<Rightarrow> due_event \<Rightarrow> ordered \<Rightarrow> bool" where
  "order_rows t x r \<longleftrightarrow> ordered_event r = due_event x \<and>
     (\<exists>info p i j k. due_delivery x = Some info \<and> due_product x = Some p \<and>
        ordered_order r = new_order (s_user_id (due_sub x)) DELIVERY (se_price (due_event x)) i t \<and>
        ordered_line r = new_line i (snapshot_line p) j t \<and>
        ordered_address r = new_delivery i (saved_address info) k t)"

definition linked :: "datetime \<Rightarrow> ordered list \<Rightarrow> subscription_event \<Rightarrow> subscription_event" where
  "linked t rows e =
     (case map_of (map (\<lambda>r. (row_id (ordered_event r), row_id (ordered_order r))) rows) (row_id e) of
        None \<Rightarrow> e
      | Some i \<Rightarrow> e\<lparr>se_status := EvREADY, se_order_id := Some i, updated_at := t\<rparr>)"

text \<open>The database after the due deliveries \<open>rows\<close> have been ordered, and nothing else.\<close>

definition with_orders :: "datetime \<Rightarrow> ordered list \<Rightarrow> database \<Rightarrow> database" where
  "with_orders t rows d = d
     \<lparr>t_orders := t_orders d @ map ordered_order rows,
      t_order_products := t_order_products d @ map ordered_line rows,
      t_delivery_info := t_delivery_info d @ map ordered_address rows,
      t_events := map (linked t rows) (t_events d)\<rparr>"

lemma linked_nothing: "linked t [] = (\<lambda>e. e)"
  by (rule ext) (simp add: linked_def)

lemma linked_keeps [simp]: "row_id (linked t rows e) = row_id e"
  by (simp add: linked_def split: option.split)

lemma linked_one: "linked t [r] = on {row_id (ordered_event r)} (make_ready t (row_id (ordered_order r)))"
  by (rule ext) (simp add: linked_def on_def make_ready_def)

lemma linked_twice:
  assumes "row_id (ordered_event r) \<notin> set (map (\<lambda>r. row_id (ordered_event r)) rows)"
  shows "linked t rows (linked t [r] e) = linked t (r # rows) e"
proof (cases "row_id e = row_id (ordered_event r)")
  case True
  have "fst ` set (map (\<lambda>r. (row_id (ordered_event r), row_id (ordered_order r))) rows) = set (map (\<lambda>r. row_id (ordered_event r)) rows)"
    by force
  with assms have "map_of (map (\<lambda>r. (row_id (ordered_event r), row_id (ordered_order r))) rows) (row_id e) = None"
    unfolding map_of_eq_None_iff True by simp
  with True show ?thesis by (simp add: linked_def)
qed (simp add: linked_def)

lemma with_orders_nothing: "with_orders t [] d = d"
  by (simp add: with_orders_def linked_nothing)

lemma with_orders_step:
  assumes "row_id (ordered_event r) \<notin> set (map (\<lambda>r. row_id (ordered_event r)) rows)"
  shows "with_orders t rows (with_orders t [r] d) = with_orders t (r # rows) d"
proof -
  have "linked t rows (linked t [r] e) = linked t (r # rows) e" for e using assms by (rule linked_twice)
  then show ?thesis by (simp add: with_orders_def)
qed

text \<open>Appending to a table, as an update of its column.\<close>

lemma appending:
  fixes d :: database
  shows
  "t_orders_update (\<lambda>t. t @ xs1) d = d\<lparr>t_orders := t_orders d @ xs1\<rparr>"
  "t_order_products_update (\<lambda>t. t @ xs2) d = d\<lparr>t_order_products := t_order_products d @ xs2\<rparr>"
  "t_delivery_info_update (\<lambda>t. t @ xs3) d = d\<lparr>t_delivery_info := t_delivery_info d @ xs3\<rparr>"
  "t_events_update (\<lambda>t. t @ xs4) d = d\<lparr>t_events := t_events d @ xs4\<rparr>"
  "t_sub_products_update (\<lambda>t. t @ xs5) d = d\<lparr>t_sub_products := t_sub_products d @ xs5\<rparr>"
  "t_sub_payments_update (\<lambda>t. t @ xs6) d = d\<lparr>t_sub_payments := t_sub_payments d @ xs6\<rparr>"
proof -
  show "t_orders_update (\<lambda>t. t @ xs1) d = d\<lparr>t_orders := t_orders d @ xs1\<rparr>" by (rule orders_rel.upd_cong) (rule refl)
  show "t_order_products_update (\<lambda>t. t @ xs2) d = d\<lparr>t_order_products := t_order_products d @ xs2\<rparr>" by (rule order_products_rel.upd_cong) (rule refl)
  show "t_delivery_info_update (\<lambda>t. t @ xs3) d = d\<lparr>t_delivery_info := t_delivery_info d @ xs3\<rparr>" by (rule delivery_info_rel.upd_cong) (rule refl)
  show "t_events_update (\<lambda>t. t @ xs4) d = d\<lparr>t_events := t_events d @ xs4\<rparr>" by (rule events_rel.upd_cong) (rule refl)
  show "t_sub_products_update (\<lambda>t. t @ xs5) d = d\<lparr>t_sub_products := t_sub_products d @ xs5\<rparr>" by (rule sub_products_rel.upd_cong) (rule refl)
  show "t_sub_payments_update (\<lambda>t. t @ xs6) d = d\<lparr>t_sub_payments := t_sub_payments d @ xs6\<rparr>" by (rule sub_payments_rel.upd_cong) (rule refl)
qed

lemma build_order_world:
  assumes "build_order s e info p w = (Inr ord, v)"
  obtains i j k where "ord = new_order (s_user_id s) DELIVERY (se_price e) i (now w)"
    and "v = w\<lparr>wdb := (wdb w)\<lparr>t_orders := t_orders (wdb w) @ [ord],
        t_order_products := t_order_products (wdb w) @ [new_line i (snapshot_line p) j (now w)],
        t_delivery_info := t_delivery_info (wdb w) @ [new_delivery i (saved_address info) k (now w)]\<rparr>,
      uuid_pos := uuid_pos w + 3\<rparr>"
proof -
  from assms obtain r v1 l v2 a where
    ord: "add_order (new_order (s_user_id s) DELIVERY (se_price e)) w = (Inr r, v1)"
    and line: "add_order_product (new_line (row_id r) (snapshot_line p)) v1 = (Inr l, v2)"
    and addr: "add_delivery_info (new_delivery (row_id r) (saved_address info)) v2 = (Inr a, v)" and r: "r = ord"
    unfolding build_order_def repo_add_def insert_fulfillment_def by (auto elim!: bind_InrE)
  from ord obtain i where i: "r = new_order (s_user_id s) DELIVERY (se_price e) i (now w)"
    "v1 = w\<lparr>wdb := t_orders_update (\<lambda>t. t @ [r]) (wdb w), uuid_pos := Suc (uuid_pos w)\<rparr>"
    by (elim db_add_InrE) simp
  then have "row_id r = i" by (simp add: new_order_def)
  with line i obtain j where j: "l = new_line i (snapshot_line p) j (now w)"
    "v2 = v1\<lparr>wdb := t_order_products_update (\<lambda>t. t @ [l]) (wdb v1), uuid_pos := Suc (uuid_pos v1)\<rparr>"
    by (elim db_add_InrE) simp
  from addr \<open>row_id r = i\<close> i j obtain k where k: "a = new_delivery i (saved_address info) k (now w)"
    "v = v2\<lparr>wdb := t_delivery_info_update (\<lambda>t. t @ [a]) (wdb v2), uuid_pos := Suc (uuid_pos v2)\<rparr>"
    by (elim db_add_InrE) simp
  show thesis
    by (rule that [of i k j]) (use i j k r in \<open>simp_all add: eval_nat_numeral appending\<close>)
qed

lemma order_event_rows:
  assumes run: "order_event (due_sub x) (due_event x) info p w = (Inr u, w')"
    and parts: "due_delivery x = Some info" "due_product x = Some p"
    and e: "due_event x \<in> set (t_events (wdb w))" "distinct (row_ids (t_events (wdb w)))" "se_status (due_event x) = EvPENDING"
  obtains r where "order_rows (now w) x r" and "w' = w\<lparr>wdb := with_orders (now w) [r] (wdb w), uuid_pos := uuid_pos w + 3\<rparr>"
proof -
  from run obtain ord v where ord: "build_order (due_sub x) (due_event x) info p w = (Inr ord, v)"
    and save: "save_event ((due_event x)\<lparr>se_status := EvREADY, se_order_id := Some (row_id ord)\<rparr>) v = (Inr u, w')"
    unfolding order_event_def by (rule bind_InrE)
  from ord obtain i j k where o: "ord = new_order (s_user_id (due_sub x)) DELIVERY (se_price (due_event x)) i (now w)"
    and v: "v = w\<lparr>wdb := (wdb w)\<lparr>t_orders := t_orders (wdb w) @ [ord],
        t_order_products := t_order_products (wdb w) @ [new_line i (snapshot_line p) j (now w)],
        t_delivery_info := t_delivery_info (wdb w) @ [new_delivery i (saved_address info) k (now w)]\<rparr>,
      uuid_pos := uuid_pos w + 3\<rparr>"
    by (rule build_order_world)
  from save have w': "w' = v\<lparr>wdb := t_events_update (map (on {row_id (due_event x)} (make_ready (now v) (row_id ord)))) (wdb v)\<rparr>"
    by (rule save_ready_InrE) (use e in \<open>simp_all add: v\<close>)
  let ?r = "(due_event x, ord, new_line i (snapshot_line p) j (now w), new_delivery i (saved_address info) k (now w))"
  have "order_rows (now w) x ?r" using o parts by (auto simp: order_rows_def)
  moreover have "w' = w\<lparr>wdb := with_orders (now w) [?r] (wdb w), uuid_pos := uuid_pos w + 3\<rparr>"
    by (simp add: w' v with_orders_def linked_one)
  ultimately show thesis by (rule that)
qed

lemma process_due_rows:
  assumes "process_due xs w = (Inr n, w')" and "distinct (due_ids xs)"
    and "\<forall>x \<in> set xs. due_event x \<in> set (t_events (wdb w)) \<and> se_status (due_event x) = EvPENDING"
    and "distinct (row_ids (t_events (wdb w)))"
  shows "\<exists>rows. n = length rows \<and> list_all2 (order_rows (now w)) (filter deliverable xs) rows \<and>
    w' = w\<lparr>wdb := with_orders (now w) rows (wdb w), uuid_pos := uuid_pos w + 3 * n\<rparr>"
  using assms
proof (induction xs arbitrary: w n)
  case Nil
  then show ?case by (auto simp: with_orders_nothing)
next
  case (Cons x xs)
  show ?case
  proof (cases "deliverable x")
    case False
    then have "process_due xs w = (Inr n, w')"
      using Cons.prems(1) by (auto simp: deliverable_def split: option.splits)
    then show ?thesis using Cons.IH [of w n] Cons.prems False by simp
  next
    case True
    then obtain info p where parts: "due_delivery x = Some info" "due_product x = Some p"
      by (auto simp: deliverable_def)
    from Cons.prems(1) obtain u v m where run: "order_event (due_sub x) (due_event x) info p w = (Inr u, v)"
      and rest: "process_due xs v = (Inr m, w')" and n: "n = Suc m"
      by (auto simp: parts elim!: bind_InrE)
    obtain r where r: "order_rows (now w) x r"
      and v: "v = w\<lparr>wdb := with_orders (now w) [r] (wdb w), uuid_pos := uuid_pos w + 3\<rparr>"
      by (rule order_event_rows [OF run parts]) (use Cons.prems in auto)
    have e: "ordered_event r = due_event x" using r by (simp add: order_rows_def)
    have "due_event y \<in> set (t_events (wdb v)) \<and> se_status (due_event y) = EvPENDING" if y: "y \<in> set xs" for y
    proof -
      have "row_id (due_event y) \<in> set (due_ids xs)" using y by simp
      then have "row_id (due_event y) \<noteq> row_id (due_event x)" using Cons.prems(2) by auto
      then have "linked (now w) [r] (due_event y) = due_event y" by (simp add: linked_one e on_def)
      moreover have "due_event y \<in> set (t_events (wdb w))" "se_status (due_event y) = EvPENDING"
        using Cons.prems(3) y by simp_all
      ultimately show ?thesis by (simp add: v with_orders_def) (metis image_eqI)
    qed
    moreover have "distinct (row_ids (t_events (wdb v)))"
      using Cons.prems(4) by (simp add: v with_orders_def row_ids_def o_def)
    ultimately obtain rows where rows: "m = length rows" "list_all2 (order_rows (now v)) (filter deliverable xs) rows"
      "w' = v\<lparr>wdb := with_orders (now v) rows (wdb v), uuid_pos := uuid_pos v + 3 * m\<rparr>"
      using Cons.IH [OF rest] Cons.prems(2) by auto
    have "map (\<lambda>r. row_id (ordered_event r)) rows = due_ids (filter deliverable xs)"
      using rows(2) by (induction rule: list_all2_induct) (simp_all add: order_rows_def)
    then have "row_id (ordered_event r) \<notin> set (map (\<lambda>r. row_id (ordered_event r)) rows)"
      using Cons.prems(2) by (auto simp: e)
    from with_orders_step [OF this] have "w' = w\<lparr>wdb := with_orders (now w) (r # rows) (wdb w), uuid_pos := uuid_pos w + 3 * n\<rparr>"
      by (simp add: rows(3) v n)
    then show ?thesis using True r rows(1,2) n by (intro exI [of _ "r # rows"]) (simp add: v)
  qed
qed

section \<open>Due deliveries become orders\<close>

text \<open>
  The order of a delivery \<open>e\<close>: placed for the subscriber and paid by nobody yet, with one line, the
  product recorded with the delivery at the price recorded with it, and an address that repeats
  the one saved for the subscription.
\<close>

definition delivered_as :: "database \<Rightarrow> datetime \<Rightarrow> ordered \<Rightarrow> bool" where
  "delivered_as d t r \<longleftrightarrow> (case r of (e, ord, l, a) \<Rightarrow>
     \<exists>s x p. s \<in> set (t_subscriptions d) \<and> row_id s = se_subscription_id e \<and>
       x \<in> set (t_sub_delivery d) \<and> sdi_subscription_id x = se_subscription_id e \<and>
       p \<in> set (t_sub_products d) \<and> sp_event_id p = row_id e \<and>
       ord = \<lparr>row_id = row_id ord, created_at = t, updated_at = t, o_user_id = s_user_id s, o_type = DELIVERY,
         o_total_price = se_price e, o_currency = ''EUR'', o_status = CREATED, o_notes = None\<rparr> \<and>
       l = \<lparr>row_id = row_id l, created_at = t, updated_at = t, op_order_id = row_id ord,
         op_product_id = sp_product_id p, op_product_name = sp_product_name p, op_product_price = se_price e,
         op_quantity = 1, op_grind = None\<rparr> \<and>
       a = \<lparr>row_id = row_id a, created_at = t, updated_at = t, odi_order_id = row_id ord,
         odi_recipient_name = sdi_recipient_name x, odi_phone = sdi_phone x, odi_address = sdi_address x,
         odi_city = sdi_city x, odi_postal_code = sdi_postal_code x, odi_notes = sdi_notes x,
         odi_shipped_at = None, odi_delivered_at = None\<rparr>)"

lemma order_rows_delivered:
  assumes inv: "subscriptions_inv d" and e: "e \<in> set (t_events d)" "is_due c d e"
    and r: "order_rows t (load_due d e) r"
  shows "delivered_as d t r"
proof -
  obtain e' ord l a where rr: "r = (e', ord, l, a)" by (cases r)
  from e(2) obtain s where s: "lookup (t_subscriptions d) (se_subscription_id e) = Some s"
    by (auto simp: is_due_def split: option.splits)
  from r obtain x p i j k where parts: "sub_delivery d (se_subscription_id e) = Some x" "event_product d (row_id e) = Some p"
    and rows: "e' = e" "ord = new_order (s_user_id s) DELIVERY (se_price e) i t" "l = new_line i (snapshot_line p) j t"
      "a = new_delivery i (saved_address x) k t"
    by (auto simp: order_rows_def load_due_def rr s)
  have "sp_product_price p = se_price e"
    using subscriptions_invD(6) [OF inv e(1)] parts(2) by (simp add: event_sound_def)
  moreover have "x \<in> set (t_sub_delivery d)" "sdi_subscription_id x = se_subscription_id e"
    using parts(1) by (auto simp: sub_delivery_def find_Some_iff)
  moreover have "p \<in> set (t_sub_products d)" "sp_event_id p = row_id e"
    using parts(2) by (auto simp: event_product_def find_Some_iff)
  moreover have "s \<in> set (t_subscriptions d)" "row_id s = se_subscription_id e" using s by (auto dest: lookup_SomeD)
  ultimately show ?thesis
    unfolding delivered_as_def rr rows(1) prod.case
    by (intro exI [of _ s] exI [of _ x] exI [of _ p])
      (simp add: rows(2-4) new_order_def new_line_def new_delivery_def snapshot_line_def saved_address_def)
qed

lemma list_all2_right: "list_all2 P xs ys \<Longrightarrow> y \<in> set ys \<Longrightarrow> \<exists>x \<in> set xs. P x y"
  by (induction rule: list_all2_induct) auto

lemma ordered_events:
  assumes "list_all2 (order_rows t) (filter deliverable (due_events c d)) rows"
  shows "map ordered_event rows =
    filter (\<lambda>e. deliverable (load_due d e)) (sort_key se_scheduled_date (filter (is_due c d) (t_events d)))"
proof -
  have "map ordered_event rows = map due_event (filter deliverable (due_events c d))"
    using assms by (induction rule: list_all2_induct) (simp_all add: order_rows_def)
  then show ?thesis by (simp add: due_events_def filter_map o_def load_due_def)
qed

lemma deliverable_iff:
  assumes inv: "subscriptions_inv d" and e: "e \<in> set (t_events d)"
  shows "deliverable (load_due d e) \<longleftrightarrow> (\<exists>x \<in> set (t_sub_delivery d). sdi_subscription_id x = se_subscription_id e)"
proof -
  have "event_product d (row_id e) \<noteq> None"
    using subscriptions_invD(6) [OF inv e] by (auto simp: event_sound_def split: option.splits)
  moreover have "sub_delivery d (se_subscription_id e) \<noteq> None \<longleftrightarrow>
      (\<exists>x \<in> set (t_sub_delivery d). sdi_subscription_id x = se_subscription_id e)"
    by (auto simp: sub_delivery_def find_None_iff)
  ultimately show ?thesis by (simp add: deliverable_def load_due_def)
qed

lemma is_due_iff:
  assumes "subscriptions_inv d"
  shows "is_due c d e \<longleftrightarrow> se_status e = EvPENDING \<and> se_order_id e = None \<and> se_scheduled_date e \<le> c \<and>
    (\<exists>s \<in> set (t_subscriptions d). row_id s = se_subscription_id e \<and> s_status s = SubACTIVE)"
proof -
  have "(\<exists>s \<in> set (t_subscriptions d). row_id s = se_subscription_id e \<and> s_status s = SubACTIVE) \<longleftrightarrow>
      (\<exists>s. lookup (t_subscriptions d) (se_subscription_id e) = Some s \<and> s_status s = SubACTIVE)"
    using lookup_unique [OF subscriptions_invD(1) [OF assms]] by (metis lookup_SomeD)
  then show ?thesis by (auto simp: is_due_def split: option.splits)
qed

text \<open>
  C11: The scheduler turns every pending delivery that is due by the given day, or by today, that
  has no order and whose subscription is active and has a saved address, into exactly one order of
  the subscriber, in the order of the dates; it marks the delivery ready with that order. Nothing
  else changes: no other row of any table, no provider call, no audit record.
\<close>

theorem due_events_become_orders:
  assumes run: "process_due_events today w = (Inr n, w')" and inv: "orders_ok (wdb w)" "subscriptions_inv (wdb w)"
  shows "\<exists>rows :: ordered list. n = length rows \<and> distinct (map ordered_event rows) \<and>
    sorted (map (\<lambda>r. se_scheduled_date (ordered_event r)) rows) \<and>
    set (map ordered_event rows) = {e \<in> set (t_events (wdb w)). se_status e = EvPENDING \<and> se_order_id e = None \<and>
      se_scheduled_date e \<le> (case today of Some day_due \<Rightarrow> day_due | None \<Rightarrow> date_of (now w)) \<and>
      (\<exists>s \<in> set (t_subscriptions (wdb w)). row_id s = se_subscription_id e \<and> s_status s = SubACTIVE) \<and>
      (\<exists>x \<in> set (t_sub_delivery (wdb w)). sdi_subscription_id x = se_subscription_id e)} \<and>
    list_all (delivered_as (wdb w) (now w)) rows \<and> distinct (row_ids (t_orders (wdb w'))) \<and>
    w' = w\<lparr>uuid_pos := uuid_pos w + 3 * n,
      wdb := (wdb w)\<lparr>t_orders := t_orders (wdb w) @ map ordered_order rows,
        t_order_products := t_order_products (wdb w) @ map ordered_line rows,
        t_delivery_info := t_delivery_info (wdb w) @ map ordered_address rows,
        t_events := map (\<lambda>e. case map_of (map (\<lambda>r. (row_id (ordered_event r), row_id (ordered_order r))) rows) (row_id e) of
            None \<Rightarrow> e
          | Some i \<Rightarrow> e\<lparr>se_status := EvREADY, se_order_id := Some i, updated_at := now w\<rparr>) (t_events (wdb w))\<rparr>\<rparr>"
proof -
  let ?c = "cutoff_date today (now w)" and ?d = "wdb w"
  have "process_due (due_events ?c ?d) w = (Inr n, w')"
    using run by (simp add: process_due_events_def bind_gets)
  then obtain rows where n: "n = length rows" and rows: "list_all2 (order_rows (now w)) (filter deliverable (due_events ?c ?d)) rows"
    and w': "w' = w\<lparr>wdb := with_orders (now w) rows ?d, uuid_pos := uuid_pos w + 3 * n\<rparr>"
    using process_due_rows [of "due_events ?c ?d" w n w'] due_events_waiting [OF inv(2), of ?c] subscriptions_invD(2) [OF inv(2)]
    by (auto simp: waiting_def)
  note evs = ordered_events [OF rows]
  have "distinct (t_events ?d)" using subscriptions_invD(2) [OF inv(2)] by (simp add: row_ids_def distinct_map)
  then have dist: "distinct (map ordered_event rows)" unfolding evs by simp
  have "sorted (map se_scheduled_date (map ordered_event rows))" unfolding evs by (rule sorted_filter) simp
  then have sorted: "sorted (map (\<lambda>r. se_scheduled_date (ordered_event r)) rows)" by (simp add: o_def)
  have which: "set (map ordered_event rows) = {e \<in> set (t_events ?d). se_status e = EvPENDING \<and> se_order_id e = None \<and>
      se_scheduled_date e \<le> (case today of Some day_due \<Rightarrow> day_due | None \<Rightarrow> date_of (now w)) \<and>
      (\<exists>s \<in> set (t_subscriptions ?d). row_id s = se_subscription_id e \<and> s_status s = SubACTIVE) \<and>
      (\<exists>x \<in> set (t_sub_delivery ?d). sdi_subscription_id x = se_subscription_id e)}"
    unfolding evs using deliverable_iff [OF inv(2)] by (auto simp: is_due_iff [OF inv(2)] cutoff_date_def)
  have "list_all (delivered_as ?d (now w)) rows"
  proof (unfold list_all_iff, rule ballI)
    fix r
    assume "r \<in> set rows"
    from list_all2_right [OF rows this] obtain x where "x \<in> set (due_events ?c ?d)" and r: "order_rows (now w) x r" by auto
    then obtain e where e: "e \<in> set (t_events ?d)" "is_due ?c ?d e" "x = load_due ?d e" by (auto simp: due_events_def)
    show "delivered_as ?d (now w) r" by (rule order_rows_delivered [OF inv(2) e(1,2) r [unfolded e(3)]])
  qed
  moreover have "distinct (row_ids (t_orders (wdb w')))"
    using process_due_events_effect [OF run inv] by (auto simp: processed_def orders_ok_def orders_inv_def)
  moreover have "w' = w\<lparr>uuid_pos := uuid_pos w + 3 * n, wdb := with_orders (now w) rows ?d\<rparr>"
    by (simp add: w')
  note world = this [unfolded with_orders_def linked_def [abs_def]]
  ultimately show ?thesis
    by (intro exI [of _ rows] conjI) (rule n dist sorted which world; assumption?)+
qed

section \<open>The rows of an extension\<close>

type_synonym appended = "subscription_event \<times> subscription_product \<times> (subscription_payment \<times> provider_call) list"

abbreviation appended_event :: "appended \<Rightarrow> subscription_event" where
  "appended_event r \<equiv> fst r"

abbreviation appended_snapshot :: "appended \<Rightarrow> subscription_product" where
  "appended_snapshot r \<equiv> fst (snd r)"

abbreviation appended_charges :: "appended \<Rightarrow> (subscription_payment \<times> provider_call) list" where
  "appended_charges r \<equiv> snd (snd r)"

text \<open>
  A delivery of the product \<open>p\<close> added to the subscription \<open>s\<close> for a day: pending, at the price of
  the product now, with a snapshot of the product; and when there is a provider, its charge without
  a method, in the name of the subscriber, with a payment that records how it went.
\<close>

definition charge_of :: "subscription \<Rightarrow> subscription_event \<Rightarrow> money \<Rightarrow> charge_request" where
  "charge_of s e price = \<lparr>ch_amount = price, ch_currency = ''EUR'',
     ch_reference = str_uuid (row_id s) @ '':'' @ str_uuid (row_id e),
     ch_customer_id = Some (str_uuid (s_user_id s)), ch_method_token = None\<rparr>"

definition payment_of ::
  "payment_provider \<Rightarrow> datetime \<Rightarrow> subscription \<Rightarrow> subscription_event \<Rightarrow> money \<Rightarrow> charge_result \<Rightarrow> uuid \<Rightarrow> subscription_payment" where
  "payment_of prov t s e price res i = \<lparr>row_id = i, created_at = t, updated_at = t, spay_event_id = row_id e,
     spay_user_id = s_user_id s, spay_amount = price, spay_method = ''card'', spay_provider = pv_name prov,
     spay_txn_id = Some (cr_txn_id res),
     spay_status = (if cr_status res = ''completed'' then PayCOMPLETED else PayFAILED),
     spay_completed_at = (if cr_status res = ''completed'' then Some t else None)\<rparr>"

definition appended_as :: "payment_provider option \<Rightarrow> datetime \<Rightarrow> subscription \<Rightarrow> product \<Rightarrow> date \<Rightarrow> appended \<Rightarrow> bool" where
  "appended_as provider t s p day_due r \<longleftrightarrow> (case r of (e, q, cs) \<Rightarrow>
     e = \<lparr>row_id = row_id e, created_at = t, updated_at = t, se_subscription_id = row_id s, se_order_id = None,
       se_scheduled_date = day_due, se_price = p_price p, se_currency = ''EUR'', se_status = EvPENDING\<rparr> \<and>
     q = \<lparr>row_id = row_id q, created_at = t, updated_at = t, sp_event_id = row_id e, sp_product_id = row_id p,
       sp_product_name = p_name p, sp_product_price = p_price p\<rparr> \<and>
     (case provider of
        None \<Rightarrow> cs = []
      | Some prov \<Rightarrow> \<exists>res i. cs = [(payment_of prov t s e (p_price p) res i, ChargeCall (charge_of s e (p_price p)) (Inr res))]))"

definition appends :: "appended list \<Rightarrow> world \<Rightarrow> world \<Rightarrow> bool" where
  "appends rows w w' \<longleftrightarrow> now w' = now w \<and>
     wdb w' = (wdb w)\<lparr>t_events := t_events (wdb w) @ map appended_event rows,
       t_sub_products := t_sub_products (wdb w) @ map appended_snapshot rows,
       t_sub_payments := t_sub_payments (wdb w) @ map fst (concat (map appended_charges rows))\<rparr> \<and>
     provider_log w' = provider_log w @ map snd (concat (map appended_charges rows))"

lemma appends_nothing: "appends [] w w"
  by (simp add: appends_def)

lemma appends_trans: "appends rows w v \<Longrightarrow> appends later v w' \<Longrightarrow> appends (rows @ later) w w'"
  by (simp add: appends_def)

lemma appends_products: "appends rows w w' \<Longrightarrow> t_products (wdb w') = t_products (wdb w)"
  by (simp add: appends_def)

context quiet_provider
begin

lemma charge_off_session_row:
  assumes run: "charge_event_off_session prov s e w = (Inr pay, w')"
  obtains res i where "pay = payment_of prov (now w) s e (se_price e) res i" and "now w' = now w"
    and "wdb w' = t_sub_payments_update (\<lambda>t. t @ [pay]) (wdb w)"
    and "provider_log w' = provider_log w @ [ChargeCall (charge_of s e (se_price e)) (Inr res)]"
proof -
  from run obtain res v where call: "create_charge prov (charge_of s e (se_price e)) w = (Inr res, v)"
    and rest: "bind (gets now) (\<lambda>t.
        if cr_status res = ''completed''
        then add_sub_payment (new_sub_payment (s_user_id s) (pv_name prov) (cr_txn_id res) PayCOMPLETED (Some t) e)
        else add_sub_payment (new_sub_payment (s_user_id s) (pv_name prov) (cr_txn_id res) PayFAILED None e)) v = (Inr pay, w')"
    unfolding charge_event_off_session_def charge_of_def [symmetric] by (rule bind_InrE)
  have v: "wdb v = wdb w" "now v = now w" "provider_log v = provider_log w @ [ChargeCall (charge_of s e (se_price e)) (Inr res)]"
    using provider_same(1) [OF call] charge_logged [OF call] by auto
  have "\<exists>i. pay = payment_of prov (now w) s e (se_price e) res i \<and>
      w' = v\<lparr>wdb := t_sub_payments_update (\<lambda>t. t @ [pay]) (wdb v), uuid_pos := Suc (uuid_pos v)\<rparr>"
  proof (cases "cr_status res = ''completed''")
    case True
    with rest have "add_sub_payment (new_sub_payment (s_user_id s) (pv_name prov) (cr_txn_id res) PayCOMPLETED (Some (now w)) e) v =
        (Inr pay, w')" by (simp add: bind_gets v)
    then show ?thesis by (elim db_add_InrE) (simp add: payment_of_def new_sub_payment_def True v)
  next
    case False
    with rest have "add_sub_payment (new_sub_payment (s_user_id s) (pv_name prov) (cr_txn_id res) PayFAILED None e) v = (Inr pay, w')"
      by (simp add: bind_gets v)
    then show ?thesis by (elim db_add_InrE) (simp add: payment_of_def new_sub_payment_def False v)
  qed
  then show thesis using v by (elim exE conjE) (rule that, simp_all)
qed

end

lemma append_event_row:
  assumes run: "append_event provider s p day_due w = (Inr u, w')"
    and prov: "pred_option quiet_provider provider"
  obtains r where "appended_as provider (now w) s p day_due r" and "appends [r] w w'"
proof -
  from run obtain e v q x where e: "add_event (new_event (row_id s) (p_price p) day_due) w = (Inr e, v)"
    and q: "add_sub_product (new_sub_product p e) v = (Inr q, x)"
    and c: "(case provider of None \<Rightarrow> ret () | Some prov \<Rightarrow> bind (charge_event_off_session prov s e) (\<lambda>_. ret ())) x = (Inr u, w')"
    unfolding append_event_def by (elim bind_InrE)
  from e obtain i where e': "e = new_event (row_id s) (p_price p) day_due i (now w)"
      "v = w\<lparr>wdb := t_events_update (\<lambda>t. t @ [e]) (wdb w), uuid_pos := Suc (uuid_pos w)\<rparr>"
    by (elim db_add_InrE) simp
  from q e' obtain j where q': "q = new_sub_product p e j (now w)"
      "x = v\<lparr>wdb := t_sub_products_update (\<lambda>t. t @ [q]) (wdb v), uuid_pos := Suc (uuid_pos v)\<rparr>"
    by (elim db_add_InrE) simp
  have price: "se_price e = p_price p" by (simp add: e'(1) new_event_def)
  show thesis
  proof (cases provider)
    case None
    with c have "w' = x" by simp
    then have "appends [(e, q, [])] w w'" by (simp add: appends_def q'(2) e'(2) appending)
    moreover have "appended_as provider (now w) s p day_due (e, q, [])"
      using None by (simp add: appended_as_def e'(1) q'(1) new_event_def new_sub_product_def)
    ultimately show thesis by (intro that)
  next
    case (Some pv)
    with c obtain pay where pay: "charge_event_off_session pv s e x = (Inr pay, w')" by (auto elim!: bind_InrE)
    have "quiet_provider pv" using prov Some by simp
    from quiet_provider.charge_off_session_row [OF this pay] obtain res k where
      r: "pay = payment_of pv (now x) s e (p_price p) res k" "now w' = now x"
        "wdb w' = t_sub_payments_update (\<lambda>t. t @ [pay]) (wdb x)"
        "provider_log w' = provider_log x @ [ChargeCall (charge_of s e (p_price p)) (Inr res)]"
      unfolding price by blast
    let ?r = "(e, q, [(pay, ChargeCall (charge_of s e (p_price p)) (Inr res))])"
    have "appends [?r] w w'" using r by (simp add: appends_def q'(2) e'(2) appending)
    moreover have "now x = now w" by (simp add: q'(2) e'(2))
    then have "appended_as provider (now w) s p day_due ?r"
      using Some r(1) by (auto simp: appended_as_def e'(1) q'(1) new_event_def new_sub_product_def)
    ultimately show thesis by (intro that)
  qed
qed

lemma append_events_rows:
  assumes "forM (append_event provider s p) dates w = (Inr us, w')" and prov: "pred_option quiet_provider provider"
  shows "\<exists>rows. list_all2 (appended_as provider (now w) s p) dates rows \<and> appends rows w w'"
  using assms(1)
proof (induction dates arbitrary: w us)
  case Nil
  then show ?case by (auto intro: appends_nothing)
next
  case (Cons day_due dates)
  from Cons.prems obtain u v vs where one: "append_event provider s p day_due w = (Inr u, v)"
    and rest: "forM (append_event provider s p) dates v = (Inr vs, w')"
    by (auto elim!: bind_InrE)
  from one prov obtain r where r: "appended_as provider (now w) s p day_due r" "appends [r] w v" by (rule append_event_row)
  from Cons.IH [OF rest] obtain rows where "list_all2 (appended_as provider (now v) s p) dates rows" "appends rows v w'" by blast
  moreover have "now v = now w" using r(2) by (simp add: appends_def)
  ultimately show ?case using r appends_trans [OF r(2)] by (intro exI [of _ "r # rows"]) auto
qed

text \<open>The subscriptions that the loop extends, and what it adds to each of them.\<close>

type_synonym extension = "subscription \<times> date \<times> product \<times> appended list"

abbreviation extension_key :: "extension \<Rightarrow> subscription \<times> date \<times> product" where
  "extension_key x \<equiv> (case x of (s, l, p, rows) \<Rightarrow> (s, l, p))"

abbreviation extension_added :: "extension \<Rightarrow> appended list" where
  "extension_added x \<equiv> snd (snd (snd x))"

definition extension_product :: "database \<Rightarrow> subscription_aggregate \<Rightarrow> product option" where
  "extension_product d a =
     (if sa_events a = [] then None
      else case snd (last (sa_events a)) of
        None \<Rightarrow> None
      | Some lp \<Rightarrow> (case lookup (t_products d) (sp_product_id lp) of
          None \<Rightarrow> None | Some p \<Rightarrow> if p_is_active p then Some p else None))"

definition extended_keys ::
  "database \<Rightarrow> (subscription_aggregate \<times> date) list \<Rightarrow> (subscription \<times> date \<times> product) list" where
  "extended_keys d rows = map (\<lambda>(a, l). (sa_sub a, l, the (extension_product d a)))
     (filter (\<lambda>(a, l). extension_product d a \<noteq> None) rows)"

definition extended_as :: "payment_provider option \<Rightarrow> datetime \<Rightarrow> extension \<Rightarrow> bool" where
  "extended_as provider t x \<longleftrightarrow> (case x of (s, l, p, rows) \<Rightarrow>
     list_all2 (appended_as provider t s p) (next_dates_after l (s_frequency s)) rows)"

lemma extend_subscription_rows:
  assumes run: "extend_subscription provider a l w = (Inr b, w')" and prov: "pred_option quiet_provider provider"
  shows "\<exists>exts. map extension_key exts = extended_keys (wdb w) [(a, l)] \<and> list_all (extended_as provider (now w)) exts \<and>
    length exts = (if b then 1 else 0) \<and> appends (concat (map extension_added exts)) w w'"
proof (cases "extension_product (wdb w) a")
  case None
  then have "\<not> b \<and> w' = w"
    using run by (auto simp: extension_product_def extend_subscription_def split: if_splits option.splits)
  with None show ?thesis by (simp add: extended_keys_def appends_nothing)
next
  case (Some p)
  with run obtain us where "forM (append_event provider (sa_sub a) p) (next_dates_after l (s_frequency (sa_sub a))) w = (Inr us, w')"
    and b: b
    by (auto simp: extension_product_def extend_subscription_def split: if_splits option.splits elim!: bind_InrE)
  from append_events_rows [OF this(1) prov] obtain rows where
    "list_all2 (appended_as provider (now w) (sa_sub a) p) (next_dates_after l (s_frequency (sa_sub a))) rows" "appends rows w w'"
    by blast
  with Some b show ?thesis
    by (intro exI [of _ "[(sa_sub a, l, p, rows)]"]) (simp add: extended_keys_def extended_as_def)
qed

lemma extended_keys_append: "extended_keys d (xs @ ys) = extended_keys d xs @ extended_keys d ys"
  by (simp add: extended_keys_def)

lemma extended_keys_products:
  assumes "t_products d' = t_products d"
  shows "extended_keys d' = extended_keys d"
proof -
  have "extension_product d' = extension_product d" by (rule ext) (simp only: extension_product_def assms)
  then show ?thesis by (intro ext) (simp only: extended_keys_def)
qed

lemma extend_rows_rows:
  assumes "extend_rows provider xs w = (Inr n, w')" and prov: "pred_option quiet_provider provider"
  shows "\<exists>exts. n = length exts \<and> map extension_key exts = extended_keys (wdb w) xs \<and>
    list_all (extended_as provider (now w)) exts \<and> appends (concat (map extension_added exts)) w w'"
  using assms(1)
proof (induction xs arbitrary: w n)
  case Nil
  then show ?case by (simp add: extended_keys_def appends_nothing)
next
  case (Cons x xs)
  obtain a l where x: "x = (a, l)" by (cases x)
  from Cons.prems obtain b v k where one: "extend_subscription provider a l w = (Inr b, v)"
    and rest: "extend_rows provider xs v = (Inr k, w')" and n: "n = (if b then Suc k else k)"
    by (auto simp: x elim!: bind_InrE)
  from extend_subscription_rows [OF one prov] obtain exts where e: "map extension_key exts = extended_keys (wdb w) [(a, l)]"
    "list_all (extended_as provider (now w)) exts" "length exts = (if b then 1 else 0)"
    "appends (concat (map extension_added exts)) w v" by blast
  have v: "now v = now w" using e(4) unfolding appends_def by (rule conjunct1)
  note keys = extended_keys_products [OF appends_products [OF e(4)]]
  from Cons.IH [OF rest] obtain later where m: "k = length later" "map extension_key later = extended_keys (wdb w) xs"
    "list_all (extended_as provider (now w)) later" "appends (concat (map extension_added later)) v w'"
    unfolding v keys by (elim exE conjE)
  have "map extension_key (exts @ later) = extended_keys (wdb w) (x # xs)"
    using e(1) m(2) extended_keys_append [of "wdb w" "[(a, l)]" xs] by (simp add: x)
  then show ?case
    using e(2,3) m(1,3) n appends_trans [OF e(4) m(4)] by (intro exI [of _ "exts @ later"]) simp
qed

section \<open>Which subscriptions are extended\<close>

text \<open>The last delivery of a subscription: no other one of it is later.\<close>

definition last_delivery :: "database \<Rightarrow> subscription \<Rightarrow> subscription_event \<Rightarrow> bool" where
  "last_delivery d s e \<longleftrightarrow> e \<in> set (t_events d) \<and> se_subscription_id e = row_id s \<and>
     (\<forall>f \<in> set (t_events d). se_subscription_id f = row_id s \<longrightarrow> se_scheduled_date f \<le> se_scheduled_date e)"

lemma last_delivery_unique:
  assumes "subscriptions_inv d" and "last_delivery d s e" and "last_delivery d s f"
  shows "f = e"
proof -
  have "slot f = slot e" using assms(2,3) by (auto simp: last_delivery_def intro: order_antisym)
  moreover have "inj_on slot (set (t_events d))" using subscriptions_invD(9) [OF assms(1)] by (simp add: distinct_map)
  ultimately show ?thesis using assms(2,3) unfolding last_delivery_def by (elim inj_onD) simp_all
qed

lemma sorted_le_last: "sorted xs \<Longrightarrow> x \<in> set xs \<Longrightarrow> x \<le> last xs"
  by (induction xs) auto

lemma last_sorted:
  assumes "xs \<noteq> []"
  shows "last (sort_key f xs) \<in> set xs" and "y \<in> set xs \<Longrightarrow> f y \<le> f (last (sort_key f xs))"
proof -
  have ne: "sort_key f xs \<noteq> []" using assms by (metis set_empty set_sort)
  then show "last (sort_key f xs) \<in> set xs" using last_in_set [OF ne] by simp
  assume "y \<in> set xs"
  then have "f y \<in> set (map f (sort_key f xs))" by simp
  from sorted_le_last [OF _ this] show "f y \<le> f (last (sort_key f xs))"
    using ne by (simp add: last_map)
qed

lemma last_of_schedule:
  assumes "events_of d (row_id s) \<noteq> []"
  shows "last_delivery d s (last (sort_key se_scheduled_date (events_of d (row_id s))))"
  using last_sorted [OF assms, where f = se_scheduled_date] by (auto simp: last_delivery_def events_of_def)

lemma last_delivery_scheduled: "last_delivery d s e \<Longrightarrow> events_of d (row_id s) \<noteq> []"
  by (auto simp: last_delivery_def events_of_def filter_empty_conv)

lemma last_date_iff: "last_date d (row_id s) = Some l \<longleftrightarrow> (\<exists>e. last_delivery d s e \<and> se_scheduled_date e = l)"
proof (cases "events_of d (row_id s)")
  case Nil
  then show ?thesis using last_delivery_scheduled by (auto simp: last_date_def)
next
  case (Cons x xs)
  let ?es = "events_of d (row_id s)"
  have some: "last_date d (row_id s) = Some (Max (set (map se_scheduled_date ?es)))"
    by (simp add: last_date_def Cons Max.set_eq_fold [symmetric] del: list.set(2))
  have "Max (set (map se_scheduled_date ?es)) = l \<longleftrightarrow> (\<exists>e \<in> set ?es. se_scheduled_date e = l) \<and> (\<forall>f \<in> set ?es. se_scheduled_date f \<le> l)"
    by (subst Max_eq_iff) (auto simp: Cons)
  also have "\<dots> \<longleftrightarrow> (\<exists>e. last_delivery d s e \<and> se_scheduled_date e = l)"
    by (auto simp: last_delivery_def events_of_def)
  finally show ?thesis by (simp add: some)
qed

lemma extension_product_iff:
  assumes inv: "subscriptions_inv d" and e: "last_delivery d s e"
  shows "extension_product d (sub_aggregate d s) = Some p \<longleftrightarrow>
    (\<exists>q. event_product d (row_id e) = Some q \<and> lookup (t_products d) (sp_product_id q) = Some p \<and> p_is_active p)"
proof -
  let ?es = "sort_key se_scheduled_date (events_of d (row_id s))"
  note ne = last_delivery_scheduled [OF e]
  then have ne': "?es \<noteq> []" by (metis set_empty set_sort)
  have "last ?es = e" by (rule last_delivery_unique [OF inv e last_of_schedule [OF ne]])
  then have "sa_events (sub_aggregate d s) \<noteq> []" "snd (last (sa_events (sub_aggregate d s))) = event_product d (row_id e)"
    using ne' by (simp_all add: sub_aggregate_def last_map)
  then show ?thesis by (auto simp: extension_product_def split: option.splits)
qed

lemma extended_keys_map:
  "extended_keys d (extension_rows c d) =
     map (\<lambda>s. (s, the (last_date d (row_id s)), the (extension_product d (sub_aggregate d s))))
       (filter (\<lambda>s. extension_product d (sub_aggregate d s) \<noteq> None) (filter (running_out c d) (t_subscriptions d)))"
  by (simp add: extended_keys_def extension_rows_def filter_map o_def sub_aggregate_events)

lemma extended_keys_rows:
  assumes inv: "subscriptions_inv d"
  shows "set (extended_keys d (extension_rows c d)) = {(s, l, p). s \<in> set (t_subscriptions d) \<and> s_status s = SubACTIVE \<and>
      l \<le> c \<and> (\<exists>e q. last_delivery d s e \<and> se_scheduled_date e = l \<and> event_product d (row_id e) = Some q \<and>
        lookup (t_products d) (sp_product_id q) = Some p \<and> p_is_active p)}" (is "_ = ?K")
    and "distinct (map fst (extended_keys d (extension_rows c d)))"
proof -
  show "set (extended_keys d (extension_rows c d)) = ?K"
  proof (intro set_eqI)
    fix k :: "subscription \<times> date \<times> product"
    obtain s l p where k: "k = (s, l, p)" by (cases k)
    have "k \<in> set (extended_keys d (extension_rows c d)) \<longleftrightarrow> s \<in> set (t_subscriptions d) \<and> running_out c d s \<and>
        last_date d (row_id s) = Some l \<and> extension_product d (sub_aggregate d s) = Some p"
      unfolding extended_keys_map by (auto simp: k running_out_def split: option.splits)
    also have "\<dots> \<longleftrightarrow> s \<in> set (t_subscriptions d) \<and> s_status s = SubACTIVE \<and> l \<le> c \<and>
        (\<exists>e. last_delivery d s e \<and> se_scheduled_date e = l) \<and> extension_product d (sub_aggregate d s) = Some p"
      unfolding last_date_iff [symmetric] by (auto simp: running_out_def)
    also have "\<dots> \<longleftrightarrow> s \<in> set (t_subscriptions d) \<and> s_status s = SubACTIVE \<and> l \<le> c \<and>
        (\<exists>e. last_delivery d s e \<and> se_scheduled_date e = l \<and> extension_product d (sub_aggregate d s) = Some p)"
      by blast
    also have "\<dots> \<longleftrightarrow> k \<in> ?K"
      unfolding k by (simp add: extension_product_iff [OF inv] cong: conj_cong)
    finally show "k \<in> set (extended_keys d (extension_rows c d)) \<longleftrightarrow> k \<in> ?K" .
  qed
  have "distinct (t_subscriptions d)" using subscriptions_invD(1) [OF inv] by (simp add: row_ids_def distinct_map)
  moreover have "map fst (extended_keys d (extension_rows c d)) =
      filter (\<lambda>s. extension_product d (sub_aggregate d s) \<noteq> None) (filter (running_out c d) (t_subscriptions d))"
    by (simp add: extended_keys_map o_def)
  ultimately show "distinct (map fst (extended_keys d (extension_rows c d)))" by simp
qed

text \<open>
  C26: The extension pass picks exactly the active subscriptions whose last delivery is due within
  60 days of the given day, or of today, and whose product, the one recorded with that delivery, is
  still sold. To each it appends one pending delivery for every date of the next horizon of its
  frequency, at the current price, each with its own snapshot of the product and, when there is a
  provider, one charge without a method and the payment that records its outcome. No other row of
  the database changes and the provider gets no other call.
\<close>

theorem extension_appends_next_horizon:
  assumes run: "extend_horizons today provider w = (Inr n, w')" and inv: "subscriptions_inv (wdb w)"
    and prov: "pred_option quiet_provider provider"
  shows "\<exists>exts :: extension list. n = length exts \<and> distinct (map fst exts) \<and>
    set (map (\<lambda>(s, l, p, rows). (s, l, p)) exts) = {(s, l, p). s \<in> set (t_subscriptions (wdb w)) \<and> s_status s = SubACTIVE \<and>
      l \<le> plus_days (case today of Some day_due \<Rightarrow> day_due | None \<Rightarrow> date_of (now w)) 60 \<and>
      (\<exists>e q. last_delivery (wdb w) s e \<and> se_scheduled_date e = l \<and> event_product (wdb w) (row_id e) = Some q \<and>
        lookup (t_products (wdb w)) (sp_product_id q) = Some p \<and> p_is_active p)} \<and>
    list_all (\<lambda>(s, l, p, rows).
      list_all2 (appended_as provider (now w) s p) (next_dates_after l (s_frequency s)) rows) exts \<and>
    (let added = concat (map (\<lambda>(s, l, p, rows). rows) exts); charges = concat (map appended_charges added)
     in wdb w' = (wdb w)\<lparr>t_events := t_events (wdb w) @ map appended_event added,
          t_sub_products := t_sub_products (wdb w) @ map appended_snapshot added,
          t_sub_payments := t_sub_payments (wdb w) @ map fst charges\<rparr> \<and>
        provider_log w' = provider_log w @ map snd charges \<and> now w' = now w)"
proof -
  let ?c = "plus_days (cutoff_date today (now w)) 60"
  have "extend_rows provider (extension_rows ?c (wdb w)) w = (Inr n, w')"
    using run by (simp add: extend_horizons_def bind_gets EXTEND_LOOKAHEAD_DAYS_def)
  from extend_rows_rows [OF this prov] obtain exts where n: "n = length exts"
    and keys: "map extension_key exts = extended_keys (wdb w) (extension_rows ?c (wdb w))"
    and rows: "list_all (extended_as provider (now w)) exts" and app: "appends (concat (map extension_added exts)) w w'"
    by blast
  have "map fst exts = map fst (map extension_key exts)" by (simp add: o_def case_prod_unfold)
  then have dist: "distinct (map fst exts)" unfolding keys by (simp only: extended_keys_rows(2) [OF inv])
  note which = arg_cong [OF keys, of set, unfolded extended_keys_rows(1) [OF inv] cutoff_date_def]
  have added: "map (\<lambda>(s, l, p, rows). rows) exts = map extension_added exts" by (simp add: case_prod_unfold)
  show ?thesis
    by (intro exI [of _ exts] conjI n dist which)
      (use rows app in \<open>simp_all add: extended_as_def [abs_def] appends_def added Let_def\<close>)
qed

section \<open>Witnesses\<close>

lemma due_events_become_orders_witness:
  "\<exists>w' r. process_due_events (Some (Date 1970 2 10)) (sample_sub_world SubACTIVE EvPENDING) = (Inr 1, w') \<and>
     t_orders (wdb w') = t_orders sample_db @ [ordered_order r] \<and>
     delivered_as (wdb (sample_sub_world SubACTIVE EvPENDING)) 0 r"
proof -
  let ?w = "sample_sub_world SubACTIVE EvPENDING"
  obtain w' where run: "process_due_events (Some (Date 1970 2 10)) ?w = (Inr 1, w')" using sample_due_run by blast
  have inv: "subscriptions_inv (wdb ?w)" by (rule sample_sub_inv) (simp add: sample_pairs_def)
  from due_events_become_orders [OF run sample_sub_orders_ok inv] obtain rows where n: "1 = length rows"
    and as: "list_all (delivered_as (wdb ?w) (now ?w)) rows"
    and w': "t_orders (wdb w') = t_orders (wdb ?w) @ map ordered_order rows" by (elim exE conjE) simp
  from n obtain r where "rows = [r]" by (cases rows) auto
  moreover have "now ?w = 0" "t_orders (wdb ?w) = t_orders sample_db" by (simp_all add: sample_sub_world_def)
  ultimately show ?thesis using run as w' by (intro exI [of _ w'] exI [of _ r] conjI) simp_all
qed

text \<open>Extending the schedule: the last delivery is on the day of the run.\<close>

lemma sample_threshold: "Date 1970 3 1 \<le> plus_days (Date 1970 3 1) n"
  by (rule plus_days_ge)

lemma sample_rows:
  "extension_rows (plus_days (Date 1970 3 1) n) (wdb (sample_sub_world SubACTIVE EvREADY)) =
     [(sub_aggregate (wdb (sample_sub_world SubACTIVE EvREADY)) (sample_subscription SubACTIVE), Date 1970 3 1)]"
proof -
  have last: "last_date (wdb (sample_sub_world SubACTIVE EvREADY)) 70 = Some (Date 1970 3 1)"
    by (simp add: last_date_def events_of_def sample_sub_defs max_def)
  have "running_out (plus_days (Date 1970 3 1) n) (wdb (sample_sub_world SubACTIVE EvREADY)) (sample_subscription SubACTIVE)"
    unfolding running_out_def using sample_threshold by (simp add: sample_owner) (simp add: sample_subscription_def last)
  moreover have "t_subscriptions (wdb (sample_sub_world SubACTIVE EvREADY)) = [sample_subscription SubACTIVE]"
    by (simp add: sample_sub_world_def)
  moreover have "row_id (sample_subscription SubACTIVE) = 70" by (simp add: sample_subscription_def)
  ultimately show ?thesis by (simp only: extension_rows_def filter.simps if_True list.map last option.sel)
qed

lemma reference_not_fail: "\<not> starts_with (str_uuid u @ s) ''fail-''"
proof -
  have "take (length ''fail-'') (str_uuid u @ s) = take (length ''fail-'') (str_uuid u)" by (simp add: length_str_uuid)
  then show ?thesis using str_uuid_not_fail [of u] by (simp only: starts_with_def simp_thms)
qed

lemma sample_appends:
  "\<exists>us v. forM (append_event (Some (fake_provider sample_settings)) (sample_subscription SubACTIVE) (sample_product 10 True))
      [Date 1970 4 1, Date 1970 5 1, Date 1970 6 1] (sample_sub_world SubACTIVE EvREADY) = (Inr us, v)"
  by (simp add: append_event_def charge_event_off_session_def bind_def svc_simps fake_charge_run Let_def reference_not_fail)
    (simp add: sample_sub_defs sample_defs sub_op_defs new_event_def new_sub_product_def new_sub_payment_def length_str_uuid
      fake_provider_def)

lemma sample_extension:
  "\<exists>w'. extend_horizons (Some (Date 1970 3 1)) (Some (fake_provider sample_settings)) (sample_sub_world SubACTIVE EvREADY) = (Inr 1, w')"
proof -
  let ?w = "sample_sub_world SubACTIVE EvREADY"
  let ?a = "sub_aggregate (wdb ?w) (sample_subscription SubACTIVE)"
  have "next_dates_after (Date 1970 3 1) MONTHLY = [Date 1970 4 1, Date 1970 5 1, Date 1970 6 1]"
    by (simp add: next_dates_after_def HORIZON_MONTHS_def upt_rec add_months_def monthrange_def)
  moreover have "sa_events ?a = [(sample_event 71 (Date 1970 2 1) EvREADY (Some 40), Some (sample_snapshot 73 71)),
      (sample_event 72 (Date 1970 3 1) EvPENDING None, Some (sample_snapshot 74 72))]"
    by (simp add: sub_aggregate_def events_of_def event_product_def sample_sub_defs)
  moreover have "lookup (t_products (wdb ?w)) (sp_product_id (sample_snapshot 74 72)) = Some (sample_product 10 True)"
    by (simp add: sample_sub_defs sample_defs)
  moreover have "s_frequency (sample_subscription SubACTIVE) = MONTHLY" "p_is_active (sample_product 10 True)"
    by (simp_all add: sample_subscription_def sample_product_def)
  moreover obtain us v where "forM (append_event (Some (fake_provider sample_settings)) (sample_subscription SubACTIVE) (sample_product 10 True))
      [Date 1970 4 1, Date 1970 5 1, Date 1970 6 1] ?w = (Inr us, v)"
    using sample_appends by blast
  ultimately have "\<exists>v. extend_subscription (Some (fake_provider sample_settings)) ?a (Date 1970 3 1) ?w = (Inr True, v)"
    by (simp only: extend_subscription_def sub_aggregate_events) (simp add: bind_def)
  then obtain v where "extend_subscription (Some (fake_provider sample_settings)) ?a (Date 1970 3 1) ?w = (Inr True, v)" by blast
  then have "extend_rows (Some (fake_provider sample_settings)) [(?a, Date 1970 3 1)] ?w = (Inr 1, v)" by (simp add: bind_def)
  then show ?thesis
    by (simp add: extend_horizons_def bind_gets cutoff_date_def sample_rows)
qed

lemma extension_appends_next_horizon_witness:
  "\<exists>w' exts. extend_horizons (Some (Date 1970 3 1)) (Some (fake_provider sample_settings)) (sample_sub_world SubACTIVE EvREADY) =
       (Inr 1, w') \<and> map fst (exts :: extension list) = [sample_subscription SubACTIVE] \<and>
     t_sub_products (wdb w') = t_sub_products (wdb (sample_sub_world SubACTIVE EvREADY)) @
       map appended_snapshot (concat (map extension_added exts))"
proof -
  let ?w = "sample_sub_world SubACTIVE EvREADY" and ?p = "fake_provider sample_settings"
  obtain w' where run: "extend_horizons (Some (Date 1970 3 1)) (Some ?p) ?w = (Inr 1, w')" using sample_extension by blast
  have prov: "pred_option quiet_provider (Some ?p)" by (simp add: fake_quiet.quiet_provider_axioms)
  have "\<exists>exts :: extension list. 1 = length exts \<and> set (map extension_key exts) \<subseteq> {(s, l, p). s \<in> set (t_subscriptions (wdb ?w))} \<and>
      t_sub_products (wdb w') = t_sub_products (wdb ?w) @ map appended_snapshot (concat (map extension_added exts))"
    using extension_appends_next_horizon [OF run sample_active_inv prov]
    by (elim ex_forward conjE) (simp only: Let_def, intro conjI, simp, blast, simp add: case_prod_unfold)
  then obtain exts where n: "1 = length exts" and which: "set (map extension_key exts) \<subseteq> {(s, l, p). s \<in> set (t_subscriptions (wdb ?w))}"
    and rows: "t_sub_products (wdb w') = t_sub_products (wdb ?w) @ map appended_snapshot (concat (map extension_added exts))"
    by blast
  from n obtain s l p as where e: "exts = [(s, l, p, as)]" by (cases exts) auto
  have "t_subscriptions (wdb ?w) = [sample_subscription SubACTIVE]" by (simp add: sample_sub_world_def)
  then have "s = sample_subscription SubACTIVE" using which by (simp add: e)
  with run rows show ?thesis by (intro exI [of _ w'] exI [of _ exts]) (simp add: e)
qed

end
