(* ===== verification/ShopSystem.thy ===== *)
theory ShopSystem
  imports OrderProperties RatingProperties SubscriptionWitnesses
begin

text \<open>
  The whole back end as one system: the requests that write, each run in its unit of work,
  and the runs of the daily scheduler, in any order and with any randomness, over a clock
  that does not go back. The invariants of the components hold together in every reachable
  state, and orders, payments, subscriptions and their events only move along their status
  machines.
\<close>

section \<open>Status machines of subscriptions\<close>

inductive sub_step :: "subscription_status \<Rightarrow> subscription_status \<Rightarrow> bool" where
  activate: "sub_step SubPENDING SubACTIVE"
| pause: "sub_step SubACTIVE SubPAUSED"
| resume: "sub_step SubPAUSED SubACTIVE"
| cancel: "s \<noteq> SubCANCELLED \<Longrightarrow> s \<noteq> SubCOMPLETED \<Longrightarrow> sub_step s SubCANCELLED"

inductive_simps sub_step_simps [simp]: "sub_step a b"

inductive event_step :: "event_status \<Rightarrow> event_status \<Rightarrow> bool" where
  ready: "event_step EvPENDING EvREADY"
| hold: "event_step EvPENDING EvPAUSED"
| unhold: "event_step EvPAUSED EvPENDING"
| drop: "e \<in> {EvPENDING, EvPAUSED, EvREADY} \<Longrightarrow> event_step e EvCANCELLED"
| complete: "e \<in> {EvREADY, EvCANCELLED} \<Longrightarrow> event_step e EvCOMPLETED"

inductive_simps event_step_simps [simp]: "event_step a b"

lemma cancelled_stuck: "sub_step\<^sup>*\<^sup>* SubCANCELLED s \<Longrightarrow> s = SubCANCELLED"
  by (induction rule: rtranclp_induct) auto

section \<open>How a database may change\<close>

abbreviation order_facts :: "order \<Rightarrow> uuid \<times> order_type \<times> money \<times> datetime" where
  "order_facts r \<equiv> (o_user_id r, o_type r, o_total_price r, created_at r)"

abbreviation payment_facts :: "order_payment \<Rightarrow> uuid \<times> uuid \<times> money \<times> string option" where
  "payment_facts r \<equiv> (pay_order_id r, pay_user_id r, pay_amount r, pay_txn_id r)"

abbreviation sub_facts :: "subscription \<Rightarrow> uuid \<times> frequency" where
  "sub_facts r \<equiv> (s_user_id r, s_frequency r)"

abbreviation event_facts :: "subscription_event \<Rightarrow> uuid \<times> date \<times> money" where
  "event_facts r \<equiv> (se_subscription_id r, se_scheduled_date r, se_price r)"

definition moves :: "database \<Rightarrow> database \<Rightarrow> bool" where
  "moves d d' \<longleftrightarrow>
     advances can_transition o_status order_facts (t_orders d) (t_orders d') \<and>
     advances payment_step pay_status payment_facts (t_order_payments d) (t_order_payments d') \<and>
     advances sub_step s_status sub_facts (t_subscriptions d) (t_subscriptions d') \<and>
     advances event_step se_status event_facts (t_events d) (t_events d')"

lemma moves_trans: "moves d e \<Longrightarrow> moves e f \<Longrightarrow> moves d f"
  unfolding moves_def by (blast intro: advances_trans)

lemma moves_same:
  "t_orders d' = t_orders d \<Longrightarrow> t_order_payments d' = t_order_payments d \<Longrightarrow>
   t_subscriptions d' = t_subscriptions d \<Longrightarrow> t_events d' = t_events d \<Longrightarrow> moves d d'"
  by (simp add: moves_def)

lemma advances_map:
  assumes "\<And>r. r \<in> set t \<Longrightarrow> step\<^sup>*\<^sup>* (status r) (status (f r)) \<and> fixed (f r) = fixed r"
    and "\<And>r. row_id (f r) = row_id r"
  shows "advances step status fixed t (map f t)"
  unfolding advances_def
proof (intro allI impI)
  fix i r
  assume r: "lookup t i = Some r"
  then have "r \<in> set t" using lookup_SomeD by blast
  moreover have "lookup (map f t) i = Some (f r)" using lookup_map [of f t i] assms(2) r by simp
  ultimately show "\<exists>r'. lookup (map f t) i = Some r' \<and> step\<^sup>*\<^sup>* (status r) (status r') \<and> fixed r' = fixed r"
    using assms(1) by blast
qed

lemma moves_set_status:
  assumes "lookup (t_orders d) i = Some ord" and "can_transition (o_status ord) s"
  shows "moves d (set_status t s ord d)"
proof -
  have "advances can_transition o_status order_facts (t_orders d)
      (replace_row (ord\<lparr>o_status := s, updated_at := t\<rparr>) (t_orders d))"
    using assms lookup_SomeD [OF assms(1)] by (intro advances_replace) auto
  then show ?thesis by (simp add: moves_def set_status_def)
qed

section \<open>The invariant of the shop\<close>

definition shop_inv :: "database \<Rightarrow> bool" where
  "shop_inv d \<longleftrightarrow> orders_ok d \<and> payments_inv d \<and> methods_inv d \<and> ratings_inv d \<and> subscriptions_inv d"

lemma ratings_inv_same:
  assumes "t_ratings d' = t_ratings d" "t_product_ratings d' = t_product_ratings d" "ratings_inv d"
  shows "ratings_inv d'"
proof -
  have "ratings_for d' = ratings_for d" by (rule ext) (simp add: ratings_for_def assms)
  then have "scores_of d' = scores_of d" by (intro ext) (simp only: scores_of_def)
  moreover have "aggregates d' = aggregates d" by (rule ext) (simp add: aggregates_def assms)
  ultimately have "aggregate_exact d' = aggregate_exact d" by (intro ext) (simp only: aggregate_exact_def)
  moreover have "rating_rows d' = rating_rows d" by (simp add: rating_rows_def assms(1,2))
  ultimately show ?thesis using assms(3) unfolding ratings_inv_def by metis
qed

lemma methods_inv_same: "t_payment_methods d' = t_payment_methods d \<Longrightarrow> methods_inv d \<Longrightarrow> methods_inv d'"
  by (simp add: methods_inv_def)

text \<open>A method that keeps the invariant of the shop and only moves rows along their machines.\<close>

definition well_behaved :: "'a session \<Rightarrow> bool" where
  "well_behaved m \<longleftrightarrow> (\<forall>w a w'. m w = (Inr a, w') \<longrightarrow> shop_inv (wdb w) \<longrightarrow> shop_inv (wdb w') \<and> moves (wdb w) (wdb w'))"

lemma well_behavedI:
  "(\<And>w a w'. m w = (Inr a, w') \<Longrightarrow> shop_inv (wdb w) \<Longrightarrow> shop_inv (wdb w') \<and> moves (wdb w) (wdb w')) \<Longrightarrow> well_behaved m"
  by (simp add: well_behaved_def)

lemma well_behavedD:
  "well_behaved m \<Longrightarrow> m w = (Inr a, w') \<Longrightarrow> shop_inv (wdb w) \<Longrightarrow> shop_inv (wdb w') \<and> moves (wdb w) (wdb w')"
  by (simp add: well_behaved_def)

lemma well_behaved_bind:
  assumes "well_behaved m" and "\<And>a. well_behaved (f a)"
  shows "well_behaved (bind m f)"
proof (rule well_behavedI)
  fix w b w'
  assume "bind m f w = (Inr b, w')" and inv: "shop_inv (wdb w)"
  then obtain a v where "m w = (Inr a, v)" "f a v = (Inr b, w')" by (auto elim: bind_InrE)
  then show "shop_inv (wdb w') \<and> moves (wdb w) (wdb w')"
    using well_behavedD [OF assms(1)] well_behavedD [OF assms(2)] inv moves_trans by blast
qed

lemma well_behaved_ret: "well_behaved (ret a)"
  by (rule well_behavedI) (simp add: moves_same)

section \<open>Orders and payments\<close>

lemma row_ids_set_status [simp]: "row_ids (t_orders (set_status t s ord d)) = row_ids (t_orders d)"
  by (simp add: set_status_def)

lemma outside_orders_other:
  assumes "outside_orders d' = outside_orders d"
  shows "t_payment_methods d' = t_payment_methods d" "t_ratings d' = t_ratings d" "t_product_ratings d' = t_product_ratings d"
  using arg_cong [OF assms, of t_payment_methods] arg_cong [OF assms, of t_ratings]
    arg_cong [OF assms, of t_product_ratings] by simp_all

lemma shop_inv_orders:
  assumes inv: "shop_inv d" and new: "orders_ok d'" "payments_inv d'"
    and same: "t_payment_methods d' = t_payment_methods d" "t_ratings d' = t_ratings d" "t_product_ratings d' = t_product_ratings d"
      "t_users d' = t_users d" "t_subscriptions d' = t_subscriptions d" "t_events d' = t_events d"
      "t_sub_products d' = t_sub_products d" "t_sub_payments d' = t_sub_payments d"
    and ids: "set (row_ids (t_orders d)) \<subseteq> set (row_ids (t_orders d'))"
  shows "shop_inv d'"
proof -
  have "methods_inv d'" "ratings_inv d'"
    using inv methods_inv_same [OF same(1)] ratings_inv_same [OF same(2,3)] unfolding shop_inv_def by blast+
  moreover have "subscriptions_inv d'"
    using inv by (intro subscriptions_inv_grow [of d d']) (simp_all add: shop_inv_def same ids)
  ultimately show ?thesis using new by (simp add: shop_inv_def)
qed

lemma create_order_well: "well_behaved (create_order u data)"
proof (rule well_behavedI)
  fix w dto w'
  assume run: "create_order u data w = (Inr dto, w')" and inv: "shop_inv (wdb w)"
  from run obtain ls f ord v where f: "choose_fulfillment data w = (Inr f, v)"
    and add: "repo_add u (co_order_type data) (order_total ls) ls f v = (Inr ord, w')"
    by (rule create_order_InrE)
  have v: "wdb v = wdb w" using f by (rule choose_fulfillment_InrE)
  have new: "t_orders (wdb w') = t_orders (wdb w) @ [ord]" using add v by (auto elim: repo_add_InrE)
  have out: "outside_orders (wdb w') = outside_orders (wdb w)" using leavesD [OF orders_frame(1) run] .
  have pay: "t_order_payments (wdb w') = t_order_payments (wdb w)" by (rule outside_orders_columns(8) [OF out])
  have "orders_ok (wdb w') \<and> payments_inv (wdb w')"
    using preservesD [OF create_order_payments run] inv by (simp add: shop_inv_def)
  then have "shop_inv (wdb w')"
    by (intro shop_inv_orders [OF inv]) (use outside_orders_columns [OF out] outside_orders_other [OF out] new in auto)
  moreover have "moves (wdb w) (wdb w')"
    using outside_orders_columns [OF out] by (simp add: moves_def new advances_append)
  ultimately show "shop_inv (wdb w') \<and> moves (wdb w) (wdb w')" by blast
qed

lemma cancel_order_well: "well_behaved (cancel_order i u)"
proof (rule well_behavedI)
  fix w dto w'
  assume run: "cancel_order i u w = (Inr dto, w')" and inv: "shop_inv (wdb w)"
  have both: "orders_ok (wdb w) \<and> payments_inv (wdb w)" using inv by (simp add: shop_inv_def)
  from run both obtain ord where ord: "lookup (t_orders (wdb w)) i = Some ord" "o_status ord = CREATED"
    and w': "wdb w' = set_status (now w) CANCELLED ord (wdb w)"
    by (auto simp: cancel_order_run Let_def split: option.splits if_splits)
  have "shop_inv (wdb w')"
    using preservesD [OF cancel_order_payments run both]
    by (intro shop_inv_orders [OF inv]) (simp_all add: w' set_status_def)
  moreover have "moves (wdb w) (wdb w')" unfolding w' by (rule moves_set_status [OF ord(1)]) (simp add: ord(2))
  ultimately show "shop_inv (wdb w') \<and> moves (wdb w) (wdb w')" by blast
qed

lemma staff_update_moves: "moves (set_status t s ord d) (staff_update t s ord d)"
  by (rule moves_same) (simp_all add: staff_update_def stamp_pickups_def stamp_deliveries_def)

lemma update_status_well: "well_behaved (update_status i s)"
proof (rule well_behavedI)
  fix w dto w'
  assume run: "update_status i s w = (Inr dto, w')" and inv: "shop_inv (wdb w)"
  have both: "orders_ok (wdb w) \<and> payments_inv (wdb w)" using inv by (simp add: shop_inv_def)
  from run both obtain ord where ord: "lookup (t_orders (wdb w)) i = Some ord" "can_transition (o_status ord) s"
    and w': "wdb w' = staff_update (now w) s ord (wdb w)"
    by (auto simp: update_status_run Let_def split: option.splits if_splits)
  have "row_ids (t_orders (wdb w')) = row_ids (t_orders (wdb w))"
    by (simp add: w' staff_update_def stamp_pickups_def stamp_deliveries_def)
  then have "shop_inv (wdb w')"
    using preservesD [OF update_status_payments run both]
    by (intro shop_inv_orders [OF inv])
      (simp_all add: w' staff_update_def stamp_pickups_def stamp_deliveries_def set_status_def)
  moreover have "moves (wdb w) (wdb w')"
    unfolding w' using moves_trans [OF moves_set_status [OF ord] staff_update_moves] .
  ultimately show "shop_inv (wdb w') \<and> moves (wdb w) (wdb w')" by blast
qed

lemma advances_new: "t' = t @ u \<Longrightarrow> advances step status fixed t t'"
  by (simp add: advances_append)

context provider_contract
begin

lemma charge_well: "well_behaved (charge_for_order prov u i m)"
proof (rule well_behavedI)
  fix w dto w'
  assume run: "charge_for_order prov u i m w = (Inr dto, w')" and inv: "shop_inv (wdb w)"
  have both: "orders_ok (wdb w) \<and> payments_inv (wdb w)" using inv by (simp add: shop_inv_def)
  have new: "orders_ok (wdb w') \<and> payments_inv (wdb w')" using charge_keeps [OF run] both by blast
  from run show "shop_inv (wdb w') \<and> moves (wdb w) (wdb w')"
  proof (rule charge_effect)
    fix ord p
    assume ord: "lookup (t_orders (wdb w)) i = Some ord" "o_status ord = CREATED"
      and w': "wdb w' = (if pay_status p = PayCOMPLETED then set_status (now w) CONFIRMED ord (wdb w) else wdb w)
           \<lparr>t_order_payments := t_order_payments (wdb w) @ [p]\<rparr>"
    have "shop_inv (wdb w')"
      using new by (intro shop_inv_orders [OF inv]) (simp_all add: w' set_status_def)
    moreover have "moves (wdb w) (set_status (now w) CONFIRMED ord (wdb w))"
      by (rule moves_set_status [OF ord(1)]) (simp add: ord(2))
    then have "moves (wdb w) (wdb w')"
      by (simp add: moves_def w' advances_append set_status_def)
    ultimately show ?thesis by blast
  qed
qed

lemma refund_well: "well_behaved (refund_payment prov i)"
proof (rule well_behavedI)
  fix w dto w'
  assume run: "refund_payment prov i w = (Inr dto, w')" and inv: "shop_inv (wdb w)"
  have both: "orders_ok (wdb w) \<and> payments_inv (wdb w)" using inv by (simp add: shop_inv_def)
  have new: "orders_ok (wdb w') \<and> payments_inv (wdb w')" using refund_keeps [OF run] both by blast
  from run show "shop_inv (wdb w') \<and> moves (wdb w) (wdb w')"
  proof (rule refund_effect)
    fix p ord q
    assume p: "lookup (t_order_payments (wdb w)) i = Some p" "pay_status p = PayCOMPLETED"
      and ord: "lookup (t_orders (wdb w)) (pay_order_id p) = Some ord" "can_transition (o_status ord) REFUNDED"
      and q: "row_id q = i" "pay_order_id q = pay_order_id p" "pay_user_id q = pay_user_id p"
        "pay_amount q = pay_amount p" "pay_txn_id q = pay_txn_id p" "pay_status q = PayREFUNDED"
      and w': "wdb w' = t_order_payments_update (replace_row q) (set_status (now w) REFUNDED ord (wdb w))"
    have "shop_inv (wdb w')"
      using new by (intro shop_inv_orders [OF inv]) (simp_all add: w' set_status_def)
    moreover have "advances payment_step pay_status payment_facts (t_order_payments (wdb w)) (replace_row q (t_order_payments (wdb w)))"
      using p q by (intro advances_replace [where old = p]) auto
    then have "moves (wdb w) (wdb w')"
      using moves_set_status [OF ord, of "now w"] by (simp add: moves_def w' set_status_def)
    ultimately show ?thesis by blast
  qed
qed

end

lemma callback_well: "well_behaved (handle_callback name txn st)"
  by (rule well_behavedI) (auto simp: callback_run shop_inv_def moves_same split: option.splits)

section \<open>Payment methods, ratings, points\<close>

abbreviation outside_methods :: "database \<Rightarrow> database" where
  "outside_methods d \<equiv> d\<lparr>t_payment_methods := []\<rparr>"

lemma clear_default_frame: "frame outside_methods (clear_default u)"
  by (simp add: evolves_def clear_default_def modify_def)

lemma set_default_frame: "frame outside_methods (set_default u i)"
  unfolding set_default_def require_owned_method_def refresh_method_def
  by (intro frame_intros clear_default_frame) simp

lemma promote_frame: "frame outside_methods (promote_latest u)"
  unfolding promote_latest_def by (intro frame_intros) (auto split: list.splits intro!: frame_intros)

context provider_contract
begin

lemma save_method_frame: "frame outside_methods (save_method prov u data)"
  unfolding save_method_def refresh_method_def
  by (intro frame_intros clear_default_frame provider_frame) simp_all

lemma delete_method_frame: "frame outside_methods (delete_method prov u i)"
  unfolding delete_method_def require_owned_method_def
  by (intro frame_intros promote_frame provider_frame) simp_all

end

text \<open>A method that only writes a table none of the other invariants reads.\<close>

lemma outside_columns:
  assumes "outside_methods d' = outside_methods d \<or> outside_ratings d' = outside_ratings d"
  shows "t_orders d' = t_orders d" "t_order_products d' = t_order_products d" "t_pickup_info d' = t_pickup_info d"
    "t_delivery_info d' = t_delivery_info d" "t_points d' = t_points d" "t_users d' = t_users d"
    "t_order_payments d' = t_order_payments d" "t_subscriptions d' = t_subscriptions d" "t_events d' = t_events d"
    "t_sub_products d' = t_sub_products d" "t_sub_payments d' = t_sub_payments d"
  using assms by (cases d; cases d'; auto)+

lemma aside_inv:
  assumes "shop_inv d" and "outside_methods d' = outside_methods d \<or> outside_ratings d' = outside_ratings d"
    and "methods_inv d'" and "ratings_inv d'"
  shows "shop_inv d' \<and> moves d d'"
proof -
  note cols = outside_columns [OF assms(2)]
  have "orders_ok d'" using assms(1) cols by (intro orders_ok_outside [of d' d]) (simp_all add: shop_inv_def)
  moreover have "payments_inv d'" using assms(1) payments_inv_same [OF cols(1,7)] by (simp add: shop_inv_def)
  moreover have "subscriptions_inv d'"
    using assms(1) cols by (intro subscriptions_inv_grow [of d d']) (simp_all add: shop_inv_def)
  moreover have "moves d d'" using cols by (intro moves_same)
  ultimately show ?thesis using assms(3,4) by (simp add: shop_inv_def)
qed

lemma methods_well:
  assumes "preserves methods_inv m" and "frame outside_methods m"
  shows "well_behaved m"
proof (rule well_behavedI)
  fix w a w'
  assume run: "m w = (Inr a, w')" and inv: "shop_inv (wdb w)"
  have out: "outside_methods (wdb w') = outside_methods (wdb w)" using leavesD [OF assms(2) run] .
  have "methods_inv (wdb w')" using preservesD [OF assms(1) run] inv by (simp add: shop_inv_def)
  moreover have "ratings_inv (wdb w')"
    using inv ratings_inv_same [of "wdb w'" "wdb w"] arg_cong [OF out, of t_ratings] arg_cong [OF out, of t_product_ratings]
    by (simp add: shop_inv_def)
  ultimately show "shop_inv (wdb w') \<and> moves (wdb w) (wdb w')" using inv out by (intro aside_inv) simp_all
qed

lemma ratings_well:
  assumes "preserves ratings_inv m" and "frame outside_ratings m"
  shows "well_behaved m"
proof (rule well_behavedI)
  fix w a w'
  assume run: "m w = (Inr a, w')" and inv: "shop_inv (wdb w)"
  have out: "outside_ratings (wdb w') = outside_ratings (wdb w)" using leavesD [OF assms(2) run] .
  have "ratings_inv (wdb w')" using preservesD [OF assms(1) run] inv by (simp add: shop_inv_def)
  moreover have "methods_inv (wdb w')"
    using inv methods_inv_same [of "wdb w'" "wdb w"] arg_cong [OF out, of t_payment_methods] by (simp add: shop_inv_def)
  ultimately show "shop_inv (wdb w') \<and> moves (wdb w) (wdb w')" using inv out by (intro aside_inv) simp_all
qed

abbreviation outside_points :: "database \<Rightarrow> database" where
  "outside_points d \<equiv> d\<lparr>t_points := []\<rparr>"

lemma points_keep_references:
  "preserves pickup_points_exist (admin_create_point data)" "preserves pickup_points_exist (admin_update_point i data)"
  by (rule preservesI, auto simp: admin_create_point_def admin_update_point_def require_point_def pickup_points_exist_def
      elim!: svc_elims)+

lemma points_well:
  assumes "preserves pickup_points_exist m" and "frame outside_points m"
  shows "well_behaved m"
proof (rule well_behavedI)
  fix w a w'
  assume run: "m w = (Inr a, w')" and inv: "shop_inv (wdb w)"
  have out: "outside_points (wdb w') = outside_points (wdb w)" using leavesD [OF assms(2) run] .
  then have cols: "t_orders (wdb w') = t_orders (wdb w)" "t_order_products (wdb w') = t_order_products (wdb w)"
    "t_pickup_info (wdb w') = t_pickup_info (wdb w)" "t_delivery_info (wdb w') = t_delivery_info (wdb w)"
    "t_users (wdb w') = t_users (wdb w)" "t_order_payments (wdb w') = t_order_payments (wdb w)"
    "t_subscriptions (wdb w') = t_subscriptions (wdb w)" "t_events (wdb w') = t_events (wdb w)"
    "t_sub_products (wdb w') = t_sub_products (wdb w)" "t_sub_payments (wdb w') = t_sub_payments (wdb w)"
    "t_payment_methods (wdb w') = t_payment_methods (wdb w)" "t_ratings (wdb w') = t_ratings (wdb w)"
    "t_product_ratings (wdb w') = t_product_ratings (wdb w)"
    by (cases "wdb w"; cases "wdb w'"; auto)+
  have ok: "orders_ok (wdb w)" using inv by (simp add: shop_inv_def)
  have "pickup_points_exist (wdb w')" by (rule preservesD [OF assms(1) run orders_ok_points [OF ok]])
  then have "orders_ok (wdb w')" using ok cols by (intro orders_ok_same [of "wdb w'" "wdb w"]) simp_all
  moreover have "payments_inv (wdb w')" using inv payments_inv_same [OF cols(1,6)] by (simp add: shop_inv_def)
  ultimately have "shop_inv (wdb w')" using cols by (intro shop_inv_orders [OF inv]) simp_all
  moreover have "moves (wdb w) (wdb w')" using cols by (intro moves_same)
  ultimately show "shop_inv (wdb w') \<and> moves (wdb w) (wdb w')" by blast
qed

section \<open>Subscriptions\<close>

lemma shop_inv_subs:
  assumes inv: "shop_inv d" and new: "subscriptions_inv d'"
    and same: "t_payment_methods d' = t_payment_methods d" "t_ratings d' = t_ratings d" "t_product_ratings d' = t_product_ratings d"
      "t_users d' = t_users d" "t_orders d' = t_orders d" "t_order_products d' = t_order_products d"
      "t_pickup_info d' = t_pickup_info d" "t_delivery_info d' = t_delivery_info d" "t_points d' = t_points d"
      "t_order_payments d' = t_order_payments d"
  shows "shop_inv d'"
proof -
  have "methods_inv d'" "ratings_inv d'"
    using inv methods_inv_same [OF same(1)] ratings_inv_same [OF same(2,3)] unfolding shop_inv_def by blast+
  moreover have "orders_ok d'" using inv same by (intro orders_ok_outside [of d' d]) (simp_all add: shop_inv_def)
  moreover have "payments_inv d'" using inv payments_inv_same [OF same(5,10)] by (simp add: shop_inv_def)
  ultimately show ?thesis using new by (simp add: shop_inv_def)
qed

lemma moves_switched:
  assumes inv: "subscriptions_inv d" and s: "lookup (t_subscriptions d) i = Some s"
    and step: "sub_step (s_status s) st" and ev: "\<And>x. x \<in> old \<Longrightarrow> event_step x new"
  shows "moves d (switched t i st old new d)"
proof -
  have "advances sub_step s_status sub_facts (t_subscriptions d) (map (on {i} (set_sub_status t st)) (t_subscriptions d))"
  proof (rule advances_map)
    fix r
    assume r: "r \<in> set (t_subscriptions d)"
    show "sub_step\<^sup>*\<^sup>* (s_status r) (s_status (on {i} (set_sub_status t st) r)) \<and>
      sub_facts (on {i} (set_sub_status t st) r) = sub_facts r"
    proof (cases "row_id r = i")
      case True
      with same_row [OF subscriptions_invD(1) [OF inv] r] lookup_SomeD [OF s] have "r = s" by simp
      then show ?thesis using True step by (simp add: on_def r_into_rtranclp)
    qed (simp add: on_def)
  qed (simp add: on_def)
  moreover have "advances event_step se_status event_facts (t_events d)
      (map (\<lambda>e. if se_subscription_id e = i then flip t old new e else e) (t_events d))"
    using ev by (intro advances_map) (auto simp: r_into_rtranclp)
  ultimately show ?thesis by (simp add: moves_def switched_def)
qed

lemma switched_shop:
  assumes inv: "shop_inv d" and s: "lookup (t_subscriptions d) i = Some s"
    and step: "sub_step (s_status s) st" "\<And>x. x \<in> old \<Longrightarrow> event_step x new"
    and new: "subscriptions_inv (switched t i st old new d)"
  shows "shop_inv (switched t i st old new d) \<and> moves d (switched t i st old new d)"
proof
  show "shop_inv (switched t i st old new d)"
    by (rule shop_inv_subs [OF inv new]) (simp_all add: switched_def)
  show "moves d (switched t i st old new d)"
    using inv by (intro moves_switched [OF _ s step]) (auto simp: shop_inv_def)
qed

lemma pause_well: "well_behaved (pause_subscription i u)"
proof (rule well_behavedI)
  fix w dto w'
  assume run: "pause_subscription i u w = (Inr dto, w')" and inv: "shop_inv (wdb w)"
  have si: "subscriptions_inv (wdb w)" using inv by (simp add: shop_inv_def)
  from run [unfolded pause_resume_switching] si obtain s where s: "lookup (t_subscriptions (wdb w)) i = Some s" "s_status s = SubACTIVE"
    and w': "w' = w\<lparr>wdb := switched (now w) i SubPAUSED {EvPENDING} EvPAUSED (wdb w)\<rparr>"
    by (rule switching_InrE) simp_all
  from switched_shop [OF inv s(1), of SubPAUSED "{EvPENDING}" EvPAUSED "now w"]
  show "shop_inv (wdb w') \<and> moves (wdb w) (wdb w')"
    using preservesD [OF pause_keeps run si] s(2) by (simp add: w')
qed

lemma resume_well: "well_behaved (resume_subscription i u)"
proof (rule well_behavedI)
  fix w dto w'
  assume run: "resume_subscription i u w = (Inr dto, w')" and inv: "shop_inv (wdb w)"
  have si: "subscriptions_inv (wdb w)" using inv by (simp add: shop_inv_def)
  from run [unfolded pause_resume_switching] si obtain s where s: "lookup (t_subscriptions (wdb w)) i = Some s" "s_status s = SubPAUSED"
    and w': "w' = w\<lparr>wdb := switched (now w) i SubACTIVE {EvPAUSED} EvPENDING (wdb w)\<rparr>"
    by (rule switching_InrE) simp_all
  from switched_shop [OF inv s(1), of SubACTIVE "{EvPAUSED}" EvPENDING "now w"]
  show "shop_inv (wdb w') \<and> moves (wdb w) (wdb w')"
    using preservesD [OF resume_keeps run si] s(2) by (simp add: w')
qed

context provider_contract
begin

lemma cancel_subscription_well: "well_behaved (cancel_subscription (Some prov) i u)"
proof (rule well_behavedI)
  fix w dto w'
  assume run: "cancel_subscription (Some prov) i u w = (Inr dto, w')" and inv: "shop_inv (wdb w)"
  have si: "subscriptions_inv (wdb w)" using inv by (simp add: shop_inv_def)
  from run si provider_contract_axioms obtain s a v where s: "lookup (t_subscriptions (wdb w)) i = Some s"
      "s_status s \<noteq> SubCANCELLED" "s_status s \<noteq> SubCOMPLETED"
    and v: "wdb v = t_sub_payments_update (map (on (set (row_ids (refundable a (wdb w)))) (mark_refunded (now w)))) (wdb w)"
    and w': "w' = v\<lparr>wdb := switched (now w) i SubCANCELLED {EvPENDING, EvPAUSED, EvREADY} EvCANCELLED (wdb v)\<rparr>"
    and iv: "subscriptions_inv (wdb v)"
    by (rule cancel_subscription_InrE)
  have sv: "shop_inv (wdb v)" by (rule shop_inv_subs [OF inv iv]) (simp_all add: v)
  have mv: "moves (wdb w) (wdb v)" by (rule moves_same) (simp_all add: v)
  have s': "lookup (t_subscriptions (wdb v)) i = Some s" using s(1) by (simp add: v)
  have "subscriptions_inv (wdb w')" by (rule preservesD [OF cancel_subscription_keeps [OF provider_contract_axioms] run si])
  then have "subscriptions_inv (switched (now w) i SubCANCELLED {EvPENDING, EvPAUSED, EvREADY} EvCANCELLED (wdb v))"
    by (simp add: w')
  from switched_shop [OF sv s' _ _ this] s(2,3)
  have "shop_inv (wdb w') \<and> moves (wdb v) (wdb w')" by (simp add: w')
  with moves_trans [OF mv] show "shop_inv (wdb w') \<and> moves (wdb w) (wdb w')" by blast
qed

lemma charge_activate_rows:
  assumes run: "charge_and_activate prov a m w = (Inr x, w')" and inv: "subscriptions_inv (wdb w)"
    and load: "load_subscription (wdb w) i = Some a" and st: "s_status (sa_sub a) = SubPENDING"
  shows "\<exists>ps. wdb w' = switched (now w) i SubACTIVE {} EvPENDING (t_sub_payments_update (\<lambda>t. t @ ps) (wdb w))"
proof -
  from run obtain v where charge: "charge_subscription_upfront prov a (Some m) w = (Inr True, v)"
    and save: "save_subscription ((sa_sub a)\<lparr>s_status := SubACTIVE\<rparr>) v = (Inr x, w')"
    by (auto simp: charge_and_activate_def require_run elim!: bind_InrE split: if_splits)
  from charge obtain ps where v: "wdb v = t_sub_payments_update (\<lambda>t. t @ ps) (wdb w)" "now v = now w"
  proof (cases rule: charge_upfront_InrE)
    case empty
    then show thesis by (intro that [of "[]"]) (simp_all add: sub_payments_rel.upd_same)
  next
    case (charged res w1 xs)
    have "wdb v = t_sub_payments_update (\<lambda>t. t @ xs) (wdb w)" "now v = now w"
      using provider_same(1) [OF charged(3)] by (subst charged(8), simp)+
    then show thesis by (rule that)
  qed simp
  have "w' = v\<lparr>wdb := t_subscriptions_update (map (on {i} (set_sub_status (now v) SubACTIVE))) (wdb v)\<rparr>"
    by (rule activate_InrE [OF save load _ _ st]) (use subscriptions_invD(1) [OF inv] in \<open>simp_all add: v\<close>)
  then show ?thesis by (intro exI [of _ ps]) (simp add: switched_nothing v)
qed

lemma charge_activate_well:
  assumes run: "charge_and_activate prov a m w = (Inr x, w')" and inv: "shop_inv (wdb w)"
    and load: "load_subscription (wdb w) i = Some a" and st: "s_status (sa_sub a) = SubPENDING"
  shows "shop_inv (wdb w') \<and> moves (wdb w) (wdb w')"
proof -
  have si: "subscriptions_inv (wdb w)" using inv by (simp add: shop_inv_def)
  from charge_activate_rows [OF run si load st] obtain ps where
    w': "wdb w' = switched (now w) i SubACTIVE {} EvPENDING (t_sub_payments_update (\<lambda>t. t @ ps) (wdb w))" by blast
  from load obtain s where s: "lookup (t_subscriptions (wdb w)) i = Some s" "a = sub_aggregate (wdb w) s"
    by (auto simp: load_subscription_Some)
  have stat: "s_status s = SubPENDING" using st by (simp add: s(2) sub_aggregate_events)
  have "subscriptions_inv (wdb w')" by (rule charge_activate_keeps [OF run si load st])
  then have "shop_inv (wdb w')" by (rule shop_inv_subs [OF inv]) (simp_all add: w' switched_def)
  moreover have "moves (wdb w) (switched (now w) i SubACTIVE {} EvPENDING (wdb w))"
    by (rule moves_switched [OF si s(1)]) (simp_all add: stat)
  then have "moves (wdb w) (wdb w')" by (simp add: moves_def w' switched_def)
  ultimately show ?thesis by blast
qed

end

lemma schedule_well: "well_behaved (schedule_subscription u data p)"
proof (rule well_behavedI)
  fix w s w'
  assume run: "schedule_subscription u data p w = (Inr s, w')" and inv: "shop_inv (wdb w)"
  have si: "subscriptions_inv (wdb w)" using inv by (simp add: shop_inv_def)
  have new: "subscriptions_inv (wdb w')" by (rule preservesD [OF schedule_keeps run si])
  from run obtain dl es ps where w': "wdb w' = t_sub_products_update (\<lambda>t. t @ ps) (t_events_update (\<lambda>t. t @ es)
           (t_sub_delivery_update (\<lambda>t. t @ [dl]) (t_subscriptions_update (\<lambda>t. t @ [s]) (wdb w))))"
    by (rule schedule_InrE)
  have "shop_inv (wdb w')" by (rule shop_inv_subs [OF inv new]) (simp_all add: w')
  moreover have "moves (wdb w) (wdb w')" by (simp add: moves_def w' advances_append)
  ultimately show "shop_inv (wdb w') \<and> moves (wdb w) (wdb w')" by blast
qed

context provider_contract
begin

lemma create_subscription_well: "well_behaved (create_subscription (Some prov) u data)"
proof (rule well_behavedI)
  fix w dto w'
  assume run: "create_subscription (Some prov) u data w = (Inr dto, w')" and inv: "shop_inv (wdb w)"
  from run show "shop_inv (wdb w') \<and> moves (wdb w) (wdb w')"
  proof (cases rule: create_subscription_InrE)
    case (unpaid p s a)
    show ?thesis by (rule well_behavedD [OF schedule_well unpaid(4) inv])
  next
    case (paid p s v a prov' k m a')
    have prov': "prov' = prov" using paid(4) by simp
    have v: "shop_inv (wdb v) \<and> moves (wdb w) (wdb v)" by (rule well_behavedD [OF schedule_well paid(5) inv])
    have "shop_inv (wdb w') \<and> moves (wdb v) (wdb w')"
      using charge_activate_well [OF paid(8) [unfolded prov'] _ paid(6) schedule_loaded(2) [OF paid(5,6)]] v by blast
    with v moves_trans show ?thesis by blast
  qed
qed

lemma pay_subscription_well: "well_behaved (pay_subscription (Some prov) i u k)"
proof (rule well_behavedI)
  fix w dto w'
  assume run: "pay_subscription (Some prov) i u k w = (Inr dto, w')" and inv: "shop_inv (wdb w)"
  from run show "shop_inv (wdb w') \<and> moves (wdb w) (wdb w')"
  proof (rule pay_subscription_InrE)
    fix prov' s a m
    assume p: "Some prov = Some prov'" and st: "s_status s = SubPENDING" and a: "a = sub_aggregate (wdb w) s"
      and load: "load_subscription (wdb w) i = Some a" and c: "charge_and_activate prov' a m w = (Inr (), w')"
    have "s_status (sa_sub a) = SubPENDING" by (simp only: a sub_aggregate_events st)
    with charge_activate_well [of a m w "()" w' i] inv load c p show ?thesis by simp
  qed
qed

end

section \<open>The scheduler\<close>

lemma moves_ready:
  assumes p: "processed w ys os w'" and wait: "\<forall>y \<in> set ys. waiting (wdb w) y" and ids: "distinct (row_ids (t_events (wdb w)))"
  shows "moves (wdb w) (wdb w')"
proof -
  note p' = p [unfolded processed_def orders_grow_def]
  have out: "outside_due (wdb w') = outside_due (wdb w)" using p' by blast
  have "advances event_step se_status event_facts (t_events (wdb w))
      (map (ready_with (now w) (zip (due_ids ys) (row_ids os))) (t_events (wdb w)))"
  proof (rule advances_map)
    fix e
    assume e: "e \<in> set (t_events (wdb w))"
    show "event_step\<^sup>*\<^sup>* (se_status e) (se_status (ready_with (now w) (zip (due_ids ys) (row_ids os)) e)) \<and>
        event_facts (ready_with (now w) (zip (due_ids ys) (row_ids os)) e) = event_facts e"
    proof (cases "map_of (zip (due_ids ys) (row_ids os)) (row_id e)")
      case (Some j)
      then have "row_id e \<in> set (due_ids ys)" by (auto dest!: map_of_SomeD set_zip_leftD)
      then obtain y where y: "y \<in> set ys" "row_id (due_event y) = row_id e" by auto
      then have "due_event y \<in> set (t_events (wdb w))" "se_status (due_event y) = EvPENDING"
        using wait by (simp_all add: waiting_def)
      with same_row [OF ids this(1) e] y(2) have "se_status e = EvPENDING" by simp
      then show ?thesis using Some by (simp add: ready_with_def r_into_rtranclp)
    qed (simp add: ready_with_def)
  next
    show "row_id (ready_with (now w) (zip (due_ids ys) (row_ids os)) e) = row_id e" for e
      by (simp add: ready_with_def split: option.splits)
  qed
  moreover have "t_events (wdb w') = map (ready_with (now w) (zip (due_ids ys) (row_ids os))) (t_events (wdb w))"
    "t_orders (wdb w') = t_orders (wdb w) @ os" using p' by blast+
  moreover have "t_order_payments (wdb w') = t_order_payments (wdb w)" "t_subscriptions (wdb w') = t_subscriptions (wdb w)"
    using arg_cong [OF out, of t_order_payments] arg_cong [OF out, of t_subscriptions] by simp_all
  ultimately show ?thesis by (simp add: moves_def advances_append)
qed
lemma shop_inv_daily:
  assumes inv: "shop_inv d" and new: "daily_inv d'"
    and same: "t_payment_methods d' = t_payment_methods d" "t_ratings d' = t_ratings d" "t_product_ratings d' = t_product_ratings d"
  shows "shop_inv d'"
  using inv new methods_inv_same [OF same(1)] ratings_inv_same [OF same(2,3)] unfolding shop_inv_def by blast

lemma shop_inv_parts: "shop_inv d \<Longrightarrow> daily_inv d"
  by (simp add: shop_inv_def)

lemma process_due_events_well: "well_behaved (process_due_events today)"
proof (rule well_behavedI)
  fix w n w'
  assume run: "process_due_events today w = (Inr n, w')" and inv: "shop_inv (wdb w)"
  note d = shop_inv_parts [OF inv]
  have si: "subscriptions_inv (wdb w)" using d by blast
  let ?ys = "filter deliverable (due_events (cutoff_date today (now w)) (wdb w))"
  from run obtain os where os: "processed w ?ys os w'"
    by (rule process_due_events_effect) (use d in blast)+
  then have out: "outside_due (wdb w') = outside_due (wdb w)" by (simp add: processed_def)
  have "shop_inv (wdb w')"
    by (rule shop_inv_daily [OF inv preservesD [OF process_due_events_keeps run d]])
      (use arg_cong [OF out, of t_payment_methods] arg_cong [OF out, of t_ratings]
        arg_cong [OF out, of t_product_ratings] in simp_all)
  moreover have "moves (wdb w) (wdb w')"
    by (rule moves_ready [OF os _ subscriptions_invD(2) [OF si]])
      (use due_events_waiting(1) [OF si] in \<open>simp only: set_filter, blast\<close>)
  ultimately show "shop_inv (wdb w') \<and> moves (wdb w) (wdb w')" by blast
qed

lemma synced_step:
  assumes "event_sound d e"
  shows "event_step\<^sup>*\<^sup>* (se_status e) (se_status (synced t d e)) \<and> event_facts (synced t d e) = event_facts e"
proof (cases "order_completed d e")
  case True
  then have "se_order_id e \<noteq> None" "se_status e \<noteq> EvCOMPLETED"
    by (auto simp: order_completed_def split: option.splits)
  with assms have "se_status e \<in> {EvREADY, EvCANCELLED}"
    by (cases "se_status e") (simp_all add: event_sound_def order_agrees_def)
  then show ?thesis using True by (simp add: synced_def r_into_rtranclp)
qed (simp add: synced_def)

lemma sync_well: "well_behaved sync_completed_events"
proof (rule well_behavedI)
  fix w n w'
  assume run: "sync_completed_events w = (Inr n, w')" and inv: "shop_inv (wdb w)"
  note d = shop_inv_parts [OF inv]
  then have si: "subscriptions_inv (wdb w)" by blast
  have w': "wdb w' = t_events_update (map (synced (now w) (wdb w))) (wdb w)"
    using sync_InrE(1) [OF run subscriptions_invD(2) [OF si]] by simp
  have "advances event_step se_status event_facts (t_events (wdb w)) (map (synced (now w) (wdb w)) (t_events (wdb w)))"
    by (rule advances_map) (use subscriptions_invD(6) [OF si] synced_step in blast, simp add: synced_def)
  then have "moves (wdb w) (wdb w')" by (simp add: moves_def w')
  moreover have "shop_inv (wdb w')"
    by (rule shop_inv_daily [OF inv preservesD [OF sync_completed_events_keeps run d]]) (simp_all add: w')
  ultimately show "shop_inv (wdb w') \<and> moves (wdb w) (wdb w')" by blast
qed

lemma extend_well:
  assumes "\<And>prov. provider = Some prov \<Longrightarrow> provider_contract prov"
  shows "well_behaved (extend_horizons today provider)"
proof (rule well_behavedI)
  fix w n w'
  assume run: "extend_horizons today provider w = (Inr n, w')" and inv: "shop_inv (wdb w)"
  note d = shop_inv_parts [OF inv]
  then have si: "subscriptions_inv (wdb w)" by blast
  note e = extend_horizons_effect [OF run si assms]
  then have out: "outside_extension (wdb w') = outside_extension (wdb w)" by blast
  from e obtain es where es: "t_events (wdb w') = t_events (wdb w) @ es" by blast
  have "moves (wdb w) (wdb w')"
    using arg_cong [OF out, of t_orders] arg_cong [OF out, of t_order_payments] arg_cong [OF out, of t_subscriptions]
    by (simp add: moves_def es advances_append)
  moreover have "shop_inv (wdb w')"
    by (rule shop_inv_daily [OF inv preservesD [OF extend_horizons_keeps [OF assms] run d]])
      (use arg_cong [OF out, of t_payment_methods] arg_cong [OF out, of t_ratings]
        arg_cong [OF out, of t_product_ratings] in simp_all)
  ultimately show "shop_inv (wdb w') \<and> moves (wdb w) (wdb w')" by blast
qed

lemma run_daily_well:
  assumes "\<And>prov. provider = Some prov \<Longrightarrow> provider_contract prov"
  shows "well_behaved (run_daily today provider)"
  unfolding run_daily_def
  by (intro well_behaved_bind well_behaved_ret process_due_events_well sync_well extend_well assms)
section \<open>The requests about payment methods, ratings and points\<close>

lemma methods_requests_well:
  assumes "provider_contract prov"
  shows "well_behaved (save_method prov u data)" "well_behaved (delete_method prov u i)" "well_behaved (set_default u i)"
  by (rule methods_well; rule provider_contract.save_method_keeps provider_contract.delete_method_keeps
      provider_contract.save_method_frame provider_contract.delete_method_frame set_default_keeps
      set_default_frame; rule assms)+

lemma ratings_requests_well: "well_behaved (set_rating u p v)" "well_behaved (delete_rating u p)"
  by (rule ratings_well; rule set_rating_preserves delete_rating_preserves ratings_frame)+

lemma points_requests_well:
  "well_behaved (admin_create_point data)" "well_behaved (admin_update_point i data)" "well_behaved (admin_delete_point i mode)"
  by (rule points_well; (rule points_keep_references delete_point_keeps_references | rule points_frame, simp))+

end
