(* ===== verification/PyText.thy ===== *)
theory PyText
  imports Prelude
begin

text \<open>
  Python text operations that the accounts and the authentication rely on: \<open>str.strip\<close>,
  \<open>str.replace\<close>, \<open>int(s, 16)\<close> and \<open>uuid.UUID(s)\<close>. Characters are those of Latin-1. The text of
  an identifier is read back as that identifier.
\<close>

section \<open>Spaces\<close>

definition py_space :: "char \<Rightarrow> bool" where
  \<comment> \<open>\<open>str.isspace\<close> and the class \<open>\s\<close> of a pattern\<close>
  "py_space c \<longleftrightarrow> (let n = of_char c :: nat in (9 \<le> n \<and> n \<le> 13) \<or> (28 \<le> n \<and> n \<le> 32) \<or> n = 133 \<or> n = 160)"

definition strip_of :: "(char \<Rightarrow> bool) \<Rightarrow> string \<Rightarrow> string" where
  "strip_of p s = rev (dropWhile p (rev (dropWhile p s)))"

abbreviation strip :: "string \<Rightarrow> string" where
  "strip \<equiv> strip_of py_space"

lemma strip_of_none: "\<forall>c \<in> set s. \<not> p c \<Longrightarrow> strip_of p s = s"
proof -
  assume none: "\<forall>c \<in> set s. \<not> p c"
  have "dropWhile p xs = xs" if "\<forall>c \<in> set xs. \<not> p c" for xs
    using that by (cases xs) auto
  from this [of s] this [of "rev s"] none show ?thesis by (simp add: strip_of_def)
qed

section \<open>Replacement\<close>

definition is_prefix :: "string \<Rightarrow> string \<Rightarrow> bool" where
  "is_prefix p s \<longleftrightarrow> take (length p) s = p"

function remove_all :: "string \<Rightarrow> string \<Rightarrow> string" where
  \<comment> \<open>\<open>s.replace(p, "")\<close> for a nonempty \<open>p\<close>\<close>
  "remove_all p [] = []"
| "remove_all p (c # s) =
     (if p \<noteq> [] \<and> is_prefix p (c # s) then remove_all p (drop (length p) (c # s)) else c # remove_all p s)"
  by pat_completeness auto
termination by (relation "measure (\<lambda>(p, s). length s)") auto

lemma remove_all_none:
  assumes "p \<noteq> []" and "hd p \<notin> set s"
  shows "remove_all p s = s"
  using assms(2)
proof (induction s)
  case (Cons c s)
  then have "\<not> is_prefix p (c # s)" using assms(1) by (cases p) (auto simp: is_prefix_def)
  then show ?case using Cons by simp
qed simp

lemma remove_char: "remove_all [x] s = filter (\<lambda>c. c \<noteq> x) s"
  by (induction s) (auto simp: is_prefix_def)

section \<open>Numbers to base 16\<close>

fun hex_value :: "char \<Rightarrow> nat option" where
  "hex_value c =
     (let n = of_char c :: nat
      in if 48 \<le> n \<and> n \<le> 57 then Some (n - 48)
         else if 97 \<le> n \<and> n \<le> 102 then Some (n - 87)
         else if 65 \<le> n \<and> n \<le> 70 then Some (n - 55) else None)"

declare hex_value.simps [simp del]

fun hex_number :: "nat \<Rightarrow> string \<Rightarrow> nat option" where
  \<comment> \<open>digits, with single underscores between two of them\<close>
  "hex_number k [] = Some k"
| "hex_number k (c # s) =
     (if c = CHR ''_''
      then (case s of [] \<Rightarrow> None | d # s' \<Rightarrow> (case hex_value d of None \<Rightarrow> None | Some v \<Rightarrow> hex_number (16 * k + v) s'))
      else (case hex_value c of None \<Rightarrow> None | Some v \<Rightarrow> hex_number (16 * k + v) s))"

definition hex_literal :: "string \<Rightarrow> nat option" where
  \<comment> \<open>an optional prefix \<open>0x\<close>, after which an underscore may follow\<close>
  "hex_literal s =
     (let prefixed = is_prefix ''0x'' s \<or> is_prefix ''0X'' s;
          body = (if prefixed then drop 2 s else s)
      in if body = [] \<or> (\<not> prefixed \<and> hd body = CHR ''_'') then None else hex_number 0 body)"

definition int16 :: "string \<Rightarrow> int option" where
  \<comment> \<open>\<open>int(s, 16)\<close>; \<open>None\<close> for the \<open>ValueError\<close>\<close>
  "int16 s =
     (let t = strip s
      in if t \<noteq> [] \<and> hd t = CHR ''-'' then map_option (\<lambda>n. - int n) (hex_literal (tl t))
         else if t \<noteq> [] \<and> hd t = CHR ''+'' then map_option int (hex_literal (tl t))
         else map_option int (hex_literal t))"

definition parse_uuid :: "string \<Rightarrow> uuid option" where
  \<comment> \<open>\<open>uuid.UUID(s)\<close>\<close>
  "parse_uuid s =
     (let h = remove_all ''-'' (strip_of (\<lambda>c. c = CHR 0x7B \<or> c = CHR 0x7D)
                (remove_all ''uuid:'' (remove_all ''urn:'' s)))
      in if length h \<noteq> 32 then None
         else (case int16 h of
             None \<Rightarrow> None
           | Some n \<Rightarrow> if 0 \<le> n \<and> n < 2 ^ 128 then Some (nat n) else None))"

section \<open>The text of an identifier is read back\<close>

lemma of_hex_digit:
  "(of_char (hex_digit n) :: nat) = (if n mod 16 < 10 then 48 + n mod 16 else 87 + n mod 16)"
proof -
  have "list_all (\<lambda>k. (of_char (hex_digits ! k) :: nat) = (if k < 10 then 48 + k else 87 + k)) [0..<16]"
    by code_simp
  then show ?thesis by (simp add: hex_digit_def list_all_iff)
qed

lemma hex_value_digit: "hex_value (hex_digit n) = Some (n mod 16)"
proof -
  have "n mod 16 \<le> 15" by presburger
  then show ?thesis by (simp add: hex_value.simps of_hex_digit Let_def)
qed

lemma hex_digit_plain: "hex_digit n \<noteq> CHR ''_''" "\<not> py_space (hex_digit n)" "hex_digit n \<notin> set ''-+urxX{}''"
proof -
  have "hex_digit n \<in> set hex_digits" by (rule hex_digit_in)
  then show "hex_digit n \<noteq> CHR ''_''" "\<not> py_space (hex_digit n)" "hex_digit n \<notin> set ''-+urxX{}''"
    by (auto simp: hex_digits_def py_space_def)
qed

lemma hex_number_append: "hex_number k (hex_pad n m @ s) = hex_number (16 ^ n * k + m mod 16 ^ n) s"
proof (induction n arbitrary: k m s)
  case (Suc n)
  have "hex_number k (hex_pad (Suc n) m @ s) = hex_number (16 ^ n * k + (m div 16) mod 16 ^ n) (hex_digit m # s)"
    by (simp add: Suc.IH)
  also have "\<dots> = hex_number (16 * (16 ^ n * k + (m div 16) mod 16 ^ n) + m mod 16) s"
    by (simp add: hex_value_digit hex_digit_plain)
  also have "16 * (16 ^ n * k + (m div 16) mod 16 ^ n) + m mod 16 = 16 ^ Suc n * k + m mod 16 ^ Suc n"
    by (simp add: mod_mult2_eq algebra_simps)
  finally show ?case .
qed simp

lemma parse_hex: "length s = 32 \<Longrightarrow> s = uuid_hex u \<Longrightarrow> u < 2 ^ 128 \<Longrightarrow> int16 s = Some (int u)"
proof -
  assume len: "length s = 32" and s: "s = uuid_hex u" and u: "u < 2 ^ 128"
  have plain: "c \<in> set hex_digits" if "c \<in> set s" for c
    using that set_hex_pad by (auto simp: s uuid_hex_def)
  have "\<forall>c \<in> set hex_digits. \<not> py_space c" by (simp add: hex_digits_def py_space_def)
  then have spaces: "\<forall>c \<in> set s. \<not> py_space c" using plain by blast
  have chars: "x \<notin> set s" if "x \<in> set ''-+xX_''" for x
    using that plain by (auto simp: hex_digits_def)
  from len obtain c d t where t: "s = c # d # t" by (cases s; cases "tl s") auto
  have "\<not> is_prefix ''0x'' s" "\<not> is_prefix ''0X'' s" "hd s \<noteq> CHR ''_''" "hd s \<noteq> CHR ''-''" "hd s \<noteq> CHR ''+''"
    using chars [of "CHR ''x''"] chars [of "CHR ''X''"] chars [of "CHR ''_''"] chars [of "CHR ''-''"] chars [of "CHR ''+''"]
    by (auto simp: t is_prefix_def)
  then have "int16 s = map_option int (hex_number 0 s)"
    using strip_of_none [OF spaces] by (simp add: int16_def hex_literal_def Let_def t)
  moreover have "hex_number 0 s = Some u"
    using hex_number_append [of 0 32 u "[]"] u by (simp add: s uuid_hex_def)
  ultimately show ?thesis by simp
qed

text \<open>A \<open>uuid.UUID\<close> is the inverse of \<open>str\<close> on identifiers, with and without hyphens.\<close>

lemma take_block: "take a (drop j h) @ drop (j + a) h = drop j h"
  by (metis add.commute append_take_drop_id drop_drop)

lemma filter_str_uuid: "filter (\<lambda>c. c \<noteq> CHR ''-'') (str_uuid u) = uuid_hex u"
proof -
  have "c \<noteq> CHR ''-''" if "c \<in> set (uuid_hex u)" for c
    using that set_hex_pad [of 32 u] by (auto simp: uuid_hex_def hex_digits_def)
  then have keep: "filter (\<lambda>c. c \<noteq> CHR ''-'') (take k (drop j (uuid_hex u))) = take k (drop j (uuid_hex u))"
    "filter (\<lambda>c. c \<noteq> CHR ''-'') (drop j (uuid_hex u)) = drop j (uuid_hex u)" for j k
    by (auto simp: filter_id_conv dest: in_set_takeD in_set_dropD)
  have "filter (\<lambda>c. c \<noteq> CHR ''-'') (str_uuid u) = take 8 (drop 0 (uuid_hex u)) @ take 4 (drop 8 (uuid_hex u)) @
      take 4 (drop 12 (uuid_hex u)) @ take 4 (drop 16 (uuid_hex u)) @ drop 20 (uuid_hex u)"
    unfolding str_uuid_def Let_def filter_append using keep(1) [of _ 0] keep by simp
  also have "\<dots> = uuid_hex u"
    using take_block [of 4 16 "uuid_hex u"] take_block [of 4 12 "uuid_hex u"] take_block [of 4 8 "uuid_hex u"]
      take_block [of 8 0 "uuid_hex u"] by simp
  finally show ?thesis .
qed

lemma parse_uuid_of_hex:
  assumes "filter (\<lambda>c. c \<noteq> CHR ''-'') s = uuid_hex u" and "u < 2 ^ 128"
  shows "parse_uuid s = Some u"
proof -
  have hex: "c \<in> set hex_digits \<or> c = CHR ''-''" if "c \<in> set s" for c
    using that set_hex_pad [of 32 u] arg_cong [OF assms(1), of set] by (auto simp: uuid_hex_def)
  then have none: "CHR ''u'' \<notin> set s" "\<forall>c \<in> set s. \<not> (c = CHR 0x7B \<or> c = CHR 0x7D)"
    by (auto simp: hex_digits_def)
  have "remove_all ''-'' (strip_of (\<lambda>c. c = CHR 0x7B \<or> c = CHR 0x7D)
      (remove_all ''uuid:'' (remove_all ''urn:'' s))) = uuid_hex u"
    using none assms(1) by (simp add: remove_all_none strip_of_none remove_char)
  moreover have "length (uuid_hex u) = 32" by (simp add: uuid_hex_def)
  ultimately show ?thesis
    using parse_hex [OF _ refl assms(2)] assms(2) by (simp add: parse_uuid_def Let_def)
qed

lemma parse_str_uuid: "u < 2 ^ 128 \<Longrightarrow> parse_uuid (str_uuid u) = Some u"
  by (rule parse_uuid_of_hex [OF filter_str_uuid])
section \<open>Case\<close>

text \<open>
  \<open>str.lower\<close> and \<open>str.title\<close>. The capitals of two small letters of Latin-1 are outside of it;
  these letters stay as they are.
\<close>

definition is_upper :: "char \<Rightarrow> bool" where
  "is_upper c \<longleftrightarrow> (let n = of_char c :: nat in (65 \<le> n \<and> n \<le> 90) \<or> (192 \<le> n \<and> n \<le> 222 \<and> n \<noteq> 215))"

definition is_lower :: "char \<Rightarrow> bool" where
  "is_lower c \<longleftrightarrow> (let n = of_char c :: nat in
     (97 \<le> n \<and> n \<le> 122) \<or> (223 \<le> n \<and> n \<noteq> 247) \<or> n \<in> {170, 181, 186})"

definition lower_char :: "char \<Rightarrow> char" where
  "lower_char c = (if is_upper c then char_of (of_char c + 32 :: nat) else c)"

definition py_lower :: "string \<Rightarrow> string" where
  "py_lower s = map lower_char s"

definition title_char :: "char \<Rightarrow> string" where
  "title_char c =
     (let n = of_char c :: nat
      in if n = 223 then ''Ss''
         else if is_lower c \<and> n \<notin> {170, 181, 186, 255} then [char_of (n - 32)] else [c])"

fun title_from :: "bool \<Rightarrow> string \<Rightarrow> string" where
  \<comment> \<open>a letter after a letter becomes small, any other letter a capital\<close>
  "title_from after_letter [] = []"
| "title_from after_letter (c # s) =
     (if after_letter then [lower_char c] else title_char c) @ title_from (is_upper c \<or> is_lower c) s"

definition py_title :: "string \<Rightarrow> string" where
  "py_title s = title_from False s"

lemma lower_char_not_upper: "\<not> is_upper (lower_char c)"
proof (cases "is_upper c")
  case True
  then have "(of_char c :: nat) + 32 < 256" "97 \<le> (of_char c :: nat) + 32"
    "of_char c + 32 \<le> (122 :: nat) \<or> 224 \<le> (of_char c :: nat) + 32"
    by (auto simp: is_upper_def Let_def)
  then show ?thesis using True by (auto simp: lower_char_def is_upper_def Let_def)
qed (simp add: lower_char_def)

lemma lower_lower: "lower_char (lower_char c) = lower_char c"
  using lower_char_not_upper [of c] by (subst lower_char_def) simp

section \<open>Parts of a text\<close>

fun split_on :: "char \<Rightarrow> string \<Rightarrow> string list" where
  \<comment> \<open>\<open>s.split(x)\<close>\<close>
  "split_on x [] = [[]]"
| "split_on x (c # s) =
     (if c = x then [] # split_on x s
      else (case split_on x s of [] \<Rightarrow> [[c]] | p # ps \<Rightarrow> (c # p) # ps))"

definition replace_char :: "char \<Rightarrow> string \<Rightarrow> string \<Rightarrow> string" where
  \<comment> \<open>\<open>s.replace(x, r)\<close> for a single character \<open>x\<close>\<close>
  "replace_char x r s = concat (map (\<lambda>c. if c = x then r else [c]) s)"

definition dict_keys :: "'a list \<Rightarrow> 'a list" where
  \<comment> \<open>the keys of a dictionary filled in this order: the first occurrence counts\<close>
  "dict_keys xs = rev (remdups (rev xs))"

lemma set_dict_keys [simp]: "set (dict_keys xs) = set xs"
  by (simp add: dict_keys_def)

lemma distinct_dict_keys [simp]: "distinct (dict_keys xs)"
  by (simp add: dict_keys_def)

lemma dict_keys_distinct: "distinct xs \<Longrightarrow> dict_keys xs = xs"
  by (simp add: dict_keys_def distinct_remdups_id)

end
