(* ===== verification/Catalog.thy ===== *)
theory Catalog
  imports Complex_Main Ratings PyText
begin

text \<open>
  The public catalog: the query parameters of a listing and their validation
  (\<open>src/catalog/schemas/catalog.py\<close>), the product and category queries
  (\<open>src/catalog/repositories/\<close>), the services that build the responses
  (\<open>src/catalog/services/product_service.py\<close>, \<open>product_category_service.py\<close>) and the routes of
  \<open>src/api/v1/routers/catalog.py\<close>. What depends on the locale of the database is a parameter:
  \<open>db_lower\<close> is its \<open>lower\<close> (with which \<open>ILIKE\<close> folds both sides), \<open>collate\<close> the sort key of a
  text.
\<close>

section \<open>Query parameters\<close>

datatype sort_option = NEWEST | PRICE_ASC | PRICE_DESC

datatype acidity_bucket = SOFT | BALANCED | BRIGHT

fun acidity_bucket_value :: "acidity_bucket \<Rightarrow> string" where
  "acidity_bucket_value SOFT = ''soft''"
| "acidity_bucket_value BALANCED = ''balanced''"
| "acidity_bucket_value BRIGHT = ''bright''"

text \<open>A number of the query, of at most 16383 decimals: its exact value and its \<open>str\<close>.\<close>

record number =
  num_value :: rat
  num_text :: string

definition number_of_int :: "int \<Rightarrow> number" where
  "number_of_int n = \<lparr>num_value = of_int n, num_text = str_int n\<rparr>"

text \<open>
  The facets of a listing. In a \<open>ProductQuery\<close> the multi-valued ones are the raw text of the
  parameter, in \<open>ProductFilters\<close> its terms.
\<close>

record 'terms listing_facets =
  f_category_id :: "uuid option"
  f_price_min :: "number option"
  f_price_max :: "number option"
  f_min_rating :: "rat option"
  f_flavor_notes :: 'terms
  f_acidity :: "acidity_bucket option"
  f_region :: 'terms
  f_roast_level :: 'terms
  f_processing :: 'terms
  f_body_min :: "int option"
  f_body_max :: "int option"
  f_sweetness_min :: "int option"
  f_sweetness_max :: "int option"
  f_altitude_min :: "int option"
  f_altitude_max :: "int option"
  f_equipment_type :: 'terms
  f_power_min :: "int option"
  f_power_max :: "int option"
  f_warranty_min :: "int option"
  f_accessory_type :: 'terms
  f_consumable_type :: 'terms
  f_pack_min :: "int option"
  f_pack_max :: "int option"
  f_material :: 'terms

type_synonym ProductFilters = "string list listing_facets"

type_synonym ProductQuery = "string option listing_facets"

definition no_facets :: "'terms \<Rightarrow> 'terms listing_facets" where
  \<comment> \<open>the defaults of every field; \<open>none\<close> is the absent multi-valued facet\<close>
  "no_facets none = \<lparr>f_category_id = None, f_price_min = None, f_price_max = None, f_min_rating = None,
     f_flavor_notes = none, f_acidity = None, f_region = none, f_roast_level = none, f_processing = none,
     f_body_min = None, f_body_max = None, f_sweetness_min = None, f_sweetness_max = None,
     f_altitude_min = None, f_altitude_max = None, f_equipment_type = none, f_power_min = None,
     f_power_max = None, f_warranty_min = None, f_accessory_type = none, f_consumable_type = none,
     f_pack_min = None, f_pack_max = None, f_material = none\<rparr>"

definition has_coffee_filter :: "ProductFilters \<Rightarrow> bool" where
  "has_coffee_filter f \<longleftrightarrow> f_flavor_notes f \<noteq> [] \<or> f_region f \<noteq> [] \<or> f_roast_level f \<noteq> [] \<or>
     f_processing f \<noteq> [] \<or> f_acidity f \<noteq> None \<or>
     list_ex (\<lambda>v. v \<noteq> None) [f_body_min f, f_body_max f, f_sweetness_min f, f_sweetness_max f,
       f_altitude_min f, f_altitude_max f]"

definition has_equipment_filter :: "ProductFilters \<Rightarrow> bool" where
  "has_equipment_filter f \<longleftrightarrow> f_equipment_type f \<noteq> [] \<or>
     list_ex (\<lambda>v. v \<noteq> None) [f_power_min f, f_power_max f, f_warranty_min f]"

definition has_accessory_filter :: "ProductFilters \<Rightarrow> bool" where
  "has_accessory_filter f \<longleftrightarrow> f_accessory_type f \<noteq> []"

definition has_consumable_filter :: "ProductFilters \<Rightarrow> bool" where
  "has_consumable_filter f \<longleftrightarrow> f_consumable_type f \<noteq> [] \<or>
     list_ex (\<lambda>v. v \<noteq> None) [f_pack_min f, f_pack_max f]"

definition has_material_filter :: "ProductFilters \<Rightarrow> bool" where
  "has_material_filter f \<longleftrightarrow> f_material f \<noteq> []"

definition split_csv :: "string option \<Rightarrow> string list" where
  "split_csv raw =
     (case raw of
        None \<Rightarrow> []
      | Some s \<Rightarrow> if s = [] then []
          else dict_keys (map (\<lambda>part. py_lower (strip part)) (filter (\<lambda>part. strip part \<noteq> []) (split_on CHR '','' s))))"

definition invalid_filter :: "string \<Rightarrow> string \<Rightarrow> exn" where
  "invalid_filter name value = CatalogExn (CatalogInvalidFilterError name value)"

definition validate_range :: "string \<Rightarrow> number option \<Rightarrow> number option \<Rightarrow> exn + unit" where
  "validate_range name low high =
     (case (low, high) of
        (Some l, Some h) \<Rightarrow>
          if num_value l > num_value h then Inl (invalid_filter name (num_text l @ '' > '' @ num_text h)) else Inr ()
      | _ \<Rightarrow> Inr ())"

definition validate_int_range :: "string \<Rightarrow> int option \<Rightarrow> int option \<Rightarrow> exn + unit" where
  "validate_int_range name low high =
     validate_range name (map_option number_of_int low) (map_option number_of_int high)"

definition validate_enum_csv :: "string \<Rightarrow> string list \<Rightarrow> string list \<Rightarrow> exn + unit" where
  "validate_enum_csv name values members =
     (case find (\<lambda>v. v \<notin> set members) values of None \<Rightarrow> Inr () | Some v \<Rightarrow> Inl (invalid_filter name v))"

definition roast_levels :: "string list" where
  "roast_levels = map roast_level_value [RoastLIGHT, RoastMEDIUM, RoastDARK]"

definition processings :: "string list" where
  "processings = map processing_value [WASHED, NATURAL, ANAEROBIC, HONEY]"

definition equipment_types :: "string list" where
  "equipment_types = map equipment_type_value [EqMACHINE, EqGRINDER, EqBREWER, EqSCALE, EqOTHER]"

definition accessory_types :: "string list" where
  "accessory_types =
     map accessory_type_value [AcFILTER, AcTAMPER, AcSCALE, AcPITCHER, AcTHERMOMETER, AcKNOCKBOX, AcOTHER]"

definition consumable_types :: "string list" where
  "consumable_types = map consumable_type_value [CoFILTER, CoPODS, CoCLEANING, CoWATER, CoOTHER]"

fun first_error :: "(exn + unit) list \<Rightarrow> exn + unit" where
  \<comment> \<open>statements that raise or go on, in their order\<close>
  "first_error [] = Inr ()"
| "first_error (check # checks) = (case check of Inl e \<Rightarrow> Inl e | Inr _ \<Rightarrow> first_error checks)"

definition build_product_filters :: "ProductQuery \<Rightarrow> exn + ProductFilters" where
  "build_product_filters q =
     (let roasts = split_csv (f_roast_level q); procs = split_csv (f_processing q);
          equipment = split_csv (f_equipment_type q); accessories = split_csv (f_accessory_type q);
          consumables = split_csv (f_consumable_type q)
      in case first_error
             [validate_enum_csv ''roast_level'' roasts roast_levels,
              validate_enum_csv ''processing'' procs processings,
              validate_enum_csv ''equipment_type'' equipment equipment_types,
              validate_enum_csv ''accessory_type'' accessories accessory_types,
              validate_enum_csv ''consumable_type'' consumables consumable_types,
              validate_int_range ''body'' (f_body_min q) (f_body_max q),
              validate_int_range ''sweetness'' (f_sweetness_min q) (f_sweetness_max q),
              validate_int_range ''altitude'' (f_altitude_min q) (f_altitude_max q),
              validate_range ''price'' (f_price_min q) (f_price_max q),
              validate_int_range ''power'' (f_power_min q) (f_power_max q),
              validate_int_range ''pack'' (f_pack_min q) (f_pack_max q)] of
           Inl e \<Rightarrow> Inl e
         | Inr _ \<Rightarrow> Inr
             \<lparr>f_category_id = f_category_id q, f_price_min = f_price_min q, f_price_max = f_price_max q,
              f_min_rating = f_min_rating q, f_flavor_notes = split_csv (f_flavor_notes q),
              f_acidity = f_acidity q, f_region = split_csv (f_region q), f_roast_level = roasts,
              f_processing = procs, f_body_min = f_body_min q, f_body_max = f_body_max q,
              f_sweetness_min = f_sweetness_min q, f_sweetness_max = f_sweetness_max q,
              f_altitude_min = f_altitude_min q, f_altitude_max = f_altitude_max q,
              f_equipment_type = equipment, f_power_min = f_power_min q, f_power_max = f_power_max q,
              f_warranty_min = f_warranty_min q, f_accessory_type = accessories,
              f_consumable_type = consumables, f_pack_min = f_pack_min q, f_pack_max = f_pack_max q,
              f_material = split_csv (f_material q)\<rparr>)"
section \<open>Responses\<close>

record CoffeeAttributesDTO =
  ca_region :: string
  ca_roast_level :: string
  ca_processing :: string
  ca_acidity :: int
  ca_body :: int
  ca_sweetness :: int
  ca_altitude :: "int option"
  ca_flavor_notes :: "flavor_map option"

record EquipmentAttributesDTO =
  ea_equipment_type :: string
  ea_power_watts :: "int option"
  ea_warranty_months :: "int option"
  ea_width_cm :: "int option"
  ea_height_cm :: "int option"
  ea_depth_cm :: "int option"
  ea_weight_kg :: "int option"
  ea_material :: "string option"
  ea_other_options :: "json option"

record AccessoryAttributesDTO =
  aa_accessory_type :: string
  aa_material :: string
  aa_other_options :: "json option"

record ConsumableAttributesDTO =
  na_consumable_type :: string
  na_quantity_per_pack :: int
  na_unit_description :: string
  na_material :: "string option"
  na_expiry_months :: "int option"
  na_storage_conditions :: "string option"
  na_other_options :: "json option"

text \<open>The average rating is in tenths, prices and sizes in hundredths.\<close>

record ProductDTO =
  dto_id :: uuid
  dto_category_id :: uuid
  dto_name :: string
  dto_description :: "string option"
  dto_image_url :: "string option"
  dto_price :: money
  dto_currency :: string
  dto_product_type :: string
  dto_is_active :: bool
  dto_rating :: "int option"
  dto_rating_count :: int
  dto_user_rating :: "int option"
  dto_can_rate :: bool
  dto_coffee :: "CoffeeAttributesDTO option"
  dto_equipment :: "EquipmentAttributesDTO option"
  dto_accessory :: "AccessoryAttributesDTO option"
  dto_consumable :: "ConsumableAttributesDTO option"

record ProductDetailDTO = ProductDTO +
  dto_category_name :: string
  dto_rating_distribution :: "(string \<times> int) list option"
  dto_created_at :: datetime
  dto_updated_at :: datetime

record ProductListDTO =
  plist_items :: "ProductDTO list"
  plist_total :: nat
  plist_limit :: nat
  plist_offset :: nat

record ProductCategoryDTO =
  cat_id :: uuid
  cat_name :: string
  cat_description :: "string option"
  cat_product_type :: string
  cat_is_active :: bool

record ProductCategoryListDTO =
  clist_items :: "ProductCategoryDTO list"
  clist_total :: nat

section \<open>Product queries\<close>

text \<open>A product with its aggregate, of which the unique \<open>product_id\<close> admits one at most.\<close>

type_synonym product_row = "product \<times> product_rating option"

definition acidity_range :: "acidity_bucket \<Rightarrow> int \<times> int" where
  "acidity_range b = (case b of SOFT \<Rightarrow> (1, 2) | BALANCED \<Rightarrow> (3, 3) | BRIGHT \<Rightarrow> (4, 5))"

text \<open>The conditions of a WHERE clause, each present only when its facet is; NULL meets none of them.\<close>

definition at_least :: "int option \<Rightarrow> int option \<Rightarrow> bool" where
  "at_least low column = (case low of None \<Rightarrow> True | Some l \<Rightarrow> (case column of None \<Rightarrow> False | Some x \<Rightarrow> l \<le> x))"

definition at_most :: "int option \<Rightarrow> int option \<Rightarrow> bool" where
  "at_most high column = (case high of None \<Rightarrow> True | Some h \<Rightarrow> (case column of None \<Rightarrow> False | Some x \<Rightarrow> x \<le> h))"

definition one_of :: "string list \<Rightarrow> string option \<Rightarrow> bool" where
  "one_of terms column \<longleftrightarrow> terms = [] \<or> (case column of None \<Rightarrow> False | Some x \<Rightarrow> x \<in> set terms)"

definition flavor_keys :: "flavor_map option \<Rightarrow> string list" where
  \<comment> \<open>\<open>flavor_notes["keys"]\<close>, with no element when it is NULL\<close>
  "flavor_keys notes =
     (case notes of None \<Rightarrow> [] | Some m \<Rightarrow> (case map_of m ''keys'' of None \<Rightarrow> [] | Some ks \<Rightarrow> ks))"

definition coffee_matches :: "ProductFilters \<Rightarrow> product_coffee \<Rightarrow> bool" where
  "coffee_matches f c \<longleftrightarrow>
     (f_flavor_notes f = [] \<or> list_ex (\<lambda>key. key \<in> set (flavor_keys (cf_flavor_notes c))) (f_flavor_notes f)) \<and>
     one_of (f_region f) (Some (cf_region c)) \<and>
     one_of (f_roast_level f) (Some (roast_level_value (cf_roast_level c))) \<and>
     one_of (f_processing f) (Some (processing_value (cf_processing c))) \<and>
     (case f_acidity f of None \<Rightarrow> True
      | Some b \<Rightarrow> fst (acidity_range b) \<le> cf_acidity c \<and> cf_acidity c \<le> snd (acidity_range b)) \<and>
     at_least (f_body_min f) (Some (cf_body c)) \<and> at_most (f_body_max f) (Some (cf_body c)) \<and>
     at_least (f_sweetness_min f) (Some (cf_sweetness c)) \<and> at_most (f_sweetness_max f) (Some (cf_sweetness c)) \<and>
     at_least (f_altitude_min f) (cf_altitude c) \<and> at_most (f_altitude_max f) (cf_altitude c)"

definition apply_coffee_filters :: "database \<Rightarrow> ProductFilters \<Rightarrow> product \<Rightarrow> bool" where
  "apply_coffee_filters d f p \<longleftrightarrow>
     (if \<not> has_coffee_filter f then True
      else (case lookup (t_coffee d) (row_id p) of None \<Rightarrow> False | Some c \<Rightarrow> coffee_matches f c))"

definition equipment_matches :: "(string \<Rightarrow> string) \<Rightarrow> ProductFilters \<Rightarrow> product_equipment \<Rightarrow> bool" where
  "equipment_matches db_lower f e \<longleftrightarrow>
     one_of (f_equipment_type f) (Some (equipment_type_value (eq_type e))) \<and>
     at_least (f_power_min f) (eq_power_watts e) \<and> at_most (f_power_max f) (eq_power_watts e) \<and>
     at_least (f_warranty_min f) (eq_warranty_months e) \<and>
     one_of (f_material f) (map_option db_lower (eq_material e))"

definition accessory_matches :: "(string \<Rightarrow> string) \<Rightarrow> ProductFilters \<Rightarrow> product_accessories \<Rightarrow> bool" where
  "accessory_matches db_lower f a \<longleftrightarrow>
     one_of (f_accessory_type f) (Some (accessory_type_value (ac_type a))) \<and>
     one_of (f_material f) (Some (db_lower (ac_material a)))"

definition consumable_matches :: "(string \<Rightarrow> string) \<Rightarrow> ProductFilters \<Rightarrow> product_consumables \<Rightarrow> bool" where
  "consumable_matches db_lower f c \<longleftrightarrow>
     one_of (f_consumable_type f) (Some (consumable_type_value (co_type c))) \<and>
     at_least (f_pack_min f) (Some (co_quantity_per_pack c)) \<and> at_most (f_pack_max f) (Some (co_quantity_per_pack c)) \<and>
     one_of (f_material f) (map_option db_lower (co_material c))"

definition apply_type_filters ::
  "(string \<Rightarrow> string) \<Rightarrow> database \<Rightarrow> ProductFilters \<Rightarrow> product_type_name option \<Rightarrow> product \<Rightarrow> bool" where
  "apply_type_filters db_lower d f ty p \<longleftrightarrow>
     (if ty = Some TyEQUIPMENT \<and> (has_equipment_filter f \<or> has_material_filter f)
      then (case lookup (t_equipment d) (row_id p) of None \<Rightarrow> False | Some e \<Rightarrow> equipment_matches db_lower f e)
      else if ty = Some TyACCESSORIES \<and> (has_accessory_filter f \<or> has_material_filter f)
      then (case lookup (t_accessories d) (row_id p) of None \<Rightarrow> False | Some a \<Rightarrow> accessory_matches db_lower f a)
      else if ty = Some TyCONSUMABLES \<and> (has_consumable_filter f \<or> has_material_filter f)
      then (case lookup (t_consumables d) (row_id p) of None \<Rightarrow> False | Some c \<Rightarrow> consumable_matches db_lower f c)
      else True)"

text \<open>
  A number compared with a \<open>NUMERIC\<close> column is sent with the scale of the column, in units of its
  last decimal, and rounds half away from zero.
\<close>

definition numeric_bind :: "nat \<Rightarrow> rat \<Rightarrow> int" where
  "numeric_bind scale x =
     (if 0 \<le> x then \<lfloor>x * 10 ^ scale + 1 / 2\<rfloor> else - \<lfloor>- x * 10 ^ scale + 1 / 2\<rfloor>)"

definition apply_filters ::
  "(string \<Rightarrow> string) \<Rightarrow> database \<Rightarrow> ProductFilters \<Rightarrow> product_type_name option \<Rightarrow> product \<Rightarrow> bool" where
  "apply_filters db_lower d f ty p \<longleftrightarrow> p_is_active p \<and>
     (case f_category_id f of None \<Rightarrow> True | Some c \<Rightarrow> p_category_id p = c) \<and>
     (case f_price_min f of None \<Rightarrow> True | Some n \<Rightarrow> numeric_bind 2 (num_value n) \<le> p_price p) \<and>
     (case f_price_max f of None \<Rightarrow> True | Some n \<Rightarrow> p_price p \<le> numeric_bind 2 (num_value n)) \<and>
     (case f_min_rating f of None \<Rightarrow> True
      | Some r \<Rightarrow> list_ex (\<lambda>a. pr_product_id a = row_id p \<and> numeric_bind 1 r \<le> pr_average a) (t_product_ratings d)) \<and>
     apply_coffee_filters d f p \<and> apply_type_filters db_lower d f ty p"

text \<open>
  The parameters of the listing's statements that can be sent: the integers in the range of the
  columns they are compared with (\<open>smallint\<close> and \<open>integer\<close>), the price and the rating in that of
  theirs once rounded, the texts without NUL. Anything else fails when the statement is executed.
\<close>

definition bindable :: "ProductFilters \<Rightarrow> bool" where
  "bindable f \<longleftrightarrow>
     list_all (opt_fits (\<lambda>n. numeric_10_2 (numeric_bind 2 (num_value n)))) [f_price_min f, f_price_max f] \<and>
     opt_fits (\<lambda>r. numeric_2_1 (numeric_bind 1 r)) (f_min_rating f) \<and>
     list_all (opt_fits int2) [f_body_min f, f_body_max f, f_sweetness_min f, f_sweetness_max f] \<and>
     list_all (opt_fits int4) [f_altitude_min f, f_altitude_max f, f_power_min f, f_power_max f,
       f_warranty_min f, f_pack_min f, f_pack_max f] \<and>
     list_all (list_all no_nul) [f_flavor_notes f, f_region f, f_roast_level f, f_processing f,
       f_equipment_type f, f_accessory_type f, f_consumable_type f, f_material f]"

definition order_by :: "sort_option \<Rightarrow> product list \<Rightarrow> product list" where
  "order_by sorting ps =
     (case sorting of
        PRICE_ASC \<Rightarrow> sort_key (\<lambda>p. (p_price p, row_id p)) ps
      | PRICE_DESC \<Rightarrow> sort_key (\<lambda>p. (- p_price p, row_id p)) ps
      | NEWEST \<Rightarrow> sort_desc (\<lambda>p. (created_at p, row_id p)) ps)"

definition repo_rows :: "database \<Rightarrow> product list \<Rightarrow> nat \<Rightarrow> nat \<Rightarrow> product_row list" where
  \<comment> \<open>\<open>_rows\<close> of an ordered base query\<close>
  "repo_rows d ordered limit offset = map (\<lambda>p. (p, aggregate_row d (row_id p))) (paginate limit offset ordered)"

definition repo_list_products ::
  "(string \<Rightarrow> string) \<Rightarrow> ProductFilters \<Rightarrow> sort_option \<Rightarrow> nat \<Rightarrow> nat \<Rightarrow> product_type_name option \<Rightarrow> database \<Rightarrow>
   product_row list \<times> nat" where
  "repo_list_products db_lower f sorting limit offset ty d =
     (let base = filter (apply_filters db_lower d f ty) (t_products d)
      in (repo_rows d (order_by sorting base) limit offset, length base))"

definition repo_get_product :: "uuid \<Rightarrow> database \<Rightarrow> product_row option" where
  "repo_get_product i d = map_option (\<lambda>p. (p, aggregate_row d i)) (lookup (t_products d) i)"

text \<open>\<open>LIKE\<close> with the escape character \<open>\\<close>; no pattern of the repository ends in a single one.\<close>

function like :: "string \<Rightarrow> string \<Rightarrow> bool" where
  "like [] t = (t = [])"
| "like (c # p) t =
     (if c = CHR ''%'' then like p t \<or> (if t = [] then False else like (c # p) (tl t))
      else if t = [] then False
      else if c = CHR ''_'' then like p (tl t)
      else if c = CHR 0x5C then p \<noteq> [] \<and> hd p = hd t \<and> like (tl p) (tl t)
      else c = hd t \<and> like p (tl t))"
  by pat_completeness auto
termination by (relation "measure (\<lambda>(p, t). length p + length t)") (auto simp: neq_Nil_conv)

declare like.simps(2) [simp del]

definition escape_like :: "string \<Rightarrow> string" where
  "escape_like term =
     replace_char (CHR ''_'') [CHR 0x5C, CHR ''_'']
       (replace_char (CHR ''%'') [CHR 0x5C, CHR ''%'']
         (replace_char (CHR 0x5C) [CHR 0x5C, CHR 0x5C] term))"

definition name_matches :: "(string \<Rightarrow> string) \<Rightarrow> string \<Rightarrow> product \<Rightarrow> bool" where
  "name_matches db_lower q p \<longleftrightarrow> p_is_active p \<and>
     like (db_lower (''%'' @ escape_like q @ ''%'')) (db_lower (p_name p))"

definition repo_search ::
  "(string \<Rightarrow> string) \<Rightarrow> (string \<Rightarrow> 'k::linorder) \<Rightarrow> string \<Rightarrow> nat \<Rightarrow> nat \<Rightarrow> database \<Rightarrow> product_row list \<times> nat" where
  "repo_search db_lower collate q limit offset d =
     (let base = filter (name_matches db_lower q) (t_products d)
      in (repo_rows d (sort_key (\<lambda>p. (collate (p_name p), row_id p)) base) limit offset, length base))"
section \<open>The product service\<close>

definition coffee_dto :: "product_coffee \<Rightarrow> CoffeeAttributesDTO" where
  "coffee_dto c = \<lparr>ca_region = cf_region c, ca_roast_level = roast_level_value (cf_roast_level c),
     ca_processing = processing_value (cf_processing c), ca_acidity = cf_acidity c, ca_body = cf_body c,
     ca_sweetness = cf_sweetness c, ca_altitude = cf_altitude c, ca_flavor_notes = cf_flavor_notes c\<rparr>"

definition equipment_dto :: "product_equipment \<Rightarrow> EquipmentAttributesDTO" where
  "equipment_dto e = \<lparr>ea_equipment_type = equipment_type_value (eq_type e), ea_power_watts = eq_power_watts e,
     ea_warranty_months = eq_warranty_months e, ea_width_cm = eq_width_cm e, ea_height_cm = eq_height_cm e,
     ea_depth_cm = eq_depth_cm e, ea_weight_kg = eq_weight_kg e, ea_material = eq_material e,
     ea_other_options = eq_other_options e\<rparr>"

definition accessory_dto :: "product_accessories \<Rightarrow> AccessoryAttributesDTO" where
  "accessory_dto a = \<lparr>aa_accessory_type = accessory_type_value (ac_type a), aa_material = ac_material a,
     aa_other_options = ac_other_options a\<rparr>"

definition consumable_dto :: "product_consumables \<Rightarrow> ConsumableAttributesDTO" where
  "consumable_dto c = \<lparr>na_consumable_type = consumable_type_value (co_type c),
     na_quantity_per_pack = co_quantity_per_pack c, na_unit_description = co_unit_description c,
     na_material = co_material c, na_expiry_months = co_expiry_months c,
     na_storage_conditions = co_storage_conditions c, na_other_options = co_other_options c\<rparr>"

text \<open>The relationships of a loaded product; a missing one is read as \<open>None\<close>.\<close>

definition to_product_dto :: "database \<Rightarrow> product_row \<Rightarrow> exn + ProductDTO" where
  "to_product_dto d r =
     (let p = fst r; i = row_id p
      in case lookup (t_product_types d) (p_type_id p) of
           None \<Rightarrow> Inl AttributeError
         | Some ty \<Rightarrow> Inr
             \<lparr>dto_id = i, dto_category_id = p_category_id p, dto_name = p_name p, dto_description = p_description p,
              dto_image_url = p_image_url p, dto_price = p_price p, dto_currency = p_currency p,
              dto_product_type = pt_name ty, dto_is_active = p_is_active p,
              dto_rating = map_option pr_average (snd r),
              dto_rating_count = (case snd r of None \<Rightarrow> 0 | Some a \<Rightarrow> pr_total a),
              dto_user_rating = None, dto_can_rate = False,
              dto_coffee = map_option coffee_dto (lookup (t_coffee d) i),
              dto_equipment = map_option equipment_dto (lookup (t_equipment d) i),
              dto_accessory = map_option accessory_dto (lookup (t_accessories d) i),
              dto_consumable = map_option consumable_dto (lookup (t_consumables d) i)\<rparr>)"

definition to_detail_dto :: "database \<Rightarrow> product_row \<Rightarrow> exn + ProductDetailDTO" where
  "to_detail_dto d r =
     (case to_product_dto d r of
        Inl e \<Rightarrow> Inl e
      | Inr dto \<Rightarrow>
          (case lookup (t_categories d) (p_category_id (fst r)) of
             None \<Rightarrow> Inl AttributeError
           | Some c \<Rightarrow> Inr (ProductDTO.extend dto
               (ProductDetailDTO.fields (pc_name c) (map_option pr_distribution (snd r))
                 (created_at (fst r)) (updated_at (fst r))))))"

definition not_a_product_type :: "string \<Rightarrow> exn" where
  "not_a_product_type s = ValueError ([CHR 0x27] @ s @ [CHR 0x27] @ '' is not a valid ProductTypeName'')"

definition resolve_scope_type :: "ProductFilters \<Rightarrow> product_type_name option session" where
  "resolve_scope_type f =
     (case f_category_id f of
        None \<Rightarrow> ret None
      | Some i \<Rightarrow>
          bind (fetch (\<lambda>d. case lookup (t_categories d) i of None \<Rightarrow> None
                           | Some c \<Rightarrow> lookup (t_product_types d) (pc_product_type_id c))
                  (invalid_filter ''product_category_id'' (str_uuid i))) (\<lambda>ty.
          case product_type_of (pt_name ty) of
            None \<Rightarrow> raise (not_a_product_type (pt_name ty))
          | Some n \<Rightarrow> ret (Some n)))"

definition validate_type_facets :: "ProductFilters \<Rightarrow> product_type_name option \<Rightarrow> exn + unit" where
  "validate_type_facets f ty = first_error
     [if has_equipment_filter f \<and> ty \<noteq> Some TyEQUIPMENT
      then Inl (invalid_filter ''equipment_type'' ''requires an equipment category'') else Inr (),
      if has_accessory_filter f \<and> ty \<noteq> Some TyACCESSORIES
      then Inl (invalid_filter ''accessory_type'' ''requires an accessory category'') else Inr (),
      if has_consumable_filter f \<and> ty \<noteq> Some TyCONSUMABLES
      then Inl (invalid_filter ''consumable_type'' ''requires a consumable category'') else Inr (),
      if has_material_filter f \<and> ty \<notin> {Some TyEQUIPMENT, Some TyACCESSORIES, Some TyCONSUMABLES}
      then Inl (invalid_filter ''material'' ''requires a non-coffee category'') else Inr ()]"

definition enrich :: "'a ProductDTO_scheme list \<Rightarrow> uuid option \<Rightarrow> 'a ProductDTO_scheme list session" where
  "enrich dtos user_id =
     (case user_id of
        None \<Rightarrow> ret dtos
      | Some u \<Rightarrow>
          if dtos = [] then ret dtos
          else
            bind (get_user_ratings_map u (map dto_id dtos)) (\<lambda>ratings_map.
            bind (get_purchased_product_ids u (map dto_id dtos)) (\<lambda>bought.
            ret (map (\<lambda>dto. dto\<lparr>dto_user_rating := ratings_map (dto_id dto), dto_can_rate := dto_id dto \<in> bought\<rparr>) dtos))))"

definition product_list :: "product_row list \<times> nat \<Rightarrow> nat \<Rightarrow> nat \<Rightarrow> uuid option \<Rightarrow> ProductListDTO session" where
  \<comment> \<open>the common end of the listing and the search\<close>
  "product_list found limit offset user_id =
     bind (query (\<lambda>d. map_sum_list (to_product_dto d) (fst found))) (\<lambda>mapped.
     bind (of_sum mapped) (\<lambda>dtos.
     bind (enrich dtos user_id) (\<lambda>items.
     ret \<lparr>plist_items = items, plist_total = snd found, plist_limit = limit, plist_offset = offset\<rparr>)))"

definition list_products ::
  "(string \<Rightarrow> string) \<Rightarrow> ProductFilters \<Rightarrow> sort_option \<Rightarrow> nat \<Rightarrow> nat \<Rightarrow> uuid option \<Rightarrow> ProductListDTO session" where
  "list_products db_lower f sorting limit offset user_id =
     bind (resolve_scope_type f) (\<lambda>ty.
     bind (of_sum (validate_type_facets f ty)) (\<lambda>_.
     bind (require (bindable f \<and> page_bindable limit offset) DataError) (\<lambda>_.
     bind (query (repo_list_products db_lower f sorting limit offset ty)) (\<lambda>found.
     product_list found limit offset user_id))))"

definition get_product :: "uuid \<Rightarrow> uuid option \<Rightarrow> ProductDetailDTO session" where
  "get_product i user_id =
     bind (fetch (repo_get_product i) (CatalogExn (ProductNotFoundError i))) (\<lambda>r.
     bind (query (\<lambda>d. to_detail_dto d r)) (\<lambda>mapped.
     bind (of_sum mapped) (\<lambda>dto.
     bind (enrich [dto] user_id) (\<lambda>dtos. ret (hd dtos)))))"

definition search_products ::
  "(string \<Rightarrow> string) \<Rightarrow> (string \<Rightarrow> 'k::linorder) \<Rightarrow> string \<Rightarrow> nat \<Rightarrow> nat \<Rightarrow> uuid option \<Rightarrow> ProductListDTO session" where
  "search_products db_lower collate q limit offset user_id =
     bind (require (no_nul q \<and> page_bindable limit offset) DataError) (\<lambda>_.
     bind (query (repo_search db_lower collate q limit offset)) (\<lambda>found. product_list found limit offset user_id))"

section \<open>Categories\<close>

definition category_dto :: "database \<Rightarrow> product_category \<Rightarrow> exn + ProductCategoryDTO" where
  "category_dto d c =
     (case lookup (t_product_types d) (pc_product_type_id c) of
        None \<Rightarrow> Inl AttributeError
      | Some ty \<Rightarrow> Inr \<lparr>cat_id = row_id c, cat_name = pc_name c, cat_description = pc_description c,
          cat_product_type = pt_name ty, cat_is_active = pc_is_active c\<rparr>)"

definition list_categories_of :: "(database \<Rightarrow> product_category list) \<Rightarrow> ProductCategoryListDTO session" where
  "list_categories_of rows =
     bind (query (\<lambda>d. map_sum_list (category_dto d) (rows d))) (\<lambda>mapped.
     bind (of_sum mapped) (\<lambda>items. ret \<lparr>clist_items = items, clist_total = length items\<rparr>))"

definition list_active :: "(string \<Rightarrow> 'k::linorder) \<Rightarrow> database \<Rightarrow> product_category list" where
  "list_active collate d = sort_key (\<lambda>c. collate (pc_name c)) (filter pc_is_active (t_categories d))"

definition list_all_categories :: "(string \<Rightarrow> 'k::linorder) \<Rightarrow> database \<Rightarrow> product_category list" where
  "list_all_categories collate d = sort_key (\<lambda>c. collate (pc_name c)) (t_categories d)"

definition list_categories :: "(string \<Rightarrow> 'k::linorder) \<Rightarrow> ProductCategoryListDTO session" where
  "list_categories collate = list_categories_of (list_active collate)"

section \<open>Endpoints\<close>

text \<open>\<open>caller\<close> is what \<open>optional_auth\<close> returns.\<close>

definition list_products_endpoint ::
  "(string \<Rightarrow> string) \<Rightarrow> user option session \<Rightarrow> ProductQuery \<Rightarrow> sort_option \<Rightarrow> nat \<Rightarrow> nat \<Rightarrow> ProductListDTO session" where
  "list_products_endpoint db_lower caller q sorting limit offset = unit_of_work (
     bind caller (\<lambda>user.
     bind (of_sum (build_product_filters q)) (\<lambda>f.
     list_products db_lower f sorting limit offset (map_option row_id user))))"

definition search_products_endpoint ::
  "(string \<Rightarrow> string) \<Rightarrow> (string \<Rightarrow> 'k::linorder) \<Rightarrow> user option session \<Rightarrow> string \<Rightarrow> nat \<Rightarrow> nat \<Rightarrow> ProductListDTO session" where
  "search_products_endpoint db_lower collate caller q limit offset = unit_of_work (
     bind caller (\<lambda>user. search_products db_lower collate q limit offset (map_option row_id user)))"

definition get_product_endpoint :: "user option session \<Rightarrow> uuid \<Rightarrow> ProductDetailDTO session" where
  "get_product_endpoint caller i = unit_of_work (bind caller (\<lambda>user. get_product i (map_option row_id user)))"

section \<open>Rows and responses\<close>

lemma enrich_run:
  assumes "enrich dtos u w = (r, w')"
  shows "w' = w \<and> (\<exists>items. r = Inr items \<and> map dto_id items = map dto_id dtos \<and>
    map (\<lambda>x. x\<lparr>dto_user_rating := None, dto_can_rate := False\<rparr>) items =
    map (\<lambda>x. x\<lparr>dto_user_rating := None, dto_can_rate := False\<rparr>) dtos)"
  using assms
  by (auto simp: enrich_def get_user_ratings_map_def get_purchased_product_ids_def svc_simps o_def
      split: option.splits if_splits)

lemma product_dto_id: "to_product_dto d r = Inr dto \<Longrightarrow> dto_id dto = row_id (fst r)"
  by (auto simp: to_product_dto_def Let_def split: option.splits)

lemma product_dtos_id: "map (to_product_dto d) rows = map Inr dtos \<Longrightarrow> map dto_id dtos = map (\<lambda>r. row_id (fst r)) rows"
proof (induction rows arbitrary: dtos)
  case (Cons r rows)
  then show ?case by (cases dtos) (auto dest: product_dto_id)
qed simp

lemma product_list_run:
  assumes "product_list found limit offset u w = (Inr res, w')"
  shows "w' = w \<and> map dto_id (plist_items res) = map (\<lambda>r. row_id (fst r)) (fst found) \<and>
    plist_total res = snd found"
proof -
  from assms obtain dtos items where dtos: "map_sum_list (to_product_dto (wdb w)) (fst found) = Inr dtos"
    and items: "enrich dtos u w = (Inr items, w')"
    and res: "res = \<lparr>plist_items = items, plist_total = snd found, plist_limit = limit, plist_offset = offset\<rparr>"
    unfolding product_list_def by (auto simp: svc_simps split: sum.splits elim!: bind_InrE)
  from enrich_run [OF items] product_dtos_id dtos show ?thesis
    unfolding res by (auto simp: map_sum_list_Inr)
qed

lemma repo_rows_products: "map fst (repo_rows d ps limit offset) = paginate limit offset ps"
  by (simp add: repo_rows_def o_def)

lemma rows_ids: "map (\<lambda>r. row_id (fst r)) (repo_rows d ps limit offset) = map row_id (paginate limit offset ps)"
  by (simp add: repo_rows_def o_def)

end
