(* ===== verification/CatalogAdmin.thy ===== *)
theory CatalogAdmin
  imports Catalog ServiceAuth
begin

text \<open>
  The administration of the catalog: the request models (\<open>src/catalog/admin/schemas.py\<close>), the
  writes of products and categories (\<open>src/catalog/admin/service.py\<close>) and the routes of
  \<open>src/api/v1/routers/admin_catalog.py\<close>. Decimal numbers of a request are exact rationals;
  a \<open>Numeric\<close> column rounds them to its scale.
\<close>

section \<open>Requests\<close>

record CoffeeAttributesIn =
  ci_region :: string
  ci_roast_level :: roast_level
  ci_processing :: processing_method
  ci_acidity :: int
  ci_body :: int
  ci_sweetness :: int
  ci_altitude :: "int option"
  ci_flavor_notes :: "flavor_map option"

record EquipmentAttributesIn =
  ei_equipment_type :: equipment_type
  ei_power_watts :: "int option"
  ei_warranty_months :: "int option"
  ei_width_cm :: "rat option"
  ei_height_cm :: "rat option"
  ei_depth_cm :: "rat option"
  ei_weight_kg :: "rat option"
  ei_material :: "string option"
  ei_other_options :: "json option"

record AccessoryAttributesIn =
  ai_accessory_type :: accessory_type
  ai_material :: string
  ai_other_options :: "json option"

record ConsumableAttributesIn =
  ni_consumable_type :: consumable_type
  ni_quantity_per_pack :: int
  ni_unit_description :: string
  ni_material :: "string option"
  ni_expiry_months :: "int option"
  ni_storage_conditions :: "string option"
  ni_other_options :: "json option"

datatype ProductAttributesIn =
    CoffeeBlock CoffeeAttributesIn
  | EquipmentBlock EquipmentAttributesIn
  | AccessoryBlock AccessoryAttributesIn
  | ConsumableBlock ConsumableAttributesIn

record ProductWrite =
  pw_product_name :: string
  pw_description :: "string option"
  pw_image_url :: "string option"
  pw_category_id :: uuid
  pw_price :: rat
  pw_currency :: string
  pw_coffee :: "CoffeeAttributesIn option"
  pw_equipment :: "EquipmentAttributesIn option"
  pw_accessory :: "AccessoryAttributesIn option"
  pw_consumable :: "ConsumableAttributesIn option"

record ProductCreate = ProductWrite +
  pw_product_type :: product_type_name

record ProductCategoryCreate =
  cc_name :: string
  cc_description :: "string option"
  cc_product_type :: product_type_name
  cc_is_active :: bool

record ProductCategoryUpdate =
  cu_name :: "string option"
  cu_description :: "string option"
  cu_product_type :: "product_type_name option"
  cu_is_active :: "bool option"

text \<open>The bounds of the fields; a number that is absent meets each of them.\<close>

definition valid_coffee :: "CoffeeAttributesIn \<Rightarrow> bool" where
  "valid_coffee a \<longleftrightarrow> ci_region a \<noteq> [] \<and> length (ci_region a) \<le> 100 \<and>
     list_all (\<lambda>n. 1 \<le> n \<and> n \<le> 5) [ci_acidity a, ci_body a, ci_sweetness a] \<and> opt_fits (\<lambda>n. 0 \<le> n) (ci_altitude a)"

definition valid_equipment :: "EquipmentAttributesIn \<Rightarrow> bool" where
  "valid_equipment a \<longleftrightarrow> opt_fits (\<lambda>n. 0 < n) (ei_power_watts a) \<and> opt_fits (\<lambda>n. 0 \<le> n) (ei_warranty_months a) \<and>
     list_all (opt_fits (\<lambda>x. 0 < x)) [ei_width_cm a, ei_height_cm a, ei_depth_cm a, ei_weight_kg a] \<and>
     opt_fits (\<lambda>s. length s \<le> 100) (ei_material a)"

definition valid_accessory :: "AccessoryAttributesIn \<Rightarrow> bool" where
  "valid_accessory a \<longleftrightarrow> ai_material a \<noteq> [] \<and> length (ai_material a) \<le> 100"

definition valid_consumable :: "ConsumableAttributesIn \<Rightarrow> bool" where
  "valid_consumable a \<longleftrightarrow> 1 \<le> ni_quantity_per_pack a \<and> ni_unit_description a \<noteq> [] \<and>
     length (ni_unit_description a) \<le> 50 \<and> opt_fits (\<lambda>s. length s \<le> 100) (ni_material a) \<and>
     opt_fits (\<lambda>n. 1 \<le> n) (ni_expiry_months a) \<and> opt_fits (\<lambda>s. length s \<le> 255) (ni_storage_conditions a)"

definition valid_product_write :: "'a ProductWrite_scheme \<Rightarrow> bool" where
  "valid_product_write r \<longleftrightarrow> pw_product_name r \<noteq> [] \<and> length (pw_product_name r) \<le> 255 \<and>
     opt_fits (\<lambda>s. length s \<le> 500) (pw_image_url r) \<and> 0 < pw_price r \<and> length (pw_currency r) = 3 \<and>
     opt_fits valid_coffee (pw_coffee r) \<and> opt_fits valid_equipment (pw_equipment r) \<and>
     opt_fits valid_accessory (pw_accessory r) \<and> opt_fits valid_consumable (pw_consumable r)"

text \<open>Which blocks a request carries, in the order of the code's dictionary.\<close>

definition present_blocks :: "'a ProductWrite_scheme \<Rightarrow> product_type_name list" where
  "present_blocks r =
     (if pw_coffee r = None then [] else [TyCOFFEE]) @ (if pw_equipment r = None then [] else [TyEQUIPMENT]) @
     (if pw_accessory r = None then [] else [TyACCESSORIES]) @ (if pw_consumable r = None then [] else [TyCONSUMABLES])"

definition attributes_match_type :: "ProductCreate \<Rightarrow> bool" where
  "attributes_match_type r \<longleftrightarrow> pw_product_type r \<in> set (present_blocks r) \<and>
     filter (\<lambda>t. t \<noteq> pw_product_type r) (present_blocks r) = []"

definition exactly_one_block :: "ProductWrite \<Rightarrow> bool" where
  "exactly_one_block r \<longleftrightarrow> length (present_blocks r) = 1"

definition valid_category_create :: "ProductCategoryCreate \<Rightarrow> bool" where
  "valid_category_create r \<longleftrightarrow> cc_name r \<noteq> [] \<and> length (cc_name r) \<le> 200"

definition valid_category_update :: "ProductCategoryUpdate \<Rightarrow> bool" where
  "valid_category_update r \<longleftrightarrow> opt_fits (\<lambda>s. s \<noteq> [] \<and> length s \<le> 200) (cu_name r)"

definition attributes :: "'a ProductWrite_scheme \<Rightarrow> exn + ProductAttributesIn" where
  "attributes r =
     (case pw_coffee r of Some a \<Rightarrow> Inr (CoffeeBlock a)
      | None \<Rightarrow> (case pw_equipment r of Some a \<Rightarrow> Inr (EquipmentBlock a)
      | None \<Rightarrow> (case pw_accessory r of Some a \<Rightarrow> Inr (AccessoryBlock a)
      | None \<Rightarrow> (case pw_consumable r of Some a \<Rightarrow> Inr (ConsumableBlock a)
      | None \<Rightarrow> Inl AssertionError))))"

definition block_type :: "ProductAttributesIn \<Rightarrow> product_type_name" where
  "block_type attrs =
     (case attrs of CoffeeBlock _ \<Rightarrow> TyCOFFEE | EquipmentBlock _ \<Rightarrow> TyEQUIPMENT
      | AccessoryBlock _ \<Rightarrow> TyACCESSORIES | ConsumableBlock _ \<Rightarrow> TyCONSUMABLES)"

section \<open>Attribute rows\<close>

definition hundredths :: "rat \<Rightarrow> int" where
  \<comment> \<open>a \<open>Numeric\<close> of scale 2 rounds half away from zero\<close>
  "hundredths x = (if 0 \<le> x then \<lfloor>x * 100 + 1 / 2\<rfloor> else - \<lfloor>- x * 100 + 1 / 2\<rfloor>)"

definition coffee_row :: "uuid \<Rightarrow> CoffeeAttributesIn \<Rightarrow> datetime \<Rightarrow> product_coffee" where
  "coffee_row i a t = \<lparr>row_id = i, created_at = t, updated_at = t, cf_region = ci_region a,
     cf_roast_level = ci_roast_level a, cf_acidity = ci_acidity a, cf_body = ci_body a,
     cf_sweetness = ci_sweetness a, cf_processing = ci_processing a, cf_altitude = ci_altitude a,
     cf_flavor_notes = ci_flavor_notes a\<rparr>"

definition equipment_row :: "uuid \<Rightarrow> EquipmentAttributesIn \<Rightarrow> datetime \<Rightarrow> product_equipment" where
  "equipment_row i a t = \<lparr>row_id = i, created_at = t, updated_at = t, eq_type = ei_equipment_type a,
     eq_power_watts = ei_power_watts a, eq_warranty_months = ei_warranty_months a,
     eq_width_cm = map_option hundredths (ei_width_cm a), eq_height_cm = map_option hundredths (ei_height_cm a),
     eq_depth_cm = map_option hundredths (ei_depth_cm a), eq_weight_kg = map_option hundredths (ei_weight_kg a),
     eq_material = ei_material a, eq_other_options = ei_other_options a\<rparr>"

definition accessory_row :: "uuid \<Rightarrow> AccessoryAttributesIn \<Rightarrow> datetime \<Rightarrow> product_accessories" where
  "accessory_row i a t = \<lparr>row_id = i, created_at = t, updated_at = t, ac_type = ai_accessory_type a,
     ac_material = ai_material a, ac_other_options = ai_other_options a\<rparr>"

definition consumable_row :: "uuid \<Rightarrow> ConsumableAttributesIn \<Rightarrow> datetime \<Rightarrow> product_consumables" where
  "consumable_row i a t = \<lparr>row_id = i, created_at = t, updated_at = t, co_type = ni_consumable_type a,
     co_quantity_per_pack = ni_quantity_per_pack a, co_unit_description = ni_unit_description a,
     co_material = ni_material a, co_other_options = ni_other_options a, co_expiry_months = ni_expiry_months a,
     co_storage_conditions = ni_storage_conditions a\<rparr>"

abbreviation "insert_coffee \<equiv> db_insert t_coffee t_coffee_update fits_coffee ok_coffee"
abbreviation "insert_equipment \<equiv> db_insert t_equipment t_equipment_update fits_equipment ok_equipment"
abbreviation "insert_accessories \<equiv> db_insert t_accessories t_accessories_update fits_accessories ok_accessories"
abbreviation "insert_consumables \<equiv> db_insert t_consumables t_consumables_update fits_consumables ok_consumables"

definition add_subtype_row :: "uuid \<Rightarrow> ProductAttributesIn \<Rightarrow> unit session" where
  "add_subtype_row i attrs =
     bind (gets now) (\<lambda>t.
     case attrs of
       CoffeeBlock a \<Rightarrow> insert_coffee (coffee_row i a t)
     | EquipmentBlock a \<Rightarrow> insert_equipment (equipment_row i a t)
     | AccessoryBlock a \<Rightarrow> insert_accessories (accessory_row i a t)
     | ConsumableBlock a \<Rightarrow> insert_consumables (consumable_row i a t))"

definition delete_subtype_row :: "product_type_name \<Rightarrow> uuid \<Rightarrow> unit session" where
  \<comment> \<open>the row of \<open>_SUBTYPE_MODEL[product_type]\<close>, if there is one\<close>
  "delete_subtype_row ty i =
     (case ty of
        TyCOFFEE \<Rightarrow> db_delete t_coffee_update (\<lambda>_ _. False) i
      | TyEQUIPMENT \<Rightarrow> db_delete t_equipment_update (\<lambda>_ _. False) i
      | TyACCESSORIES \<Rightarrow> db_delete t_accessories_update (\<lambda>_ _. False) i
      | TyCONSUMABLES \<Rightarrow> db_delete t_consumables_update (\<lambda>_ _. False) i)"

section \<open>Products\<close>

definition resolve_product_type :: "product_type_name \<Rightarrow> uuid session" where
  "resolve_product_type name =
     fetch (\<lambda>d. map_option row_id (find (\<lambda>ty. pt_name ty = product_type_value name) (t_product_types d)))
       (CatalogExn (CatalogReferenceError ''product_type'' (product_type_value name)))"

definition require_category :: "uuid \<Rightarrow> product_category session" where
  "require_category i =
     fetch (\<lambda>d. lookup (t_categories d) i) (CatalogExn (CatalogReferenceError ''product_category_id'' (str_uuid i)))"

definition new_product :: "'a ProductWrite_scheme \<Rightarrow> uuid \<Rightarrow> uuid \<Rightarrow> datetime \<Rightarrow> product" where
  "new_product r type_id i t = \<lparr>row_id = i, created_at = t, updated_at = t, p_name = pw_product_name r,
     p_description = pw_description r, p_image_url = pw_image_url r, p_category_id = pw_category_id r,
     p_type_id = type_id, p_price = hundredths (pw_price r), p_currency = pw_currency r, p_is_active = True\<rparr>"

definition create_product :: "ProductCreate \<Rightarrow> ProductDetailDTO session" where
  "create_product r =
     bind (require_category (pw_category_id r)) (\<lambda>_.
     bind (resolve_product_type (pw_product_type r)) (\<lambda>type_id.
     bind (add_product (new_product r type_id)) (\<lambda>p.
     bind (of_sum (attributes r)) (\<lambda>attrs.
     bind (add_subtype_row (row_id p) attrs) (\<lambda>_.
     get_product (row_id p) None)))))"

definition rewritten_product :: "'a ProductWrite_scheme \<Rightarrow> datetime \<Rightarrow> product \<Rightarrow> product" where
  \<comment> \<open>a price that only rounds to the stored one still is a change, which sets \<open>updated_at\<close>\<close>
  "rewritten_product r t p =
     (let p' = p\<lparr>p_name := pw_product_name r, p_description := pw_description r, p_image_url := pw_image_url r,
                 p_category_id := pw_category_id r, p_price := hundredths (pw_price r), p_currency := pw_currency r\<rparr>
      in if p' = p \<and> of_int (p_price p) / 100 \<noteq> pw_price r then p\<lparr>updated_at := t\<rparr> else p')"

definition update_product :: "uuid \<Rightarrow> ProductWrite \<Rightarrow> ProductDetailDTO session" where
  "update_product i r =
     bind (require_product i) (\<lambda>p.
     bind (require_category (pw_category_id r)) (\<lambda>_.
     bind (fetch (\<lambda>d. lookup (t_product_types d) (p_type_id p)) (CatalogExn (ProductNotFoundError i))) (\<lambda>ty.
     case product_type_of (pt_name ty) of
       None \<Rightarrow> raise (not_a_product_type (pt_name ty))
     | Some n \<Rightarrow>
         bind (of_sum (attributes r)) (\<lambda>attrs.
         bind (require (block_type attrs = n) (CatalogExn (ProductTypeMismatchError (product_type_value n)))) (\<lambda>_.
         bind (gets now) (\<lambda>t.
         bind (save_product (rewritten_product r t p)) (\<lambda>_.
         bind (delete_subtype_row n i) (\<lambda>_.
         bind (add_subtype_row i attrs) (\<lambda>_.
         get_product i None)))))))))"

definition product_is_held :: "database \<Rightarrow> uuid \<Rightarrow> bool" where
  \<comment> \<open>the RESTRICT references to a product\<close>
  "product_is_held d i \<longleftrightarrow> list_ex (\<lambda>l. op_product_id l = i) (t_order_products d) \<or>
     list_ex (\<lambda>l. sp_product_id l = i) (t_sub_products d)"

definition cascade_product :: "uuid \<Rightarrow> database \<Rightarrow> database" where
  \<comment> \<open>the CASCADE references\<close>
  "cascade_product i d = d\<lparr>
     t_coffee := remove_row i (t_coffee d), t_equipment := remove_row i (t_equipment d),
     t_accessories := remove_row i (t_accessories d), t_consumables := remove_row i (t_consumables d),
     t_compatibility := filter (\<lambda>x. cmp_accessory_id x \<noteq> i \<and> cmp_compatible_id x \<noteq> i) (t_compatibility d),
     t_ratings := filter (\<lambda>x. r_product_id x \<noteq> i) (t_ratings d),
     t_product_ratings := filter (\<lambda>x. pr_product_id x \<noteq> i) (t_product_ratings d)\<rparr>"

definition delete_product :: "uuid \<Rightarrow> unit session" where
  "delete_product i =
     bind (require_product i) (\<lambda>_.
     bind (db_delete t_products_update product_is_held i) (\<lambda>_.
     modify (\<lambda>w. w\<lparr>wdb := cascade_product i (wdb w)\<rparr>)))"

section \<open>Categories\<close>

definition product_type_name_of :: "uuid \<Rightarrow> string session" where
  "product_type_name_of i =
     fetch (\<lambda>d. map_option pt_name (lookup (t_product_types d) i))
       (CatalogExn (CatalogReferenceError ''product_type_id'' (str_uuid i)))"

definition create_category :: "ProductCategoryCreate \<Rightarrow> ProductCategoryDTO session" where
  "create_category r =
     bind (resolve_product_type (cc_product_type r)) (\<lambda>type_id.
     bind (add_category (\<lambda>i t. \<lparr>row_id = i, created_at = t, updated_at = t, pc_name = cc_name r,
             pc_description = cc_description r, pc_product_type_id = type_id, pc_is_active = cc_is_active r\<rparr>)) (\<lambda>c.
     ret \<lparr>cat_id = row_id c, cat_name = pc_name c, cat_description = pc_description c,
          cat_product_type = product_type_value (cc_product_type r), cat_is_active = pc_is_active c\<rparr>))"

definition update_category :: "uuid \<Rightarrow> ProductCategoryUpdate \<Rightarrow> ProductCategoryDTO session" where
  "update_category i r =
     bind (fetch (\<lambda>d. lookup (t_categories d) i) (CatalogExn (ProductCategoryNotFoundError i))) (\<lambda>c.
     bind (case cu_product_type r of None \<Rightarrow> ret (pc_product_type_id c) | Some n \<Rightarrow> resolve_product_type n) (\<lambda>type_id.
     let c' = c\<lparr>pc_name := (case cu_name r of None \<Rightarrow> pc_name c | Some s \<Rightarrow> s),
                pc_is_active := (case cu_is_active r of None \<Rightarrow> pc_is_active c | Some b \<Rightarrow> b),
                pc_product_type_id := type_id, pc_description := cu_description r\<rparr>
     in bind (save_category c') (\<lambda>_.
        bind (product_type_name_of type_id) (\<lambda>name.
        ret \<lparr>cat_id = i, cat_name = pc_name c', cat_description = pc_description c', cat_product_type = name,
             cat_is_active = pc_is_active c'\<rparr>))))"

definition admin_list_categories :: "(string \<Rightarrow> 'k::linorder) \<Rightarrow> ProductCategoryListDTO session" where
  "admin_list_categories collate = list_categories_of (list_all_categories collate)"

definition category_has_products :: "database \<Rightarrow> uuid \<Rightarrow> bool" where
  "category_has_products d i \<longleftrightarrow> filter (\<lambda>p. p_category_id p = i) (t_products d) \<noteq> []"

definition delete_category :: "uuid \<Rightarrow> unit session" where
  "delete_category i =
     bind (fetch (\<lambda>d. lookup (t_categories d) i) (CatalogExn (ProductCategoryNotFoundError i))) (\<lambda>_.
     bind (query (\<lambda>d. category_has_products d i)) (\<lambda>used.
     bind (require (\<not> used) (CatalogExn (ProductCategoryNotEmptyError i))) (\<lambda>_.
     db_delete t_categories_update category_has_products i)))"

section \<open>Endpoints\<close>

definition create_product_endpoint ::
  "settings \<Rightarrow> string option \<Rightarrow> string option \<Rightarrow> string option \<Rightarrow> ProductCreate \<Rightarrow> ProductDetailDTO session" where
  "create_product_endpoint cfg token who r payload =
     admin_endpoint (require_catalog_caller cfg token who r) (\<lambda>caller.
       bind (create_product payload) (\<lambda>p.
       bind (catalog_audit cfg caller ''create'' (''product:'' @ str_uuid (dto_id p))) (\<lambda>_. ret p)))"

definition update_product_endpoint ::
  "settings \<Rightarrow> string option \<Rightarrow> string option \<Rightarrow> string option \<Rightarrow> uuid \<Rightarrow> ProductWrite \<Rightarrow> ProductDetailDTO session" where
  "update_product_endpoint cfg token who r i payload =
     admin_endpoint (require_catalog_caller cfg token who r) (\<lambda>caller.
       bind (update_product i payload) (\<lambda>p.
       bind (catalog_audit cfg caller ''update'' (''product:'' @ str_uuid i)) (\<lambda>_. ret p)))"

definition delete_product_endpoint ::
  "settings \<Rightarrow> string option \<Rightarrow> string option \<Rightarrow> string option \<Rightarrow> uuid \<Rightarrow> unit session" where
  "delete_product_endpoint cfg token who r i =
     admin_endpoint (require_catalog_caller cfg token who r) (\<lambda>caller.
       bind (delete_product i) (\<lambda>_. catalog_audit cfg caller ''delete'' (''product:'' @ str_uuid i)))"

definition admin_list_categories_endpoint ::
  "(string \<Rightarrow> 'k::linorder) \<Rightarrow> settings \<Rightarrow> string option \<Rightarrow> string option \<Rightarrow> string option \<Rightarrow> ProductCategoryListDTO session" where
  "admin_list_categories_endpoint collate cfg token who r =
     admin_endpoint (require_catalog_caller cfg token who r) (\<lambda>_. admin_list_categories collate)"

definition create_category_endpoint ::
  "settings \<Rightarrow> string option \<Rightarrow> string option \<Rightarrow> string option \<Rightarrow> ProductCategoryCreate \<Rightarrow> ProductCategoryDTO session" where
  "create_category_endpoint cfg token who r payload =
     admin_endpoint (require_catalog_caller cfg token who r) (\<lambda>caller.
       bind (create_category payload) (\<lambda>c.
       bind (catalog_audit cfg caller ''create'' (''category:'' @ str_uuid (cat_id c))) (\<lambda>_. ret c)))"

definition update_category_endpoint ::
  "settings \<Rightarrow> string option \<Rightarrow> string option \<Rightarrow> string option \<Rightarrow> uuid \<Rightarrow> ProductCategoryUpdate \<Rightarrow>
   ProductCategoryDTO session" where
  "update_category_endpoint cfg token who r i payload =
     admin_endpoint (require_catalog_caller cfg token who r) (\<lambda>caller.
       bind (update_category i payload) (\<lambda>c.
       bind (catalog_audit cfg caller ''update'' (''category:'' @ str_uuid i)) (\<lambda>_. ret c)))"

definition delete_category_endpoint ::
  "settings \<Rightarrow> string option \<Rightarrow> string option \<Rightarrow> string option \<Rightarrow> uuid \<Rightarrow> unit session" where
  "delete_category_endpoint cfg token who r i =
     admin_endpoint (require_catalog_caller cfg token who r) (\<lambda>caller.
       bind (delete_category i) (\<lambda>_. catalog_audit cfg caller ''delete'' (''category:'' @ str_uuid i)))"

end
