(* ===== verification/CatalogInvariant.thy ===== *)
theory CatalogInvariant
  imports CatalogAdmin
begin

text \<open>
  The invariant of the catalog: references exist, the names of the product types are those of
  the enumeration, and each product has exactly one attribute row, in the table of its type.
  The administration keeps it, and under it no read fails.
\<close>

section \<open>The invariant\<close>

definition has_attributes :: "database \<Rightarrow> uuid \<Rightarrow> product_type_name \<Rightarrow> bool" where
  "has_attributes d i n =
     (case n of TyCOFFEE \<Rightarrow> refers (t_coffee d) i | TyEQUIPMENT \<Rightarrow> refers (t_equipment d) i
      | TyACCESSORIES \<Rightarrow> refers (t_accessories d) i | TyCONSUMABLES \<Rightarrow> refers (t_consumables d) i)"

definition type_named :: "database \<Rightarrow> uuid \<Rightarrow> product_type_name option" where
  "type_named d i = (case lookup (t_product_types d) i of None \<Rightarrow> None | Some ty \<Rightarrow> product_type_of (pt_name ty))"

definition well_typed :: "database \<Rightarrow> product \<Rightarrow> bool" where
  "well_typed d p \<longleftrightarrow> (\<exists>n. type_named d (p_type_id p) = Some n \<and> (\<forall>k. has_attributes d (row_id p) k \<longleftrightarrow> k = n))"

definition attributes_legal :: "database \<Rightarrow> bool" where
  "attributes_legal d \<longleftrightarrow>
     distinct (row_ids (t_coffee d)) \<and> (\<forall>r \<in> set (t_coffee d). fits_coffee r \<and> ok_coffee d r) \<and>
     distinct (row_ids (t_equipment d)) \<and> (\<forall>r \<in> set (t_equipment d). fits_equipment r \<and> ok_equipment d r) \<and>
     distinct (row_ids (t_accessories d)) \<and> (\<forall>r \<in> set (t_accessories d). fits_accessories r \<and> ok_accessories d r) \<and>
     distinct (row_ids (t_consumables d)) \<and> (\<forall>r \<in> set (t_consumables d). fits_consumables r \<and> ok_consumables d r)"

definition catalog_inv :: "database \<Rightarrow> bool" where
  "catalog_inv d \<longleftrightarrow> distinct (row_ids (t_product_types d)) \<and> distinct (row_ids (t_categories d)) \<and>
     distinct (row_ids (t_products d)) \<and>
     (\<forall>ty \<in> set (t_product_types d). product_type_of (pt_name ty) \<noteq> None) \<and>
     (\<forall>c \<in> set (t_categories d). fits_product_category c \<and> ok_category d c) \<and>
     (\<forall>p \<in> set (t_products d). fits_product p \<and> ok_product d p \<and> well_typed d p) \<and> attributes_legal d"

lemma catalog_invD:
  assumes "catalog_inv d"
  shows "distinct (row_ids (t_product_types d))" "distinct (row_ids (t_categories d))" "distinct (row_ids (t_products d))"
    "ty \<in> set (t_product_types d) \<Longrightarrow> product_type_of (pt_name ty) \<noteq> None"
    "c \<in> set (t_categories d) \<Longrightarrow> ok_category d c"
    "p \<in> set (t_products d) \<Longrightarrow> ok_product d p" "p \<in> set (t_products d) \<Longrightarrow> well_typed d p" "attributes_legal d"
  using assms unfolding catalog_inv_def by blast+

lemma referred_lookup: "refers t i \<Longrightarrow> \<exists>r. lookup t i = Some r \<and> r \<in> set t \<and> row_id r = i"
  using lookup_None_iff [of t i] lookup_SomeD [of t i] by (cases "lookup t i") auto

lemma product_type_found:
  assumes "catalog_inv d" and "p \<in> set (t_products d)"
  obtains ty n where "lookup (t_product_types d) (p_type_id p) = Some ty" and "pt_name ty = product_type_value n"
    and "\<And>k. has_attributes d (row_id p) k \<longleftrightarrow> k = n"
  using catalog_invD(7) [OF assms]
  by (auto simp: well_typed_def type_named_def product_type_of_Some split: option.splits)

lemma category_type_found:
  assumes "catalog_inv d" and "lookup (t_categories d) i = Some c"
  obtains ty n where "lookup (t_product_types d) (pc_product_type_id c) = Some ty" and "pt_name ty = product_type_value n"
proof -
  from assms(2) have "c \<in> set (t_categories d)" by (simp add: lookup_SomeD)
  then have "refers (t_product_types d) (pc_product_type_id c)"
    using catalog_invD(5) [OF assms(1)] by (simp add: ok_category_def)
  from referred_lookup [OF this] obtain ty where "lookup (t_product_types d) (pc_product_type_id c) = Some ty"
    "ty \<in> set (t_product_types d)" by blast
  with catalog_invD(4) [OF assms(1)] show thesis
    by (cases "product_type_of (pt_name ty)") (auto intro: that simp: product_type_of_Some)
qed

section \<open>Reads under the invariant\<close>

text \<open>The response of a product carries the attributes of its type and no others.\<close>

definition typed_response :: "'a ProductDTO_scheme \<Rightarrow> bool" where
  "typed_response dto \<longleftrightarrow>
     (dto_coffee dto \<noteq> None \<longleftrightarrow> dto_product_type dto = ''coffee'') \<and>
     (dto_equipment dto \<noteq> None \<longleftrightarrow> dto_product_type dto = ''equipment'') \<and>
     (dto_accessory dto \<noteq> None \<longleftrightarrow> dto_product_type dto = ''accessories'') \<and>
     (dto_consumable dto \<noteq> None \<longleftrightarrow> dto_product_type dto = ''consumables'') \<and>
     dto_product_type dto \<in> {''coffee'', ''equipment'', ''accessories'', ''consumables''}"

lemma product_dto_total:
  assumes "catalog_inv d" and "p \<in> set (t_products d)"
  obtains dto where "to_product_dto d (p, a) = Inr dto" and "typed_response dto" and "dto_id dto = row_id p"
proof -
  from assms obtain ty n where ty: "lookup (t_product_types d) (p_type_id p) = Some ty" "pt_name ty = product_type_value n"
      "\<And>k. has_attributes d (row_id p) k \<longleftrightarrow> k = n" by (rule product_type_found) blast
  have "lookup (t_coffee d) (row_id p) \<noteq> None \<longleftrightarrow> n = TyCOFFEE"
    "lookup (t_equipment d) (row_id p) \<noteq> None \<longleftrightarrow> n = TyEQUIPMENT"
    "lookup (t_accessories d) (row_id p) \<noteq> None \<longleftrightarrow> n = TyACCESSORIES"
    "lookup (t_consumables d) (row_id p) \<noteq> None \<longleftrightarrow> n = TyCONSUMABLES"
    using ty(3) [of TyCOFFEE] ty(3) [of TyEQUIPMENT] ty(3) [of TyACCESSORIES] ty(3) [of TyCONSUMABLES]
    unfolding lookup_None_iff by (auto simp: has_attributes_def)
  moreover obtain dto where dto: "to_product_dto d (p, a) = Inr dto" using ty(1) by (simp add: to_product_dto_def Let_def)
  ultimately have "typed_response dto"
    using ty(1,2) by (cases n) (auto simp: to_product_dto_def typed_response_def Let_def)
  with dto product_dto_id [OF dto] show thesis by (intro that) simp_all
qed
lemma typed_erased: "typed_response (x\<lparr>dto_user_rating := a, dto_can_rate := b\<rparr>) = typed_response x"
  by (simp add: typed_response_def)

lemma enrich_typed:
  assumes "enrich dtos u w = (r, w')" and "list_all typed_response dtos"
  shows "w' = w \<and> (\<exists>items. r = Inr items \<and> map dto_id items = map dto_id dtos \<and> list_all typed_response items)"
proof -
  let ?erase = "\<lambda>x. x\<lparr>dto_user_rating := None, dto_can_rate := False\<rparr>"
  from enrich_run [OF assms(1)] obtain items where items: "w' = w" "r = Inr items" "map dto_id items = map dto_id dtos"
    and erased: "map ?erase items = map ?erase dtos" by blast
  have "list_all typed_response (map ?erase dtos)"
    using assms(2) by (simp add: list_all_iff typed_erased)
  then have "list_all typed_response (map ?erase items)" unfolding erased .
  then have "list_all typed_response items" by (simp add: list_all_iff typed_erased)
  with items show ?thesis by blast
qed

lemma rows_total:
  assumes "catalog_inv d" and "set ps \<subseteq> set (t_products d)"
  obtains dtos where "map_sum_list (to_product_dto d) (repo_rows d ps limit offset) = Inr dtos"
    and "list_all typed_response dtos"
proof -
  have "\<exists>dto. to_product_dto d r = Inr dto \<and> typed_response dto" if "r \<in> set (repo_rows d ps limit offset)" for r
  proof -
    from that have "fst r \<in> set (t_products d)"
      using set_paginate [of limit offset ps] assms(2) by (auto simp: repo_rows_def)
    from product_dto_total [OF assms(1) this, of "snd r"] show ?thesis by (metis prod.collapse)
  qed
  then obtain g where g: "\<And>r. r \<in> set (repo_rows d ps limit offset) \<Longrightarrow> to_product_dto d r = Inr (g r) \<and> typed_response (g r)"
    by metis
  then show thesis
    using map_sum_list_all_Inr [of "repo_rows d ps limit offset" "to_product_dto d" g]
    by (intro that) (auto simp: list_all_iff)
qed

lemma product_list_total:
  assumes "catalog_inv (wdb w)" and "set ps \<subseteq> set (t_products (wdb w))"
  obtains res where "product_list (repo_rows (wdb w) ps limit offset, n) limit offset u w = (Inr res, w)"
    and "list_all typed_response (plist_items res)" and "plist_total res = n"
proof -
  from rows_total [OF assms, of limit offset] obtain dtos where
    dtos: "map_sum_list (to_product_dto (wdb w)) (repo_rows (wdb w) ps limit offset) = Inr dtos" "list_all typed_response dtos" .
  obtain r v where "enrich dtos u w = (r, v)" by (cases "enrich dtos u w")
  with enrich_typed [OF this dtos(2)] obtain items where items: "enrich dtos u w = (Inr items, w)" "list_all typed_response items"
    by auto
  show thesis
    using dtos(1) items(2)
    by (intro that [of "\<lparr>plist_items = items, plist_total = n, plist_limit = limit, plist_offset = offset\<rparr>"])
      (simp_all add: product_list_def svc_simps bind_step [of "enrich dtos u" w, OF items(1)])
qed

lemma set_order_by [simp]: "set (order_by sorting ps) = set ps"
  by (simp add: order_by_def split: sort_option.splits)

lemma length_order_by [simp]: "length (order_by sorting ps) = length ps"
  by (simp add: order_by_def split: sort_option.splits)

lemma listing_total:
  assumes "catalog_inv (wdb w)"
  obtains res where "product_list (repo_list_products db_lower f sorting limit offset ty (wdb w)) limit offset u w = (Inr res, w)"
    and "list_all typed_response (plist_items res)"
    and "plist_total res = length (filter (apply_filters db_lower (wdb w) f ty) (t_products (wdb w)))"
proof -
  have "set (order_by sorting (filter (apply_filters db_lower (wdb w) f ty) (t_products (wdb w)))) \<subseteq> set (t_products (wdb w))"
    by auto
  from product_list_total [OF assms this, of limit offset
      "length (filter (apply_filters db_lower (wdb w) f ty) (t_products (wdb w)))" u] obtain res where
    "product_list (repo_list_products db_lower f sorting limit offset ty (wdb w)) limit offset u w = (Inr res, w)"
    "list_all typed_response (plist_items res)"
    "plist_total res = length (filter (apply_filters db_lower (wdb w) f ty) (t_products (wdb w)))"
    unfolding repo_list_products_def Let_def .
  then show thesis by (rule that)
qed

lemma scope_outcome:
  assumes "catalog_inv (wdb w)"
  shows "resolve_scope_type f w =
    (case f_category_id f of
       None \<Rightarrow> (Inr None, w)
     | Some i \<Rightarrow>
         (case lookup (t_categories (wdb w)) i of
            None \<Rightarrow> (Inl (invalid_filter ''product_category_id'' (str_uuid i)), w)
          | Some c \<Rightarrow> (Inr (type_named (wdb w) (pc_product_type_id c)), w)))"
proof (cases "f_category_id f")
  case None
  then show ?thesis by (simp add: resolve_scope_type_def)
next
  case (Some i)
  show ?thesis
  proof (cases "lookup (t_categories (wdb w)) i")
    case None
    with Some show ?thesis by (simp add: resolve_scope_type_def svc_simps)
  next
    case found: (Some c)
    from category_type_found [OF assms found] obtain ty n where
      "lookup (t_product_types (wdb w)) (pc_product_type_id c) = Some ty" "pt_name ty = product_type_value n" .
    with Some found show ?thesis by (simp add: resolve_scope_type_def svc_simps type_named_def product_type_of_value)
  qed
qed

lemma validate_facets_invalid:
  "validate_type_facets f ty = Inl e \<Longrightarrow> (\<exists>n v. e = invalid_filter n v) \<and>
     (has_equipment_filter f \<or> has_accessory_filter f \<or> has_consumable_filter f \<or> has_material_filter f)"
  unfolding validate_type_facets_def by (auto split: if_splits)

lemma list_products_outcome:
  assumes "catalog_inv (wdb w)"
  shows "(bindable f \<and> page_bindable limit offset \<and>
      (\<exists>res. list_products db_lower f sorting limit offset u w = (Inr res, w) \<and> list_all typed_response (plist_items res))) \<or>
    ((\<exists>n v. list_products db_lower f sorting limit offset u w = (Inl (invalid_filter n v), w)) \<and>
      ((\<exists>c. f_category_id f = Some c \<and> lookup (t_categories (wdb w)) c = None) \<or>
        has_equipment_filter f \<or> has_accessory_filter f \<or> has_consumable_filter f \<or> has_material_filter f)) \<or>
    (\<not> (bindable f \<and> page_bindable limit offset) \<and> list_products db_lower f sorting limit offset u w = (Inl DataError, w))"
proof -
  obtain r where r: "resolve_scope_type f w = (r, w)" "\<And>e. r = Inl e \<Longrightarrow> (\<exists>n v. e = invalid_filter n v) \<and>
      (\<exists>c. f_category_id f = Some c \<and> lookup (t_categories (wdb w)) c = None)"
    using scope_outcome [OF assms, of f] by (auto split: option.splits)
  show ?thesis
  proof (cases r)
    case (Inl e)
    with r show ?thesis by (auto simp: list_products_def bind_def)
  next
    case (Inr ty)
    note step = bind_step [of "resolve_scope_type f" w, OF r(1) [unfolded Inr]]
    show ?thesis
    proof (cases "validate_type_facets f ty")
      case (Inl e)
      then show ?thesis
        using validate_facets_invalid [OF Inl] by (auto simp: list_products_def step bind_of_sum)
    next
      case valid: (Inr x)
      from listing_total [OF assms, of db_lower f sorting limit offset ty u] obtain res where
        "product_list (repo_list_products db_lower f sorting limit offset ty (wdb w)) limit offset u w = (Inr res, w)"
        "list_all typed_response (plist_items res)" by blast
      then show ?thesis
        by (cases "bindable f \<and> page_bindable limit offset") (auto simp: list_products_def step bind_of_sum valid bind_require)
    qed
  qed
qed
lemma detail_dto_total:
  assumes "catalog_inv d" and "p \<in> set (t_products d)"
  obtains dto where "to_detail_dto d (p, a) = Inr dto" and "typed_response dto" and "dto_id dto = row_id p"
proof -
  from product_dto_total [OF assms] obtain base where base: "to_product_dto d (p, a) = Inr base" "typed_response base"
    "dto_id base = row_id p" .
  have "refers (t_categories d) (p_category_id p)" using catalog_invD(6) [OF assms] by (simp add: ok_product_def)
  from referred_lookup [OF this] obtain c where "lookup (t_categories d) (p_category_id p) = Some c" by blast
  with base show thesis
    by (intro that [of "ProductDTO.extend base (ProductDetailDTO.fields (pc_name c) (map_option pr_distribution a)
        (created_at p) (updated_at p))"])
      (simp_all add: to_detail_dto_def typed_response_def ProductDTO.defs ProductDetailDTO.defs)
qed

lemma get_product_total:
  assumes "catalog_inv (wdb w)" and "lookup (t_products (wdb w)) i = Some p"
  obtains dto where "get_product i u w = (Inr dto, w)" and "typed_response dto" and "dto_id dto = i"
proof -
  from assms(2) have p: "p \<in> set (t_products (wdb w))" "row_id p = i" by (auto dest: lookup_SomeD)
  from detail_dto_total [OF assms(1) p(1)] obtain dto where dto:
    "to_detail_dto (wdb w) (p, aggregate_row (wdb w) i) = Inr dto" "typed_response dto" "dto_id dto = row_id p" .
  obtain r v where run: "enrich [dto] u w = (r, v)" by (cases "enrich [dto] u w")
  from enrich_typed [OF this] dto(2) obtain items where items: "v = w" "r = Inr items" "map dto_id items = [dto_id dto]"
    "list_all typed_response items" by auto
  then obtain x where x: "items = [x]" by auto
  show thesis
    using dto p items(3,4) x by (intro that [of x])
      (simp_all add: get_product_def svc_simps repo_get_product_def assms(2)
        bind_step [of "enrich [dto] u" w, OF run [unfolded items(1,2)]])
qed

lemma search_total:
  assumes "catalog_inv (wdb w)" and "no_nul q" and "page_bindable limit offset"
  obtains res where "search_products db_lower collate q limit offset u w = (Inr res, w)"
    and "list_all typed_response (plist_items res)"
proof -
  let ?base = "filter (name_matches db_lower q) (t_products (wdb w))"
  have "set (sort_key (\<lambda>p. (collate (p_name p), row_id p)) ?base) \<subseteq> set (t_products (wdb w))" by auto
  from product_list_total [OF assms(1) this, of limit offset "length ?base" u] obtain res where
    "product_list (repo_search db_lower collate q limit offset (wdb w)) limit offset u w = (Inr res, w)"
    "list_all typed_response (plist_items res)"
    unfolding repo_search_def Let_def .
  then show thesis by (intro that) (simp_all add: search_products_def bind_require assms(2,3))
qed

lemma categories_total:
  assumes "catalog_inv (wdb w)" and "set (rows (wdb w)) \<subseteq> set (t_categories (wdb w))"
  obtains res where "list_categories_of rows w = (Inr res, w)"
proof -
  have "\<exists>dto. category_dto (wdb w) c = Inr dto" if "c \<in> set (rows (wdb w))" for c
  proof -
    from that assms(2) have "lookup (t_categories (wdb w)) (row_id c) = Some c"
      using catalog_invD(2) [OF assms(1)] by (intro lookup_unique) auto
    from category_type_found [OF assms(1) this] obtain ty n where
      "lookup (t_product_types (wdb w)) (pc_product_type_id c) = Some ty" "pt_name ty = product_type_value n" .
    then show ?thesis by (simp add: category_dto_def)
  qed
  then obtain g where "\<And>c. c \<in> set (rows (wdb w)) \<Longrightarrow> category_dto (wdb w) c = Inr (g c)" by metis
  then have "map_sum_list (category_dto (wdb w)) (rows (wdb w)) = Inr (map g (rows (wdb w)))"
    by (rule map_sum_list_all_Inr)
  then show thesis
    by (intro that [of "\<lparr>clist_items = map g (rows (wdb w)), clist_total = length (map g (rows (wdb w)))\<rparr>"])
      (simp add: list_categories_of_def svc_simps)
qed

end
