(* ===== verification/CatalogWrites.thy ===== *)
theory CatalogWrites
  imports CatalogInvariant
begin

text \<open>
  What the administration of the catalog does to the tables, and that it keeps the invariant:
  every product keeps exactly one attribute row, of its own type.
\<close>

section \<open>Attribute rows\<close>

definition put_attributes :: "uuid \<Rightarrow> ProductAttributesIn \<Rightarrow> datetime \<Rightarrow> database \<Rightarrow> database" where
  "put_attributes i attrs t =
     (case attrs of
        CoffeeBlock a \<Rightarrow> t_coffee_update (\<lambda>rs. rs @ [coffee_row i a t])
      | EquipmentBlock a \<Rightarrow> t_equipment_update (\<lambda>rs. rs @ [equipment_row i a t])
      | AccessoryBlock a \<Rightarrow> t_accessories_update (\<lambda>rs. rs @ [accessory_row i a t])
      | ConsumableBlock a \<Rightarrow> t_consumables_update (\<lambda>rs. rs @ [consumable_row i a t]))"

definition drop_attributes :: "product_type_name \<Rightarrow> uuid \<Rightarrow> database \<Rightarrow> database" where
  "drop_attributes n i =
     (case n of
        TyCOFFEE \<Rightarrow> t_coffee_update (remove_row i)
      | TyEQUIPMENT \<Rightarrow> t_equipment_update (remove_row i)
      | TyACCESSORIES \<Rightarrow> t_accessories_update (remove_row i)
      | TyCONSUMABLES \<Rightarrow> t_consumables_update (remove_row i))"

definition attributes_ok :: "database \<Rightarrow> uuid \<Rightarrow> ProductAttributesIn \<Rightarrow> datetime \<Rightarrow> bool" where
  "attributes_ok d i attrs t =
     (case attrs of
        CoffeeBlock a \<Rightarrow> fits_coffee (coffee_row i a t) \<and> ok_coffee d (coffee_row i a t)
      | EquipmentBlock a \<Rightarrow> fits_equipment (equipment_row i a t) \<and> ok_equipment d (equipment_row i a t)
      | AccessoryBlock a \<Rightarrow> fits_accessories (accessory_row i a t) \<and> ok_accessories d (accessory_row i a t)
      | ConsumableBlock a \<Rightarrow> fits_consumables (consumable_row i a t) \<and> ok_consumables d (consumable_row i a t))"

lemma row_of_attributes [simp]:
  "row_id (coffee_row i a t) = i" "row_id (equipment_row i b t) = i"
  "row_id (accessory_row i c t) = i" "row_id (consumable_row i e t) = i"
  by (simp_all add: coffee_row_def equipment_row_def accessory_row_def consumable_row_def)

lemma put_frame [simp]:
  "t_products (put_attributes i attrs t d) = t_products d" "t_categories (put_attributes i attrs t d) = t_categories d"
  "t_product_types (put_attributes i attrs t d) = t_product_types d"
  by (simp_all add: put_attributes_def split: ProductAttributesIn.split)

lemma drop_frame [simp]:
  "t_products (drop_attributes n i d) = t_products d" "t_categories (drop_attributes n i d) = t_categories d"
  "t_product_types (drop_attributes n i d) = t_product_types d"
  by (simp_all add: drop_attributes_def split: product_type_name.split)

lemma has_put:
  "has_attributes (put_attributes i attrs t d) j k \<longleftrightarrow> has_attributes d j k \<or> (j = i \<and> k = block_type attrs)"
  by (cases attrs; cases k) (auto simp: has_attributes_def put_attributes_def block_type_def)

lemma has_drop: "has_attributes (drop_attributes n i d) j k \<longleftrightarrow> has_attributes d j k \<and> \<not> (j = i \<and> k = n)"
  by (cases n; cases k) (auto simp: has_attributes_def drop_attributes_def)

lemma add_subtype_InrE:
  assumes "add_subtype_row i attrs w = (Inr u, w')"
  obtains "attributes_ok (wdb w) i attrs (now w)" and "\<not> has_attributes (wdb w) i (block_type attrs)"
    and "w' = w\<lparr>wdb := put_attributes i attrs (now w) (wdb w)\<rparr>"
  using assms
  by (cases attrs) (auto simp: add_subtype_row_def attributes_ok_def put_attributes_def has_attributes_def block_type_def
      elim!: db_insert_InrE)

lemma delete_subtype_run: "delete_subtype_row n i w = (Inr (), w\<lparr>wdb := drop_attributes n i (wdb w)\<rparr>)"
  by (cases n) (simp_all add: delete_subtype_row_def drop_attributes_def db_delete_def svc_simps)

text \<open>Every attribute row belongs to a product.\<close>

lemma attributes_owned: "attributes_legal d \<Longrightarrow> has_attributes d i k \<Longrightarrow> refers (t_products d) i"
  by (cases k) (auto simp: attributes_legal_def has_attributes_def ok_coffee_def ok_equipment_def ok_accessories_def
      ok_consumables_def row_ids_def)

lemma legal_products:
  assumes "attributes_legal d" and "t_coffee d' = t_coffee d" "t_equipment d' = t_equipment d"
    "t_accessories d' = t_accessories d" "t_consumables d' = t_consumables d"
    and owned: "\<And>i k. has_attributes d i k \<Longrightarrow> refers (t_products d') i"
  shows "attributes_legal d'"
proof -
  have "row_id r \<in> set (row_ids (t_products d'))" if "r \<in> set (t_coffee d)" for r
    using owned [of "row_id r" TyCOFFEE] row_id_in [OF that] by (simp add: has_attributes_def)
  moreover have "row_id r \<in> set (row_ids (t_products d'))" if "r \<in> set (t_equipment d)" for r
    using owned [of "row_id r" TyEQUIPMENT] row_id_in [OF that] by (simp add: has_attributes_def)
  moreover have "row_id r \<in> set (row_ids (t_products d'))" if "r \<in> set (t_accessories d)" for r
    using owned [of "row_id r" TyACCESSORIES] row_id_in [OF that] by (simp add: has_attributes_def)
  moreover have "row_id r \<in> set (row_ids (t_products d'))" if "r \<in> set (t_consumables d)" for r
    using owned [of "row_id r" TyCONSUMABLES] row_id_in [OF that] by (simp add: has_attributes_def)
  ultimately show ?thesis
    using assms(1-5) by (simp add: attributes_legal_def ok_coffee_def ok_equipment_def ok_accessories_def ok_consumables_def)
qed

lemma legal_put:
  assumes "attributes_legal d" and "\<not> has_attributes d i (block_type attrs)" and "attributes_ok d i attrs t"
  shows "attributes_legal (put_attributes i attrs t d)"
  using assms
  by (cases attrs) (auto simp: attributes_legal_def has_attributes_def block_type_def attributes_ok_def put_attributes_def
      ok_coffee_def ok_equipment_def ok_accessories_def ok_consumables_def)

lemma legal_drop: "attributes_legal d \<Longrightarrow> attributes_legal (drop_attributes n i d)"
  by (cases n) (auto simp: attributes_legal_def drop_attributes_def distinct_remove
      ok_coffee_def ok_equipment_def ok_accessories_def ok_consumables_def)

section \<open>Products\<close>

lemma catalog_inv_products:
  assumes inv: "catalog_inv d" and same: "t_product_types d' = t_product_types d" "t_categories d' = t_categories d"
    and ids: "distinct (row_ids (t_products d'))"
    and prods: "\<And>p. p \<in> set (t_products d') \<Longrightarrow> fits_product p \<and> ok_product d p \<and> well_typed d' p"
    and "attributes_legal d'"
  shows "catalog_inv d'"
proof -
  have "ok_category d' c = ok_category d c" "ok_product d' p = ok_product d p" for c p
    by (simp_all add: ok_category_def ok_product_def same)
  with assms show ?thesis by (simp add: catalog_inv_def)
qed

lemma well_typed_same:
  assumes "well_typed d p" and "t_product_types d' = t_product_types d"
    and "\<And>k. has_attributes d' (row_id p) k = has_attributes d (row_id p) k" and "p_type_id q = p_type_id p" "row_id q = row_id p"
  shows "well_typed d' q"
  using assms by (simp add: well_typed_def type_named_def)

lemma get_product_same: "get_product i u w = (Inr dto, w') \<Longrightarrow> w' = w"
  unfolding get_product_def by (auto simp: svc_simps elim!: bind_InrE dest: enrich_run split: option.splits sum.splits)
lemma resolve_product_type_InrE:
  assumes "resolve_product_type n w = (Inr i, w')"
  obtains ty where "ty \<in> set (t_product_types (wdb w))" and "pt_name ty = product_type_value n" and "i = row_id ty"
    and "w' = w"
proof -
  from assms obtain ty where ty: "find (\<lambda>ty. pt_name ty = product_type_value n) (t_product_types (wdb w)) = Some ty"
    and "i = row_id ty" "w' = w"
    unfolding resolve_product_type_def by (auto elim!: fetch_InrE)
  moreover from ty have "ty \<in> set (t_product_types (wdb w)) \<and> pt_name ty = product_type_value n"
    by (auto simp: find_Some_iff)
  ultimately show thesis by (intro that) simp_all
qed

lemma create_product_InrE:
  assumes "create_product r w = (Inr dto, w')"
  obtains c ty i p attrs where "lookup (t_categories (wdb w)) (pw_category_id r) = Some c"
    and "ty \<in> set (t_product_types (wdb w))" and "pt_name ty = product_type_value (pw_product_type r)"
    and "p = new_product r (row_id ty) i (now w)" and "i \<notin> set (row_ids (t_products (wdb w)))"
    and "fits_product p" and "ok_product (wdb w) p" and "attributes r = Inr attrs"
    and "attributes_ok (t_products_update (\<lambda>ps. ps @ [p]) (wdb w)) i attrs (now w)"
    and "\<not> has_attributes (wdb w) i (block_type attrs)"
    and "wdb w' = put_attributes i attrs (now w) (t_products_update (\<lambda>ps. ps @ [p]) (wdb w))"
    and "get_product i None w' = (Inr dto, w')" and "now w' = now w"
proof -
  let ?go = "\<lambda>type_id. bind (add_product (new_product r type_id)) (\<lambda>p. bind (of_sum (attributes r)) (\<lambda>attrs.
      bind (add_subtype_row (row_id p) attrs) (\<lambda>_. get_product (row_id p) None)))"
  from assms obtain c where cat: "lookup (t_categories (wdb w)) (pw_category_id r) = Some c"
    and typed: "bind (resolve_product_type (pw_product_type r)) ?go w = (Inr dto, w')"
    unfolding create_product_def require_category_def by (simp add: bind_fetch split: option.splits)
  from typed obtain type_id v0 where ty: "resolve_product_type (pw_product_type r) w = (Inr type_id, v0)"
    and rest: "?go type_id v0 = (Inr dto, w')" by (rule bind_InrE)
  from ty obtain t where t: "t \<in> set (t_product_types (wdb w))" "pt_name t = product_type_value (pw_product_type r)"
    "type_id = row_id t" and v0: "v0 = w" by (rule resolve_product_type_InrE)
  from rest [unfolded v0] obtain p v attrs v2 where p: "add_product (new_product r type_id) w = (Inr p, v)"
    and attrs: "attributes r = Inr attrs" and put: "add_subtype_row (row_id p) attrs v = (Inr (), v2)"
    and get: "get_product (row_id p) None v2 = (Inr dto, w')"
    by (elim bind_InrE) (auto simp: svc_simps split: sum.splits)
  from p have p': "p = new_product r (row_id t) (uuid_src w (uuid_pos w)) (now w)" "fits_product p" "ok_product (wdb w) p"
    "row_id p \<notin> set (row_ids (t_products (wdb w)))"
    and v: "wdb v = t_products_update (\<lambda>ps. ps @ [p]) (wdb w)" "now v = now w"
    unfolding t(3) by (auto elim!: db_add_InrE)
  have id: "row_id p = uuid_src w (uuid_pos w)" by (simp add: p'(1) new_product_def)
  from put have put': "attributes_ok (wdb v) (row_id p) attrs (now v)" "\<not> has_attributes (wdb v) (row_id p) (block_type attrs)"
    "v2 = v\<lparr>wdb := put_attributes (row_id p) attrs (now v) (wdb v)\<rparr>"
    by (auto elim!: add_subtype_InrE)
  have "has_attributes (wdb v) j k = has_attributes (wdb w) j k" for j k
    by (simp add: v has_attributes_def split: product_type_name.split)
  then show thesis
    using put' v get_product_same [OF get] get
    by (intro that [OF cat t(1,2) p'(1) _ p'(2,3) attrs]) (simp_all add: p'(4) id [symmetric])
qed

lemma block_of_attributes: "attributes r = Inr attrs \<Longrightarrow> attributes_match_type r \<Longrightarrow> block_type attrs = pw_product_type r"
  by (auto simp: attributes_def attributes_match_type_def present_blocks_def block_type_def split: option.splits if_splits)

lemma create_product_keeps:
  assumes "attributes_match_type r"
  shows "preserves catalog_inv (create_product r)"
proof (rule preservesI)
  fix w dto w'
  assume run: "create_product r w = (Inr dto, w')" and inv: "catalog_inv (wdb w)"
  from run obtain c ty i p attrs where new: "ty \<in> set (t_product_types (wdb w))" "pt_name ty = product_type_value (pw_product_type r)"
      "p = new_product r (row_id ty) i (now w)" "i \<notin> set (row_ids (t_products (wdb w)))" "fits_product p"
      "ok_product (wdb w) p" "attributes r = Inr attrs"
      "attributes_ok (t_products_update (\<lambda>ps. ps @ [p]) (wdb w)) i attrs (now w)"
    and w': "wdb w' = put_attributes i attrs (now w) (t_products_update (\<lambda>ps. ps @ [p]) (wdb w))"
    by (rule create_product_InrE)
  let ?d = "t_products_update (\<lambda>ps. ps @ [p]) (wdb w)"
  have id: "row_id p = i" "p_type_id p = row_id ty" by (simp_all add: new(3) new_product_def)
  have has: "has_attributes ?d j k = has_attributes (wdb w) j k" for j k
    by (simp add: has_attributes_def split: product_type_name.split)
  have none: "\<not> has_attributes (wdb w) i k" for k
    using attributes_owned [OF catalog_invD(8) [OF inv]] new(4) by blast
  have legal: "attributes_legal ?d"
    using attributes_owned [OF catalog_invD(8) [OF inv]] by (intro legal_products [OF catalog_invD(8) [OF inv]]) auto
  have typed: "well_typed (wdb w') q" if "q \<in> set (t_products (wdb w'))" for q
  proof (cases "q = p")
    case True
    have "type_named (wdb w') (p_type_id p) = Some (pw_product_type r)"
      using lookup_unique [OF catalog_invD(1) [OF inv] new(1)] new(2)
      by (simp add: type_named_def w' id product_type_of_value)
    moreover have "has_attributes (wdb w') i k \<longleftrightarrow> k = pw_product_type r" for k
      using none block_of_attributes [OF new(7) assms] by (simp add: w' has_put has)
    ultimately show ?thesis by (simp add: True well_typed_def id)
  next
    case False
    with that have q: "q \<in> set (t_products (wdb w))" by (simp add: w')
    then have "row_id q \<noteq> i" using new(4) row_id_in by blast
    then show ?thesis
      using catalog_invD(7) [OF inv q] by (elim well_typed_same) (simp_all add: w' has_put has)
  qed
  show "catalog_inv (wdb w')"
  proof (rule catalog_inv_products [OF inv])
    show "attributes_legal (wdb w')"
      unfolding w' using new(8) none has by (intro legal_put [OF legal]) simp_all
    show "distinct (row_ids (t_products (wdb w')))" using catalog_invD(3) [OF inv] new(4) id by (simp add: w')
    show "fits_product q \<and> ok_product (wdb w) q \<and> well_typed (wdb w') q" if "q \<in> set (t_products (wdb w'))" for q
      using that typed [OF that] new(5,6) inv by (auto simp: w' catalog_inv_def)
  qed (simp_all add: w')
qed
lemma rewritten_columns [simp]:
  "row_id (rewritten_product r t p) = row_id p" "p_type_id (rewritten_product r t p) = p_type_id p"
  "p_is_active (rewritten_product r t p) = p_is_active p" "created_at (rewritten_product r t p) = created_at p"
  by (simp_all add: rewritten_product_def Let_def)

lemma rewritten_values:
  "p_name (rewritten_product r t p) = pw_product_name r" "p_description (rewritten_product r t p) = pw_description r"
  "p_image_url (rewritten_product r t p) = pw_image_url r" "p_category_id (rewritten_product r t p) = pw_category_id r"
  "p_price (rewritten_product r t p) = hundredths (pw_price r)" "p_currency (rewritten_product r t p) = pw_currency r"
  by (cases p; auto simp: rewritten_product_def Let_def)+

lemma touch_product [simp]:
  "fits_product (touch t old r) = fits_product r" "ok_product d (touch t old r) = ok_product d r"
  "p_type_id (touch t old r) = p_type_id r" "p_is_active (touch t old r) = p_is_active r"
  "p_price (touch t old r) = p_price r" "p_name (touch t old r) = p_name r"
  by (simp_all add: touch_def fits_product_def ok_product_def check_product_def)

lemma update_product_InrE:
  assumes "update_product i r w = (Inr dto, w')"
  obtains p c ty n attrs q v where "lookup (t_products (wdb w)) i = Some p"
    and "lookup (t_categories (wdb w)) (pw_category_id r) = Some c"
    and "lookup (t_product_types (wdb w)) (p_type_id p) = Some ty" and "product_type_of (pt_name ty) = Some n"
    and "attributes r = Inr attrs" and "block_type attrs = n"
    and "q = touch (now w) p (rewritten_product r (now w) p)"
    and "q = p \<or> (fits_product q \<and> ok_product (wdb w) q)"
    and "v = drop_attributes n i (t_products_update (replace_row q) (wdb w))"
    and "attributes_ok v i attrs (now w)" and "wdb w' = put_attributes i attrs (now w) v"
    and "get_product i None w' = (Inr dto, w')" and "now w' = now w"
proof -
  let ?save = "\<lambda>p n attrs. bind (save_product (rewritten_product r (now w) p)) (\<lambda>_. bind (delete_subtype_row n i) (\<lambda>_.
      bind (add_subtype_row i attrs) (\<lambda>_. get_product i None)))"
  from assms obtain p c ty n attrs where found: "lookup (t_products (wdb w)) i = Some p"
      "lookup (t_categories (wdb w)) (pw_category_id r) = Some c"
      "lookup (t_product_types (wdb w)) (p_type_id p) = Some ty" "product_type_of (pt_name ty) = Some n"
      "attributes r = Inr attrs" "block_type attrs = n" and rest: "?save p n attrs w = (Inr dto, w')"
    unfolding update_product_def require_product_def require_category_def
    by (simp add: bind_fetch bind_of_sum bind_require split: option.splits sum.splits if_splits)
  let ?q = "touch (now w) p (rewritten_product r (now w) p)"
  have id: "row_id p = i" using lookup_SomeD [OF found(1)] by simp
  from rest obtain v2 v3 where save: "save_product (rewritten_product r (now w) p) w = (Inr (), v2)"
    and put: "add_subtype_row i attrs (v2\<lparr>wdb := drop_attributes n i (wdb v2)\<rparr>) = (Inr (), v3)"
    and get: "get_product i None v3 = (Inr dto, w')"
    by (elim bind_InrE) (simp add: delete_subtype_run)
  from save have v2: "v2 = w\<lparr>wdb := t_products_update (replace_row ?q) (wdb w)\<rparr>"
    and ok: "rewritten_product r (now w) p = p \<or>
      (fits_product (rewritten_product r (now w) p) \<and> ok_product (wdb w) (rewritten_product r (now w) p))"
    using found(1) id by (auto elim!: db_save_InrE)
  from put have "attributes_ok (drop_attributes n i (wdb v2)) i attrs (now w)"
    "v3 = w\<lparr>wdb := put_attributes i attrs (now w) (drop_attributes n i (wdb v2))\<rparr>"
    unfolding v2 by (auto elim!: add_subtype_InrE)
  moreover have "?q = p \<or> (fits_product ?q \<and> ok_product (wdb w) ?q)" 
  proof (cases "rewritten_product r (now w) p = p")
    case True
    then show ?thesis by (simp add: touch_def)
  next
    case False
    with ok show ?thesis by simp
  qed
  ultimately show thesis
    using get_product_same [OF get] get v2
    by (intro that [OF found refl _ refl]) simp_all
qed

lemma update_product_keeps: "preserves catalog_inv (update_product i r)"
proof (rule preservesI)
  fix w dto w'
  assume run: "update_product i r w = (Inr dto, w')" and inv: "catalog_inv (wdb w)"
  from run obtain p c ty n attrs q v where found: "lookup (t_products (wdb w)) i = Some p"
      "lookup (t_product_types (wdb w)) (p_type_id p) = Some ty" "product_type_of (pt_name ty) = Some n"
    and block: "block_type attrs = n" and q: "q = touch (now w) p (rewritten_product r (now w) p)"
      "q = p \<or> (fits_product q \<and> ok_product (wdb w) q)"
    and v: "v = drop_attributes n i (t_products_update (replace_row q) (wdb w))"
    and ok: "attributes_ok v i attrs (now w)" and w': "wdb w' = put_attributes i attrs (now w) v"
    by (rule update_product_InrE)
  note legal = catalog_invD(8) [OF inv]
  have p: "p \<in> set (t_products (wdb w))" "row_id p = i" using lookup_SomeD [OF found(1)] by auto
  have qi: "row_id q = i" "p_type_id q = p_type_id p" using p by (simp_all add: q(1))
  have named: "type_named (wdb w) (p_type_id p) = Some n" by (simp add: type_named_def found)
  with catalog_invD(7) [OF inv p(1)] have own: "has_attributes (wdb w) i k \<longleftrightarrow> k = n" for k
    by (simp add: well_typed_def p(2))
  let ?d = "t_products_update (replace_row q) (wdb w)"
  have has: "has_attributes ?d j k = has_attributes (wdb w) j k" for j k
    by (simp add: has_attributes_def split: product_type_name.split)
  have "attributes_legal ?d"
    using attributes_owned [OF legal] by (intro legal_products [OF legal]) auto
  then have legal': "attributes_legal v" unfolding v by (rule legal_drop)
  show "catalog_inv (wdb w')"
  proof (rule catalog_inv_products [OF inv])
    show "attributes_legal (wdb w')"
      unfolding w' using ok block by (intro legal_put [OF legal']) (simp_all add: v has_drop)
    show "distinct (row_ids (t_products (wdb w')))" using catalog_invD(3) [OF inv] by (simp add: w' v)
    fix x assume "x \<in> set (t_products (wdb w'))"
    then have "x \<in> set (replace_row q (t_products (wdb w)))" by (simp add: w' v)
    then consider "x = q" | "x \<in> set (t_products (wdb w))" "row_id x \<noteq> i" using in_replaceD qi by metis
    then show "fits_product x \<and> ok_product (wdb w) x \<and> well_typed (wdb w') x"
    proof cases
      case 1
      have "fits_product p \<and> ok_product (wdb w) p" using inv p(1) by (simp add: catalog_inv_def)
      then have "fits_product q \<and> ok_product (wdb w) q" using q(2) by auto
      moreover have "well_typed (wdb w') q"
        using named own by (auto simp: well_typed_def qi type_named_def w' v has_put has_drop has block)
      ultimately show ?thesis by (simp add: 1)
    next
      case 2
      have "fits_product x \<and> ok_product (wdb w) x \<and> well_typed (wdb w) x" using inv 2(1) by (simp add: catalog_inv_def)
      moreover from this have "well_typed (wdb w') x"
        using 2(2) by (elim conjE well_typed_same) (simp_all add: w' v has_put has_drop has)
      ultimately show ?thesis by simp
    qed
  qed (simp_all add: w' v)
qed
lemma delete_product_InrE:
  assumes "delete_product i w = (Inr u, w')"
  obtains "refers (t_products (wdb w)) i" and "\<not> product_is_held (wdb w) i"
    and "w' = w\<lparr>wdb := cascade_product i (t_products_update (remove_row i) (wdb w))\<rparr>"
proof -
  from assms have "lookup (t_products (wdb w)) i \<noteq> None" "\<not> product_is_held (wdb w) i"
    "w' = w\<lparr>wdb := cascade_product i (t_products_update (remove_row i) (wdb w))\<rparr>"
    by (auto simp: delete_product_def require_product_def bind_fetch split: option.splits elim!: bind_InrE db_delete_InrE)
  then show thesis using lookup_None_iff [of "t_products (wdb w)" i] by (intro that) simp_all
qed

lemma cascade_products [simp]:
  "t_products (cascade_product i d) = t_products d" "t_categories (cascade_product i d) = t_categories d"
  "t_product_types (cascade_product i d) = t_product_types d"
  by (simp_all add: cascade_product_def)

lemma has_cascade: "has_attributes (cascade_product i d) j k \<longleftrightarrow> has_attributes d j k \<and> j \<noteq> i"
  by (cases k) (auto simp: has_attributes_def cascade_product_def)

lemma delete_product_keeps: "preserves catalog_inv (delete_product i)"
proof (rule preservesI)
  fix w u w'
  assume run: "delete_product i w = (Inr u, w')" and inv: "catalog_inv (wdb w)"
  from run have w': "wdb w' = cascade_product i (t_products_update (remove_row i) (wdb w))"
    by (auto elim!: delete_product_InrE)
  note legal = catalog_invD(8) [OF inv]
  have has: "has_attributes (wdb w') j k \<longleftrightarrow> has_attributes (wdb w) j k \<and> j \<noteq> i" for j k
    unfolding w' has_cascade by (simp add: has_attributes_def split: product_type_name.split)
  show "catalog_inv (wdb w')"
  proof (rule catalog_inv_products [OF inv])
    show "distinct (row_ids (t_products (wdb w')))" using catalog_invD(3) [OF inv] by (simp add: w' distinct_remove)
    show "attributes_legal (wdb w')"
      using legal by (auto simp: w' attributes_legal_def cascade_product_def distinct_remove ok_coffee_def
          ok_equipment_def ok_accessories_def ok_consumables_def)
    fix x assume "x \<in> set (t_products (wdb w'))"
    then have x: "x \<in> set (t_products (wdb w))" "row_id x \<noteq> i" by (simp_all add: w')
    then have "fits_product x \<and> ok_product (wdb w) x \<and> well_typed (wdb w) x" using inv by (simp add: catalog_inv_def)
    moreover from this have "well_typed (wdb w') x"
      using x(2) by (elim conjE well_typed_same) (simp_all add: has, simp add: w')
    ultimately show "fits_product x \<and> ok_product (wdb w) x \<and> well_typed (wdb w') x" by simp
  qed (simp_all add: w')
qed

section \<open>Categories\<close>

lemma catalog_inv_categories:
  assumes inv: "catalog_inv d" and d': "d' = t_categories_update f d" and ids: "distinct (row_ids (f (t_categories d)))"
    and cats: "\<And>c. c \<in> set (f (t_categories d)) \<Longrightarrow> fits_product_category c \<and> ok_category d' c"
    and kept: "\<And>p. p \<in> set (t_products d) \<Longrightarrow> refers (f (t_categories d)) (p_category_id p)"
  shows "catalog_inv d'"
proof -
  have has: "has_attributes d' i k = has_attributes d i k" for i k
    by (simp add: d' has_attributes_def split: product_type_name.split)
  have "well_typed d' p = well_typed d p" for p by (simp add: well_typed_def type_named_def has) (simp add: d')
  moreover have "ok_product d' p" if "p \<in> set (t_products d)" for p
    using catalog_invD(6) [OF inv that] kept [OF that] by (simp add: d' ok_product_def)
  moreover have "attributes_legal d'"
    using attributes_owned [OF catalog_invD(8) [OF inv]] by (intro legal_products [OF catalog_invD(8) [OF inv]]) (simp_all add: d')
  ultimately show ?thesis using inv ids cats by (simp add: catalog_inv_def d')
qed

lemma create_category_keeps: "preserves catalog_inv (create_category r)"
proof (rule preservesI)
  fix w dto w'
  assume run: "create_category r w = (Inr dto, w')" and inv: "catalog_inv (wdb w)"
  then obtain type_id v c where "resolve_product_type (cc_product_type r) w = (Inr type_id, v)"
    and "add_category (\<lambda>i t. \<lparr>row_id = i, created_at = t, updated_at = t, pc_name = cc_name r,
      pc_description = cc_description r, pc_product_type_id = type_id, pc_is_active = cc_is_active r\<rparr>) v = (Inr c, w')"
    unfolding create_category_def by (elim bind_InrE) simp
  then have c: "fits_product_category c" "ok_category (wdb w) c" "row_id c \<notin> set (row_ids (t_categories (wdb w)))"
    and w': "wdb w' = t_categories_update (\<lambda>cs. cs @ [c]) (wdb w)"
    by (auto elim!: resolve_product_type_InrE db_add_InrE)
  show "catalog_inv (wdb w')"
  proof (rule catalog_inv_categories [OF inv w'])
    show "distinct (row_ids (t_categories (wdb w) @ [c]))" using catalog_invD(2) [OF inv] c(3) by simp
    fix x assume "x \<in> set (t_categories (wdb w) @ [c])"
    then consider "x = c" | "x \<in> set (t_categories (wdb w))" by auto
    then show "fits_product_category x \<and> ok_category (wdb w') x"
    proof cases
      case 1
      then show ?thesis using c by (simp add: w' ok_category_def unique_by_def)
    next
      case 2
      then have "fits_product_category x \<and> ok_category (wdb w) x" using inv by (simp add: catalog_inv_def)
      moreover have "row_id x \<noteq> row_id c" using c(3) row_id_in [OF 2] by metis
      then have "pc_name c \<noteq> pc_name x" using c(2) 2 by (auto simp: ok_category_def unique_by_def)
      ultimately show ?thesis by (auto simp: w' ok_category_def unique_by_def)
    qed
  next
    fix p assume "p \<in> set (t_products (wdb w))"
    with catalog_invD(6) [OF inv this] show "refers (t_categories (wdb w) @ [c]) (p_category_id p)"
      by (simp add: ok_product_def)
  qed
qed

lemma touch_category [simp]:
  "fits_product_category (touch t old r) = fits_product_category r" "ok_category d (touch t old r) = ok_category d r"
  "pc_name (touch t old r) = pc_name r"
  by (simp_all add: touch_def fits_product_category_def ok_category_def unique_by_def)

lemma save_category_keeps: "preserves catalog_inv (save_category c)"
proof (rule preservesI)
  fix w u w'
  assume run: "save_category c w = (Inr u, w')" and inv: "catalog_inv (wdb w)"
  from run obtain old where old: "lookup (t_categories (wdb w)) (row_id c) = Some old"
    and ok: "c = old \<or> (fits_product_category c \<and> ok_category (wdb w) c)"
    and w': "wdb w' = t_categories_update (replace_row (touch (now w) old c)) (wdb w)"
    by (auto elim!: db_save_InrE)
  let ?c = "touch (now w) old c"
  have o: "old \<in> set (t_categories (wdb w))" "row_id old = row_id c" using lookup_SomeD [OF old] by auto
  then have "fits_product_category old \<and> ok_category (wdb w) old" using inv by (simp add: catalog_inv_def)
  with ok have c: "fits_product_category ?c" "ok_category (wdb w) ?c" by auto
  show "catalog_inv (wdb w')"
  proof (rule catalog_inv_categories [OF inv w'])
    show "distinct (row_ids (replace_row ?c (t_categories (wdb w))))" using catalog_invD(2) [OF inv] by simp
    fix x assume "x \<in> set (replace_row ?c (t_categories (wdb w)))"
    then consider "x = ?c" | "x \<in> set (t_categories (wdb w))" "row_id x \<noteq> row_id ?c" using in_replaceD by metis
    then show "fits_product_category x \<and> ok_category (wdb w') x"
    proof cases
      case 1
      then show ?thesis using c by (auto simp: w' ok_category_def unique_by_def dest!: in_replaceD)
    next
      case 2
      then have "fits_product_category x \<and> ok_category (wdb w) x" using inv by (simp add: catalog_inv_def)
      moreover have "pc_name x \<noteq> pc_name ?c" using c(2) 2 by (auto simp: ok_category_def unique_by_def)
      ultimately show ?thesis by (auto simp: w' ok_category_def unique_by_def dest!: in_replaceD)
    qed
  next
    fix p assume "p \<in> set (t_products (wdb w))"
    with catalog_invD(6) [OF inv this] show "refers (replace_row ?c (t_categories (wdb w))) (p_category_id p)"
      by (simp add: ok_product_def)
  qed
qed

lemma preserves_reader: "(\<And>w a w'. m w = (Inr a, w') \<Longrightarrow> w' = w) \<Longrightarrow> preserves I m"
  by (auto simp: preserves_def)

lemma resolve_keeps: "preserves I (resolve_product_type n)"
  by (rule preserves_reader) (auto elim: resolve_product_type_InrE)

lemma fetch_keeps: "preserves I (fetch f e)"
  by (rule preserves_reader) (auto elim: fetch_InrE)

lemma update_category_keeps: "preserves catalog_inv (update_category i r)"
  unfolding update_category_def product_type_name_of_def Let_def
  by (intro preserves_bind fetch_keeps save_category_keeps preserves_ret)
    (auto intro: preserves_ret resolve_keeps split: option.split)

lemma delete_category_keeps: "preserves catalog_inv (delete_category i)"
proof (rule preservesI)
  fix w u w'
  assume run: "delete_category i w = (Inr u, w')" and inv: "catalog_inv (wdb w)"
  from run have free: "\<not> category_has_products (wdb w) i"
    and w': "wdb w' = t_categories_update (remove_row i) (wdb w)"
    unfolding delete_category_def by (auto simp: bind_fetch bind_require split: option.splits if_splits elim!: db_delete_InrE)
  show "catalog_inv (wdb w')"
  proof (rule catalog_inv_categories [OF inv w'])
    show "distinct (row_ids (remove_row i (t_categories (wdb w))))"
      by (rule distinct_remove [OF catalog_invD(2) [OF inv]])
    fix x assume x: "x \<in> set (remove_row i (t_categories (wdb w)))"
    then have "fits_product_category x \<and> ok_category (wdb w) x" using inv by (simp add: catalog_inv_def)
    then show "fits_product_category x \<and> ok_category (wdb w') x" by (auto simp: w' ok_category_def unique_by_def)
  next
    fix p assume p: "p \<in> set (t_products (wdb w))"
    with free have "p_category_id p \<noteq> i" by (auto simp: category_has_products_def filter_empty_conv)
    with catalog_invD(6) [OF inv p] show "refers (remove_row i (t_categories (wdb w))) (p_category_id p)"
      by (simp add: ok_product_def)
  qed
qed

end
