(* ===== verification/Facets.thy ===== *)
theory Facets
  imports Catalog "HOL-Library.List_Lexorder" "HOL-Library.Char_ord"
begin

text \<open>
  The filter schema of a category: the aggregation queries of
  \<open>src/catalog/repositories/facets_repository.py\<close> and the service that turns them into facets
  (\<open>src/catalog/services/facets_service.py\<close>).
\<close>

section \<open>Responses\<close>

record FacetOptionDTO =
  fo_value :: string
  fo_label :: string
  fo_count :: nat

record FacetDTO =
  fc_key :: string
  fc_label :: string
  fc_kind :: string
  fc_options :: "FacetOptionDTO list"
  fc_min :: "int option"
  fc_max :: "int option"

record CategoryFacetsDTO =
  cfd_category_id :: uuid
  cfd_product_type :: string
  cfd_facets :: "FacetDTO list"

section \<open>Aggregation queries\<close>

definition in_category :: "database \<Rightarrow> uuid \<Rightarrow> uuid \<Rightarrow> bool" where
  \<comment> \<open>the identifier is that of an active product of the category\<close>
  "in_category d c i \<longleftrightarrow> (case lookup (t_products d) i of None \<Rightarrow> False | Some p \<Rightarrow> p_category_id p = c \<and> p_is_active p)"

definition attribute_rows :: "(database \<Rightarrow> 'a row_scheme list) \<Rightarrow> uuid \<Rightarrow> database \<Rightarrow> 'a row_scheme list" where
  \<comment> \<open>the join of the products with an attribute table\<close>
  "attribute_rows table c d = filter (\<lambda>r. in_category d c (row_id r)) (table d)"

definition group_counts :: "'a list \<Rightarrow> ('a \<times> nat) list" where
  "group_counts values = map (\<lambda>v. (v, count_list values v)) (remdups values)"

definition enum_counts ::
  "(string \<Rightarrow> 'k::linorder) \<Rightarrow> (database \<Rightarrow> 'a row_scheme list) \<Rightarrow> ('a row_scheme \<Rightarrow> string option) \<Rightarrow> uuid \<Rightarrow>
   database \<Rightarrow> (string \<times> nat) list" where
  \<comment> \<open>the group of NULL is dropped\<close>
  "enum_counts collate table column c d =
     (let present = map the (filter (\<lambda>v. v \<noteq> None) (map column (attribute_rows table c d)))
      in sort_key (\<lambda>(v, n). (- int n, collate v)) (group_counts present))"

definition range_bounds ::
  "(database \<Rightarrow> 'a row_scheme list) \<Rightarrow> ('a row_scheme \<Rightarrow> int option) \<Rightarrow> uuid \<Rightarrow> database \<Rightarrow> int option \<times> int option" where
  "range_bounds table column c d =
     (let present = map the (filter (\<lambda>v. v \<noteq> None) (map column (attribute_rows table c d)))
      in if present = [] then (None, None) else (Some (Min (set present)), Some (Max (set present))))"

definition coffee_flavor_notes :: "uuid \<Rightarrow> database \<Rightarrow> flavor_map list" where
  "coffee_flavor_notes c d =
     map the (filter (\<lambda>n. n \<noteq> None \<and> n \<noteq> Some []) (map cf_flavor_notes (attribute_rows t_coffee c d)))"

definition acidity_counts :: "uuid \<Rightarrow> database \<Rightarrow> (int \<times> nat) list" where
  "acidity_counts c d = group_counts (map cf_acidity (attribute_rows t_coffee c d))"

section \<open>The service\<close>

definition label_of :: "string \<Rightarrow> string" where
  "label_of v = py_title (replace_char (CHR ''_'') '' '' (replace_char (CHR ''-'') '' '' v))"

definition enum_facet ::
  "(string \<Rightarrow> 'k::linorder) \<Rightarrow> string \<Rightarrow> string \<Rightarrow> string \<Rightarrow> (database \<Rightarrow> 'a row_scheme list) \<Rightarrow>
   ('a row_scheme \<Rightarrow> string option) \<Rightarrow> uuid \<Rightarrow> database \<Rightarrow> FacetDTO" where
  "enum_facet collate key label kind table column c d =
     \<lparr>fc_key = key, fc_label = label, fc_kind = kind,
      fc_options = map (\<lambda>(v, n). \<lparr>fo_value = v, fo_label = label_of v, fo_count = n\<rparr>) (enum_counts collate table column c d),
      fc_min = None, fc_max = None\<rparr>"

definition bounds_facet :: "string \<Rightarrow> string \<Rightarrow> int option \<times> int option \<Rightarrow> FacetDTO" where
  "bounds_facet key label bounds =
     \<lparr>fc_key = key, fc_label = label, fc_kind = ''range'', fc_options = [], fc_min = fst bounds, fc_max = snd bounds\<rparr>"

definition range_facet ::
  "string \<Rightarrow> string \<Rightarrow> (database \<Rightarrow> 'a row_scheme list) \<Rightarrow> ('a row_scheme \<Rightarrow> int option) \<Rightarrow> uuid \<Rightarrow> database \<Rightarrow> FacetDTO" where
  "range_facet key label table column c d = bounds_facet key label (range_bounds table column c d)"

text \<open>The two dictionaries of the loops of \<open>_flavor_facet\<close>.\<close>

type_synonym flavor_tally = "(string \<times> nat) list \<times> (string \<times> string) list"

definition tally_key :: "string list \<Rightarrow> nat \<Rightarrow> string \<Rightarrow> flavor_tally \<Rightarrow> flavor_tally" where
  \<comment> \<open>one step of the inner loop, for the key at position \<open>i\<close>\<close>
  "tally_key labels_en i key t =
     (let counts = fst t; labels = snd t
      in (AList.update key ((case map_of counts key of None \<Rightarrow> 0 | Some n \<Rightarrow> n) + 1) counts,
          (case map_of labels key of
             Some _ \<Rightarrow> labels
           | None \<Rightarrow> AList.update key (if i < length labels_en then labels_en ! i else label_of key) labels)))"

fun tally_keys :: "string list \<Rightarrow> nat \<Rightarrow> string list \<Rightarrow> flavor_tally \<Rightarrow> flavor_tally" where
  "tally_keys labels_en i [] t = t"
| "tally_keys labels_en i (key # keys) t = tally_keys labels_en (Suc i) keys (tally_key labels_en i key t)"

definition notes_get :: "flavor_map \<Rightarrow> string \<Rightarrow> string list" where
  \<comment> \<open>\<open>notes.get(name) or []\<close>\<close>
  "notes_get notes name = (case map_of notes name of None \<Rightarrow> [] | Some ls \<Rightarrow> ls)"

definition tally_notes :: "flavor_map \<Rightarrow> flavor_tally \<Rightarrow> flavor_tally" where
  "tally_notes notes t = tally_keys (notes_get notes ''en'') 0 (notes_get notes ''keys'') t"

definition flavor_facet :: "uuid \<Rightarrow> database \<Rightarrow> FacetDTO" where
  "flavor_facet c d =
     (let t = fold tally_notes (coffee_flavor_notes c d) ([], []);
          counts = fst t;
          ordered = sort_key (\<lambda>k. (- int (the (map_of counts k)), k)) (map fst counts)
      in \<lparr>fc_key = ''flavor_notes'', fc_label = ''Flavor notes'', fc_kind = ''multi'',
          fc_options = map (\<lambda>k. \<lparr>fo_value = k, fo_label = the (map_of (snd t) k), fo_count = the (map_of counts k)\<rparr>) ordered,
          fc_min = None, fc_max = None\<rparr>)"

type_synonym acidity_buckets = "nat \<times> nat \<times> nat"

definition add_acidity :: "int \<times> nat \<Rightarrow> acidity_buckets \<Rightarrow> acidity_buckets" where
  "add_acidity vn b =
     (let v = fst vn; n = snd vn
      in if v \<le> 2 then (fst b + n, snd b) else if v = 3 then (fst b, fst (snd b) + n, snd (snd b))
         else (fst b, fst (snd b), snd (snd b) + n))"

definition acidity_facet :: "uuid \<Rightarrow> database \<Rightarrow> FacetDTO" where
  "acidity_facet c d =
     (let b = fold add_acidity (acidity_counts c d) (0, 0, 0)
      in \<lparr>fc_key = ''acidity'', fc_label = ''Acidity'', fc_kind = ''enum'',
          fc_options =
            [\<lparr>fo_value = ''soft'', fo_label = ''Soft'', fo_count = fst b\<rparr>,
             \<lparr>fo_value = ''balanced'', fo_label = ''Balanced'', fo_count = fst (snd b)\<rparr>,
             \<lparr>fo_value = ''bright'', fo_label = ''Bright'', fo_count = snd (snd b)\<rparr>],
          fc_min = None, fc_max = None\<rparr>)"

definition coffee_facets :: "(string \<Rightarrow> 'k::linorder) \<Rightarrow> uuid \<Rightarrow> database \<Rightarrow> FacetDTO list" where
  "coffee_facets collate c d =
     [flavor_facet c d, acidity_facet c d,
      enum_facet collate ''region'' ''Region'' ''multi'' t_coffee (\<lambda>r. Some (cf_region r)) c d,
      enum_facet collate ''roast_level'' ''Roast level'' ''enum'' t_coffee
        (\<lambda>r. Some (roast_level_value (cf_roast_level r))) c d,
      enum_facet collate ''processing'' ''Processing'' ''enum'' t_coffee
        (\<lambda>r. Some (processing_value (cf_processing r))) c d,
      bounds_facet ''body'' ''Body'' (Some 1, Some 5),
      bounds_facet ''sweetness'' ''Sweetness'' (Some 1, Some 5),
      range_facet ''altitude'' ''Altitude'' t_coffee cf_altitude c d]"

definition equipment_facets :: "(string \<Rightarrow> 'k::linorder) \<Rightarrow> uuid \<Rightarrow> database \<Rightarrow> FacetDTO list" where
  "equipment_facets collate c d =
     [enum_facet collate ''equipment_type'' ''Equipment type'' ''multi'' t_equipment
        (\<lambda>r. Some (equipment_type_value (eq_type r))) c d,
      enum_facet collate ''material'' ''Material'' ''multi'' t_equipment eq_material c d,
      range_facet ''power'' ''Power (W)'' t_equipment eq_power_watts c d,
      range_facet ''warranty'' ''Warranty (months)'' t_equipment eq_warranty_months c d]"

definition accessory_facets :: "(string \<Rightarrow> 'k::linorder) \<Rightarrow> uuid \<Rightarrow> database \<Rightarrow> FacetDTO list" where
  "accessory_facets collate c d =
     [enum_facet collate ''accessory_type'' ''Accessory type'' ''multi'' t_accessories
        (\<lambda>r. Some (accessory_type_value (ac_type r))) c d,
      enum_facet collate ''material'' ''Material'' ''multi'' t_accessories (\<lambda>r. Some (ac_material r)) c d]"

definition consumable_facets :: "(string \<Rightarrow> 'k::linorder) \<Rightarrow> uuid \<Rightarrow> database \<Rightarrow> FacetDTO list" where
  "consumable_facets collate c d =
     [enum_facet collate ''consumable_type'' ''Consumable type'' ''multi'' t_consumables
        (\<lambda>r. Some (consumable_type_value (co_type r))) c d,
      enum_facet collate ''material'' ''Material'' ''multi'' t_consumables co_material c d,
      range_facet ''pack'' ''Pack size'' t_consumables (\<lambda>r. Some (co_quantity_per_pack r)) c d]"

definition facets_for :: "(string \<Rightarrow> 'k::linorder) \<Rightarrow> product_type_name \<Rightarrow> uuid \<Rightarrow> database \<Rightarrow> FacetDTO list" where
  "facets_for collate ty c d =
     (if ty = TyCOFFEE then coffee_facets collate c d
      else if ty = TyEQUIPMENT then equipment_facets collate c d
      else if ty = TyACCESSORIES then accessory_facets collate c d
      else consumable_facets collate c d)"

definition get_facets :: "(string \<Rightarrow> 'k::linorder) \<Rightarrow> uuid \<Rightarrow> CategoryFacetsDTO session" where
  "get_facets collate c =
     bind (fetch (\<lambda>d. lookup (t_categories d) c) (CatalogExn (ProductCategoryNotFoundError c))) (\<lambda>category.
     bind (fetch (\<lambda>d. lookup (t_product_types d) (pc_product_type_id category)) AttributeError) (\<lambda>ty.
     case product_type_of (pt_name ty) of
       None \<Rightarrow> raise (not_a_product_type (pt_name ty))
     | Some n \<Rightarrow>
         bind (query (facets_for collate n c)) (\<lambda>facets.
         ret \<lparr>cfd_category_id = c, cfd_product_type = product_type_value n, cfd_facets = facets\<rparr>)))"

end
