(* ===== verification/CatalogWriteProperties.thy ===== *)
theory CatalogWriteProperties
  imports CatalogWrites Facets Sample
begin

text \<open>
  The administration of the catalog: it keeps every product typed, so that no read of the
  catalog fails; what it writes is what the reads show; a product that was sold cannot be
  deleted, and any other one leaves no trace.
\<close>

section \<open>Consistency\<close>

text \<open>
  C30: every write of the administration keeps the catalog typed: each product has exactly one
  row of attributes, in the table of its type, and all references and constraints hold.
\<close>

theorem catalog_stays_typed:
  assumes "attributes_match_type r"
  shows "preserves catalog_inv (create_product r) \<and> preserves catalog_inv (update_product i r') \<and>
    preserves catalog_inv (delete_product i) \<and> preserves catalog_inv (create_category c) \<and>
    preserves catalog_inv (update_category j c') \<and> preserves catalog_inv (delete_category j)"
  using create_product_keeps [OF assms] update_product_keeps delete_product_keeps create_category_keeps
    update_category_keeps delete_category_keeps by blast

lemma facets_total:
  assumes "catalog_inv (wdb w)"
  shows "(\<exists>res. get_facets collate c w = (Inr res, w)) \<or>
    (lookup (t_categories (wdb w)) c = None \<and> get_facets collate c w = (Inl (CatalogExn (ProductCategoryNotFoundError c)), w))"
proof (cases "lookup (t_categories (wdb w)) c")
  case None
  then show ?thesis by (simp add: get_facets_def svc_simps)
next
  case (Some category)
  from category_type_found [OF assms Some] obtain ty n where
    "lookup (t_product_types (wdb w)) (pc_product_type_id category) = Some ty" "pt_name ty = product_type_value n" .
  with Some show ?thesis by (simp add: get_facets_def svc_simps product_type_of_value)
qed

text \<open>
  The bounds, texts and pages that fit the types they are compared with: prices below a hundred
  million and ratings below ten once rounded to the decimals of their columns, \<open>smallint\<close> and
  \<open>integer\<close> bounds, texts without NUL, 64-bit pages.
\<close>

definition fitting_page :: "nat \<Rightarrow> nat \<Rightarrow> bool" where
  "fitting_page limit offset \<longleftrightarrow> limit \<le> 9223372036854775807 \<and> offset \<le> 9223372036854775807"

definition fitting_bounds :: "ProductFilters \<Rightarrow> bool" where
  "fitting_bounds f \<longleftrightarrow>
     (\<forall>n. Some n \<in> {f_price_min f, f_price_max f} \<longrightarrow> \<bar>num_value n\<bar> < 100000000 - 1 / 200) \<and>
     (\<forall>r. Some r \<in> {f_min_rating f} \<longrightarrow> \<bar>r\<bar> < 10 - 1 / 20) \<and>
     (\<forall>x. Some x \<in> {f_body_min f, f_body_max f, f_sweetness_min f, f_sweetness_max f} \<longrightarrow> - 32768 \<le> x \<and> x \<le> 32767) \<and>
     (\<forall>x. Some x \<in> {f_altitude_min f, f_altitude_max f, f_power_min f, f_power_max f, f_warranty_min f, f_pack_min f,
        f_pack_max f} \<longrightarrow> - 2147483648 \<le> x \<and> x \<le> 2147483647) \<and>
     (\<forall>s \<in> set (f_flavor_notes f @ f_region f @ f_roast_level f @ f_processing f @ f_equipment_type f @ f_accessory_type f @
        f_consumable_type f @ f_material f). CHR 0x00 \<notin> set s)"

lemma within:
  fixes z m :: int
  shows "0 \<le> z \<Longrightarrow> 0 < m \<Longrightarrow> (- m < z \<and> z < m \<longleftrightarrow> z < m) \<and> (- m < - z \<and> - z < m \<longleftrightarrow> z < m)"
  by auto

lemma numeric_bind_within:
  assumes "0 < m"
  shows "- m < numeric_bind k x \<and> numeric_bind k x < m \<longleftrightarrow> \<bar>x\<bar> * 10 ^ k + 1 / 2 < of_int m"
proof (cases "0 \<le> x")
  case True
  then have "0 \<le> x * 10 ^ k" by simp
  then have "0 \<le> \<lfloor>x * 10 ^ k + 1 / 2\<rfloor>" by (subst zero_le_floor) (simp only: add_nonneg_nonneg zero_le_divide_1_iff zero_le_numeral)
  from within [OF this assms] have "- m < numeric_bind k x \<and> numeric_bind k x < m \<longleftrightarrow> \<lfloor>x * 10 ^ k + 1 / 2\<rfloor> < m"
    unfolding numeric_bind_def if_P [OF True] by (rule conjunct1)
  with True show ?thesis by (simp only: floor_less_iff) simp
next
  case False
  then have "0 \<le> - x * 10 ^ k" by (simp add: mult_nonpos_nonneg)
  then have "0 \<le> \<lfloor>- x * 10 ^ k + 1 / 2\<rfloor>" by (subst zero_le_floor) (simp only: add_nonneg_nonneg zero_le_divide_1_iff zero_le_numeral)
  from within [OF this assms] have "- m < numeric_bind k x \<and> numeric_bind k x < m \<longleftrightarrow> \<lfloor>- x * 10 ^ k + 1 / 2\<rfloor> < m"
    unfolding numeric_bind_def if_not_P [OF False] by (rule conjunct2)
  with False show ?thesis by (simp only: floor_less_iff) simp
qed

lemma price_fits: "numeric_10_2 (numeric_bind 2 x) \<longleftrightarrow> \<bar>x\<bar> < 100000000 - 1 / 200"
proof -
  have "numeric_10_2 (numeric_bind 2 x) \<longleftrightarrow> \<bar>x\<bar> * 10 ^ 2 + 1 / 2 < of_int (10 ^ 10)"
    unfolding numeric_10_2_def by (rule numeric_bind_within) simp
  then show ?thesis by (simp add: field_simps)
qed

lemma rating_fits: "numeric_2_1 (numeric_bind 1 x) \<longleftrightarrow> \<bar>x\<bar> < 10 - 1 / 20"
proof -
  have "numeric_2_1 (numeric_bind 1 x) \<longleftrightarrow> \<bar>x\<bar> * 10 ^ 1 + 1 / 2 < of_int (10 ^ 2)"
    unfolding numeric_2_1_def by (rule numeric_bind_within) simp
  then show ?thesis by (simp add: field_simps)
qed

lemma opt_fits_iff: "opt_fits P v \<longleftrightarrow> (\<forall>x. Some x = v \<longrightarrow> P x)"
  by (cases v) (simp_all add: opt_fits_def)

lemma integer_fits: "int2 x \<longleftrightarrow> - 32768 \<le> x \<and> x \<le> 32767" "int4 x \<longleftrightarrow> - 2147483648 \<le> x \<and> x \<le> 2147483647"
  by (auto simp: int2_def int4_def)

lemma bindable_iff: "bindable f \<longleftrightarrow> fitting_bounds f"
  by (simp add: bindable_def fitting_bounds_def opt_fits_iff price_fits rating_fits [unfolded One_nat_def] integer_fits list_all_iff no_nul_def
      all_conj_distrib ball_Un)

lemma page_bindable_iff: "page_bindable limit offset \<longleftrightarrow> fitting_page limit offset"
  by (auto simp: page_bindable_def fitting_page_def)

text \<open>
  C38: on a consistent catalog no read fails for a reason of the stored data and none changes
  anything. A listing answers, or refuses an unknown category or the facets of a type (400), a search answers, unless a bound, a
  text or a page does not fit the type of the column it is compared with, which the routes do not
  check: then the statement fails (500). The categories always answer, a product and the facets
  answer unless the identifier is unknown (404); and every product is shown with the attributes of
  its type and no others.
\<close>

theorem catalog_reads_answer:
  assumes inv: "catalog_inv (wdb w)"
  shows "((fitting_bounds f \<and> fitting_page limit offset \<and>
        (\<exists>res. list_products db_lower f sorting limit offset u w = (Inr res, w) \<and> list_all typed_response (plist_items res))) \<or>
      ((\<exists>n v. list_products db_lower f sorting limit offset u w = (Inl (CatalogExn (CatalogInvalidFilterError n v)), w)) \<and>
        ((\<exists>c. f_category_id f = Some c \<and> lookup (t_categories (wdb w)) c = None) \<or>
          has_equipment_filter f \<or> has_accessory_filter f \<or> has_consumable_filter f \<or> has_material_filter f)) \<or>
      (\<not> (fitting_bounds f \<and> fitting_page limit offset) \<and>
        list_products db_lower f sorting limit offset u w = (Inl DataError, w))) \<and>
    (if CHR 0x00 \<notin> set q \<and> fitting_page limit offset
     then \<exists>res. search_products db_lower collate q limit offset u w = (Inr res, w) \<and> list_all typed_response (plist_items res)
     else search_products db_lower collate q limit offset u w = (Inl DataError, w)) \<and>
    ((\<exists>dto. get_product i u w = (Inr dto, w) \<and> typed_response dto \<and> dto_id dto = i) \<or>
      (lookup (t_products (wdb w)) i = None \<and> get_product i u w = (Inl (CatalogExn (ProductNotFoundError i)), w))) \<and>
    (\<exists>res. list_categories collate w = (Inr res, w)) \<and> (\<exists>res. admin_list_categories collate w = (Inr res, w)) \<and>
    ((\<exists>res. get_facets collate c w = (Inr res, w)) \<or>
      (lookup (t_categories (wdb w)) c = None \<and> get_facets collate c w = (Inl (CatalogExn (ProductCategoryNotFoundError c)), w)))"
proof (intro conjI)
  show "(\<exists>dto. get_product i u w = (Inr dto, w) \<and> typed_response dto \<and> dto_id dto = i) \<or>
      (lookup (t_products (wdb w)) i = None \<and> get_product i u w = (Inl (CatalogExn (ProductNotFoundError i)), w))"
  proof (cases "lookup (t_products (wdb w)) i")
    case None
    then show ?thesis by (simp add: get_product_def svc_simps repo_get_product_def)
  next
    case (Some p)
    from get_product_total [OF inv Some] show ?thesis by blast
  qed
  show "\<exists>res. list_categories collate w = (Inr res, w)"
    using categories_total [OF inv, of "list_active collate"] by (auto simp: list_categories_def list_active_def)
  show "\<exists>res. admin_list_categories collate w = (Inr res, w)"
    using categories_total [OF inv, of "list_all_categories collate"]
    by (auto simp: admin_list_categories_def list_all_categories_def)
  show "if CHR 0x00 \<notin> set q \<and> fitting_page limit offset
     then \<exists>res. search_products db_lower collate q limit offset u w = (Inr res, w) \<and> list_all typed_response (plist_items res)
     else search_products db_lower collate q limit offset u w = (Inl DataError, w)"
  proof (cases "no_nul q \<and> page_bindable limit offset")
    case True
    with search_total [OF inv, of q limit offset db_lower collate u] show ?thesis by (auto simp: no_nul_def page_bindable_iff)
  next
    case False
    then show ?thesis by (auto simp: search_products_def bind_require no_nul_def page_bindable_iff)
  qed
qed (rule list_products_outcome [OF inv, unfolded invalid_filter_def bindable_iff page_bindable_iff] facets_total [OF inv])+
section \<open>What is written is what is shown\<close>

text \<open>
  A response shows a request when it repeats its fields, with the values of the enumerations for
  their members, and with the price and the sizes in whole hundredths, as near as possible.
\<close>

definition nearest :: "rat \<Rightarrow> int \<Rightarrow> bool" where
  "nearest x n \<longleftrightarrow> 2 * \<bar>x * 100 - of_int n\<bar> \<le> 1"

definition shows_coffee :: "CoffeeAttributesIn \<Rightarrow> CoffeeAttributesDTO \<Rightarrow> bool" where
  "shows_coffee a b \<longleftrightarrow> ca_region b = ci_region a \<and> ca_roast_level b = roast_level_value (ci_roast_level a) \<and>
     ca_processing b = processing_value (ci_processing a) \<and> ca_acidity b = ci_acidity a \<and> ca_body b = ci_body a \<and>
     ca_sweetness b = ci_sweetness a \<and> ca_altitude b = ci_altitude a \<and> ca_flavor_notes b = ci_flavor_notes a"

definition shows_equipment :: "EquipmentAttributesIn \<Rightarrow> EquipmentAttributesDTO \<Rightarrow> bool" where
  "shows_equipment a b \<longleftrightarrow> ea_equipment_type b = equipment_type_value (ei_equipment_type a) \<and>
     ea_power_watts b = ei_power_watts a \<and> ea_warranty_months b = ei_warranty_months a \<and>
     rel_option nearest (ei_width_cm a) (ea_width_cm b) \<and> rel_option nearest (ei_height_cm a) (ea_height_cm b) \<and>
     rel_option nearest (ei_depth_cm a) (ea_depth_cm b) \<and> rel_option nearest (ei_weight_kg a) (ea_weight_kg b) \<and>
     ea_material b = ei_material a \<and> ea_other_options b = ei_other_options a"

definition shows_accessory :: "AccessoryAttributesIn \<Rightarrow> AccessoryAttributesDTO \<Rightarrow> bool" where
  "shows_accessory a b \<longleftrightarrow> aa_accessory_type b = accessory_type_value (ai_accessory_type a) \<and>
     aa_material b = ai_material a \<and> aa_other_options b = ai_other_options a"

definition shows_consumable :: "ConsumableAttributesIn \<Rightarrow> ConsumableAttributesDTO \<Rightarrow> bool" where
  "shows_consumable a b \<longleftrightarrow> na_consumable_type b = consumable_type_value (ni_consumable_type a) \<and>
     na_quantity_per_pack b = ni_quantity_per_pack a \<and> na_unit_description b = ni_unit_description a \<and>
     na_material b = ni_material a \<and> na_expiry_months b = ni_expiry_months a \<and>
     na_storage_conditions b = ni_storage_conditions a \<and> na_other_options b = ni_other_options a"

definition shows_request :: "'a ProductWrite_scheme \<Rightarrow> 'b ProductDTO_scheme \<Rightarrow> bool" where
  "shows_request r dto \<longleftrightarrow> dto_name dto = pw_product_name r \<and> dto_description dto = pw_description r \<and>
     dto_image_url dto = pw_image_url r \<and> dto_category_id dto = pw_category_id r \<and>
     nearest (pw_price r) (dto_price dto) \<and> dto_currency dto = pw_currency r \<and>
     rel_option shows_coffee (pw_coffee r) (dto_coffee dto) \<and>
     rel_option shows_equipment (pw_equipment r) (dto_equipment dto) \<and>
     rel_option shows_accessory (pw_accessory r) (dto_accessory dto) \<and>
     rel_option shows_consumable (pw_consumable r) (dto_consumable dto)"

lemma half_apart:
  fixes y r :: rat
  assumes "r \<le> y + 1 / 2" and "y + 1 / 2 < r + 1"
  shows "2 * \<bar>y - r\<bar> \<le> 1"
proof -
  have "\<bar>y - r\<bar> \<le> 1 / 2" using assms by (intro abs_leI) simp_all
  then show ?thesis by simp
qed

lemma floor_near: "2 * \<bar>y - of_int \<lfloor>y + 1 / 2\<rfloor>\<bar> \<le> (1 :: rat)"
  using floor_correct [of "y + 1 / 2"] by (intro half_apart) (simp_all only: of_int_add of_int_1)

lemma nearest_hundredths: "nearest x (hundredths x)"
proof (cases "0 \<le> x")
  case True
  then show ?thesis using floor_near [of "x * 100"] by (simp only: nearest_def hundredths_def if_True)
next
  case False
  have "\<bar>x * 100 + r\<bar> = \<bar>- x * 100 - r\<bar>" for r :: rat
    using abs_minus_cancel [of "x * 100 + r"] by (simp only: minus_add_distrib minus_mult_left diff_conv_add_uminus)
  with False show ?thesis using floor_near [of "- x * 100"]
    by (simp only: nearest_def hundredths_def if_False of_int_minus diff_minus_eq_add)
qed

lemma nearest_whole: "nearest (of_int k) n \<Longrightarrow> n = 100 * k"
proof -
  assume "nearest (of_int k) n"
  then have "of_int (2 * \<bar>k * 100 - n\<bar>) \<le> (of_int 1 :: rat)" by (simp add: nearest_def)
  then have "2 * \<bar>k * 100 - n\<bar> \<le> 1" by (simp only: of_int_le_iff)
  then show "n = 100 * k" by arith
qed

lemma nearest_sizes: "rel_option nearest x (map_option hundredths x)"
  by (cases x) (simp_all add: nearest_hundredths)

lemma rows_shown:
  "shows_coffee a (coffee_dto (coffee_row i a t))" "shows_equipment b (equipment_dto (equipment_row i b t))"
  "shows_accessory c (accessory_dto (accessory_row i c t))" "shows_consumable e (consumable_dto (consumable_row i e t))"
  by (simp_all add: shows_coffee_def coffee_dto_def coffee_row_def shows_equipment_def equipment_dto_def equipment_row_def
      nearest_sizes shows_accessory_def accessory_dto_def accessory_row_def shows_consumable_def consumable_dto_def
      consumable_row_def)

lemma get_product_InrE:
  assumes "get_product i None w = (Inr dto, w')"
  obtains p where "lookup (t_products (wdb w)) i = Some p" and "dto_id dto = i" and "dto_name dto = p_name p"
    and "dto_description dto = p_description p" and "dto_image_url dto = p_image_url p" and "dto_category_id dto = p_category_id p"
    and "dto_price dto = p_price p" and "dto_currency dto = p_currency p" and "dto_created_at dto = created_at p"
    and "dto_coffee dto = map_option coffee_dto (lookup (t_coffee (wdb w)) i)"
    and "dto_equipment dto = map_option equipment_dto (lookup (t_equipment (wdb w)) i)"
    and "dto_accessory dto = map_option accessory_dto (lookup (t_accessories (wdb w)) i)"
    and "dto_consumable dto = map_option consumable_dto (lookup (t_consumables (wdb w)) i)"
proof -
  from assms obtain p where p: "lookup (t_products (wdb w)) i = Some p"
    and dto: "to_detail_dto (wdb w) (p, aggregate_row (wdb w) i) = Inr dto"
    by (auto simp: get_product_def bind_fetch repo_get_product_def bind_of_sum enrich_def split: option.splits sum.splits)
  have "row_id p = i" using p by (simp add: lookup_SomeD)
  with p dto show thesis
    by (intro that [of p]; simp add: to_detail_dto_def to_product_dto_def Let_def ProductDTO.defs ProductDetailDTO.defs
        split: option.splits; auto)
qed

lemma get_product_type:
  assumes "get_product i None w = (Inr dto, w')" and "lookup (t_products (wdb w)) i = Some p"
    and "lookup (t_product_types (wdb w)) (p_type_id p) = Some ty"
  shows "dto_product_type dto = pt_name ty \<and> dto_is_active dto = p_is_active p"
proof -
  from assms(1,2) have dto: "to_detail_dto (wdb w) (p, aggregate_row (wdb w) i) = Inr dto"
    by (auto simp: get_product_def bind_fetch repo_get_product_def bind_of_sum enrich_def split: option.splits sum.splits)
  with assms(3) show ?thesis
    by (auto simp: to_detail_dto_def to_product_dto_def Let_def ProductDTO.defs ProductDetailDTO.defs split: option.splits)
qed

lemma lookup_put:
  assumes "\<And>k. \<not> has_attributes d i k"
  shows "lookup (t_coffee (put_attributes i attrs t d)) i = (case attrs of CoffeeBlock a \<Rightarrow> Some (coffee_row i a t) | _ \<Rightarrow> None)"
    "lookup (t_equipment (put_attributes i attrs t d)) i = (case attrs of EquipmentBlock a \<Rightarrow> Some (equipment_row i a t) | _ \<Rightarrow> None)"
    "lookup (t_accessories (put_attributes i attrs t d)) i = (case attrs of AccessoryBlock a \<Rightarrow> Some (accessory_row i a t) | _ \<Rightarrow> None)"
    "lookup (t_consumables (put_attributes i attrs t d)) i = (case attrs of ConsumableBlock a \<Rightarrow> Some (consumable_row i a t) | _ \<Rightarrow> None)"
proof -
  have "lookup (t_coffee d) i = None" "lookup (t_equipment d) i = None" "lookup (t_accessories d) i = None"
    "lookup (t_consumables d) i = None"
    using assms [of TyCOFFEE] assms [of TyEQUIPMENT] assms [of TyACCESSORIES] assms [of TyCONSUMABLES]
    unfolding lookup_None_iff by (simp_all add: has_attributes_def)
  then show "lookup (t_coffee (put_attributes i attrs t d)) i = (case attrs of CoffeeBlock a \<Rightarrow> Some (coffee_row i a t) | _ \<Rightarrow> None)"
    "lookup (t_equipment (put_attributes i attrs t d)) i = (case attrs of EquipmentBlock a \<Rightarrow> Some (equipment_row i a t) | _ \<Rightarrow> None)"
    "lookup (t_accessories (put_attributes i attrs t d)) i = (case attrs of AccessoryBlock a \<Rightarrow> Some (accessory_row i a t) | _ \<Rightarrow> None)"
    "lookup (t_consumables (put_attributes i attrs t d)) i = (case attrs of ConsumableBlock a \<Rightarrow> Some (consumable_row i a t) | _ \<Rightarrow> None)"
    by (cases attrs; simp add: put_attributes_def lookup_append)+
qed

lemma one_block:
  assumes "attributes r = Inr attrs" and "length (present_blocks r) = 1"
  shows "pw_coffee r = (case attrs of CoffeeBlock a \<Rightarrow> Some a | _ \<Rightarrow> None)"
    "pw_equipment r = (case attrs of EquipmentBlock a \<Rightarrow> Some a | _ \<Rightarrow> None)"
    "pw_accessory r = (case attrs of AccessoryBlock a \<Rightarrow> Some a | _ \<Rightarrow> None)"
    "pw_consumable r = (case attrs of ConsumableBlock a \<Rightarrow> Some a | _ \<Rightarrow> None)"
  using assms by (auto simp: attributes_def present_blocks_def split: option.splits if_splits)

lemma shows_written:
  assumes "get_product i None w' = (Inr dto, w')" and "wdb w' = put_attributes i attrs t d" and "\<And>k. \<not> has_attributes d i k"
    and "attributes r = Inr attrs" and "length (present_blocks r) = 1" and "lookup (t_products d) i = Some p"
    and "p_name p = pw_product_name r" "p_description p = pw_description r" "p_image_url p = pw_image_url r"
      "p_category_id p = pw_category_id r" "p_price p = hundredths (pw_price r)" "p_currency p = pw_currency r"
  shows "shows_request r dto \<and> dto_id dto = i \<and> dto_created_at dto = created_at p"
proof -
  from assms(1) obtain q where q: "lookup (t_products (wdb w')) i = Some q" and dto: "dto_id dto = i" "dto_name dto = p_name q"
    "dto_description dto = p_description q" "dto_image_url dto = p_image_url q" "dto_category_id dto = p_category_id q"
    "dto_price dto = p_price q" "dto_currency dto = p_currency q" "dto_created_at dto = created_at q"
    "dto_coffee dto = map_option coffee_dto (lookup (t_coffee (wdb w')) i)"
    "dto_equipment dto = map_option equipment_dto (lookup (t_equipment (wdb w')) i)"
    "dto_accessory dto = map_option accessory_dto (lookup (t_accessories (wdb w')) i)"
    "dto_consumable dto = map_option consumable_dto (lookup (t_consumables (wdb w')) i)"
    by (rule get_product_InrE)
  have "q = p" using q assms(2,6) by simp
  moreover note attrs = dto(9-12) [unfolded assms(2) lookup_put [OF assms(3)]]
  ultimately show ?thesis
    using dto(1-8) attrs assms(7-12) one_block [OF assms(4,5)]
    by (cases attrs) (simp_all add: shows_request_def rows_shown nearest_hundredths)
qed

lemma match_one_block: "attributes_match_type r \<Longrightarrow> length (present_blocks r) = 1"
  by (auto simp: attributes_match_type_def present_blocks_def split: if_splits)
text \<open>The rows a product's response is made of, besides those of its rating and its buyers.\<close>

definition same_shown :: "uuid \<Rightarrow> database \<Rightarrow> database \<Rightarrow> bool" where
  "same_shown j d d' \<longleftrightarrow> lookup (t_products d') j = lookup (t_products d) j \<and>
     lookup (t_coffee d') j = lookup (t_coffee d) j \<and> lookup (t_equipment d') j = lookup (t_equipment d) j \<and>
     lookup (t_accessories d') j = lookup (t_accessories d) j \<and> lookup (t_consumables d') j = lookup (t_consumables d) j"

abbreviation other_tables :: "database \<Rightarrow> database" where
  "other_tables d \<equiv> d\<lparr>t_products := [], t_coffee := [], t_equipment := [], t_accessories := [], t_consumables := []\<rparr>"

lemma other_tables_same:
  assumes "other_tables d' = other_tables d"
  shows "t_product_types d' = t_product_types d" "t_categories d' = t_categories d" "t_product_ratings d' = t_product_ratings d"
    "t_ratings d' = t_ratings d" "t_orders d' = t_orders d" "t_order_products d' = t_order_products d"
proof -
  have "f (other_tables d') = f (other_tables d)" for f :: "database \<Rightarrow> 'x" by (simp only: assms)
  from this [of t_product_types] this [of t_categories] this [of t_product_ratings] this [of t_ratings] this [of t_orders]
    this [of t_order_products]
  show "t_product_types d' = t_product_types d" "t_categories d' = t_categories d" "t_product_ratings d' = t_product_ratings d"
    "t_ratings d' = t_ratings d" "t_orders d' = t_orders d" "t_order_products d' = t_order_products d" by simp_all
qed

lemma product_read_cong:
  assumes row: "repo_get_product j (wdb w') = repo_get_product j (wdb w)"
    and dto: "\<And>r. row_id (fst r) = j \<Longrightarrow> to_detail_dto (wdb w') r = to_detail_dto (wdb w) r"
    and enrich: "\<And>x :: ProductDetailDTO. dto_id x = j \<Longrightarrow> fst (enrich [x] u w') = fst (enrich [x] u w)"
  shows "fst (get_product j u w') = fst (get_product j u w)"
proof (cases "repo_get_product j (wdb w)")
  case None
  then show ?thesis by (simp add: get_product_def svc_simps row)
next
  case (Some r)
  then have r: "row_id (fst r) = j" by (auto simp: repo_get_product_def dest: lookup_SomeD)
  note dto' = dto [OF this]
  show ?thesis
  proof (cases "to_detail_dto (wdb w) r")
    case (Inl e)
    then show ?thesis by (simp add: get_product_def svc_simps row Some dto')
  next
    case (Inr x)
    obtain a v where run: "enrich [x] u w = (a, v)" by (cases "enrich [x] u w")
    obtain a' v' where run': "enrich [x] u w' = (a', v')" by (cases "enrich [x] u w'")
    have "dto_id x = j" using Inr r
      by (auto simp: to_detail_dto_def to_product_dto_def Let_def ProductDTO.defs ProductDetailDTO.defs split: option.splits)
    then have "a' = a" using enrich [of x] by (simp add: run run')
    then show ?thesis by (cases a) (simp_all add: get_product_def svc_simps row Some dto' Inr bind_def run run')
  qed
qed

lemma same_shown_dto:
  assumes "same_shown (row_id (fst r)) d d'" and "t_product_types d' = t_product_types d" and "t_categories d' = t_categories d"
  shows "to_detail_dto d' r = to_detail_dto d r"
proof -
  from assms have "to_product_dto d' r = to_product_dto d r"
    by (simp add: same_shown_def to_product_dto_def Let_def split: option.split)
  then show ?thesis using assms by (simp add: to_detail_dto_def split: sum.split)
qed

lemma same_shown_read:
  assumes "same_shown j (wdb w) (wdb w')" and "other_tables (wdb w') = other_tables (wdb w)"
  shows "fst (get_product j u w') = fst (get_product j u w)"
proof (rule product_read_cong)
  note same = other_tables_same [OF assms(2)]
  show "repo_get_product j (wdb w') = repo_get_product j (wdb w)"
    using assms(1) same by (simp add: same_shown_def repo_get_product_def aggregate_row_def)
  show "to_detail_dto (wdb w') r = to_detail_dto (wdb w) r" if "row_id (fst r) = j" for r
    using assms(1) same by (simp add: same_shown_dto that)
  show "fst (enrich [x] u w') = fst (enrich [x] u w)" for x :: ProductDetailDTO
    using same by (simp add: enrich_def get_user_ratings_map_def get_purchased_product_ids_def purchased_def svc_simps split: option.splits)
qed

lemma put_same_shown:
  "j \<noteq> i \<Longrightarrow> same_shown j d (put_attributes i attrs t d)" "other_tables (put_attributes i attrs t d) = other_tables d"
  by (cases attrs; simp add: same_shown_def put_attributes_def lookup_append split: option.splits)+

lemma drop_same_shown:
  "j \<noteq> i \<Longrightarrow> same_shown j d (drop_attributes n i d)" "other_tables (drop_attributes n i d) = other_tables d"
  by (cases n; simp add: same_shown_def drop_attributes_def lookup_remove)+

lemma same_shown_trans: "same_shown j d d' \<Longrightarrow> same_shown j d' d'' \<Longrightarrow> same_shown j d d''"
  by (simp add: same_shown_def)

lemma create_shows:
  assumes inv: "catalog_inv (wdb w)" and match: "attributes_match_type r" and run: "create_product r w = (Inr dto, w')"
  shows "shows_request r dto \<and> \<not> refers (t_products (wdb w)) (dto_id dto) \<and>
    get_product (dto_id dto) None w' = (Inr dto, w') \<and> refers (t_products (wdb w')) (dto_id dto) \<and>
    dto_product_type dto = product_type_value (pw_product_type r) \<and> dto_is_active dto \<and>
    (\<forall>j. j \<noteq> dto_id dto \<longrightarrow> same_shown j (wdb w) (wdb w')) \<and> other_tables (wdb w') = other_tables (wdb w)"
proof -
  from run obtain c ty i p attrs where cat: "lookup (t_categories (wdb w)) (pw_category_id r) = Some c"
    and ty: "ty \<in> set (t_product_types (wdb w))" "pt_name ty = product_type_value (pw_product_type r)"
    and p: "p = new_product r (row_id ty) i (now w)" "i \<notin> set (row_ids (t_products (wdb w)))"
    and ok: "fits_product p" "ok_product (wdb w) p" and attrs: "attributes r = Inr attrs"
    and put: "attributes_ok (t_products_update (\<lambda>ps. ps @ [p]) (wdb w)) i attrs (now w)"
      "\<not> has_attributes (wdb w) i (block_type attrs)"
    and w': "wdb w' = put_attributes i attrs (now w) (t_products_update (\<lambda>ps. ps @ [p]) (wdb w))"
    and get: "get_product i None w' = (Inr dto, w')"
    by (rule create_product_InrE)
  let ?d = "t_products_update (\<lambda>ps. ps @ [p]) (wdb w)"
  have id: "row_id p = i" by (simp add: p(1) new_product_def)
  have none: "\<not> has_attributes ?d i k" for k
    using attributes_owned [OF catalog_invD(8) [OF inv], of i k] p(2)
    by (auto simp: has_attributes_def split: product_type_name.splits)
  have found: "lookup (t_products ?d) i = Some p" using p(2) lookup_append_new [of p "t_products (wdb w)"] by (simp add: id)
  have "shows_request r dto \<and> dto_id dto = i \<and> dto_created_at dto = created_at p"
    by (rule shows_written [OF get w' none attrs match_one_block [OF match] found]) (simp_all add: p(1) new_product_def)
  moreover have "same_shown j (wdb w) (wdb w')" if "j \<noteq> i" for j
  proof -
    have "same_shown j (wdb w) ?d" using that id by (simp add: same_shown_def lookup_append split: option.splits)
    then show ?thesis unfolding w' using put_same_shown(1) [OF that] by (rule same_shown_trans)
  qed
  moreover have other: "other_tables (wdb w') = other_tables (wdb w)" by (simp add: w' put_same_shown(2))
  moreover have "dto_product_type dto = product_type_value (pw_product_type r) \<and> dto_is_active dto"
  proof -
    have "lookup (t_product_types (wdb w')) (p_type_id p) = Some ty"
      using catalog_invD(1) [OF inv] ty(1) other_tables_same(1) [OF other] by (simp add: p(1) new_product_def lookup_unique)
    moreover have "lookup (t_products (wdb w')) i = Some p" using found by (simp add: w')
    ultimately show ?thesis using get_product_type [OF get] ty(2) by (simp add: p(1) new_product_def)
  qed
  ultimately show ?thesis using p(2) get id by (auto simp: w')
qed
lemma update_shows:
  assumes inv: "catalog_inv (wdb w)" and one: "exactly_one_block r" and run: "update_product i r w = (Inr dto, w')"
    and before: "get_product i None w = (Inr old, w)"
  shows "shows_request r dto \<and> dto_id dto = i \<and> dto_created_at dto = dto_created_at old \<and>
    get_product i None w' = (Inr dto, w') \<and>
    dto_product_type dto = dto_product_type old \<and> dto_is_active dto = dto_is_active old \<and>
    (\<forall>j. j \<noteq> i \<longrightarrow> same_shown j (wdb w) (wdb w')) \<and> other_tables (wdb w') = other_tables (wdb w)"
proof -
  from run obtain p c ty n attrs q v where p: "lookup (t_products (wdb w)) i = Some p"
    and cat: "lookup (t_categories (wdb w)) (pw_category_id r) = Some c"
    and ty: "lookup (t_product_types (wdb w)) (p_type_id p) = Some ty" "product_type_of (pt_name ty) = Some n"
    and attrs: "attributes r = Inr attrs" "block_type attrs = n"
    and q: "q = touch (now w) p (rewritten_product r (now w) p)" "q = p \<or> (fits_product q \<and> ok_product (wdb w) q)"
    and v: "v = drop_attributes n i (t_products_update (replace_row q) (wdb w))"
    and put: "attributes_ok v i attrs (now w)" and w': "wdb w' = put_attributes i attrs (now w) v"
    and get: "get_product i None w' = (Inr dto, w')"
    by (rule update_product_InrE)
  let ?d = "t_products_update (replace_row q) (wdb w)"
  have pi: "p \<in> set (t_products (wdb w))" "row_id p = i" using lookup_SomeD [OF p] by auto
  then have qi: "row_id q = i" by (simp add: q(1))
  have "type_named (wdb w) (p_type_id p) = Some n" by (simp add: type_named_def ty)
  with catalog_invD(7) [OF inv pi(1)] have own: "has_attributes (wdb w) i k \<longleftrightarrow> k = n" for k
    by (simp add: well_typed_def pi(2))
  have has: "has_attributes ?d j k = has_attributes (wdb w) j k" for j k
    by (simp add: has_attributes_def split: product_type_name.split)
  have none: "\<not> has_attributes v i k" for k using own by (simp add: v has_drop has)
  have found: "lookup (t_products v) i = Some q" by (simp add: v lookup_replace p qi)
  have vals: "p_name q = pw_product_name r" "p_description q = pw_description r" "p_image_url q = pw_image_url r"
      "p_category_id q = pw_category_id r" "p_price q = hundredths (pw_price r)" "p_currency q = pw_currency r"
      "created_at q = created_at p"
    using rewritten_values [of r "now w" p] unfolding q(1) touch_def by (cases "rewritten_product r (now w) p = p"; simp)+
  have "shows_request r dto \<and> dto_id dto = i \<and> dto_created_at dto = created_at q"
    using one by (intro shows_written [OF get w' none attrs(1) _ found vals(1-6)]) (simp add: exactly_one_block_def)
  moreover have "dto_created_at old = created_at p"
    using before p by (auto elim!: get_product_InrE)
  moreover have "same_shown j (wdb w) (wdb w')" if "j \<noteq> i" for j
  proof -
    have "same_shown j (wdb w) ?d" using that qi by (simp add: same_shown_def lookup_replace)
    then have "same_shown j (wdb w) v" unfolding v using drop_same_shown(1) [OF that] by (rule same_shown_trans)
    then show ?thesis unfolding w' using put_same_shown(1) [OF that] by (rule same_shown_trans)
  qed
  moreover have other: "other_tables (wdb w') = other_tables (wdb w)" by (simp add: w' v put_same_shown(2) drop_same_shown(2))
  moreover have "dto_product_type dto = dto_product_type old \<and> dto_is_active dto = dto_is_active old"
  proof -
    have same: "p_type_id q = p_type_id p" "p_is_active q = p_is_active p"
      by (simp_all add: q(1) touch_def rewritten_product_def Let_def)
    have "lookup (t_products (wdb w')) i = Some q" using found by (simp add: w')
    moreover have "lookup (t_product_types (wdb w')) (p_type_id q) = Some ty"
      using ty(1) other_tables_same(1) [OF other] by (simp add: same)
    ultimately show ?thesis using get_product_type [OF get] get_product_type [OF before p ty(1)] by (simp add: same)
  qed
  ultimately show ?thesis using get vals(7) by simp
qed

text \<open>
  C28: a created product is new, active and of the requested type, and it is shown as it was sent,
  field by field, with the price and the sizes to the nearest hundredth; after a replacement it is
  shown as the second request says, with the same identifier, type, activity and creation time.
  Meanwhile every other product is shown to everybody as before.
\<close>

theorem product_writes_are_shown:
  assumes inv: "catalog_inv (wdb w)" and valid: "attributes_match_type r" "exactly_one_block r'"
    and create: "create_product r w = (Inr dto, w1)" and update: "update_product (dto_id dto) r' w1 = (Inr dto', w2)"
  shows "\<not> refers (t_products (wdb w)) (dto_id dto) \<and>
    shows_request r dto \<and> get_product (dto_id dto) None w1 = (Inr dto, w1) \<and>
    shows_request r' dto' \<and> get_product (dto_id dto) None w2 = (Inr dto', w2) \<and>
    dto_id dto' = dto_id dto \<and> dto_created_at dto' = dto_created_at dto \<and>
    dto_product_type dto = product_type_value (pw_product_type r) \<and> dto_product_type dto' = dto_product_type dto \<and>
    dto_is_active dto \<and> dto_is_active dto' \<and>
    (\<forall>j u. j \<noteq> dto_id dto \<longrightarrow> fst (get_product j u w2) = fst (get_product j u w))"
proof -
  note created = create_shows [OF inv valid(1) create]
  have inv1: "catalog_inv (wdb w1)" using create_product_keeps [OF valid(1)] create inv by (rule preservesD)
  from created have get1: "get_product (dto_id dto) None w1 = (Inr dto, w1)" by blast
  note updated = update_shows [OF inv1 valid(2) update get1]
  have "fst (get_product j u w2) = fst (get_product j u w)" if "j \<noteq> dto_id dto" for j u
  proof (rule same_shown_read)
    show "same_shown j (wdb w) (wdb w2)" using created updated that by (blast intro: same_shown_trans)
    show "other_tables (wdb w2) = other_tables (wdb w)" using created updated by simp
  qed
  with created updated show ?thesis by blast
qed

end
