(* ===== verification/CatalogDeletion.thy ===== *)
theory CatalogDeletion
  imports CatalogWriteProperties
begin

text \<open>
  What the deletion of a product leaves behind. The references to a product are of two kinds:
  an order line or a product of a subscription keeps the row in place, everything else goes
  with it.
\<close>

definition mentions_product :: "database \<Rightarrow> uuid \<Rightarrow> bool" where
  "mentions_product d i \<longleftrightarrow> refers (t_products d) i \<or> refers (t_coffee d) i \<or> refers (t_equipment d) i \<or>
     refers (t_accessories d) i \<or> refers (t_consumables d) i \<or>
     list_ex (\<lambda>x. cmp_accessory_id x = i \<or> cmp_compatible_id x = i) (t_compatibility d) \<or>
     list_ex (\<lambda>x. r_product_id x = i) (t_ratings d) \<or> list_ex (\<lambda>x. pr_product_id x = i) (t_product_ratings d) \<or>
     list_ex (\<lambda>x. op_product_id x = i) (t_order_products d) \<or> list_ex (\<lambda>x. sp_product_id x = i) (t_sub_products d)"

abbreviation without_product :: "uuid \<Rightarrow> database \<Rightarrow> database" where
  "without_product i d \<equiv> cascade_product i (t_products_update (remove_row i) d)"

lemma find_filter_same: "(\<And>x. P x \<Longrightarrow> Q x) \<Longrightarrow> find P (filter Q xs) = find P xs"
  by (induct xs) auto

lemma without_product_same_shown: "j \<noteq> i \<Longrightarrow> same_shown j d (without_product i d)"
  by (simp add: same_shown_def cascade_product_def lookup_remove)

lemma without_product_read:
  assumes "wdb w' = without_product i (wdb w)" and "j \<noteq> i"
  shows "fst (get_product j u w') = fst (get_product j u w)"
proof (rule product_read_cong)
  have same: "same_shown j (wdb w) (wdb w')" using assms by (simp add: without_product_same_shown)
  have "aggregate_row (wdb w') j = aggregate_row (wdb w) j"
    unfolding aggregate_row_def assms(1) cascade_product_def using assms(2) by (simp, intro find_filter_same) simp
  then show "repo_get_product j (wdb w') = repo_get_product j (wdb w)"
    using same by (simp add: same_shown_def repo_get_product_def)
  show "to_detail_dto (wdb w') r = to_detail_dto (wdb w) r" if "row_id (fst r) = j" for r
    using same by (intro same_shown_dto) (simp_all add: that assms(1))
  have "filter (\<lambda>r. r_user_id r = v \<and> r_product_id r = j) (t_ratings (wdb w')) =
      filter (\<lambda>r. r_user_id r = v \<and> r_product_id r = j) (t_ratings (wdb w))" for v
    using assms by (auto simp: cascade_product_def intro: filter_cong)
  moreover have "t_orders (wdb w') = t_orders (wdb w)" "t_order_products (wdb w') = t_order_products (wdb w)"
    by (simp_all add: assms(1) cascade_product_def)
  ultimately show "fst (enrich [x] u w') = fst (enrich [x] u w)" if "dto_id x = j" for x :: ProductDetailDTO
    by (simp add: that enrich_def get_user_ratings_map_def get_purchased_product_ids_def purchased_def svc_simps split: option.splits)
qed

lemma without_product_gone:
  assumes "\<not> product_is_held d i"
  shows "\<not> mentions_product (without_product i d) i"
  using assms by (simp add: mentions_product_def product_is_held_def cascade_product_def list_ex_iff Bex_def)

text \<open>
  C29: a product is deleted exactly when it exists and neither an order nor a subscription names
  it. Afterwards no row of the database mentions it, its page answers \<open>ProductNotFoundError\<close>,
  every other product is shown as before and orders, subscriptions and categories are as they
  were. A refused deletion leaves the database as it was, with \<open>ProductNotFoundError\<close> or, for a
  product that is held, with the database's \<open>IntegrityError\<close>.
\<close>

theorem product_deletion_is_clean:
  "case delete_product i w of
     (Inr _, w') \<Rightarrow> refers (t_products (wdb w)) i \<and> \<not> product_is_held (wdb w) i \<and> \<not> mentions_product (wdb w') i \<and>
       (\<forall>j u. fst (get_product j u w') = (if j = i then Inl (CatalogExn (ProductNotFoundError i)) else fst (get_product j u w))) \<and>
       t_order_products (wdb w') = t_order_products (wdb w) \<and> t_sub_products (wdb w') = t_sub_products (wdb w) \<and>
       t_orders (wdb w') = t_orders (wdb w) \<and> t_subscriptions (wdb w') = t_subscriptions (wdb w) \<and>
       t_categories (wdb w') = t_categories (wdb w)
   | (Inl e, w') \<Rightarrow> wdb w' = wdb w \<and>
       (if refers (t_products (wdb w)) i then product_is_held (wdb w) i \<and> e = IntegrityError
        else e = CatalogExn (ProductNotFoundError i))"
proof (cases "lookup (t_products (wdb w)) i")
  case None
  then have "\<not> refers (t_products (wdb w)) i" by (simp add: lookup_None_iff)
  with None show ?thesis by (simp add: delete_product_def require_product_def svc_simps)
next
  case (Some p)
  then have found: "refers (t_products (wdb w)) i" using lookup_None_iff [of "t_products (wdb w)" i] by simp
  show ?thesis
  proof (cases "product_is_held (wdb w) i")
    case True
    then have "db_delete t_products_update product_is_held i w = (Inl IntegrityError, w)"
      by (simp add: db_delete_def svc_simps)
    then have "delete_product i w = (Inl IntegrityError, w)"
      using Some by (simp add: delete_product_def require_product_def fetch_def bind_def query_def)
    with True found show ?thesis by simp
  next
    case False
    define w' where "w' = w\<lparr>wdb := without_product i (wdb w)\<rparr>"
    have "db_delete t_products_update product_is_held i w = (Inr (), w\<lparr>wdb := t_products_update (remove_row i) (wdb w)\<rparr>)"
      using False by (simp add: db_delete_def svc_simps)
    then have run: "delete_product i w = (Inr (), w')"
      using Some by (simp add: delete_product_def require_product_def fetch_run bind_def modify_def w'_def)
    have "wdb w' = without_product i (wdb w)" by (simp add: w'_def)
    note read = without_product_read [OF this]
    have gone: "fst (get_product i u w') = Inl (CatalogExn (ProductNotFoundError i))" for u
      by (simp add: w'_def get_product_def repo_get_product_def svc_simps lookup_remove)
    show ?thesis unfolding run
      using found False without_product_gone [OF False] gone read by (auto simp: w'_def cascade_product_def)
  qed
qed

end
