(* ===== verification/Users.thy ===== *)
theory Users
  imports Database PyText
begin

text \<open>
  Personal accounts (\<open>src/users/service.py\<close>, \<open>src/users/schemas.py\<close>,
  \<open>src/api/v1/routers/users.py\<close>): validation of profile fields, creation with default
  preferences, partial updates and the two ways to delete an account. The time zone data
  base behind \<open>ZoneInfo\<close> is a parameter; characters are those of Latin-1.
\<close>

section \<open>Text\<close>

definition email_core :: "string \<Rightarrow> bool" where
  \<comment> \<open>one or more, \<open>@\<close>, one or more, a dot, one or more, none of them \<open>@\<close> or a space\<close>
  "email_core s \<longleftrightarrow>
     (let local = takeWhile (\<lambda>c. c \<noteq> CHR ''@'') s; rest = drop (length local) s; domain = tl rest
      in list_all (\<lambda>c. \<not> py_space c) s \<and> local \<noteq> [] \<and> rest \<noteq> [] \<and> CHR ''@'' \<notin> set domain \<and>
         CHR ''.'' \<in> set (butlast (tl domain)))"

definition matches_email :: "string \<Rightarrow> bool" where
  \<comment> \<open>\<open>_EMAIL_RE.match\<close>: the final \<open>$\<close> also matches before a newline that ends the text\<close>
  "matches_email s \<longleftrightarrow> email_core s \<or> (s \<noteq> [] \<and> last s = CHR 0x0A \<and> email_core (butlast s))"

section \<open>Validation\<close>

definition SUPPORTED_LANGUAGES :: "string list" where
  "SUPPORTED_LANGUAGES = [''en'', ''ru'', ''uk'']"

definition DISPLAY_NAME_MAX :: nat where
  "DISPLAY_NAME_MAX = 255"

definition validate_display_name :: "string option \<Rightarrow> exn + string" where
  \<comment> \<open>with the value whose presence it guarantees\<close>
  "validate_display_name value =
     (case value of
        None \<Rightarrow> Inl (UserExn (UserInvalidDisplayNameError ''Display name cannot be empty''))
      | Some s \<Rightarrow>
          if s = [] \<or> strip s = [] then Inl (UserExn (UserInvalidDisplayNameError ''Display name cannot be empty''))
          else if length s > DISPLAY_NAME_MAX then Inl (UserExn (UserInvalidDisplayNameError ''Display name too long''))
          else Inr s)"

definition validate_email :: "string option \<Rightarrow> exn + unit" where
  "validate_email value =
     (case value of
        None \<Rightarrow> Inr ()
      | Some s \<Rightarrow> if matches_email s then Inr () else Inl (UserExn (UserInvalidEmailError ''Email format is invalid'')))"

definition validate_language :: "string option \<Rightarrow> exn + unit" where
  "validate_language value =
     (case value of
        None \<Rightarrow> Inr ()
      | Some s \<Rightarrow> if s \<in> set SUPPORTED_LANGUAGES then Inr ()
                  else Inl (UserExn (UserInvalidPreferenceError ''Unsupported language code'')))"

datatype zone_lookup = ZoneFound | ZoneRefused | ZoneRaises exn

definition validate_timezone :: "(string \<Rightarrow> zone_lookup) \<Rightarrow> string option \<Rightarrow> exn + unit" where
  \<comment> \<open>\<open>ZoneRefused\<close> is a \<open>ZoneInfoNotFoundError\<close> or a \<open>ValueError\<close>\<close>
  "validate_timezone zone_info value =
     (case value of
        None \<Rightarrow> Inr ()
      | Some s \<Rightarrow>
          (case zone_info s of
             ZoneFound \<Rightarrow> Inr ()
           | ZoneRefused \<Rightarrow> Inl (UserExn (UserInvalidPreferenceError ''Unsupported timezone''))
           | ZoneRaises e \<Rightarrow> Inl e))"

section \<open>Requests and responses\<close>

text \<open>A field of an update is absent, \<open>null\<close> or a text.\<close>

record UpdateProfileRequest =
  up_display_name :: "string option option"
  up_email :: "string option option"

record UpdatePreferencesRequest =
  upr_language :: "string option option"
  upr_timezone :: "string option option"

record PreferencesDTO =
  pref_language :: string
  pref_timezone :: string

record UserProfileDTO =
  prof_id :: uuid
  prof_email :: "string option"
  prof_display_name :: string
  prof_is_active :: bool
  prof_created_at :: datetime
  prof_preferences :: PreferencesDTO

definition to_preferences_dto :: "user_preferences \<Rightarrow> PreferencesDTO" where
  "to_preferences_dto p = \<lparr>pref_language = up_language p, pref_timezone = up_timezone p\<rparr>"

definition to_profile_dto :: "user \<Rightarrow> user_preferences option \<Rightarrow> exn + UserProfileDTO" where
  "to_profile_dto u prefs =
     (case prefs of
        None \<Rightarrow> Inl AttributeError
      | Some p \<Rightarrow> Inr \<lparr>prof_id = row_id u, prof_email = u_email u, prof_display_name = u_display_name u,
          prof_is_active = u_is_active u, prof_created_at = created_at u, prof_preferences = to_preferences_dto p\<rparr>)"

section \<open>Operations\<close>

definition preferences_of :: "database \<Rightarrow> uuid \<Rightarrow> user_preferences option" where
  "preferences_of d user_id = find (\<lambda>p. up_user_id p = user_id) (t_preferences d)"

definition new_user :: "string \<Rightarrow> uuid option \<Rightarrow> uuid \<Rightarrow> datetime \<Rightarrow> user" where
  "new_user display_name auth_user_id i t =
     \<lparr>row_id = i, created_at = t, updated_at = t, u_auth_user_id = auth_user_id, u_email = None,
      u_display_name = display_name, u_is_active = True\<rparr>"

definition default_preferences :: "uuid \<Rightarrow> uuid \<Rightarrow> datetime \<Rightarrow> user_preferences" where
  "default_preferences user_id i t =
     \<lparr>row_id = i, created_at = t, updated_at = t, up_user_id = user_id, up_language = ''en'', up_timezone = ''UTC''\<rparr>"

definition create_user :: "string \<Rightarrow> uuid option \<Rightarrow> user session" where
  "create_user display_name auth_user_id =
     bind (add_user (new_user display_name auth_user_id)) (\<lambda>u.
     bind (add_preferences (default_preferences (row_id u))) (\<lambda>_. ret u))"

definition active_user :: "database \<Rightarrow> uuid \<Rightarrow> user option" where
  "active_user d i = (case lookup (t_users d) i of Some u \<Rightarrow> if u_is_active u then Some u else None | None \<Rightarrow> None)"

definition account_not_found :: exn where
  "account_not_found = UserExn (UserNotFoundError ''Account not found'')"

definition get_me :: "uuid \<Rightarrow> (user \<times> user_preferences option) session" where
  "get_me user_id =
     bind (fetch (\<lambda>d. active_user d user_id) account_not_found) (\<lambda>u.
     bind (query (\<lambda>d. preferences_of d user_id)) (\<lambda>p. ret (u, p)))"

definition get_preferences :: "uuid \<Rightarrow> user_preferences session" where
  "get_preferences user_id = fetch (\<lambda>d. preferences_of d user_id) account_not_found"

definition apply_display_name :: "string option option \<Rightarrow> user \<Rightarrow> user session" where
  "apply_display_name field u =
     (case field of
        None \<Rightarrow> ret u
      | Some value \<Rightarrow> bind (of_sum (validate_display_name value)) (\<lambda>s. ret (u\<lparr>u_display_name := strip s\<rparr>)))"

definition apply_email :: "string option option \<Rightarrow> user \<Rightarrow> user session" where
  \<comment> \<open>\<open>data.email or None\<close>: a text that passed the check is not empty\<close>
  "apply_email field u =
     (case field of
        None \<Rightarrow> ret u
      | Some value \<Rightarrow> bind (of_sum (validate_email value)) (\<lambda>_.
          ret (u\<lparr>u_email := (if value = Some [] then None else value)\<rparr>)))"

definition update_profile :: "uuid \<Rightarrow> UpdateProfileRequest \<Rightarrow> (user \<times> user_preferences option) session" where
  "update_profile user_id data =
     bind (get_me user_id) (\<lambda>me.
     bind (apply_display_name (up_display_name data) (fst me)) (\<lambda>u1.
     bind (apply_email (up_email data) u1) (\<lambda>u2.
     bind (save_user u2) (\<lambda>_. ret (u2, snd me)))))"

definition update_preferences ::
  "(string \<Rightarrow> zone_lookup) \<Rightarrow> uuid \<Rightarrow> UpdatePreferencesRequest \<Rightarrow> user_preferences session" where
  "update_preferences zone_info user_id data =
     bind (case upr_language data of None \<Rightarrow> ret () | Some v \<Rightarrow> of_sum (validate_language v)) (\<lambda>_.
     bind (case upr_timezone data of None \<Rightarrow> ret () | Some v \<Rightarrow> of_sum (validate_timezone zone_info v)) (\<lambda>_.
     bind (get_preferences user_id) (\<lambda>p.
     let p1 = (case upr_language data of Some (Some s) \<Rightarrow> p\<lparr>up_language := s\<rparr> | _ \<Rightarrow> p);
         p2 = (case upr_timezone data of Some (Some s) \<Rightarrow> p1\<lparr>up_timezone := s\<rparr> | _ \<Rightarrow> p1)
     in bind (save_preferences p2) (\<lambda>_. ret p2))))"

datatype account_deletion = HardDelete | SoftDelete

definition delete_preferences :: "uuid \<Rightarrow> unit session" where
  "delete_preferences user_id =
     modify (\<lambda>w. w\<lparr>wdb := t_preferences_update (filter (\<lambda>p. up_user_id p \<noteq> user_id)) (wdb w)\<rparr>)"

definition anonymised :: "user \<Rightarrow> user" where
  "anonymised u = u\<lparr>u_auth_user_id := None, u_email := None,
     u_display_name := ''User-'' @ take 8 (str_uuid (row_id u)), u_is_active := False\<rparr>"

definition delete_account :: "uuid \<Rightarrow> account_deletion \<Rightarrow> unit session" where
  "delete_account user_id mode =
     bind (fetch (\<lambda>d. active_user d user_id) account_not_found) (\<lambda>u.
     case mode of
       SoftDelete \<Rightarrow> save_user (u\<lparr>u_is_active := False\<rparr>)
     | HardDelete \<Rightarrow>
         bind (delete_preferences user_id) (\<lambda>_. save_user (anonymised u)))"

section \<open>Endpoints\<close>

text \<open>The routes under \<open>/users/me\<close>; \<open>caller\<close> is what \<open>require_auth\<close> returns.\<close>

definition get_me_endpoint :: "user session \<Rightarrow> UserProfileDTO session" where
  "get_me_endpoint caller = unit_of_work (
     bind caller (\<lambda>user. bind (get_me (row_id user)) (\<lambda>(u, p). of_sum (to_profile_dto u p))))"

definition update_me_endpoint :: "user session \<Rightarrow> UpdateProfileRequest \<Rightarrow> UserProfileDTO session" where
  "update_me_endpoint caller payload = unit_of_work (
     bind caller (\<lambda>user. bind (update_profile (row_id user) payload) (\<lambda>(u, p). of_sum (to_profile_dto u p))))"

definition update_preferences_endpoint ::
  "(string \<Rightarrow> zone_lookup) \<Rightarrow> user session \<Rightarrow> UpdatePreferencesRequest \<Rightarrow> PreferencesDTO session" where
  "update_preferences_endpoint zone_info caller payload = unit_of_work (
     bind caller (\<lambda>user. bind (update_preferences zone_info (row_id user) payload) (\<lambda>p. ret (to_preferences_dto p))))"

definition delete_me_endpoint :: "user session \<Rightarrow> account_deletion \<Rightarrow> unit session" where
  "delete_me_endpoint caller mode = unit_of_work (bind caller (\<lambda>user. delete_account (row_id user) mode))"

end
