(* ===== verification/Jwks.thy ===== *)
theory Jwks
  imports Errors Schema PyText
begin

text \<open>
  The client of the identity provider (\<open>src/auth/crew_auth.py\<close>) and the local verification of
  its access tokens (\<open>src/auth/jwks.py\<close>). The process-wide key cache is the state
  \<open>jwks_state\<close>; the answers of the provider and the readings of the monotonic clock (in
  microseconds) are streams of it, consumed in the order in which the code asks for them,
  and the lock makes each lookup of a key one step. The JWT library, the parser of key sets
  and the pydantic models are parameters.
\<close>

section \<open>Answers of the identity provider\<close>

record http_response =
  http_status :: nat
  http_body :: "json option"
  http_cache_control :: "string option"

datatype http_outcome = HttpError | HttpAnswer http_response

record ExchangedTokens =
  ex_access_token :: string
  ex_refresh_token :: string
  ex_user_id :: uuid
  ex_expires_in :: int

record RefreshedTokens =
  re_access_token :: string
  re_refresh_token :: string
  re_expires_in :: int

definition auth_unavailable :: exn where
  "auth_unavailable = AuthExn (AuthUnavailableError ''Authentication service is unavailable'')"

definition error_code_of :: "http_response \<Rightarrow> string" where
  \<comment> \<open>the text of a value that is no string is never one of the codes asked for\<close>
  "error_code_of r =
     (case http_body r of
        Some (JObj members) \<Rightarrow> (case map_of (rev members) ''error'' of Some (JStr s) \<Rightarrow> s | _ \<Rightarrow> [])
      | _ \<Rightarrow> [])"

definition post_answer :: "http_outcome \<Rightarrow> exn + http_response" where
  "post_answer outcome = (case outcome of HttpError \<Rightarrow> Inl auth_unavailable | HttpAnswer r \<Rightarrow> Inr r)"

definition redeemed :: "(json \<Rightarrow> 'a option) \<Rightarrow> string \<Rightarrow> exn \<Rightarrow> http_outcome \<Rightarrow> exn + 'a" where
  \<comment> \<open>the common body of the two POST calls; \<open>validate\<close> is the pydantic model\<close>
  "redeemed validate code refusal outcome =
     (case post_answer outcome of
        Inl e \<Rightarrow> Inl e
      | Inr r \<Rightarrow>
          if http_status r = 200
          then (case http_body r of
                  None \<Rightarrow> Inl auth_unavailable
                | Some body \<Rightarrow> (case validate body of None \<Rightarrow> Inl auth_unavailable | Some tokens \<Rightarrow> Inr tokens))
          else if error_code_of r = code then Inl refusal
          else Inl auth_unavailable)"

definition exchange_code :: "(json \<Rightarrow> ExchangedTokens option) \<Rightarrow> http_outcome \<Rightarrow> exn + ExchangedTokens" where
  "exchange_code validate =
     redeemed validate ''invalid_code'' (AuthExn (InvalidCodeError ''Login code is invalid or expired''))"

definition refresh_tokens :: "(json \<Rightarrow> RefreshedTokens option) \<Rightarrow> http_outcome \<Rightarrow> exn + RefreshedTokens" where
  "refresh_tokens validate =
     redeemed validate ''invalid_refresh_token''
       (AuthExn (InvalidRefreshTokenError ''Refresh token is invalid or expired''))"

definition fetch_jwks :: "http_outcome \<Rightarrow> exn + http_response" where
  "fetch_jwks outcome =
     (case post_answer outcome of
        Inl e \<Rightarrow> Inl e
      | Inr r \<Rightarrow> if http_status r \<noteq> 200 then Inl auth_unavailable else Inr r)"

section \<open>The key cache\<close>

type_synonym micros = int

record 'k jwks_state =
  jw_keys :: "(string \<times> 'k) list"
  jw_expires_at :: micros
  jw_last_refetch_at :: "micros option"
  jw_clock :: "nat \<Rightarrow> micros"
  jw_ticks :: nat
  jw_answers :: "nat \<Rightarrow> http_outcome"
  jw_fetches :: nat

type_synonym ('k, 'a) jwks = "('k jwks_state, exn, 'a) svc"

definition DEFAULT_MAX_AGE :: micros where
  "DEFAULT_MAX_AGE = 300000000"

definition REFETCH_MIN_INTERVAL :: micros where
  "REFETCH_MIN_INTERVAL = 60000000"

definition reset_cache :: "'k jwks_state \<Rightarrow> 'k jwks_state" where
  "reset_cache s = s\<lparr>jw_keys := [], jw_expires_at := 0, jw_last_refetch_at := None\<rparr>"

definition monotonic :: "('k, micros) jwks" where
  "monotonic = bind (gets (\<lambda>s. jw_clock s (jw_ticks s))) (\<lambda>t.
     bind (modify (\<lambda>s. s\<lparr>jw_ticks := Suc (jw_ticks s)\<rparr>)) (\<lambda>_. ret t))"

definition ask_provider :: "('k, http_outcome) jwks" where
  "ask_provider = bind (gets (\<lambda>s. jw_answers s (jw_fetches s))) (\<lambda>a.
     bind (modify (\<lambda>s. s\<lparr>jw_fetches := Suc (jw_fetches s)\<rparr>)) (\<lambda>_. ret a))"

text \<open>\<open>max-age\s*=\s*(\d+)\<close>, at the first place where it matches.\<close>

definition is_dec :: "char \<Rightarrow> bool" where
  "is_dec c \<longleftrightarrow> (let n = of_char c :: nat in 48 \<le> n \<and> n \<le> 57)"

definition dec_number :: "string \<Rightarrow> nat" where
  "dec_number s = fold (\<lambda>c n. 10 * n + (of_char c - 48)) s 0"

definition max_age_here :: "string \<Rightarrow> nat option" where
  "max_age_here s =
     (let after = dropWhile py_space (drop 7 s); digits = takeWhile is_dec (dropWhile py_space (tl after))
      in if is_prefix ''max-age'' s \<and> after \<noteq> [] \<and> hd after = CHR ''='' \<and> digits \<noteq> []
         then Some (dec_number digits) else None)"

fun max_age_search :: "string \<Rightarrow> nat option" where
  "max_age_search [] = None"
| "max_age_search (c # s) = (case max_age_here (c # s) of Some n \<Rightarrow> Some n | None \<Rightarrow> max_age_search s)"

definition parse_max_age :: "string option \<Rightarrow> micros" where
  "parse_max_age cache_control =
     (case cache_control of
        None \<Rightarrow> DEFAULT_MAX_AGE
      | Some s \<Rightarrow> (case max_age_search s of None \<Rightarrow> DEFAULT_MAX_AGE | Some n \<Rightarrow> int n * 1000000))"

datatype 'k jwk_parse = JwkKeys "(string option \<times> 'k) list" | JwkRefused | JwkRaises exn

definition named_keys :: "(string option \<times> 'k) list \<Rightarrow> (string \<times> 'k) list" where
  \<comment> \<open>the dictionary of the keys with an id; of two with the same id the later one counts\<close>
  "named_keys ks = rev (map (\<lambda>(i, k). (the i, k)) (filter (\<lambda>(i, k). i \<noteq> None \<and> i \<noteq> Some []) ks))"

datatype 'k key_answer = NewKeys "(string option \<times> 'k) list" "string option" | NoKeys | KeyFailure exn

definition read_keys :: "(json \<Rightarrow> 'k jwk_parse) \<Rightarrow> http_outcome \<Rightarrow> 'k key_answer" where
  \<comment> \<open>the body of the \<open>try\<close>: \<open>NoKeys\<close> for the exceptions it catches\<close>
  "read_keys parse outcome =
     (case fetch_jwks outcome of
        Inl e \<Rightarrow> NoKeys
      | Inr r \<Rightarrow>
          (case http_body r of
             None \<Rightarrow> NoKeys
           | Some body \<Rightarrow>
               (case parse body of
                  JwkKeys ks \<Rightarrow> NewKeys ks (http_cache_control r)
                | JwkRefused \<Rightarrow> NoKeys
                | JwkRaises e \<Rightarrow> KeyFailure e)))"

definition fetch_into_cache :: "(json \<Rightarrow> 'k jwk_parse) \<Rightarrow> ('k, unit) jwks" where
  "fetch_into_cache parse =
     bind ask_provider (\<lambda>outcome.
     case read_keys parse outcome of
       KeyFailure e \<Rightarrow> raise e
     | NoKeys \<Rightarrow>
         bind (gets jw_keys) (\<lambda>ks.
         if ks \<noteq> [] then ret ()
         else raise (AuthExn (AuthUnavailableError ''Cannot verify tokens: signing keys unavailable'')))
     | NewKeys ks cc \<Rightarrow>
         bind (modify (\<lambda>s. s\<lparr>jw_keys := named_keys ks\<rparr>)) (\<lambda>_.
         bind monotonic (\<lambda>t.
         modify (\<lambda>s. s\<lparr>jw_expires_at := t + parse_max_age cc\<rparr>))))"

definition may_refetch :: "micros \<Rightarrow> micros option \<Rightarrow> bool" where
  "may_refetch t recent = (case recent of None \<Rightarrow> True | Some u \<Rightarrow> t - u \<ge> REFETCH_MIN_INTERVAL)"

definition refetch :: "(json \<Rightarrow> 'k jwk_parse) \<Rightarrow> string \<Rightarrow> ('k, 'k option) jwks" where
  "refetch parse kid =
     bind monotonic (\<lambda>t. bind (modify (\<lambda>s. s\<lparr>jw_last_refetch_at := Some t\<rparr>)) (\<lambda>_.
     bind (fetch_into_cache parse) (\<lambda>_. gets (\<lambda>s. map_of (jw_keys s) kid))))"

definition get_key :: "(json \<Rightarrow> 'k jwk_parse) \<Rightarrow> string \<Rightarrow> ('k, 'k) jwks" where
  "get_key parse kid =
     bind monotonic (\<lambda>t0.
     bind (gets jw_expires_at) (\<lambda>expires.
     bind (if t0 \<ge> expires then fetch_into_cache parse else ret ()) (\<lambda>_.
     bind (gets (\<lambda>s. map_of (jw_keys s) kid)) (\<lambda>found.
     bind (case found of
             Some k \<Rightarrow> ret (Some k)
           | None \<Rightarrow>
               bind monotonic (\<lambda>t1. bind (gets jw_last_refetch_at) (\<lambda>recent.
               if may_refetch t1 recent then refetch parse kid else ret None))) (\<lambda>key.
     case key of
       None \<Rightarrow> raise (AuthExn (InvalidTokenError ''Unknown signing key''))
     | Some k \<Rightarrow> ret k)))))"

section \<open>Verification of an access token\<close>

datatype jwt_decode = Subject string | SignatureExpired | TokenRefused | DecodeRaises exn

text \<open>
  \<open>header\<close> is \<open>jwt.get_unverified_header\<close> (\<open>None\<close> for its exception), \<open>decode\<close> is \<open>jwt.decode\<close>
  with the algorithm RS256 and the required claims; its result is \<open>str(claims["sub"])\<close>.
\<close>

definition verify_access_token ::
  "(string \<Rightarrow> (string \<times> json) list option) \<Rightarrow> ('k \<Rightarrow> string \<Rightarrow> jwt_decode) \<Rightarrow> (json \<Rightarrow> 'k jwk_parse) \<Rightarrow> string \<Rightarrow>
   ('k, uuid) jwks" where
  "verify_access_token header decode parse token =
     (case header token of
        None \<Rightarrow> raise (AuthExn (InvalidTokenError ''Malformed token''))
      | Some members \<Rightarrow>
          (case map_of (rev members) ''kid'' of
             Some (JStr kid) \<Rightarrow>
               if kid = [] then raise (AuthExn (InvalidTokenError ''Token carries no key id''))
               else bind (get_key parse kid) (\<lambda>key.
                 case decode key token of
                   SignatureExpired \<Rightarrow> raise (AuthExn (TokenExpiredError ''Access token has expired''))
                 | TokenRefused \<Rightarrow> raise (AuthExn (InvalidTokenError ''Invalid access token''))
                 | DecodeRaises e \<Rightarrow> raise e
                 | Subject sub \<Rightarrow>
                     (case parse_uuid sub of
                        None \<Rightarrow> raise (AuthExn (InvalidTokenError ''Token subject is not a user id''))
                      | Some u \<Rightarrow> ret u))
           | _ \<Rightarrow> raise (AuthExn (InvalidTokenError ''Token carries no key id''))))"

end
