(* ===== verification/Auth.thy ===== *)
theory Auth
  imports Users Jwks
begin

text \<open>
  Who the caller is (\<open>src/auth/dependencies.py\<close>), signing in (\<open>src/auth/service.py\<close>) and the
  endpoints of \<open>src/api/v1/routers/auth.py\<close>. \<open>verify\<close> is the outcome of the token's
  verification, which \<open>Jwks\<close> models; \<open>answer\<close> the provider's answer to a POST.
\<close>

section \<open>Authentication of a request\<close>

definition user_by_auth :: "database \<Rightarrow> uuid \<Rightarrow> user option" where
  "user_by_auth d a = find (\<lambda>u. u_auth_user_id u = Some a) (t_users d)"

definition resolve_user :: "(string \<Rightarrow> exn + uuid) \<Rightarrow> string option \<Rightarrow> user session" where
  "resolve_user verify credentials =
     (case credentials of
        None \<Rightarrow> raise (AuthExn (InvalidTokenError ''Missing bearer token''))
      | Some token \<Rightarrow>
          bind (of_sum (verify token)) (\<lambda>auth_user_id.
          bind (fetch (\<lambda>d. user_by_auth d auth_user_id)
                  (AuthExn (AccountNotFoundError ''No shop account for this identity''))) (\<lambda>u.
          bind (require (u_is_active u) (AuthExn (AccountInactiveError ''Account is deactivated''))) (\<lambda>_. ret u))))"

definition require_auth :: "(string \<Rightarrow> exn + uuid) \<Rightarrow> string option \<Rightarrow> user session" where
  "require_auth verify credentials = resolve_user verify credentials"

definition optional_auth :: "(string \<Rightarrow> exn + uuid) \<Rightarrow> string option \<Rightarrow> user option session" where
  "optional_auth verify credentials =
     (case credentials of
        None \<Rightarrow> ret None
      | Some _ \<Rightarrow> bind (resolve_user verify credentials) (\<lambda>u. ret (Some u)))"

section \<open>Signing in\<close>

record SignInResult =
  si_user :: user
  si_access_token :: string
  si_refresh_token :: string
  si_expires_in :: int
  si_is_new_user :: bool

definition initial_display_name :: "uuid \<Rightarrow> string" where
  "initial_display_name auth_user_id = ''User-'' @ take 8 (uuid_hex auth_user_id)"

definition sign_in :: "exn + ExchangedTokens \<Rightarrow> SignInResult session" where
  "sign_in exchanged =
     bind (of_sum exchanged) (\<lambda>tokens.
     bind (query (\<lambda>d. user_by_auth d (ex_user_id tokens))) (\<lambda>found.
     bind (case found of
             Some u \<Rightarrow> ret u
           | None \<Rightarrow> create_user (initial_display_name (ex_user_id tokens)) (Some (ex_user_id tokens))) (\<lambda>u.
     ret \<lparr>si_user = u, si_access_token = ex_access_token tokens, si_refresh_token = ex_refresh_token tokens,
          si_expires_in = ex_expires_in tokens, si_is_new_user = (found = None)\<rparr>)))"

section \<open>Endpoints\<close>

record SessionResponse =
  ses_access_token :: string
  ses_refresh_token :: string
  ses_expires_in :: int
  ses_is_new_user :: bool
  ses_user :: UserProfileDTO

definition open_session :: "exn + ExchangedTokens \<Rightarrow> SessionResponse session" where
  "open_session exchanged =
     bind (sign_in exchanged) (\<lambda>result.
     bind (get_me (row_id (si_user result))) (\<lambda>me.
     bind (of_sum (to_profile_dto (fst me) (snd me))) (\<lambda>profile.
     ret \<lparr>ses_access_token = si_access_token result, ses_refresh_token = si_refresh_token result,
          ses_expires_in = si_expires_in result, ses_is_new_user = si_is_new_user result, ses_user = profile\<rparr>)))"

definition create_session :: "(json \<Rightarrow> ExchangedTokens option) \<Rightarrow> http_outcome \<Rightarrow> SessionResponse session" where
  "create_session validate answer = unit_of_work (open_session (exchange_code validate answer))"

definition refresh_endpoint :: "(json \<Rightarrow> RefreshedTokens option) \<Rightarrow> http_outcome \<Rightarrow> exn + RefreshedTokens" where
  "refresh_endpoint validate answer = refresh_tokens validate answer"

definition logout :: "(string \<Rightarrow> exn + uuid) \<Rightarrow> string option \<Rightarrow> unit session" where
  "logout verify credentials = unit_of_work (bind (require_auth verify credentials) (\<lambda>_. ret ()))"

section \<open>The invariant of accounts\<close>

text \<open>
  Rows have distinct keys, an identity is anchored to at most one account, each account has
  at most one preferences row, an active account that is anchored has one, and every row
  fits its columns.
\<close>

definition accounts_inv :: "database \<Rightarrow> bool" where
  "accounts_inv d \<longleftrightarrow> distinct (row_ids (t_users d)) \<and> distinct (row_ids (t_preferences d)) \<and>
     (\<forall>u \<in> set (t_users d). fits_user u \<and> ok_user d u \<and> (u_is_active u \<longrightarrow> preferences_of d (row_id u) \<noteq> None)) \<and>
     (\<forall>p \<in> set (t_preferences d). fits_preferences p \<and> ok_preferences d p)"

lemma accounts_invD:
  assumes "accounts_inv d"
  shows "distinct (row_ids (t_users d))" "distinct (row_ids (t_preferences d))"
    "u \<in> set (t_users d) \<Longrightarrow> fits_user u" "u \<in> set (t_users d) \<Longrightarrow> ok_user d u"
    "u \<in> set (t_users d) \<Longrightarrow> u_is_active u \<Longrightarrow> preferences_of d (row_id u) \<noteq> None"
    "p \<in> set (t_preferences d) \<Longrightarrow> fits_preferences p" "p \<in> set (t_preferences d) \<Longrightarrow> ok_preferences d p"
  using assms unfolding accounts_inv_def by blast+

lemma preferences_of_Some: "preferences_of d i = Some p \<Longrightarrow> p \<in> set (t_preferences d) \<and> up_user_id p = i"
  by (auto simp: preferences_of_def find_Some_iff)

lemma user_by_auth_Some: "user_by_auth d a = Some u \<Longrightarrow> u \<in> set (t_users d) \<and> u_auth_user_id u = Some a"
  by (auto simp: user_by_auth_def find_Some_iff)

lemma user_by_auth_unique:
  assumes "accounts_inv d" and "u \<in> set (t_users d)" and "u_auth_user_id u = Some a"
  shows "user_by_auth d a = Some u"
proof (cases "user_by_auth d a")
  case None
  then show ?thesis using assms(2,3) by (auto simp: user_by_auth_def find_None_iff)
next
  case (Some v)
  from user_by_auth_Some [OF this] have v: "v \<in> set (t_users d)" "u_auth_user_id v = Some a" by auto
  have "row_id v = row_id u"
    using accounts_invD(4) [OF assms(1,2)] v assms(3) by (auto simp: ok_user_def unique_by_def)
  then show ?thesis using same_row [OF accounts_invD(1) [OF assms(1)] v(1) assms(2)] Some by simp
qed

lemma active_user_Some:
  "active_user d i = Some u \<longleftrightarrow> lookup (t_users d) i = Some u \<and> u_is_active u"
  by (auto simp: active_user_def split: option.splits if_splits)

end
