(* ===== verification/AuthInvariant.thy ===== *)
theory AuthInvariant
  imports Auth
begin

text \<open>
  The operations on accounts keep the invariant \<open>accounts_inv\<close>, and what each of them does to
  the two tables of the accounts.
\<close>

section \<open>Rows\<close>

lemma touch_user [simp]:
  "u_auth_user_id (touch t old r) = u_auth_user_id r" "u_is_active (touch t old r) = u_is_active r"
  "u_email (touch t old r) = u_email r" "u_display_name (touch t old r) = u_display_name r"
  "fits_user (touch t old r) = fits_user r"
  by (simp_all add: touch_def fits_user_def)

lemma touch_preferences [simp]:
  "up_user_id (touch t old p) = up_user_id p" "fits_preferences (touch t old p) = fits_preferences p"
  by (simp_all add: touch_def fits_preferences_def)

text \<open>A user row is replaced; preferences may go when the account is no longer active.\<close>

lemma inv_replace_user:
  assumes inv: "accounts_inv d" and old: "lookup (t_users d) (row_id r) = Some old"
    and fits: "fits_user r" and ok: "ok_user d r"
    and users: "t_users d' = replace_row r (t_users d)" and prefs: "t_preferences d' = filter P (t_preferences d)"
    and gone: "\<And>p. p \<in> set (t_preferences d) \<Longrightarrow> \<not> P p \<Longrightarrow> up_user_id p = row_id r \<and> \<not> u_is_active r"
    and active: "u_is_active r \<Longrightarrow> u_is_active old"
  shows "accounts_inv d'"
proof -
  note ids = accounts_invD(1) [OF inv]
  have set: "set (t_users d') = insert r (set (t_users d) - {old})"
    unfolding users by (rule set_replace [OF ids old])
  have old': "old \<in> set (t_users d)" "row_id old = row_id r" using lookup_SomeD [OF old] by auto
  have ok': "ok_user d' x" if x: "x \<in> set (t_users d')" for x
  proof -
    have "ok_user d x" using x ok accounts_invD(4) [OF inv] set by auto
    moreover have "u_auth_user_id x = None \<or> row_id r = row_id x \<or> u_auth_user_id r \<noteq> u_auth_user_id x"
    proof (cases "x = r")
      case False
      then have "x \<in> set (t_users d)" using x set by auto
      then show ?thesis using ok by (auto simp: ok_user_def unique_by_def)
    qed simp
    ultimately show ?thesis using set by (auto simp: ok_user_def unique_by_def)
  qed
  have has: "preferences_of d' (row_id x) \<noteq> None" if x: "x \<in> set (t_users d')" and a: "u_is_active x" for x
  proof -
    have "\<exists>y \<in> set (t_users d). row_id y = row_id x \<and> u_is_active y"
      using x a set active old' by auto
    then have "preferences_of d (row_id x) \<noteq> None" using accounts_invD(5) [OF inv] by metis
    then obtain p where p: "p \<in> set (t_preferences d)" "up_user_id p = row_id x"
      by (auto simp: preferences_of_def find_None_iff)
    have "P p"
    proof (rule ccontr)
      assume "\<not> P p"
      from gone [OF p(1) this] have "row_id x = row_id r" "\<not> u_is_active r" using p(2) by auto
      with x a set same_row [OF ids _ old'(1), of x] old'(2) show False by auto
    qed
    then show ?thesis using p by (auto simp: preferences_of_def find_None_iff prefs)
  qed
  have ids': "row_ids (t_users d') = row_ids (t_users d)" by (simp add: users)
  have "ok_preferences d' p" if "p \<in> set (t_preferences d')" for p
    using that accounts_invD(7) [OF inv, of p] by (auto simp: ok_preferences_def unique_by_def prefs ids')
  then show ?thesis
    using ok' has accounts_invD(2,3,6) [OF inv] fits ids ids' set
    by (auto simp: accounts_inv_def prefs row_ids_def distinct_map_filter)
qed

section \<open>Operations\<close>

lemma create_user_InrE:
  assumes "create_user name a w = (Inr u, w')"
  obtains i p where "u = new_user name a i (now w)" and "\<not> refers (t_users (wdb w)) i" and "fits_user u" and "ok_user (wdb w) u"
    and "up_user_id p = i" and "p = default_preferences i (row_id p) (now w)" and "row_id p \<notin> set (row_ids (t_preferences (wdb w)))"
    and "unique_by up_user_id (t_preferences (wdb w)) p"
    and "wdb w' = t_preferences_update (\<lambda>t. t @ [p]) (t_users_update (\<lambda>t. t @ [u]) (wdb w))" and "now w' = now w"
proof -
  from assms obtain v p where u: "add_user (new_user name a) w = (Inr u, v)"
    and p: "add_preferences (default_preferences (row_id u)) v = (Inr p, w')"
    by (auto simp: create_user_def elim!: bind_InrE)
  from u p show thesis
    by (elim db_add_InrE) (rule that [of "row_id u" p]; simp add: new_user_def default_preferences_def ok_preferences_def)
qed

lemma create_user_keeps: "preserves accounts_inv (create_user name a)"
proof (rule preservesI)
  fix w u w'
  assume run: "create_user name a w = (Inr u, w')" and inv: "accounts_inv (wdb w)"
  from run show "accounts_inv (wdb w')"
  proof (rule create_user_InrE)
    fix i p
    assume u: "u = new_user name a i (now w)" "\<not> refers (t_users (wdb w)) i" "fits_user u" "ok_user (wdb w) u"
      and p: "up_user_id p = i" "p = default_preferences i (row_id p) (now w)" "row_id p \<notin> set (row_ids (t_preferences (wdb w)))"
        "unique_by up_user_id (t_preferences (wdb w)) p"
      and w': "wdb w' = t_preferences_update (\<lambda>t. t @ [p]) (t_users_update (\<lambda>t. t @ [u]) (wdb w))"
    have id: "row_id u = i" by (simp add: u(1) new_user_def)
    have fresh: "row_id x \<noteq> i" if "x \<in> set (t_users (wdb w))" for x using u(2) row_id_in [OF that] by auto
    have keep: "preferences_of (wdb w') j \<noteq> None" if "preferences_of (wdb w) j \<noteq> None" for j
      using that by (auto simp: preferences_of_def w' find_None_iff)
    have own: "preferences_of (wdb w') i \<noteq> None" using p(1) by (auto simp: preferences_of_def w' find_None_iff)
    have fits: "fits_preferences p" by (subst p(2)) (simp add: default_preferences_def fits_preferences_def varchar_def)
    have users: "ok_user (wdb w') x" if "x \<in> insert u (set (t_users (wdb w)))" for x
      using that u(4) accounts_invD(4) [OF inv, of x] fresh by (auto simp: ok_user_def unique_by_def w' id)
    have prefs: "ok_preferences (wdb w') q" if "q \<in> insert p (set (t_preferences (wdb w)))" for q
      using that p(1,3,4) accounts_invD(7) [OF inv, of q] by (auto simp: ok_preferences_def unique_by_def w' id)
    have active: "u_is_active x \<longrightarrow> preferences_of (wdb w') (row_id x) \<noteq> None" if "x \<in> insert u (set (t_users (wdb w)))" for x
      using that own keep accounts_invD(5) [OF inv] id by blast
    have sets: "set (t_users (wdb w')) = insert u (set (t_users (wdb w)))" "set (t_preferences (wdb w')) = insert p (set (t_preferences (wdb w)))"
      "distinct (row_ids (t_users (wdb w')))" "distinct (row_ids (t_preferences (wdb w')))"
      using u(2) p(3) id accounts_invD(1,2) [OF inv] by (simp_all add: w')
    show ?thesis
      unfolding accounts_inv_def sets(1,2)
      using sets(3,4) users prefs active accounts_invD(3,6) [OF inv] u(3) fits by blast
  qed
qed

lemma get_me_InrE:
  assumes "get_me i w = (Inr (u, q), w')"
  obtains "lookup (t_users (wdb w)) i = Some u" and "u_is_active u" and "q = preferences_of (wdb w) i" and "w' = w"
proof (cases "active_user (wdb w) i")
  case None
  with assms show thesis by (simp add: get_me_def bind_fetch)
next
  case (Some v)
  then have "get_me i w = (Inr (v, preferences_of (wdb w) i), w)" by (simp add: get_me_def bind_fetch)
  from trans [OF this [symmetric] assms] have "Inr (v, preferences_of (wdb w) i) = (Inr (u, q) :: exn + _)" "w = w'"
    unfolding prod.inject by blast+
  then have v: "v = u" and q: "q = preferences_of (wdb w) i" and w: "w' = w" by blast+
  from Some v have "lookup (t_users (wdb w)) i = Some u" "u_is_active u" by (simp_all add: active_user_Some)
  from that [OF this q w] show thesis .
qed

lemma apply_display_name_InrE:
  assumes "apply_display_name n u w = (Inr u1, w')"
  obtains "w' = w" and "u1 = (case n of Some (Some s) \<Rightarrow> u\<lparr>u_display_name := strip s\<rparr> | _ \<Rightarrow> u)"
    and "case n of None \<Rightarrow> True | Some n \<Rightarrow> \<exists>s. n = Some s \<and> strip s \<noteq> [] \<and> length s \<le> DISPLAY_NAME_MAX"
  using assms by (cases n) (auto simp: apply_display_name_def bind_of_sum validate_display_name_def
      split: option.splits if_splits sum.splits)

lemma matches_email_nonempty: "\<not> matches_email []"
  by (simp add: matches_email_def email_core_def)

lemma apply_email_InrE:
  assumes "apply_email e u w = (Inr u1, w')"
  obtains "w' = w" and "u1 = (case e of Some e \<Rightarrow> u\<lparr>u_email := e\<rparr> | _ \<Rightarrow> u)"
    and "case e of Some (Some e) \<Rightarrow> matches_email e | _ \<Rightarrow> True"
  using assms by (cases e) (auto simp: apply_email_def bind_of_sum validate_email_def matches_email_nonempty
      split: option.splits if_splits sum.splits)

lemma update_profile_InrE:
  assumes run: "update_profile i data w = (Inr (r, q), w')"
  obtains old where "lookup (t_users (wdb w)) i = Some old" and "u_is_active old" and "q = preferences_of (wdb w) i"
    and "row_id r = i" and "u_auth_user_id r = u_auth_user_id old" and "u_is_active r"
    and "u_display_name r = (case up_display_name data of Some (Some s) \<Rightarrow> strip s | _ \<Rightarrow> u_display_name old)"
    and "u_email r = (case up_email data of Some e \<Rightarrow> e | _ \<Rightarrow> u_email old)"
    and "case up_display_name data of None \<Rightarrow> True | Some n \<Rightarrow> \<exists>s. n = Some s \<and> strip s \<noteq> [] \<and> length s \<le> DISPLAY_NAME_MAX"
    and "case up_email data of Some (Some e) \<Rightarrow> matches_email e | _ \<Rightarrow> True"
    and "r = old \<or> (fits_user r \<and> ok_user (wdb w) r)"
    and "wdb w' = t_users_update (replace_row (touch (now w) old r)) (wdb w)"
proof -
  from run obtain me v u1 v1 v2 where me: "get_me i w = (Inr me, v)"
    and name: "apply_display_name (up_display_name data) (fst me) v = (Inr u1, v1)"
    and email: "apply_email (up_email data) u1 v1 = (Inr r, v2)"
    and save: "save_user r v2 = (Inr (), w')" and q: "q = snd me"
    unfolding update_profile_def by (elim bind_InrE) simp
  obtain u where x: "me = (u, q)" using q by (cases me) simp
  from me have u: "lookup (t_users (wdb w)) i = Some u" "u_is_active u" "q = preferences_of (wdb w) i" "v = w"
    unfolding x by (auto elim!: get_me_InrE)
  have id: "row_id u = i" using lookup_SomeD [OF u(1)] by simp
  from name have n: "v1 = w" "u1 = (case up_display_name data of Some (Some s) \<Rightarrow> u\<lparr>u_display_name := strip s\<rparr> | _ \<Rightarrow> u)"
      "case up_display_name data of None \<Rightarrow> True | Some n \<Rightarrow> \<exists>s. n = Some s \<and> strip s \<noteq> [] \<and> length s \<le> DISPLAY_NAME_MAX"
    unfolding x u(4) fst_conv by (rule apply_display_name_InrE, blast)+
  from email have e: "v2 = w" "r = (case up_email data of Some e \<Rightarrow> u1\<lparr>u_email := e\<rparr> | _ \<Rightarrow> u1)"
      "case up_email data of Some (Some e) \<Rightarrow> matches_email e | _ \<Rightarrow> True"
    unfolding n(1) by (rule apply_email_InrE, blast)+
  have cols: "row_id r = i" "u_auth_user_id r = u_auth_user_id u" "u_is_active r"
    "u_display_name r = (case up_display_name data of Some (Some s) \<Rightarrow> strip s | _ \<Rightarrow> u_display_name u)"
    "u_email r = (case up_email data of Some e \<Rightarrow> e | _ \<Rightarrow> u_email u)"
    using id u(2) by (simp_all add: e(2) n(2) split: option.splits)
  from save [unfolded e(1)] show thesis
    by (rule db_save_InrE) (rule that [of u]; use u cols n(3) e(3) in simp)
qed
lemma ok_user_touch [simp]: "row_id r = row_id old \<Longrightarrow> ok_user d (touch t old r) = ok_user d r"
  by (simp add: ok_user_def unique_by_def)

lemma save_user_keeps:
  assumes inv: "accounts_inv d" and old: "lookup (t_users d) i = Some old" "row_id r = i" and r: "r = old \<or> (fits_user r \<and> ok_user d r)"
    and d': "d' = t_users_update (replace_row (touch t old r)) d" and active: "u_is_active r \<Longrightarrow> u_is_active old"
  shows "accounts_inv d'"
proof (rule inv_replace_user [OF inv, where r = "touch t old r" and P = "\<lambda>_. True"])
  have old': "old \<in> set (t_users d)" "row_id old = i" using lookup_SomeD [OF old(1)] by auto
  have "fits_user r" "ok_user d r" using r accounts_invD(3,4) [OF inv old'(1)] by auto
  then show "fits_user (touch t old r)" "ok_user d (touch t old r)" using old' old(2) by simp_all
  show "lookup (t_users d) (row_id (touch t old r)) = Some old" using old old' by simp
qed (use d' active in simp_all)

lemma update_profile_keeps: "preserves accounts_inv (update_profile i data)"
proof (rule preservesI)
  fix w x w'
  assume run: "update_profile i data w = (Inr x, w')" and inv: "accounts_inv (wdb w)"
  obtain r q where x: "x = (r, q)" by (cases x)
  from run [unfolded x] show "accounts_inv (wdb w')"
    by (rule update_profile_InrE) (rule save_user_keeps [OF inv], assumption+)
qed

lemma update_preferences_InrE:
  assumes run: "update_preferences zone_info i data w = (Inr p, w')"
  obtains old where "preferences_of (wdb w) i = Some old" and "row_id p = row_id old" and "up_user_id p = up_user_id old"
    and "up_language p = (case upr_language data of Some (Some s) \<Rightarrow> s | _ \<Rightarrow> up_language old)"
    and "up_timezone p = (case upr_timezone data of Some (Some s) \<Rightarrow> s | _ \<Rightarrow> up_timezone old)"
    and "case upr_language data of Some (Some s) \<Rightarrow> s \<in> set SUPPORTED_LANGUAGES | _ \<Rightarrow> True"
    and "case upr_timezone data of Some (Some s) \<Rightarrow> zone_info s = ZoneFound | _ \<Rightarrow> True"
    and "save_preferences p w = (Inr (), w')"
proof -
  from run obtain a v b v1 old v2 where lang: "(case upr_language data of None \<Rightarrow> ret () | Some v \<Rightarrow> of_sum (validate_language v)) w = (Inr a, v)"
    and zone: "(case upr_timezone data of None \<Rightarrow> ret () | Some v \<Rightarrow> of_sum (validate_timezone zone_info v)) v = (Inr b, v1)"
    and get: "get_preferences i v1 = (Inr old, v2)"
    and rest: "(let p1 = (case upr_language data of Some (Some s) \<Rightarrow> old\<lparr>up_language := s\<rparr> | _ \<Rightarrow> old);
         p2 = (case upr_timezone data of Some (Some s) \<Rightarrow> p1\<lparr>up_timezone := s\<rparr> | _ \<Rightarrow> p1)
       in bind (save_preferences p2) (\<lambda>_. ret p2)) v2 = (Inr p, w')"
    unfolding update_preferences_def by (elim bind_InrE)
  have l: "v = w" "case upr_language data of Some (Some s) \<Rightarrow> s \<in> set SUPPORTED_LANGUAGES | _ \<Rightarrow> True"
    using lang by (auto simp: validate_language_def split: option.splits if_splits)
  have z: "v1 = w" "case upr_timezone data of Some (Some s) \<Rightarrow> zone_info s = ZoneFound | _ \<Rightarrow> True"
    using zone l(1) by (auto simp: validate_timezone_def split: option.splits zone_lookup.splits)
  have g: "preferences_of (wdb w) i = Some old" "v2 = w"
    using get z(1) by (auto simp: get_preferences_def elim!: fetch_InrE)
  from rest have save: "save_preferences p w = (Inr (), w')"
    and p: "p = (let p1 = (case upr_language data of Some (Some s) \<Rightarrow> old\<lparr>up_language := s\<rparr> | _ \<Rightarrow> old)
       in case upr_timezone data of Some (Some s) \<Rightarrow> p1\<lparr>up_timezone := s\<rparr> | _ \<Rightarrow> p1)"
    unfolding g(2) by (auto simp: Let_def elim!: bind_InrE)
  show thesis
    by (rule that [OF g(1) _ _ _ _ l(2) z(2) save]) (simp_all add: p Let_def split: option.splits)
qed

lemma update_preferences_keeps: "preserves accounts_inv (update_preferences zone_info i data)"
proof (rule preservesI)
  fix w p w'
  assume run: "update_preferences zone_info i data w = (Inr p, w')" and inv: "accounts_inv (wdb w)"
  from run show "accounts_inv (wdb w')"
  proof (rule update_preferences_InrE)
    fix old
    assume old: "preferences_of (wdb w) i = Some old" "row_id p = row_id old" "up_user_id p = up_user_id old"
      and save: "save_preferences p w = (Inr (), w')"
    have in_old: "old \<in> set (t_preferences (wdb w))" using preferences_of_Some [OF old(1)] by blast
    have look: "lookup (t_preferences (wdb w)) (row_id p) = Some old"
      using lookup_unique [OF accounts_invD(2) [OF inv] in_old] old(2) by simp
    define r where "r = touch (now w) old p"
    have r: "row_id r = row_id old" "up_user_id r = up_user_id old" using old by (simp_all add: r_def)
    from save look have w': "wdb w' = t_preferences_update (replace_row r) (wdb w)" and fits: "p = old \<or> fits_preferences p"
      by (auto simp: r_def elim!: db_save_InrE)
    have set: "set (t_preferences (wdb w')) = insert r (set (t_preferences (wdb w)) - {old})"
      using set_replace [OF accounts_invD(2) [OF inv], of r old] look old(2) r by (simp add: w')
    have "fits_preferences r" using fits accounts_invD(6) [OF inv in_old] by (auto simp: r_def)
    moreover have "ok_preferences (wdb w') x" if "x \<in> set (t_preferences (wdb w'))" for x
    proof -
      from that obtain y where y: "y \<in> set (t_preferences (wdb w))" "row_id y = row_id x" "up_user_id y = up_user_id x"
        using set in_old r by auto
      have "\<exists>z \<in> set (t_preferences (wdb w)). row_id z = row_id v \<and> up_user_id z = up_user_id v"
        if "v \<in> set (t_preferences (wdb w'))" for v
        using that set in_old r by auto
      with accounts_invD(7) [OF inv y(1)] y(2,3) show ?thesis
        unfolding ok_preferences_def unique_by_def by (simp add: w') metis
    qed
    moreover have "preferences_of (wdb w') j \<noteq> None" if j: "preferences_of (wdb w) j \<noteq> None" for j
    proof -
      from j obtain y where y: "y \<in> set (t_preferences (wdb w))" "up_user_id y = j"
        by (auto simp: preferences_of_def find_None_iff)
      have "\<exists>z \<in> set (t_preferences (wdb w')). up_user_id z = j"
        using y set r(2) by (cases "y = old") auto
      then show ?thesis by (auto simp: preferences_of_def find_None_iff)
    qed
    moreover have "ok_user (wdb w') = ok_user (wdb w)" by (rule ext) (simp add: ok_user_def w')
    ultimately show ?thesis
      using accounts_invD [OF inv] set unfolding accounts_inv_def by (simp add: w')
  qed
qed
text \<open>
  A deleted account is inactive; a hard deletion also removes the preferences and whatever
  identifies the person.
\<close>

definition closed :: "account_deletion \<Rightarrow> user \<Rightarrow> user" where
  "closed mode u = (case mode of SoftDelete \<Rightarrow> u\<lparr>u_is_active := False\<rparr> | HardDelete \<Rightarrow> anonymised u)"

definition kept_preferences :: "account_deletion \<Rightarrow> uuid \<Rightarrow> user_preferences \<Rightarrow> bool" where
  "kept_preferences mode i p \<longleftrightarrow> mode = SoftDelete \<or> up_user_id p \<noteq> i"

lemma closed_simps [simp]: "row_id (closed mode u) = row_id u" "\<not> u_is_active (closed mode u)"
  "u_auth_user_id (closed SoftDelete u) = u_auth_user_id u" "u_auth_user_id (closed HardDelete u) = None"
  by (simp_all add: closed_def anonymised_def split: account_deletion.splits)

lemma delete_account_InrE:
  assumes run: "delete_account i mode w = (Inr (), w')"
  obtains u where "lookup (t_users (wdb w)) i = Some u" and "u_is_active u" and "fits_user (closed mode u)"
    and "ok_user (wdb w) (closed mode u)"
    and "w' = w\<lparr>wdb := t_users_update (replace_row (touch (now w) u (closed mode u)))
           (t_preferences_update (filter (kept_preferences mode i)) (wdb w))\<rparr>"
proof -
  from run obtain u where u: "active_user (wdb w) i = Some u"
    and step: "(case mode of SoftDelete \<Rightarrow> save_user (u\<lparr>u_is_active := False\<rparr>)
       | HardDelete \<Rightarrow> bind (delete_preferences i) (\<lambda>_. save_user (anonymised u))) w = (Inr (), w')"
    by (auto simp: delete_account_def bind_fetch split: option.splits)
  have look: "lookup (t_users (wdb w)) i = Some u" and act: "u_is_active u" using u by (simp_all add: active_user_Some)
  have id: "row_id u = i" using lookup_SomeD [OF look] by simp
  have new: "closed mode u \<noteq> u" using closed_simps(2) [of mode u] act by metis
  have all: "filter (\<lambda>_. True) = (\<lambda>t :: user_preferences list. t)" by (rule ext) simp
  have save: "save_user (closed mode u) (w\<lparr>wdb := t_preferences_update (filter (kept_preferences mode i)) (wdb w)\<rparr>) = (Inr (), w')"
    using step by (cases mode) (simp_all add: closed_def delete_preferences_def all kept_preferences_def [abs_def]
        preferences_rel.upd_same)
  then show thesis
    by (rule db_save_InrE) (rule that [OF look act]; use look id new in \<open>simp add: ok_user_def\<close>)
qed

lemma delete_account_keeps: "preserves accounts_inv (delete_account i mode)"
proof (rule preservesI)
  fix w x w'
  assume run: "delete_account i mode w = (Inr x, w')" and inv: "accounts_inv (wdb w)"
  from run have "delete_account i mode w = (Inr (), w')" by simp
  then show "accounts_inv (wdb w')"
  proof (rule delete_account_InrE)
    fix u
    assume u: "lookup (t_users (wdb w)) i = Some u" and c: "fits_user (closed mode u)" "ok_user (wdb w) (closed mode u)"
      and w': "w' = w\<lparr>wdb := t_users_update (replace_row (touch (now w) u (closed mode u)))
           (t_preferences_update (filter (kept_preferences mode i)) (wdb w))\<rparr>"
    have id: "row_id u = i" using lookup_SomeD [OF u] by simp
    show ?thesis
      by (rule inv_replace_user [OF inv, where r = "touch (now w) u (closed mode u)" and P = "kept_preferences mode i"])
        (use u c id in \<open>auto simp: w' kept_preferences_def\<close>)
  qed
qed

section \<open>Signing in\<close>

lemma sign_in_InrE:
  assumes run: "sign_in exchanged w = (Inr res, w')"
  obtains (known) tokens u where "exchanged = Inr tokens" and "user_by_auth (wdb w) (ex_user_id tokens) = Some u"
    and "si_user res = u" and "\<not> si_is_new_user res" and "w' = w"
  | (created) tokens u where "exchanged = Inr tokens" and "user_by_auth (wdb w) (ex_user_id tokens) = None"
    and "si_user res = u" and "si_is_new_user res"
    and "create_user (initial_display_name (ex_user_id tokens)) (Some (ex_user_id tokens)) w = (Inr u, w')"
proof -
  from run obtain tokens where t: "exchanged = Inr tokens"
    and rest: "bind (case user_by_auth (wdb w) (ex_user_id tokens) of
             Some u \<Rightarrow> ret u
           | None \<Rightarrow> create_user (initial_display_name (ex_user_id tokens)) (Some (ex_user_id tokens))) (\<lambda>u.
     ret \<lparr>si_user = u, si_access_token = ex_access_token tokens, si_refresh_token = ex_refresh_token tokens,
          si_expires_in = ex_expires_in tokens, si_is_new_user = (user_by_auth (wdb w) (ex_user_id tokens) = None)\<rparr>) w = (Inr res, w')"
    by (auto simp: sign_in_def bind_of_sum split: sum.splits)
  show thesis
  proof (cases "user_by_auth (wdb w) (ex_user_id tokens)")
    case None
    with rest obtain u where "create_user (initial_display_name (ex_user_id tokens)) (Some (ex_user_id tokens)) w = (Inr u, w')"
      and "si_user res = u" "si_is_new_user res" by (auto elim!: bind_InrE)
    with t None show thesis by (intro created)
  next
    case (Some u)
    with rest have "si_user res = u" "\<not> si_is_new_user res" "w' = w" by auto
    with t Some show thesis by (intro known)
  qed
qed

lemma sign_in_keeps: "preserves accounts_inv (sign_in exchanged)"
proof (rule preservesI)
  fix w res w'
  assume run: "sign_in exchanged w = (Inr res, w')" and inv: "accounts_inv (wdb w)"
  from run show "accounts_inv (wdb w')"
    by (rule sign_in_InrE) (use inv preservesD [OF create_user_keeps] in auto)
qed

lemma open_session_InrE:
  assumes run: "open_session exchanged w = (Inr res, w')"
  obtains r u p where "sign_in exchanged w = (Inr r, w')"
    and "lookup (t_users (wdb w')) (row_id (si_user r)) = Some u" and "u_is_active u"
    and "preferences_of (wdb w') (row_id (si_user r)) = Some p" and "to_profile_dto u (Some p) = Inr (ses_user res)"
    and "ses_is_new_user res = si_is_new_user r"
proof -
  from run obtain r v me where r: "sign_in exchanged w = (Inr r, v)"
    and me: "get_me (row_id (si_user r)) v = (Inr me, w')"
    and res: "to_profile_dto (fst me) (snd me) = Inr (ses_user res)" "ses_is_new_user res = si_is_new_user r"
    by (auto simp: open_session_def bind_of_sum split: sum.splits elim!: bind_InrE)
  obtain u q where x: "me = (u, q)" by (cases me)
  from me [unfolded x] show thesis
  proof (rule get_me_InrE)
    assume g: "lookup (t_users (wdb v)) (row_id (si_user r)) = Some u" "u_is_active u"
      "q = preferences_of (wdb v) (row_id (si_user r))" "w' = v"
    from res(1) obtain p where "q = Some p" by (cases q) (auto simp: x to_profile_dto_def)
    with g r res show thesis by (intro that [of r u p]) (simp_all add: x)
  qed
qed

lemma open_session_keeps: "preserves accounts_inv (open_session exchanged)"
  by (rule preservesI) (auto elim!: open_session_InrE intro: preservesD [OF sign_in_keeps])

end
