(* ===== verification/BackEnd.thy ===== *)
theory BackEnd
  imports ShopSystem CatalogDeletion AuthInvariant
begin

text \<open>
  The back end with its accounts and its catalog: the business of \<open>ShopSystem\<close> leaves them as
  they are, the administration of the catalog and the requests about accounts keep the invariants
  of the business, and all the requests that write are one step relation.
\<close>

section \<open>The invariant of the back end\<close>

definition back_end_inv :: "database \<Rightarrow> bool" where
  "back_end_inv d \<longleftrightarrow> shop_inv d \<and> accounts_inv d \<and> catalog_inv d"

text \<open>What a request of the business does not write: the tables of the accounts and of the catalog.\<close>

abbreviation background :: "database \<Rightarrow> database" where
  "background d \<equiv> d\<lparr>t_ratings := [], t_product_ratings := [], t_points := [], t_orders := [], t_order_products := [],
     t_pickup_info := [], t_delivery_info := [], t_order_payments := [], t_payment_methods := [], t_subscriptions := [],
     t_sub_delivery := [], t_events := [], t_sub_products := [], t_sub_payments := []\<rparr>"

lemma accounts_background: "accounts_inv (background d) = accounts_inv d"
  by (simp add: accounts_inv_def ok_user_def ok_preferences_def preferences_of_def)

lemma catalog_background: "catalog_inv (background d) = catalog_inv d"
  by (simp add: catalog_inv_def attributes_legal_def ok_category_def ok_product_def ok_coffee_def ok_equipment_def
      ok_accessories_def ok_consumables_def well_typed_def type_named_def has_attributes_def
      cong: product_type_name.case_cong)

text \<open>A method that keeps the invariant of the back end and only moves rows along their machines.\<close>

definition sound_request :: "'a session \<Rightarrow> bool" where
  "sound_request m \<longleftrightarrow>
     (\<forall>w a w'. m w = (Inr a, w') \<longrightarrow> back_end_inv (wdb w) \<longrightarrow> back_end_inv (wdb w') \<and> moves (wdb w) (wdb w'))"

lemma sound_requestI:
  "(\<And>w a w'. m w = (Inr a, w') \<Longrightarrow> back_end_inv (wdb w) \<Longrightarrow> back_end_inv (wdb w') \<and> moves (wdb w) (wdb w')) \<Longrightarrow>
   sound_request m"
  by (simp add: sound_request_def)

lemma sound_requestD:
  "sound_request m \<Longrightarrow> m w = (Inr a, w') \<Longrightarrow> back_end_inv (wdb w) \<Longrightarrow> back_end_inv (wdb w') \<and> moves (wdb w) (wdb w')"
  by (simp add: sound_request_def)

lemma business_sound:
  assumes "well_behaved m" and "frame background m"
  shows "sound_request m"
proof (rule sound_requestI)
  fix w a w'
  assume run: "m w = (Inr a, w')" and inv: "back_end_inv (wdb w)"
  have "background (wdb w') = background (wdb w)" using leavesD [OF assms(2) run] .
  then have "accounts_inv (wdb w') = accounts_inv (wdb w)" "catalog_inv (wdb w') = catalog_inv (wdb w)"
    using accounts_background catalog_background by metis+
  with well_behavedD [OF assms(1) run] inv show "back_end_inv (wdb w') \<and> moves (wdb w) (wdb w')"
    by (simp add: back_end_inv_def)
qed

section \<open>The business leaves accounts and catalog alone\<close>

lemma order_requests_background:
  "frame background (create_order u data)" "frame background (cancel_order i u)" "frame background (update_status i s)"
  by (rule frame_weaken, rule orders_frame, simp)+

lemma ratings_background: "frame background (set_rating u p v)" "frame background (delete_rating u p)"
  by (rule frame_weaken, rule ratings_frame, simp)+

lemma points_background:
  "frame background (admin_create_point data)" "frame background (admin_update_point i data)"
  "frame background (admin_delete_point i mode)"
  by (rule points_frame, simp)+

lemma callback_background: "frame background (handle_callback name txn st)"
  unfolding handle_callback_def apply_callback_def refresh_payment_def by (intro frame_intros) simp_all

lemma schedule_background: "frame background (schedule_subscription u data p)"
  unfolding schedule_subscription_def by (intro frame_intros) simp_all

lemma switch_background: "frame background (switch_status a st old new)"
  unfolding switch_status_def bulk_event_status_def by (intro frame_intros) simp_all

lemma pause_resume_background: "frame background (pause_subscription i u)" "frame background (resume_subscription i u)"
  unfolding pause_subscription_def resume_subscription_def require_owned_subscription_def reload_subscription_def
  by (intro frame_intros switch_background)+

context provider_contract
begin

lemma charge_background: "frame background (charge_for_order prov u i m)"
  unfolding charge_for_order_def settle_charge_def ensure_transition_def refresh_payment_def
  by (intro frame_intros provider_frame) simp_all

lemma refund_background: "frame background (refund_payment prov i)"
  unfolding refund_payment_def ensure_transition_def refresh_payment_def
  by (intro frame_intros provider_frame) simp_all

lemma methods_background:
  "frame background (save_method prov u data)" "frame background (delete_method prov u i)" "frame background (set_default u i)"
  by (rule frame_weaken, rule save_method_frame delete_method_frame set_default_frame, simp)+

lemma refund_payments_background: "frame background (refund_payments prov refunded ps)"
  by (induction ps arbitrary: refunded) (auto intro!: frame_intros provider_frame split: option.split)

lemma charge_activate_background: "frame background (charge_and_activate prov a m)"
  unfolding charge_and_activate_def charge_subscription_upfront_def
  by (intro frame_intros provider_frame) simp_all

lemma subscription_requests_background:
  "frame background (create_subscription (Some prov) u data)" "frame background (pay_subscription (Some prov) i u k)"
  "frame background (cancel_subscription (Some prov) i u)"
proof -
  show "frame background (create_subscription (Some prov) u data)"
    unfolding create_subscription_def get_method_def require_owned_method_def reload_subscription_def option.case
    by (intro frame_intros schedule_background charge_activate_background)
  show "frame background (pay_subscription (Some prov) i u k)"
    unfolding pay_subscription_def get_method_def require_owned_method_def reload_subscription_def require_owned_subscription_def option.case
    by (intro frame_intros charge_activate_background)
  show "frame background (cancel_subscription (Some prov) i u)"
    unfolding cancel_subscription_def refund_undelivered_payments_def Let_def reload_subscription_def
      require_owned_subscription_def option.case
    by (intro frame_intros refund_payments_background switch_background)
qed

lemma off_session_background: "frame background (charge_event_off_session prov s e)"
  unfolding charge_event_off_session_def by (intro frame_intros provider_frame) simp_all

lemma extend_rows_background: "frame background (extend_rows (Some prov) rows)"
proof (induction rows)
  case (Cons row rows)
  have "frame background (extend_subscription (Some prov) (fst row) (snd row))"
    unfolding extend_subscription_def append_event_def option.case
    by (intro frame_intros off_session_background) simp_all
  then show ?case using Cons.IH by (cases row) (auto intro!: frame_intros)
qed (simp add: evolves_def)

lemma process_due_background: "frame background (process_due xs)"
proof (induction xs)
  case (Cons x xs)
  have "frame background (order_event s e info p)" for s e info p
    unfolding order_event_def build_order_def
    by (intro frame_intros frame_weaken [OF repo_add_frame]) simp_all
  then show ?case using Cons.IH by (auto intro!: frame_intros split: option.split)
qed (simp add: evolves_def)

lemma run_daily_background: "frame background (run_daily today (Some prov))"
  unfolding run_daily_def process_due_events_def sync_completed_events_def extend_horizons_def
  by (intro frame_intros process_due_background extend_rows_background) simp_all

end
section \<open>The catalog\<close>

text \<open>A request that writes nothing of the business but ratings, and no account but by adding one.\<close>

lemma shop_inv_besides:
  assumes inv: "shop_inv d" and ratings: "ratings_inv d'"
    and users: "set (row_ids (t_users d)) \<subseteq> set (row_ids (t_users d'))"
    and same: "t_orders d' = t_orders d" "t_order_products d' = t_order_products d" "t_pickup_info d' = t_pickup_info d"
      "t_delivery_info d' = t_delivery_info d" "t_points d' = t_points d" "t_order_payments d' = t_order_payments d"
      "t_payment_methods d' = t_payment_methods d" "t_subscriptions d' = t_subscriptions d" "t_events d' = t_events d"
      "t_sub_products d' = t_sub_products d" "t_sub_payments d' = t_sub_payments d"
  shows "shop_inv d' \<and> moves d d'"
proof -
  have ok: "orders_ok d" using inv by (simp add: shop_inv_def)
  have "pickup_points_exist d'" using orders_ok_points [OF ok] same by (simp add: pickup_points_exist_def)
  then have "orders_ok d'" using ok same users by (intro orders_ok_same [of d' d]) simp_all
  moreover have "payments_inv d'" using inv payments_inv_same [OF same(1,6)] by (simp add: shop_inv_def)
  moreover have "subscriptions_inv d'"
    using inv same users by (intro subscriptions_inv_grow [of d d']) (simp_all add: shop_inv_def)
  moreover have "methods_inv d'" using inv methods_inv_same [OF same(7)] by (simp add: shop_inv_def)
  moreover have "moves d d'" using same by (intro moves_same)
  ultimately show ?thesis using ratings by (simp add: shop_inv_def)
qed

abbreviation outside_catalog :: "database \<Rightarrow> database" where
  "outside_catalog d \<equiv> d\<lparr>t_product_types := [], t_categories := [], t_products := [], t_coffee := [], t_equipment := [],
     t_accessories := [], t_consumables := []\<rparr>"

lemma outside_catalog_columns:
  assumes "outside_catalog d' = outside_catalog d"
  shows "t_users d' = t_users d" "t_preferences d' = t_preferences d" "t_ratings d' = t_ratings d"
    "t_product_ratings d' = t_product_ratings d" "t_points d' = t_points d" "t_orders d' = t_orders d"
    "t_order_products d' = t_order_products d" "t_pickup_info d' = t_pickup_info d" "t_delivery_info d' = t_delivery_info d"
    "t_order_payments d' = t_order_payments d" "t_payment_methods d' = t_payment_methods d"
    "t_subscriptions d' = t_subscriptions d" "t_events d' = t_events d" "t_sub_products d' = t_sub_products d"
    "t_sub_payments d' = t_sub_payments d"
  using assms by (cases d; cases d'; simp)+

lemma accounts_inv_same: "t_users d' = t_users d \<Longrightarrow> t_preferences d' = t_preferences d \<Longrightarrow> accounts_inv d' = accounts_inv d"
  by (simp add: accounts_inv_def ok_user_def ok_preferences_def preferences_of_def)

lemma catalog_sound:
  assumes "preserves catalog_inv m" and "frame outside_catalog m"
  shows "sound_request m"
proof (rule sound_requestI)
  fix w a w'
  assume run: "m w = (Inr a, w')" and inv: "back_end_inv (wdb w)"
  have out: "outside_catalog (wdb w') = outside_catalog (wdb w)" using leavesD [OF assms(2) run] .
  note cols = outside_catalog_columns [OF out]
  have "ratings_inv (wdb w')" using inv ratings_inv_same [OF cols(3,4)] by (simp add: back_end_inv_def shop_inv_def)
  then have "shop_inv (wdb w') \<and> moves (wdb w) (wdb w')"
    using inv by (intro shop_inv_besides) (simp_all add: back_end_inv_def cols)
  moreover have "accounts_inv (wdb w')" using inv by (simp add: back_end_inv_def accounts_inv_same [OF cols(1,2)])
  moreover have "catalog_inv (wdb w')" using preservesD [OF assms(1) run] inv by (simp add: back_end_inv_def)
  ultimately show "back_end_inv (wdb w') \<and> moves (wdb w) (wdb w')" by (simp add: back_end_inv_def)
qed

lemma frame_of_read: "(\<And>w a w'. m w = (a, w') \<Longrightarrow> w' = w) \<Longrightarrow> frame p m"
  unfolding evolves_def by (metis prod.collapse)

lemma get_product_frame: "frame p (get_product i u)"
  unfolding get_product_def enrich_def get_user_ratings_map_def get_purchased_product_ids_def by (intro frame_intros)

lemma catalog_writes_frame:
  "frame outside_catalog (create_product r)" "frame outside_catalog (update_product i r')"
  "frame outside_catalog (create_category c)" "frame outside_catalog (update_category j c')"
  "frame outside_catalog (delete_category j)"
proof -
  have add: "frame outside_catalog (add_subtype_row k attrs)" for k attrs
    unfolding add_subtype_row_def by (cases attrs; simp; intro frame_intros; simp)
  have del: "frame outside_catalog (delete_subtype_row n k)" for n k
    unfolding delete_subtype_row_def by (cases n; simp; intro frame_intros; simp)
  show "frame outside_catalog (create_product r)"
    unfolding create_product_def require_category_def resolve_product_type_def
    by (intro frame_intros add get_product_frame; simp)
  show "frame outside_catalog (update_product i r')"
    unfolding update_product_def require_product_def require_category_def
    by (intro frame_intros add del get_product_frame; simp)
  show "frame outside_catalog (create_category c)"
    unfolding create_category_def resolve_product_type_def by (intro frame_intros; simp)
  show "frame outside_catalog (update_category j c')"
    unfolding update_category_def resolve_product_type_def product_type_name_of_def Let_def by (intro frame_intros; simp)
  show "frame outside_catalog (delete_category j)"
    unfolding delete_category_def by (intro frame_intros; simp)
qed
lemma create_product_sound: "attributes_match_type r \<Longrightarrow> sound_request (create_product r)"
  by (rule catalog_sound [OF create_product_keeps catalog_writes_frame(1)])

lemma catalog_requests_sound:
  "sound_request (update_product i r)" "sound_request (create_category c)" "sound_request (update_category j c')"
  "sound_request (delete_category j)"
  by (rule catalog_sound, rule update_product_keeps create_category_keeps update_category_keeps delete_category_keeps,
      rule catalog_writes_frame)+

text \<open>The deletion of a product takes its ratings with it.\<close>

lemma ratings_inv_cascade:
  assumes "ratings_inv d"
  shows "ratings_inv (without_product i d)"
proof -
  let ?d = "without_product i d"
  have rows: "t_ratings ?d = filter (\<lambda>x. r_product_id x \<noteq> i) (t_ratings d)"
    "t_product_ratings ?d = filter (\<lambda>x. pr_product_id x \<noteq> i) (t_product_ratings d)"
    by (simp_all add: cascade_product_def)
  have "scores_of ?d p = (if p = i then [] else scores_of d p)" for p
    by (auto simp: scores_of_def ratings_for_def rows intro!: arg_cong [of _ _ "map r_rating"] filter_cong)
  moreover have "aggregates ?d p = (if p = i then [] else aggregates d p)" for p
    by (auto simp: aggregates_def rows intro!: filter_cong)
  ultimately have "aggregate_exact ?d p" if "aggregate_exact d p" for p
    using that by (cases "p = i") (simp_all add: aggregate_exact_def cong: list.case_cong)
  moreover have "rating_rows ?d"
    using assms by (auto simp: ratings_inv_def rating_rows_def rows row_ids_def distinct_map_filter list_all_iff)
  ultimately show ?thesis using assms by (simp add: ratings_inv_def)
qed

lemma delete_product_sound: "sound_request (delete_product i)"
proof (rule sound_requestI)
  fix w a w'
  assume run: "delete_product i w = (Inr a, w')" and inv: "back_end_inv (wdb w)"
  then have parts: "shop_inv (wdb w)" "accounts_inv (wdb w)" "catalog_inv (wdb w)" by (simp_all add: back_end_inv_def)
  from run have w': "wdb w' = without_product i (wdb w)" by (auto elim: delete_product_InrE)
  have "ratings_inv (wdb w')" using ratings_inv_cascade parts(1) by (simp add: w' shop_inv_def)
  then have "shop_inv (wdb w') \<and> moves (wdb w) (wdb w')"
    by (rule shop_inv_besides [OF parts(1)]) (simp_all add: w' cascade_product_def)
  moreover have "accounts_inv (wdb w') = accounts_inv (wdb w)"
    by (rule accounts_inv_same) (simp_all add: w' cascade_product_def)
  moreover have "catalog_inv (wdb w')" by (rule preservesD [OF delete_product_keeps run parts(3)])
  ultimately show "back_end_inv (wdb w') \<and> moves (wdb w) (wdb w')" using parts(2) by (simp add: back_end_inv_def)
qed

section \<open>The accounts\<close>

abbreviation outside_accounts :: "database \<Rightarrow> database" where
  "outside_accounts d \<equiv> d\<lparr>t_users := [], t_preferences := []\<rparr>"

lemma outside_accounts_columns:
  assumes "outside_accounts d' = outside_accounts d"
  shows "t_ratings d' = t_ratings d"
    "t_product_ratings d' = t_product_ratings d" "t_points d' = t_points d" "t_orders d' = t_orders d"
    "t_order_products d' = t_order_products d" "t_pickup_info d' = t_pickup_info d" "t_delivery_info d' = t_delivery_info d"
    "t_order_payments d' = t_order_payments d" "t_payment_methods d' = t_payment_methods d"
    "t_subscriptions d' = t_subscriptions d" "t_events d' = t_events d" "t_sub_products d' = t_sub_products d"
    "t_sub_payments d' = t_sub_payments d"
  using assms by (cases d; cases d'; simp)+

lemma catalog_inv_accounts: "catalog_inv (outside_accounts d) = catalog_inv d"
  by (simp add: catalog_inv_def attributes_legal_def ok_category_def ok_product_def ok_coffee_def ok_equipment_def
      ok_accessories_def ok_consumables_def well_typed_def type_named_def has_attributes_def
      cong: product_type_name.case_cong)

text \<open>No request removes the row of a user.\<close>

interpretation users_grow: evolution "\<lambda>v w. set (row_ids (t_users (wdb v))) \<subseteq> set (row_ids (t_users (wdb w)))"
  by unfold_locales auto

abbreviation keeps_users :: "'a session \<Rightarrow> bool" where
  "keeps_users m \<equiv> evolves (\<lambda>v w. set (row_ids (t_users (wdb v))) \<subseteq> set (row_ids (t_users (wdb w)))) m"

lemma keeps_users_frame: "frame t_users m \<Longrightarrow> keeps_users m"
  unfolding evolves_def by (metis order_refl)

lemma keeps_users_writes:
  "keeps_users (add_user mk)" "keeps_users (save_user u)"
  by (auto simp: evolves_def db_add_def uuid4_run db_insert_eq bind_def db_save_def svc_simps split: option.splits)

lemmas keeps_users_intros = users_grow.ev_intros keeps_users_writes

lemma create_user_grows: "keeps_users (create_user name a)"
  unfolding create_user_def by (intro keeps_users_intros keeps_users_frame frame_intros) simp

lemma accounts_sound:
  assumes "preserves accounts_inv m" and "frame outside_accounts m" and "keeps_users m"
  shows "sound_request m"
proof (rule sound_requestI)
  fix w a w'
  assume run: "m w = (Inr a, w')" and inv: "back_end_inv (wdb w)"
  have out: "outside_accounts (wdb w') = outside_accounts (wdb w)" using leavesD [OF assms(2) run] .
  note cols = outside_accounts_columns [OF out]
  have users: "set (row_ids (t_users (wdb w))) \<subseteq> set (row_ids (t_users (wdb w')))" using evolvesD [OF assms(3) run] .
  have "ratings_inv (wdb w')" using inv ratings_inv_same [OF cols(1,2)] by (simp add: back_end_inv_def shop_inv_def)
  then have "shop_inv (wdb w') \<and> moves (wdb w) (wdb w')"
    using inv by (intro shop_inv_besides [OF _ _ users]) (simp_all add: back_end_inv_def cols)
  moreover have "catalog_inv (wdb w')" using inv catalog_inv_accounts out unfolding back_end_inv_def by metis
  moreover have "accounts_inv (wdb w')" using preservesD [OF assms(1) run] inv by (simp add: back_end_inv_def)
  ultimately show "back_end_inv (wdb w') \<and> moves (wdb w) (wdb w')" by (simp add: back_end_inv_def)
qed

lemma account_requests_frame:
  "frame outside_accounts (open_session exchanged)" "frame outside_accounts (update_profile i data)"
  "frame outside_accounts (update_preferences zone i data')" "frame outside_accounts (delete_account i mode)"
proof -
  have me: "frame outside_accounts (get_me k)" for k unfolding get_me_def by (intro frame_intros)
  show "frame outside_accounts (open_session exchanged)"
    unfolding open_session_def sign_in_def create_user_def by (intro frame_intros me; simp)
  show "frame outside_accounts (update_profile i data)"
    unfolding update_profile_def apply_display_name_def apply_email_def by (intro frame_intros me; simp)
  show "frame outside_accounts (update_preferences zone i data')"
    unfolding update_preferences_def get_preferences_def Let_def by (intro frame_intros; simp)
  show "frame outside_accounts (delete_account i mode)"
    unfolding delete_account_def delete_preferences_def
    by (cases mode; simp; intro frame_intros leaving.ev_modify; simp)
qed

lemma account_requests_grow:
  "keeps_users (open_session exchanged)" "keeps_users (update_profile i data)"
  "keeps_users (update_preferences zone i data')" "keeps_users (delete_account i mode)"
proof -
  have me: "keeps_users (get_me k)" for k by (rule keeps_users_frame) (simp add: get_me_def, intro frame_intros)
  show "keeps_users (open_session exchanged)"
    unfolding open_session_def sign_in_def
    by (intro keeps_users_intros me create_user_grows keeps_users_frame [OF frame_query])
  show "keeps_users (update_profile i data)"
    unfolding update_profile_def apply_display_name_def apply_email_def by (intro keeps_users_intros me)
  show "keeps_users (update_preferences zone i data')"
    by (rule keeps_users_frame) (simp add: update_preferences_def get_preferences_def Let_def, intro frame_intros; simp)
  show "keeps_users (delete_account i mode)"
    unfolding delete_account_def delete_preferences_def
    by (cases mode; simp; intro keeps_users_intros users_grow.ev_modify keeps_users_frame [OF frame_fetch]; simp)
qed

lemma account_requests_sound:
  "sound_request (open_session exchanged)" "sound_request (update_profile i data)"
  "sound_request (update_preferences zone i data')" "sound_request (delete_account i mode)"
  by (rule accounts_sound, rule open_session_keeps update_profile_keeps update_preferences_keeps delete_account_keeps,
      rule account_requests_frame, rule account_requests_grow)+

section \<open>The system\<close>

text \<open>
  The requests that write, with the caller, the path parameters, the bodies and what the identity
  provider or the zone database answers, and a run of the scheduler.
\<close>

datatype shop_request =
    PlaceOrder uuid create_order_request
  | CancelOrder uuid uuid
  | SetOrderStatus uuid order_status
  | PayOrder uuid uuid string
  | ProviderCallback string string string
  | RefundPayment uuid
  | SaveCard uuid SavePaymentMethodRequest
  | DeleteCard uuid uuid
  | ChooseCard uuid uuid
  | Rate uuid uuid int
  | Unrate uuid uuid
  | Subscribe uuid CreateSubscriptionRequest
  | PaySubscription uuid uuid uuid
  | PauseSubscription uuid uuid
  | ResumeSubscription uuid uuid
  | CancelSubscription uuid uuid
  | DailyRun "date option"
  | CreatePoint point_write
  | UpdatePoint uuid point_write
  | DeletePoint uuid delete_mode
  | SignIn "exn + ExchangedTokens"
  | UpdateProfile uuid UpdateProfileRequest
  | UpdatePreferences "string \<Rightarrow> zone_lookup" uuid UpdatePreferencesRequest
  | DeleteAccount uuid account_deletion
  | CreateProduct ProductCreate
  | UpdateProduct uuid ProductWrite
  | DeleteProduct uuid
  | CreateCategory ProductCategoryCreate
  | UpdateCategory uuid ProductCategoryUpdate
  | DeleteCategory uuid

definition validated :: "bool \<Rightarrow> unit session" where
  \<comment> \<open>the errors that the validation library lists are not modelled\<close>
  "validated b = require b (RequestValidationError [])"

definition discard :: "'a session \<Rightarrow> unit session" where
  "discard m = bind m (\<lambda>_. ret ())"

fun run_request :: "payment_provider \<Rightarrow> shop_request \<Rightarrow> unit session" where
  "run_request prov (PlaceOrder u data) = discard (create_order u data)"
| "run_request prov (CancelOrder i u) = discard (cancel_order i u)"
| "run_request prov (SetOrderStatus i s) = discard (update_status i s)"
| "run_request prov (PayOrder u i m) = discard (charge_for_order prov u i m)"
| "run_request prov (ProviderCallback name txn st) = discard (handle_callback name txn st)"
| "run_request prov (RefundPayment i) = discard (refund_payment prov i)"
| "run_request prov (SaveCard u data) = discard (save_method prov u data)"
| "run_request prov (DeleteCard u i) = discard (delete_method prov u i)"
| "run_request prov (ChooseCard u i) = discard (set_default u i)"
| "run_request prov (Rate u p v) = discard (set_rating u p v)"
| "run_request prov (Unrate u p) = discard (delete_rating u p)"
| "run_request prov (Subscribe u data) = discard (create_subscription (Some prov) u data)"
| "run_request prov (PaySubscription i u k) = discard (pay_subscription (Some prov) i u k)"
| "run_request prov (PauseSubscription i u) = discard (pause_subscription i u)"
| "run_request prov (ResumeSubscription i u) = discard (resume_subscription i u)"
| "run_request prov (CancelSubscription i u) = discard (cancel_subscription (Some prov) i u)"
| "run_request prov (DailyRun today) = discard (run_daily today (Some prov))"
| "run_request prov (CreatePoint data) = discard (admin_create_point data)"
| "run_request prov (UpdatePoint i data) = discard (admin_update_point i data)"
| "run_request prov (DeletePoint i mode) = discard (admin_delete_point i mode)"
| "run_request prov (SignIn exchanged) = discard (open_session exchanged)"
| "run_request prov (UpdateProfile u data) = discard (update_profile u data)"
| "run_request prov (UpdatePreferences zone_info u data) = discard (update_preferences zone_info u data)"
| "run_request prov (DeleteAccount u mode) = discard (delete_account u mode)"
| "run_request prov (CreateProduct r) =
     bind (validated (valid_product_write r \<and> attributes_match_type r)) (\<lambda>_. discard (create_product r))"
| "run_request prov (UpdateProduct i r) =
     bind (validated (valid_product_write r \<and> exactly_one_block r)) (\<lambda>_. discard (update_product i r))"
| "run_request prov (DeleteProduct i) = discard (delete_product i)"
| "run_request prov (CreateCategory r) =
     bind (validated (valid_category_create r)) (\<lambda>_. discard (create_category r))"
| "run_request prov (UpdateCategory i r) =
     bind (validated (valid_category_update r)) (\<lambda>_. discard (update_category i r))"
| "run_request prov (DeleteCategory i) = discard (delete_category i)"

text \<open>
  A request starts at a time not before the last one, draws fresh randomness, and runs in its
  own unit of work: when it fails, the database is rolled back.
\<close>

definition begin_request :: "datetime \<Rightarrow> (nat \<Rightarrow> uuid) \<Rightarrow> (nat \<Rightarrow> nat) \<Rightarrow> world \<Rightarrow> world" where
  "begin_request t us rs w = w\<lparr>now := t, uuid_src := us, uuid_pos := 0, rand_src := rs, rand_pos := 0\<rparr>"

inductive shop_step :: "payment_provider \<Rightarrow> world \<Rightarrow> world \<Rightarrow> bool" for prov :: payment_provider where
  request: "now w \<le> t \<Longrightarrow> unit_of_work (run_request prov r) (begin_request t us rs w) = (x, w') \<Longrightarrow> shop_step prov w w'"

inductive_cases shop_stepE: "shop_step prov w w'"

lemma sound_request_bind:
  assumes "sound_request m" and "\<And>a. sound_request (f a)"
  shows "sound_request (bind m f)"
proof (rule sound_requestI)
  fix w b w'
  assume "bind m f w = (Inr b, w')" and inv: "back_end_inv (wdb w)"
  then obtain a v where "m w = (Inr a, v)" "f a v = (Inr b, w')" by (auto elim: bind_InrE)
  then show "back_end_inv (wdb w') \<and> moves (wdb w) (wdb w')"
    using sound_requestD [OF assms(1)] sound_requestD [OF assms(2)] inv moves_trans by blast
qed

lemma sound_discard: "sound_request m \<Longrightarrow> sound_request (discard m)"
  unfolding discard_def by (rule sound_request_bind) (auto intro!: sound_requestI simp: moves_same)

lemma sound_validated: "(b \<Longrightarrow> sound_request m) \<Longrightarrow> sound_request (bind (validated b) (\<lambda>_. m))"
  by (cases b) (auto simp: validated_def require_def sound_request_def)

lemmas business_requests_sound =
  business_sound [OF create_order_well order_requests_background(1)]
  business_sound [OF cancel_order_well order_requests_background(2)]
  business_sound [OF update_status_well order_requests_background(3)]
  business_sound [OF callback_well callback_background]
  business_sound [OF pause_well pause_resume_background(1)] business_sound [OF resume_well pause_resume_background(2)]
  business_sound [OF ratings_requests_well(1) ratings_background(1)]
  business_sound [OF ratings_requests_well(2) ratings_background(2)]
  business_sound [OF points_requests_well(1) points_background(1)]
  business_sound [OF points_requests_well(2) points_background(2)]
  business_sound [OF points_requests_well(3) points_background(3)]

context provider_contract
begin

lemma provider_requests_sound:
  "sound_request (charge_for_order prov u i m)" "sound_request (refund_payment prov i)"
  "sound_request (save_method prov u data)" "sound_request (delete_method prov u i)" "sound_request (set_default u i)"
  "sound_request (create_subscription (Some prov) u data')" "sound_request (pay_subscription (Some prov) i u k)"
  "sound_request (cancel_subscription (Some prov) i u)" "sound_request (run_daily today (Some prov))"
  using methods_requests_well [OF provider_contract_axioms] provider_contract_axioms
  by (intro business_sound charge_well charge_background refund_well refund_background methods_background
      create_subscription_well pay_subscription_well cancel_subscription_well subscription_requests_background
      run_daily_well run_daily_background; simp)+

lemma run_request_sound: "sound_request (run_request prov r)"
  by (cases r) (simp_all add: sound_discard business_requests_sound provider_requests_sound account_requests_sound
      sound_validated create_product_sound delete_product_sound catalog_requests_sound)

end

end
