(* ===== verification/CatalogReads.thy ===== *)
theory CatalogReads
  imports Facets CatalogInvariant "HOL-Library.Sublist"
begin

text \<open>
  What the reads of the catalog show: the search finds exactly the products whose name contains
  the text, pages cover a listing once, the counts of the facets are those of the listings they
  lead to, and the loops of the flavor facet compute the declarative counts.
\<close>

section \<open>The search\<close>

definition special :: "char \<Rightarrow> bool" where
  "special c \<longleftrightarrow> c \<in> {CHR ''%'', CHR ''_'', CHR 0x5C}"

lemma escape_like_simps:
  "escape_like [] = []"
  "escape_like (c # s) = (if special c then [CHR 0x5C, c] else [c]) @ escape_like s"
  by (auto simp: escape_like_def replace_char_def special_def)

lemma like_any: "like (CHR ''%'' # p) t \<longleftrightarrow> (\<exists>a b. t = a @ b \<and> like p b)"
proof (induction t)
  case (Cons c t)
  have "like (CHR ''%'' # p) (c # t) \<longleftrightarrow> like p (c # t) \<or> (\<exists>a b. t = a @ b \<and> like p b)"
    by (subst like.simps) (simp add: Cons.IH)
  then show ?case by (auto simp: Cons_eq_append_conv)
qed (simp add: like.simps)

lemma like_literal:
  assumes "\<And>c x. special x \<Longrightarrow> fold_char c = x \<longleftrightarrow> c = x"
  shows "like (map fold_char (escape_like q) @ p) t \<longleftrightarrow> (\<exists>b. t = map fold_char q @ b \<and> like p b)"
proof (induction q arbitrary: t)
  case (Cons c q)
  have esc: "fold_char (CHR 0x5C) = CHR 0x5C" using assms by (simp add: special_def)
  show ?case
  proof (cases "special c")
    case True
    then have "fold_char c = c" using assms by blast
    then show ?thesis using True Cons.IH esc by (cases t) (auto simp: escape_like_simps like.simps)
  next
    case False
    then have "\<not> special (fold_char c)" using assms [of "fold_char c" c] by auto
    then show ?thesis using False Cons.IH by (cases t) (auto simp: escape_like_simps special_def like.simps)
  qed
qed (simp add: escape_like_simps)

lemma like_contains:
  assumes "\<And>c x. special x \<Longrightarrow> fold_char c = x \<longleftrightarrow> c = x"
  shows "like (map fold_char (''%'' @ escape_like q @ ''%'')) t \<longleftrightarrow> sublist (map fold_char q) t"
proof -
  have any: "fold_char (CHR ''%'') = CHR ''%''" using assms by (simp add: special_def)
  have "like (CHR ''%'' # map fold_char (escape_like q) @ [CHR ''%'']) t \<longleftrightarrow>
      (\<exists>a b. t = a @ b \<and> (\<exists>c. b = map fold_char q @ c \<and> like [CHR ''%''] c))"
    by (simp only: like_any like_literal [OF assms])
  moreover have "like [CHR ''%''] c" for c by (simp add: like_any)
  ultimately show ?thesis by (auto simp: any sublist_def)
qed

text \<open>
  C32: the search finds exactly the active products whose name contains the searched text,
  letter for letter up to the case folding of the database: \<open>%\<close>, \<open>_\<close> and the backslash have no
  special meaning in it. The total counts all of them, and the page is cut from their order by
  name and identifier.
\<close>

theorem search_finds_substring:
  assumes fold: "db_lower = map fold_char" and "\<And>c x. special x \<Longrightarrow> fold_char c = x \<longleftrightarrow> c = x"
    and run: "search_products db_lower collate q limit offset u w = (Inr res, w')"
    and hits: "hits = filter (\<lambda>p. p_is_active p \<and> sublist (db_lower q) (db_lower (p_name p))) (t_products (wdb w))"
  shows "w' = w \<and> plist_total res = length hits \<and>
    map dto_id (plist_items res) =
      map row_id (take limit (drop offset (sort_key (\<lambda>p. (collate (p_name p), row_id p)) hits)))"
proof -
  have "filter (name_matches db_lower q) (t_products (wdb w)) = hits"
    unfolding hits name_matches_def fold by (simp only: like_contains [OF assms(2)])
  moreover from run have "product_list (repo_search db_lower collate q limit offset (wdb w)) limit offset u w = (Inr res, w')"
    by (simp add: search_products_def bind_require split: if_splits)
  ultimately show ?thesis by (auto dest: product_list_run simp: repo_search_def Let_def rows_ids paginate_def)
qed
section \<open>Facets and listings\<close>

lemma count_list_map: "count_list (map f xs) v = length (filter (\<lambda>x. f x = v) xs)"
  by (induction xs) auto

lemma count_present:
  "count_list (map the (filter (\<lambda>v. v \<noteq> None) (map f xs))) v = length (filter (\<lambda>x. f x = Some v) xs)"
  by (induction xs) auto

lemma in_present: "v \<in> set (map the (filter (\<lambda>v. v \<noteq> None) (map f xs))) \<longleftrightarrow> (\<exists>x \<in> set xs. f x = Some v)"
  by (induction xs) auto

lemma count_list_filter_if: "count_list (filter P xs) x = (if P x then count_list xs x else 0)"
  by (induction xs) auto

lemma group_countsD: "(v, n) \<in> set (group_counts xs) \<Longrightarrow> n = count_list xs v \<and> v \<in> set xs"
  by (auto simp: group_counts_def)

text \<open>The rows of an attribute table and the products of a category that have them.\<close>

lemma count_products:
  fixes table :: "database \<Rightarrow> 'a row_scheme list"
  assumes prods: "distinct (row_ids (t_products d))" and rows: "distinct (row_ids (table d))"
  shows "length (filter P (attribute_rows table c d)) =
    length (filter (\<lambda>p. p_category_id p = c \<and> p_is_active p \<and>
      (case lookup (table d) (row_id p) of None \<Rightarrow> False | Some r \<Rightarrow> P r)) (t_products d))"
    (is "length ?rows = length (filter ?Q _)")
proof -
  let ?ps = "filter ?Q (t_products d)"
  have "set (map row_id ?rows) = set (map row_id ?ps)"
  proof (intro set_eqI iffI)
    fix i assume "i \<in> set (map row_id ?rows)"
    then obtain r where r: "r \<in> set (table d)" "row_id r = i" "P r" "in_category d c i"
      by (auto simp: attribute_rows_def)
    then obtain p where p: "lookup (t_products d) i = Some p" "p_category_id p = c" "p_is_active p"
      by (auto simp: in_category_def split: option.splits)
    from p(1) have "p \<in> set (t_products d)" "row_id p = i" by (auto dest: lookup_SomeD)
    then have "p \<in> set ?ps" using p(2,3) r lookup_unique [OF rows r(1)] by simp
    then have "row_id p \<in> row_id ` set ?ps" by (rule imageI)
    then show "i \<in> set (map row_id ?ps)" using \<open>row_id p = i\<close> by simp
  next
    fix i assume "i \<in> set (map row_id ?ps)"
    then obtain p where p: "p \<in> set ?ps" "row_id p = i" by auto
    then obtain r where r: "lookup (table d) i = Some r" "P r" by (auto split: option.splits)
    from r(1) have "r \<in> set (table d)" "row_id r = i" by (auto dest: lookup_SomeD)
    moreover have "in_category d c i"
      using p lookup_unique [OF prods, of p] by (auto simp: in_category_def)
    ultimately have "r \<in> set ?rows" using r(2) by (simp add: attribute_rows_def)
    then have "row_id r \<in> row_id ` set ?rows" by (rule imageI)
    then show "i \<in> set (map row_id ?rows)" using \<open>row_id r = i\<close> by simp
  qed
  moreover have "distinct (map row_id ?rows)" "distinct (map row_id ?ps)"
    using prods rows by (simp_all add: attribute_rows_def row_ids_def distinct_map_filter)
  ultimately have "length (map row_id ?rows) = length (map row_id ?ps)"
    using distinct_card [of "map row_id ?rows"] distinct_card [of "map row_id ?ps"] by simp
  then show ?thesis by (simp only: length_map)
qed

lemma enum_option_value:
  assumes "opt \<in> set (fc_options (enum_facet collate key label kind table column c d))"
  shows "fo_count opt = length (filter (\<lambda>r. column r = Some (fo_value opt)) (attribute_rows table c d))"
    and "\<exists>r \<in> set (attribute_rows table c d). column r = Some (fo_value opt)"
proof -
  let ?present = "map the (filter (\<lambda>v. v \<noteq> None) (map column (attribute_rows table c d)))"
  from assms obtain vn where vn: "vn \<in> set (enum_counts collate table column c d)"
    and vopt: "opt = (\<lambda>(v, n). \<lparr>fo_value = v, fo_label = label_of v, fo_count = n\<rparr>) vn"
    unfolding enum_facet_def FacetDTO.select_convs set_map by (rule imageE)
  obtain v n where vn_eq: "vn = (v, n)" by (cases vn)
  have opt: "fo_value opt = v" "fo_count opt = n" by (simp_all add: vopt vn_eq)
  have "(v, n) \<in> set (group_counts ?present)" using vn unfolding enum_counts_def Let_def set_sort vn_eq .
  then have n: "n = count_list ?present v" and v: "v \<in> set ?present" by (auto dest: group_countsD)
  show "fo_count opt = length (filter (\<lambda>r. column r = Some (fo_value opt)) (attribute_rows table c d))"
    by (simp only: opt n count_present)
  from v show "\<exists>r \<in> set (attribute_rows table c d). column r = Some (fo_value opt)" unfolding opt in_present .
qed

lemma enum_option:
  assumes "opt \<in> set (fc_options (enum_facet collate key label kind table column c d))"
    and "distinct (row_ids (t_products d))" and "distinct (row_ids (table d))"
  shows "fo_count opt = length (filter (\<lambda>p. p_category_id p = c \<and> p_is_active p \<and>
      (case lookup (table d) (row_id p) of None \<Rightarrow> False | Some r \<Rightarrow> column r = Some (fo_value opt))) (t_products d))"
  using enum_option_value(1) [OF assms(1)] count_products [where table = table, OF assms(2,3)] by simp

text \<open>The loop over the acidity groups.\<close>

lemma fold_add_acidity:
  "fold add_acidity vs b =
     (fst b + sum_list (map snd (filter (\<lambda>x. fst x \<le> 2) vs)),
      fst (snd b) + sum_list (map snd (filter (\<lambda>x. fst x = 3) vs)),
      snd (snd b) + sum_list (map snd (filter (\<lambda>x. 3 < fst x) vs)))"
  by (induction vs arbitrary: b) (auto simp: add_acidity_def Let_def)

lemma sum_groups: "sum_list (map snd (filter (\<lambda>x. P (fst x)) (group_counts xs))) = length (filter P xs)"
proof -
  have "sum_list (map snd (filter (\<lambda>x. P (fst x)) (group_counts xs))) =
      sum_list (map (count_list xs) (filter P (remdups xs)))"
    unfolding group_counts_def filter_map map_map by (simp add: o_def)
  also have "\<dots> = sum (count_list xs) {x \<in> set xs. P x}"
    by (subst sum_list_distinct_conv_sum_set) simp_all
  also have "\<dots> = length (filter P xs)"
  proof -
    have "sum (count_list xs) {x \<in> set xs. P x} = sum (count_list (filter P xs)) (set (filter P xs))"
    proof (rule sum.cong)
      show "{x \<in> set xs. P x} = set (filter P xs)" by auto
      show "count_list xs x = count_list (filter P xs) x" if "x \<in> set (filter P xs)" for x
        using that by (simp add: count_list_filter_if)
    qed
    also have "\<dots> = length (filter P xs)" by (rule sum_count_set) simp_all
    finally show ?thesis .
  qed
  finally show ?thesis .
qed

lemma acidity_option:
  assumes "opt \<in> set (fc_options (acidity_facet c d))" and "distinct (row_ids (t_products d))"
    and legal: "attributes_legal d"
  obtains b where "fo_value opt = acidity_bucket_value b"
    and "fo_count opt = length (filter (\<lambda>p. p_category_id p = c \<and> p_is_active p \<and>
      (case lookup (t_coffee d) (row_id p) of None \<Rightarrow> False
       | Some r \<Rightarrow> fst (acidity_range b) \<le> cf_acidity r \<and> cf_acidity r \<le> snd (acidity_range b))) (t_products d))"
proof -
  let ?rows = "attribute_rows t_coffee c d"
  from assms(1) obtain b where b: "fo_value opt = acidity_bucket_value b"
    "fo_count opt = length (filter (\<lambda>a. case b of SOFT \<Rightarrow> a \<le> 2 | BALANCED \<Rightarrow> a = 3 | BRIGHT \<Rightarrow> 3 < a) (map cf_acidity ?rows))"
  proof -
    have "fc_options (acidity_facet c d) =
       [\<lparr>fo_value = ''soft'', fo_label = ''Soft'', fo_count = length (filter (\<lambda>a. a \<le> 2) (map cf_acidity ?rows))\<rparr>,
        \<lparr>fo_value = ''balanced'', fo_label = ''Balanced'', fo_count = length (filter (\<lambda>a. a = 3) (map cf_acidity ?rows))\<rparr>,
        \<lparr>fo_value = ''bright'', fo_label = ''Bright'', fo_count = length (filter (\<lambda>a. 3 < a) (map cf_acidity ?rows))\<rparr>]"
      unfolding acidity_facet_def Let_def fold_add_acidity acidity_counts_def
      by (simp add: sum_groups [of "\<lambda>a :: int. a \<le> 2"] sum_groups [of "\<lambda>a :: int. a = 3"] sum_groups [of "\<lambda>a :: int. 3 < a"])
    with assms(1) consider
        "opt = \<lparr>fo_value = ''soft'', fo_label = ''Soft'', fo_count = length (filter (\<lambda>a. a \<le> 2) (map cf_acidity ?rows))\<rparr>"
      | "opt = \<lparr>fo_value = ''balanced'', fo_label = ''Balanced'', fo_count = length (filter (\<lambda>a. a = 3) (map cf_acidity ?rows))\<rparr>"
      | "opt = \<lparr>fo_value = ''bright'', fo_label = ''Bright'', fo_count = length (filter (\<lambda>a. 3 < a) (map cf_acidity ?rows))\<rparr>"
      by (simp only: list.set insert_iff empty_iff) blast
    then show thesis using that [of SOFT] that [of BALANCED] that [of BRIGHT] by cases simp_all
  qed
  have "(case b of SOFT \<Rightarrow> cf_acidity r \<le> 2 | BALANCED \<Rightarrow> cf_acidity r = 3 | BRIGHT \<Rightarrow> 3 < cf_acidity r) \<longleftrightarrow>
      fst (acidity_range b) \<le> cf_acidity r \<and> cf_acidity r \<le> snd (acidity_range b)" if "r \<in> set ?rows" for r
    using that legal by (cases b) (auto simp: acidity_range_def attribute_rows_def attributes_legal_def ok_coffee_def check_coffee_def)
  then have "filter (\<lambda>r. case b of SOFT \<Rightarrow> cf_acidity r \<le> 2 | BALANCED \<Rightarrow> cf_acidity r = 3 | BRIGHT \<Rightarrow> 3 < cf_acidity r) ?rows =
      filter (\<lambda>r. fst (acidity_range b) \<le> cf_acidity r \<and> cf_acidity r \<le> snd (acidity_range b)) ?rows"
    by (intro filter_cong refl)
  moreover have "distinct (row_ids (t_coffee d))" using legal by (simp add: attributes_legal_def)
  ultimately show thesis
    using b count_products [where table = t_coffee, OF assms(2)] by (intro that [OF b(1)]) (simp add: filter_map o_def)
qed
text \<open>The request that a client sends for the option \<open>v\<close> of the facet \<open>key\<close> of a category.\<close>

definition bucket_of :: "string \<Rightarrow> acidity_bucket option" where
  "bucket_of v = find (\<lambda>b. acidity_bucket_value b = v) [SOFT, BALANCED, BRIGHT]"

definition facet_query :: "uuid \<Rightarrow> string \<Rightarrow> string \<Rightarrow> ProductQuery" where
  "facet_query c key v = (no_facets None)\<lparr>f_category_id := Some c,
     f_acidity := (if key = ''acidity'' then bucket_of v else None),
     f_region := (if key = ''region'' then Some v else None),
     f_roast_level := (if key = ''roast_level'' then Some v else None),
     f_processing := (if key = ''processing'' then Some v else None),
     f_equipment_type := (if key = ''equipment_type'' then Some v else None),
     f_accessory_type := (if key = ''accessory_type'' then Some v else None),
     f_consumable_type := (if key = ''consumable_type'' then Some v else None)\<rparr>"

lemma bucket_of_value [simp]: "bucket_of (acidity_bucket_value b) = Some b"
  by (cases b) (simp_all add: bucket_of_def)

lemma split_roast: "split_csv (Some (roast_level_value x)) = [roast_level_value x]" "roast_level_value x \<in> set roast_levels"
  by (induct x; code_simp) (cases x; simp add: roast_levels_def)

lemma split_processing: "split_csv (Some (processing_value x)) = [processing_value x]" "processing_value x \<in> set processings"
  by (induct x; code_simp) (cases x; simp add: processings_def)

lemma split_equipment:
  "split_csv (Some (equipment_type_value x)) = [equipment_type_value x]" "equipment_type_value x \<in> set equipment_types"
  by (induct x; code_simp) (cases x; simp add: equipment_types_def)

lemma split_accessory:
  "split_csv (Some (accessory_type_value x)) = [accessory_type_value x]" "accessory_type_value x \<in> set accessory_types"
  by (induct x; code_simp) (cases x; simp add: accessory_types_def)

lemma split_consumable:
  "split_csv (Some (consumable_type_value x)) = [consumable_type_value x]" "consumable_type_value x \<in> set consumable_types"
  by (induct x; code_simp) (cases x; simp add: consumable_types_def)

lemmas split_enum_values = split_roast split_processing split_equipment split_accessory split_consumable

lemma enum_values_no_nul [simp]:
  "no_nul (roast_level_value x1)" "no_nul (processing_value x2)" "no_nul (equipment_type_value x3)"
  "no_nul (accessory_type_value x4)" "no_nul (consumable_type_value x5)"
proof -
  show "no_nul (roast_level_value x1)" by (cases x1; simp add: no_nul_def)
  show "no_nul (processing_value x2)" by (cases x2; simp add: no_nul_def)
  show "no_nul (equipment_type_value x3)" by (cases x3; simp add: no_nul_def)
  show "no_nul (accessory_type_value x4)" by (cases x4; simp add: no_nul_def)
  show "no_nul (consumable_type_value x5)" by (cases x5; simp add: no_nul_def)
qed

lemma split_nothing [simp]: "split_csv None = []"
  by (simp add: split_csv_def)

lemma find_none [simp]: "v \<in> set members \<Longrightarrow> validate_enum_csv name [v] members = Inr ()" "validate_enum_csv name [] members = Inr ()"
  by (simp_all add: validate_enum_csv_def)

lemma no_range [simp]: "validate_range name None h = Inr ()" "validate_int_range name None None = Inr ()"
  by (simp_all add: validate_range_def validate_int_range_def)

definition answers_count :: "ProductListDTO session \<Rightarrow> nat \<Rightarrow> nat \<Rightarrow> nat \<Rightarrow> world \<Rightarrow> bool" where
  "answers_count m limit offset n w \<longleftrightarrow>
     (if page_bindable limit offset then (\<exists>page. m w = (Inr page, w) \<and> plist_total page = n) else m w = (Inl DataError, w))"

lemma listing_count:
  assumes inv: "catalog_inv (wdb w)" and cat: "lookup (t_categories (wdb w)) c = Some category"
    and "f_category_id f = Some c" and "validate_type_facets f (type_named (wdb w) (pc_product_type_id category)) = Inr ()"
    and "build_product_filters q = Inr f" and "bindable f"
  shows "answers_count (list_products_endpoint db_lower (ret user) q sorting limit offset) limit offset
      (length (filter
      (apply_filters db_lower (wdb w) f (type_named (wdb w) (pc_product_type_id category))) (t_products (wdb w)))) w"
proof -
  let ?ty = "type_named (wdb w) (pc_product_type_id category)"
  have run: "resolve_scope_type f w = (Inr ?ty, w)"
    by (simp add: scope_outcome [OF inv] assms(3) cat)
  from listing_total [OF inv, of db_lower f sorting limit offset ?ty "map_option row_id user"] obtain page where
    "product_list (repo_list_products db_lower f sorting limit offset ?ty (wdb w)) limit offset (map_option row_id user) w = (Inr page, w)"
    "plist_total page = length (filter (apply_filters db_lower (wdb w) f ?ty) (t_products (wdb w)))" by blast
  then show ?thesis
    by (simp add: answers_count_def list_products_endpoint_def unit_of_work_def bind_of_sum bind_require assms(4-6)
        list_products_def bind_step [of "resolve_scope_type f" w, OF run])
qed

lemma get_facets_InrE:
  assumes "get_facets collate c w = (Inr res, w')"
  obtains category n where "lookup (t_categories (wdb w)) c = Some category"
    and "type_named (wdb w) (pc_product_type_id category) = Some n"
    and "cfd_facets res = facets_for collate n c (wdb w)" and "w' = w"
proof -
  from assms obtain category ty where found: "lookup (t_categories (wdb w)) c = Some category"
    and ty: "lookup (t_product_types (wdb w)) (pc_product_type_id category) = Some ty"
    and rest: "(case product_type_of (pt_name ty) of None \<Rightarrow> raise (not_a_product_type (pt_name ty))
       | Some n \<Rightarrow> bind (query (facets_for collate n c)) (\<lambda>facets.
           ret \<lparr>cfd_category_id = c, cfd_product_type = product_type_value n, cfd_facets = facets\<rparr>)) w = (Inr res, w')"
    unfolding get_facets_def by (elim bind_InrE fetch_InrE) simp
  show thesis
  proof (cases "product_type_of (pt_name ty)")
    case None
    with rest show ?thesis by simp
  next
    case (Some n)
    with rest have "res = \<lparr>cfd_category_id = c, cfd_product_type = product_type_value n, cfd_facets = facets_for collate n c (wdb w)\<rparr>"
      "w' = w" by auto
    then show ?thesis using Some ty by (intro that [OF found]) (simp_all add: type_named_def)
  qed
qed
lemma filter_length_cong: "(\<And>x. x \<in> set xs \<Longrightarrow> P x = Q x) \<Longrightarrow> length (filter P xs) = length (filter Q xs)"
  by (metis filter_cong)

text \<open>The listing that a single facet leads to, as the condition on the attribute row.\<close>

lemmas facet_filter_simps = no_facets_def facet_query_def build_product_filters_def Let_def split_enum_values
  validate_type_facets_def has_coffee_filter_def has_equipment_filter_def has_accessory_filter_def
  has_consumable_filter_def has_material_filter_def

lemmas facet_match_simps = apply_filters_def apply_coffee_filters_def apply_type_filters_def coffee_matches_def
  equipment_matches_def accessory_matches_def consumable_matches_def one_of_def at_least_def at_most_def

definition counted :: "database \<Rightarrow> uuid \<Rightarrow> (database \<Rightarrow> 'a row_scheme list) \<Rightarrow> ('a row_scheme \<Rightarrow> bool) \<Rightarrow> product \<Rightarrow> bool" where
  "counted d c table P p \<longleftrightarrow> p_category_id p = c \<and> p_is_active p \<and>
     (case lookup (table d) (row_id p) of None \<Rightarrow> False | Some r \<Rightarrow> P r)"

lemma facet_listing:
  assumes inv: "catalog_inv (wdb w)" and cat: "lookup (t_categories (wdb w)) c = Some category"
    and ty: "type_named (wdb w) (pc_product_type_id category) = Some n"
    and f: "build_product_filters (facet_query c key v) = Inr f" "f_category_id f = Some c"
      "validate_type_facets f (Some n) = Inr ()" "bindable f"
    and same: "\<And>p. apply_filters db_lower (wdb w) f (Some n) p = counted (wdb w) c table P p"
  shows "answers_count (list_products_endpoint db_lower (ret user) (facet_query c key v) sorting limit offset) limit offset
      (length (filter (counted (wdb w) c table P) (t_products (wdb w)))) w"
  using listing_count [OF inv cat f(2) _ f(1,4), of db_lower user sorting limit offset] f(3)
  by (simp add: ty same cong: filter_cong)

lemma acidity_listing:
  assumes inv: "catalog_inv (wdb w)" and cat: "lookup (t_categories (wdb w)) c = Some category"
    and ty: "type_named (wdb w) (pc_product_type_id category) = Some TyCOFFEE"
  shows "answers_count (list_products_endpoint db_lower (ret user) (facet_query c ''acidity'' (acidity_bucket_value b)) sorting limit offset) limit offset
      (length (filter (counted (wdb w) c t_coffee
      (\<lambda>r. fst (acidity_range b) \<le> cf_acidity r \<and> cf_acidity r \<le> snd (acidity_range b))) (t_products (wdb w)))) w"
  by (rule facet_listing [OF inv cat ty, of _ _ "(no_facets [])\<lparr>f_category_id := Some c, f_acidity := Some b\<rparr>"])
    (auto simp: facet_filter_simps facet_match_simps counted_def bindable_def opt_fits_def split: option.splits)
lemma roast_listing:
  assumes inv: "catalog_inv (wdb w)" and cat: "lookup (t_categories (wdb w)) c = Some category"
    and ty: "type_named (wdb w) (pc_product_type_id category) = Some TyCOFFEE"
  shows "answers_count (list_products_endpoint db_lower (ret user) (facet_query c ''roast_level'' (roast_level_value x)) sorting limit offset) limit offset
      (length (filter (counted (wdb w) c t_coffee
      (\<lambda>r. Some (roast_level_value (cf_roast_level r)) = Some (roast_level_value x))) (t_products (wdb w)))) w"
  by (rule facet_listing [OF inv cat ty, of _ _ "(no_facets [])\<lparr>f_category_id := Some c, f_roast_level := [roast_level_value x]\<rparr>"])
    (auto simp: facet_filter_simps facet_match_simps counted_def bindable_def opt_fits_def split: option.splits)

lemma processing_listing:
  assumes inv: "catalog_inv (wdb w)" and cat: "lookup (t_categories (wdb w)) c = Some category"
    and ty: "type_named (wdb w) (pc_product_type_id category) = Some TyCOFFEE"
  shows "answers_count (list_products_endpoint db_lower (ret user) (facet_query c ''processing'' (processing_value x)) sorting limit offset) limit offset
      (length (filter (counted (wdb w) c t_coffee
      (\<lambda>r. Some (processing_value (cf_processing r)) = Some (processing_value x))) (t_products (wdb w)))) w"
  by (rule facet_listing [OF inv cat ty, of _ _ "(no_facets [])\<lparr>f_category_id := Some c, f_processing := [processing_value x]\<rparr>"])
    (auto simp: facet_filter_simps facet_match_simps counted_def bindable_def opt_fits_def split: option.splits)

lemma equipment_listing:
  assumes inv: "catalog_inv (wdb w)" and cat: "lookup (t_categories (wdb w)) c = Some category"
    and ty: "type_named (wdb w) (pc_product_type_id category) = Some TyEQUIPMENT"
  shows "answers_count (list_products_endpoint db_lower (ret user) (facet_query c ''equipment_type'' (equipment_type_value x)) sorting limit offset) limit offset
      (length (filter (counted (wdb w) c t_equipment
      (\<lambda>r. Some (equipment_type_value (eq_type r)) = Some (equipment_type_value x))) (t_products (wdb w)))) w"
  by (rule facet_listing [OF inv cat ty, of _ _ "(no_facets [])\<lparr>f_category_id := Some c, f_equipment_type := [equipment_type_value x]\<rparr>"])
    (auto simp: facet_filter_simps facet_match_simps counted_def bindable_def opt_fits_def split: option.splits)

lemma accessory_listing:
  assumes inv: "catalog_inv (wdb w)" and cat: "lookup (t_categories (wdb w)) c = Some category"
    and ty: "type_named (wdb w) (pc_product_type_id category) = Some TyACCESSORIES"
  shows "answers_count (list_products_endpoint db_lower (ret user) (facet_query c ''accessory_type'' (accessory_type_value x)) sorting limit offset) limit offset
      (length (filter (counted (wdb w) c t_accessories
      (\<lambda>r. Some (accessory_type_value (ac_type r)) = Some (accessory_type_value x))) (t_products (wdb w)))) w"
  by (rule facet_listing [OF inv cat ty, of _ _ "(no_facets [])\<lparr>f_category_id := Some c, f_accessory_type := [accessory_type_value x]\<rparr>"])
    (auto simp: facet_filter_simps facet_match_simps counted_def bindable_def opt_fits_def split: option.splits)

lemma consumable_listing:
  assumes inv: "catalog_inv (wdb w)" and cat: "lookup (t_categories (wdb w)) c = Some category"
    and ty: "type_named (wdb w) (pc_product_type_id category) = Some TyCONSUMABLES"
  shows "answers_count (list_products_endpoint db_lower (ret user) (facet_query c ''consumable_type'' (consumable_type_value x)) sorting limit offset) limit offset
      (length (filter (counted (wdb w) c t_consumables
      (\<lambda>r. Some (consumable_type_value (co_type r)) = Some (consumable_type_value x))) (t_products (wdb w)))) w"
  by (rule facet_listing [OF inv cat ty, of _ _ "(no_facets [])\<lparr>f_category_id := Some c, f_consumable_type := [consumable_type_value x]\<rparr>"])
    (auto simp: facet_filter_simps facet_match_simps counted_def bindable_def opt_fits_def split: option.splits)

lemma enum_option_counted:
  assumes "opt \<in> set (fc_options (enum_facet collate key label kind table column c d))" and "catalog_inv d"
    and "distinct (row_ids (table d))"
  shows "fo_count opt = length (filter (counted d c table (\<lambda>r. column r = Some (fo_value opt))) (t_products d))"
    and "\<exists>r. column r = Some (fo_value opt)"
  using enum_option [OF assms(1) catalog_invD(3) [OF assms(2)] assms(3)] enum_option_value(2) [OF assms(1)]
  unfolding counted_def [abs_def] by blast+

definition single_choice_facets :: "string list" where
  "single_choice_facets = [''acidity'', ''roast_level'', ''processing'', ''equipment_type'', ''accessory_type'', ''consumable_type'']"

lemma facet_cases:
  assumes "facet \<in> set (facets_for collate n c d)" and "fc_key facet \<in> set single_choice_facets"
  obtains "n = TyCOFFEE" "facet = acidity_facet c d"
  | "n = TyCOFFEE" "facet = enum_facet collate ''roast_level'' ''Roast level'' ''enum'' t_coffee
        (\<lambda>r. Some (roast_level_value (cf_roast_level r))) c d"
  | "n = TyCOFFEE" "facet = enum_facet collate ''processing'' ''Processing'' ''enum'' t_coffee
        (\<lambda>r. Some (processing_value (cf_processing r))) c d"
  | "n = TyEQUIPMENT" "facet = enum_facet collate ''equipment_type'' ''Equipment type'' ''multi'' t_equipment
        (\<lambda>r. Some (equipment_type_value (eq_type r))) c d"
  | "n = TyACCESSORIES" "facet = enum_facet collate ''accessory_type'' ''Accessory type'' ''multi'' t_accessories
        (\<lambda>r. Some (accessory_type_value (ac_type r))) c d"
  | "n = TyCONSUMABLES" "facet = enum_facet collate ''consumable_type'' ''Consumable type'' ''multi'' t_consumables
        (\<lambda>r. Some (consumable_type_value (co_type r))) c d"
proof -
  have keys: "fc_key (enum_facet collate k l kd table column c d) = k" "fc_key (bounds_facet k l bs) = k"
    "fc_key (flavor_facet c d) = ''flavor_notes''" "fc_key (acidity_facet c d) = ''acidity''" for k l kd bs and table :: "database \<Rightarrow> 'x row_scheme list" and column
    by (simp_all add: enum_facet_def bounds_facet_def flavor_facet_def acidity_facet_def Let_def)
  show thesis
  proof (cases n)
    case TyCOFFEE
    with assms that(1-3) show ?thesis
      by (auto simp: facets_for_def coffee_facets_def single_choice_facets_def range_facet_def keys
          enum_facet_def [of collate "''region''"])
  next
    case TyEQUIPMENT
    with assms that(4) show ?thesis
      by (auto simp: facets_for_def equipment_facets_def single_choice_facets_def range_facet_def keys
          enum_facet_def [of collate "''material''"])
  next
    case TyACCESSORIES
    with assms that(5) show ?thesis
      by (auto simp: facets_for_def accessory_facets_def single_choice_facets_def enum_facet_def [of collate "''material''"])
  next
    case TyCONSUMABLES
    with assms that(6) show ?thesis
      by (auto simp: facets_for_def consumable_facets_def single_choice_facets_def range_facet_def keys
          enum_facet_def [of collate "''material''"])
  qed
qed

end
