(* ===== verification/FlavorFacet.thy ===== *)
theory FlavorFacet
  imports Facets "HOL-Library.Multiset"
begin

text \<open>
  The loops of \<open>_flavor_facet\<close>, which fill two dictionaries while they walk over the coffees,
  against a declarative reference: how often each key occurs, and the label that its first
  occurrence carries.
\<close>

section \<open>The reference\<close>

fun labelled :: "string list \<Rightarrow> nat \<Rightarrow> string list \<Rightarrow> (string \<times> string) list" where
  "labelled labels_en i [] = []"
| "labelled labels_en i (key # keys) =
     (key, if i < length labels_en then labels_en ! i else label_of key) # labelled labels_en (Suc i) keys"

definition flavor_pairs :: "uuid \<Rightarrow> database \<Rightarrow> (string \<times> string) list" where
  "flavor_pairs c d = concat (map (\<lambda>notes. labelled (notes_get notes ''en'') 0 (notes_get notes ''keys'')) (coffee_flavor_notes c d))"

definition flavor_options :: "uuid \<Rightarrow> database \<Rightarrow> FacetOptionDTO list" where
  "flavor_options c d =
     (let pairs = flavor_pairs c d; keys = map fst pairs
      in map (\<lambda>k. \<lparr>fo_value = k, fo_label = the (map_of pairs k), fo_count = count_list keys k\<rparr>)
           (sort_key (\<lambda>k. (- int (count_list keys k), k)) (remdups keys)))"

section \<open>The loops\<close>

definition tally_pair :: "string \<times> string \<Rightarrow> flavor_tally \<Rightarrow> flavor_tally" where
  "tally_pair kl t =
     (AList.update (fst kl) ((case map_of (fst t) (fst kl) of None \<Rightarrow> 0 | Some n \<Rightarrow> n) + 1) (fst t),
      (case map_of (snd t) (fst kl) of Some _ \<Rightarrow> snd t | None \<Rightarrow> AList.update (fst kl) (snd kl) (snd t)))"

lemma tally_keys_fold: "tally_keys labels_en i keys t = fold tally_pair (labelled labels_en i keys) t"
  by (induction keys arbitrary: i t) (auto simp: tally_key_def tally_pair_def Let_def split: option.split)

lemma tally_notes_fold:
  "fold tally_notes ns t =
   fold tally_pair (concat (map (\<lambda>n. labelled (notes_get n ''en'') 0 (notes_get n ''keys'')) ns)) t"
  by (induction ns arbitrary: t) (simp_all add: tally_notes_def tally_keys_fold)

definition add_counts :: "(string \<Rightarrow> nat option) \<Rightarrow> string list \<Rightarrow> string \<Rightarrow> nat option" where
  "add_counts m keys k =
     (case m k of None \<Rightarrow> if k \<in> set keys then Some (count_list keys k) else None | Some n \<Rightarrow> Some (n + count_list keys k))"

lemma add_counts_Cons:
  "add_counts (m(k \<mapsto> (case m k of None \<Rightarrow> 0 | Some n \<Rightarrow> n) + 1)) keys = add_counts m (k # keys)"
  by (rule ext) (auto simp: add_counts_def count_notin split: option.splits)

lemma tally_counts:
  assumes "distinct (map fst (fst t))"
  shows "map_of (fst (fold tally_pair ps t)) = add_counts (map_of (fst t)) (map fst ps) \<and>
    distinct (map fst (fst (fold tally_pair ps t)))"
  using assms
proof (induction ps arbitrary: t)
  case Nil
  have "map_of (fst t) = add_counts (map_of (fst t)) []" by (rule ext) (simp add: add_counts_def split: option.splits)
  with Nil show ?case by simp
next
  case (Cons p ps)
  have dist: "distinct (map fst (fst (tally_pair p t)))"
    unfolding tally_pair_def fst_conv by (rule distinct_update) (rule Cons.prems)
  moreover have step: "map_of (fst (tally_pair p t)) =
      (map_of (fst t))(fst p \<mapsto> (case map_of (fst t) (fst p) of None \<Rightarrow> 0 | Some n \<Rightarrow> n) + 1)"
    by (simp add: tally_pair_def update_conv')
  moreover have "add_counts (map_of (fst (tally_pair p t))) (map fst ps) = add_counts (map_of (fst t)) (map fst (p # ps))"
    unfolding step add_counts_Cons by simp
  ultimately show ?case using Cons.IH [OF dist] by (simp only: fold.simps o_apply simp_thms)
qed

lemma tally_labels:
  "map_of (snd (fold tally_pair ps t)) = map_of ps ++ map_of (snd t)"
proof (induction ps arbitrary: t)
  case (Cons p ps)
  have "map_of (snd (tally_pair p t)) = [fst p \<mapsto> snd p] ++ map_of (snd t)"
    by (auto simp: tally_pair_def update_conv' map_add_def fun_eq_iff split: option.splits)
  then have "map_of (snd (fold tally_pair (p # ps) t)) = map_of ps ++ ([fst p \<mapsto> snd p] ++ map_of (snd t))"
    by (simp add: Cons.IH)
  also have "\<dots> = map_of (p # ps) ++ map_of (snd t)" by (simp add: map_add_assoc [symmetric])
  finally show ?case .
qed simp

text \<open>Equal sets of keys sort to equal lists, since the key itself decides ties.\<close>

lemma sort_same:
  fixes f :: "string \<Rightarrow> int"
  assumes "distinct xs" and "distinct ys" and "set xs = set ys" and "\<And>k. k \<in> set xs \<Longrightarrow> f k = g k"
  shows "sort_key (\<lambda>k. (f k, k)) xs = sort_key (\<lambda>k. (g k, k)) ys"
proof (rule sort_key_inj_key_eq)
  have "mset ys = mset xs" using assms(1-3) by (metis mset_set_set)
  then show "mset xs = mset (sort_key (\<lambda>k. (g k, k)) ys)" by simp
  show "inj_on (\<lambda>k. (f k, k)) (set xs)" by (rule inj_onI) simp
  have "map (\<lambda>k. (f k, k)) (sort_key (\<lambda>k. (g k, k)) ys) = map (\<lambda>k. (g k, k)) (sort_key (\<lambda>k. (g k, k)) ys)"
    using assms(3,4) by (intro map_cong refl) simp
  then show "sorted (map (\<lambda>k. (f k, k)) (sort_key (\<lambda>k. (g k, k)) ys))" by (simp only: sorted_sort_key)
qed

text \<open>
  C39: the flavor facet offers each key of the category's active coffees once, with the number
  of its occurrences and the English label of its first one (or a label made from the key),
  the most frequent first and ties in the order of the keys.
\<close>

theorem flavor_facet_is_the_tally:
  "fc_options (flavor_facet c d) = flavor_options c d \<and> fc_key (flavor_facet c d) = ''flavor_notes''"
proof -
  let ?ps = "flavor_pairs c d"
  let ?t = "fold tally_notes (coffee_flavor_notes c d) ([], [])"
  let ?keys = "map fst ?ps"
  have t: "?t = fold tally_pair ?ps ([], [])" by (simp add: tally_notes_fold flavor_pairs_def)
  have counts: "map_of (fst ?t) = add_counts (map_of []) ?keys" "distinct (map fst (fst ?t))"
    using tally_counts [of "([], [])" ?ps] by (simp_all add: t)
  have labels: "map_of (snd ?t) = map_of ?ps" using tally_labels [of ?ps "([], [])"] by (simp add: t)
  have count: "the (map_of (fst ?t) k) = count_list ?keys k" if "k \<in> set ?keys" for k
    using that by (simp add: counts(1) add_counts_def)
  have dom: "set (map fst (fst ?t)) = set ?keys"
  proof -
    have "set (map fst (fst ?t)) = dom (map_of (fst ?t))" by (simp add: dom_map_of_conv_image_fst)
    also have "\<dots> = set ?keys" by (simp add: counts(1) add_counts_def dom_def)
    finally show ?thesis .
  qed
  have "sort_key (\<lambda>k. (- int (the (map_of (fst ?t) k)), k)) (map fst (fst ?t)) =
      sort_key (\<lambda>k. (- int (count_list ?keys k), k)) (remdups ?keys)"
    using counts(2) dom count by (intro sort_same) auto
  then show ?thesis
    using count labels by (simp add: flavor_facet_def flavor_options_def Let_def dom)
qed

end
