(* ===== verification/CatalogProperties.thy ===== *)
theory CatalogProperties
  imports CatalogReads CatalogWrites FlavorFacet Sample
begin

text \<open>
  The properties of the catalog as a whole: facets agree with the listings they lead to, reads
  never fail on a consistent catalog, the administration keeps it consistent, and what it writes
  is what the reads then show.
\<close>

section \<open>Facets and listings\<close>

lemma enum_facet_listing:
  assumes "catalog_inv (wdb w)" and "facet = enum_facet collate key label kind table column c (wdb w)"
    and "opt \<in> set (fc_options facet)" and "distinct (row_ids (table (wdb w)))"
    and listing: "\<And>r v. column r = Some v \<Longrightarrow>
      answers_count (list_products_endpoint db_lower (ret user) (facet_query c key v) sorting limit offset) limit offset
        (length (filter (counted (wdb w) c table (\<lambda>r. column r = Some v)) (t_products (wdb w)))) w"
  shows "answers_count (list_products_endpoint db_lower (ret user) (facet_query c (fc_key facet) (fo_value opt)) sorting limit offset)
    limit offset (fo_count opt) w"
proof -
  have "fc_key facet = key" by (simp add: assms(2) enum_facet_def)
  moreover from enum_option_counted(2) [OF assms(3) [unfolded assms(2)] assms(1,4)] obtain r where
    "column r = Some (fo_value opt)" by blast
  from listing [OF this] have "answers_count (list_products_endpoint db_lower (ret user) (facet_query c key (fo_value opt))
      sorting limit offset) limit offset (fo_count opt) w"
    unfolding enum_option_counted(1) [OF assms(3) [unfolded assms(2)] assms(1,4)] .
  ultimately show ?thesis by simp
qed

lemma facet_count_answered:
  assumes inv: "catalog_inv (wdb w)" and facets: "get_facets collate c w = (Inr res, w')"
    and facet: "facet \<in> set (cfd_facets res)" "fc_key facet \<in> set single_choice_facets"
    and opt: "opt \<in> set (fc_options facet)"
  shows "answers_count (list_products_endpoint db_lower (ret user) (facet_query c (fc_key facet) (fo_value opt)) sorting limit offset)
    limit offset (fo_count opt) w"
proof -
  from facets obtain category n where cat: "lookup (t_categories (wdb w)) c = Some category"
    and ty: "type_named (wdb w) (pc_product_type_id category) = Some n"
    and res: "cfd_facets res = facets_for collate n c (wdb w)"
    by (rule get_facets_InrE)
  have ids: "distinct (row_ids (t_coffee (wdb w)))" "distinct (row_ids (t_equipment (wdb w)))"
    "distinct (row_ids (t_accessories (wdb w)))" "distinct (row_ids (t_consumables (wdb w)))"
    using catalog_invD(8) [OF inv] by (simp_all add: attributes_legal_def)
  note enum = enum_facet_listing [OF inv _ opt]
  from facet res have "facet \<in> set (facets_for collate n c (wdb w))" by simp
  then show ?thesis using facet(2)
  proof (cases rule: facet_cases)
    case 1
    from acidity_option [OF opt [unfolded 1(2)] catalog_invD(3) [OF inv] catalog_invD(8) [OF inv]] obtain b where
      b: "fo_value opt = acidity_bucket_value b" "fo_count opt = length (filter (counted (wdb w) c t_coffee
        (\<lambda>r. fst (acidity_range b) \<le> cf_acidity r \<and> cf_acidity r \<le> snd (acidity_range b))) (t_products (wdb w)))"
      unfolding counted_def [abs_def] by blast
    from acidity_listing [OF inv cat, where b = b] ty 1 b show ?thesis by (simp add: acidity_facet_def Let_def)
  next
    case 2
    show ?thesis by (rule enum [OF 2(2) ids(1)]) (use roast_listing [OF inv cat ty [unfolded 2(1)]] in auto)
  next
    case 3
    show ?thesis by (rule enum [OF 3(2) ids(1)]) (use processing_listing [OF inv cat ty [unfolded 3(1)]] in auto)
  next
    case 4
    show ?thesis by (rule enum [OF 4(2) ids(2)]) (use equipment_listing [OF inv cat ty [unfolded 4(1)]] in auto)
  next
    case 5
    show ?thesis by (rule enum [OF 5(2) ids(3)]) (use accessory_listing [OF inv cat ty [unfolded 5(1)]] in auto)
  next
    case 6
    show ?thesis by (rule enum [OF 6(2) ids(4)]) (use consumable_listing [OF inv cat ty [unfolded 6(1)]] in auto)
  qed
qed

text \<open>
  C31: the count shown for an option of a category's acidity, roast level, processing or type
  facet is the number of products that the listing of the category finds with that option as
  its only filter, whoever asks and whatever page is requested; a page beyond the 64 bits of an
  OFFSET fails.
\<close>

theorem facet_counts_match_listing:
  assumes inv: "catalog_inv (wdb w)" and facets: "get_facets collate c w = (Inr res, w')"
    and facet: "facet \<in> set (cfd_facets res)" "fc_key facet \<in> set single_choice_facets"
    and opt: "opt \<in> set (fc_options facet)"
  shows "if limit < 2 ^ 63 \<and> offset < 2 ^ 63
    then \<exists>page. list_products_endpoint db_lower (ret user) (facet_query c (fc_key facet) (fo_value opt)) sorting limit offset w =
      (Inr page, w) \<and> plist_total page = fo_count opt
    else list_products_endpoint db_lower (ret user) (facet_query c (fc_key facet) (fo_value opt)) sorting limit offset w =
      (Inl DataError, w)"
  using facet_count_answered [OF assms] unfolding answers_count_def page_bindable_def .

section \<open>Filter values are lowercased\<close>

lemma split_on_part: "c \<in> set s \<Longrightarrow> c \<noteq> x \<Longrightarrow> \<exists>p \<in> set (split_on x s). c \<in> set p"
  by (induction s) (auto split: list.splits)

lemma strip_keeps: "c \<in> set s \<Longrightarrow> \<not> py_space c \<Longrightarrow> strip s \<noteq> []"
  by (auto simp: strip_of_def dropWhile_eq_Nil_conv) (metis in_set_conv_decomp dropWhile_append3 set_dropWhileD)

lemma split_csv_lower: "v \<in> set (split_csv raw) \<Longrightarrow> py_lower v = v"
  by (auto simp: split_csv_def py_lower_def lower_lower o_def split: option.splits if_splits)

lemma capital_present: "py_lower v \<noteq> v \<Longrightarrow> \<exists>c \<in> set v. is_upper c"
proof (rule ccontr)
  assume "py_lower v \<noteq> v" and "\<not> (\<exists>c \<in> set v. is_upper c)"
  then show False by (simp add: py_lower_def lower_char_def map_idI)
qed

lemma dict_keys_empty: "dict_keys xs = [] \<longleftrightarrow> xs = []"
  using set_dict_keys [of xs] by (metis set_empty)

lemma facet_keys:
  "fc_key (enum_facet collate k l kd table column c d) = k" "fc_key (bounds_facet k l bs) = k"
  "fc_key (flavor_facet c d) = ''flavor_notes''" "fc_key (acidity_facet c d) = ''acidity''"
  by (simp_all add: enum_facet_def bounds_facet_def flavor_facet_def acidity_facet_def Let_def)

lemma region_facet:
  assumes "facet \<in> set (facets_for collate n c d)" and "fc_key facet = ''region''"
  shows "facet = enum_facet collate ''region'' ''Region'' ''multi'' t_coffee (\<lambda>r. Some (cf_region r)) c d"
  using assms
  by (cases n) (auto simp: facets_for_def coffee_facets_def equipment_facets_def accessory_facets_def consumable_facets_def
      range_facet_def facet_keys)

lemma capital_split: "py_lower v \<noteq> v \<Longrightarrow> split_csv (Some v) \<noteq> []"
proof -
  assume "py_lower v \<noteq> v"
  then obtain c where c: "c \<in> set v" "is_upper c" by (auto dest: capital_present)
  then have "\<not> py_space c" "c \<noteq> CHR '',''" by (auto simp: is_upper_def py_space_def Let_def)
  with split_on_part [OF c(1), of "CHR '',''"] strip_keeps obtain p where "p \<in> set (split_on CHR '','' v)" "strip p \<noteq> []" by blast
  moreover have "v \<noteq> []" using c(1) by auto
  ultimately show ?thesis by (auto simp: split_csv_def dict_keys_empty filter_empty_conv)
qed

lemma listed_products:
  assumes "list_products db_lower f sorting limit offset u w = (Inr page, w')" and "i \<in> set (map dto_id (plist_items page))"
  obtains p ty where "p \<in> set (t_products (wdb w))" and "row_id p = i" and "apply_filters db_lower (wdb w) f ty p"
proof -
  from assms(1) obtain ty v where v: "resolve_scope_type f w = (Inr ty, v)"
    and rest: "product_list (repo_list_products db_lower f sorting limit offset ty (wdb v)) limit offset u v = (Inr page, w')"
    unfolding list_products_def by (elim bind_InrE) (auto simp: svc_simps bind_require split: sum.splits if_splits)
  have "v = w" using v by (auto simp: resolve_scope_type_def fetch_run bind_fetch split: option.splits)
  with rest have "map dto_id (plist_items page) =
      map (\<lambda>r. row_id (fst r)) (fst (repo_list_products db_lower f sorting limit offset ty (wdb w)))"
    by (auto dest: product_list_run)
  with assms(2) obtain p where "p \<in> set (paginate limit offset (order_by sorting
      (filter (apply_filters db_lower (wdb w) f ty) (t_products (wdb w)))))" "row_id p = i"
    by (auto simp: repo_list_products_def Let_def rows_ids)
  then show thesis
    using set_paginate [of limit offset "order_by sorting (filter (apply_filters db_lower (wdb w) f ty) (t_products (wdb w)))"]
    by (intro that) auto
qed

text \<open>
  The terms of a filter are lowercased, the region of a coffee is stored and offered as a
  facet option as it was entered. An option with a capital letter therefore never leads to the
  products it counts: the listing with it as the filter shows none of them.
\<close>

theorem capital_region_option_finds_nothing:
  assumes facets: "get_facets collate c w = (Inr res, w1)" and "facet \<in> set (cfd_facets res)" "fc_key facet = ''region''"
    and opt: "opt \<in> set (fc_options facet)" and capital: "py_lower (fo_value opt) \<noteq> fo_value opt"
    and run: "list_products_endpoint db_lower (ret user) (facet_query c ''region'' (fo_value opt)) sorting limit offset w = (Inr page, w')"
  shows "(\<exists>r \<in> set (attribute_rows t_coffee c (wdb w)). cf_region r = fo_value opt) \<and>
    (\<forall>i \<in> set (map dto_id (plist_items page)). \<forall>r. lookup (t_coffee (wdb w)) i = Some r \<longrightarrow> cf_region r \<noteq> fo_value opt)"
proof (intro conjI ballI allI impI)
  from facets obtain n where "cfd_facets res = facets_for collate n c (wdb w)" by (rule get_facets_InrE)
  with assms(2,3) have "facet = enum_facet collate ''region'' ''Region'' ''multi'' t_coffee (\<lambda>r. Some (cf_region r)) c (wdb w)"
    by (intro region_facet) simp_all
  with opt show "\<exists>r \<in> set (attribute_rows t_coffee c (wdb w)). cf_region r = fo_value opt"
    by (auto dest!: enum_option_value(2))
next
  fix i r
  assume i: "i \<in> set (map dto_id (plist_items page))" and r: "lookup (t_coffee (wdb w)) i = Some r"
  let ?f = "(no_facets [])\<lparr>f_category_id := Some c, f_region := split_csv (Some (fo_value opt))\<rparr>"
  have "build_product_filters (facet_query c ''region'' (fo_value opt)) = Inr ?f"
    by (simp add: build_product_filters_def facet_query_def no_facets_def Let_def)
  with run have "list_products db_lower ?f sorting limit offset (map_option row_id user) w = (Inr page, w')"
    by (simp add: list_products_endpoint_def unit_of_work_Inr bind_of_sum)
  from listed_products [OF this i] obtain p ty where "row_id p = i" "apply_filters db_lower (wdb w) ?f ty p" by blast
  then have "apply_coffee_filters (wdb w) ?f p" "row_id p = i" by (simp_all add: apply_filters_def)
  moreover have "has_coffee_filter ?f" using capital_split [OF capital] by (simp add: has_coffee_filter_def no_facets_def)
  ultimately have "cf_region r \<in> set (split_csv (Some (fo_value opt)))"
    using r capital_split [OF capital] by (simp add: apply_coffee_filters_def coffee_matches_def one_of_def)
  from split_csv_lower [OF this] capital show "cf_region r \<noteq> fo_value opt" by auto
qed

end
