(* ===== verification/CatalogWitnesses.thy ===== *)
theory CatalogWitnesses
  imports CatalogDeletion CatalogProperties
begin

text \<open>
  The properties of the catalog at concrete inputs: the sample shop with its product type, its
  category and the coffee attributes of its two products.
\<close>

definition sample_type :: product_type where
  "sample_type = \<lparr>row_id = 20, created_at = 1000, updated_at = 1000, pt_name = ''coffee'', pt_description = None,
     pt_is_active = True\<rparr>"

definition sample_category :: product_category where
  "sample_category = \<lparr>row_id = 21, created_at = 1000, updated_at = 1000, pc_name = ''Coffee'', pc_description = None,
     pc_product_type_id = 20, pc_is_active = True\<rparr>"

definition sample_coffee :: "uuid \<Rightarrow> product_coffee" where
  "sample_coffee i = \<lparr>row_id = i, created_at = 1000, updated_at = 1000, cf_region = ''Ethiopia'', cf_roast_level = RoastLIGHT,
     cf_acidity = 4, cf_body = 2, cf_sweetness = 3, cf_processing = WASHED, cf_altitude = Some 1900,
     cf_flavor_notes = Some [(''en'', [''Plum''])]\<rparr>"

definition catalog_db :: database where
  "catalog_db = sample_db\<lparr>t_product_types := [sample_type], t_categories := [sample_category],
     t_coffee := [sample_coffee 10, sample_coffee 11]\<rparr>"

definition catalog_world :: world where
  "catalog_world = sample_world\<lparr>wdb := catalog_db\<rparr>"

lemma catalog_tables [simp]:
  "t_products catalog_db = [sample_product 10 True, sample_product 11 False]" "t_product_types catalog_db = [sample_type]"
  "t_categories catalog_db = [sample_category]" "t_coffee catalog_db = [sample_coffee 10, sample_coffee 11]"
  "t_equipment catalog_db = []" "t_accessories catalog_db = []" "t_consumables catalog_db = []" "t_ratings catalog_db = []"
  "t_product_ratings catalog_db = []" "t_sub_products catalog_db = []" "t_compatibility catalog_db = []"
  "t_order_products catalog_db = [sample_line 50 40, sample_line 51 41]" "wdb catalog_world = catalog_db"
  by (simp_all add: catalog_db_def catalog_world_def sample_db_def empty_db_def)

lemma catalog_rows [simp]:
  "row_id (sample_product i a) = i" "row_id sample_type = 20" "row_id sample_category = 21" "row_id (sample_coffee i) = i"
  "p_type_id (sample_product i a) = 20" "p_category_id (sample_product i a) = 21" "p_is_active (sample_product i a) = a"
  "p_name (sample_product i a) = ''Beans''" "pc_product_type_id sample_category = 20" "pt_name sample_type = ''coffee''"
  "op_product_id (sample_line l k) = 10" "cf_region (sample_coffee i) = ''Ethiopia''"
  by (simp_all add: sample_product_def sample_type_def sample_category_def sample_coffee_def sample_line_def)

lemma coffee_type: "product_type_of ''coffee'' = Some TyCOFFEE"
  by code_simp

lemma catalog_sample_inv: "catalog_inv catalog_db"
proof -
  have rows: "fits_product_category sample_category" "fits_product (sample_product i a)" "check_product (sample_product i a)"
    "fits_coffee (sample_coffee i)" "check_coffee (sample_coffee i)" for i a
    by (simp_all add: fits_product_category_def fits_product_def check_product_def fits_coffee_def check_coffee_def
        sample_defs sample_category_def sample_coffee_def column_defs int2_def int4_def)
  have "well_typed catalog_db (sample_product i a)" if "i = 10 \<or> i = 11" for i a
    using that by (auto simp: well_typed_def type_named_def coffee_type has_attributes_def split: product_type_name.split)
  with rows show ?thesis
    by (simp add: catalog_inv_def attributes_legal_def ok_category_def ok_product_def ok_coffee_def unique_by_def coffee_type)
qed

lemma lower_special:
  assumes "special x"
  shows "lower_char c = x \<longleftrightarrow> c = x"
proof (cases "is_upper c")
  case True
  then have "(of_char c :: nat) + 32 < 256" "97 \<le> (of_char c :: nat) + 32" "\<not> special c"
    by (auto simp: is_upper_def special_def Let_def)
  then have "(of_char (lower_char c) :: nat) = of_char c + 32" using True by (simp add: lower_char_def)
  moreover have "(of_char x :: nat) < 97" using assms by (auto simp: special_def)
  ultimately show ?thesis using True assms \<open>\<not> special c\<close> \<open>97 \<le> of_char c + 32\<close> by auto
qed (simp add: lower_char_def)

lemma search_finds_substring_witness:
  "\<exists>res. search_products (map lower_char) id ''EaN'' 20 0 None catalog_world = (Inr res, catalog_world) \<and>
     map dto_id (plist_items res) = [10]"
proof -
  obtain res where run: "search_products (map lower_char) id ''EaN'' 20 0 None catalog_world = (Inr res, catalog_world)"
    using search_total [of catalog_world "''EaN''" 20 0 "map lower_char" id None] catalog_sample_inv
    by (auto simp: no_nul_def page_bindable_def)
  have names: "map lower_char ''EaN'' = ''ean''" "map lower_char ''Beans'' = ''beans''" "sublist ''ean'' ''beans''"
    by code_simp+
  from search_finds_substring [OF refl lower_special run refl] run names show ?thesis by simp
qed

lemma catalog_facets_run:
  "\<exists>res. get_facets id 21 catalog_world = (Inr res, catalog_world) \<and> cfd_facets res = coffee_facets id 21 catalog_db"
  by (simp add: get_facets_def svc_simps coffee_type facets_for_def)

lemma catalog_coffee_rows: "attribute_rows t_coffee 21 catalog_db = [sample_coffee 10]"
  by (simp add: attribute_rows_def in_category_def)

lemma facet_counts_match_listing_witness:
  "\<exists>res page. get_facets id 21 catalog_world = (Inr res, catalog_world) \<and>
     list_products_endpoint (map lower_char) (ret None) (facet_query 21 ''roast_level'' ''light'') NEWEST 20 0 catalog_world =
       (Inr page, catalog_world) \<and> plist_total page = 1"
proof -
  obtain res where run: "get_facets id 21 catalog_world = (Inr res, catalog_world)"
    and facets: "cfd_facets res = coffee_facets id 21 catalog_db" using catalog_facets_run by blast
  let ?facet = "enum_facet id ''roast_level'' ''Roast level'' ''enum'' t_coffee
    (\<lambda>r. Some (roast_level_value (cf_roast_level r))) 21 catalog_db"
  let ?opt = "\<lparr>fo_value = ''light'', fo_label = label_of ''light'', fo_count = 1\<rparr>"
  have facet: "?facet \<in> set (cfd_facets res)" unfolding facets coffee_facets_def by simp
  have key: "fc_key ?facet \<in> set single_choice_facets" by (simp add: enum_facet_def single_choice_facets_def)
  have opt: "?opt \<in> set (fc_options ?facet)"
    by (simp add: enum_facet_def enum_counts_def catalog_coffee_rows group_counts_def sample_coffee_def)
  from facet_counts_match_listing [OF _ run facet key opt, where db_lower = "map lower_char" and user = None
      and sorting = NEWEST and limit = 20 and offset = 0] catalog_sample_inv run
  show ?thesis by (auto simp: enum_facet_def page_bindable_def)
qed

lemma capital_region_option_finds_nothing_witness:
  "\<exists>res page. get_facets id 21 catalog_world = (Inr res, catalog_world) \<and>
     list_products_endpoint (map lower_char) (ret None) (facet_query 21 ''region'' ''Ethiopia'') NEWEST 20 0 catalog_world =
       (Inr page, catalog_world) \<and> (\<exists>r \<in> set (attribute_rows t_coffee 21 catalog_db). cf_region r = ''Ethiopia'') \<and>
     10 \<notin> set (map dto_id (plist_items page))"
proof -
  obtain res where run: "get_facets id 21 catalog_world = (Inr res, catalog_world)"
    and facets: "cfd_facets res = coffee_facets id 21 catalog_db" using catalog_facets_run by blast
  let ?facet = "enum_facet id ''region'' ''Region'' ''multi'' t_coffee (\<lambda>r. Some (cf_region r)) 21 catalog_db"
  let ?opt = "\<lparr>fo_value = ''Ethiopia'', fo_label = label_of ''Ethiopia'', fo_count = 1\<rparr>"
  have facet: "?facet \<in> set (cfd_facets res)" unfolding facets coffee_facets_def by simp
  have key: "fc_key ?facet = ''region''" by (simp add: enum_facet_def)
  have opt: "?opt \<in> set (fc_options ?facet)"
    by (simp add: enum_facet_def enum_counts_def catalog_coffee_rows group_counts_def)
  have capital: "py_lower (fo_value ?opt) \<noteq> fo_value ?opt" by code_simp
  have plain: "list_all no_nul (split_csv (Some ''Ethiopia''))" by code_simp
  obtain f where "build_product_filters (facet_query 21 ''region'' ''Ethiopia'') = Inr f"
    and "validate_type_facets f (Some TyCOFFEE) = Inr ()" and "f_category_id f = Some 21"
    and "bindable f"
    by (simp add: facet_filter_simps bindable_def opt_fits_def plain)
  then obtain page where listed: "list_products_endpoint (map lower_char) (ret None) (facet_query 21 ''region'' ''Ethiopia'')
      NEWEST 20 0 catalog_world = (Inr page, catalog_world)"
    using listing_count [of catalog_world 21 sample_category f "facet_query 21 ''region'' ''Ethiopia''" "map lower_char" None NEWEST 20 0]
      catalog_sample_inv by (auto simp: type_named_def coffee_type answers_count_def page_bindable_def)
  from capital_region_option_finds_nothing [OF run facet key opt capital, of "map lower_char" None NEWEST 20 0]
  show ?thesis using run listed by fastforce
qed

lemma catalog_reads_answer_witness:
  "list_products (map lower_char) ((no_facets [])\<lparr>f_altitude_min := Some 3000000000\<rparr>) NEWEST 20 0 None catalog_world =
     (Inl DataError, catalog_world) \<and>
   (\<exists>dto. get_product 10 None catalog_world = (Inr dto, catalog_world) \<and> typed_response dto \<and> dto_id dto = 10) \<and>
   (\<exists>res. list_categories id catalog_world = (Inr res, catalog_world))"
  using catalog_reads_answer [where w = catalog_world and i = 10 and u = None and collate = id] catalog_sample_inv
  by (simp add: list_products_def resolve_scope_type_def validate_type_facets_def no_facets_def has_equipment_filter_def
      has_accessory_filter_def has_consumable_filter_def has_material_filter_def bind_of_sum bind_require bindable_def opt_fits_def int4_def)

definition sample_attributes :: CoffeeAttributesIn where
  "sample_attributes = \<lparr>ci_region = ''Peru'', ci_roast_level = RoastDARK, ci_processing = HONEY, ci_acidity = 2, ci_body = 4,
     ci_sweetness = 5, ci_altitude = None, ci_flavor_notes = None\<rparr>"

definition sample_request :: "rat \<Rightarrow> ProductCreate" where
  "sample_request price = \<lparr>pw_product_name = ''Peru'', pw_description = None, pw_image_url = None, pw_category_id = 21,
     pw_price = price, pw_currency = ''EUR'', pw_coffee = Some sample_attributes, pw_equipment = None, pw_accessory = None,
     pw_consumable = None, pw_product_type = TyCOFFEE\<rparr>"

lemma sample_request_valid: "attributes_match_type (sample_request c)"
  by (simp add: attributes_match_type_def present_blocks_def sample_request_def)

lemma catalog_stays_typed_witness:
  "preserves catalog_inv (create_product (sample_request 10)) \<and> preserves catalog_inv (delete_product 10)"
  using catalog_stays_typed [OF sample_request_valid [of 10], where i = 10] by blast

lemma sample_prices: "hundredths 10 = 1000" "hundredths 20 = 2000"
  by code_simp+

definition catalog_created :: world where
  "catalog_created = catalog_world\<lparr>uuid_pos := 1, wdb := catalog_db\<lparr>
     t_products := t_products catalog_db @ [new_product (sample_request 10) 20 1000 (now catalog_world)],
     t_coffee := t_coffee catalog_db @ [coffee_row 1000 sample_attributes (now catalog_world)]\<rparr>\<rparr>"

definition catalog_added :: world where
  "catalog_added = catalog_world\<lparr>uuid_pos := 1, wdb := catalog_db\<lparr>
     t_products := t_products catalog_db @ [new_product (sample_request 10) 20 1000 (now catalog_world)]\<rparr>\<rparr>"

lemma sample_added:
  "add_product (new_product (sample_request 10) 20) catalog_world =
     (Inr (new_product (sample_request 10) 20 1000 (now catalog_world)), catalog_added)"
  by (simp add: db_add_def bind_def svc_simps uuid4_run db_insert_eq catalog_added_def catalog_world_def sample_world_def
      new_product_def sample_request_def sample_prices fits_product_def ok_product_def check_product_def column_defs)

lemma sample_request_columns [simp]:
  "pw_category_id (sample_request c) = 21" "pw_product_type (sample_request c) = TyCOFFEE"
  "attributes (sample_request c) = Inr (CoffeeBlock sample_attributes)" "row_id (new_product r ty i t) = i"
  "p_type_id (new_product r ty i t) = ty" "p_category_id (new_product r ty i t) = pw_category_id r"
  by (simp_all add: sample_request_def attributes_def new_product_def)

lemma get_product_found:
  assumes "lookup (t_products (wdb w)) i = Some p" and "lookup (t_product_types (wdb w)) (p_type_id p) = Some ty"
    and "lookup (t_categories (wdb w)) (p_category_id p) = Some c"
  obtains dto where "get_product i None w = (Inr dto, w)" and "dto_id dto = i"
proof -
  from assms obtain dto where dto: "to_detail_dto (wdb w) (p, aggregate_row (wdb w) i) = Inr dto"
    by (auto simp: to_detail_dto_def to_product_dto_def Let_def)
  have "get_product i None w = (Inr dto, w)"
    by (simp add: get_product_def repo_get_product_def bind_fetch assms(1) bind_def dto of_sum_def enrich_def svc_simps)
  then show thesis using that by (auto elim!: get_product_InrE)
qed

lemma fits_sample: "fits_coffee (coffee_row i sample_attributes t)" "check_coffee (coffee_row i sample_attributes t)"
  by (simp_all add: fits_coffee_def check_coffee_def coffee_row_def sample_attributes_def column_defs int2_def)

lemma sample_created:
  "\<exists>dto. create_product (sample_request 10) catalog_world = (Inr dto, catalog_created) \<and> dto_id dto = 1000"
proof -
  have coffee: "''coffee'' = product_type_value TyCOFFEE" by simp
  let ?p = "new_product (sample_request 10) 20 1000 (now catalog_world)"
  have rows: "add_subtype_row 1000 (CoffeeBlock sample_attributes) catalog_added = (Inr (), catalog_created)"
    using fits_sample by (simp add: add_subtype_row_def db_insert_eq ok_coffee_def catalog_created_def catalog_added_def)
  obtain dto where shown: "get_product 1000 None catalog_created = (Inr dto, catalog_created)" "dto_id dto = 1000"
    by (rule get_product_found [of catalog_created 1000 ?p sample_type sample_category]) (simp_all add: catalog_created_def)
  have "create_product (sample_request 10) catalog_world = (Inr dto, catalog_created)"
    by (simp add: create_product_def require_category_def resolve_product_type_def fetch_run bind_def of_sum_def svc_simps sample_added rows shown)
  with shown show ?thesis by blast
qed

definition sample_write :: ProductWrite where
  "sample_write = ProductWrite.truncate (sample_request 20)"

lemma sample_write_columns [simp]:
  "pw_category_id sample_write = 21" "attributes sample_write = Inr (CoffeeBlock sample_attributes)" "exactly_one_block sample_write"
  "pw_price sample_write = 20" "pw_product_name sample_write = ''Peru''" "pw_image_url sample_write = None"
  "pw_currency sample_write = ''EUR''"
  by (simp_all add: sample_write_def ProductWrite.defs sample_request_def attributes_def exactly_one_block_def present_blocks_def)

lemma sample_updated:
  "\<exists>dto w2. update_product 1000 sample_write catalog_created = (Inr dto, w2) \<and> dto_id dto = 1000"
proof -
  let ?t = "now catalog_created"
  let ?p = "new_product (sample_request 10) 20 1000 (now catalog_world)"
  define q where "q = rewritten_product sample_write ?t ?p"
  define w1 where "w1 = catalog_created\<lparr>wdb := t_products_update (replace_row (touch ?t ?p q)) (wdb catalog_created)\<rparr>"
  define w2 where "w2 = w1\<lparr>wdb := drop_attributes TyCOFFEE 1000 (wdb w1)\<rparr>"
  have found: "lookup (t_products (wdb catalog_created)) 1000 = Some ?p" "lookup (t_categories (wdb catalog_created)) 21 = Some sample_category"
    "lookup (t_product_types (wdb catalog_created)) 20 = Some sample_type" by (simp_all add: catalog_created_def)
  have q: "row_id q = 1000" "p_category_id q = 21" "p_type_id q = 20" "fits_product q" "check_product q"
    by (simp_all add: q_def fits_product_def check_product_def rewritten_values sample_prices column_defs)
  then have "ok_product (wdb catalog_created) q" by (simp add: ok_product_def catalog_created_def)
  then have save: "save_product q catalog_created = (Inr (), w1)"
    using q found(1) by (simp add: db_save_def bind_def svc_simps w1_def)
  have drop: "delete_subtype_row TyCOFFEE 1000 w1 = (Inr (), w2)" by (simp add: delete_subtype_run w2_def)
  obtain w3 where put: "add_subtype_row 1000 (CoffeeBlock sample_attributes) w2 = (Inr (), w3)"
    and w3: "t_products (wdb w3) = t_products (wdb w1)" "t_product_types (wdb w3) = [sample_type]" "t_categories (wdb w3) = [sample_category]"
    using q fits_sample
    by (simp add: add_subtype_row_def db_insert_eq ok_coffee_def w2_def w1_def drop_attributes_def catalog_created_def)
  have "lookup (t_products (wdb w3)) 1000 = Some (touch ?t ?p q)"
    using q found(1) by (simp add: w3 w1_def lookup_replace)
  moreover have "p_category_id (touch ?t ?p q) = p_category_id q" by (simp add: touch_def)
  ultimately obtain dto where shown: "get_product 1000 None w3 = (Inr dto, w3)" "dto_id dto = 1000"
    using w3 q by (rule_tac get_product_found [of w3 1000 "touch ?t ?p q" sample_type sample_category]) simp_all
  have "update_product 1000 sample_write catalog_created = (Inr dto, w3)"
    using found save [unfolded q_def] drop put shown
    by (simp add: update_product_def require_product_def require_category_def fetch_run bind_def of_sum_def svc_simps
        coffee_type block_type_def)
  with shown show ?thesis by blast
qed

lemma product_writes_are_shown_witness:
  "\<exists>dto w1 dto' w2. create_product (sample_request 10) catalog_world = (Inr dto, w1) \<and>
     update_product (dto_id dto) sample_write w1 = (Inr dto', w2) \<and> dto_price dto = 1000 \<and> dto_price dto' = 2000 \<and>
     fst (get_product 10 None w2) = fst (get_product 10 None catalog_world)"
proof -
  obtain dto where create: "create_product (sample_request 10) catalog_world = (Inr dto, catalog_created)" and i: "dto_id dto = 1000"
    using sample_created by blast
  obtain dto' w2 where update: "update_product (dto_id dto) sample_write catalog_created = (Inr dto', w2)"
    unfolding i using sample_updated by blast
  have prices: "pw_price (sample_request 10) = of_int 10" "pw_price sample_write = of_int 20"
    by (simp add: sample_request_def) simp
  have w: "catalog_inv (wdb catalog_world)" using catalog_sample_inv by simp
  note shown = product_writes_are_shown [OF w sample_request_valid sample_write_columns(3) create update]
  then have "nearest (of_int 10) (dto_price dto)" "nearest (of_int 20) (dto_price dto')"
    by (simp_all only: shows_request_def prices)
  then have "dto_price dto = 1000" "dto_price dto' = 2000" using nearest_whole by fastforce+
  moreover have "fst (get_product 10 None w2) = fst (get_product 10 None catalog_world)" using shown i by simp
  ultimately show ?thesis using create update by blast
qed

end
