(* ===== verification/AuthProperties.thy ===== *)
theory AuthProperties
  imports AuthInvariant Sample
begin

text \<open>
  The properties of accounts and of authentication: who an identity is anchored to, that an
  authenticated caller has a profile, and that a deleted account lets nobody in.
\<close>

lemma resolve_user_run:
  "resolve_user verify (Some token) w =
     (case verify token of
        Inl e \<Rightarrow> (Inl e, w)
      | Inr a \<Rightarrow>
          (case user_by_auth (wdb w) a of
             None \<Rightarrow> (Inl (AuthExn (AccountNotFoundError ''No shop account for this identity'')), w)
           | Some u \<Rightarrow> if u_is_active u then (Inr u, w)
                       else (Inl (AuthExn (AccountInactiveError ''Account is deactivated'')), w)))"
  by (simp add: resolve_user_def bind_of_sum bind_fetch bind_require split: sum.splits option.splits)

lemma resolve_user_InrE:
  assumes "resolve_user verify credentials w = (Inr u, v)"
  obtains token a where "credentials = Some token" and "verify token = Inr a" and "user_by_auth (wdb w) a = Some u"
    and "u_is_active u" and "v = w"
proof (cases credentials)
  case None
  with assms show thesis by (simp add: resolve_user_def)
next
  case (Some token)
  note run = assms [unfolded Some resolve_user_run]
  show thesis
  proof (cases "verify token")
    case (Inr a)
    show thesis
    proof (cases "user_by_auth (wdb w) a")
      case (Some x)
      have "x = u \<and> u_is_active x \<and> v = w" using run by (auto simp: Inr Some split: if_splits)
      with that \<open>credentials = Some token\<close> Inr Some show thesis by blast
    qed (use run Inr in simp)
  qed (use run in simp)
qed

lemma profile_dto:
  assumes "to_profile_dto u (Some p) = Inr dto"
  shows "prof_id dto = row_id u" "prof_email dto = u_email u" "prof_preferences dto = to_preferences_dto p"
  using assms by (auto simp: to_profile_dto_def)

text \<open>
  C15: signing in answers for exactly one account of the redeemed identity: an existing one,
  with the database unchanged, or else a new one appended with default preferences and
  reported as new; afterwards that account is the only one anchored to the identity.
\<close>

theorem sign_in_anchors_one_account:
  assumes run: "create_session validate answer w = (Inr res, w')" and inv: "accounts_inv (wdb w)"
  shows "\<exists>tokens u. exchange_code validate answer = Inr tokens \<and>
    filter (\<lambda>x. u_auth_user_id x = Some (ex_user_id tokens)) (t_users (wdb w')) = [u] \<and>
    u_is_active u \<and> prof_id (ses_user res) = row_id u \<and>
    (if user_by_auth (wdb w) (ex_user_id tokens) = None
     then ses_is_new_user res \<and> t_users (wdb w') = t_users (wdb w) @ [u] \<and>
       \<not> refers (t_users (wdb w)) (row_id u) \<and>
       prof_preferences (ses_user res) = \<lparr>pref_language = ''en'', pref_timezone = ''UTC''\<rparr>
     else \<not> ses_is_new_user res \<and> wdb w' = wdb w)"
proof -
  from run have run': "open_session (exchange_code validate answer) w = (Inr res, w')"
    by (simp add: create_session_def unit_of_work_Inr)
  have inv': "accounts_inv (wdb w')" by (rule preservesD [OF open_session_keeps run' inv])
  from run' obtain r u p where s: "sign_in (exchange_code validate answer) w = (Inr r, w')"
    and u: "lookup (t_users (wdb w')) (row_id (si_user r)) = Some u" "u_is_active u"
    and p: "preferences_of (wdb w') (row_id (si_user r)) = Some p"
    and dto: "to_profile_dto u (Some p) = Inr (ses_user res)" "ses_is_new_user res = si_is_new_user r"
    by (rule open_session_InrE)
  have only: "filter (\<lambda>x. u_auth_user_id x = Some a) (t_users (wdb w')) = [v]"
    if v: "v \<in> set (t_users (wdb w'))" "u_auth_user_id v = Some a" for a v
  proof -
    have "u_auth_user_id x = Some a \<longleftrightarrow> x = v" if "x \<in> set (t_users (wdb w'))" for x
      using that v user_by_auth_unique [OF inv', of x a] user_by_auth_unique [OF inv', of v a] by auto
    then have "filter (\<lambda>x. u_auth_user_id x = Some a) (t_users (wdb w')) = filter (\<lambda>x. x = v) (t_users (wdb w'))"
      by (intro filter_cong refl) blast
    moreover have "distinct (t_users (wdb w'))" using accounts_invD(1) [OF inv'] by (auto simp: row_ids_def distinct_map)
    ultimately show ?thesis using v(1) by (simp add: filter_the_one)
  qed
  from s show ?thesis
  proof (cases rule: sign_in_InrE)
    case (known tokens v)
    from user_by_auth_Some [OF known(2)] have v: "v \<in> set (t_users (wdb w))" "u_auth_user_id v = Some (ex_user_id tokens)" by auto
    have "u = v" using u(1) lookup_unique [OF accounts_invD(1) [OF inv] v(1)] by (simp add: known)
    then show ?thesis
      using known v only [of v] u(2) dto(2) profile_dto [OF dto(1)] by (intro exI [of _ tokens] exI [of _ v]) auto
  next
    case (created tokens v)
    from created(5) show ?thesis
    proof (rule create_user_InrE)
      fix i q
      assume v: "v = new_user (initial_display_name (ex_user_id tokens)) (Some (ex_user_id tokens)) i (now w)"
        and new: "\<not> refers (t_users (wdb w)) i" and q: "up_user_id q = i" "q = default_preferences i (row_id q) (now w)"
        and w': "wdb w' = t_preferences_update (\<lambda>t. t @ [q]) (t_users_update (\<lambda>t. t @ [v]) (wdb w))"
      have id: "row_id v = i" "u_auth_user_id v = Some (ex_user_id tokens)" by (simp_all add: v new_user_def)
      have "u = v" using u(1) new id lookup_append_new [of v "t_users (wdb w)"] by (simp add: w' created(3))
      moreover have "up_user_id x \<noteq> i" if "x \<in> set (t_preferences (wdb w))" for x
        using accounts_invD(7) [OF inv that] new by (auto simp: ok_preferences_def)
      then have "find (\<lambda>x. up_user_id x = i) (t_preferences (wdb w)) = None" by (auto simp: find_None_iff)
      then have "p = q" using p q(1) id by (simp add: preferences_of_def w' created(3) find_append)
      moreover have "up_language q = ''en''" "up_timezone q = ''UTC''"
        using arg_cong [OF q(2), of up_language] arg_cong [OF q(2), of up_timezone] by (simp_all add: default_preferences_def)
      ultimately show ?thesis
        using created only [of v] u(2) dto(2) profile_dto [OF dto(1)] id new
        by (intro exI [of _ tokens] exI [of _ v]) (auto simp: w' to_preferences_dto_def)
    qed
  qed
qed

text \<open>
  Whoever passes authentication has a profile: reading the own account never fails, shows
  the caller and changes nothing.
\<close>

theorem authenticated_caller_has_profile:
  assumes inv: "accounts_inv (wdb w)" and caller: "require_auth verify credentials w = (Inr u, v)"
  shows "\<exists>dto. get_me_endpoint (require_auth verify credentials) w = (Inr dto, w) \<and> prof_id dto = row_id u \<and>
    prof_is_active dto"
proof -
  from caller obtain token a where a: "user_by_auth (wdb w) a = Some u" "u_is_active u" "v = w"
    unfolding require_auth_def by (rule resolve_user_InrE)
  have u: "u \<in> set (t_users (wdb w))" using user_by_auth_Some [OF a(1)] by blast
  obtain p where p: "preferences_of (wdb w) (row_id u) = Some p" using accounts_invD(5) [OF inv u a(2)] by blast
  have "active_user (wdb w) (row_id u) = Some u"
    using lookup_unique [OF accounts_invD(1) [OF inv] u] a(2) by (simp add: active_user_Some)
  then have "get_me (row_id u) w = (Inr (u, Some p), w)" by (simp add: get_me_def bind_fetch p)
  then have "get_me_endpoint (require_auth verify credentials) w = (to_profile_dto u (Some p), w)"
    using caller by (simp add: get_me_endpoint_def unit_of_work_def bind_step a(3) split: sum.splits)
  then show ?thesis using a(2) by (simp add: to_profile_dto_def)
qed

text \<open>The account that a successful deletion closed, as authentication sees it afterwards.\<close>

lemma closed_account:
  assumes inv: "accounts_inv (wdb w)" and u: "user_by_auth (wdb w) a = Some u"
    and run: "delete_account (row_id u) mode w = (Inr (), w')"
  shows "user_by_auth (wdb w') a = (case mode of HardDelete \<Rightarrow> None | SoftDelete \<Rightarrow> Some (touch (now w) u (closed SoftDelete u)))"
    and "(wdb w')\<lparr>t_users := [], t_preferences := []\<rparr> = (wdb w)\<lparr>t_users := [], t_preferences := []\<rparr>"
    and "row_ids (t_users (wdb w')) = row_ids (t_users (wdb w))"
proof -
  have "accounts_inv (wdb w')" by (rule preservesD [OF delete_account_keeps run inv])
  note inv' = this
  from user_by_auth_Some [OF u] have in_u: "u \<in> set (t_users (wdb w))" "u_auth_user_id u = Some a" by auto
  from run show "(wdb w')\<lparr>t_users := [], t_preferences := []\<rparr> = (wdb w)\<lparr>t_users := [], t_preferences := []\<rparr>"
    by (rule delete_account_InrE) (cases "wdb w", simp)
  from run show "row_ids (t_users (wdb w')) = row_ids (t_users (wdb w))" by (rule delete_account_InrE) simp
  have look: "lookup (t_users (wdb w)) (row_id u) = Some u" by (rule lookup_unique [OF accounts_invD(1) [OF inv] in_u(1)])
  have users: "set (t_users (wdb w')) = insert (touch (now w) u (closed mode u)) (set (t_users (wdb w)) - {u})"
    using run
  proof (rule delete_account_InrE)
    fix v
    assume v: "lookup (t_users (wdb w)) (row_id u) = Some v" and w': "w' = w\<lparr>wdb := t_users_update (replace_row (touch (now w) v (closed mode v)))
           (t_preferences_update (filter (kept_preferences mode (row_id u))) (wdb w))\<rparr>"
    have "v = u" using v look by simp
    then show ?thesis using set_replace [OF accounts_invD(1) [OF inv], of "touch (now w) u (closed mode u)" u] look by (simp add: w')
  qed
  show "user_by_auth (wdb w') a = (case mode of HardDelete \<Rightarrow> None | SoftDelete \<Rightarrow> Some (touch (now w) u (closed SoftDelete u)))"
  proof (cases mode)
    case HardDelete
    have "u_auth_user_id x \<noteq> Some a" if "x \<in> set (t_users (wdb w'))" for x
      using that users user_by_auth_unique [OF inv, of x a] u by (auto simp: HardDelete)
    then show ?thesis by (auto simp: user_by_auth_def find_None_iff HardDelete)
  next
    case SoftDelete
    show ?thesis using user_by_auth_unique [OF inv', of "touch (now w) u (closed SoftDelete u)" a] users in_u(2)
      by (simp add: SoftDelete)
  qed
qed
lemma closed_session:
  assumes u: "user_by_auth (wdb w) (ex_user_id tokens) = Some u" and off: "\<not> u_is_active u"
    and inv: "accounts_inv (wdb w)"
  shows "open_session (Inr tokens) w = (Inl account_not_found, w)"
proof -
  have "u \<in> set (t_users (wdb w))" using user_by_auth_Some [OF u] by blast
  then have "lookup (t_users (wdb w)) (row_id u) = Some u" by (rule lookup_unique [OF accounts_invD(1) [OF inv]])
  then have "active_user (wdb w) (row_id u) = None" using off by (simp add: active_user_def)
  then show ?thesis using u by (simp add: open_session_def sign_in_def bind_assoc get_me_def bind_fetch bind_of_sum)
qed

lemma new_session:
  assumes run: "open_session (Inr tokens) w = (Inr res, v)" and none: "user_by_auth (wdb w) (ex_user_id tokens) = None"
  shows "ses_is_new_user res" "prof_email (ses_user res) = None" "\<not> refers (t_users (wdb w)) (prof_id (ses_user res))"
proof -
  from run obtain si y p where si: "sign_in (Inr tokens) w = (Inr si, v)"
    and y: "lookup (t_users (wdb v)) (row_id (si_user si)) = Some y"
    and dto: "to_profile_dto y (Some p) = Inr (ses_user res)" "ses_is_new_user res = si_is_new_user si"
    by (rule open_session_InrE)
  from si have "ses_is_new_user res \<and> prof_email (ses_user res) = None \<and> \<not> refers (t_users (wdb w)) (prof_id (ses_user res))"
  proof (cases rule: sign_in_InrE)
    case (created tk z)
    from created(5) show ?thesis
    proof (rule create_user_InrE)
      fix i q
      assume z: "z = new_user (initial_display_name (ex_user_id tk)) (Some (ex_user_id tk)) i (now w)"
        and new: "\<not> refers (t_users (wdb w)) i" and v: "wdb v = t_preferences_update (\<lambda>t. t @ [q]) (t_users_update (\<lambda>t. t @ [z]) (wdb w))"
      have id: "row_id z = i" "u_email z = None" by (simp_all add: z new_user_def)
      then have "y = z" using y new created(3) lookup_append_new [of z "t_users (wdb w)"] by (simp add: v)
      then show ?thesis using created(4) dto(2) profile_dto [OF dto(1)] id new by simp
    qed
  qed (use none in simp)
  then show "ses_is_new_user res" "prof_email (ses_user res) = None" "\<not> refers (t_users (wdb w)) (prof_id (ses_user res))"
    by blast+
qed

text \<open>
  C14: deleting the own account shuts out every token of the identity at once: after a hard
  deletion there is no account behind them, after a soft one it is deactivated. Nothing but
  the two account tables changes. Signing in again with the same identity opens a new and
  empty account after a hard deletion and is refused after a soft one.
\<close>

theorem deletion_cuts_access:
  assumes inv: "accounts_inv (wdb w)" and token: "verify token = Inr a"
    and run: "delete_me_endpoint (require_auth verify (Some token)) mode w = (Inr (), w')"
    and code: "exchange_code validate answer = Inr tokens" "ex_user_id tokens = a"
  shows "require_auth verify (Some token) w' =
      (Inl (AuthExn (case mode of
         HardDelete \<Rightarrow> AccountNotFoundError ''No shop account for this identity''
       | SoftDelete \<Rightarrow> AccountInactiveError ''Account is deactivated'')), w') \<and>
    (wdb w')\<lparr>t_users := [], t_preferences := []\<rparr> = (wdb w)\<lparr>t_users := [], t_preferences := []\<rparr> \<and>
    (case create_session validate answer w' of
       (Inl e, v) \<Rightarrow> wdb v = wdb w' \<and> (mode = SoftDelete \<longrightarrow> e = account_not_found)
     | (Inr res, v) \<Rightarrow> mode = HardDelete \<and> ses_is_new_user res \<and> prof_email (ses_user res) = None \<and>
         \<not> refers (t_users (wdb w)) (prof_id (ses_user res)))"
proof -
  from run obtain u v where c: "resolve_user verify (Some token) w = (Inr u, v)"
    and d: "delete_account (row_id u) mode v = (Inr (), w')"
    by (auto simp: delete_me_endpoint_def require_auth_def unit_of_work_Inr elim!: bind_InrE)
  from c obtain t b where b: "Some token = Some t" "verify t = Inr b" "user_by_auth (wdb w) b = Some u" and v: "v = w"
    by (rule resolve_user_InrE)
  then have "b = a" using token by simp
  with b(3) have u: "user_by_auth (wdb w) a = Some u" by simp
  note closed = closed_account [OF inv u d [unfolded v]]
  have inv': "accounts_inv (wdb w')" by (rule preservesD [OF delete_account_keeps d [unfolded v] inv])
  have "case create_session validate answer w' of
       (Inl e, v) \<Rightarrow> wdb v = wdb w' \<and> (mode = SoftDelete \<longrightarrow> e = account_not_found)
     | (Inr res, v) \<Rightarrow> mode = HardDelete \<and> ses_is_new_user res \<and> prof_email (ses_user res) = None \<and>
         \<not> refers (t_users (wdb w)) (prof_id (ses_user res))"
  proof (cases mode)
    case SoftDelete
    have "open_session (exchange_code validate answer) w' = (Inl account_not_found, w')"
      unfolding code(1) by (rule closed_session [of w' tokens "touch (now w) u (closed SoftDelete u)", OF _ _ inv']) (use closed(1) code(2) in \<open>simp_all add: SoftDelete\<close>)
    then show ?thesis by (simp add: create_session_def unit_of_work_def)
  next
    case HardDelete
    obtain r x where r: "create_session validate answer w' = (r, x)" by (cases "create_session validate answer w'")
    show ?thesis
    proof (cases r)
      case (Inl e)
      then have "wdb x = wdb w'" using r unit_of_work_Inl [of "open_session (exchange_code validate answer)" w' e x]
        by (simp add: create_session_def)
      then show ?thesis by (simp add: r Inl HardDelete)
    next
      case (Inr res)
      with r have run': "open_session (Inr tokens) w' = (Inr res, x)"
        by (simp add: create_session_def unit_of_work_Inr code(1))
      have "user_by_auth (wdb w') (ex_user_id tokens) = None" using closed(1) code(2) by (simp add: HardDelete)
      from new_session [OF run' this] closed(3) show ?thesis by (simp add: r Inr HardDelete)
    qed
  qed
  moreover have "require_auth verify (Some token) w' =
      (Inl (AuthExn (case mode of
         HardDelete \<Rightarrow> AccountNotFoundError ''No shop account for this identity''
       | SoftDelete \<Rightarrow> AccountInactiveError ''Account is deactivated'')), w')"
    unfolding require_auth_def resolve_user_run token by (cases mode) (simp_all add: closed(1))
  ultimately show ?thesis using closed(2) by blast
qed
section \<open>Witnesses\<close>

text \<open>The sample shop with the preferences of its two users, and an answer that redeems a code.\<close>

definition sample_accounts :: world where
  "sample_accounts = sample_world\<lparr>wdb := sample_db\<lparr>
     t_preferences := [default_preferences 1 601 0, default_preferences 2 602 0]\<rparr>\<rparr>"

definition sample_tokens :: "uuid \<Rightarrow> ExchangedTokens" where
  "sample_tokens a = \<lparr>ex_access_token = ''acc'', ex_refresh_token = ''ref'', ex_user_id = a, ex_expires_in = 900\<rparr>"

definition sample_answer :: http_outcome where
  "sample_answer = HttpAnswer \<lparr>http_status = 200, http_body = Some (JObj []), http_cache_control = None\<rparr>"

lemma sample_exchange: "exchange_code (\<lambda>_. Some (sample_tokens a)) sample_answer = Inr (sample_tokens a)"
  by (simp add: exchange_code_def redeemed_def post_answer_def sample_answer_def)

lemma sample_accounts_inv: "accounts_inv (wdb sample_accounts)"
  by (simp add: accounts_inv_def sample_accounts_def sample_defs default_preferences_def preferences_of_def
      fits_user_def fits_preferences_def ok_user_def ok_preferences_def unique_by_def column_defs)

lemma sample_caller: "resolve_user (\<lambda>_. Inr 501) (Some token) sample_accounts = (Inr (sample_user 1), sample_accounts)"
  by (simp add: resolve_user_run sample_accounts_def sample_defs user_by_auth_def)

lemma active_session:
  assumes run: "sign_in exchanged w = (Inr r, w')" and inv: "accounts_inv (wdb w')"
    and u: "si_user r \<in> set (t_users (wdb w'))" "u_is_active (si_user r)"
  shows "\<exists>res. open_session exchanged w = (Inr res, w')"
proof -
  obtain p where p: "preferences_of (wdb w') (row_id (si_user r)) = Some p" using accounts_invD(5) [OF inv u] by blast
  have "active_user (wdb w') (row_id (si_user r)) = Some (si_user r)"
    using lookup_unique [OF accounts_invD(1) [OF inv] u(1)] u(2) by (simp add: active_user_Some)
  then have me: "get_me (row_id (si_user r)) w' = (Inr (si_user r, Some p), w')" by (simp add: get_me_def bind_fetch p)
  show ?thesis
    by (simp add: open_session_def bind_step [of "get_me (row_id (si_user r))" w', OF me] bind_step [of "sign_in exchanged" w, OF run] bind_of_sum to_profile_dto_def)
qed

lemma sample_create_user:
  "\<exists>u w'. create_user (initial_display_name 999) (Some 999) sample_accounts = (Inr u, w')"
  by (simp add: create_user_def bind_def db_add_def uuid4_run db_insert_eq sample_accounts_def sample_defs
      new_user_def default_preferences_def initial_display_name_def uuid_hex_def fits_user_def fits_preferences_def
      ok_user_def ok_preferences_def unique_by_def column_defs)

lemma sample_new_session:
  "\<exists>res w'. create_session (\<lambda>_. Some (sample_tokens 999)) sample_answer sample_accounts = (Inr res, w')"
proof -
  obtain u w' where u: "create_user (initial_display_name 999) (Some 999) sample_accounts = (Inr u, w')"
    using sample_create_user by blast
  have "user_by_auth (wdb sample_accounts) 999 = None"
    by (simp add: user_by_auth_def sample_accounts_def sample_defs)
  then obtain r where r: "sign_in (Inr (sample_tokens 999)) sample_accounts = (Inr r, w')" "si_user r = u"
    by (simp add: sign_in_def bind_of_sum sample_tokens_def
        bind_step [of "create_user (initial_display_name 999) (Some 999)" sample_accounts, OF u])
  have "accounts_inv (wdb w')" by (rule preservesD [OF create_user_keeps u sample_accounts_inv])
  moreover from u have "u \<in> set (t_users (wdb w')) \<and> u_is_active u"
    by (rule create_user_InrE) (simp add: new_user_def)
  ultimately show ?thesis
    using active_session [OF r(1)] r(2) unfolding create_session_def sample_exchange unit_of_work_Inr by blast
qed

lemma sign_in_anchors_one_account_witness:
  "\<exists>res w'. create_session (\<lambda>_. Some (sample_tokens 999)) sample_answer sample_accounts = (Inr res, w') \<and>
     ses_is_new_user res \<and> length (t_users (wdb w')) = 3"
proof -
  obtain res w' where run: "create_session (\<lambda>_. Some (sample_tokens 999)) sample_answer sample_accounts = (Inr res, w')"
    using sample_new_session by blast
  have none: "user_by_auth (wdb sample_accounts) (ex_user_id (sample_tokens 999)) = None"
    by (simp add: user_by_auth_def sample_tokens_def sample_accounts_def sample_defs)
  from sign_in_anchors_one_account [OF run sample_accounts_inv] obtain u where
    "ses_is_new_user res" "t_users (wdb w') = t_users (wdb sample_accounts) @ [u]"
    unfolding sample_exchange sum.inject using none by auto
  with run show ?thesis by (simp add: sample_accounts_def sample_db_def)
qed

lemma authenticated_caller_has_profile_witness:
  "\<exists>dto. get_me_endpoint (require_auth (\<lambda>_. Inr 501) (Some ''token'')) sample_accounts = (Inr dto, sample_accounts) \<and>
     prof_id dto = 1"
  using authenticated_caller_has_profile [OF sample_accounts_inv, of "\<lambda>_. Inr 501" "Some ''token''"]
    sample_caller [of "''token''"]
  by (auto simp: require_auth_def sample_user_def)

lemma sample_deletion:
  "\<exists>w'. delete_me_endpoint (require_auth (\<lambda>_. Inr 501) (Some ''token'')) HardDelete sample_accounts = (Inr (), w')"
  by (simp add: delete_me_endpoint_def require_auth_def unit_of_work_def bind_step [of "resolve_user (\<lambda>_. Inr 501) (Some ''token'')" sample_accounts, OF sample_caller] delete_account_def bind_fetch)
    (simp add: sample_accounts_def sample_defs active_user_def delete_preferences_def db_save_def svc_simps bind_def
      anonymised_def fits_user_def ok_user_def column_defs str_uuid_def uuid_hex_def)

lemma deletion_cuts_access_witness:
  "\<exists>w'. delete_me_endpoint (require_auth (\<lambda>_. Inr 501) (Some ''token'')) HardDelete sample_accounts = (Inr (), w') \<and>
     require_auth (\<lambda>_. Inr 501) (Some ''token'') w' =
       (Inl (AuthExn (AccountNotFoundError ''No shop account for this identity'')), w')"
proof -
  obtain w' where run: "delete_me_endpoint (require_auth (\<lambda>_. Inr 501) (Some ''token'')) HardDelete sample_accounts = (Inr (), w')"
    using sample_deletion by blast
  from deletion_cuts_access [OF sample_accounts_inv refl run sample_exchange, of 501] run show ?thesis
    by (auto simp: sample_tokens_def)
qed

end
