(* ===== verification/SystemProperties.thy ===== *)
theory SystemProperties
  imports BackEnd CatalogWitnesses AuthProperties
begin

text \<open>
  What holds of the whole back end along every run: whatever requests arrive, in whatever
  order, and however often the scheduler runs.
\<close>

section \<open>Runs\<close>

lemma shop_step_sound:
  assumes prov: "provider_contract prov" and step: "shop_step prov w w'" and inv: "back_end_inv (wdb w)"
  shows "back_end_inv (wdb w') \<and> moves (wdb w) (wdb w')"
  using step
proof (rule shop_stepE)
  fix t r us rs x
  assume run: "unit_of_work (run_request prov r) (begin_request t us rs w) = (x, w')"
  have v: "wdb (begin_request t us rs w) = wdb w" by (simp add: begin_request_def)
  show ?thesis
  proof (cases x)
    case (Inl e)
    then have "wdb w' = wdb w" using unit_of_work_Inl run v by metis
    then show ?thesis using inv by (simp add: moves_same)
  next
    case (Inr a)
    then have "run_request prov r (begin_request t us rs w) = (Inr a, w')" using run by (simp add: unit_of_work_Inr)
    from sound_requestD [OF provider_contract.run_request_sound [OF prov] this] show ?thesis using inv by (simp add: v)
  qed
qed

lemma shop_run_sound:
  assumes prov: "provider_contract prov" and inv: "back_end_inv (wdb w0)" and run: "(shop_step prov)\<^sup>*\<^sup>* w0 w"
  shows "back_end_inv (wdb w) \<and> moves (wdb w0) (wdb w)"
  using run
proof (induction rule: rtranclp_induct)
  case (step w w')
  then show ?case using shop_step_sound [OF prov, of w w'] moves_trans by blast
qed (simp add: inv moves_same)

lemma back_end_parts: "back_end_inv d \<Longrightarrow> shop_inv d" "back_end_inv d \<Longrightarrow> orders_ok d" "back_end_inv d \<Longrightarrow> payments_inv d"
  by (simp_all add: back_end_inv_def shop_inv_def)

text \<open>A new database: the product types, which no request creates, and nothing else.\<close>

definition new_database :: "database \<Rightarrow> bool" where
  "new_database d \<longleftrightarrow> d = empty_db\<lparr>t_product_types := t_product_types d\<rparr> \<and> distinct (row_ids (t_product_types d)) \<and>
     list_all (\<lambda>ty. product_type_of (pt_name ty) \<noteq> None) (t_product_types d)"

lemma new_database_inv:
  assumes "new_database d"
  shows "back_end_inv d"
proof -
  from assms obtain ts where d: "d = empty_db\<lparr>t_product_types := ts\<rparr>" and ids: "distinct (row_ids ts)"
    and types: "list_all (\<lambda>ty. product_type_of (pt_name ty) \<noteq> None) ts"
    unfolding new_database_def by blast
  have "shop_inv d"
    by (simp add: d empty_db_def shop_inv_def orders_ok_def orders_inv_def legal_defs payments_inv_def single_charge_def
        methods_inv_def one_default_def ratings_inv_def rating_rows_def aggregate_exact_def aggregates_def scores_of_def
        ratings_for_def subscriptions_inv_def one_event_per_order_def)
  moreover have "accounts_inv d" by (simp add: d empty_db_def accounts_inv_def)
  moreover have "catalog_inv d"
    using ids types by (simp add: d empty_db_def catalog_inv_def attributes_legal_def list_all_iff)
  ultimately show ?thesis by (simp add: back_end_inv_def)
qed

section \<open>The properties\<close>

text \<open>
  C1: starting from a new database with nothing but product types, every state that requests
  and scheduler runs can reach satisfies the invariants of all components together: orders are
  well formed and storable, payments agree with their orders, every user with saved methods has
  exactly one default, product ratings are what the ratings determine, subscriptions agree with
  their deliveries, snapshots and orders, an identity has one account, and every product has the
  attributes of its type.
\<close>

theorem reachable_shop_is_consistent:
  assumes "provider_contract prov" and "new_database (wdb w0)" and "(shop_step prov)\<^sup>*\<^sup>* w0 w"
  shows "orders_ok (wdb w) \<and> payments_inv (wdb w) \<and> methods_inv (wdb w) \<and> ratings_inv (wdb w) \<and>
    subscriptions_inv (wdb w) \<and> accounts_inv (wdb w) \<and> catalog_inv (wdb w)"
  using shop_run_sound [OF assms(1) new_database_inv [OF assms(2)] assms(3)] by (simp add: back_end_inv_def shop_inv_def)

text \<open>
  C2: history is only extended. Along every run from a consistent shop, each order, payment,
  subscription and scheduled delivery is still there under its id, with the same owner,
  type, price, transaction, frequency and date, and its status has only followed the edges of
  its status machine.
\<close>

theorem history_only_advances:
  assumes "provider_contract prov" and "back_end_inv (wdb w0)" and "(shop_step prov)\<^sup>*\<^sup>* w0 w"
  shows "advances can_transition o_status (\<lambda>r. (o_user_id r, o_type r, o_total_price r, created_at r))
       (t_orders (wdb w0)) (t_orders (wdb w)) \<and>
     advances payment_step pay_status (\<lambda>r. (pay_order_id r, pay_user_id r, pay_amount r, pay_txn_id r))
       (t_order_payments (wdb w0)) (t_order_payments (wdb w)) \<and>
     advances sub_step s_status (\<lambda>r. (s_user_id r, s_frequency r))
       (t_subscriptions (wdb w0)) (t_subscriptions (wdb w)) \<and>
     advances event_step se_status (\<lambda>r. (se_subscription_id r, se_scheduled_date r, se_price r))
       (t_events (wdb w0)) (t_events (wdb w))"
  using shop_run_sound [OF assms] unfolding moves_def by blast

lemma advances_stuck:
  assumes adv: "advances step status fixed t t'" and r: "lookup t i = Some r"
    and stuck: "\<And>s. step\<^sup>*\<^sup>* (status r) s \<Longrightarrow> s = status r"
  shows "\<exists>r'. lookup t' i = Some r' \<and> status r' = status r"
  using adv r stuck unfolding advances_def by blast

text \<open>
  Final statuses are final. A cancelled, refunded or failed order, a failed or refunded
  payment and a cancelled subscription keep that status along every run.
\<close>

theorem final_statuses_stay:
  assumes "provider_contract prov" and "back_end_inv (wdb w0)" and "(shop_step prov)\<^sup>*\<^sup>* w0 w"
  shows "(lookup (t_orders (wdb w0)) i = Some ord \<and> o_status ord \<in> {CANCELLED, REFUNDED, FAILED} \<longrightarrow>
       (\<exists>ord'. lookup (t_orders (wdb w)) i = Some ord' \<and> o_status ord' = o_status ord)) \<and>
     (lookup (t_order_payments (wdb w0)) j = Some p \<and> pay_status p \<in> {PayFAILED, PayREFUNDED} \<longrightarrow>
       (\<exists>p'. lookup (t_order_payments (wdb w)) j = Some p' \<and> pay_status p' = pay_status p)) \<and>
     (lookup (t_subscriptions (wdb w0)) k = Some s \<and> s_status s = SubCANCELLED \<longrightarrow>
       (\<exists>s'. lookup (t_subscriptions (wdb w)) k = Some s' \<and> s_status s' = SubCANCELLED))"
proof (intro conjI impI; elim conjE)
  from shop_run_sound [OF assms] have m: "moves (wdb w0) (wdb w)" by blast
  {
    assume o: "lookup (t_orders (wdb w0)) i = Some ord" "o_status ord \<in> {CANCELLED, REFUNDED, FAILED}"
    have stop: "\<not> can_transition (o_status ord) b" for b using o(2) by auto
    show "\<exists>ord'. lookup (t_orders (wdb w)) i = Some ord' \<and> o_status ord' = o_status ord"
      by (rule advances_stuck [OF _ o(1)]) (use m order_life.stuck [OF stop] in \<open>auto simp: moves_def\<close>)
  next
    assume p: "lookup (t_order_payments (wdb w0)) j = Some p" "pay_status p \<in> {PayFAILED, PayREFUNDED}"
    have stop: "\<not> payment_step (pay_status p) b" for b using p(2) by auto
    show "\<exists>p'. lookup (t_order_payments (wdb w)) j = Some p' \<and> pay_status p' = pay_status p"
      by (rule advances_stuck [OF _ p(1)]) (use m payment_life.stuck [OF stop] in \<open>auto simp: moves_def\<close>)
  next
    assume s: "lookup (t_subscriptions (wdb w0)) k = Some s" "s_status s = SubCANCELLED"
    have "\<exists>s'. lookup (t_subscriptions (wdb w)) k = Some s' \<and> s_status s' = s_status s"
      by (rule advances_stuck [OF _ s(1)]) (use m cancelled_stuck s(2) in \<open>auto simp: moves_def\<close>)
    then show "\<exists>s'. lookup (t_subscriptions (wdb w)) k = Some s' \<and> s_status s' = SubCANCELLED" by (simp add: s(2))
  }
qed

text \<open>
  C7: in every state reachable from a consistent shop an order has been charged at most once: of its payments at
  most one did not fail, it is for the order's total and by its user, and it exists only when
  the order is past \<open>created\<close> and was not cancelled.
\<close>

theorem charged_at_most_once:
  assumes "provider_contract prov" and "back_end_inv (wdb w0)" and "(shop_step prov)\<^sup>*\<^sup>* w0 w"
    and "p \<in> set (t_order_payments (wdb w))" and "pay_status p \<noteq> PayFAILED"
  shows "(\<exists>ord. lookup (t_orders (wdb w)) (pay_order_id p) = Some ord \<and> o_total_price ord = pay_amount p \<and>
       o_user_id ord = pay_user_id p \<and> o_status ord \<notin> {CREATED, CANCELLED}) \<and>
     filter (\<lambda>q. pay_order_id q = pay_order_id p \<and> pay_status q \<noteq> PayFAILED) (t_order_payments (wdb w)) = [p]"
proof -
  have inv: "payments_inv (wdb w)"
    using shop_run_sound [OF assms(1-3)] by (simp add: back_end_inv_def shop_inv_def)
  then have one: "\<forall>q \<in> set (t_order_payments (wdb w)).
      pay_order_id q = pay_order_id p \<and> pay_status q \<noteq> PayFAILED \<longleftrightarrow> q = p"
    using assms(4,5) unfolding payments_inv_def single_charge_def by metis
  then have "filter (\<lambda>q. pay_order_id q = pay_order_id p \<and> pay_status q \<noteq> PayFAILED) (t_order_payments (wdb w)) =
      filter (\<lambda>q. q = p) (t_order_payments (wdb w))"
    by (intro filter_cong [OF refl]) blast
  also have "\<dots> = [p]"
    using inv assms(4) by (intro filter_the_one) (auto simp: payments_inv_def row_ids_def distinct_map)
  finally have "filter (\<lambda>q. pay_order_id q = pay_order_id p \<and> pay_status q \<noteq> PayFAILED) (t_order_payments (wdb w)) = [p]" .
  moreover have "payment_sound (wdb w) p" using inv assms(4) by (simp add: payments_inv_def)
  ultimately show ?thesis
    using assms(5) by (cases "pay_status p") (auto simp: payment_sound_def status_agrees_def split: option.splits)
qed
lemma begin_request_simps [simp]: "wdb (begin_request t us rs w) = wdb w" "now (begin_request t us rs w) = t"
  by (simp_all add: begin_request_def)

lemma request_step:
  assumes "run_request prov r (begin_request (now w) us rs w) = (Inr (), w')"
  shows "shop_step prov w w'"
  by (rule shop_step.request [of w "now w" prov r us rs "Inr ()"]) (simp_all add: assms unit_of_work_Inr)

lemma staff_step:
  assumes "orders_ok (wdb w)" and ord: "lookup (t_orders (wdb w)) i = Some ord"
    and "target \<in> set STAFF_TARGETS" and "can_transition (o_status ord) target"
  shows "\<exists>w' ord'. shop_step prov w w' \<and> orders_ok (wdb w') \<and>
    lookup (t_orders (wdb w')) i = Some ord' \<and> o_status ord' = target"
proof -
  let ?v = "begin_request (now w) us rs w"
  let ?d = "staff_update (now w) target ord (wdb w)"
  from update_status_succeeds [of ?v i ord target] assms
  obtain dto where "update_status i target ?v = (Inr dto, ?v\<lparr>wdb := ?d\<rparr>)" by auto
  then have "run_request prov (SetOrderStatus i target) ?v = (Inr (), ?v\<lparr>wdb := ?d\<rparr>)"
    by (simp add: discard_def bind_def)
  then have "shop_step prov w (?v\<lparr>wdb := ?d\<rparr>)" by (rule request_step)
  moreover have "orders_ok ?d" using assms(1,2) by (rule staff_update_ok)
  moreover have "lookup (t_orders ?d) i = Some (ord\<lparr>o_status := target, updated_at := now w\<rparr>)"
    using lookup_SomeD [OF ord] ord
    by (simp add: staff_update_def stamp_deliveries_def stamp_pickups_def set_status_def lookup_replace)
  ultimately show ?thesis by (intro exI [of _ "?v\<lparr>wdb := ?d\<rparr>"]) simp
qed

text \<open>
  C27: no open order is stuck: from every reachable state, at most two staff updates bring an
  order that is created, confirmed or in progress to \<open>completed\<close>.
\<close>

theorem open_orders_can_be_completed:
  assumes "provider_contract prov" and "back_end_inv (wdb w0)" and "(shop_step prov)\<^sup>*\<^sup>* w0 w"
    and "lookup (t_orders (wdb w)) i = Some ord" and "o_status ord \<in> {CREATED, CONFIRMED, IN_PROGRESS}"
  shows "\<exists>n w' ord'. n \<le> 2 \<and> (shop_step prov ^^ n) w w' \<and>
    lookup (t_orders (wdb w')) i = Some ord' \<and> o_status ord' = COMPLETED"
proof -
  have ok: "orders_ok (wdb w)" using shop_run_sound [OF assms(1-3)] by (simp add: back_end_inv_def shop_inv_def)
  show ?thesis
  proof (cases "o_status ord = CREATED")
    case True
    from staff_step [OF ok assms(4), of CONFIRMED prov] True obtain v ord1 where v: "shop_step prov w v" "orders_ok (wdb v)"
        "lookup (t_orders (wdb v)) i = Some ord1" "o_status ord1 = CONFIRMED"
      by (auto simp: STAFF_TARGETS_def)
    from staff_step [OF v(2,3), of COMPLETED prov] v(4) obtain w' ord2 where "shop_step prov v w'"
        "lookup (t_orders (wdb w')) i = Some ord2" "o_status ord2 = COMPLETED"
      by (auto simp: STAFF_TARGETS_def can_transition_def)
    moreover from this(1) v(1) have "(shop_step prov ^^ 2) w w'" by (auto simp: numeral_2_eq_2)
    ultimately show ?thesis by blast
  next
    case False
    with staff_step [OF ok assms(4), of COMPLETED prov] assms(5) obtain w' ord2 where "shop_step prov w w'"
        "lookup (t_orders (wdb w')) i = Some ord2" "o_status ord2 = COMPLETED"
      by (auto simp: STAFF_TARGETS_def can_transition_def)
    moreover from this(1) have "(shop_step prov ^^ 1) w w'" by (simp only: relpowp_1)
    ultimately show ?thesis by (intro exI [of _ 1]) auto
  qed
qed

section \<open>Witnesses\<close>

text \<open>A new database, and the account of the first user who signs in there.\<close>

definition new_world :: world where
  "new_world = sample_world\<lparr>wdb := empty_db\<lparr>t_product_types := [sample_type]\<rparr>\<rparr>"

lemma new_world: "new_database (wdb new_world)"
  by (simp add: new_database_def new_world_def empty_db_def coffee_type)

lemma first_account:
  "\<exists>u w'. create_user (initial_display_name 999) (Some 999) new_world = (Inr u, w')"
  by (simp add: create_user_def bind_def db_add_def uuid4_run db_insert_eq new_world_def sample_world_def empty_db_def
      new_user_def default_preferences_def initial_display_name_def uuid_hex_def fits_user_def fits_preferences_def
      ok_user_def ok_preferences_def unique_by_def column_defs)

lemma first_session:
  "\<exists>w'. run_request prov (SignIn (Inr (sample_tokens 999))) new_world = (Inr (), w') \<and> length (t_users (wdb w')) = 1"
proof -
  obtain u w' where u: "create_user (initial_display_name 999) (Some 999) new_world = (Inr u, w')"
    using first_account by blast
  have none: "user_by_auth (wdb new_world) 999 = None" by (simp add: user_by_auth_def new_world_def empty_db_def)
  then obtain r where r: "sign_in (Inr (sample_tokens 999)) new_world = (Inr r, w')" "si_user r = u"
    by (simp add: sign_in_def bind_of_sum sample_tokens_def
        bind_step [of "create_user (initial_display_name 999) (Some 999)" new_world, OF u])
  have "accounts_inv (wdb w')"
    using preservesD [OF create_user_keeps u] new_database_inv [OF new_world] by (simp add: back_end_inv_def)
  moreover from u have users: "t_users (wdb w') = [u] \<and> u_is_active u"
    by (rule create_user_InrE) (simp add: new_user_def new_world_def empty_db_def)
  ultimately obtain res where "open_session (Inr (sample_tokens 999)) new_world = (Inr res, w')"
    using active_session [OF r(1)] r(2) by auto
  with users show ?thesis by (simp add: discard_def bind_def)
qed

lemma reachable_shop_is_consistent_witness:
  "\<exists>w. shop_step (fake_provider sample_settings) new_world w \<and> length (t_users (wdb w)) = 1 \<and>
     accounts_inv (wdb w) \<and> catalog_inv (wdb w) \<and> orders_ok (wdb w)"
proof -
  have "begin_request (now new_world) (\<lambda>n. 1000 + n) (\<lambda>n. 123456 + n) new_world = new_world"
    by (simp add: begin_request_def new_world_def sample_world_def)
  then obtain w where w: "run_request (fake_provider sample_settings) (SignIn (Inr (sample_tokens 999)))
      (begin_request (now new_world) (\<lambda>n. 1000 + n) (\<lambda>n. 123456 + n) new_world) = (Inr (), w)" "length (t_users (wdb w)) = 1"
    using first_session by metis
  note step = request_step [OF w(1)]
  from reachable_shop_is_consistent [OF fake.provider_contract_axioms new_world r_into_rtranclp, OF step] step w(2)
  show ?thesis by blast
qed

text \<open>The sample shop with its business, its accounts and its catalog.\<close>

definition system_world :: world where
  "system_world = sample_world\<lparr>wdb := sample_db\<lparr>t_preferences := [default_preferences 1 601 0, default_preferences 2 602 0],
     t_product_types := [sample_type], t_categories := [sample_category], t_coffee := [sample_coffee 10, sample_coffee 11]\<rparr>\<rparr>"

lemmas system_defs = system_world_def sample_defs

lemma system_inv: "back_end_inv (wdb system_world)"
proof -
  have "payments_inv (wdb sample_world)" "methods_inv (wdb sample_world)" "subscriptions_inv (wdb sample_world)"
    by (simp_all add: payments_inv_def single_charge_def methods_inv_def one_default_def subscriptions_inv_def
        one_event_per_order_def sample_defs)
  then have sample: "shop_inv (wdb sample_world)" using sample_orders_ok sample_ratings_inv by (simp add: shop_inv_def)
  have "ratings_inv (wdb system_world)"
    by (rule ratings_inv_same [OF _ _ sample_ratings_inv]) (simp_all add: system_world_def sample_world_def)
  then have "shop_inv (wdb system_world)"
    using shop_inv_besides [OF sample, of "wdb system_world"] by (simp add: system_world_def sample_world_def)
  moreover have "accounts_inv (wdb system_world) = accounts_inv (wdb sample_accounts)"
    by (rule accounts_inv_same) (simp_all add: system_world_def sample_accounts_def)
  moreover have "outside_accounts (wdb system_world) = outside_accounts catalog_db"
    by (simp add: system_world_def catalog_db_def)
  then have "catalog_inv (wdb system_world)" using catalog_inv_accounts catalog_sample_inv by metis
  ultimately show ?thesis using sample_accounts_inv by (simp add: back_end_inv_def)
qed

lemma system_orders_ok: "orders_ok (wdb system_world)"
  by (rule back_end_parts(2) [OF system_inv])

lemma confirmed_step:
  "\<exists>w' ord'. shop_step prov system_world w' \<and> lookup (t_orders (wdb w')) 40 = Some ord' \<and> o_status ord' = CONFIRMED"
  using staff_step [OF system_orders_ok, of 40 _ CONFIRMED prov] by (simp add: system_defs STAFF_TARGETS_def) blast

lemma history_only_advances_witness:
  "\<exists>w. shop_step (fake_provider sample_settings) system_world w \<and>
     advances can_transition o_status (\<lambda>r. (o_user_id r, o_type r, o_total_price r, created_at r))
       [sample_order 40 1 DELIVERY CREATED, sample_order 41 2 PICKUP COMPLETED] (t_orders (wdb w)) \<and>
     t_orders (wdb w) \<noteq> [sample_order 40 1 DELIVERY CREATED, sample_order 41 2 PICKUP COMPLETED]"
proof -
  obtain w ord where w: "shop_step (fake_provider sample_settings) system_world w"
      "lookup (t_orders (wdb w)) 40 = Some ord" "o_status ord = CONFIRMED"
    using confirmed_step by blast
  from history_only_advances [OF fake.provider_contract_axioms system_inv r_into_rtranclp, OF w(1)]
  have "advances can_transition o_status (\<lambda>r. (o_user_id r, o_type r, o_total_price r, created_at r))
      [sample_order 40 1 DELIVERY CREATED, sample_order 41 2 PICKUP COMPLETED] (t_orders (wdb w))"
    by (simp add: system_world_def sample_db_def)
  moreover have "t_orders (wdb w) \<noteq> [sample_order 40 1 DELIVERY CREATED, sample_order 41 2 PICKUP COMPLETED]"
    using w(2,3) by (auto simp: sample_order_def)
  ultimately show ?thesis using w(1) by blast
qed

lemma some_step: "\<exists>w'. shop_step prov w w'"
proof -
  obtain x w' where "unit_of_work (run_request prov (DailyRun None)) (begin_request (now w) us rs w) = (x, w')"
    by (cases "unit_of_work (run_request prov (DailyRun None)) (begin_request (now w) us rs w)")
  then show ?thesis using shop_step.request [OF order_refl] by blast
qed

lemma final_statuses_stay_witness:
  "\<exists>v w ord. shop_step (fake_provider sample_settings) system_world v \<and>
     lookup (t_orders (wdb v)) 41 = Some ord \<and> o_status ord = REFUNDED \<and>
     shop_step (fake_provider sample_settings) v w \<and>
     (\<exists>ord'. lookup (t_orders (wdb w)) 41 = Some ord' \<and> o_status ord' = REFUNDED)"
proof -
  have "\<exists>ord. lookup (t_orders (wdb system_world)) 41 = Some ord \<and> can_transition (o_status ord) REFUNDED"
    by (simp add: system_defs can_transition_def)
  then obtain v ord where v: "shop_step (fake_provider sample_settings) system_world v"
      "lookup (t_orders (wdb v)) 41 = Some ord" "o_status ord = REFUNDED"
    using staff_step [OF system_orders_ok, of 41 _ REFUNDED "fake_provider sample_settings"]
    by (auto simp: STAFF_TARGETS_def)
  obtain w where w: "shop_step (fake_provider sample_settings) v w" using some_step by blast
  have inv: "back_end_inv (wdb v)" using shop_step_sound [OF fake.provider_contract_axioms v(1) system_inv] by blast
  from final_statuses_stay [OF fake.provider_contract_axioms inv r_into_rtranclp, OF w, of 41 ord] v(2,3)
  have "\<exists>ord'. lookup (t_orders (wdb w)) 41 = Some ord' \<and> o_status ord' = REFUNDED" by simp
  with v w show ?thesis by blast
qed

lemma open_orders_can_be_completed_witness:
  "\<exists>n w ord. n \<le> 2 \<and> (shop_step (fake_provider sample_settings) ^^ n) system_world w \<and>
     lookup (t_orders (wdb w)) 40 = Some ord \<and> o_status ord = COMPLETED"
  using open_orders_can_be_completed [OF fake.provider_contract_axioms system_inv rtranclp.rtrancl_refl, of 40]
  by (simp add: system_defs)
lemma sample_paying: "\<exists>dto w'. charge_for_order (fake_provider cfg) 1 40 ''card''
    (begin_request (now system_world) (\<lambda>n. 1000 + n) (\<lambda>n. n) system_world) = (Inr dto, w') \<and> pay_dto_status dto = PayCOMPLETED"
proof -
  let ?w = "begin_request (now system_world) (\<lambda>n. 1000 + n) (\<lambda>n. n) system_world"
  have "\<exists>p v. add_order_payment (new_payment (sample_order 40 1 DELIVERY CREATED) 1 ''card'' ''fake'') ?w = (Inr p, v)"
    by (simp add: system_defs db_add_def bind_def uuid4_run db_insert_eq new_payment_def fits_order_payment_def
        ok_order_payment_def check_order_payment_def column_defs begin_request_def)
  then obtain p v where add: "add_order_payment (new_payment (sample_order 40 1 DELIVERY CREATED) 1 ''card'' ''fake'') ?w = (Inr p, v)"
    by blast
  have "lookup (t_orders (wdb ?w)) 40 = Some (sample_order 40 1 DELIVERY CREATED)"
    "o_user_id (sample_order 40 1 DELIVERY CREATED) = 1" "o_status (sample_order 40 1 DELIVERY CREATED) = CREATED"
    by (simp_all add: system_defs)
  from fake_charge_completes [OF _ this add, of cfg] system_orders_ok show ?thesis
    unfolding orders_ok_def by auto
qed

lemma charged_at_most_once_witness:
  "\<exists>w p. shop_step (fake_provider sample_settings) system_world w \<and> pay_order_id p = 40 \<and>
     filter (\<lambda>q. pay_order_id q = 40 \<and> pay_status q \<noteq> PayFAILED) (t_order_payments (wdb w)) = [p]"
proof -
  let ?w = "begin_request (now system_world) (\<lambda>n. 1000 + n) (\<lambda>n. n) system_world"
  obtain dto w where run: "charge_for_order (fake_provider sample_settings) 1 40 ''card'' ?w = (Inr dto, w)"
    and fine: "pay_dto_status dto = PayCOMPLETED"
    using sample_paying by blast
  from run obtain p where p: "pay_order_id p = 40" "p \<in> set (t_order_payments (wdb w))" "pay_status p \<noteq> PayFAILED"
  proof (rule fake.charge_effect)
    fix ord p
    assume "dto = payment_dto p" "pay_order_id p = 40" and w: "wdb w = (if pay_status p = PayCOMPLETED
        then set_status (now ?w) CONFIRMED ord (wdb ?w) else wdb ?w)\<lparr>t_order_payments := t_order_payments (wdb ?w) @ [p]\<rparr>"
    then show thesis using fine by (intro that [of p]) (simp_all add: payment_dto_def)
  qed
  have "run_request (fake_provider sample_settings) (PayOrder 1 40 ''card'') ?w = (Inr (), w)"
    using run by (simp add: discard_def bind_def)
  then have step: "shop_step (fake_provider sample_settings) system_world w" by (rule request_step)
  from charged_at_most_once [OF fake.provider_contract_axioms system_inv r_into_rtranclp, OF step p(2,3)] p(1) step
  show ?thesis by auto
qed

end
