(* ===== verification/JwksProperties.thy ===== *)
theory JwksProperties
  imports Jwks
begin

text \<open>
  What the cache of signing keys promises over a sequence of verifications: a bounded number
  of requests to the identity provider, whatever key ids the tokens carry, and service from
  the cached keys while the provider is down.
\<close>

section \<open>One lookup\<close>

lemma monotonic_run: "monotonic s = (Inr (jw_clock s (jw_ticks s)), s\<lparr>jw_ticks := Suc (jw_ticks s)\<rparr>)"
  by (simp add: monotonic_def)

lemma ask_provider_run: "ask_provider s = (Inr (jw_answers s (jw_fetches s)), s\<lparr>jw_fetches := Suc (jw_fetches s)\<rparr>)"
  by (simp add: ask_provider_def)

lemma bind_monotonic: "bind monotonic f s = f (jw_clock s (jw_ticks s)) (s\<lparr>jw_ticks := Suc (jw_ticks s)\<rparr>)"
  by (simp add: bind_def monotonic_run)

lemma bind_ask: "bind ask_provider f s = f (jw_answers s (jw_fetches s)) (s\<lparr>jw_fetches := Suc (jw_fetches s)\<rparr>)"
  by (simp add: bind_def ask_provider_run)

lemmas jwks_runs = bind_monotonic bind_ask monotonic_run ask_provider_run

text \<open>The streams of a run are those it began with.\<close>

definition same_streams :: "'k jwks_state \<Rightarrow> 'k jwks_state \<Rightarrow> bool" where
  "same_streams s s' \<longleftrightarrow> jw_clock s' = jw_clock s \<and> jw_answers s' = jw_answers s \<and> jw_ticks s \<le> jw_ticks s'"

lemma same_streams_refl: "same_streams s s"
  by (simp add: same_streams_def)

lemma same_streams_trans: "same_streams s t \<Longrightarrow> same_streams t u \<Longrightarrow> same_streams s u"
  by (auto simp: same_streams_def)

lemma fetch_effect:
  assumes "fetch_into_cache parse s = (r, s')"
  shows "same_streams s s' \<and> jw_fetches s' = Suc (jw_fetches s) \<and> jw_last_refetch_at s' = jw_last_refetch_at s"
  using assms by (auto simp: fetch_into_cache_def jwks_runs same_streams_def split: key_answer.splits if_splits)

text \<open>
  A lookup fetches when the cache has expired, and once more, for an unknown key, when the
  last such refetch is long enough ago.
\<close>

definition expired :: "'k jwks_state \<Rightarrow> bool" where
  "expired s \<longleftrightarrow> jw_clock s (jw_ticks s) \<ge> jw_expires_at s"

definition refetched :: "'k jwks_state \<Rightarrow> 'k jwks_state \<Rightarrow> bool" where
  "refetched s s' \<longleftrightarrow> (\<exists>i j. jw_ticks s \<le> i \<and> i \<le> j \<and> j < jw_ticks s' \<and>
     may_refetch (jw_clock s i) (jw_last_refetch_at s) \<and> jw_last_refetch_at s' = Some (jw_clock s j))"

lemma refetch_effect:
  assumes "refetch parse kid s = (r, s')"
  shows "same_streams s s' \<and> jw_fetches s' = Suc (jw_fetches s) \<and> jw_ticks s < jw_ticks s' \<and>
    jw_last_refetch_at s' = Some (jw_clock s (jw_ticks s))"
proof -
  let ?t = "s\<lparr>jw_ticks := Suc (jw_ticks s), jw_last_refetch_at := Some (jw_clock s (jw_ticks s))\<rparr>"
  obtain q t where f: "fetch_into_cache parse ?t = (q, t)" by (cases "fetch_into_cache parse ?t")
  have "bind (fetch_into_cache parse) (\<lambda>_. gets (\<lambda>s. map_of (jw_keys s) kid)) ?t = (r, s')"
    using assms by (simp add: refetch_def jwks_runs)
  then have "s' = t" using f by (auto simp: bind_def split: sum.splits)
  then show ?thesis using fetch_effect [OF f] by (auto simp: same_streams_def)
qed

lemma get_key_effect:
  assumes run: "get_key parse kid s = (r, s')"
  shows "same_streams s s' \<and>
    (jw_fetches s' = jw_fetches s + (if expired s then 1 else 0) \<and> jw_last_refetch_at s' = jw_last_refetch_at s \<or>
     jw_fetches s' = jw_fetches s + (if expired s then 1 else 0) + 1 \<and> refetched s s')"
proof -
  let ?s = "s\<lparr>jw_ticks := Suc (jw_ticks s)\<rparr>"
  obtain q t where f: "(if expired s then fetch_into_cache parse else ret ()) ?s = (q, t)"
    by (cases "(if expired s then fetch_into_cache parse else ret ()) ?s")
  have t: "same_streams ?s t" "jw_fetches t = jw_fetches s + (if expired s then 1 else 0)"
      "jw_last_refetch_at t = jw_last_refetch_at s"
    using f fetch_effect [of parse ?s q t] same_streams_refl [of t] by (auto split: if_splits)
  have t': "same_streams s t" using t(1) by (simp add: same_streams_def)
  have run': "bind (if expired s then fetch_into_cache parse else ret ()) (\<lambda>_.
     bind (gets (\<lambda>s. map_of (jw_keys s) kid)) (\<lambda>found.
     bind (case found of
             Some k \<Rightarrow> ret (Some k)
           | None \<Rightarrow>
               bind monotonic (\<lambda>t1. bind (gets jw_last_refetch_at) (\<lambda>recent.
               if may_refetch t1 recent then refetch parse kid else ret None))) (\<lambda>key.
     case key of
       None \<Rightarrow> raise (AuthExn (InvalidTokenError ''Unknown signing key''))
     | Some k \<Rightarrow> ret k))) ?s = (r, s')"
    using run by (simp add: get_key_def jwks_runs expired_def)
  show ?thesis
  proof (cases q)
    case (Inl e)
    then have "s' = t" using run' f by (simp add: bind_def)
    with t t' show ?thesis by simp
  next
    case (Inr u)
    show ?thesis
    proof (cases "map_of (jw_keys t) kid")
      case (Some k)
      then have "s' = t" using run' f Inr by (simp add: bind_def)
      with t t' show ?thesis by simp
    next
      case None
      let ?t = "t\<lparr>jw_ticks := Suc (jw_ticks t)\<rparr>"
      let ?may = "may_refetch (jw_clock t (jw_ticks t)) (jw_last_refetch_at t)"
      have end_run: "bind (if ?may then refetch parse kid else ret None) (\<lambda>key. case key of
           None \<Rightarrow> raise (AuthExn (InvalidTokenError ''Unknown signing key'')) | Some k \<Rightarrow> ret k) ?t = (r, s')"
        using run' f Inr None by (simp add: bind_def [of "if expired s then fetch_into_cache parse else ret ()"] bind_assoc jwks_runs)
      show ?thesis
      proof (cases ?may)
        case False
        then have "s' = ?t" using end_run by auto
        with t t' show ?thesis by (simp add: same_streams_def)
      next
        case True
        obtain p v where v: "refetch parse kid ?t = (p, v)" by (cases "refetch parse kid ?t")
        have "s' = v" using end_run True v by (auto simp: bind_def split: sum.splits option.splits)
        moreover have "refetched s v" unfolding refetched_def
          by (rule exI [of _ "jw_ticks t"], rule exI [of _ "Suc (jw_ticks t)"])
            (use refetch_effect [OF v] t t' True in \<open>auto simp: same_streams_def\<close>)
        ultimately show ?thesis using refetch_effect [OF v] t t' by (auto simp: same_streams_def)
      qed
    qed
  qed
qed

section \<open>A sequence of lookups\<close>

fun lookups :: "(json \<Rightarrow> 'k jwk_parse) \<Rightarrow> string list \<Rightarrow> 'k jwks_state \<Rightarrow> (exn + 'k) list \<times> 'k jwks_state" where
  "lookups parse [] s = ([], s)"
| "lookups parse (kid # kids) s =
     (let (r, s1) = get_key parse kid s; (rs, s2) = lookups parse kids s1 in (r # rs, s2))"

fun expiries :: "(json \<Rightarrow> 'k jwk_parse) \<Rightarrow> string list \<Rightarrow> 'k jwks_state \<Rightarrow> nat" where
  \<comment> \<open>how many of the lookups began with an expired cache\<close>
  "expiries parse [] s = 0"
| "expiries parse (kid # kids) s = (if expired s then 1 else 0) + expiries parse kids (snd (get_key parse kid s))"

abbreviation current :: "'k jwks_state \<Rightarrow> micros" where
  "current s \<equiv> jw_clock s (jw_ticks s)"

text \<open>The latest time before which no refetch is allowed, less the interval.\<close>

definition credit_base :: "'k jwks_state \<Rightarrow> micros" where
  "credit_base s =
     (case jw_last_refetch_at s of
        None \<Rightarrow> current s - REFETCH_MIN_INTERVAL
      | Some u \<Rightarrow> max u (current s - REFETCH_MIN_INTERVAL))"

lemma credit_same:
  assumes "mono (jw_clock s)" and "same_streams s s'" and "jw_last_refetch_at s' = jw_last_refetch_at s"
  shows "credit_base s \<le> credit_base s'"
proof -
  have "current s \<le> current s'" using assms(1,2) by (simp add: same_streams_def monoD)
  then show ?thesis by (auto simp: credit_base_def assms(3) split: option.splits)
qed

lemma credit_refetch:
  assumes "mono (jw_clock s)" and "same_streams s s'" and "refetched s s'"
  shows "credit_base s + REFETCH_MIN_INTERVAL \<le> credit_base s'" and "credit_base s + REFETCH_MIN_INTERVAL \<le> current s'"
proof -
  from assms(3) obtain i j where ij: "jw_ticks s \<le> i" "i \<le> j" "j < jw_ticks s'"
    "may_refetch (jw_clock s i) (jw_last_refetch_at s)" "jw_last_refetch_at s' = Some (jw_clock s j)"
    by (auto simp: refetched_def)
  have "current s \<le> jw_clock s i" "jw_clock s i \<le> jw_clock s j" "jw_clock s j \<le> current s'"
    using assms(1,2) ij by (simp_all add: same_streams_def monoD)
  moreover have "credit_base s + REFETCH_MIN_INTERVAL \<le> jw_clock s i"
    using ij(4) \<open>current s \<le> jw_clock s i\<close> by (auto simp: credit_base_def may_refetch_def split: option.splits)
  ultimately show "credit_base s + REFETCH_MIN_INTERVAL \<le> credit_base s'" "credit_base s + REFETCH_MIN_INTERVAL \<le> current s'"
    by (auto simp: credit_base_def ij(5))
qed

lemma fetches_by_credit:
  assumes "lookups parse kids s = (rs, s')" and "mono (jw_clock s)"
  shows "\<exists>n. jw_fetches s' = jw_fetches s + expiries parse kids s + n \<and> same_streams s s' \<and>
    int n * REFETCH_MIN_INTERVAL \<le> max 0 (current s' - credit_base s)"
  using assms
proof (induction kids arbitrary: s rs)
  case Nil
  then show ?case by (intro exI [of _ 0]) (simp add: same_streams_refl)
next
  case (Cons kid kids)
  obtain r s1 where one: "get_key parse kid s = (r, s1)" by (cases "get_key parse kid s")
  obtain rs' where rest: "lookups parse kids s1 = (rs', s')"
    using Cons.prems(1) one by (auto split: prod.splits)
  note g = get_key_effect [OF one]
  then have streams: "same_streams s s1" by blast
  then have mono1: "mono (jw_clock s1)" using Cons.prems(2) by (simp add: same_streams_def)
  from Cons.IH [OF rest mono1] obtain n where n: "jw_fetches s' = jw_fetches s1 + expiries parse kids s1 + n"
    "same_streams s1 s'" "int n * REFETCH_MIN_INTERVAL \<le> max 0 (current s' - credit_base s1)" by blast
  have both: "same_streams s s'" by (rule same_streams_trans [OF streams n(2)])
  have later: "current s1 \<le> current s'" using mono1 n(2) by (simp add: same_streams_def monoD)
  have pos: "REFETCH_MIN_INTERVAL > 0" by (simp add: REFETCH_MIN_INTERVAL_def)
  from g show ?case
  proof (elim conjE disjE)
    assume f: "jw_fetches s1 = jw_fetches s + (if expired s then 1 else 0)" "jw_last_refetch_at s1 = jw_last_refetch_at s"
    have "credit_base s \<le> credit_base s1" by (rule credit_same [OF Cons.prems(2) streams f(2)])
    then show ?thesis using n both f(1) by (intro exI [of _ n]) (auto simp: one)
  next
    assume f: "jw_fetches s1 = jw_fetches s + (if expired s then 1 else 0) + 1" and re: "refetched s s1"
    note c = credit_refetch [OF Cons.prems(2) streams re]
    have "int (Suc n) * REFETCH_MIN_INTERVAL \<le> max 0 (current s' - credit_base s)"
      using n(3) c later pos by (auto simp: algebra_simps max_def split: if_splits)
    then show ?thesis using n both f by (intro exI [of _ "Suc n"]) (auto simp: one)
  qed
qed

text \<open>
  C16: forged key ids cannot be used to flood the identity provider. Over any sequence of
  verifications, on a clock that does not go back, the requests for its key set are at most
  those made because the cache had expired, plus one per started interval of 60 seconds.
\<close>

theorem key_refetches_are_rate_limited:
  assumes "lookups parse kids s = (rs, s')" and "mono (jw_clock s)"
  shows "int (jw_fetches s') \<le> int (jw_fetches s) + int (expiries parse kids s) +
    (current s' - current s) div 60000000 + 1"
proof -
  from fetches_by_credit [OF assms] obtain n where n: "jw_fetches s' = jw_fetches s + expiries parse kids s + n"
    "same_streams s s'" "int n * REFETCH_MIN_INTERVAL \<le> max 0 (current s' - credit_base s)" by blast
  have "current s \<le> current s'" using assms(2) n(2) by (simp add: same_streams_def monoD)
  moreover have "current s - REFETCH_MIN_INTERVAL \<le> credit_base s" by (simp add: credit_base_def split: option.splits)
  ultimately have "int n * REFETCH_MIN_INTERVAL \<le> current s' - current s + REFETCH_MIN_INTERVAL"
    using n(3) by (simp add: REFETCH_MIN_INTERVAL_def)
  then have "int n * 60000000 \<le> current s' - current s + 1 * 60000000" by (simp add: REFETCH_MIN_INTERVAL_def)
  then have "int n \<le> (current s' - current s) div 60000000 + 1" by linarith
  then show ?thesis by (simp add: n(1))
qed
section \<open>The provider is down\<close>

definition provider_down :: "(json \<Rightarrow> 'k jwk_parse) \<Rightarrow> 'k jwks_state \<Rightarrow> bool" where
  "provider_down parse s \<longleftrightarrow> (\<forall>n. read_keys parse (jw_answers s n) = NoKeys)"

lemma bind_outage_fetch:
  assumes "provider_down parse s" and "jw_keys s \<noteq> []"
  shows "bind (fetch_into_cache parse) f s = f () (s\<lparr>jw_fetches := Suc (jw_fetches s)\<rparr>)"
  using assms by (simp add: fetch_into_cache_def bind_assoc jwks_runs provider_down_def)

lemma outage_lookup:
  assumes "provider_down parse s" and "map_of (jw_keys s) kid = Some k"
  shows "get_key parse kid s = (Inr k, s\<lparr>jw_ticks := Suc (jw_ticks s),
    jw_fetches := jw_fetches s + (if expired s then 1 else 0)\<rparr>)"
proof -
  let ?t = "s\<lparr>jw_ticks := Suc (jw_ticks s)\<rparr>"
  have fetch: "bind (fetch_into_cache parse) f ?t = f () (?t\<lparr>jw_fetches := Suc (jw_fetches ?t)\<rparr>)" for f
    using assms by (intro bind_outage_fetch) (auto simp: provider_down_def)
  show ?thesis
  proof (cases "expired s")
    case True
    then show ?thesis using assms(2) by (simp add: get_key_def jwks_runs expired_def fetch)
  next
    case False
    then show ?thesis using assms(2) by (simp add: get_key_def jwks_runs expired_def)
  qed
qed

text \<open>
  C35: an outage of the identity provider does not take authenticated traffic down: while
  every request to it fails, each token signed under a cached key still finds its key, and
  the cached keys stay. But once the cache has expired each single verification asks the
  provider again.
\<close>

theorem cached_keys_survive_outage:
  assumes "provider_down parse s" and "\<forall>kid \<in> set kids. map_of (jw_keys s) kid \<noteq> None" and "mono (jw_clock s)"
  shows "\<exists>s'. lookups parse kids s = (map (\<lambda>kid. Inr (the (map_of (jw_keys s) kid))) kids, s') \<and>
    jw_keys s' = jw_keys s \<and> jw_expires_at s' = jw_expires_at s \<and>
    (expired s \<longrightarrow> jw_fetches s' = jw_fetches s + length kids)"
  using assms
proof (induction kids arbitrary: s)
  case (Cons kid kids)
  let ?s1 = "s\<lparr>jw_ticks := Suc (jw_ticks s), jw_fetches := jw_fetches s + (if expired s then 1 else 0)\<rparr>"
  from Cons.prems(2) obtain k where k: "map_of (jw_keys s) kid = Some k" by auto
  note one = outage_lookup [OF Cons.prems(1) k]
  have "expired ?s1" if "expired s"
  proof -
    have "current s \<le> jw_clock s (Suc (jw_ticks s))" using Cons.prems(3) by (simp add: monoD)
    then show ?thesis using that by (simp add: expired_def)
  qed
  moreover obtain s' where "lookups parse kids ?s1 = (map (\<lambda>kid. Inr (the (map_of (jw_keys ?s1) kid))) kids, s')"
    "jw_keys s' = jw_keys ?s1" "jw_expires_at s' = jw_expires_at ?s1"
    "expired ?s1 \<longrightarrow> jw_fetches s' = jw_fetches ?s1 + length kids"
    using Cons.IH [of ?s1] Cons.prems by (auto simp: provider_down_def)
  ultimately show ?case using one k by auto
qed simp

section \<open>Witnesses\<close>

text \<open>A cache with the key \<open>k1\<close>, a provider that is down, and a clock of one second per reading.\<close>

definition sample_cache :: "micros \<Rightarrow> nat jwks_state" where
  "sample_cache expires = \<lparr>jw_keys = [(''k1'', 7)], jw_expires_at = expires, jw_last_refetch_at = None,
     jw_clock = (\<lambda>n. 1000000 * int n), jw_ticks = 0, jw_answers = (\<lambda>_. HttpError), jw_fetches = 0\<rparr>"

lemma sample_mono: "mono (jw_clock (sample_cache expires))"
  by (simp add: sample_cache_def mono_def)

lemma key_refetches_are_rate_limited_witness:
  "lookups (\<lambda>_. JwkRefused) [''x'', ''y'', ''k1'', ''z''] (sample_cache 90000000) =
     ([Inl (AuthExn (InvalidTokenError ''Unknown signing key'')), Inl (AuthExn (InvalidTokenError ''Unknown signing key'')),
       Inr 7, Inl (AuthExn (InvalidTokenError ''Unknown signing key''))],
      (sample_cache 90000000)\<lparr>jw_last_refetch_at := Some 2000000, jw_ticks := 8, jw_fetches := 1\<rparr>) \<and>
   (1 :: int) \<le> 0 + 0 + 8000000 div 60000000 + 1"
proof -
  have run: "lookups (\<lambda>_. JwkRefused) [''x'', ''y'', ''k1'', ''z''] (sample_cache 90000000) =
     ([Inl (AuthExn (InvalidTokenError ''Unknown signing key'')), Inl (AuthExn (InvalidTokenError ''Unknown signing key'')),
       Inr 7, Inl (AuthExn (InvalidTokenError ''Unknown signing key''))],
      (sample_cache 90000000)\<lparr>jw_last_refetch_at := Some 2000000, jw_ticks := 8, jw_fetches := 1\<rparr>)"
    by (simp add: get_key_def refetch_def jwks_runs fetch_into_cache_def read_keys_def fetch_jwks_def post_answer_def
        bind_def bind_assoc sample_cache_def may_refetch_def REFETCH_MIN_INTERVAL_def)
  have none: "expiries (\<lambda>_. JwkRefused) [''x'', ''y'', ''k1'', ''z''] (sample_cache 90000000) = 0"
    by (simp add: expired_def get_key_def refetch_def jwks_runs fetch_into_cache_def read_keys_def fetch_jwks_def post_answer_def
        bind_def bind_assoc sample_cache_def may_refetch_def REFETCH_MIN_INTERVAL_def)
  from key_refetches_are_rate_limited [OF run sample_mono] run none show ?thesis by (simp add: sample_cache_def)
qed

lemma cached_keys_survive_outage_witness:
  "\<exists>s'. lookups (\<lambda>_. JwkRefused) [''k1'', ''k1''] (sample_cache 0) = ([Inr 7, Inr 7], s') \<and> jw_fetches s' = 2"
proof -
  have "provider_down (\<lambda>_. JwkRefused) (sample_cache 0)"
    by (simp add: provider_down_def sample_cache_def read_keys_def fetch_jwks_def post_answer_def)
  from cached_keys_survive_outage [OF this _ sample_mono, of "[''k1'', ''k1'']"] show ?thesis
    by (auto simp: sample_cache_def expired_def)
qed

end
