(* ===== verification/Routes.thy ===== *)
theory Routes
  imports BackEnd
begin

text \<open>
  The routers of \<open>src/api/v1/routers/\<close> that are not part of their component's theory, and the
  service as its clients see it: an HTTP request with its credentials is served by the route's
  handler in one unit of work. \<open>caller\<close> is what \<open>require_auth\<close> returns.
\<close>

section \<open>Handlers\<close>

definition for_user :: "user session \<Rightarrow> (uuid \<Rightarrow> 'a session) \<Rightarrow> 'a session" where
  "for_user caller body = unit_of_work (bind caller (\<lambda>user. body (row_id user)))"

text \<open>\<open>orders.py\<close>\<close>

definition create_order_endpoint :: "user session \<Rightarrow> create_order_request \<Rightarrow> OrderDTO session" where
  "create_order_endpoint caller payload = for_user caller (\<lambda>u. create_order u payload)"

definition list_orders_endpoint :: "user session \<Rightarrow> order_status option \<Rightarrow> nat \<Rightarrow> nat \<Rightarrow> OrderListDTO session" where
  "list_orders_endpoint caller st limit offset = for_user caller (\<lambda>u. list_orders u st limit offset)"

definition get_order_endpoint :: "user session \<Rightarrow> uuid \<Rightarrow> OrderDTO session" where
  "get_order_endpoint caller i = for_user caller (\<lambda>u. get_order i u)"

definition cancel_order_endpoint :: "user session \<Rightarrow> uuid \<Rightarrow> OrderDTO session" where
  "cancel_order_endpoint caller i = for_user caller (\<lambda>u. cancel_order i u)"

text \<open>\<open>payments.py\<close>\<close>

definition pay_order_endpoint ::
  "payment_provider \<Rightarrow> user session \<Rightarrow> uuid \<Rightarrow> string option \<Rightarrow> OrderPaymentDTO session" where
  "pay_order_endpoint prov caller i payload =
     for_user caller (\<lambda>u. charge_for_order prov u i (case payload of Some m \<Rightarrow> m | None \<Rightarrow> ''card''))"

definition payment_callback_endpoint ::
  "payment_provider \<Rightarrow> (string \<Rightarrow> exn + CallbackPayload) \<Rightarrow> string \<Rightarrow> string option \<Rightarrow> OrderPaymentDTO session" where
  "payment_callback_endpoint prov parse raw signature = unit_of_work (payment_callback prov parse raw signature)"

text \<open>\<open>payment_methods.py\<close>\<close>

definition save_method_endpoint ::
  "payment_provider \<Rightarrow> user session \<Rightarrow> SavePaymentMethodRequest \<Rightarrow> PaymentMethodDTO session" where
  "save_method_endpoint prov caller payload = for_user caller (\<lambda>u. save_method prov u payload)"

definition list_methods_endpoint :: "user session \<Rightarrow> PaymentMethodListDTO session" where
  "list_methods_endpoint caller = for_user caller list_methods"

definition set_default_endpoint :: "user session \<Rightarrow> uuid \<Rightarrow> PaymentMethodDTO session" where
  "set_default_endpoint caller i = for_user caller (\<lambda>u. set_default u i)"

definition delete_method_endpoint :: "payment_provider \<Rightarrow> user session \<Rightarrow> uuid \<Rightarrow> unit session" where
  "delete_method_endpoint prov caller i = for_user caller (\<lambda>u. delete_method prov u i)"

text \<open>\<open>ratings.py\<close>\<close>

definition rate_product_endpoint :: "user session \<Rightarrow> uuid \<Rightarrow> int \<Rightarrow> ProductRatingSummaryDTO session" where
  "rate_product_endpoint caller p rating = for_user caller (\<lambda>u. set_rating u p rating)"

definition delete_my_rating_endpoint :: "user session \<Rightarrow> uuid \<Rightarrow> ProductRatingSummaryDTO session" where
  "delete_my_rating_endpoint caller p = for_user caller (\<lambda>u. delete_rating u p)"

definition get_rating_breakdown_endpoint :: "(int \<Rightarrow> int \<Rightarrow> 'f) \<Rightarrow> uuid \<Rightarrow> 'f RatingBreakdownDTO session" where
  "get_rating_breakdown_endpoint pct p = unit_of_work (get_breakdown pct p)"

definition list_my_ratings_endpoint :: "user session \<Rightarrow> MyRatingsListDTO session" where
  "list_my_ratings_endpoint caller = for_user caller list_user_ratings"

text \<open>\<open>subscriptions.py\<close>\<close>

definition create_subscription_endpoint ::
  "payment_provider \<Rightarrow> user session \<Rightarrow> CreateSubscriptionRequest \<Rightarrow> SubscriptionDTO session" where
  "create_subscription_endpoint prov caller payload = for_user caller (\<lambda>u. create_subscription (Some prov) u payload)"

definition list_subscriptions_endpoint :: "user session \<Rightarrow> SubscriptionListDTO session" where
  "list_subscriptions_endpoint caller = for_user caller list_subscriptions"

definition get_subscription_endpoint :: "user session \<Rightarrow> uuid \<Rightarrow> SubscriptionDTO session" where
  "get_subscription_endpoint caller i = for_user caller (\<lambda>u. get_subscription i u)"

definition pay_subscription_endpoint :: "payment_provider \<Rightarrow> user session \<Rightarrow> uuid \<Rightarrow> uuid \<Rightarrow> SubscriptionDTO session" where
  "pay_subscription_endpoint prov caller i method_id = for_user caller (\<lambda>u. pay_subscription (Some prov) i u method_id)"

definition pause_subscription_endpoint :: "user session \<Rightarrow> uuid \<Rightarrow> SubscriptionDTO session" where
  "pause_subscription_endpoint caller i = for_user caller (\<lambda>u. pause_subscription i u)"

definition resume_subscription_endpoint :: "user session \<Rightarrow> uuid \<Rightarrow> SubscriptionDTO session" where
  "resume_subscription_endpoint caller i = for_user caller (\<lambda>u. resume_subscription i u)"

definition cancel_subscription_endpoint :: "payment_provider \<Rightarrow> user session \<Rightarrow> uuid \<Rightarrow> SubscriptionDTO session" where
  "cancel_subscription_endpoint prov caller i = for_user caller (\<lambda>u. cancel_subscription (Some prov) i u)"

text \<open>The public reads of \<open>points.py\<close> and \<open>catalog.py\<close>.\<close>

definition list_points_endpoint :: "(string \<Rightarrow> 'k::linorder) \<Rightarrow> point_list_dto session" where
  "list_points_endpoint collate = unit_of_work (list_active_coffeeshops collate)"

definition get_point_endpoint :: "uuid \<Rightarrow> point_dto session" where
  "get_point_endpoint i = unit_of_work (get_point i)"

definition list_categories_endpoint :: "(string \<Rightarrow> 'k::linorder) \<Rightarrow> ProductCategoryListDTO session" where
  "list_categories_endpoint collate = unit_of_work (list_categories collate)"

definition category_facets_endpoint :: "(string \<Rightarrow> 'k::linorder) \<Rightarrow> uuid \<Rightarrow> CategoryFacetsDTO session" where
  "category_facets_endpoint collate c = unit_of_work (get_facets collate c)"

section \<open>The service\<close>

text \<open>What the back end runs with: its settings, its provider, and the libraries' parts.\<close>

record backend =
  be_settings :: settings
  be_provider :: payment_provider
  be_verify :: "string \<Rightarrow> exn + uuid"
  be_zones :: "string \<Rightarrow> zone_lookup"
  be_parse :: "string \<Rightarrow> exn + CallbackPayload"
  be_redeem :: "json \<Rightarrow> ExchangedTokens option"

text \<open>
  What a request identifies itself with: an access token, the three headers of an admin request,
  the body and signature of a callback, or a login code with what the identity provider answers
  when it is redeemed.
\<close>

datatype credential =
    Bearer "string option"
  | ServiceHeaders "string option" "string option" "string option"
  | SignedBody string "string option"
  | LoginCode http_outcome

text \<open>The routes that may write, each with its parameters and body.\<close>

datatype http_request =
    PostOrder "string option" create_order_request
  | PostOrderCancel "string option" uuid
  | PostOrderPay "string option" uuid "string option"
  | PostPaymentCallback string "string option"
  | PostPaymentMethod "string option" SavePaymentMethodRequest
  | PostPaymentMethodDefault "string option" uuid
  | DeletePaymentMethod "string option" uuid
  | PutProductRating "string option" uuid int
  | DeleteProductRating "string option" uuid
  | PostSubscription "string option" CreateSubscriptionRequest
  | PostSubscriptionPay "string option" uuid uuid
  | PostSubscriptionPause "string option" uuid
  | PostSubscriptionResume "string option" uuid
  | PostSubscriptionCancel "string option" uuid
  | PostAuthSession http_outcome
  | PatchMe "string option" UpdateProfileRequest
  | PatchMyPreferences "string option" UpdatePreferencesRequest
  | DeleteMe "string option" account_deletion
  | PutAdminOrderStatus "string option" "string option" "string option" uuid order_status
  | PostAdminPoint "string option" "string option" "string option" point_write
  | PutAdminPoint "string option" "string option" "string option" uuid point_write
  | DeleteAdminPoint "string option" "string option" "string option" uuid delete_mode
  | PostAdminProduct "string option" "string option" "string option" ProductCreate
  | PutAdminProduct "string option" "string option" "string option" uuid ProductWrite
  | DeleteAdminProduct "string option" "string option" "string option" uuid
  | PostAdminCategory "string option" "string option" "string option" ProductCategoryCreate
  | PutAdminCategory "string option" "string option" "string option" uuid ProductCategoryUpdate
  | DeleteAdminCategory "string option" "string option" "string option" uuid

fun credential_of :: "http_request \<Rightarrow> credential" where
  "credential_of (PostOrder c data) = Bearer c"
| "credential_of (PostOrderCancel c i) = Bearer c"
| "credential_of (PostOrderPay c i payload) = Bearer c"
| "credential_of (PostPaymentCallback raw signature) = SignedBody raw signature"
| "credential_of (PostPaymentMethod c data) = Bearer c"
| "credential_of (PostPaymentMethodDefault c i) = Bearer c"
| "credential_of (DeletePaymentMethod c i) = Bearer c"
| "credential_of (PutProductRating c p v) = Bearer c"
| "credential_of (DeleteProductRating c p) = Bearer c"
| "credential_of (PostSubscription c data) = Bearer c"
| "credential_of (PostSubscriptionPay c i m) = Bearer c"
| "credential_of (PostSubscriptionPause c i) = Bearer c"
| "credential_of (PostSubscriptionResume c i) = Bearer c"
| "credential_of (PostSubscriptionCancel c i) = Bearer c"
| "credential_of (PostAuthSession answer) = LoginCode answer"
| "credential_of (PatchMe c data) = Bearer c"
| "credential_of (PatchMyPreferences c data) = Bearer c"
| "credential_of (DeleteMe c mode) = Bearer c"
| "credential_of (PutAdminOrderStatus t who r i s) = ServiceHeaders t who r"
| "credential_of (PostAdminPoint t who r data) = ServiceHeaders t who r"
| "credential_of (PutAdminPoint t who r i data) = ServiceHeaders t who r"
| "credential_of (DeleteAdminPoint t who r i mode) = ServiceHeaders t who r"
| "credential_of (PostAdminProduct t who r data) = ServiceHeaders t who r"
| "credential_of (PutAdminProduct t who r i data) = ServiceHeaders t who r"
| "credential_of (DeleteAdminProduct t who r i) = ServiceHeaders t who r"
| "credential_of (PostAdminCategory t who r data) = ServiceHeaders t who r"
| "credential_of (PutAdminCategory t who r i data) = ServiceHeaders t who r"
| "credential_of (DeleteAdminCategory t who r i) = ServiceHeaders t who r"
section \<open>Serving a request\<close>

text \<open>The dependencies of a route come before the validation of its body.\<close>

definition refuse_body :: "user session \<Rightarrow> unit session" where
  "refuse_body caller = for_user caller (\<lambda>_. validated False)"

definition refuse_admin_body :: "exn + service_caller \<Rightarrow> unit session" where
  "refuse_admin_body gate = admin_endpoint gate (\<lambda>_. validated False)"

definition valid_order_request :: "create_order_request \<Rightarrow> bool" where
  "valid_order_request data \<longleftrightarrow> valid_order_fields data \<and>
     (case fulfillment_matches_type data of Inl _ \<Rightarrow> False | Inr _ \<Rightarrow> True)"

definition valid_pay_request :: "string option \<Rightarrow> bool" where
  "valid_pay_request payload \<longleftrightarrow> opt_fits (\<lambda>m. m \<noteq> [] \<and> length m \<le> 30) payload"

abbreviation "user_of b c \<equiv> require_auth (be_verify b) c"
abbreviation "catalog_caller b t who r \<equiv> require_catalog_caller (be_settings b) t who r"
abbreviation "point_caller b t who r \<equiv> require_point_caller (be_settings b) t who r"

fun serve :: "backend \<Rightarrow> http_request \<Rightarrow> unit session" where
  "serve b (PostOrder c data) =
     (if valid_order_request data then discard (create_order_endpoint (user_of b c) data) else refuse_body (user_of b c))"
| "serve b (PostOrderCancel c i) = discard (cancel_order_endpoint (user_of b c) i)"
| "serve b (PostOrderPay c i payload) =
     (if valid_pay_request payload then discard (pay_order_endpoint (be_provider b) (user_of b c) i payload)
      else refuse_body (user_of b c))"
| "serve b (PostPaymentCallback raw signature) =
     discard (payment_callback_endpoint (be_provider b) (be_parse b) raw signature)"
| "serve b (PostPaymentMethod c data) =
     (if valid_save_request data then discard (save_method_endpoint (be_provider b) (user_of b c) data)
      else refuse_body (user_of b c))"
| "serve b (PostPaymentMethodDefault c i) = discard (set_default_endpoint (user_of b c) i)"
| "serve b (DeletePaymentMethod c i) = discard (delete_method_endpoint (be_provider b) (user_of b c) i)"
| "serve b (PutProductRating c p v) = discard (rate_product_endpoint (user_of b c) p v)"
| "serve b (DeleteProductRating c p) = discard (delete_my_rating_endpoint (user_of b c) p)"
| "serve b (PostSubscription c data) =
     (if valid_delivery_in (cs_delivery data) then discard (create_subscription_endpoint (be_provider b) (user_of b c) data)
      else refuse_body (user_of b c))"
| "serve b (PostSubscriptionPay c i m) = discard (pay_subscription_endpoint (be_provider b) (user_of b c) i m)"
| "serve b (PostSubscriptionPause c i) = discard (pause_subscription_endpoint (user_of b c) i)"
| "serve b (PostSubscriptionResume c i) = discard (resume_subscription_endpoint (user_of b c) i)"
| "serve b (PostSubscriptionCancel c i) = discard (cancel_subscription_endpoint (be_provider b) (user_of b c) i)"
| "serve b (PostAuthSession answer) = discard (create_session (be_redeem b) answer)"
| "serve b (PatchMe c data) = discard (update_me_endpoint (user_of b c) data)"
| "serve b (PatchMyPreferences c data) = discard (update_preferences_endpoint (be_zones b) (user_of b c) data)"
| "serve b (DeleteMe c mode) = discard (delete_me_endpoint (user_of b c) mode)"
| "serve b (PutAdminOrderStatus t who r i s) = discard (update_order_status_endpoint (be_settings b) t who r i s)"
| "serve b (PostAdminPoint t who r data) =
     (if valid_point_write data then discard (create_point_endpoint (be_settings b) t who r data)
      else refuse_admin_body (point_caller b t who r))"
| "serve b (PutAdminPoint t who r i data) =
     (if valid_point_write data then discard (update_point_endpoint (be_settings b) t who r i data)
      else refuse_admin_body (point_caller b t who r))"
| "serve b (DeleteAdminPoint t who r i mode) = discard (delete_point_endpoint (be_settings b) t who r i mode)"
| "serve b (PostAdminProduct t who r data) =
     (if valid_product_write data \<and> attributes_match_type data
      then discard (create_product_endpoint (be_settings b) t who r data) else refuse_admin_body (catalog_caller b t who r))"
| "serve b (PutAdminProduct t who r i data) =
     (if valid_product_write data \<and> exactly_one_block data
      then discard (update_product_endpoint (be_settings b) t who r i data) else refuse_admin_body (catalog_caller b t who r))"
| "serve b (DeleteAdminProduct t who r i) = discard (delete_product_endpoint (be_settings b) t who r i)"
| "serve b (PostAdminCategory t who r data) =
     (if valid_category_create data then discard (create_category_endpoint (be_settings b) t who r data)
      else refuse_admin_body (catalog_caller b t who r))"
| "serve b (PutAdminCategory t who r i data) =
     (if valid_category_update data then discard (update_category_endpoint (be_settings b) t who r i data)
      else refuse_admin_body (catalog_caller b t who r))"
| "serve b (DeleteAdminCategory t who r i) = discard (delete_category_endpoint (be_settings b) t who r i)"

text \<open>
  A step of the running service: a client's request is served, or the scheduler runs, at a time not
  before the last one and with fresh randomness.
\<close>

inductive served :: "backend \<Rightarrow> world \<Rightarrow> world \<Rightarrow> bool" for b :: backend where
  request: "now w \<le> t \<Longrightarrow> serve b r (begin_request t us rs w) = (x, w') \<Longrightarrow> served b w w'"
| scheduler: "now w \<le> t \<Longrightarrow>
    unit_of_work (run_request (be_provider b) (DailyRun today)) (begin_request t us rs w) = (x, w') \<Longrightarrow> served b w w'"

section \<open>Who may do what\<close>

text \<open>
  The policy: the user \<open>u\<close> as whom a request with the credential acts. An access token acts as the
  active user whose identity it proves; the other credentials act as the service itself, whatever
  \<open>u\<close> is, when they are the right ones.
\<close>

fun acts_as :: "backend \<Rightarrow> world \<Rightarrow> credential \<Rightarrow> uuid \<Rightarrow> bool" where
  "acts_as b w (Bearer c) u =
     (case c of
        None \<Rightarrow> False
      | Some token \<Rightarrow>
          (case be_verify b token of
             Inl _ \<Rightarrow> False
           | Inr a \<Rightarrow> (case user_by_auth (wdb w) a of None \<Rightarrow> False | Some x \<Rightarrow> u_is_active x \<and> row_id x = u)))"
| "acts_as b w (ServiceHeaders t who r) u = (t = admin_service_token (be_settings b) \<and> \<not> falsy t \<and> \<not> falsy who)"
| "acts_as b w (SignedBody raw signature) u = (pv_verify_callback (be_provider b) raw signature = Inr True)"
| "acts_as b w (LoginCode answer) u = (case exchange_code (be_redeem b) answer of Inl _ \<Rightarrow> False | Inr _ \<Rightarrow> True)"

text \<open>The request of the system that the user \<open>u\<close> makes with an HTTP request.\<close>

fun request_by :: "backend \<Rightarrow> uuid \<Rightarrow> http_request \<Rightarrow> shop_request" where
  "request_by b u (PostOrder c data) = PlaceOrder u data"
| "request_by b u (PostOrderCancel c i) = CancelOrder i u"
| "request_by b u (PostOrderPay c i payload) = PayOrder u i (case payload of Some m \<Rightarrow> m | None \<Rightarrow> ''card'')"
| "request_by b u (PostPaymentCallback raw signature) =
     (case be_parse b raw of
        Inl _ \<Rightarrow> ProviderCallback (pv_name (be_provider b)) [] []
      | Inr p \<Rightarrow> ProviderCallback (pv_name (be_provider b)) (cb_txn_id p) (cb_status p))"
| "request_by b u (PostPaymentMethod c data) = SaveCard u data"
| "request_by b u (PostPaymentMethodDefault c i) = ChooseCard u i"
| "request_by b u (DeletePaymentMethod c i) = DeleteCard u i"
| "request_by b u (PutProductRating c p v) = Rate u p v"
| "request_by b u (DeleteProductRating c p) = Unrate u p"
| "request_by b u (PostSubscription c data) = Subscribe u data"
| "request_by b u (PostSubscriptionPay c i m) = PaySubscription i u m"
| "request_by b u (PostSubscriptionPause c i) = PauseSubscription i u"
| "request_by b u (PostSubscriptionResume c i) = ResumeSubscription i u"
| "request_by b u (PostSubscriptionCancel c i) = CancelSubscription i u"
| "request_by b u (PostAuthSession answer) = SignIn (exchange_code (be_redeem b) answer)"
| "request_by b u (PatchMe c data) = UpdateProfile u data"
| "request_by b u (PatchMyPreferences c data) = UpdatePreferences (be_zones b) u data"
| "request_by b u (DeleteMe c mode) = DeleteAccount u mode"
| "request_by b u (PutAdminOrderStatus t who r i s) = SetOrderStatus i s"
| "request_by b u (PostAdminPoint t who r data) = CreatePoint data"
| "request_by b u (PutAdminPoint t who r i data) = UpdatePoint i data"
| "request_by b u (DeleteAdminPoint t who r i mode) = DeletePoint i mode"
| "request_by b u (PostAdminProduct t who r data) = CreateProduct data"
| "request_by b u (PutAdminProduct t who r i data) = UpdateProduct i data"
| "request_by b u (DeleteAdminProduct t who r i) = DeleteProduct i"
| "request_by b u (PostAdminCategory t who r data) = CreateCategory data"
| "request_by b u (PutAdminCategory t who r i data) = UpdateCategory i data"
| "request_by b u (DeleteAdminCategory t who r i) = DeleteCategory i"

lemma acts_as_require_auth:
  "require_auth (be_verify b) c w = (Inr x, w') \<longleftrightarrow>
     w' = w \<and> (\<exists>token a. c = Some token \<and> be_verify b token = Inr a \<and> user_by_auth (wdb w) a = Some x \<and> u_is_active x)"
  by (auto simp: require_auth_def resolve_user_def bind_of_sum bind_fetch require_def split: option.splits sum.splits)

lemma for_user_InrE:
  assumes "for_user (user_of b c) body w = (Inr a, w')"
  obtains u where "acts_as b w (Bearer c) u" and "body u w = (Inr a, w')"
proof -
  from assms obtain x v where caller: "require_auth (be_verify b) c w = (Inr x, v)" and run: "body (row_id x) v = (Inr a, w')"
    by (auto simp: for_user_def unit_of_work_Inr elim: bind_InrE)
  from caller have "v = w" "acts_as b w (Bearer c) (row_id x)" unfolding acts_as_require_auth by auto
  with run show thesis by (intro that) simp_all
qed

lemma require_auth_refuses:
  assumes "\<not> (\<exists>u. acts_as b w (Bearer c) u)"
  shows "\<exists>e. require_auth (be_verify b) c w = (Inl e, w)"
proof -
  obtain x v where run: "require_auth (be_verify b) c w = (x, v)" by (cases "require_auth (be_verify b) c w")
  have "v = w" using run by (auto simp: require_auth_def resolve_user_def bind_of_sum bind_fetch require_def
        split: option.splits sum.splits if_splits)
  moreover have "x \<noteq> Inr y" for y
    using assms run [unfolded \<open>v = w\<close>] acts_as_require_auth [of b c w y w] by auto
  ultimately show ?thesis using run by (cases x) auto
qed

lemma for_user_refuses:
  assumes "\<not> (\<exists>u. acts_as b w (Bearer c) u)"
  shows "\<exists>e. for_user (user_of b c) body w = (Inl e, w)"
proof -
  from require_auth_refuses [OF assms] obtain e where "require_auth (be_verify b) c w = (Inl e, w)" by blast
  then show ?thesis by (simp add: for_user_def unit_of_work_def bind_def)
qed

lemma acts_for_admin:
  "catalog_caller b t who r = Inr k \<Longrightarrow> acts_as b w (ServiceHeaders t who r) u"
  "point_caller b t who r = Inr k \<Longrightarrow> acts_as b w (ServiceHeaders t who r) u"
  "require_order_caller (be_settings b) t who r = Inr k \<Longrightarrow> acts_as b w (ServiceHeaders t who r) u"
  using catalog_gate.accepted point_gate.accepted order_gate.accepted by simp_all

section \<open>Requests that succeed\<close>

text \<open>
  A handler that succeeds has run the operation of its component, as the caller that the
  credential stands for, and what it does besides leaves the database alone.
\<close>

lemma discard_Inr: "discard m w = (Inr (), w') \<longleftrightarrow> (\<exists>a. m w = (Inr a, w'))"
  by (auto simp: discard_def bind_def split: prod.splits sum.splits)

lemma user_handler:
  assumes "discard (for_user (user_of b c) body) w = (Inr (), w')"
  shows "\<exists>u. acts_as b w (Bearer c) u \<and> discard (body u) w = (Inr (), w')"
proof -
  from assms obtain a where "for_user (user_of b c) body w = (Inr a, w')" by (auto simp: discard_Inr)
  then show ?thesis by (rule for_user_InrE) (auto simp: discard_Inr)
qed

lemma admin_handler:
  assumes "discard (admin_endpoint gate (\<lambda>caller. bind m (\<lambda>a. bind (aud caller a) (\<lambda>_. k caller a)))) w = (Inr (), w')"
    and "\<And>caller a. leaves wdb (aud caller a)" and "\<And>caller a. leaves wdb (k caller a)"
  shows "\<exists>caller v. gate = Inr caller \<and> discard m w = (Inr (), v) \<and> wdb v = wdb w'"
proof -
  from assms(1) obtain caller a v1 v2 x y where "gate = Inr caller" and m: "m w = (Inr a, v1)"
      and l: "aud caller a v1 = (Inr x, v2)" and k: "k caller a v2 = (Inr y, w')"
    by (auto simp: discard_Inr admin_endpoint_def unit_of_work_Inr bind_of_sum elim!: bind_InrE split: sum.splits)
  moreover have "wdb v2 = wdb v1" by (rule leavesD [OF assms(2) l])
  moreover have "wdb w' = wdb v2" by (rule leavesD [OF assms(3) k])
  ultimately show ?thesis by (auto simp: discard_Inr)
qed

lemma admin_handler_last:
  assumes "discard (admin_endpoint gate (\<lambda>caller. bind m (\<lambda>a. aud caller a))) w = (Inr (), w')"
    and "\<And>caller a. leaves wdb (aud caller a)"
  shows "\<exists>caller v. gate = Inr caller \<and> discard m w = (Inr (), v) \<and> wdb v = wdb w'"
proof (rule admin_handler [where k = "\<lambda>_ _. ret ()"])
  from assms(1) show "discard (admin_endpoint gate (\<lambda>caller. bind m (\<lambda>a. bind (aud caller a) (\<lambda>_. ret ())))) w = (Inr (), w')"
    by (auto simp: discard_Inr admin_endpoint_def unit_of_work_Inr bind_of_sum bind_def split: sum.splits prod.splits)
qed (use assms(2) in \<open>simp_all add: evolves_def\<close>)

lemma refused_body: "refuse_body caller w \<noteq> (Inr a, w')" "refuse_admin_body gate w \<noteq> (Inr a, w')"
  by (auto simp: refuse_body_def for_user_def refuse_admin_body_def admin_endpoint_def unit_of_work_Inr validated_def
      require_def elim!: bind_InrE)

text \<open>A request that fails leaves the database as it was.\<close>

definition atomic :: "'a session \<Rightarrow> bool" where
  "atomic m \<longleftrightarrow> (\<forall>w e w'. m w = (Inl e, w') \<longrightarrow> wdb w' = wdb w)"

lemma atomic_unit_of_work: "atomic (unit_of_work m)"
  using unit_of_work_Inl unfolding atomic_def by blast

lemma atomic_discard: "atomic m \<Longrightarrow> atomic (discard m)"
  by (auto simp: atomic_def discard_def bind_def split: prod.splits sum.splits)

lemmas user_endpoint_defs = create_order_endpoint_def cancel_order_endpoint_def pay_order_endpoint_def
  save_method_endpoint_def set_default_endpoint_def delete_method_endpoint_def rate_product_endpoint_def
  delete_my_rating_endpoint_def create_subscription_endpoint_def pay_subscription_endpoint_def
  pause_subscription_endpoint_def resume_subscription_endpoint_def cancel_subscription_endpoint_def

lemma account_endpoints:
  "update_me_endpoint caller data =
     for_user caller (\<lambda>u. bind (update_profile u data) (\<lambda>(x, p). of_sum (to_profile_dto x p)))"
  "update_preferences_endpoint zone_info caller data' =
     for_user caller (\<lambda>u. bind (update_preferences zone_info u data') (\<lambda>p. ret (to_preferences_dto p)))"
  "delete_me_endpoint caller mode = for_user caller (\<lambda>u. delete_account u mode)"
  by (simp_all add: for_user_def update_me_endpoint_def update_preferences_endpoint_def delete_me_endpoint_def)

lemmas admin_endpoint_defs = update_order_status_endpoint_def create_point_endpoint_def update_point_endpoint_def
  delete_point_endpoint_def create_product_endpoint_def update_product_endpoint_def delete_product_endpoint_def
  create_category_endpoint_def update_category_endpoint_def delete_category_endpoint_def

lemma serve_atomic: "atomic (serve b r)"
proof -
  note at = atomic_unit_of_work atomic_discard
  have user: "atomic (for_user k body)" for k and body :: "uuid \<Rightarrow> 'a session" by (simp add: for_user_def at)
  have admin: "atomic (admin_endpoint g body)" for g and body :: "service_caller \<Rightarrow> 'a session" by (simp add: admin_endpoint_def at)
  show ?thesis
    by (cases r) (simp_all add: at user admin refuse_body_def refuse_admin_body_def user_endpoint_defs
        account_endpoints admin_endpoint_defs payment_callback_endpoint_def create_session_def)
qed

section \<open>Requests that are not authorised\<close>

lemma discard_refused: "\<exists>e. m w = (Inl e, w) \<and> P e \<Longrightarrow> \<exists>e. discard m w = (Inl e, w)"
  by (auto simp: discard_def bind_def)


lemma user_refused:
  assumes "\<And>u. \<not> acts_as b w (Bearer c) u"
  shows "\<exists>e. discard (for_user (user_of b c) body) w = (Inl e, w)" "\<exists>e. refuse_body (user_of b c) w = (Inl e, w)"
proof -
  from assms have no: "\<not> (\<exists>u. acts_as b w (Bearer c) u)" by blast
  then have refuse: "\<exists>e. for_user (user_of b c) m w = (Inl e, w)" for m :: "uuid \<Rightarrow> 'z session" by (rule for_user_refuses)
  show "\<exists>e. discard (for_user (user_of b c) body) w = (Inl e, w)"
    using for_user_refuses [OF no, of body] by (auto simp: discard_def bind_def)
  show "\<exists>e. refuse_body (user_of b c) w = (Inl e, w)"
    using for_user_refuses [OF no] by (simp add: refuse_body_def)
qed

lemma admin_refused:
  assumes "\<And>u. \<not> acts_as b w (ServiceHeaders t who r) u"
  shows "\<exists>e. discard (admin_endpoint (catalog_caller b t who r) body) w = (Inl e, w)"
    "\<exists>e. discard (admin_endpoint (point_caller b t who r) body') w = (Inl e, w)"
    "\<exists>e. discard (admin_endpoint (require_order_caller (be_settings b) t who r) body'') w = (Inl e, w)"
    "\<exists>e. refuse_admin_body (catalog_caller b t who r) w = (Inl e, w)"
    "\<exists>e. refuse_admin_body (point_caller b t who r) w = (Inl e, w)"
proof -
  from assms have no: "t \<noteq> admin_service_token (be_settings b) \<or> falsy t \<or> falsy who" by auto
  show "\<exists>e. discard (admin_endpoint (catalog_caller b t who r) body) w = (Inl e, w)"
    by (rule discard_refused, rule catalog_gate.endpoint_refused [OF no])
  show "\<exists>e. discard (admin_endpoint (point_caller b t who r) body') w = (Inl e, w)"
    by (rule discard_refused, rule point_gate.endpoint_refused [OF no])
  show "\<exists>e. discard (admin_endpoint (require_order_caller (be_settings b) t who r) body'') w = (Inl e, w)"
    by (rule discard_refused, rule order_gate.endpoint_refused [OF no])
  show "\<exists>e. refuse_admin_body (catalog_caller b t who r) w = (Inl e, w)"
    "\<exists>e. refuse_admin_body (point_caller b t who r) w = (Inl e, w)"
    using catalog_gate.endpoint_refused [OF no] point_gate.endpoint_refused [OF no] unfolding refuse_admin_body_def by blast+
qed

lemma other_refused:
  "(\<And>u. \<not> acts_as b w (SignedBody raw sig) u) \<Longrightarrow>
     \<exists>e. discard (payment_callback_endpoint (be_provider b) parse raw sig) w = (Inl e, w)"
  "(\<And>u. \<not> acts_as b w (LoginCode answer) u) \<Longrightarrow> \<exists>e. discard (create_session (be_redeem b) answer) w = (Inl e, w)"
  by (auto simp: discard_def payment_callback_endpoint_def payment_callback_def unit_of_work_def bind_def of_sum_def
      require_def create_session_def open_session_def sign_in_def split: sum.splits prod.splits)

end
