(* ===== verification/Isolation.thy ===== *)
theory Isolation
  imports Routes
begin

text \<open>
  The separation of the users: which rows belong to whom, and that the requests of one user leave
  the rows of every other user as they are.
\<close>

section \<open>Whose rows\<close>

text \<open>The rows of a user in every table that has a user column.\<close>

definition rows_of :: "uuid \<Rightarrow> database \<Rightarrow> user list \<times> user_preferences list \<times> rating list \<times> order list \<times>
    order_payment list \<times> payment_method list \<times> subscription list" where
  "rows_of k d =
     (filter (\<lambda>r. row_id r = k) (t_users d), filter (\<lambda>r. up_user_id r = k) (t_preferences d),
      filter (\<lambda>r. r_user_id r = k) (t_ratings d), filter (\<lambda>r. o_user_id r = k) (t_orders d),
      filter (\<lambda>r. pay_user_id r = k) (t_order_payments d), filter (\<lambda>r. pm_user_id r = k) (t_payment_methods d),
      filter (\<lambda>r. s_user_id r = k) (t_subscriptions d))"

definition minds_own :: "uuid \<Rightarrow> 'a session \<Rightarrow> bool" where
  "minds_own u m \<longleftrightarrow> (\<forall>w a w' k. m w = (Inr a, w') \<longrightarrow> back_end_inv (wdb w) \<longrightarrow> k \<noteq> u \<longrightarrow> rows_of k (wdb w') = rows_of k (wdb w))"

lemma minds_ownI:
  "(\<And>w a w' k. m w = (Inr a, w') \<Longrightarrow> back_end_inv (wdb w) \<Longrightarrow> k \<noteq> u \<Longrightarrow> rows_of k (wdb w') = rows_of k (wdb w)) \<Longrightarrow>
   minds_own u m"
  by (simp add: minds_own_def)

lemma minds_ownD:
  "minds_own u m \<Longrightarrow> m w = (Inr a, w') \<Longrightarrow> back_end_inv (wdb w) \<Longrightarrow> k \<noteq> u \<Longrightarrow> rows_of k (wdb w') = rows_of k (wdb w)"
  by (simp add: minds_own_def)

lemma minds_own_discard: "minds_own u m \<Longrightarrow> minds_own u (discard m)"
  by (auto simp: minds_own_def discard_Inr)

text \<open>Writes to rows of other owners.\<close>

lemma filter_map_same:
  "(\<And>x. x \<in> set t \<Longrightarrow> f x = x \<or> (owner x \<noteq> k \<and> owner (f x) \<noteq> k)) \<Longrightarrow>
   filter (\<lambda>x. owner x = k) (map f t) = filter (\<lambda>x. owner x = k) t"
  by (induction t) (auto, metis+)

lemma filter_replace:
  assumes "distinct (row_ids t)" and "old \<in> set t" and "row_id old = row_id r" and "owner old \<noteq> k" and "owner r \<noteq> k"
  shows "filter (\<lambda>x. owner x = k) (replace_row r t) = filter (\<lambda>x. owner x = k) t"
proof -
  have "x = old" if "x \<in> set t" "row_id x = row_id r" for x
    using same_row [OF assms(1) that(1) assms(2)] that(2) assms(3) by simp
  then show ?thesis unfolding replace_row_def using assms(4,5) by (intro filter_map_same) auto
qed

lemma filter_remove:
  assumes "distinct (row_ids t)" and "old \<in> set t" and "owner old \<noteq> k"
  shows "filter (\<lambda>x. owner x = k) (remove_row (row_id old) t) = filter (\<lambda>x. owner x = k) t"
  unfolding remove_row_def filter_filter using assms(3) same_row [OF assms(1) _ assms(2)]
  by (intro filter_cong [OF refl]) auto

lemma filter_append_others:
  "(\<And>x. x \<in> set new \<Longrightarrow> owner x \<noteq> k) \<Longrightarrow> filter (\<lambda>x. owner x = k) (t @ new) = filter (\<lambda>x. owner x = k) t"
  by (simp add: filter_empty_conv)

lemma invariants:
  assumes "back_end_inv d"
  shows "distinct (row_ids (t_orders d))" "orders_ok d" "distinct (row_ids (t_payment_methods d))" "ratings_inv d"
    "subscriptions_inv d" "accounts_inv d" "distinct (row_ids (t_users d))" "distinct (row_ids (t_preferences d))"
  using assms by (auto simp: back_end_inv_def shop_inv_def orders_ok_def orders_inv_def methods_inv_def accounts_inv_def)

section \<open>Orders and payments\<close>

lemma outside_orders_rows:
  assumes "outside_orders d' = outside_orders d"
    and "filter (\<lambda>r. o_user_id r = k) (t_orders d') = filter (\<lambda>r. o_user_id r = k) (t_orders d)"
  shows "rows_of k d' = rows_of k d"
proof -
  have "t_users d' = t_users d" "t_preferences d' = t_preferences d" "t_ratings d' = t_ratings d"
    "t_order_payments d' = t_order_payments d" "t_payment_methods d' = t_payment_methods d"
    "t_subscriptions d' = t_subscriptions d"
    using assms(1) by (cases d; cases d'; simp)+
  then show ?thesis by (simp add: rows_of_def assms(2))
qed

lemma create_order_own: "minds_own u (create_order u data)"
proof (rule minds_ownI)
  fix w dto w' k
  assume run: "create_order u data w = (Inr dto, w')" and inv: "back_end_inv (wdb w)" and k: "k \<noteq> u"
  have "filter (\<lambda>r. o_user_id r = k) (t_orders (wdb w')) = filter (\<lambda>r. o_user_id r = k) (t_orders (wdb w))"
    using run
  proof (rule create_order_InrE)
    fix ls f ord v
    assume f: "choose_fulfillment data w = (Inr f, v)" and add: "repo_add u (co_order_type data) (order_total ls) ls f v = (Inr ord, w')"
    have v: "wdb v = wdb w" using f by (rule choose_fulfillment_InrE)
    from add show ?thesis using k by (auto elim!: repo_add_InrE simp: v new_order_def)
  qed
  with leavesD [OF orders_frame(1) run] show "rows_of k (wdb w') = rows_of k (wdb w)" by (rule outside_orders_rows)
qed

lemma set_status_others:
  assumes "back_end_inv d" and "lookup (t_orders d) i = Some ord" and "o_user_id ord \<noteq> k"
  shows "filter (\<lambda>r. o_user_id r = k) (t_orders (set_status t s ord d)) = filter (\<lambda>r. o_user_id r = k) (t_orders d)"
  using lookup_SomeD [OF assms(2)] assms(3) invariants(1) [OF assms(1)]
  by (simp add: set_status_def) (rule filter_replace [where old = ord]; simp)

lemma cancel_order_own: "minds_own u (cancel_order i u)"
proof (rule minds_ownI)
  fix w dto w' k
  assume run: "cancel_order i u w = (Inr dto, w')" and inv: "back_end_inv (wdb w)" and k: "k \<noteq> u"
  from run obtain ord where ord: "lookup (t_orders (wdb w)) i = Some ord" "o_user_id ord = u"
      "wdb w' = set_status (now w) CANCELLED ord (wdb w)"
    by (auto simp: cancel_order_run [OF invariants(2) [OF inv]] Let_def split: option.splits if_splits)
  with set_status_others [OF inv ord(1)] k
  have "filter (\<lambda>r. o_user_id r = k) (t_orders (wdb w')) = filter (\<lambda>r. o_user_id r = k) (t_orders (wdb w))" by simp
  with leavesD [OF orders_frame(2) run] show "rows_of k (wdb w') = rows_of k (wdb w)" by (rule outside_orders_rows)
qed

section \<open>Ratings and accounts\<close>

lemma other_ratings_rows:
  assumes "other_ratings u p d' = other_ratings u p d" and "k \<noteq> u"
  shows "filter (\<lambda>r. r_user_id r = k) (t_ratings d') = filter (\<lambda>r. r_user_id r = k) (t_ratings d)"
proof -
  have "filter (\<lambda>r. r_user_id r = k) (t_ratings x) = filter (\<lambda>r. r_user_id r = k) (other_ratings u p x)" for x
    using assms(2) by (auto simp: other_ratings_def intro!: filter_cong)
  then show ?thesis using assms(1) by simp
qed

lemma outside_ratings_rows:
  assumes "outside_ratings d' = outside_ratings d"
    and "filter (\<lambda>r. r_user_id r = k) (t_ratings d') = filter (\<lambda>r. r_user_id r = k) (t_ratings d)"
  shows "rows_of k d' = rows_of k d"
proof -
  have "t_users d' = t_users d" "t_preferences d' = t_preferences d" "t_orders d' = t_orders d"
    "t_order_payments d' = t_order_payments d" "t_payment_methods d' = t_payment_methods d"
    "t_subscriptions d' = t_subscriptions d"
    using assms(1) by (cases d; cases d'; simp)+
  then show ?thesis by (simp add: rows_of_def assms(2))
qed

lemma recalculated_ratings:
  assumes "recalculated d p agg d'"
  shows "other_ratings u q d' = other_ratings u q d"
proof -
  have "t_ratings d' = t_ratings (d\<lparr>t_product_ratings := t_product_ratings d'\<rparr>)"
    using assms unfolding recalculated_def by (elim conjE) (rule arg_cong)
  then show ?thesis by (simp add: other_ratings_def)
qed

lemma set_rating_own: "minds_own u (set_rating u p v)"
proof (rule minds_ownI)
  fix w dto w' k
  assume run: "set_rating u p v w = (Inr dto, w')" and inv: "back_end_inv (wdb w)" and k: "k \<noteq> u"
  have "other_ratings u p (wdb w') = other_ratings u p (wdb w)"
  proof (rule set_rating_step [OF run invariants(4) [OF inv]])
    fix d1 agg
    assume "rated (wdb w) u p v d1" and "recalculated d1 p agg (wdb w')"
    then show ?thesis using recalculated_ratings by (simp add: rated_def)
  qed
  then have "filter (\<lambda>r. r_user_id r = k) (t_ratings (wdb w')) = filter (\<lambda>r. r_user_id r = k) (t_ratings (wdb w))"
    using k by (rule other_ratings_rows)
  with leavesD [OF ratings_frame(1) run] show "rows_of k (wdb w') = rows_of k (wdb w)" by (rule outside_ratings_rows)
qed

lemma delete_rating_own: "minds_own u (delete_rating u p)"
proof (rule minds_ownI)
  fix w dto w' k
  assume run: "delete_rating u p w = (Inr dto, w')" and inv: "back_end_inv (wdb w)" and k: "k \<noteq> u"
  have "other_ratings u p (wdb w') = other_ratings u p (wdb w)"
  proof (rule delete_rating_step [OF run invariants(4) [OF inv]])
    fix d1 agg r
    assume "other_ratings u p d1 = other_ratings u p (wdb w)" and "recalculated d1 p agg (wdb w')"
    then show ?thesis using recalculated_ratings by simp
  qed
  then have "filter (\<lambda>r. r_user_id r = k) (t_ratings (wdb w')) = filter (\<lambda>r. r_user_id r = k) (t_ratings (wdb w))"
    using k by (rule other_ratings_rows)
  with leavesD [OF ratings_frame(2) run] show "rows_of k (wdb w') = rows_of k (wdb w)" by (rule outside_ratings_rows)
qed

lemma outside_accounts_rows:
  assumes "outside_accounts d' = outside_accounts d"
    and "filter (\<lambda>r. row_id r = k) (t_users d') = filter (\<lambda>r. row_id r = k) (t_users d)"
    and "filter (\<lambda>r. up_user_id r = k) (t_preferences d') = filter (\<lambda>r. up_user_id r = k) (t_preferences d)"
  shows "rows_of k d' = rows_of k d"
  using outside_accounts_columns [OF assms(1)] by (simp add: rows_of_def assms(2,3))

lemma update_profile_own: "minds_own u (update_profile u data)"
proof (rule minds_ownI)
  fix w a w' k
  assume run: "update_profile u data w = (Inr a, w')" and inv: "back_end_inv (wdb w)" and k: "k \<noteq> u"
  obtain r q where a: "a = (r, q)" by (cases a)
  from run [unfolded a] show "rows_of k (wdb w') = rows_of k (wdb w)"
  proof (rule update_profile_InrE)
    fix old
    assume old: "lookup (t_users (wdb w)) u = Some old" and r: "row_id r = u"
      and w': "wdb w' = t_users_update (replace_row (touch (now w) old r)) (wdb w)"
    have "filter (\<lambda>r. row_id r = k) (t_users (wdb w')) = filter (\<lambda>r. row_id r = k) (t_users (wdb w))"
      unfolding w' using lookup_SomeD [OF old] r k invariants(7) [OF inv]
      by simp (rule filter_replace [where old = old]; simp add: touch_column)
    then show ?thesis by (intro outside_accounts_rows) (simp_all add: w')
  qed
qed

lemma update_preferences_own: "minds_own u (update_preferences zone_info u data)"
proof (rule minds_ownI)
  fix w p w' k
  assume run: "update_preferences zone_info u data w = (Inr p, w')" and inv: "back_end_inv (wdb w)" and k: "k \<noteq> u"
  from run show "rows_of k (wdb w') = rows_of k (wdb w)"
  proof (rule update_preferences_InrE)
    fix old
    assume old: "preferences_of (wdb w) u = Some old" and p: "row_id p = row_id old" "up_user_id p = up_user_id old"
      and save: "save_preferences p w = (Inr (), w')"
    have mine: "old \<in> set (t_preferences (wdb w))" "up_user_id old = u"
      using old by (auto simp: preferences_of_def find_Some_iff)
    have "lookup (t_preferences (wdb w)) (row_id p) = Some old"
      using lookup_unique [OF invariants(8) [OF inv] mine(1)] p by simp
    from db_save_new [OF save this] have w': "wdb w' = t_preferences_update (replace_row (touch (now w) old p)) (wdb w)" by simp
    have "filter (\<lambda>r. up_user_id r = k) (t_preferences (wdb w')) = filter (\<lambda>r. up_user_id r = k) (t_preferences (wdb w))"
      unfolding w' using mine p k invariants(8) [OF inv]
      by simp (rule filter_replace [where old = old]; simp add: touch_column)
    then show ?thesis by (intro outside_accounts_rows) (simp_all add: w')
  qed
qed

lemma delete_account_own: "minds_own u (delete_account u mode)"
proof (rule minds_ownI)
  fix w and a :: unit and w' k
  assume run: "delete_account u mode w = (Inr a, w')" and inv: "back_end_inv (wdb w)" and k: "k \<noteq> u"
  from run have "delete_account u mode w = (Inr (), w')" by simp
  then show "rows_of k (wdb w') = rows_of k (wdb w)"
  proof (rule delete_account_InrE)
    fix x
    assume x: "lookup (t_users (wdb w)) u = Some x" and w': "w' = w\<lparr>wdb := t_users_update (replace_row (touch (now w) x (closed mode x)))
           (t_preferences_update (filter (kept_preferences mode u)) (wdb w))\<rparr>"
    have "filter (\<lambda>r. row_id r = k) (t_users (wdb w')) = filter (\<lambda>r. row_id r = k) (t_users (wdb w))"
      unfolding w' using lookup_SomeD [OF x] k invariants(7) [OF inv]
      by simp (rule filter_replace [where old = x]; simp add: touch_column)
    moreover have "filter (\<lambda>r. up_user_id r = k) (t_preferences (wdb w')) = filter (\<lambda>r. up_user_id r = k) (t_preferences (wdb w))"
      using k by (auto simp: w' kept_preferences_def intro!: filter_cong)
    ultimately show ?thesis by (intro outside_accounts_rows) (simp_all add: w')
  qed
qed

section \<open>Saved payment methods\<close>

abbreviation methods_of_user :: "uuid \<Rightarrow> database \<Rightarrow> payment_method list" where
  "methods_of_user k d \<equiv> filter (\<lambda>r. pm_user_id r = k) (t_payment_methods d)"

lemma outside_methods_rows:
  assumes "outside_methods d' = outside_methods d" and "methods_of_user k d' = methods_of_user k d"
  shows "rows_of k d' = rows_of k d"
proof -
  have "t_users d' = t_users d" "t_preferences d' = t_preferences d" "t_ratings d' = t_ratings d"
    "t_orders d' = t_orders d" "t_order_payments d' = t_order_payments d"
    "t_subscriptions d' = t_subscriptions d"
    using assms(1) by (cases d; cases d'; simp)+
  then show ?thesis by (simp add: rows_of_def assms(2))
qed

lemma clear_default_others:
  assumes "clear_default u w = (Inr x, w')" and "k \<noteq> u"
  shows "methods_of_user k (wdb w') = methods_of_user k (wdb w)"
    "row_ids (t_payment_methods (wdb w')) = row_ids (t_payment_methods (wdb w))"
proof -
  have c: "cleared t u r = r \<or> (pm_user_id r \<noteq> k \<and> pm_user_id (cleared t u r) \<noteq> k)" for t r
    using assms(2) by (simp add: cleared_def)
  from assms(1) have w': "t_payment_methods (wdb w') = map (cleared (now w) u) (t_payment_methods (wdb w))"
    by (auto elim!: clear_default_InrE)
  show "methods_of_user k (wdb w') = methods_of_user k (wdb w)" unfolding w' by (rule filter_map_same) (rule c)
  show "row_ids (t_payment_methods (wdb w')) = row_ids (t_payment_methods (wdb w))" by (simp add: w')
qed

lemma save_method_others:
  assumes "save_payment_method m w = (Inr x, w')" and "distinct (row_ids (t_payment_methods (wdb w)))"
    and "old \<in> set (t_payment_methods (wdb w))" and "row_id old = row_id m" and "pm_user_id old \<noteq> k" and "pm_user_id m \<noteq> k"
  shows "methods_of_user k (wdb w') = methods_of_user k (wdb w)"
proof -
  have "lookup (t_payment_methods (wdb w)) (row_id m) = Some old" using lookup_unique [OF assms(2,3)] assms(4) by simp
  from db_save_new [OF assms(1) this]
  have w': "t_payment_methods (wdb w') = replace_row (touch (now w) old m) (t_payment_methods (wdb w))" by simp
  show ?thesis unfolding w' using assms(4-6) by (intro filter_replace [OF assms(2,3)]) (simp_all add: touch_column)
qed

lemma promote_others:
  assumes run: "promote_latest u w = (Inr x, w')" and ids: "distinct (row_ids (t_payment_methods (wdb w)))" and k: "k \<noteq> u"
  shows "methods_of_user k (wdb w') = methods_of_user k (wdb w)"
proof (cases "sort_desc created_at (methods_of (wdb w) u)")
  case Nil
  have "w' = w" using run by (simp add: promote_latest_def Nil)
  then show ?thesis by simp
next
  case (Cons c cs)
  have "c \<in> set (methods_of (wdb w) u)"
    using Cons set_sort_desc [of created_at "methods_of (wdb w) u"] by (metis list.set_intros(1))
  then have c: "c \<in> set (t_payment_methods (wdb w))" "pm_user_id c = u" by (auto simp: methods_of_def)
  from run Cons have "save_payment_method (c\<lparr>pm_is_default := True\<rparr>) w = (Inr (), w')" by (simp add: promote_latest_def)
  then show ?thesis using ids c(1) by (rule save_method_others) (use c(2) k in simp_all)
qed

lemma set_default_own: "minds_own u (set_default u i)"
proof (rule minds_ownI)
  fix w dto w' k
  assume run: "set_default u i w = (Inr dto, w')" and inv: "back_end_inv (wdb w)" and k: "k \<noteq> u"
  from run obtain m v v' m' x y where m: "require_owned_method u i w = (Inr m, w)" and v: "clear_default u w = (Inr x, v)"
    and v': "save_payment_method (m\<lparr>pm_is_default := True\<rparr>) v = (Inr y, v')" and m': "refresh_method (row_id m) v' = (Inr m', w')"
    unfolding set_default_def by (auto elim!: bind_InrE) (auto elim!: require_owned_method_InrE)
  have w': "w' = v'" using m' by (rule refresh_method_InrE)
  have own: "m \<in> set (t_payment_methods (wdb w))" "pm_user_id m = u" using m by (auto elim: require_owned_method_InrE)
  note cleared = clear_default_others [OF v k]
  have here: "cleared (now w) u m \<in> set (t_payment_methods (wdb v))" using own(1) v by (auto elim!: clear_default_InrE)
  have "methods_of_user k (wdb v') = methods_of_user k (wdb v)"
    by (rule save_method_others [OF v' _ here]) (use cleared(2) invariants(3) [OF inv] own(2) k in \<open>simp_all\<close>)
  with cleared(1) have "methods_of_user k (wdb w') = methods_of_user k (wdb w)" by (simp add: w')
  with leavesD [OF set_default_frame run] show "rows_of k (wdb w') = rows_of k (wdb w)" by (rule outside_methods_rows)
qed

context provider_contract
begin

lemma save_method_own: "minds_own u (save_method prov u data)"
proof (rule minds_ownI)
  fix w dto w' k
  assume run: "save_method prov u data w = (Inr dto, w')" and k: "k \<noteq> u"
  from run obtain saved v mk v1 m v2 m' where saved: "provider_save_method prov (str_uuid u) (sv_intent_token data) w = (Inr saved, v)"
    and mk: "(if sv_is_default data then ret True else query (\<lambda>d. methods_of d u = [])) v = (Inr mk, v)"
    and v1: "(if mk then clear_default u else ret ()) v = (Inr (), v1)"
    and m: "add_payment_method (new_method u (pv_name prov) saved mk) v1 = (Inr m, v2)"
    and m': "refresh_method (row_id m) v2 = (Inr m', w')"
    unfolding save_method_def by (auto elim!: bind_InrE split: if_splits)
  have v: "wdb v = wdb w" using provider_same(3) [OF saved] by simp
  have w': "w' = v2" using m' by (rule refresh_method_InrE)
  have "methods_of_user k (wdb v1) = methods_of_user k (wdb v)"
    using v1 clear_default_others(1) [OF _ k, of v "()" v1] by (cases mk) auto
  moreover have "methods_of_user k (wdb w') = methods_of_user k (wdb v1)"
    using m k by (auto elim!: db_add_InrE simp: new_method_def w')
  ultimately have "methods_of_user k (wdb w') = methods_of_user k (wdb w)" by (simp add: v)
  with leavesD [OF save_method_frame run] show "rows_of k (wdb w') = rows_of k (wdb w)" by (rule outside_methods_rows)
qed

lemma delete_method_own: "minds_own u (delete_method prov u i)"
proof (rule minds_ownI)
  fix w and a :: unit and w' k
  assume run: "delete_method prov u i w = (Inr a, w')" and inv: "back_end_inv (wdb w)" and k: "k \<noteq> u"
  from run obtain m v v1 x y where m: "require_owned_method u i w = (Inr m, w)"
    and v: "provider_delete_method prov (pm_token m) w = (Inr x, v)"
    and v1: "db_delete t_payment_methods_update (\<lambda>_ _. False) (row_id m) v = (Inr y, v1)"
    and rest: "(if pm_is_default m then promote_latest u else ret ()) v1 = (Inr a, w')"
    unfolding delete_method_def by (auto elim!: bind_InrE) (auto elim!: require_owned_method_InrE)
  have own: "m \<in> set (t_payment_methods (wdb w))" "pm_user_id m = u" using m by (auto elim: require_owned_method_InrE)
  have db: "wdb v = wdb w" using provider_same(4) [OF v] by simp
  have t1: "t_payment_methods (wdb v1) = remove_row (row_id m) (t_payment_methods (wdb w))"
    using v1 by (auto elim!: db_delete_InrE simp: db)
  have "methods_of_user k (wdb v1) = methods_of_user k (wdb w)"
    unfolding t1 by (rule filter_remove [OF invariants(3) [OF inv] own(1)]) (use own(2) k in simp)
  moreover have "methods_of_user k (wdb w') = methods_of_user k (wdb v1)"
    using rest promote_others [of u v1 a w' k] distinct_remove [OF invariants(3) [OF inv]] k
    by (cases "pm_is_default m") (auto simp: t1)
  ultimately have "methods_of_user k (wdb w') = methods_of_user k (wdb w)" by simp
  with leavesD [OF delete_method_frame run] show "rows_of k (wdb w') = rows_of k (wdb w)" by (rule outside_methods_rows)
qed

lemma charge_own: "minds_own u (charge_for_order prov u i m)"
proof (rule minds_ownI)
  fix w dto w' k
  assume run: "charge_for_order prov u i m w = (Inr dto, w')" and inv: "back_end_inv (wdb w)" and k: "k \<noteq> u"
  from run show "rows_of k (wdb w') = rows_of k (wdb w)"
  proof (rule charge_effect)
    fix ord p
    assume ord: "lookup (t_orders (wdb w)) i = Some ord" "o_user_id ord = u" and p: "pay_user_id p = u"
      and w': "wdb w' = (if pay_status p = PayCOMPLETED then set_status (now w) CONFIRMED ord (wdb w) else wdb w)
           \<lparr>t_order_payments := t_order_payments (wdb w) @ [p]\<rparr>"
    have "filter (\<lambda>r. o_user_id r = k) (t_orders (wdb w')) = filter (\<lambda>r. o_user_id r = k) (t_orders (wdb w))"
      using set_status_others [OF inv ord(1)] ord(2) k by (simp add: w')
    then show ?thesis using p k by (simp add: rows_of_def w' set_status_def)
  qed
qed

end

section \<open>Subscriptions\<close>

abbreviation subscriptions_of :: "uuid \<Rightarrow> database \<Rightarrow> subscription list" where
  "subscriptions_of k d \<equiv> filter (\<lambda>r. s_user_id r = k) (t_subscriptions d)"

abbreviation outside_subscriptions :: "database \<Rightarrow> database" where
  "outside_subscriptions d \<equiv> d\<lparr>t_subscriptions := [], t_sub_delivery := [], t_events := [], t_sub_products := [], t_sub_payments := []\<rparr>"

lemma outside_subscriptions_rows:
  assumes "outside_subscriptions d' = outside_subscriptions d" and "subscriptions_of k d' = subscriptions_of k d"
  shows "rows_of k d' = rows_of k d"
proof -
  have "t_users d' = t_users d" "t_preferences d' = t_preferences d" "t_ratings d' = t_ratings d"
    "t_orders d' = t_orders d" "t_order_payments d' = t_order_payments d" "t_payment_methods d' = t_payment_methods d"
    using assms(1) by (cases d; cases d'; simp)+
  then show ?thesis by (simp add: rows_of_def assms(2))
qed

lemma on_subscription_others:
  assumes "subscriptions_inv d" and "lookup (t_subscriptions d) i = Some s" and "s_user_id s \<noteq> k"
  shows "filter (\<lambda>r. s_user_id r = k) (map (on {i} (set_sub_status t st)) (t_subscriptions d)) = subscriptions_of k d"
proof (rule filter_map_same)
  fix r
  assume r: "r \<in> set (t_subscriptions d)"
  note s = lookup_SomeD [OF assms(2)]
  show "on {i} (set_sub_status t st) r = r \<or> (s_user_id r \<noteq> k \<and> s_user_id (on {i} (set_sub_status t st) r) \<noteq> k)"
    using same_row [OF subscriptions_invD(1) [OF assms(1)] r] s assms(3) by (auto simp: on_def)
qed

lemma switching_own:
  assumes run: "switching src err st old new i u w = (Inr dto, w')" and inv: "back_end_inv (wdb w)"
    and change: "src \<noteq> st" "new \<notin> old" and k: "k \<noteq> u"
  shows "rows_of k (wdb w') = rows_of k (wdb w)"
  using run invariants(5) [OF inv] change
proof (rule switching_InrE)
  fix s a
  assume s: "lookup (t_subscriptions (wdb w)) i = Some s" "s_user_id s = u"
    and w': "w' = w\<lparr>wdb := switched (now w) i st old new (wdb w)\<rparr>"
  show ?thesis
    using on_subscription_others [OF invariants(5) [OF inv] s(1)] s(2) k
    by (intro outside_subscriptions_rows) (simp_all add: w' switched_def)
qed

lemma pause_resume_own: "minds_own u (pause_subscription i u)" "minds_own u (resume_subscription i u)"
  by (rule minds_ownI, rule switching_own, auto simp: pause_resume_switching)+

context provider_contract
begin

lemma charge_activate_rows:
  assumes run: "charge_and_activate prov a m w = (Inr x, w')" and inv: "subscriptions_inv (wdb w)"
    and load: "load_subscription (wdb w) i = Some a" and st: "s_status (sa_sub a) = SubPENDING"
  shows "outside_subscriptions (wdb w') = outside_subscriptions (wdb w) \<and>
    (\<exists>t. t_subscriptions (wdb w') = map (on {i} (set_sub_status t SubACTIVE)) (t_subscriptions (wdb w)))"
proof -
  from run obtain w1 where charge: "charge_subscription_upfront prov a (Some m) w = (Inr True, w1)"
    and save: "save_subscription ((sa_sub a)\<lparr>s_status := SubACTIVE\<rparr>) w1 = (Inr x, w')"
    by (auto simp: charge_and_activate_def require_run elim!: bind_InrE split: if_splits)
  from charge obtain ps where w1: "wdb w1 = t_sub_payments_update (\<lambda>t. t @ ps) (wdb w)"
  proof (cases rule: charge_upfront_InrE)
    case empty
    then show thesis by (intro that [of "[]"]) simp
  next
    case declined
    then show thesis by simp
  next
    case (charged res v xs)
    have "wdb w1 = t_sub_payments_update (\<lambda>t. t @ xs) (wdb w)" by (subst charged(8)) simp
    then show thesis by (rule that)
  qed
  have "w' = w1\<lparr>wdb := t_subscriptions_update (map (on {i} (set_sub_status (now w1) SubACTIVE))) (wdb w1)\<rparr>"
    by (rule activate_InrE [OF save load _ _ st]) (use subscriptions_invD(1) [OF inv] in \<open>simp_all add: w1\<close>)
  then have w': "wdb w' = t_subscriptions_update (map (on {i} (set_sub_status (now w1) SubACTIVE))) (wdb w1)" by simp
  then show ?thesis by (auto simp: w1)
qed

lemma charge_activate_own:
  assumes run: "charge_and_activate prov a m w = (Inr x, w')" and inv: "subscriptions_inv (wdb w)"
    and load: "load_subscription (wdb w) i = Some a" and st: "s_status (sa_sub a) = SubPENDING"
    and own: "s_user_id (sa_sub a) \<noteq> k"
  shows "rows_of k (wdb w') = rows_of k (wdb w)"
proof -
  from load obtain s where s: "lookup (t_subscriptions (wdb w)) i = Some s" "sa_sub a = s"
    by (auto simp: load_subscription_Some sub_aggregate_events)
  from charge_activate_rows [OF run inv load st] on_subscription_others [OF inv s(1)] own s(2)
  show ?thesis by (auto intro!: outside_subscriptions_rows)
qed

lemma pay_subscription_own: "minds_own u (pay_subscription (Some prov) i u n)"
proof (rule minds_ownI)
  fix w dto w' k
  assume run: "pay_subscription (Some prov) i u n w = (Inr dto, w')" and inv: "back_end_inv (wdb w)" and k: "k \<noteq> u"
  from run show "rows_of k (wdb w') = rows_of k (wdb w)"
  proof (rule pay_subscription_InrE)
    fix pr s a m a'
    assume "Some prov = Some pr" and s: "s_user_id s = u" "s_status s = SubPENDING" "a = sub_aggregate (wdb w) s"
      and load: "load_subscription (wdb w) i = Some a" and c: "charge_and_activate pr a m w = (Inr (), w')"
    then have "charge_and_activate prov a m w = (Inr (), w')" by simp
    then show ?thesis using invariants(5) [OF inv] load
      by (rule charge_activate_own) (use s k in \<open>simp_all add: sub_aggregate_events\<close>)
  qed
qed

lemma cancel_subscription_own: "minds_own u (cancel_subscription (Some prov) i u)"
proof (rule minds_ownI)
  fix w dto w' k
  assume run: "cancel_subscription (Some prov) i u w = (Inr dto, w')" and inv: "back_end_inv (wdb w)" and k: "k \<noteq> u"
  from run invariants(5) [OF inv] provider_contract_axioms show "rows_of k (wdb w') = rows_of k (wdb w)"
  proof (rule cancel_subscription_InrE)
    fix s a a' v n
    assume s: "lookup (t_subscriptions (wdb w)) i = Some s" "s_user_id s = u"
      and v: "wdb v = t_sub_payments_update (map (on (set (row_ids (refundable a (wdb w)))) (mark_refunded (now w)))) (wdb w)"
      and w': "w' = v\<lparr>wdb := switched (now w) i SubCANCELLED {EvPENDING, EvPAUSED, EvREADY} EvCANCELLED (wdb v)\<rparr>"
    show ?thesis
      using on_subscription_others [OF invariants(5) [OF inv] s(1)] s(2) k
      by (intro outside_subscriptions_rows) (simp_all add: w' v switched_def)
  qed
qed

lemma create_subscription_own: "minds_own u (create_subscription (Some prov) u data)"
proof (rule minds_ownI)
  fix w dto w' k
  assume run: "create_subscription (Some prov) u data w = (Inr dto, w')" and inv: "back_end_inv (wdb w)" and k: "k \<noteq> u"
  have subs: "subscriptions_inv (wdb w)" by (rule invariants(5) [OF inv])
  have schedule: "rows_of k (wdb v) = rows_of k (wdb w) \<and> s_user_id s = u"
    if "schedule_subscription u data p w = (Inr s, v)" for p s v
    using that
  proof (rule schedule_InrE)
    fix dl es ps i
    assume s: "s = new_subscription u (cs_frequency data) (row_id s) (now w)"
      and v: "wdb v = t_sub_products_update (\<lambda>t. t @ ps) (t_events_update (\<lambda>t. t @ es)
           (t_sub_delivery_update (\<lambda>t. t @ [dl]) (t_subscriptions_update (\<lambda>t. t @ [s]) (wdb w))))"
    have "s_user_id s = u" by (subst s) (simp add: new_subscription_def)
    then show ?thesis using k by (intro conjI outside_subscriptions_rows) (simp_all add: v)
  qed
  from run show "rows_of k (wdb w') = rows_of k (wdb w)"
  proof (cases rule: create_subscription_InrE)
    case (unpaid p s a)
    then show ?thesis using schedule by blast
  next
    case (paid p s v a pr n m a')
    note loaded = schedule_loaded [OF paid(5,6)]
    have c: "charge_and_activate prov a m v = (Inr (), w')" using paid(4,8) by simp
    have inv': "subscriptions_inv (wdb v)" by (rule preservesD [OF schedule_keeps paid(5) subs])
    have "s_user_id (sa_sub a) = u"
      using schedule [OF paid(5)] unfolding loaded(1) sub_aggregate_events by blast
    then have "rows_of k (wdb w') = rows_of k (wdb v)"
      using k by (intro charge_activate_own [OF c inv' paid(6) loaded(2)]) simp
    then show ?thesis using schedule [OF paid(5)] by simp
  qed
qed

end

section \<open>All requests of a user\<close>

lemmas requests_own = create_order_own cancel_order_own set_rating_own delete_rating_own update_profile_own
  update_preferences_own delete_account_own set_default_own pause_resume_own

lemma user_request_own:
  assumes "provider_contract (be_provider b)" and "credential_of r = Bearer c"
  shows "minds_own u (run_request (be_provider b) (request_by b u r))"
  using assms(2) provider_contract.save_method_own [OF assms(1)] provider_contract.delete_method_own [OF assms(1)]
    provider_contract.charge_own [OF assms(1)] provider_contract.pay_subscription_own [OF assms(1)]
    provider_contract.cancel_subscription_own [OF assms(1)] provider_contract.create_subscription_own [OF assms(1)]
  by (cases r) (simp_all add: minds_own_discard requests_own)

end
