(* ===== verification/RoutesProperties.thy ===== *)
theory RoutesProperties
  imports Isolation SystemProperties
begin

text \<open>
  What clients can rely on: a request that is not authorised changes nothing, and a request that
  is served has the effect of the operation it stands for, run as the caller it proves to be.
\<close>

section \<open>Authorisation\<close>

text \<open>
  C5: nobody changes anything without the right credential. When the token is missing, does not
  verify, or belongs to no active account, when the service token or the operator is not the
  configured one, when the callback is not signed by the provider or the login code is not
  redeemed, the request fails and neither the database nor the audit log nor the provider sees
  anything of it.
\<close>

theorem unauthorised_requests_change_nothing:
  assumes "\<And>u. \<not> acts_as b w (credential_of r) u"
  shows "\<exists>e. serve b r w = (Inl e, w)"
  using assms
  by (cases r) (auto simp: user_endpoint_defs account_endpoints admin_endpoint_defs simp del: acts_as.simps intro: user_refused admin_refused other_refused)

section \<open>Refinement\<close>

text \<open>Building the response adds nothing.\<close>

lemma discard_response:
  "discard (bind m (\<lambda>(x, y). of_sum (g x y))) w = (Inr (), w') \<Longrightarrow> discard m w = (Inr (), w')"
  "discard (bind m' (\<lambda>a. ret (f a))) w = discard m' w"
  by (auto simp: discard_Inr of_sum_def elim!: bind_InrE split: sum.splits)
    (auto simp: discard_def bind_def split: sum.splits prod.splits)

lemma served_user:
  assumes "serve b r w = (Inr (), w')" and "credential_of r = Bearer c"
  shows "\<exists>u. acts_as b w (Bearer c) u \<and> run_request (be_provider b) (request_by b u r) w = (Inr (), w')"
  using assms
  by (cases r) (auto simp: user_endpoint_defs account_endpoints refused_body discard_response(2) simp del: acts_as.simps
      dest!: user_handler split: if_splits dest: discard_response(1))

lemma served_admin:
  assumes "serve b r w = (Inr (), w')" and "credential_of r = ServiceHeaders t who who_role"
  shows "acts_as b w (ServiceHeaders t who who_role) u \<and>
    (\<exists>v. run_request (be_provider b) (request_by b u r) w = (Inr (), v) \<and> wdb v = wdb w')"
proof -
  have kept: "leaves wdb (ret a)" for a :: "'z" by (simp add: evolves_def)
  note audited = admin_handler [OF _ audit_keeps_db(1) kept] admin_handler [OF _ audit_keeps_db(2) kept]
    admin_handler [OF _ audit_keeps_db(3) kept] admin_handler_last [OF _ audit_keeps_db(1)]
    admin_handler_last [OF _ audit_keeps_db(2)] admin_handler_last [OF _ audit_keeps_db(3)]
  show ?thesis
    using assms
    by (cases r) (auto simp: admin_endpoint_defs refused_body validated_def require_def simp del: acts_as.simps
      dest!: audited intro: acts_for_admin split: if_splits)
qed

lemma served_by_service:
  "serve b (PostPaymentCallback raw sig) w = (Inr (), w') \<Longrightarrow> acts_as b w (SignedBody raw sig) u \<and>
     run_request (be_provider b) (request_by b u (PostPaymentCallback raw sig)) w = (Inr (), w')"
  "serve b (PostAuthSession answer) w = (Inr (), w') \<Longrightarrow> acts_as b w (LoginCode answer) u \<and>
     run_request (be_provider b) (request_by b u (PostAuthSession answer)) w = (Inr (), w')"
  by (auto simp: discard_Inr payment_callback_endpoint_def payment_callback_def unit_of_work_Inr bind_of_sum
      require_def create_session_def open_session_def sign_in_def elim!: bind_InrE split: sum.splits if_splits)

lemma served_effect:
  assumes run: "serve b r w = (Inr (), w')"
  shows "\<exists>u v. acts_as b w (credential_of r) u \<and>
    run_request (be_provider b) (request_by b u r) w = (Inr (), v) \<and> wdb v = wdb w'"
proof (cases "credential_of r")
  case (Bearer c)
  then show ?thesis using served_user [OF run, of c] by auto
next
  case (ServiceHeaders t who k)
  then show ?thesis using served_admin [OF run, of t who k] by auto
next
  case (SignedBody raw sig)
  then have "r = PostPaymentCallback raw sig" by (cases r) auto
  then show ?thesis using served_by_service(1) run by fastforce
next
  case (LoginCode answer)
  then have "r = PostAuthSession answer" by (cases r) auto
  then show ?thesis using served_by_service(2) run by fastforce
qed

text \<open>
  C6: serving is a refinement of the system. A request that fails leaves the database as it was;
  one that succeeds carried a valid credential, and the database is the one that the system's
  operation leaves for the user as whom the credential acts, whatever else the client sent.
\<close>

theorem serving_refines_the_system:
  assumes "serve b r w = (x, w')"
  shows "case x of
      Inl _ \<Rightarrow> wdb w' = wdb w
    | Inr _ \<Rightarrow> (\<exists>u v. acts_as b w (credential_of r) u \<and>
        run_request (be_provider b) (request_by b u r) w = (Inr (), v) \<and> wdb v = wdb w')"
proof (cases x)
  case (Inl e)
  then show ?thesis using serve_atomic assms unfolding atomic_def by auto
next
  case (Inr a)
  then show ?thesis using served_effect [of b r w w'] assms by simp
qed

section \<open>Runs of the service\<close>

lemma request_sound:
  assumes prov: "provider_contract (be_provider b)" and inv: "back_end_inv (wdb w)" and run: "serve b r w = (x, w')"
  shows "back_end_inv (wdb w') \<and> moves (wdb w) (wdb w')"
proof (cases x)
  case (Inl e)
  then show ?thesis using serve_atomic run inv by (auto simp: atomic_def moves_same)
next
  case (Inr a)
  then obtain u v where v: "run_request (be_provider b) (request_by b u r) w = (Inr (), v)" "wdb v = wdb w'"
    using served_effect run by (metis old.unit.exhaust)
  from sound_requestD [OF provider_contract.run_request_sound [OF prov] v(1) inv] v(2) show ?thesis by simp
qed

lemma served_sound:
  assumes prov: "provider_contract (be_provider b)" and step: "served b w w'" and inv: "back_end_inv (wdb w)"
  shows "back_end_inv (wdb w') \<and> moves (wdb w) (wdb w')"
  using step
proof cases
  case (request t r us rs x)
  from request_sound [OF prov _ request(2)] inv show ?thesis by simp
next
  case (scheduler t today us rs x)
  then have "shop_step (be_provider b) w w'" by (rule shop_step.request)
  then show ?thesis using shop_step_sound [OF prov] inv by blast
qed

lemma served_run_sound:
  assumes prov: "provider_contract (be_provider b)" and inv: "back_end_inv (wdb w0)" and run: "(served b)\<^sup>*\<^sup>* w0 w"
  shows "back_end_inv (wdb w) \<and> moves (wdb w0) (wdb w)"
  using run
proof (induction rule: rtranclp_induct)
  case (step w w')
  then show ?case using served_sound [OF prov, of w w'] moves_trans by blast
qed (simp add: inv moves_same)

text \<open>
  C3: no sequence of HTTP requests, with whatever tokens, headers, signatures and bodies, and no
  interleaving with the scheduler breaks the shop: starting from a new database every reachable
  state satisfies the invariants of all components, and from any consistent state on every order,
  payment, subscription and delivery only follows its status machine.
\<close>

theorem served_shop_stays_consistent:
  assumes "provider_contract (be_provider b)" and "(served b)\<^sup>*\<^sup>* w0 w"
  shows "(new_database (wdb w0) \<longrightarrow> back_end_inv (wdb w)) \<and>
    (back_end_inv (wdb w0) \<longrightarrow> back_end_inv (wdb w) \<and> moves (wdb w0) (wdb w))"
  using served_run_sound [OF assms(1) _ assms(2)] new_database_inv [of "wdb w0"] by blast

section \<open>Isolation\<close>


section \<open>Witnesses\<close>

text \<open>A back end on which two tokens prove the identities of the sample shop's two users.\<close>

definition sample_backend :: backend where
  "sample_backend = \<lparr>be_settings = sample_settings, be_provider = fake_provider sample_settings,
     be_verify = (\<lambda>token. if token = ''ada'' then Inr 501 else if token = ''bob'' then Inr 502 else Inl TypeError),
     be_zones = (\<lambda>_. ZoneFound), be_parse = (\<lambda>_. Inl TypeError), be_redeem = (\<lambda>_. Some (sample_tokens 999))\<rparr>"

lemma ada_acts: "acts_as sample_backend system_world (Bearer (Some ''ada'')) u \<longleftrightarrow> u = 1"
  by (auto simp: sample_backend_def user_by_auth_def system_defs)

lemma unauthorised_requests_change_nothing_witness:
  "(\<exists>e. serve sample_backend (PostOrderCancel (Some ''eve'') 40) system_world = (Inl e, system_world)) \<and>
   (\<exists>e. serve sample_backend (DeleteAdminProduct (Some ''guess'') (Some ''eve'') None 10) system_world = (Inl e, system_world))"
  using unauthorised_requests_change_nothing [of sample_backend system_world "PostOrderCancel (Some ''eve'') 40"]
    unauthorised_requests_change_nothing [of sample_backend system_world "DeleteAdminProduct (Some ''guess'') (Some ''eve'') None 10"]
  by (simp add: sample_backend_def sample_settings_def)

lemma sample_cancel:
  "\<exists>w'. serve sample_backend (PostOrderCancel (Some ''ada'') 40) system_world = (Inr (), w') \<and>
     map o_status (t_orders (wdb w')) = [CANCELLED, COMPLETED]"
proof -
  let ?o = "sample_order 40 1 DELIVERY CREATED"
  let ?d = "set_status (now system_world) CANCELLED ?o (wdb system_world)"
  have o: "lookup (t_orders (wdb system_world)) 40 = Some ?o" "o_user_id ?o = 1" "o_status ?o = CREATED"
    by (simp_all add: system_defs)
  have "orders_ok ?d" using o by (intro set_status_ok [OF system_orders_ok o(1)])
  then obtain dto where "order_dto (aggregate ?d (?o\<lparr>o_status := CANCELLED, updated_at := now system_world\<rparr>)) = Inr dto"
    using order_dto_total unfolding orders_ok_def by blast
  then have run: "cancel_order 40 1 system_world = (Inr dto, system_world\<lparr>wdb := ?d\<rparr>)"
    unfolding cancel_order_run [OF system_orders_ok] by (simp add: o Let_def del: One_nat_def)
  have "require_auth (be_verify sample_backend) (Some ''ada'') system_world = (Inr (sample_user 1), system_world)"
    unfolding acts_as_require_auth by (simp add: sample_backend_def user_by_auth_def system_defs)
  then have "serve sample_backend (PostOrderCancel (Some ''ada'') 40) system_world = (Inr (), system_world\<lparr>wdb := ?d\<rparr>)"
    using run by (simp add: cancel_order_endpoint_def for_user_def unit_of_work_def bind_def discard_def sample_user_def)
  then show ?thesis by (simp add: set_status_def replace_row_def system_defs)
qed

lemma serving_refines_the_system_witness:
  "\<exists>w' v. serve sample_backend (PostOrderCancel (Some ''ada'') 40) system_world = (Inr (), w') \<and>
     run_request (be_provider sample_backend) (CancelOrder 40 1) system_world = (Inr (), v) \<and> wdb v = wdb w'"
proof -
  obtain w' where w': "serve sample_backend (PostOrderCancel (Some ''ada'') 40) system_world = (Inr (), w')"
    using sample_cancel by blast
  from serving_refines_the_system [OF w'] obtain u v where "acts_as sample_backend system_world (Bearer (Some ''ada'')) u"
    and v: "run_request (be_provider sample_backend) (CancelOrder 40 u) system_world = (Inr (), v)" "wdb v = wdb w'"
    unfolding sum.case credential_of.simps request_by.simps by blast
  then have "u = 1" by (simp only: ada_acts)
  with v w' show ?thesis by blast
qed


lemma served_shop_stays_consistent_witness:
  "\<exists>w. served sample_backend new_world w \<and> length (t_users (wdb w)) = 1 \<and> back_end_inv (wdb w)"
proof -
  have "begin_request (now new_world) (\<lambda>n. 1000 + n) (\<lambda>n. 123456 + n) new_world = new_world"
    by (simp add: begin_request_def new_world_def sample_world_def)
  moreover obtain w where "run_request (be_provider sample_backend) (SignIn (Inr (sample_tokens 999))) new_world = (Inr (), w)"
      and one: "length (t_users (wdb w)) = 1"
    using first_session by blast
  then have "serve sample_backend (PostAuthSession sample_answer) new_world = (Inr (), w)"
    using sample_exchange [of 999] by (auto simp: sample_backend_def create_session_def discard_Inr unit_of_work_Inr)
  ultimately have "served sample_backend new_world w" using served.request [OF order_refl] by metis
  moreover have "provider_contract (be_provider sample_backend)"
    unfolding sample_backend_def backend.select_convs by (rule fake.provider_contract_axioms)
  from served_shop_stays_consistent [OF this r_into_rtranclp, OF \<open>served sample_backend new_world w\<close>] new_world
  have "back_end_inv (wdb w)" by blast
  ultimately show ?thesis using one by blast
qed

end
