(* ===== verification/Ddl.thy ===== *)
theory Ddl
  imports Schema
begin

text \<open>
  Schemas as the mapped classes declare them and as the operations of Alembic change them: tables
  with typed columns, keys, checks and indexes. An operation that PostgreSQL refuses yields
  \<open>None\<close>. Rows are not part of a schema.
\<close>

section \<open>Tables\<close>

datatype sql_type =
    SaUuid | SaString nat | SaChar nat | SaText | SaBoolean | SaDateTime | SaDate | SaNumeric nat nat
  | SaSmallInteger | SaInteger | SaJsonb

datatype column = Column (col_name: string) (col_type: sql_type) (nullable: bool) (server_default: "string option")

datatype key_or_check =
    PrimaryKey "string list"
  | UniqueKey "string list"
  | ForeignKey "string list" string "string list" "string option"
  | CheckThat string

datatype index = Index (index_on: "string list") (index_unique: bool) (index_using: "string option")

datatype relation = Relation (rel_name: string) (rel_columns: "column list")
  (rel_constraints: "(string \<times> key_or_check) list") (rel_indexes: "(string \<times> index) list")

abbreviation btree :: "string list \<Rightarrow> index" where "btree es \<equiv> Index es False None"

abbreviation required :: "string \<Rightarrow> sql_type \<Rightarrow> column" where "required n ty \<equiv> Column n ty False None"
abbreviation optional :: "string \<Rightarrow> sql_type \<Rightarrow> column" where "optional n ty \<equiv> Column n ty True None"
abbreviation defaulted :: "string \<Rightarrow> sql_type \<Rightarrow> string \<Rightarrow> column" where "defaulted n ty d \<equiv> Column n ty False (Some d)"

definition quoted :: "string \<Rightarrow> string" where
  "quoted s = CHR 0x27 # s @ [CHR 0x27]"

definition generated_id :: column where
  "generated_id = defaulted ''id'' SaUuid ''gen_random_uuid()''"

text \<open>The columns of \<open>TimestampMixin\<close>.\<close>

definition timestamps :: "column list" where
  "timestamps = [defaulted ''created_at'' SaDateTime ''now()'', defaulted ''updated_at'' SaDateTime ''now()'']"

section \<open>Names\<close>

text \<open>
  The name of a constraint is missing, given, or given with \<open>op.f\<close>, which exempts it from the
  naming convention of the metadata. The convention builds missing names, and the names of
  CHECK constraints from the given ones.
\<close>

datatype constraint_name = Unnamed | Plain string | Final string

fun conventional_name :: "string \<Rightarrow> key_or_check \<Rightarrow> constraint_name \<Rightarrow> string option" where
  "conventional_name t k (Final n) = Some n"
| "conventional_name t (CheckThat sql) (Plain n) = Some (''ck_'' @ t @ ''_'' @ n)"
| "conventional_name t (CheckThat sql) Unnamed = None"
| "conventional_name t (PrimaryKey cs) (Plain n) = Some n"
| "conventional_name t (PrimaryKey cs) Unnamed = Some (''pk_'' @ t)"
| "conventional_name t (UniqueKey cs) (Plain n) = Some n"
| "conventional_name t (UniqueKey cs) Unnamed = Some (''uq_'' @ t @ ''_'' @ hd cs)"
| "conventional_name t (ForeignKey cs r rs a) (Plain n) = Some n"
| "conventional_name t (ForeignKey cs r rs a) Unnamed = Some (''fk_'' @ t @ ''_'' @ hd cs @ ''_'' @ r)"

fun name_constraints :: "string \<Rightarrow> (constraint_name \<times> key_or_check) list \<Rightarrow> (string \<times> key_or_check) list option" where
  "name_constraints t [] = Some []"
| "name_constraints t ((n, k) # ks) =
     (case (conventional_name t k n, name_constraints t ks) of
        (Some n', Some ks') \<Rightarrow> Some ((n', k) # ks')
      | _ \<Rightarrow> None)"

text \<open>Indexes, and the keys that have one, share the name space of the tables.\<close>

fun indexed :: "key_or_check \<Rightarrow> bool" where
  "indexed (PrimaryKey cs) = True"
| "indexed (UniqueKey cs) = True"
| "indexed (ForeignKey cs r rs a) = False"
| "indexed (CheckThat sql) = False"

fun key_names :: "(string \<times> key_or_check) list \<Rightarrow> string list" where
  "key_names [] = []"
| "key_names ((n, k) # ks) = (if indexed k then n # key_names ks else key_names ks)"

fun relation_names :: "relation list \<Rightarrow> string list" where
  "relation_names [] = []"
| "relation_names (Relation t cs ks ixs # s) = t # key_names ks @ map fst ixs @ relation_names s"

fun in_list :: "string list \<Rightarrow> string \<Rightarrow> bool" where
  "in_list [] n = False"
| "in_list (m # ms) n = (m = n \<or> in_list ms n)"

fun all_in :: "string list \<Rightarrow> string list \<Rightarrow> bool" where
  "all_in ns [] = True"
| "all_in ns (m # ms) = (in_list ns m \<and> all_in ns ms)"

fun all_different :: "string list \<Rightarrow> bool" where
  "all_different [] = True"
| "all_different (m # ms) = (\<not> in_list ms m \<and> all_different ms)"

fun none_in :: "string list \<Rightarrow> string list \<Rightarrow> bool" where
  "none_in ns [] = True"
| "none_in ns (m # ms) = (\<not> in_list ns m \<and> none_in ns ms)"

section \<open>Operations\<close>

datatype constraint_kind = CheckKind | ForeignKind | UniqueKind

datatype operation =
    CreateTable string "column list" "(constraint_name \<times> key_or_check) list"
  | DropTable string
  | CreateIndex string string index
  | DropIndex string string
  | AddColumn string column
  | DropColumn string string
  | AddConstraint string constraint_name key_or_check
  | DropConstraint string constraint_kind constraint_name
  | RenameTable string string
  | RenameColumn string string string
  | RenameConstraint string string string
  | RenameIndex string string
  | SetNotNull string string
  | BackfillCategoryTypes

definition column_names :: "relation \<Rightarrow> string list" where
  "column_names r = map col_name (rel_columns r)"

definition constraint_names :: "relation \<Rightarrow> string list" where
  "constraint_names r = map fst (rel_constraints r)"

fun table_exists :: "string \<Rightarrow> relation list \<Rightarrow> bool" where
  "table_exists t [] = False"
| "table_exists t (r # s) = (rel_name r = t \<or> table_exists t s)"

text \<open>A foreign key refers to a primary or unique key of the other table.\<close>

fun is_key :: "string list \<Rightarrow> (string \<times> key_or_check) list \<Rightarrow> bool" where
  "is_key cs [] = False"
| "is_key cs ((n, k) # ks) = (k = PrimaryKey cs \<or> k = UniqueKey cs \<or> is_key cs ks)"

fun key_exists :: "string \<Rightarrow> string list \<Rightarrow> relation list \<Rightarrow> bool" where
  "key_exists t cs [] = False"
| "key_exists t cs (r # s) = (if rel_name r = t then is_key cs (rel_constraints r) else key_exists t cs s)"

fun legal_constraint :: "relation list \<Rightarrow> string list \<Rightarrow> key_or_check \<Rightarrow> bool" where
  "legal_constraint s columns (PrimaryKey cs) = all_in columns cs"
| "legal_constraint s columns (UniqueKey cs) = all_in columns cs"
| "legal_constraint s columns (ForeignKey cs t rs a) = (all_in columns cs \<and> key_exists t rs s)"
| "legal_constraint s columns (CheckThat sql) = True"

fun legal_constraints :: "relation list \<Rightarrow> string list \<Rightarrow> (string \<times> key_or_check) list \<Rightarrow> bool" where
  "legal_constraints s columns [] = True"
| "legal_constraints s columns ((n, k) # ks) = (legal_constraint s columns k \<and> legal_constraints s columns ks)"

text \<open>What the constraints of other tables refer to.\<close>

fun refers_to :: "string \<Rightarrow> (string \<times> key_or_check) list \<Rightarrow> bool" where
  "refers_to t [] = False"
| "refers_to t ((n, ForeignKey cs r rs a) # ks) = (r = t \<or> refers_to t ks)"
| "refers_to t (_ # ks) = refers_to t ks"

fun referenced :: "string \<Rightarrow> relation list \<Rightarrow> bool" where
  "referenced t [] = False"
| "referenced t (r # s) = ((rel_name r \<noteq> t \<and> refers_to t (rel_constraints r)) \<or> referenced t s)"

fun refers_to_column :: "string \<Rightarrow> string \<Rightarrow> (string \<times> key_or_check) list \<Rightarrow> bool" where
  "refers_to_column t c [] = False"
| "refers_to_column t c ((n, ForeignKey cs r rs a) # ks) = ((r = t \<and> in_list rs c) \<or> refers_to_column t c ks)"
| "refers_to_column t c (_ # ks) = refers_to_column t c ks"

fun column_referenced :: "string \<Rightarrow> string \<Rightarrow> relation list \<Rightarrow> bool" where
  "column_referenced t c [] = False"
| "column_referenced t c (r # s) = (refers_to_column t c (rel_constraints r) \<or> column_referenced t c s)"

fun mentions :: "string \<Rightarrow> key_or_check \<Rightarrow> bool" where
  "mentions c (PrimaryKey cs) = in_list cs c"
| "mentions c (UniqueKey cs) = in_list cs c"
| "mentions c (ForeignKey cs r rs a) = in_list cs c"
| "mentions c (CheckThat sql) = False"

text \<open>Changing one table, and removing one.\<close>

fun update_relation :: "string \<Rightarrow> (relation \<Rightarrow> relation option) \<Rightarrow> relation list \<Rightarrow> relation list option" where
  "update_relation t f [] = None"
| "update_relation t f (r # s) =
     (if rel_name r = t then map_option (\<lambda>r'. r' # s) (f r) else map_option (Cons r) (update_relation t f s))"

fun remove_relation :: "string \<Rightarrow> relation list \<Rightarrow> relation list" where
  "remove_relation t [] = []"
| "remove_relation t (r # s) = (if rel_name r = t then s else r # remove_relation t s)"

text \<open>What renaming a table or a column does to the constraints that mention it.\<close>

fun retarget :: "string \<Rightarrow> string \<Rightarrow> key_or_check \<Rightarrow> key_or_check" where
  "retarget a b (ForeignKey cs r rs x) = ForeignKey cs (if r = a then b else r) rs x"
| "retarget a b k = k"

definition swap_name :: "string \<Rightarrow> string \<Rightarrow> string \<Rightarrow> string" where
  "swap_name a b n = (if n = a then b else n)"

fun rename_in_key :: "string \<Rightarrow> string \<Rightarrow> key_or_check \<Rightarrow> key_or_check" where
  "rename_in_key a b (PrimaryKey cs) = PrimaryKey (map (swap_name a b) cs)"
| "rename_in_key a b (UniqueKey cs) = UniqueKey (map (swap_name a b) cs)"
| "rename_in_key a b (ForeignKey cs r rs x) = ForeignKey (map (swap_name a b) cs) r rs x"
| "rename_in_key a b (CheckThat sql) = CheckThat sql"

fun rename_referenced :: "string \<Rightarrow> string \<Rightarrow> string \<Rightarrow> key_or_check \<Rightarrow> key_or_check" where
  "rename_referenced t a b (ForeignKey cs r rs x) = ForeignKey cs r (if r = t then map (swap_name a b) rs else rs) x"
| "rename_referenced t a b k = k"

definition on_keys :: "(key_or_check \<Rightarrow> key_or_check) \<Rightarrow> relation \<Rightarrow> relation" where
  "on_keys f r = Relation (rel_name r) (rel_columns r) (map (\<lambda>(n, k). (n, f k)) (rel_constraints r)) (rel_indexes r)"

fun rename_column :: "string \<Rightarrow> string \<Rightarrow> column \<Rightarrow> column" where
  "rename_column a b (Column n ty nul d) = Column (swap_name a b n) ty nul d"

fun rename_in_index :: "string \<Rightarrow> string \<Rightarrow> index \<Rightarrow> index" where
  "rename_in_index a b (Index es u m) = Index (map (swap_name a b) es) u m"

text \<open>The name under which a constraint is dropped goes through the convention as well.\<close>

fun dropped_name :: "string \<Rightarrow> constraint_kind \<Rightarrow> constraint_name \<Rightarrow> string option" where
  "dropped_name t CheckKind n = conventional_name t (CheckThat []) n"
| "dropped_name t ForeignKind (Plain n) = Some n"
| "dropped_name t ForeignKind (Final n) = Some n"
| "dropped_name t UniqueKind (Plain n) = Some n"
| "dropped_name t UniqueKind (Final n) = Some n"
| "dropped_name t ForeignKind Unnamed = None"
| "dropped_name t UniqueKind Unnamed = None"

text \<open>The operations on one table.\<close>

definition add_index :: "string \<Rightarrow> index \<Rightarrow> relation \<Rightarrow> relation option" where
  \<comment> \<open>an indexed expression that is not a column is in parentheses\<close>
  "add_index n ix r =
     (if list_all (\<lambda>e. in_list (column_names r) e \<or> hd e = CHR ''('') (index_on ix)
      then Some (Relation (rel_name r) (rel_columns r) (rel_constraints r) (rel_indexes r @ [(n, ix)])) else None)"

definition drop_index :: "string \<Rightarrow> relation \<Rightarrow> relation option" where
  "drop_index n r =
     (if in_list (map fst (rel_indexes r)) n
      then Some (Relation (rel_name r) (rel_columns r) (rel_constraints r) (filter (\<lambda>(m, ix). m \<noteq> n) (rel_indexes r)))
      else None)"

definition add_column :: "column \<Rightarrow> relation \<Rightarrow> relation option" where
  "add_column c r =
     (if in_list (column_names r) (col_name c) then None
      else Some (Relation (rel_name r) (rel_columns r @ [c]) (rel_constraints r) (rel_indexes r)))"

definition drop_column :: "string \<Rightarrow> relation \<Rightarrow> relation option" where
  "drop_column c r =
     (if in_list (column_names r) c
      then Some (Relation (rel_name r) (filter (\<lambda>x. col_name x \<noteq> c) (rel_columns r))
             (filter (\<lambda>(n, k). \<not> mentions c k) (rel_constraints r))
             (filter (\<lambda>(n, ix). \<not> in_list (index_on ix) c) (rel_indexes r)))
      else None)"

definition add_constraint :: "string \<Rightarrow> key_or_check \<Rightarrow> relation list \<Rightarrow> relation \<Rightarrow> relation option" where
  "add_constraint n k s r =
     (if \<not> in_list (constraint_names r) n \<and> legal_constraint s (column_names r) k
      then Some (Relation (rel_name r) (rel_columns r) (rel_constraints r @ [(n, k)]) (rel_indexes r)) else None)"

definition drop_constraint :: "string \<Rightarrow> relation \<Rightarrow> relation option" where
  "drop_constraint n r =
     (if in_list (constraint_names r) n
      then Some (Relation (rel_name r) (rel_columns r) (filter (\<lambda>(m, k). m \<noteq> n) (rel_constraints r)) (rel_indexes r))
      else None)"

definition rename_constraint :: "string \<Rightarrow> string \<Rightarrow> relation \<Rightarrow> relation option" where
  "rename_constraint a b r =
     (if in_list (constraint_names r) a \<and> \<not> in_list (constraint_names r) b
      then Some (Relation (rel_name r) (rel_columns r) (map (\<lambda>(n, k). (swap_name a b n, k)) (rel_constraints r)) (rel_indexes r))
      else None)"

definition rename_own_column :: "string \<Rightarrow> string \<Rightarrow> relation \<Rightarrow> relation option" where
  "rename_own_column a b r =
     (if in_list (column_names r) a \<and> \<not> in_list (column_names r) b
      then Some (on_keys (rename_in_key a b) (Relation (rel_name r) (map (rename_column a b) (rel_columns r))
             (rel_constraints r) (map (\<lambda>(n, ix). (n, rename_in_index a b ix)) (rel_indexes r))))
      else None)"

definition set_not_null :: "string \<Rightarrow> relation \<Rightarrow> relation option" where
  "set_not_null c r =
     (if in_list (column_names r) c
      then Some (Relation (rel_name r)
             (map (\<lambda>x. if col_name x = c then Column c (col_type x) False (server_default x) else x) (rel_columns r))
             (rel_constraints r) (rel_indexes r))
      else None)"

fun rename_table :: "string \<Rightarrow> string \<Rightarrow> relation list \<Rightarrow> relation list" where
  "rename_table a b [] = []"
| "rename_table a b (Relation t cs ks ixs # s) =
     on_keys (retarget a b) (Relation (swap_name a b t) cs ks ixs) # rename_table a b s"

fun rename_index :: "string \<Rightarrow> string \<Rightarrow> relation list \<Rightarrow> relation list option" where
  "rename_index a b [] = None"
| "rename_index a b (Relation t cs ks ixs # s) =
     (if in_list (map fst ixs) a then Some (Relation t cs ks (map (\<lambda>(n, ix). (swap_name a b n, ix)) ixs) # s)
      else map_option (Cons (Relation t cs ks ixs)) (rename_index a b s))"

fun run_operation :: "operation \<Rightarrow> relation list \<Rightarrow> relation list option" where
  "run_operation (CreateTable t cs ks) s =
     (case name_constraints t ks of
        None \<Rightarrow> None
      | Some ks' \<Rightarrow>
          if all_different (map col_name cs) \<and> all_different (map fst ks') \<and>
            none_in (relation_names s) (t # key_names ks') \<and> legal_constraints s (map col_name cs) ks'
          then Some (s @ [Relation t cs ks' []]) else None)"
| "run_operation (DropTable t) s =
     (if table_exists t s \<and> \<not> referenced t s then Some (remove_relation t s) else None)"
| "run_operation (CreateIndex n t ix) s =
     (if in_list (relation_names s) n then None else update_relation t (add_index n ix) s)"
| "run_operation (DropIndex t n) s = update_relation t (drop_index n) s"
| "run_operation (AddColumn t c) s = update_relation t (add_column c) s"
| "run_operation (DropColumn t c) s = (if column_referenced t c s then None else update_relation t (drop_column c) s)"
| "run_operation (AddConstraint t n k) s =
     (case conventional_name t k n of
        None \<Rightarrow> None
      | Some n' \<Rightarrow>
          if indexed k \<and> in_list (relation_names s) n' then None else update_relation t (add_constraint n' k s) s)"
| "run_operation (DropConstraint t kind n) s =
     (case dropped_name t kind n of None \<Rightarrow> None | Some n' \<Rightarrow> update_relation t (drop_constraint n') s)"
| "run_operation (RenameTable a b) s =
     (if table_exists a s \<and> \<not> in_list (relation_names s) b then Some (rename_table a b s) else None)"
| "run_operation (RenameColumn t a b) s =
     map_option (map (on_keys (rename_referenced t a b))) (update_relation t (rename_own_column a b) s)"
| "run_operation (RenameConstraint t a b) s = update_relation t (rename_constraint a b) s"
| "run_operation (RenameIndex a b) s = (if in_list (relation_names s) b then None else rename_index a b s)"
| "run_operation (SetNotNull t c) s = update_relation t (set_not_null c) s"
| "run_operation BackfillCategoryTypes s = Some s"

fun run_operations :: "operation list \<Rightarrow> relation list \<Rightarrow> relation list option" where
  "run_operations [] s = Some s"
| "run_operations (op # ops) s = (case run_operation op s of None \<Rightarrow> None | Some s' \<Rightarrow> run_operations ops s')"

text \<open>Schemas that differ in nothing but the order of their tables, columns, constraints and indexes.\<close>

definition same_members :: "'a list \<Rightarrow> 'a list \<Rightarrow> bool" where
  "same_members xs ys \<longleftrightarrow> length xs = length ys \<and> list_all (List.member ys) xs \<and> list_all (List.member xs) ys"

definition same_relation :: "relation \<Rightarrow> relation \<Rightarrow> bool" where
  "same_relation r r' \<longleftrightarrow> same_members (rel_columns r) (rel_columns r') \<and>
     same_members (rel_constraints r) (rel_constraints r') \<and> same_members (rel_indexes r) (rel_indexes r')"

definition same_schema :: "relation list \<Rightarrow> relation list \<Rightarrow> bool" where
  "same_schema s s' \<longleftrightarrow> length s = length s' \<and> all_different (map rel_name s) \<and>
     list_all (\<lambda>r. case find (\<lambda>r'. rel_name r' = rel_name r) s' of None \<Rightarrow> False | Some r' \<Rightarrow> same_relation r r') s"

section \<open>Migrations\<close>

datatype migration = Migration (revision: string) (down_revision: "string option")
  (upgrade: "operation list") (downgrade: "operation list")

text \<open>The migrations in the order of their down revisions, from the revision \<open>current\<close> on.\<close>

function upgrade_path :: "migration list \<Rightarrow> string option \<Rightarrow> migration list" where
  "upgrade_path ms current =
     (case find (\<lambda>m. down_revision m = current) ms of
        None \<Rightarrow> []
      | Some m \<Rightarrow> m # upgrade_path (removeAll m ms) (Some (revision m)))"
  by pat_completeness auto

termination
  by (relation "measure (\<lambda>(ms, current). length ms)") (auto simp: find_Some_iff intro: length_removeAll_less)

declare upgrade_path.simps [simp del]

definition upgrade_head :: "migration list \<Rightarrow> relation list option" where
  "upgrade_head ms = run_operations (concat (map upgrade (upgrade_path ms None))) []"

section \<open>Evaluation\<close>

text \<open>
  Code equations that pass a schema on without going through a conditional or an abstraction, so
  that evaluating an operation does not visit the tables it leaves alone.
\<close>

fun same_text :: "string \<Rightarrow> string \<Rightarrow> bool"
  and same_rest :: "bool \<Rightarrow> string \<Rightarrow> string \<Rightarrow> bool" where
  "same_text [] [] = True"
| "same_text [] (d # ds) = False"
| "same_text (c # cs) [] = False"
| "same_text (c # cs) (d # ds) = same_rest (c = d) cs ds"
| "same_rest True cs ds = same_text cs ds"
| "same_rest False cs ds = False"

fun found_or :: "bool \<Rightarrow> string list \<Rightarrow> string \<Rightarrow> bool" where
  "found_or True ms n = True"
| "found_or False ms n = in_list ms n"

fun cons_to :: "relation list \<Rightarrow> relation option \<Rightarrow> relation list option" where
  "cons_to s None = None"
| "cons_to s (Some r) = Some (r # s)"

fun cons_before :: "relation \<Rightarrow> relation list option \<Rightarrow> relation list option" where
  "cons_before r None = None"
| "cons_before r (Some s) = Some (r # s)"

fun update_at :: "bool \<Rightarrow> string \<Rightarrow> (relation \<Rightarrow> relation option) \<Rightarrow> relation \<Rightarrow> relation list \<Rightarrow> relation list option" where
  "update_at True t f r s = cons_to s (f r)"
| "update_at False t f r s = cons_before r (update_relation t f s)"

fun remove_at :: "bool \<Rightarrow> string \<Rightarrow> relation \<Rightarrow> relation list \<Rightarrow> relation list" where
  "remove_at True t r s = s"
| "remove_at False t r s = r # remove_relation t s"

fun proceed :: "operation list \<Rightarrow> relation list option \<Rightarrow> relation list option" where
  "proceed ops None = None"
| "proceed ops (Some s) = run_operations ops s"

fun only_if :: "bool \<Rightarrow> relation list \<Rightarrow> relation list option" where
  "only_if True s = Some s"
| "only_if False s = None"

fun key_at :: "bool \<Rightarrow> string \<Rightarrow> string list \<Rightarrow> relation \<Rightarrow> relation list \<Rightarrow> bool" where
  "key_at True t cs r s = is_key cs (rel_constraints r)"
| "key_at False t cs r s = key_exists t cs s"

fun create_named :: "string \<Rightarrow> column list \<Rightarrow> relation list \<Rightarrow> (string \<times> key_or_check) list option \<Rightarrow> relation list option" where
  "create_named t cs s None = None"
| "create_named t cs s (Some ks) =
     only_if (all_different (map col_name cs) \<and> all_different (map fst ks) \<and>
       none_in (relation_names s) (t # key_names ks) \<and> legal_constraints s (map col_name cs) ks) (s @ [Relation t cs ks []])"

fun update_when :: "bool \<Rightarrow> string \<Rightarrow> (relation \<Rightarrow> relation option) \<Rightarrow> relation list \<Rightarrow> relation list option" where
  "update_when True t f s = update_relation t f s"
| "update_when False t f s = None"

fun update_named :: "string option \<Rightarrow> string \<Rightarrow> (string \<Rightarrow> relation \<Rightarrow> relation option) \<Rightarrow> relation list \<Rightarrow> relation list option" where
  "update_named None t f s = None"
| "update_named (Some n) t f s = update_relation t (f n) s"

fun add_named :: "string option \<Rightarrow> string \<Rightarrow> key_or_check \<Rightarrow> relation list \<Rightarrow> relation list option" where
  "add_named None t k s = None"
| "add_named (Some n) t k s =
     update_when (\<not> (indexed k \<and> in_list (relation_names s) n)) t (add_constraint n k s) s"

fun rename_index_at :: "bool \<Rightarrow> string \<Rightarrow> string \<Rightarrow> relation \<Rightarrow> relation list \<Rightarrow> relation list option" where
  "rename_index_at True a b r s =
     Some (Relation (rel_name r) (rel_columns r) (rel_constraints r) (map (\<lambda>(n, ix). (swap_name a b n, ix)) (rel_indexes r)) # s)"
| "rename_index_at False a b r s = cons_before r (rename_index a b s)"

fun rename_index_when :: "bool \<Rightarrow> string \<Rightarrow> string \<Rightarrow> relation list \<Rightarrow> relation list option" where
  "rename_index_when True a b s = rename_index a b s"
| "rename_index_when False a b s = None"

lemma same_text_eq: "same_text cs ds \<longleftrightarrow> cs = ds" "same_rest q cs ds \<longleftrightarrow> q \<and> cs = ds"
  by (induction cs ds and q cs ds rule: same_text_same_rest.induct) auto

lemma in_list_code [code]: "in_list [] n = False" "in_list (m # ms) n = found_or (same_text m n) ms n"
  by simp_all (cases "m = n"; simp add: same_text_eq)

lemma only_if_if: "only_if b s = (if b then Some s else None)"
  by (cases b) auto

lemma update_when_if: "update_when b t f s = (if b then update_relation t f s else None)"
  by (cases b) auto

lemma rename_index_when_if: "rename_index_when q a b s = (if q then rename_index a b s else None)"
  by (cases q) auto

lemma update_relation_code [code]:
  "update_relation t f [] = None"
  "update_relation t f (r # s) = update_at (same_text (rel_name r) t) t f r s"
  by simp_all (cases "rel_name r = t"; cases "f r"; cases "update_relation t f s"; simp add: same_text_eq)

lemma remove_relation_code [code]:
  "remove_relation t [] = []" "remove_relation t (r # s) = remove_at (same_text (rel_name r) t) t r s"
  by (auto simp: same_text_eq)

lemma key_exists_code [code]:
  "key_exists t cs [] = False" "key_exists t cs (r # s) = key_at (same_text (rel_name r) t) t cs r s"
  by (auto simp: same_text_eq)

lemma run_operations_code [code]:
  "run_operations [] s = Some s" "run_operations (op # ops) s = proceed ops (run_operation op s)"
  by simp_all (cases "run_operation op s"; simp)

lemma rename_index_code [code]:
  "rename_index a b [] = None"
  "rename_index a b (r # s) = rename_index_at (in_list (map fst (rel_indexes r)) a) a b r s"
  by simp_all (cases r; cases "in_list (map fst (rel_indexes r)) a"; cases "rename_index a b s"; simp)

lemma run_operation_code [code]:
  "run_operation (CreateTable t cs named) s = create_named t cs s (name_constraints t named)"
  "run_operation (DropTable t) s = only_if (table_exists t s \<and> \<not> referenced t s) (remove_relation t s)"
  "run_operation (CreateIndex m t ix) s = update_when (\<not> in_list (relation_names s) m) t (add_index m ix) s"
  "run_operation (DropIndex t m) s = update_relation t (drop_index m) s"
  "run_operation (AddColumn t col) s = update_relation t (add_column col) s"
  "run_operation (DropColumn t c) s = update_when (\<not> column_referenced t c s) t (drop_column c) s"
  "run_operation (AddConstraint t n k) s = add_named (conventional_name t k n) t k s"
  "run_operation (DropConstraint t kind n) s = update_named (dropped_name t kind n) t drop_constraint s"
  "run_operation (RenameTable a b) s = only_if (table_exists a s \<and> \<not> in_list (relation_names s) b) (rename_table a b s)"
  "run_operation (RenameColumn t a b) s =
     map_option (map (on_keys (rename_referenced t a b))) (update_relation t (rename_own_column a b) s)"
  "run_operation (RenameConstraint t a b) s = update_relation t (rename_constraint a b) s"
  "run_operation (RenameIndex a b) s = rename_index_when (\<not> in_list (relation_names s) b) a b s"
  "run_operation (SetNotNull t c) s = update_relation t (set_not_null c) s"
  "run_operation BackfillCategoryTypes s = Some s"
  by (simp_all add: only_if_if rename_index_when_if update_when_if split: option.split)

section \<open>Replaying a history\<close>

text \<open>
  A history replayed revision by revision, where each upgrade is taken back once before the next
  one runs; \<open>None\<close> when an operation fails or when a downgrade leaves something behind.
\<close>

fun restored :: "relation list \<Rightarrow> relation list option \<Rightarrow> bool" where
  "restored s None = False"
| "restored s (Some s') = (s' = s)"

fun continue_if :: "bool \<Rightarrow> (relation list \<Rightarrow> relation list option) \<Rightarrow> relation list \<Rightarrow> relation list option" where
  "continue_if True f s = f s"
| "continue_if False f s = None"

fun when_undone ::
  "(relation list \<Rightarrow> relation list option) \<Rightarrow> migration \<Rightarrow> relation list \<Rightarrow> relation list option \<Rightarrow> relation list option" where
  "when_undone f m s None = None"
| "when_undone f m s (Some s') = continue_if (restored s (run_operations (downgrade m) s')) f s'"

primrec replay :: "migration list \<Rightarrow> relation list \<Rightarrow> relation list option" where
  "replay [] s = Some s"
| "replay (m # ms) s = when_undone (replay ms) m s (run_operations (upgrade m) s)"

lemma replay_ConsE:
  assumes "replay (m # ms) s = Some s2"
  obtains s1 where "run_operations (upgrade m) s = Some s1" "run_operations (downgrade m) s1 = Some s" "replay ms s1 = Some s2"
proof (cases "run_operations (upgrade m) s")
  case None
  with assms show ?thesis by simp
next
  case (Some s1)
  note up = this
  show ?thesis
  proof (cases "run_operations (downgrade m) s1")
    case None
    with assms up show ?thesis by simp
  next
    case (Some s')
    with assms up that show ?thesis by (cases "s' = s") auto
  qed
qed

lemma run_operations_append:
  "run_operations (ops @ ops') s = (case run_operations ops s of None \<Rightarrow> None | Some s' \<Rightarrow> run_operations ops' s')"
  by (induction ops s rule: run_operations.induct) (auto split: option.split)

lemma replay_runs:
  assumes "replay ms s = Some s'"
  shows "run_operations (concat (map upgrade ms)) s = Some s'"
  using assms by (induction ms arbitrary: s) (auto elim!: replay_ConsE simp: run_operations_append simp del: replay.simps(2))

lemma replay_split:
  assumes "replay (before @ m # after) s = Some s'"
  shows "\<exists>s0 s1. run_operations (concat (map upgrade before)) s = Some s0 \<and>
    run_operations (upgrade m) s0 = Some s1 \<and> run_operations (downgrade m) s1 = Some s0"
  using assms
proof (induction before arbitrary: s)
  case Nil
  from Nil.prems have "replay (m # after) s = Some s'" by (simp del: replay.simps)
  then show ?case by (elim replay_ConsE) simp
next
  case (Cons b before)
  from Cons.prems have "replay (b # before @ m # after) s = Some s'" by (simp del: replay.simps)
  then obtain s1 where s1: "run_operations (upgrade b) s = Some s1" "replay (before @ m # after) s1 = Some s'"
    by (rule replay_ConsE)
  from Cons.IH [OF s1(2)] s1(1) show ?case by (simp add: run_operations_append)
qed

text \<open>Two outcomes that are schemas and the same.\<close>

fun same_outcome :: "relation list option \<Rightarrow> relation list option \<Rightarrow> bool" where
  "same_outcome (Some s) (Some s') = same_schema s s'"
| "same_outcome None s = False"
| "same_outcome s None = False"

fun then_agrees :: "relation list option \<Rightarrow> operation list \<Rightarrow> relation list option \<Rightarrow> bool" where
  "then_agrees None ops s' = False"
| "then_agrees (Some s) ops s' = same_outcome (run_operations ops s) s'"

lemma then_agreesD:
  assumes "then_agrees s ops s'"
  obtains s1 s2 s3 where "s = Some s1" "run_operations ops s1 = Some s2" "s' = Some s3" "same_schema s2 s3"
  using assms
  by (cases s; cases "run_operations ops (the s)"; cases s'; simp)

end
