(* ===== verification/Metadata.thy ===== *)
theory Metadata
  imports Ddl
begin

text \<open>
  The metadata of the mapped classes: for each class of a \<open>models.py\<close> its table, as SQLAlchemy
  builds it from the columns, the table arguments and the naming convention.
\<close>

section \<open>Declarations\<close>

text \<open>A \<open>mapped_column\<close> with its flags, and a member of \<open>__table_args__\<close>.\<close>

datatype mapped_column = MappedColumn (the_column: column) (in_primary_key: bool) (unique_flag: bool)
  (foreign_key: "(string \<times> string \<times> string option) option")

datatype table_arg = Constraint constraint_name key_or_check | IndexOn string index

datatype mapped_class = MappedClass (tablename: string) (mapped_columns: "mapped_column list") (table_args: "table_arg list")

definition plain :: "column \<Rightarrow> mapped_column" where
  "plain c = MappedColumn c False False None"

definition referencing :: "string \<Rightarrow> string \<Rightarrow> string option \<Rightarrow> column \<Rightarrow> mapped_column" where
  "referencing t c a col = MappedColumn col False False (Some (t, c, a))"

definition unique_column :: "mapped_column \<Rightarrow> mapped_column" where
  "unique_column m = MappedColumn (the_column m) (in_primary_key m) True (foreign_key m)"

definition key_column :: "mapped_column \<Rightarrow> mapped_column" where
  "key_column m = MappedColumn (the_column m) True (unique_flag m) (foreign_key m)"

definition column_constraints :: "mapped_column \<Rightarrow> (constraint_name \<times> key_or_check) list" where
  "column_constraints m =
     (if unique_flag m then [(Unnamed, UniqueKey [col_name (the_column m)])] else []) @
     (case foreign_key m of None \<Rightarrow> [] | Some (t, c, a) \<Rightarrow> [(Unnamed, ForeignKey [col_name (the_column m)] t [c] a)])"

fun arg_constraints :: "table_arg list \<Rightarrow> (constraint_name \<times> key_or_check) list" where
  "arg_constraints [] = []"
| "arg_constraints (Constraint n k # xs) = (n, k) # arg_constraints xs"
| "arg_constraints (IndexOn n ix # xs) = arg_constraints xs"

fun arg_indexes :: "table_arg list \<Rightarrow> (string \<times> index) list" where
  "arg_indexes [] = []"
| "arg_indexes (Constraint n k # xs) = arg_indexes xs"
| "arg_indexes (IndexOn n ix # xs) = (n, ix) # arg_indexes xs"

definition table_of :: "mapped_class \<Rightarrow> relation option" where
  "table_of c =
     map_option (\<lambda>ks. Relation (tablename c) (map the_column (mapped_columns c) @ timestamps) ks (arg_indexes (table_args c)))
       (name_constraints (tablename c)
          ((Unnamed, PrimaryKey (map (\<lambda>m. col_name (the_column m)) (filter in_primary_key (mapped_columns c)))) #
           concat (map column_constraints (mapped_columns c)) @ arg_constraints (table_args c)))"

fun metadata :: "mapped_class list \<Rightarrow> relation list option" where
  "metadata [] = Some []"
| "metadata (c # cs) = (case (table_of c, metadata cs) of (Some r, Some s) \<Rightarrow> Some (r # s) | _ \<Rightarrow> None)"

section \<open>Enumerations in CHECK constraints\<close>

fun intersperse :: "string \<Rightarrow> string list \<Rightarrow> string" where
  "intersperse sep [] = []"
| "intersperse sep [s] = s"
| "intersperse sep (s # ss) = s @ sep @ intersperse sep ss"

definition sql_str_list :: "string list \<Rightarrow> string" where
  "sql_str_list members = intersperse '', '' (map quoted members)"

text \<open>The members of the enumerations, in the order of their classes.\<close>

definition order_types :: "string list" where
  "order_types = map order_type_value [PICKUP, DELIVERY]"

definition order_statuses :: "string list" where
  "order_statuses = map order_status_value [CREATED, CONFIRMED, IN_PROGRESS, COMPLETED, CANCELLED, REFUNDED, FAILED]"

fun grind_size_value :: "grind_size \<Rightarrow> string" where
  "grind_size_value EXTRA_COARSE = ''extra_coarse''"
| "grind_size_value COARSE = ''coarse''"
| "grind_size_value MEDIUM_COARSE = ''medium_coarse''"
| "grind_size_value MEDIUM = ''medium''"
| "grind_size_value MEDIUM_FINE = ''medium_fine''"
| "grind_size_value FINE = ''fine''"
| "grind_size_value EXTRA_FINE = ''extra_fine''"

definition grind_sizes :: "string list" where
  "grind_sizes = map grind_size_value [EXTRA_COARSE, COARSE, MEDIUM_COARSE, MEDIUM, MEDIUM_FINE, FINE, EXTRA_FINE]"

definition payment_statuses :: "string list" where
  "payment_statuses = map payment_status_value [PayPENDING, PayCOMPLETED, PayFAILED, PayREFUNDED]"

definition subscription_statuses :: "string list" where
  "subscription_statuses = map subscription_status_value [SubPENDING, SubACTIVE, SubPAUSED, SubCANCELLED, SubCOMPLETED]"

fun event_status_value :: "event_status \<Rightarrow> string" where
  "event_status_value EvPENDING = ''pending''"
| "event_status_value EvREADY = ''ready''"
| "event_status_value EvPAUSED = ''paused''"
| "event_status_value EvCOMPLETED = ''completed''"
| "event_status_value EvCANCELLED = ''cancelled''"

definition event_statuses :: "string list" where
  "event_statuses = map event_status_value [EvPENDING, EvREADY, EvPAUSED, EvCOMPLETED, EvCANCELLED]"

fun point_type_value :: "point_type \<Rightarrow> string" where
  "point_type_value COFFEESHOP = ''coffeeshop''"
| "point_type_value WAREHOUSE = ''warehouse''"
| "point_type_value ROASTERY = ''roastery''"

definition point_types :: "string list" where
  "point_types = map point_type_value [COFFEESHOP, WAREHOUSE, ROASTERY]"

definition roast_levels :: "string list" where
  "roast_levels = map roast_level_value [RoastLIGHT, RoastMEDIUM, RoastDARK]"

definition processing_methods :: "string list" where
  "processing_methods = map processing_value [WASHED, NATURAL, ANAEROBIC, HONEY]"

definition equipment_types :: "string list" where
  "equipment_types = map equipment_type_value [EqMACHINE, EqGRINDER, EqBREWER, EqSCALE, EqOTHER]"

definition accessory_types :: "string list" where
  "accessory_types = map accessory_type_value [AcFILTER, AcTAMPER, AcSCALE, AcPITCHER, AcTHERMOMETER, AcKNOCKBOX, AcOTHER]"

definition consumable_types :: "string list" where
  "consumable_types = map consumable_type_value [CoFILTER, CoPODS, CoCLEANING, CoWATER, CoOTHER]"

section \<open>The mapped classes\<close>

text \<open>\<open>users/models.py\<close>\<close>

definition user_model :: mapped_class where
  "user_model = MappedClass ''users''
    [key_column (plain generated_id), unique_column (plain (optional ''auth_user_id'' SaUuid)),
     plain (optional ''email'' (SaString 255)), plain (required ''display_name'' (SaString 255)),
     plain (defaulted ''is_active'' SaBoolean ''true'')]
    [IndexOn ''idx_users_is_active'' (btree [''is_active''])]"

definition user_preferences_model :: mapped_class where
  "user_preferences_model = MappedClass ''user_preferences''
    [key_column (plain generated_id),
     unique_column (referencing ''users'' ''id'' (Some ''CASCADE'') (required ''user_id'' SaUuid)),
     plain (defaulted ''language'' (SaString 10) (quoted ''en'')),
     plain (defaulted ''timezone'' (SaString 50) (quoted ''UTC''))]
    []"

text \<open>\<open>catalog/models/product_type.py\<close>\<close>

definition product_type_model :: mapped_class where
  "product_type_model = MappedClass ''product_types''
    [key_column (plain generated_id), unique_column (plain (required ''name'' (SaString 100))),
     plain (optional ''description'' SaText), plain (defaulted ''is_active'' SaBoolean ''true'')]
    []"

text \<open>\<open>catalog/models/product_category.py\<close>\<close>

definition product_category_model :: mapped_class where
  "product_category_model = MappedClass ''product_categories''
    [key_column (plain generated_id), unique_column (plain (required ''name'' (SaString 200))),
     plain (optional ''description'' SaText),
     referencing ''product_types'' ''id'' None (required ''product_type_id'' SaUuid),
     plain (defaulted ''is_active'' SaBoolean ''true'')]
    [IndexOn ''idx_product_categories_is_active'' (btree [''is_active'']),
     IndexOn ''idx_product_categories_product_type_id'' (btree [''product_type_id''])]"

text \<open>\<open>catalog/models/product.py\<close>\<close>

definition product_model :: mapped_class where
  "product_model = MappedClass ''products''
    [key_column (plain generated_id), plain (required ''name'' (SaString 255)),
     plain (optional ''description'' SaText), plain (optional ''image_url'' (SaString 500)),
     referencing ''product_categories'' ''id'' None (required ''product_category_id'' SaUuid),
     referencing ''product_types'' ''id'' None (required ''product_type_id'' SaUuid),
     plain (required ''price'' (SaNumeric 10 2)), plain (defaulted ''currency'' (SaString 3) (quoted ''EUR'')),
     plain (defaulted ''is_active'' SaBoolean ''true'')]
    [Constraint (Plain ''price_positive'') (CheckThat ''price > 0''),
     IndexOn ''idx_products_product_category_id'' (btree [''product_category_id'']),
     IndexOn ''idx_products_product_type_id'' (btree [''product_type_id'']),
     IndexOn ''idx_products_is_active'' (btree [''is_active''])]"

text \<open>\<open>catalog/models/coffee.py\<close>\<close>

definition product_coffee_model :: mapped_class where
  "product_coffee_model = MappedClass ''product_coffee''
    [key_column (referencing ''products'' ''id'' (Some ''CASCADE'') (required ''id'' SaUuid)),
     plain (required ''region'' (SaString 100)), plain (required ''roast_level'' (SaString 20)),
     plain (required ''acidity'' SaSmallInteger), plain (required ''body'' SaSmallInteger),
     plain (required ''sweetness'' SaSmallInteger), plain (required ''processing'' (SaString 50)),
     plain (optional ''altitude'' SaInteger), plain (optional ''flavor_notes'' SaJsonb)]
    [Constraint (Plain ''roast_level'') (CheckThat (''roast_level IN ('' @ sql_str_list roast_levels @ '')'')),
     Constraint (Plain ''processing'') (CheckThat (''processing IN ('' @ sql_str_list processing_methods @ '')'')),
     Constraint (Plain ''acidity_scale'') (CheckThat ''acidity BETWEEN 1 AND 5''),
     Constraint (Plain ''body_scale'') (CheckThat ''body BETWEEN 1 AND 5''),
     Constraint (Plain ''sweetness_scale'') (CheckThat ''sweetness BETWEEN 1 AND 5''),
     IndexOn ''idx_product_coffee_region'' (btree [''region'']),
     IndexOn ''idx_product_coffee_roast_level'' (btree [''roast_level'']),
     IndexOn ''idx_product_coffee_processing'' (btree [''processing'']),
     IndexOn ''idx_product_coffee_acidity'' (btree [''acidity'']),
     IndexOn ''idx_product_coffee_body'' (btree [''body'']),
     IndexOn ''idx_product_coffee_sweetness'' (btree [''sweetness'']),
     IndexOn ''idx_product_coffee_altitude'' (btree [''altitude'']),
     IndexOn ''idx_product_coffee_flavor_keys'' (Index [''(flavor_notes -> 'keys')''] False (Some ''gin''))]"

text \<open>\<open>catalog/models/equipment.py\<close>\<close>

definition product_equipment_model :: mapped_class where
  "product_equipment_model = MappedClass ''product_equipment''
    [key_column (referencing ''products'' ''id'' (Some ''CASCADE'') (required ''id'' SaUuid)),
     plain (required ''equipment_type'' (SaString 50)), plain (optional ''power_watts'' SaInteger),
     plain (optional ''warranty_months'' SaInteger), plain (optional ''width_cm'' (SaNumeric 5 2)),
     plain (optional ''height_cm'' (SaNumeric 5 2)), plain (optional ''depth_cm'' (SaNumeric 5 2)),
     plain (optional ''weight_kg'' (SaNumeric 6 2)), plain (optional ''material'' (SaString 100)),
     plain (optional ''other_options'' SaJsonb)]
    [Constraint (Plain ''equipment_type'') (CheckThat (''equipment_type IN ('' @ sql_str_list equipment_types @ '')'')),
     Constraint (Plain ''power_positive'') (CheckThat ''power_watts IS NULL OR power_watts > 0''),
     Constraint (Plain ''warranty_non_negative'') (CheckThat ''warranty_months IS NULL OR warranty_months >= 0''),
     Constraint (Plain ''width_positive'') (CheckThat ''width_cm IS NULL OR width_cm > 0''),
     Constraint (Plain ''height_positive'') (CheckThat ''height_cm IS NULL OR height_cm > 0''),
     Constraint (Plain ''depth_positive'') (CheckThat ''depth_cm IS NULL OR depth_cm > 0''),
     IndexOn ''idx_product_equipment_equipment_type'' (btree [''equipment_type'']),
     IndexOn ''idx_product_equipment_material'' (btree [''material'']),
     IndexOn ''idx_product_equipment_power_watts'' (btree [''power_watts''])]"

text \<open>\<open>catalog/models/accessory.py\<close>\<close>

definition product_accessories_model :: mapped_class where
  "product_accessories_model = MappedClass ''product_accessories''
    [key_column (referencing ''products'' ''id'' (Some ''CASCADE'') (required ''id'' SaUuid)),
     plain (required ''accessory_type'' (SaString 50)), plain (required ''material'' (SaString 100)),
     plain (optional ''other_options'' SaJsonb)]
    [Constraint (Plain ''accessory_type'') (CheckThat (''accessory_type IN ('' @ sql_str_list accessory_types @ '')'')),
     IndexOn ''idx_product_accessories_accessory_type'' (btree [''accessory_type'']),
     IndexOn ''idx_product_accessories_material'' (btree [''material''])]"

text \<open>\<open>catalog/models/consumable.py\<close>\<close>

definition product_consumables_model :: mapped_class where
  "product_consumables_model = MappedClass ''product_consumables''
    [key_column (referencing ''products'' ''id'' (Some ''CASCADE'') (required ''id'' SaUuid)),
     plain (required ''consumable_type'' (SaString 50)), plain (required ''quantity_per_pack'' SaInteger),
     plain (required ''unit_description'' (SaString 50)), plain (optional ''material'' (SaString 100)),
     plain (optional ''other_options'' SaJsonb), plain (optional ''expiry_months'' SaInteger),
     plain (optional ''storage_conditions'' (SaString 255))]
    [Constraint (Plain ''consumable_type'') (CheckThat (''consumable_type IN ('' @ sql_str_list consumable_types @ '')'')),
     Constraint (Plain ''quantity_positive'') (CheckThat ''quantity_per_pack > 0''),
     Constraint (Plain ''expiry_positive'') (CheckThat ''expiry_months IS NULL OR expiry_months > 0''),
     IndexOn ''idx_product_consumables_consumable_type'' (btree [''consumable_type'']),
     IndexOn ''idx_product_consumables_material'' (btree [''material'']),
     IndexOn ''idx_product_consumables_quantity_per_pack'' (btree [''quantity_per_pack''])]"

text \<open>\<open>catalog/models/compatibility.py\<close>\<close>

definition product_compatibility_model :: mapped_class where
  "product_compatibility_model = MappedClass ''product_compatibility''
    [key_column (plain generated_id),
     referencing ''products'' ''id'' (Some ''CASCADE'') (required ''accessory_product_id'' SaUuid),
     referencing ''products'' ''id'' (Some ''CASCADE'') (required ''compatible_product_id'' SaUuid),
     plain (optional ''compatibility_notes'' (SaString 255))]
    [Constraint Unnamed (UniqueKey [''accessory_product_id'', ''compatible_product_id'']),
     Constraint (Plain ''not_self_compatible'') (CheckThat ''accessory_product_id != compatible_product_id''),
     IndexOn ''idx_productcompat_compatible_id'' (btree [''compatible_product_id''])]"

text \<open>\<open>ratings/models/product_rating.py\<close>\<close>

definition product_rating_model :: mapped_class where
  "product_rating_model = MappedClass ''product_ratings''
    [key_column (plain generated_id),
     referencing ''products'' ''id'' (Some ''CASCADE'') (required ''product_id'' SaUuid),
     plain (required ''average_rating'' (SaNumeric 2 1)), plain (required ''total_ratings'' SaInteger),
     plain (required ''distribution'' SaJsonb)]
    [Constraint Unnamed (UniqueKey [''product_id'']),
     Constraint (Plain ''average_range'') (CheckThat ''average_rating BETWEEN 1.0 AND 5.0''),
     Constraint (Plain ''total_positive'') (CheckThat ''total_ratings >= 1''),
     IndexOn ''idx_product_ratings_average'' (btree [''average_rating''])]"

text \<open>\<open>ratings/models/rating.py\<close>\<close>

definition rating_model :: mapped_class where
  "rating_model = MappedClass ''ratings''
    [key_column (plain generated_id),
     referencing ''products'' ''id'' (Some ''CASCADE'') (required ''product_id'' SaUuid),
     referencing ''users'' ''id'' (Some ''CASCADE'') (required ''user_id'' SaUuid),
     plain (required ''rating'' SaSmallInteger)]
    [Constraint Unnamed (UniqueKey [''product_id'', ''user_id'']),
     Constraint (Plain ''rating_scale'') (CheckThat ''rating BETWEEN 1 AND 5''),
     IndexOn ''idx_ratings_product_id'' (btree [''product_id'']),
     IndexOn ''idx_ratings_user_id'' (btree [''user_id''])]"

text \<open>\<open>points/models.py\<close>\<close>

definition point_model :: mapped_class where
  "point_model = MappedClass ''points''
    [key_column (plain generated_id), plain (required ''name'' (SaString 255)), plain (required ''address'' SaText),
     plain (required ''type'' (SaString 20)), plain (required ''hours'' SaJsonb),
     plain (required ''contacts'' SaJsonb), plain (defaulted ''is_active'' SaBoolean ''true'')]
    [Constraint (Plain ''type'') (CheckThat (''type IN ('' @ sql_str_list point_types @ '')'')),
     IndexOn ''idx_points_type'' (btree [''type'']), IndexOn ''idx_points_is_active'' (btree [''is_active'']),
     IndexOn ''idx_points_name'' (btree [''name''])]"

text \<open>\<open>orders/models.py\<close>\<close>

definition order_model :: mapped_class where
  "order_model = MappedClass ''orders''
    [key_column (plain generated_id), referencing ''users'' ''id'' (Some ''RESTRICT'') (required ''user_id'' SaUuid),
     plain (required ''order_type'' (SaString 20)), plain (required ''total_price'' (SaNumeric 10 2)),
     plain (defaulted ''currency'' (SaString 3) (quoted ''EUR'')),
     plain (defaulted ''status'' (SaString 30) (quoted (order_status_value CREATED))),
     plain (optional ''notes'' SaText)]
    [Constraint (Plain ''total_price_positive'') (CheckThat ''total_price > 0''),
     Constraint (Plain ''order_type'') (CheckThat (''order_type IN ('' @ sql_str_list order_types @ '')'')),
     Constraint (Plain ''status'') (CheckThat (''status IN ('' @ sql_str_list order_statuses @ '')'')),
     IndexOn ''idx_orders_user_id'' (btree [''user_id'']), IndexOn ''idx_orders_status'' (btree [''status''])]"

definition order_product_model :: mapped_class where
  "order_product_model = MappedClass ''order_products''
    [key_column (plain generated_id), referencing ''orders'' ''id'' (Some ''CASCADE'') (required ''order_id'' SaUuid),
     referencing ''products'' ''id'' (Some ''RESTRICT'') (required ''product_id'' SaUuid),
     plain (required ''product_name'' (SaString 255)), plain (required ''product_price'' (SaNumeric 10 2)),
     plain (required ''quantity'' SaInteger), plain (optional ''grind'' (SaString 50))]
    [Constraint (Plain ''quantity_positive'') (CheckThat ''quantity > 0''),
     Constraint (Plain ''grind'') (CheckThat (''grind IS NULL OR grind IN ('' @ sql_str_list grind_sizes @ '')'')),
     IndexOn ''idx_order_products_order_id'' (btree [''order_id'']),
     IndexOn ''idx_order_products_product_id'' (btree [''product_id''])]"

definition order_pickup_info_model :: mapped_class where
  "order_pickup_info_model = MappedClass ''order_pickup_info''
    [key_column (plain generated_id),
     unique_column (referencing ''orders'' ''id'' (Some ''CASCADE'') (required ''order_id'' SaUuid)),
     referencing ''points'' ''id'' (Some ''RESTRICT'') (required ''point_id'' SaUuid),
     unique_column (plain (required ''pickup_code'' (SaChar 6))), plain (required ''pickup_deadline'' SaDateTime),
     plain (optional ''picked_up_at'' SaDateTime)]
    [IndexOn ''idx_order_pickup_info_point_id'' (btree [''point_id'']),
     IndexOn ''idx_order_pickup_info_pickup_deadline'' (btree [''pickup_deadline''])]"

definition order_delivery_info_model :: mapped_class where
  "order_delivery_info_model = MappedClass ''order_delivery_info''
    [key_column (plain generated_id),
     unique_column (referencing ''orders'' ''id'' (Some ''CASCADE'') (required ''order_id'' SaUuid)),
     plain (required ''recipient_name'' (SaString 255)), plain (required ''phone'' (SaString 20)),
     plain (required ''address'' SaText), plain (required ''city'' (SaString 100)),
     plain (optional ''postal_code'' (SaString 20)), plain (optional ''notes'' SaText),
     plain (optional ''shipped_at'' SaDateTime), plain (optional ''delivered_at'' SaDateTime)]
    [IndexOn ''idx_order_delivery_info_city'' (btree [''city''])]"

text \<open>\<open>payments/models.py\<close>\<close>

definition order_payment_model :: mapped_class where
  "order_payment_model = MappedClass ''order_payments''
    [key_column (plain generated_id),
     referencing ''orders'' ''id'' (Some ''RESTRICT'') (required ''order_id'' SaUuid),
     referencing ''users'' ''id'' (Some ''RESTRICT'') (required ''user_id'' SaUuid),
     plain (required ''amount'' (SaNumeric 10 2)), plain (required ''payment_method'' (SaString 30)),
     plain (required ''provider'' (SaString 50)), plain (optional ''provider_transaction_id'' (SaString 255)),
     plain (defaulted ''status'' (SaString 20) (quoted (payment_status_value PayPENDING))),
     plain (optional ''completed_at'' SaDateTime)]
    [Constraint (Plain ''amount_positive'') (CheckThat ''amount > 0''),
     Constraint (Plain ''status'') (CheckThat (''status IN ('' @ sql_str_list payment_statuses @ '')'')),
     IndexOn ''idx_order_payments_order_id'' (btree [''order_id'']),
     IndexOn ''idx_order_payments_user_id'' (btree [''user_id'']),
     IndexOn ''idx_order_payments_provider_txn'' (btree [''provider_transaction_id''])]"

definition payment_method_model :: mapped_class where
  "payment_method_model = MappedClass ''payment_methods''
    [key_column (plain generated_id), referencing ''users'' ''id'' (Some ''CASCADE'') (required ''user_id'' SaUuid),
     plain (required ''provider'' (SaString 50)), plain (required ''provider_customer_id'' (SaString 255)),
     plain (required ''provider_method_token'' (SaString 255)), plain (required ''brand'' (SaString 30)),
     plain (required ''last4'' (SaString 4)), plain (required ''exp_month'' SaInteger),
     plain (required ''exp_year'' SaInteger), plain (defaulted ''is_default'' SaBoolean ''false'')]
    [Constraint (Plain ''provider_token'') (UniqueKey [''provider'', ''provider_method_token'']),
     Constraint (Plain ''exp_month_range'') (CheckThat ''exp_month BETWEEN 1 AND 12''),
     IndexOn ''idx_payment_methods_user_id'' (btree [''user_id''])]"

text \<open>\<open>subscriptions/models.py\<close>\<close>

definition subscription_model :: mapped_class where
  "subscription_model = MappedClass ''subscriptions''
    [key_column (plain generated_id), referencing ''users'' ''id'' (Some ''RESTRICT'') (required ''user_id'' SaUuid),
     plain (required ''frequency'' (SaString 20)),
     plain (defaulted ''status'' (SaString 20) (quoted (subscription_status_value SubPENDING)))]
    [Constraint (Plain ''status'') (CheckThat (''status IN ('' @ sql_str_list subscription_statuses @ '')'')),
     Constraint (Plain ''frequency'') (CheckThat ''frequency IN ('weekly', 'biweekly', 'monthly')''),
     IndexOn ''idx_subscriptions_status'' (btree [''status'']),
     IndexOn ''idx_subscriptions_user_id'' (btree [''user_id''])]"

definition subscription_delivery_info_model :: mapped_class where
  "subscription_delivery_info_model = MappedClass ''subscription_delivery_info''
    [key_column (plain generated_id),
     unique_column (referencing ''subscriptions'' ''id'' (Some ''CASCADE'') (required ''subscription_id'' SaUuid)),
     plain (required ''recipient_name'' (SaString 255)), plain (required ''phone'' (SaString 20)),
     plain (required ''address'' SaText), plain (required ''city'' (SaString 100)),
     plain (optional ''postal_code'' (SaString 20)), plain (optional ''notes'' SaText)]
    [IndexOn ''idx_subscription_delivery_info_city'' (btree [''city''])]"

definition subscription_event_model :: mapped_class where
  "subscription_event_model = MappedClass ''subscription_events''
    [key_column (plain generated_id),
     referencing ''subscriptions'' ''id'' (Some ''CASCADE'') (required ''subscription_id'' SaUuid),
     referencing ''orders'' ''id'' (Some ''SET NULL'') (optional ''order_id'' SaUuid),
     plain (required ''scheduled_date'' SaDate), plain (required ''price_per_delivery'' (SaNumeric 10 2)),
     plain (defaulted ''currency'' (SaString 3) (quoted ''EUR'')),
     plain (defaulted ''status'' (SaString 20) (quoted (event_status_value EvPENDING)))]
    [Constraint (Plain ''price_positive'') (CheckThat ''price_per_delivery > 0''),
     Constraint (Plain ''status'') (CheckThat (''status IN ('' @ sql_str_list event_statuses @ '')'')),
     Constraint Unnamed (UniqueKey [''subscription_id'', ''scheduled_date'']),
     IndexOn ''idx_subscription_events_subscription_id'' (btree [''subscription_id'']),
     IndexOn ''idx_subscription_events_scheduled_date'' (btree [''scheduled_date'']),
     IndexOn ''idx_subscription_events_status'' (btree [''status'']),
     IndexOn ''idx_subscription_events_order_id'' (btree [''order_id''])]"

definition subscription_product_model :: mapped_class where
  "subscription_product_model = MappedClass ''subscription_products''
    [key_column (plain generated_id),
     unique_column (referencing ''subscription_events'' ''id'' (Some ''CASCADE'') (required ''subscription_event_id'' SaUuid)),
     referencing ''products'' ''id'' (Some ''RESTRICT'') (required ''product_id'' SaUuid),
     plain (required ''product_name'' (SaString 255)), plain (required ''product_price'' (SaNumeric 10 2))]
    [Constraint (Plain ''price_positive'') (CheckThat ''product_price > 0''),
     IndexOn ''idx_subscription_products_subscription_event_id'' (btree [''subscription_event_id'']),
     IndexOn ''idx_subscription_products_product_id'' (btree [''product_id''])]"

definition subscription_payment_model :: mapped_class where
  "subscription_payment_model = MappedClass ''subscription_payments''
    [key_column (plain generated_id),
     referencing ''subscription_events'' ''id'' (Some ''CASCADE'') (required ''subscription_event_id'' SaUuid),
     referencing ''users'' ''id'' (Some ''RESTRICT'') (required ''user_id'' SaUuid),
     plain (required ''amount'' (SaNumeric 10 2)), plain (required ''payment_method'' (SaString 30)),
     plain (required ''provider'' (SaString 50)), plain (optional ''provider_transaction_id'' (SaString 255)),
     plain (defaulted ''status'' (SaString 20) (quoted (payment_status_value PayPENDING))),
     plain (optional ''completed_at'' SaDateTime)]
    [Constraint (Plain ''amount_positive'') (CheckThat ''amount > 0''),
     Constraint (Plain ''status'') (CheckThat (''status IN ('' @ sql_str_list payment_statuses @ '')'')),
     IndexOn ''idx_subscription_payments_event_id'' (btree [''subscription_event_id'']),
     IndexOn ''idx_subscription_payments_user_id'' (btree [''user_id'']),
     IndexOn ''idx_subscription_payments_provider_txn'' (btree [''provider_transaction_id''])]"

definition mapped_classes :: "mapped_class list" where
  "mapped_classes =
    [user_model, user_preferences_model, product_type_model, product_category_model, product_model,
     product_coffee_model, product_equipment_model, product_accessories_model, product_consumables_model,
     product_compatibility_model, product_rating_model, rating_model, point_model, order_model, order_product_model,
     order_pickup_info_model, order_delivery_info_model, order_payment_model, payment_method_model,
     subscription_model, subscription_delivery_info_model, subscription_event_model, subscription_product_model,
     subscription_payment_model]"

end
