(* ===== verification/Migrations.thy ===== *)
theory Migrations
  imports Ddl
begin

text \<open>
  The migrations of \<open>src/alembic/versions/\<close>, operation by operation. The \<open>ALTER ... RENAME\<close>
  statements of the renaming are the operations \<open>RenameConstraint\<close> and \<open>RenameIndex\<close>; the one
  \<open>UPDATE\<close> is \<open>BackfillCategoryTypes\<close>, which does not change the schema; what it does to the rows
  is described at the end.
\<close>

section \<open>f7e00cc886fd: create auth tables\<close>

text \<open>\<open>src/alembic/versions/2026_05_24_1034-f7e00cc886fd_create_auth_tables.py\<close>\<close>

definition create_users :: operation where
  "create_users = CreateTable ''users''
    ([generated_id, optional ''email'' (SaString 255), required ''display_name'' (SaString 255),
     defaulted ''is_active'' SaBoolean ''true''] @ timestamps)
    [(Final ''pk_users'', PrimaryKey [''id''])]"

definition create_oauth_accounts :: operation where
  "create_oauth_accounts = CreateTable ''oauth_accounts''
    ([generated_id, required ''user_id'' SaUuid, required ''provider'' (SaString 50),
     required ''provider_id'' (SaString 255), optional ''provider_email'' (SaString 255),
     optional ''provider_name'' (SaString 255)] @ timestamps)
    [(Final ''ck_oauth_accounts_provider'', CheckThat ''provider IN ('apple', 'google')''),
     (Final ''fk_oauth_accounts_user_id_users'', ForeignKey [''user_id''] ''users'' [''id''] (Some ''CASCADE'')),
     (Final ''pk_oauth_accounts'', PrimaryKey [''id'']),
     (Final ''uq_oauth_accounts_provider'', UniqueKey [''provider'', ''provider_id'']),
     (Final ''uq_oauth_accounts_user_id'', UniqueKey [''user_id''])]"

definition create_user_preferences :: operation where
  "create_user_preferences = CreateTable ''user_preferences''
    ([generated_id, required ''user_id'' SaUuid, defaulted ''language'' (SaString 10) (quoted ''en''),
     defaulted ''timezone'' (SaString 50) (quoted ''UTC'')] @ timestamps)
    [(Final ''fk_user_preferences_user_id_users'', ForeignKey [''user_id''] ''users'' [''id''] (Some ''CASCADE'')),
     (Final ''pk_user_preferences'', PrimaryKey [''id'']),
     (Final ''uq_user_preferences_user_id'', UniqueKey [''user_id''])]"

definition upgrade_auth :: "operation list" where
  "upgrade_auth =
    [create_users, CreateIndex ''idx_users_is_active'' ''users'' (btree [''is_active'']), create_oauth_accounts,
     create_user_preferences]"

definition downgrade_auth :: "operation list" where
  "downgrade_auth =
    [DropTable ''user_preferences'', DropTable ''oauth_accounts'', DropIndex ''users'' ''idx_users_is_active'',
     DropTable ''users'']"

section \<open>cff5f80e0d74: create sessions table\<close>

text \<open>\<open>src/alembic/versions/2026_05_24_1057-cff5f80e0d74_create_sessions_table.py\<close>\<close>

definition create_sessions :: operation where
  "create_sessions = CreateTable ''sessions''
    ([generated_id, required ''user_id'' SaUuid, required ''refresh_jti'' SaUuid,
     defaulted ''is_active'' SaBoolean ''true'', required ''expires_at'' SaDateTime] @ timestamps)
    [(Final ''fk_sessions_user_id_users'', ForeignKey [''user_id''] ''users'' [''id''] (Some ''CASCADE'')),
     (Final ''pk_sessions'', PrimaryKey [''id''])]"

definition upgrade_sessions :: "operation list" where
  "upgrade_sessions =
    [create_sessions, CreateIndex ''idx_sessions_user_id'' ''sessions'' (btree [''user_id''])]"

definition downgrade_sessions :: "operation list" where
  "downgrade_sessions =
    [DropIndex ''sessions'' ''idx_sessions_user_id'', DropTable ''sessions'']"

section \<open>1a202060566b: create catalog tables\<close>

text \<open>\<open>src/alembic/versions/2026_05_27_0640-1a202060566b_create_catalog_tables.py\<close>\<close>

definition create_categories :: operation where
  "create_categories = CreateTable ''categories''
    ([generated_id, required ''name'' (SaString 200), optional ''description'' SaText,
     defaulted ''is_active'' SaBoolean ''true''] @ timestamps)
    [(Final ''pk_categories'', PrimaryKey [''id'']), (Final ''uq_categories_name'', UniqueKey [''name''])]"

definition create_product_types :: operation where
  "create_product_types = CreateTable ''product_types''
    ([generated_id, required ''name'' (SaString 100), optional ''description'' SaText,
     defaulted ''is_active'' SaBoolean ''true''] @ timestamps)
    [(Final ''pk_product_types'', PrimaryKey [''id'']), (Final ''uq_product_types_name'', UniqueKey [''name''])]"

definition create_products :: operation where
  "create_products = CreateTable ''products''
    ([generated_id, required ''name'' (SaString 255), optional ''description'' SaText,
     optional ''image_url'' (SaString 500), required ''category_id'' SaUuid, required ''product_type_id'' SaUuid,
     required ''price'' (SaNumeric 10 2), defaulted ''currency'' (SaString 3) (quoted ''EUR''),
     defaulted ''is_active'' SaBoolean ''true''] @ timestamps)
    [(Final ''ck_products_price_positive'', CheckThat ''price > 0''),
     (Final ''fk_products_category_id_categories'', ForeignKey [''category_id''] ''categories'' [''id''] None),
     (Final ''fk_products_product_type_id_product_types'', ForeignKey [''product_type_id''] ''product_types'' [''id''] None),
     (Final ''pk_products'', PrimaryKey [''id''])]"

definition create_product_accessories :: operation where
  "create_product_accessories = CreateTable ''product_accessories''
    ([required ''id'' SaUuid, required ''accessory_type'' (SaString 50), required ''material'' (SaString 100),
     optional ''other_options'' SaJsonb] @ timestamps)
    [(Final ''ck_product_accessories_accessory_type'', CheckThat ''accessory_type IN ('filter', 'tamper', 'scale', 'pitcher', 'thermometer', 'knockbox', 'other')''),
     (Final ''fk_product_accessories_id_products'', ForeignKey [''id''] ''products'' [''id''] (Some ''CASCADE'')),
     (Final ''pk_product_accessories'', PrimaryKey [''id''])]"

definition create_product_coffee :: operation where
  "create_product_coffee = CreateTable ''product_coffee''
    ([required ''id'' SaUuid, required ''region'' (SaString 100), required ''roast_level'' (SaString 20),
     required ''acidity'' SaSmallInteger, required ''body'' SaSmallInteger, required ''sweetness'' SaSmallInteger,
     required ''processing'' (SaString 50), optional ''altitude'' SaInteger, optional ''flavor_notes'' SaJsonb] @ timestamps)
    [(Final ''ck_product_coffee_processing'', CheckThat ''processing IN ('washed', 'natural', 'anaerobic', 'honey')''),
     (Final ''ck_product_coffee_roast_level'', CheckThat ''roast_level IN ('light', 'medium', 'dark')''),
     (Final ''ck_product_coffee_acidity_scale'', CheckThat ''acidity BETWEEN 1 AND 5''),
     (Final ''ck_product_coffee_body_scale'', CheckThat ''body BETWEEN 1 AND 5''),
     (Final ''ck_product_coffee_sweetness_scale'', CheckThat ''sweetness BETWEEN 1 AND 5''),
     (Final ''fk_product_coffee_id_products'', ForeignKey [''id''] ''products'' [''id''] (Some ''CASCADE'')),
     (Final ''pk_product_coffee'', PrimaryKey [''id''])]"

definition create_product_compatibility :: operation where
  "create_product_compatibility = CreateTable ''product_compatibility''
    ([generated_id, required ''accessory_product_id'' SaUuid, required ''compatible_product_id'' SaUuid,
     optional ''compatibility_notes'' (SaString 255)] @ timestamps)
    [(Final ''ck_product_compatibility_not_self_compatible'', CheckThat ''accessory_product_id != compatible_product_id''),
     (Final ''fk_product_compatibility_accessory_product_id_products'', ForeignKey [''accessory_product_id''] ''products'' [''id''] (Some ''CASCADE'')),
     (Final ''fk_product_compatibility_compatible_product_id_products'', ForeignKey [''compatible_product_id''] ''products'' [''id''] (Some ''CASCADE'')),
     (Final ''pk_product_compatibility'', PrimaryKey [''id'']),
     (Final ''uq_product_compatibility_accessory_product_id'', UniqueKey [''accessory_product_id'', ''compatible_product_id''])]"

definition create_product_consumables :: operation where
  "create_product_consumables = CreateTable ''product_consumables''
    ([required ''id'' SaUuid, required ''consumable_type'' (SaString 50), required ''quantity_per_pack'' SaInteger,
     required ''unit_description'' (SaString 50), optional ''material'' (SaString 100),
     optional ''other_options'' SaJsonb, optional ''expiry_months'' SaInteger,
     optional ''storage_conditions'' (SaString 255)] @ timestamps)
    [(Final ''ck_product_consumables_consumable_type'', CheckThat ''consumable_type IN ('filter', 'pods', 'cleaning', 'water', 'other')''),
     (Final ''ck_product_consumables_expiry_positive'', CheckThat ''expiry_months IS NULL OR expiry_months > 0''),
     (Final ''ck_product_consumables_quantity_positive'', CheckThat ''quantity_per_pack > 0''),
     (Final ''fk_product_consumables_id_products'', ForeignKey [''id''] ''products'' [''id''] (Some ''CASCADE'')),
     (Final ''pk_product_consumables'', PrimaryKey [''id''])]"

definition create_product_equipment :: operation where
  "create_product_equipment = CreateTable ''product_equipment''
    ([required ''id'' SaUuid, required ''equipment_type'' (SaString 50), optional ''power_watts'' SaInteger,
     optional ''warranty_months'' SaInteger, optional ''width_cm'' (SaNumeric 5 2),
     optional ''height_cm'' (SaNumeric 5 2), optional ''depth_cm'' (SaNumeric 5 2),
     optional ''weight_kg'' (SaNumeric 6 2), optional ''material'' (SaString 100), optional ''other_options'' SaJsonb] @ timestamps)
    [(Final ''ck_product_equipment_equipment_type'', CheckThat ''equipment_type IN ('machine', 'grinder', 'brewer', 'scale', 'other')''),
     (Final ''ck_product_equipment_depth_positive'', CheckThat ''depth_cm IS NULL OR depth_cm > 0''),
     (Final ''ck_product_equipment_height_positive'', CheckThat ''height_cm IS NULL OR height_cm > 0''),
     (Final ''ck_product_equipment_power_positive'', CheckThat ''power_watts IS NULL OR power_watts > 0''),
     (Final ''ck_product_equipment_warranty_non_negative'', CheckThat ''warranty_months IS NULL OR warranty_months >= 0''),
     (Final ''ck_product_equipment_width_positive'', CheckThat ''width_cm IS NULL OR width_cm > 0''),
     (Final ''fk_product_equipment_id_products'', ForeignKey [''id''] ''products'' [''id''] (Some ''CASCADE'')),
     (Final ''pk_product_equipment'', PrimaryKey [''id''])]"

definition upgrade_catalog :: "operation list" where
  "upgrade_catalog =
    [create_categories, CreateIndex ''idx_categories_is_active'' ''categories'' (btree [''is_active'']),
     create_product_types, create_products,
     CreateIndex ''idx_products_category_id'' ''products'' (btree [''category_id'']),
     CreateIndex ''idx_products_is_active'' ''products'' (btree [''is_active'']),
     CreateIndex ''idx_products_product_type_id'' ''products'' (btree [''product_type_id'']),
     create_product_accessories, create_product_coffee,
     CreateIndex ''idx_product_coffee_acidity'' ''product_coffee'' (btree [''acidity'']),
     CreateIndex ''idx_product_coffee_altitude'' ''product_coffee'' (btree [''altitude'']),
     CreateIndex ''idx_product_coffee_body'' ''product_coffee'' (btree [''body'']),
     CreateIndex ''idx_product_coffee_flavor_keys'' ''product_coffee'' (Index [''(flavor_notes -> 'keys')''] False (Some ''gin'')),
     CreateIndex ''idx_product_coffee_processing'' ''product_coffee'' (btree [''processing'']),
     CreateIndex ''idx_product_coffee_region'' ''product_coffee'' (btree [''region'']),
     CreateIndex ''idx_product_coffee_roast_level'' ''product_coffee'' (btree [''roast_level'']),
     CreateIndex ''idx_product_coffee_sweetness'' ''product_coffee'' (btree [''sweetness'']),
     create_product_compatibility,
     CreateIndex ''idx_productcompat_compatible_id'' ''product_compatibility'' (btree [''compatible_product_id'']),
     create_product_consumables, create_product_equipment]"

definition downgrade_catalog :: "operation list" where
  "downgrade_catalog =
    [DropTable ''product_equipment'', DropTable ''product_consumables'',
     DropIndex ''product_compatibility'' ''idx_productcompat_compatible_id'', DropTable ''product_compatibility'',
     DropIndex ''product_coffee'' ''idx_product_coffee_sweetness'',
     DropIndex ''product_coffee'' ''idx_product_coffee_roast_level'',
     DropIndex ''product_coffee'' ''idx_product_coffee_region'',
     DropIndex ''product_coffee'' ''idx_product_coffee_processing'',
     DropIndex ''product_coffee'' ''idx_product_coffee_flavor_keys'',
     DropIndex ''product_coffee'' ''idx_product_coffee_body'',
     DropIndex ''product_coffee'' ''idx_product_coffee_altitude'',
     DropIndex ''product_coffee'' ''idx_product_coffee_acidity'', DropTable ''product_coffee'',
     DropTable ''product_accessories'', DropIndex ''products'' ''idx_products_product_type_id'',
     DropIndex ''products'' ''idx_products_is_active'', DropIndex ''products'' ''idx_products_category_id'',
     DropTable ''products'', DropTable ''product_types'', DropIndex ''categories'' ''idx_categories_is_active'',
     DropTable ''categories'']"

section \<open>e38361f22261: create ratings tables\<close>

text \<open>\<open>src/alembic/versions/2026_05_27_0704-e38361f22261_create_ratings_tables.py\<close>\<close>

definition create_product_ratings :: operation where
  "create_product_ratings = CreateTable ''product_ratings''
    ([generated_id, required ''product_id'' SaUuid, required ''average_rating'' (SaNumeric 2 1),
     required ''total_ratings'' SaInteger, required ''distribution'' SaJsonb] @ timestamps)
    [(Final ''ck_product_ratings_average_range'', CheckThat ''average_rating BETWEEN 1.0 AND 5.0''),
     (Final ''ck_product_ratings_total_positive'', CheckThat ''total_ratings >= 1''),
     (Final ''fk_product_ratings_product_id_products'', ForeignKey [''product_id''] ''products'' [''id''] (Some ''CASCADE'')),
     (Final ''pk_product_ratings'', PrimaryKey [''id'']),
     (Final ''uq_product_ratings_product_id'', UniqueKey [''product_id''])]"

definition create_ratings :: operation where
  "create_ratings = CreateTable ''ratings''
    ([generated_id, required ''product_id'' SaUuid, required ''user_id'' SaUuid, required ''rating'' SaSmallInteger] @ timestamps)
    [(Final ''ck_ratings_rating_scale'', CheckThat ''rating BETWEEN 1 AND 5''),
     (Final ''fk_ratings_product_id_products'', ForeignKey [''product_id''] ''products'' [''id''] (Some ''CASCADE'')),
     (Final ''fk_ratings_user_id_users'', ForeignKey [''user_id''] ''users'' [''id''] (Some ''CASCADE'')),
     (Final ''pk_ratings'', PrimaryKey [''id'']),
     (Final ''uq_ratings_product_id'', UniqueKey [''product_id'', ''user_id''])]"

definition upgrade_ratings :: "operation list" where
  "upgrade_ratings =
    [create_product_ratings,
     CreateIndex ''idx_product_ratings_average'' ''product_ratings'' (btree [''average_rating'']), create_ratings,
     CreateIndex ''idx_ratings_product_id'' ''ratings'' (btree [''product_id'']),
     CreateIndex ''idx_ratings_user_id'' ''ratings'' (btree [''user_id''])]"

definition downgrade_ratings :: "operation list" where
  "downgrade_ratings =
    [DropIndex ''ratings'' ''idx_ratings_user_id'', DropIndex ''ratings'' ''idx_ratings_product_id'',
     DropTable ''ratings'', DropIndex ''product_ratings'' ''idx_product_ratings_average'',
     DropTable ''product_ratings'']"

section \<open>03c347c01bed: create orders and points tables\<close>

text \<open>\<open>src/alembic/versions/2026_05_27_0833-03c347c01bed_create_orders_and_points_tables.py\<close>\<close>

definition create_points :: operation where
  "create_points = CreateTable ''points''
    ([generated_id, required ''name'' (SaString 255), required ''address'' SaText, required ''type'' (SaString 20),
     required ''hours'' SaJsonb, required ''contacts'' SaJsonb, defaulted ''is_active'' SaBoolean ''true''] @ timestamps)
    [(Final ''ck_points_type'', CheckThat ''type IN ('coffeeshop', 'warehouse', 'roastery')''),
     (Final ''pk_points'', PrimaryKey [''id''])]"

definition create_orders :: operation where
  "create_orders = CreateTable ''orders''
    ([generated_id, required ''user_id'' SaUuid, required ''order_type'' (SaString 20),
     required ''total_price'' (SaNumeric 10 2), defaulted ''currency'' (SaString 3) (quoted ''EUR''),
     defaulted ''status'' (SaString 30) (quoted ''created''), optional ''notes'' SaText] @ timestamps)
    [(Final ''ck_orders_order_type'', CheckThat ''order_type IN ('pickup', 'delivery')''),
     (Final ''ck_orders_status'', CheckThat ''status IN ('created', 'confirmed', 'in_progress', 'completed', 'cancelled', 'refunded', 'failed')''),
     (Final ''ck_orders_total_price_positive'', CheckThat ''total_price > 0''),
     (Final ''fk_orders_user_id_users'', ForeignKey [''user_id''] ''users'' [''id''] (Some ''RESTRICT'')),
     (Final ''pk_orders'', PrimaryKey [''id''])]"

definition create_order_delivery_info :: operation where
  "create_order_delivery_info = CreateTable ''order_delivery_info''
    ([generated_id, required ''order_id'' SaUuid, required ''recipient_name'' (SaString 255),
     required ''phone'' (SaString 20), required ''address'' SaText, required ''city'' (SaString 100),
     optional ''postal_code'' (SaString 20), optional ''notes'' SaText, optional ''shipped_at'' SaDateTime,
     optional ''delivered_at'' SaDateTime] @ timestamps)
    [(Final ''fk_order_delivery_info_order_id_orders'', ForeignKey [''order_id''] ''orders'' [''id''] (Some ''CASCADE'')),
     (Final ''pk_order_delivery_info'', PrimaryKey [''id'']),
     (Final ''uq_order_delivery_info_order_id'', UniqueKey [''order_id''])]"

definition create_order_pickup_info :: operation where
  "create_order_pickup_info = CreateTable ''order_pickup_info''
    ([generated_id, required ''order_id'' SaUuid, required ''point_id'' SaUuid, required ''pickup_code'' (SaChar 6),
     required ''pickup_deadline'' SaDateTime, optional ''picked_up_at'' SaDateTime] @ timestamps)
    [(Final ''fk_order_pickup_info_order_id_orders'', ForeignKey [''order_id''] ''orders'' [''id''] (Some ''CASCADE'')),
     (Final ''fk_order_pickup_info_point_id_points'', ForeignKey [''point_id''] ''points'' [''id''] (Some ''RESTRICT'')),
     (Final ''pk_order_pickup_info'', PrimaryKey [''id'']),
     (Final ''uq_order_pickup_info_order_id'', UniqueKey [''order_id'']),
     (Final ''uq_order_pickup_info_pickup_code'', UniqueKey [''pickup_code''])]"

definition create_order_products :: operation where
  "create_order_products = CreateTable ''order_products''
    ([generated_id, required ''order_id'' SaUuid, required ''product_id'' SaUuid,
     required ''product_name'' (SaString 255), required ''product_price'' (SaNumeric 10 2),
     required ''quantity'' SaInteger, optional ''grind'' (SaString 50)] @ timestamps)
    [(Final ''ck_order_products_grind'', CheckThat ''grind IS NULL OR grind IN ('extra_coarse', 'coarse', 'medium_coarse', 'medium', 'medium_fine', 'fine', 'extra_fine')''),
     (Final ''ck_order_products_quantity_positive'', CheckThat ''quantity > 0''),
     (Final ''fk_order_products_order_id_orders'', ForeignKey [''order_id''] ''orders'' [''id''] (Some ''CASCADE'')),
     (Final ''fk_order_products_product_id_products'', ForeignKey [''product_id''] ''products'' [''id''] (Some ''RESTRICT'')),
     (Final ''pk_order_products'', PrimaryKey [''id''])]"

definition upgrade_orders :: "operation list" where
  "upgrade_orders =
    [create_points, CreateIndex ''idx_points_is_active'' ''points'' (btree [''is_active'']),
     CreateIndex ''idx_points_name'' ''points'' (btree [''name'']),
     CreateIndex ''idx_points_type'' ''points'' (btree [''type'']), create_orders,
     CreateIndex ''idx_orders_status'' ''orders'' (btree [''status'']),
     CreateIndex ''idx_orders_user_id'' ''orders'' (btree [''user_id'']), create_order_delivery_info,
     CreateIndex ''idx_order_delivery_info_city'' ''order_delivery_info'' (btree [''city'']),
     create_order_pickup_info,
     CreateIndex ''idx_order_pickup_info_pickup_deadline'' ''order_pickup_info'' (btree [''pickup_deadline'']),
     CreateIndex ''idx_order_pickup_info_point_id'' ''order_pickup_info'' (btree [''point_id'']),
     create_order_products, CreateIndex ''idx_order_products_order_id'' ''order_products'' (btree [''order_id'']),
     CreateIndex ''idx_order_products_product_id'' ''order_products'' (btree [''product_id''])]"

definition downgrade_orders :: "operation list" where
  "downgrade_orders =
    [DropIndex ''order_products'' ''idx_order_products_product_id'',
     DropIndex ''order_products'' ''idx_order_products_order_id'', DropTable ''order_products'',
     DropIndex ''order_pickup_info'' ''idx_order_pickup_info_point_id'',
     DropIndex ''order_pickup_info'' ''idx_order_pickup_info_pickup_deadline'', DropTable ''order_pickup_info'',
     DropIndex ''order_delivery_info'' ''idx_order_delivery_info_city'', DropTable ''order_delivery_info'',
     DropIndex ''orders'' ''idx_orders_user_id'', DropIndex ''orders'' ''idx_orders_status'', DropTable ''orders'',
     DropIndex ''points'' ''idx_points_type'', DropIndex ''points'' ''idx_points_name'',
     DropIndex ''points'' ''idx_points_is_active'', DropTable ''points'']"

section \<open>ff2257ab755e: create subscription tables\<close>

text \<open>\<open>src/alembic/versions/2026_05_28_1900-ff2257ab755e_create_subscription_tables.py\<close>\<close>

definition create_subscriptions :: operation where
  "create_subscriptions = CreateTable ''subscriptions''
    ([generated_id, required ''user_id'' SaUuid, defaulted ''status'' (SaString 20) (quoted ''pending'')] @ timestamps)
    [(Final ''ck_subscriptions_status'', CheckThat ''status IN ('pending', 'active', 'paused', 'cancelled', 'completed')''),
     (Final ''fk_subscriptions_user_id_users'', ForeignKey [''user_id''] ''users'' [''id''] (Some ''RESTRICT'')),
     (Final ''pk_subscriptions'', PrimaryKey [''id''])]"

definition create_subscription_delivery_info :: operation where
  "create_subscription_delivery_info = CreateTable ''subscription_delivery_info''
    ([generated_id, required ''subscription_id'' SaUuid, required ''recipient_name'' (SaString 255),
     required ''phone'' (SaString 20), required ''address'' SaText, required ''city'' (SaString 100),
     optional ''postal_code'' (SaString 20), optional ''notes'' SaText] @ timestamps)
    [(Final ''fk_subscription_delivery_info_subscription_id_subscriptions'', ForeignKey [''subscription_id''] ''subscriptions'' [''id''] (Some ''CASCADE'')),
     (Final ''pk_subscription_delivery_info'', PrimaryKey [''id'']),
     (Final ''uq_subscription_delivery_info_subscription_id'', UniqueKey [''subscription_id''])]"

definition create_subscription_events :: operation where
  "create_subscription_events = CreateTable ''subscription_events''
    ([generated_id, required ''subscription_id'' SaUuid, optional ''order_id'' SaUuid,
     required ''scheduled_date'' SaDate, required ''price_per_delivery'' (SaNumeric 10 2),
     defaulted ''currency'' (SaString 3) (quoted ''EUR''), defaulted ''status'' (SaString 20) (quoted ''pending'')] @ timestamps)
    [(Final ''ck_subscription_events_status'', CheckThat ''status IN ('pending', 'ready', 'paused', 'completed', 'cancelled')''),
     (Final ''ck_subscription_events_price_positive'', CheckThat ''price_per_delivery > 0''),
     (Final ''fk_subscription_events_order_id_orders'', ForeignKey [''order_id''] ''orders'' [''id''] (Some ''SET NULL'')),
     (Final ''fk_subscription_events_subscription_id_subscriptions'', ForeignKey [''subscription_id''] ''subscriptions'' [''id''] (Some ''CASCADE'')),
     (Final ''pk_subscription_events'', PrimaryKey [''id'']),
     (Final ''uq_subscription_events_subscription_id'', UniqueKey [''subscription_id'', ''scheduled_date''])]"

definition create_subscription_payments :: operation where
  "create_subscription_payments = CreateTable ''subscription_payments''
    ([generated_id, required ''subscription_event_id'' SaUuid, required ''user_id'' SaUuid,
     required ''amount'' (SaNumeric 10 2), required ''payment_method'' (SaString 30),
     required ''provider'' (SaString 50), optional ''provider_transaction_id'' (SaString 255),
     defaulted ''status'' (SaString 20) (quoted ''pending''), optional ''completed_at'' SaDateTime] @ timestamps)
    [(Final ''ck_subscription_payments_status'', CheckThat ''status IN ('pending', 'completed', 'failed', 'refunded')''),
     (Final ''ck_subscription_payments_amount_positive'', CheckThat ''amount > 0''),
     (Final ''fk_subscription_payments_subscription_event_id_subscription_events'', ForeignKey [''subscription_event_id''] ''subscription_events'' [''id''] (Some ''CASCADE'')),
     (Final ''fk_subscription_payments_user_id_users'', ForeignKey [''user_id''] ''users'' [''id''] (Some ''RESTRICT'')),
     (Final ''pk_subscription_payments'', PrimaryKey [''id''])]"

definition create_subscription_products :: operation where
  "create_subscription_products = CreateTable ''subscription_products''
    ([generated_id, required ''subscription_event_id'' SaUuid, required ''product_id'' SaUuid,
     required ''product_name'' (SaString 255), required ''product_price'' (SaNumeric 10 2)] @ timestamps)
    [(Final ''ck_subscription_products_price_positive'', CheckThat ''product_price > 0''),
     (Final ''fk_subscription_products_product_id_products'', ForeignKey [''product_id''] ''products'' [''id''] (Some ''RESTRICT'')),
     (Final ''fk_subscription_products_subscription_event_id_subscription_events'', ForeignKey [''subscription_event_id''] ''subscription_events'' [''id''] (Some ''CASCADE'')),
     (Final ''pk_subscription_products'', PrimaryKey [''id'']),
     (Final ''uq_subscription_products_subscription_event_id'', UniqueKey [''subscription_event_id''])]"

definition upgrade_subscriptions :: "operation list" where
  "upgrade_subscriptions =
    [create_subscriptions, CreateIndex ''idx_subscriptions_status'' ''subscriptions'' (btree [''status'']),
     CreateIndex ''idx_subscriptions_user_id'' ''subscriptions'' (btree [''user_id'']),
     create_subscription_delivery_info,
     CreateIndex ''idx_subscription_delivery_info_city'' ''subscription_delivery_info'' (btree [''city'']),
     create_subscription_events,
     CreateIndex ''idx_subscription_events_order_id'' ''subscription_events'' (btree [''order_id'']),
     CreateIndex ''idx_subscription_events_scheduled_date'' ''subscription_events'' (btree [''scheduled_date'']),
     CreateIndex ''idx_subscription_events_status'' ''subscription_events'' (btree [''status'']),
     CreateIndex ''idx_subscription_events_subscription_id'' ''subscription_events'' (btree [''subscription_id'']),
     create_subscription_payments,
     CreateIndex ''idx_subscription_payments_event_id'' ''subscription_payments'' (btree [''subscription_event_id'']),
     CreateIndex ''idx_subscription_payments_provider_txn'' ''subscription_payments'' (btree [''provider_transaction_id'']),
     CreateIndex ''idx_subscription_payments_user_id'' ''subscription_payments'' (btree [''user_id'']),
     create_subscription_products,
     CreateIndex ''idx_subscription_products_product_id'' ''subscription_products'' (btree [''product_id'']),
     CreateIndex ''idx_subscription_products_subscription_event_id'' ''subscription_products'' (btree [''subscription_event_id''])]"

definition downgrade_subscriptions :: "operation list" where
  "downgrade_subscriptions =
    [DropIndex ''subscription_products'' ''idx_subscription_products_subscription_event_id'',
     DropIndex ''subscription_products'' ''idx_subscription_products_product_id'',
     DropTable ''subscription_products'', DropIndex ''subscription_payments'' ''idx_subscription_payments_user_id'',
     DropIndex ''subscription_payments'' ''idx_subscription_payments_provider_txn'',
     DropIndex ''subscription_payments'' ''idx_subscription_payments_event_id'', DropTable ''subscription_payments'',
     DropIndex ''subscription_events'' ''idx_subscription_events_subscription_id'',
     DropIndex ''subscription_events'' ''idx_subscription_events_status'',
     DropIndex ''subscription_events'' ''idx_subscription_events_scheduled_date'',
     DropIndex ''subscription_events'' ''idx_subscription_events_order_id'', DropTable ''subscription_events'',
     DropIndex ''subscription_delivery_info'' ''idx_subscription_delivery_info_city'',
     DropTable ''subscription_delivery_info'', DropIndex ''subscriptions'' ''idx_subscriptions_user_id'',
     DropIndex ''subscriptions'' ''idx_subscriptions_status'', DropTable ''subscriptions'']"

section \<open>a7e3733547a5: create order payments table\<close>

text \<open>\<open>src/alembic/versions/2026_05_28_1907-a7e3733547a5_create_order_payments_table.py\<close>\<close>

definition create_order_payments :: operation where
  "create_order_payments = CreateTable ''order_payments''
    ([generated_id, required ''order_id'' SaUuid, required ''user_id'' SaUuid, required ''amount'' (SaNumeric 10 2),
     required ''payment_method'' (SaString 30), required ''provider'' (SaString 50),
     optional ''provider_transaction_id'' (SaString 255), defaulted ''status'' (SaString 20) (quoted ''pending''),
     optional ''completed_at'' SaDateTime] @ timestamps)
    [(Final ''ck_order_payments_status'', CheckThat ''status IN ('pending', 'completed', 'failed', 'refunded')''),
     (Final ''ck_order_payments_amount_positive'', CheckThat ''amount > 0''),
     (Final ''fk_order_payments_order_id_orders'', ForeignKey [''order_id''] ''orders'' [''id''] (Some ''RESTRICT'')),
     (Final ''fk_order_payments_user_id_users'', ForeignKey [''user_id''] ''users'' [''id''] (Some ''RESTRICT'')),
     (Final ''pk_order_payments'', PrimaryKey [''id''])]"

definition upgrade_order_payments :: "operation list" where
  "upgrade_order_payments =
    [create_order_payments, CreateIndex ''idx_order_payments_order_id'' ''order_payments'' (btree [''order_id'']),
     CreateIndex ''idx_order_payments_provider_txn'' ''order_payments'' (btree [''provider_transaction_id'']),
     CreateIndex ''idx_order_payments_user_id'' ''order_payments'' (btree [''user_id''])]"

definition downgrade_order_payments :: "operation list" where
  "downgrade_order_payments =
    [DropIndex ''order_payments'' ''idx_order_payments_user_id'',
     DropIndex ''order_payments'' ''idx_order_payments_provider_txn'',
     DropIndex ''order_payments'' ''idx_order_payments_order_id'', DropTable ''order_payments'']"

section \<open>f8b6a35b75ea: add subscription frequency column\<close>

text \<open>\<open>src/alembic/versions/2026_05_28_1918-f8b6a35b75ea_add_subscription_frequency_column.py\<close>\<close>

definition upgrade_frequency :: "operation list" where
  "upgrade_frequency =
    [AddColumn ''subscriptions'' (required ''frequency'' (SaString 20)),
     AddConstraint ''subscriptions'' (Final ''ck_subscriptions_frequency'') (CheckThat ''frequency IN ('weekly', 'biweekly', 'monthly')'')]"

definition downgrade_frequency :: "operation list" where
  "downgrade_frequency =
    [DropConstraint ''subscriptions'' CheckKind (Final ''ck_subscriptions_frequency''),
     DropColumn ''subscriptions'' ''frequency'']"

section \<open>2848920356cc: create payment_methods table\<close>

text \<open>\<open>src/alembic/versions/2026_05_28_2026-2848920356cc_create_payment_methods_table.py\<close>\<close>

definition create_payment_methods :: operation where
  "create_payment_methods = CreateTable ''payment_methods''
    ([generated_id, required ''user_id'' SaUuid, required ''provider'' (SaString 50),
     required ''provider_customer_id'' (SaString 255), required ''provider_method_token'' (SaString 255),
     required ''brand'' (SaString 30), required ''last4'' (SaString 4), required ''exp_month'' SaInteger,
     required ''exp_year'' SaInteger, defaulted ''is_default'' SaBoolean ''false''] @ timestamps)
    [(Final ''ck_payment_methods_exp_month_range'', CheckThat ''exp_month BETWEEN 1 AND 12''),
     (Final ''fk_payment_methods_user_id_users'', ForeignKey [''user_id''] ''users'' [''id''] (Some ''CASCADE'')),
     (Final ''pk_payment_methods'', PrimaryKey [''id'']),
     (Plain ''provider_token'', UniqueKey [''provider'', ''provider_method_token''])]"

definition upgrade_payment_methods :: "operation list" where
  "upgrade_payment_methods =
    [create_payment_methods, CreateIndex ''idx_payment_methods_user_id'' ''payment_methods'' (btree [''user_id''])]"

definition downgrade_payment_methods :: "operation list" where
  "downgrade_payment_methods =
    [DropIndex ''payment_methods'' ''idx_payment_methods_user_id'', DropTable ''payment_methods'']"

section \<open>b1c2d3e4f5a6: rename categories to product_categories\<close>

text \<open>\<open>src/alembic/versions/2026_05_30_0000-b1c2d3e4f5a6_rename_categories_to_product_categories.py\<close>\<close>

definition upgrade_rename_categories :: "operation list" where
  "upgrade_rename_categories =
    [RenameTable ''categories'' ''product_categories'',
     RenameConstraint ''product_categories'' ''pk_categories'' ''pk_product_categories'',
     RenameConstraint ''product_categories'' ''uq_categories_name'' ''uq_product_categories_name'',
     RenameIndex ''idx_categories_is_active'' ''idx_product_categories_is_active'',
     RenameColumn ''products'' ''category_id'' ''product_category_id'',
     RenameIndex ''idx_products_category_id'' ''idx_products_product_category_id'',
     RenameConstraint ''products'' ''fk_products_category_id_categories'' ''fk_products_product_category_id_product_categories'']"

definition downgrade_rename_categories :: "operation list" where
  "downgrade_rename_categories =
    [RenameConstraint ''products'' ''fk_products_product_category_id_product_categories'' ''fk_products_category_id_categories'',
     RenameIndex ''idx_products_product_category_id'' ''idx_products_category_id'',
     RenameColumn ''products'' ''product_category_id'' ''category_id'',
     RenameIndex ''idx_product_categories_is_active'' ''idx_categories_is_active'',
     RenameConstraint ''product_categories'' ''uq_product_categories_name'' ''uq_categories_name'',
     RenameConstraint ''product_categories'' ''pk_product_categories'' ''pk_categories'',
     RenameTable ''product_categories'' ''categories'']"

section \<open>c7d8e9f0a1b2: category product_type + filter indexes\<close>

text \<open>\<open>src/alembic/versions/2026_05_30_0100-c7d8e9f0a1b2_category_product_type_and_filter_indexes.py\<close>\<close>

definition upgrade_category_type :: "operation list" where
  "upgrade_category_type =
    [AddColumn ''product_categories'' (optional ''product_type_id'' SaUuid), BackfillCategoryTypes,
     SetNotNull ''product_categories'' ''product_type_id'',
     AddConstraint ''product_categories'' (Final ''fk_product_categories_product_type_id_product_types'') (ForeignKey [''product_type_id''] ''product_types'' [''id''] None),
     CreateIndex ''idx_product_categories_product_type_id'' ''product_categories'' (btree [''product_type_id'']),
     CreateIndex ''idx_product_equipment_equipment_type'' ''product_equipment'' (btree [''equipment_type'']),
     CreateIndex ''idx_product_equipment_material'' ''product_equipment'' (btree [''material'']),
     CreateIndex ''idx_product_equipment_power_watts'' ''product_equipment'' (btree [''power_watts'']),
     CreateIndex ''idx_product_accessories_accessory_type'' ''product_accessories'' (btree [''accessory_type'']),
     CreateIndex ''idx_product_accessories_material'' ''product_accessories'' (btree [''material'']),
     CreateIndex ''idx_product_consumables_consumable_type'' ''product_consumables'' (btree [''consumable_type'']),
     CreateIndex ''idx_product_consumables_material'' ''product_consumables'' (btree [''material'']),
     CreateIndex ''idx_product_consumables_quantity_per_pack'' ''product_consumables'' (btree [''quantity_per_pack''])]"

definition downgrade_category_type :: "operation list" where
  "downgrade_category_type =
    [DropIndex ''product_consumables'' ''idx_product_consumables_quantity_per_pack'',
     DropIndex ''product_consumables'' ''idx_product_consumables_material'',
     DropIndex ''product_consumables'' ''idx_product_consumables_consumable_type'',
     DropIndex ''product_accessories'' ''idx_product_accessories_material'',
     DropIndex ''product_accessories'' ''idx_product_accessories_accessory_type'',
     DropIndex ''product_equipment'' ''idx_product_equipment_power_watts'',
     DropIndex ''product_equipment'' ''idx_product_equipment_material'',
     DropIndex ''product_equipment'' ''idx_product_equipment_equipment_type'',
     DropIndex ''product_categories'' ''idx_product_categories_product_type_id'',
     DropConstraint ''product_categories'' ForeignKind (Final ''fk_product_categories_product_type_id_product_types''),
     DropColumn ''product_categories'' ''product_type_id'']"

section \<open>d4e5f6a7b8c9: anchor users to crew_auth identity\<close>

text \<open>\<open>src/alembic/versions/2026_07_22_0900-d4e5f6a7b8c9_anchor_users_to_crew_auth_identity.py\<close>\<close>

definition upgrade_anchor_users :: "operation list" where
  "upgrade_anchor_users =
    [AddColumn ''users'' (optional ''auth_user_id'' SaUuid),
     AddConstraint ''users'' (Plain ''uq_users_auth_user_id'') (UniqueKey [''auth_user_id'']),
     DropIndex ''sessions'' ''idx_sessions_user_id'', DropTable ''sessions'', DropTable ''oauth_accounts'']"

definition recreate_oauth_accounts :: operation where
  "recreate_oauth_accounts = CreateTable ''oauth_accounts''
    ([generated_id, required ''user_id'' SaUuid, required ''provider'' (SaString 50),
     required ''provider_id'' (SaString 255), optional ''provider_email'' (SaString 255),
     optional ''provider_name'' (SaString 255)] @ timestamps)
    [(Plain ''ck_oauth_accounts_provider'', CheckThat ''provider IN ('apple', 'google')''),
     (Plain ''fk_oauth_accounts_user_id_users'', ForeignKey [''user_id''] ''users'' [''id''] (Some ''CASCADE'')),
     (Plain ''pk_oauth_accounts'', PrimaryKey [''id'']),
     (Plain ''uq_oauth_accounts_provider'', UniqueKey [''provider'', ''provider_id'']),
     (Plain ''uq_oauth_accounts_user_id'', UniqueKey [''user_id''])]"

definition recreate_sessions :: operation where
  "recreate_sessions = CreateTable ''sessions''
    ([generated_id, required ''user_id'' SaUuid, required ''refresh_jti'' SaUuid,
     defaulted ''is_active'' SaBoolean ''true'', required ''expires_at'' SaDateTime] @ timestamps)
    [(Plain ''fk_sessions_user_id_users'', ForeignKey [''user_id''] ''users'' [''id''] (Some ''CASCADE'')),
     (Plain ''pk_sessions'', PrimaryKey [''id''])]"

definition downgrade_anchor_users :: "operation list" where
  "downgrade_anchor_users =
    [recreate_oauth_accounts, recreate_sessions,
     CreateIndex ''idx_sessions_user_id'' ''sessions'' (btree [''user_id'']),
     DropConstraint ''users'' UniqueKind (Plain ''uq_users_auth_user_id''), DropColumn ''users'' ''auth_user_id'']"

section \<open>The history\<close>

definition migrations :: "migration list" where
  "migrations =
    [Migration ''f7e00cc886fd'' None upgrade_auth downgrade_auth,
     Migration ''cff5f80e0d74'' (Some ''f7e00cc886fd'') upgrade_sessions downgrade_sessions,
     Migration ''1a202060566b'' (Some ''cff5f80e0d74'') upgrade_catalog downgrade_catalog,
     Migration ''e38361f22261'' (Some ''1a202060566b'') upgrade_ratings downgrade_ratings,
     Migration ''03c347c01bed'' (Some ''e38361f22261'') upgrade_orders downgrade_orders,
     Migration ''ff2257ab755e'' (Some ''03c347c01bed'') upgrade_subscriptions downgrade_subscriptions,
     Migration ''a7e3733547a5'' (Some ''ff2257ab755e'') upgrade_order_payments downgrade_order_payments,
     Migration ''f8b6a35b75ea'' (Some ''a7e3733547a5'') upgrade_frequency downgrade_frequency,
     Migration ''2848920356cc'' (Some ''f8b6a35b75ea'') upgrade_payment_methods downgrade_payment_methods,
     Migration ''b1c2d3e4f5a6'' (Some ''2848920356cc'') upgrade_rename_categories downgrade_rename_categories,
     Migration ''c7d8e9f0a1b2'' (Some ''b1c2d3e4f5a6'') upgrade_category_type downgrade_category_type,
     Migration ''d4e5f6a7b8c9'' (Some ''c7d8e9f0a1b2'') upgrade_anchor_users downgrade_anchor_users]"

section \<open>The rows that c7d8e9f0a1b2 fills in\<close>

text \<open>
  Products are pairs of a category and a product type; a category is its identifier and the new
  column. The inner query groups the products of a category by type and numbers the groups by
  falling size; \<open>pick\<close> stands for the order of PostgreSQL among groups of the same size.
\<close>

definition types_of_category :: "(nat \<times> nat) list \<Rightarrow> nat \<Rightarrow> nat list" where
  "types_of_category products c = remdups (map snd (filter (\<lambda>p. fst p = c) products))"

definition group_size :: "(nat \<times> nat) list \<Rightarrow> nat \<Rightarrow> nat \<Rightarrow> nat" where
  "group_size products c ty = length (filter (\<lambda>p. p = (c, ty)) products)"

definition largest_groups :: "(nat \<times> nat) list \<Rightarrow> nat \<Rightarrow> nat list" where
  "largest_groups products c =
     filter (\<lambda>ty. list_all (\<lambda>ty'. group_size products c ty' \<le> group_size products c ty) (types_of_category products c))
       (types_of_category products c)"

definition backfilled :: "(nat list \<Rightarrow> nat) \<Rightarrow> (nat \<times> nat) list \<Rightarrow> nat \<times> nat option \<Rightarrow> nat \<times> nat option" where
  "backfilled pick products c =
     (if types_of_category products (fst c) = [] then c else (fst c, Some (pick (largest_groups products (fst c)))))"

text \<open>Adding the column, filling it in and enforcing NOT NULL, which PostgreSQL refuses when a value is missing.\<close>

definition add_category_types :: "(nat list \<Rightarrow> nat) \<Rightarrow> nat list \<Rightarrow> (nat \<times> nat) list \<Rightarrow> (nat \<times> nat) list option" where
  "add_category_types pick categories products =
     (let rows = map (backfilled pick products) (map (\<lambda>c. (c, None)) categories)
      in if list_all (\<lambda>r. snd r \<noteq> None) rows then Some (map (\<lambda>r. (fst r, the (snd r))) rows) else None)"

lemma set_types_of_category: "set (types_of_category products c) = {ty. (c, ty) \<in> set products}"
  by (force simp: types_of_category_def image_iff)

lemma types_of_category_empty: "types_of_category products c = [] \<longleftrightarrow> (\<forall>ty. (c, ty) \<notin> set products)"
proof -
  have "types_of_category products c = [] \<longleftrightarrow> set (types_of_category products c) = {}" by simp
  then show ?thesis by (simp add: set_types_of_category del: set_empty)
qed

lemma largest_groups_nonempty:
  assumes "types_of_category products c \<noteq> []"
  shows "largest_groups products c \<noteq> []"
proof -
  let ?T = "set (types_of_category products c)"
  have "Max (group_size products c ` ?T) \<in> group_size products c ` ?T"
    using assms by (intro Max_in) auto
  then obtain ty where ty: "ty \<in> ?T" "group_size products c ty = Max (group_size products c ` ?T)" by auto
  have "\<forall>ty' \<in> ?T. group_size products c ty' \<le> group_size products c ty"
    unfolding ty(2) by simp
  with ty(1) show ?thesis by (auto simp: largest_groups_def filter_empty_conv list_all_iff)
qed

lemma set_largest_groups:
  "ty \<in> set (largest_groups products c) \<longleftrightarrow>
     (c, ty) \<in> set products \<and> (\<forall>ty'. group_size products c ty' \<le> group_size products c ty)"
proof -
  have "group_size products c ty' = 0" if "(c, ty') \<notin> set products" for ty'
    using that by (auto simp: group_size_def filter_empty_conv)
  then show ?thesis
    by (auto simp: largest_groups_def set_types_of_category list_all_iff) (metis zero_le)
qed

end
