(* ===== verification/MigrationProperties.thy ===== *)
theory MigrationProperties
  imports Metadata Migrations
begin

text \<open>
  The migrations build the schema the mapped classes declare, every deployed revision reaches it,
  and what the downgrades and the one data migration do.
\<close>

section \<open>The history evaluated once\<close>

text \<open>All revisions but the latest are upgraded and taken back in turn; the latest then leads to the metadata.\<close>

lemma replayed: "then_agrees (replay (butlast migrations) []) (upgrade (last migrations)) (metadata mapped_classes)"
  by code_simp

lemma migrations_snoc: "migrations = butlast migrations @ [last migrations]"
  by (simp add: migrations_def)

lemma history:
  obtains s s' s'' where "replay (butlast migrations) [] = Some s" "run_operations (concat (map upgrade migrations)) [] = Some s'"
    "metadata mapped_classes = Some s''" "same_schema s' s''"
proof -
  from replayed obtain s s' s'' where 1: "replay (butlast migrations) [] = Some s"
    "run_operations (upgrade (last migrations)) s = Some s'" "metadata mapped_classes = Some s''" "same_schema s' s''"
    by (rule then_agreesD)
  have "concat (map upgrade migrations) = concat (map upgrade (butlast migrations)) @ upgrade (last migrations)"
    by (subst migrations_snoc) simp
  then have "run_operations (concat (map upgrade migrations)) [] = Some s'"
    using replay_runs [OF 1(1)] 1(2) by (simp add: run_operations_append)
  with 1 that show ?thesis by blast
qed

lemma path_from_start: "upgrade_path migrations None = migrations"
  by (simp add: migrations_def upgrade_path.simps)

lemma paths_from_revisions:
  "list_all (\<lambda>k. upgrade_path migrations (Some (revision (migrations ! k))) = drop (Suc k) migrations) [0..<12]"
  by (simp add: migrations_def upt_rec upgrade_path.simps)

lemma length_migrations: "length migrations = 12"
  by (simp add: migrations_def)

lemma path_from_revision:
  assumes "migrations = before @ m # after"
  shows "upgrade_path migrations (Some (revision m)) = after"
proof -
  from length_migrations have "length before < 12" by (subst (asm) assms) simp
  with paths_from_revisions
  have "upgrade_path migrations (Some (revision (migrations ! length before))) = drop (Suc (length before)) migrations"
    by (simp add: list_all_iff)
  moreover have "migrations ! length before = m" by (subst assms) simp
  moreover have "drop (Suc (length before)) migrations = after" by (subst assms) simp
  ultimately show ?thesis by simp
qed

section \<open>Upgrading\<close>

text \<open>
  C12: Run from an empty database, the migrations succeed, and the schema they build is the one the
  mapped classes declare: the same tables, columns, types, defaults, keys, checks and indexes, under
  the same names.
\<close>

theorem migrations_build_the_metadata:
  "\<exists>s s'. upgrade_head migrations = Some s \<and> metadata mapped_classes = Some s' \<and> same_schema s s'"
proof -
  obtain s s' s'' where "replay (butlast migrations) [] = Some s" "run_operations (concat (map upgrade migrations)) [] = Some s'"
    "metadata mapped_classes = Some s''" "same_schema s' s''"
    by (rule history)
  then show ?thesis by (simp add: upgrade_head_def path_from_start)
qed

section \<open>Downgrading\<close>

text \<open>
  C23: The downgrade of every revision but the latest takes back what its upgrade did: run right after
  the upgrade, on the schema the earlier revisions leave, it restores exactly that schema.
\<close>

theorem downgrades_undo_upgrades:
  assumes "migrations = before @ m # after" and "after \<noteq> []"
  shows "\<exists>s s'. run_operations (concat (map upgrade before)) [] = Some s \<and>
    run_operations (upgrade m) s = Some s' \<and> run_operations (downgrade m) s' = Some s"
proof -
  obtain s0 s' s'' where "replay (butlast migrations) [] = Some s0"
    "run_operations (concat (map upgrade migrations)) [] = Some s'" "metadata mapped_classes = Some s''" "same_schema s' s''"
    by (rule history)
  moreover have "butlast migrations = before @ m # butlast after"
    using assms(2) by (subst assms(1)) (simp add: butlast_append)
  ultimately show ?thesis using replay_split [of before m "butlast after"] by simp
qed

lemma downgrades_undo_upgrades_witness:
  "\<exists>s s'. run_operations (concat (map upgrade (take 9 migrations))) [] = Some s \<and>
    run_operations (upgrade (migrations ! 9)) s = Some s' \<and> run_operations (downgrade (migrations ! 9)) s' = Some s"
proof -
  have "migrations = take 9 migrations @ migrations ! 9 # drop 10 migrations" "drop 10 migrations \<noteq> []"
    by (simp_all add: migrations_def)
  then show ?thesis by (rule downgrades_undo_upgrades)
qed

text \<open>
  The downgrade of the latest revision does not recreate the accounts table as it was: the CHECK
  on the provider is not exempted from the naming convention, which prefixes its name once more.
\<close>

theorem recreated_check_is_renamed:
  assumes "run_operation create_oauth_accounts s = Some s1" and "run_operation recreate_oauth_accounts s = Some s2"
  shows "s1 \<noteq> s2 \<and> rel_columns (last s1) = rel_columns (last s2) \<and>
    in_list (constraint_names (last s1)) ''ck_oauth_accounts_provider'' \<and>
    \<not> in_list (constraint_names (last s2)) ''ck_oauth_accounts_provider'' \<and>
    in_list (constraint_names (last s2)) ''ck_oauth_accounts_ck_oauth_accounts_provider''"
  using assms by (auto simp: create_oauth_accounts_def recreate_oauth_accounts_def constraint_names_def split: if_splits)

lemma recreated_check_is_renamed_witness:
  "\<exists>s s1 s2. run_operation create_oauth_accounts s = Some s1 \<and> run_operation recreate_oauth_accounts s = Some s2 \<and> s1 \<noteq> s2"
proof -
  let ?users = "[Relation ''users'' [generated_id] [(''pk_users'', PrimaryKey [''id''])] []]"
  have "run_operation create_oauth_accounts ?users \<noteq> None" "run_operation recreate_oauth_accounts ?users \<noteq> None"
    by code_simp+
  then obtain s1 s2 where "run_operation create_oauth_accounts ?users = Some s1" "run_operation recreate_oauth_accounts ?users = Some s2"
    by (elim not_None_eq [THEN iffD1, elim_format] exE)
  with recreated_check_is_renamed [of ?users s1 s2] show ?thesis by blast
qed

section \<open>The data migration\<close>

text \<open>
  C24: The migration that gives categories a product type succeeds exactly when every category has a
  product. It then keeps the categories and gives each a type that occurs among its products, and
  none occurs more often.
\<close>

theorem category_types_are_filled_in:
  assumes "\<And>tys. tys \<noteq> [] \<Longrightarrow> pick tys \<in> set tys"
  shows "(add_category_types pick categories products = None \<longleftrightarrow>
      (\<exists>c \<in> set categories. \<forall>ty. (c, ty) \<notin> set products)) \<and>
    (\<forall>rows. add_category_types pick categories products = Some rows \<longrightarrow>
      map fst rows = categories \<and>
      (\<forall>(c, ty) \<in> set rows. (c, ty) \<in> set products \<and>
        (\<forall>ty'. group_size products c ty' \<le> group_size products c ty)))"
proof -
  have filled: "snd (backfilled pick products (c, None)) = None \<longleftrightarrow> (\<forall>ty. (c, ty) \<notin> set products)" for c
    by (simp add: backfilled_def types_of_category_empty)
  have picked: "(c, ty) \<in> set products \<and> (\<forall>ty'. group_size products c ty' \<le> group_size products c ty)"
    if "snd (backfilled pick products (c, None)) = Some ty" for c ty
  proof -
    from that have "types_of_category products c \<noteq> []" and ty: "ty = pick (largest_groups products c)"
      by (auto simp: backfilled_def split: if_splits)
    then have "ty \<in> set (largest_groups products c)" using assms largest_groups_nonempty by simp
    then show ?thesis by (simp add: set_largest_groups)
  qed
  have "fst (backfilled pick products (c, None)) = c" for c by (simp add: backfilled_def)
  then show ?thesis
    by (auto simp: add_category_types_def Let_def list_all_iff filled comp_def intro!: picked) (use filled picked in fastforce)+
qed

lemma category_types_are_filled_in_witness:
  "add_category_types hd [1, 2] [(1, 7), (1, 8), (1, 8), (2, 7)] = Some [(1, 8), (2, 7)] \<and>
   add_category_types hd [1, 2, 3] [(1, 7), (1, 8), (1, 8), (2, 7)] = None"
proof -
  have "add_category_types hd [1, 2, 3] [(1, 7), (1, 8), (1, 8), (2, 7)] = None"
    using category_types_are_filled_in [of hd "[1, 2, 3]" "[(1, 7), (1, 8), (1, 8), (2, 7)]"] by fastforce
  moreover have "add_category_types hd [1, 2] [(1, 7), (1, 8), (1, 8), (2, 7)] = Some [(1, 8), (2, 7)]" by code_simp
  ultimately show ?thesis by simp
qed

end
