(* ===== verification/Spec2Isabelle.thy ===== *)
theory Spec2Isabelle
  imports OrderProperties PaymentProperties RatingProperties SchedulerProperties SystemProperties AuthProperties JwksProperties
    CatalogWitnesses RoutesProperties MigrationProperties
begin

text \<open>
  A verification of the backend of a coffee shop: a FastAPI service over PostgreSQL with a
  catalog, accounts, pickup points, orders, payments, saved payment methods, product ratings and
  subscriptions, and a daily job that turns the deliveries of subscriptions into orders. Paths
  below are relative to \<open>src/src/\<close> unless they start with \<open>src/\<close>.

  \<^bold>\<open>The program.\<close> Every request runs in one unit of work (\<open>get_db\<close> in \<open>api/core/database.py\<close>):
  a router resolves the caller, a service reads and writes rows through an \<open>AsyncSession\<close> and
  raises domain exceptions, and the session commits when the handler returns and rolls back when
  it raises. \<open>api/exception_handlers.py\<close> turns exceptions into responses. Services call each
  other: orders allocate pickup codes at points, payments move orders, ratings ask orders whether
  the product was bought, the catalog shows ratings, subscriptions charge through the billing of
  payments, and the scheduler builds orders from deliveries. Outside the program are the payment
  provider, the identity provider (\<open>crew_auth\<close>) and the database.

  \<^bold>\<open>How it is modelled.\<close> A service method is a computation of type \<open>'a session\<close>: it takes a
  \<open>world\<close> and returns either an exception or a result, with the new world. The world holds the
  database, the clock of the transaction, the streams from which identifiers and random numbers
  are drawn, and the logs of provider calls and of audit records. The database is a record of
  tables; a table is the list of its rows in insertion order, a row a record with the columns of
  the mapped class. INSERT and UPDATE check column types (\<open>DataError\<close>) and constraints, unique
  keys and references (\<open>IntegrityError\<close>); DELETE checks RESTRICT references and cascades. The
  exceptions of all domains and of the framework are one datatype \<open>exn\<close>. Money is an integer
  number of cents, a time a number of microseconds since 1970, a date a record with Python's
  arithmetic.

  \<^bold>\<open>The theories, in the order of their imports.\<close>
  \<^item> \<open>Prelude\<close>: the state-and-exception computations, their evaluation rules (\<open>svc_simps\<close>,
    \<open>svc_elims\<close>), the locale \<open>evolution\<close> that lifts a reflexive and transitive relation from the
    steps of a computation to its runs, rows and tables. \<open>Calendar\<close>: dates, weeks and months.
    \<open>PyText\<close>: \<open>strip\<close>, \<open>lower\<close>, \<open>title\<close>, \<open>split\<close>, \<open>uuid.UUID\<close>.
  \<^item> \<open>Errors\<close>: the \<open>exceptions.py\<close> of every domain and the error responses. \<open>Schema\<close>, \<open>Database\<close>:
    the \<open>models.py\<close> and \<open>enums.py\<close> of every domain, tables, constraints, the unit of work; the
    locale \<open>keyed_relation\<close> with its interpretation on each table. \<open>ServiceAuth\<close>: settings, the
    admin credential and the audit records, with the locale \<open>service_gate\<close> and its three
    interpretations.
  \<^item> \<open>Points\<close> (\<open>points/\<close>), \<open>Lifecycle\<close> (the status machines of orders and payments as
    interpretations of the locale \<open>lifecycle\<close>), \<open>Orders\<close> (\<open>orders/\<close>) with \<open>OrderProperties\<close>.
  \<^item> \<open>Payments\<close> (\<open>payments/service.py\<close>, \<open>provider.py\<close>; the provider's contract is the locale
    \<open>provider_contract\<close>, interpreted on the active \<open>FakeProvider\<close>), \<open>PaymentMethods\<close>
    (\<open>payments/method_service.py\<close>) with \<open>PaymentProperties\<close>.
  \<^item> \<open>Ratings\<close> (\<open>ratings/\<close>) with \<open>RatingProperties\<close>.
  \<^item> \<open>Subscriptions\<close> (\<open>subscriptions/service.py\<close>, \<open>frequency.py\<close>, \<open>payments/billing.py\<close>),
    \<open>Scheduler\<close> (\<open>subscriptions/scheduler.py\<close>), their invariants (\<open>SubscriptionInvariant\<close>,
    \<open>SchedulerInvariant\<close>) and properties (\<open>SubscriptionProperties\<close>, \<open>SubscriptionWitnesses\<close>, and
    \<open>SchedulerProperties\<close> for what the passes of the daily run leave behind, row by row).
  \<^item> \<open>Users\<close> (\<open>users/\<close>), \<open>Jwks\<close> (\<open>auth/jwks.py\<close>, \<open>auth/crew_auth.py\<close>), \<open>Auth\<close>
    (\<open>auth/dependencies.py\<close>, \<open>auth/service.py\<close>, \<open>api/v1/routers/auth.py\<close>) with \<open>AuthInvariant\<close>,
    \<open>AuthProperties\<close> and \<open>JwksProperties\<close>.
  \<^item> \<open>Catalog\<close> (\<open>catalog/schemas/\<close>, \<open>catalog/repositories/product_repository.py\<close>,
    \<open>catalog/services/product_service.py\<close>, \<open>api/v1/routers/catalog.py\<close>), \<open>Facets\<close>
    (\<open>catalog/repositories/facets_repository.py\<close>, \<open>catalog/services/facets_service.py\<close>),
    \<open>CatalogAdmin\<close> (\<open>catalog/admin/\<close>) with \<open>CatalogInvariant\<close>, \<open>CatalogReads\<close>, \<open>CatalogWrites\<close>,
    \<open>FlavorFacet\<close>, \<open>CatalogProperties\<close>, \<open>CatalogWriteProperties\<close>, \<open>CatalogDeletion\<close> and
    \<open>CatalogWitnesses\<close>.
  \<^item> \<open>ShopSystem\<close>, \<open>BackEnd\<close>, \<open>SystemProperties\<close>: the writing requests of the business, the
    accounts and the catalog, and the scheduler, as one step relation, and what holds in every
    reachable state.
  \<^item> \<open>Routes\<close>: the remaining routers of \<open>api/v1/routers/\<close>, and \<open>serve\<close>, an HTTP request with its
    credential as the routers handle it. \<open>Isolation\<close>: the rows of a user, and that the requests of
    one user leave those of the others alone. \<open>RoutesProperties\<close>: authorisation, isolation and the
    refinement of the step relation by the running service.
  \<^item> \<open>Ddl\<close>: database schemas, the operations of Alembic on them and the naming convention of
    \<open>api/core/database.py\<close>. \<open>Metadata\<close>: the tables that the \<open>models.py\<close> declare. \<open>Migrations\<close>: the
    revisions of \<open>src/alembic/versions/\<close>, operation by operation. \<open>MigrationProperties\<close>: they agree.
  \<^item> \<open>Sample\<close>, \<open>SubscriptionSample\<close>: the small shops on which the witnesses run.

  A definition carries the name of the function, method or class it translates, in the theory of
  its module; where a name is taken in Isabelle it is prefixed (\<open>repo_\<close> for a query of a
  repository, \<open>admin_\<close> for the administration) or the component is named in it.

  \<^bold>\<open>What is shown.\<close> For each component an invariant, that each of its operations keeps it, and
  what each operation does on every branch, its errors included. In particular: created orders,
  charges, refunds, status updates and cancellations (\<open>OrderProperties\<close>, \<open>PaymentProperties\<close>);
  exact rating aggregates (\<open>RatingProperties\<close>); schedules, upfront and off-session charges,
  pausing and cancellation (\<open>SubscriptionProperties\<close>), the rows of the daily run
  (\<open>SchedulerProperties\<close>); one account per identity, no
  access after deletion, bounded key requests under any sequence of tokens (\<open>AuthProperties\<close>,
  \<open>JwksProperties\<close>); the catalog stays typed, reads only fail on it where a parameter does not
  fit the type it is sent as, what is written is what is shown, the counts of facets are those of the listings they lead to, the search is a plain
  substring search, and the loops of the flavour facet compute their reference. The system
  theorems combine them: in every reachable state all invariants hold, statuses only follow their
  machines, an order is charged at most once. The migrations build the schema that the mapped classes declare,
  and all downgrades but the latest take back their upgrades. Some theorems show where the code does not do what
  it means to do; the manifest lists these findings.

  \<^bold>\<open>Conventions and bounds.\<close> Nothing here needs fuel: every loop of the code is structural or
  has a measure (the ten attempts of the pickup code, the pattern of a search, the dates of a
  horizon). A query without an order returns the rows in insertion order; no property depends on
  that choice unless its code does. Text is Latin-1, so \<open>lower\<close> and \<open>title\<close> are those of Latin-1,
  except that the two letters whose upper case lies outside of it keep their case.
  The database's \<open>lower\<close> and its collation are parameters (\<open>db_lower\<close>, \<open>collate\<close>). Column widths and
  numeric ranges are checked as PostgreSQL does, and so are the query parameters of the listing, the
  search and the order history: bounds take the scale and the range of the column they are compared
  with (\<open>numeric_bind\<close>, \<open>bindable\<close>), texts hold no NUL, pages are 64-bit (\<open>page_bindable\<close>). The
  texts of request bodies are taken to hold no NUL, and decimals to have at most 16383 digits. JWT verification, the parser of a key set, the HTTP
  transport, the validation of JSON bodies and the zone database are parameters; the hypotheses
  on them state documented behaviour.

  \<^bold>\<open>Not modelled.\<close> Transactions of concurrent requests: a step of the system is a whole request,
  so races between two of them (the reason for the code's unique constraints) are out of scope.
  Configuration loading, logging, CORS and the start of the application are glue around
  frameworks (\<open>src/alembic/env.py\<close> among it). The effect of DDL on rows is left out, except for the
  one UPDATE among the migrations. The seed script fills a development database. Health probes have no state.
\<close>

end
